(* ===== verification/Prelude.thy ===== *)
theory Prelude
  imports Main "HOL-Library.Sublist"
begin

text \<open>
  Shared vocabulary of the development: tables as lists of rows with the lookups and updates the
  queries of the application use, strings and decimal formatting, JSON values, calendar days, and
  the interfaces (locales) that several components share: a keyed table, an append-only journal
  and a record protected by an expected version.
\<close>

named_theorems table_simps "lookups in tables after an update or an insertion"
named_theorems frame_simps "what an operation leaves unchanged"

section \<open>Results\<close>

text \<open>An operation that may raise returns \<open>Inl\<close> of what it raised.\<close>

fun then_do :: "'e + 'a \<Rightarrow> ('a \<Rightarrow> 'e + 'b) \<Rightarrow> 'e + 'b" where
  "then_do (Inl e) f = Inl e"
| "then_do (Inr x) f = f x"

definition ensure :: "bool \<Rightarrow> 'e \<Rightarrow> 'e + unit" where
  "ensure b e = (if b then Inr () else Inl e)"

text \<open>Catching an exception and raising another.\<close>

definition map_failure :: "('e \<Rightarrow> 'f) \<Rightarrow> 'e + 'a \<Rightarrow> 'f + 'a" where
  "map_failure g m = (case m of Inl x \<Rightarrow> Inl (g x) | Inr y \<Rightarrow> Inr y)"

lemma map_failure_Inr [simp]: "map_failure g m = Inr y \<longleftrightarrow> m = Inr y"
  by (cases m) (auto simp: map_failure_def)

lemma then_do_Inr_iff: "then_do m f = Inr y \<longleftrightarrow> (\<exists>x. m = Inr x \<and> f x = Inr y)"
  by (cases m) auto

lemma then_do_Inl_iff: "then_do m f = Inl e \<longleftrightarrow> m = Inl e \<or> (\<exists>x. m = Inr x \<and> f x = Inl e)"
  by (cases m) auto

lemma then_do_InrE:
  assumes "then_do m f = Inr y"
  obtains x where "m = Inr x" and "f x = Inr y"
  using assms by (auto simp: then_do_Inr_iff)

lemma ensure_Inr_iff [simp]: "ensure b e = Inr u \<longleftrightarrow> b"
  by (simp add: ensure_def)

lemma ensure_Inl_iff [simp]: "ensure b e = Inl e' \<longleftrightarrow> \<not> b \<and> e' = e"
  by (auto simp: ensure_def)

lemma ensure_True [simp]: "ensure True e = Inr ()"
  by (simp add: ensure_def)

lemma ensure_False [simp]: "ensure False e = Inl e"
  by (simp add: ensure_def)

lemma if_Inl_Inr_iff: "(if b then Inl e else m) = Inr y \<longleftrightarrow> \<not> b \<and> m = Inr y"
  by simp

section \<open>Tables\<close>

text \<open>
  A table is the list of its rows. \<open>row_at\<close> is a query by primary key (\<open>db.get\<close> or a
  \<open>select\<close> on the key), \<open>upd_row\<close> writes back the row with a key.
\<close>

definition row_at :: "('r \<Rightarrow> 'k) \<Rightarrow> 'k \<Rightarrow> 'r list \<Rightarrow> 'r option" where
  "row_at key k rows = List.find (\<lambda>r. key r = k) rows"

definition row_at_opt :: "('r \<Rightarrow> 'k) \<Rightarrow> 'k option \<Rightarrow> 'r list \<Rightarrow> 'r option" where
  "row_at_opt key k rows = (case k of None \<Rightarrow> None | Some k' \<Rightarrow> row_at key k' rows)"

definition upd_row :: "('r \<Rightarrow> 'k) \<Rightarrow> 'k \<Rightarrow> ('r \<Rightarrow> 'r) \<Rightarrow> 'r list \<Rightarrow> 'r list" where
  "upd_row key k f rows = map (\<lambda>r. if key r = k then f r else r) rows"

definition unique_key :: "('r \<Rightarrow> 'k) \<Rightarrow> 'r list \<Rightarrow> bool" where
  "unique_key key rows \<longleftrightarrow> distinct (map key rows)"

lemma row_at_Nil [simp]: "row_at key k [] = None"
  by (simp add: row_at_def)

lemma row_at_Cons [simp]:
  "row_at key k (r # rows) = (if key r = k then Some r else row_at key k rows)"
  by (simp add: row_at_def)

lemma row_at_SomeD: "row_at key k rows = Some r \<Longrightarrow> r \<in> set rows \<and> key r = k"
  by (induction rows) (auto split: if_splits)

lemma row_at_None_iff: "row_at key k rows = None \<longleftrightarrow> k \<notin> key ` set rows"
  by (induction rows) auto

lemma row_at_unique:
  "unique_key key rows \<Longrightarrow> r \<in> set rows \<Longrightarrow> row_at key (key r) rows = Some r"
  by (induction rows) (auto simp: unique_key_def)

lemma row_at_append [table_simps]:
  "row_at key k (xs @ ys) = (case row_at key k xs of None \<Rightarrow> row_at key k ys | Some r \<Rightarrow> Some r)"
  by (induction xs) auto

lemma row_at_append_Some: "row_at key k xs = Some r \<Longrightarrow> row_at key k (xs @ ys) = Some r"
  by (simp add: row_at_append)

lemma row_at_upd_same [table_simps]:
  assumes "\<And>r. key r = k \<Longrightarrow> key (f r) = k"
  shows "row_at key k (upd_row key k f rows) = map_option f (row_at key k rows)"
  using assms by (induction rows) (auto simp: upd_row_def)

lemma row_at_upd_other [table_simps]:
  assumes "\<And>r. key r = k \<Longrightarrow> key (f r) = k" and "k' \<noteq> k"
  shows "row_at key k' (upd_row key k f rows) = row_at key k' rows"
  using assms by (induction rows) (auto simp: upd_row_def)

lemma keys_upd_row:
  assumes "\<And>r. key r = k \<Longrightarrow> key (f r) = k"
  shows "map key (upd_row key k f rows) = map key rows"
  using assms by (auto simp: upd_row_def)

lemma unique_key_upd_row:
  assumes "\<And>r. key r = k \<Longrightarrow> key (f r) = k"
  shows "unique_key key (upd_row key k f rows) = unique_key key rows"
  using keys_upd_row [of key k f rows] assms by (simp add: unique_key_def)

lemma unique_key_append:
  "unique_key key (rows @ [r]) \<longleftrightarrow> unique_key key rows \<and> key r \<notin> key ` set rows"
  by (auto simp: unique_key_def)

lemma set_upd_row:
  "set (upd_row key k f rows) = {r \<in> set rows. key r \<noteq> k} \<union> f ` {r \<in> set rows. key r = k}"
  by (auto simp: upd_row_def)

lemma set_upd_rowD:
  "r \<in> set (upd_row key k f rows) \<Longrightarrow> r \<in> set rows \<or> (\<exists>r0 \<in> set rows. key r0 = k \<and> r = f r0)"
  by (auto simp: upd_row_def)

lemma row_at_opt_None [simp]: "row_at_opt key None rows = None"
  by (simp add: row_at_opt_def)

lemma row_at_opt_Some [simp]: "row_at_opt key (Some k) rows = row_at key k rows"
  by (simp add: row_at_opt_def)

lemma find_SomeD: "List.find P xs = Some x \<Longrightarrow> x \<in> set xs \<and> P x"
  by (induction xs) (auto split: if_splits)

lemma find_appended: "\<forall>x \<in> set xs. \<not> P x \<Longrightarrow> P y \<Longrightarrow> List.find P (xs @ [y]) = Some y"
  by (induction xs) auto

lemma row_at_map:
  assumes "\<And>r. key (g r) = key r"
  shows "row_at key k (map g rows) = map_option g (row_at key k rows)"
  using assms by (induction rows) auto

text \<open>Pages of a result: \<open>offset((page - 1) * size).limit(size)\<close>.\<close>

definition page_of :: "nat \<Rightarrow> nat \<Rightarrow> 'a list \<Rightarrow> 'a list" where
  "page_of pg sz rows = take sz (drop ((pg - 1) * sz) rows)"

section \<open>The interface of a table inside a database\<close>

text \<open>
  \<open>rows\<close> reads one table of the database, \<open>put\<close> replaces it and \<open>key\<close> is its
  primary key. The lemmas are what every component uses after an update of one row or an insert.
\<close>

locale keyed_table =
  fixes rows :: "'d \<Rightarrow> 'r list"
    and put :: "('r list \<Rightarrow> 'r list) \<Rightarrow> 'd \<Rightarrow> 'd"
    and key :: "'r \<Rightarrow> 'k"
  assumes rows_put: "rows (put f d) = f (rows d)"
    and put_put: "put g (put f d) = put (g \<circ> f) d"
begin

lemma lookup_modified:
  assumes "\<And>r. key r = k \<Longrightarrow> key (f r) = k"
  shows "row_at key k (rows (put (upd_row key k f) d)) = map_option f (row_at key k (rows d))"
  using assms by (simp add: rows_put row_at_upd_same)

lemma lookup_untouched:
  assumes "\<And>r. key r = k \<Longrightarrow> key (f r) = k" and "k' \<noteq> k"
  shows "row_at key k' (rows (put (upd_row key k f) d)) = row_at key k' (rows d)"
  using assms by (simp add: rows_put row_at_upd_other)

lemma lookup_inserted:
  assumes "key r \<notin> key ` set (rows d)"
  shows "row_at key (key r) (rows (put (\<lambda>rs. rs @ [r]) d)) = Some r"
  using assms row_at_None_iff [of key "key r" "rows d"]
  by (simp add: rows_put row_at_append)

lemma lookup_kept:
  assumes "row_at key k (rows d) = Some r"
  shows "row_at key k (rows (put (\<lambda>rs. rs @ [r']) d)) = Some r"
  using assms by (simp add: rows_put row_at_append)

lemma unique_modified:
  assumes "\<And>r. key r = k \<Longrightarrow> key (f r) = k"
  shows "unique_key key (rows (put (upd_row key k f) d)) = unique_key key (rows d)"
  using assms by (simp add: rows_put unique_key_upd_row)

lemma unique_inserted:
  assumes "unique_key key (rows d)" and "key r \<notin> key ` set (rows d)"
  shows "unique_key key (rows (put (\<lambda>rs. rs @ [r]) d))"
  using assms by (simp add: rows_put unique_key_append)

end

section \<open>The interface of an append-only journal\<close>

locale journal =
  fixes log :: "'d \<Rightarrow> 'e list"
    and step :: "'d \<Rightarrow> 'd \<Rightarrow> bool"
  assumes step_appends: "step d d' \<Longrightarrow> prefix (log d) (log d')"
begin

lemma run_appends: "step\<^sup>*\<^sup>* d d' \<Longrightarrow> prefix (log d) (log d')"
proof (induction rule: rtranclp_induct)
  case base
  show ?case by simp
next
  case (step y z)
  from step_appends [OF step.hyps(2)] step.IH show ?case
    by (meson prefix_order.order_trans)
qed

lemma entry_kept:
  assumes "step\<^sup>*\<^sup>* d d'" and "i < length (log d)"
  shows "i < length (log d') \<and> log d' ! i = log d ! i"
proof -
  from run_appends [OF assms(1)] obtain zs where "log d' = log d @ zs"
    by (auto simp: prefix_def)
  with assms(2) show ?thesis by (simp add: nth_append)
qed

lemma member_kept: "step\<^sup>*\<^sup>* d d' \<Longrightarrow> e \<in> set (log d) \<Longrightarrow> e \<in> set (log d')"
  using run_appends set_mono_prefix by fastforce

end

section \<open>The interface of an optimistic update\<close>

text \<open>
  Several handlers change a record only when the request names its current version and then
  advance the version. Whatever else runs in between, two requests that name the same version
  cannot both succeed.
\<close>

locale versioned_update =
  fixes version :: "'d \<Rightarrow> int"
    and update :: "'a \<Rightarrow> int \<Rightarrow> 'd \<Rightarrow> 'e + 'd"
  assumes update_expects: "update a v d = Inr d' \<Longrightarrow> version d = v"
    and update_advances: "update a v d = Inr d' \<Longrightarrow> version d' = v + 1"
begin

lemma second_fails:
  assumes "update a v d = Inr d'" and "v + 1 \<le> version d''"
  shows "\<exists>e. update b v d'' = Inl e"
proof (cases "update b v d''")
  case (Inr d3)
  then have "version d'' = v" by (rule update_expects)
  with assms(2) show ?thesis by simp
qed blast

lemma stale_fails: "version d \<noteq> v \<Longrightarrow> \<exists>e. update a v d = Inl e"
  using update_expects by (cases "update a v d") fastforce+

lemma immediate_repeat_fails: "update a v d = Inr d' \<Longrightarrow> \<exists>e. update b v d' = Inl e"
  using second_fails update_advances by fastforce

end

section \<open>Strings\<close>

text \<open>Python's \<open>str\<close> methods on the characters the code compares (ASCII).\<close>

definition is_blank :: "char \<Rightarrow> bool" where
  "is_blank c \<longleftrightarrow> (let n = (of_char c :: nat) in 9 \<le> n \<and> n \<le> 13 \<or> 28 \<le> n \<and> n \<le> 32)"

definition str_strip :: "string \<Rightarrow> string" where
  "str_strip s = rev (dropWhile is_blank (rev (dropWhile is_blank s)))"

lemma dropWhile_idem: "dropWhile P (dropWhile P xs) = dropWhile P xs"
  by (induction xs) auto

lemma hd_dropWhile_rev: "dropWhile P xs = xs \<Longrightarrow> dropWhile P (rev (dropWhile P (rev xs))) = rev (dropWhile P (rev xs))"
proof (cases xs)
  case (Cons x ys)
  assume "dropWhile P xs = xs"
  then have x: "\<not> P x"
  proof -
    have "\<not> P x \<or> length (dropWhile P ys) = length xs" using \<open>dropWhile P xs = xs\<close> Cons by auto
    moreover have "length (dropWhile P ys) \<le> length ys" by (rule length_dropWhile_le)
    ultimately show ?thesis using Cons by auto
  qed
  have "dropWhile P (rev xs) = dropWhile P (rev ys) @ [x] \<or> dropWhile P (rev xs) = [x]"
    using x Cons by (cases "\<forall>y \<in> set ys. P y") (auto simp: dropWhile_append)
  with x show ?thesis by auto
qed simp

lemma str_strip_idem [simp]: "str_strip (str_strip s) = str_strip s"
proof -
  let ?d = "dropWhile is_blank s"
  have 1: "dropWhile is_blank (str_strip s) = str_strip s"
    unfolding str_strip_def by (rule hd_dropWhile_rev) (rule dropWhile_idem)
  show ?thesis by (subst str_strip_def, subst 1) (simp add: str_strip_def dropWhile_idem)
qed

lemma str_strip_length: "length (str_strip s) \<le> length s"
  unfolding str_strip_def by (simp add: le_trans [OF length_dropWhile_le])

definition upper_char :: "char \<Rightarrow> char" where
  "upper_char c = (let n = (of_char c :: nat) in if 97 \<le> n \<and> n \<le> 122 then char_of (n - 32) else c)"

definition lower_char :: "char \<Rightarrow> char" where
  "lower_char c = (let n = (of_char c :: nat) in if 65 \<le> n \<and> n \<le> 90 then char_of (n + 32) else c)"

definition str_upper :: "string \<Rightarrow> string" where
  "str_upper = map upper_char"

definition str_lower :: "string \<Rightarrow> string" where
  "str_lower = map lower_char"

definition starts_with :: "string \<Rightarrow> string \<Rightarrow> bool" where
  "starts_with s p \<longleftrightarrow> take (length p) s = p"

definition ends_with :: "string \<Rightarrow> string \<Rightarrow> bool" where
  "ends_with s p \<longleftrightarrow> starts_with (rev s) (rev p)"

fun contains :: "string \<Rightarrow> string \<Rightarrow> bool" where
  "contains [] p \<longleftrightarrow> p = []"
| "contains (c # s) p \<longleftrightarrow> starts_with (c # s) p \<or> contains s p"

definition truthy :: "string option \<Rightarrow> bool" where
  "truthy s \<longleftrightarrow> s \<noteq> None \<and> s \<noteq> Some []"

lemma truthy_simps [simp]: "\<not> truthy None" "truthy (Some s) \<longleftrightarrow> s \<noteq> []"
  by (auto simp: truthy_def)

definition or_text :: "string option \<Rightarrow> string \<Rightarrow> string" where
  "or_text s d = (if truthy s then the s else d)"

fun dec_nat :: "nat \<Rightarrow> string" where
  "dec_nat n = (if n < 10 then [char_of (48 + n)] else dec_nat (n div 10) @ [char_of (48 + n mod 10)])"

declare dec_nat.simps [simp del]

definition dec :: "int \<Rightarrow> string" where
  "dec i = (if i < 0 then ''-'' @ dec_nat (nat (- i)) else dec_nat (nat i))"

definition zero_pad :: "nat \<Rightarrow> int \<Rightarrow> string" where
  "zero_pad w i = replicate (w - length (dec i)) (CHR ''0'') @ dec i"

fun join_with :: "string \<Rightarrow> string list \<Rightarrow> string" where
  "join_with sep [] = []"
| "join_with sep [s] = s"
| "join_with sep (s # t # ss) = s @ sep @ join_with sep (t # ss)"

section \<open>JSON values\<close>

text \<open>
  Stored details, manifests and the data hashed into tokens. Dates and times, which the code
  writes as ISO strings, are kept as the day or instant they denote.
\<close>

datatype json =
    JNull | JBool bool | JInt int | JStr string | JDate int | JTime int
  | JArr "json list" | JObj "(string \<times> json) list"

definition jget :: "string \<Rightarrow> json \<Rightarrow> json option" where
  "jget k j = (case j of JObj kvs \<Rightarrow> map_of kvs k | _ \<Rightarrow> None)"

text \<open>Assigning a key of a dict that keeps its insertion order.\<close>

fun set_key :: "string \<Rightarrow> 'a \<Rightarrow> (string \<times> 'a) list \<Rightarrow> (string \<times> 'a) list" where
  "set_key k v [] = [(k, v)]"
| "set_key k v ((k', v') # kvs) = (if k = k' then (k, v) # kvs else (k', v') # set_key k v kvs)"

lemma map_of_set_key [simp]: "map_of (set_key k v kvs) x = (if x = k then Some v else map_of kvs x)"
  by (induction kvs) auto

definition jopt :: "('a \<Rightarrow> json) \<Rightarrow> 'a option \<Rightarrow> json" where
  "jopt f x = (case x of None \<Rightarrow> JNull | Some y \<Rightarrow> f y)"

fun json_int :: "json \<Rightarrow> int option" where
  "json_int (JInt i) = Some i"
| "json_int _ = None"

fun json_str :: "json \<Rightarrow> string option" where
  "json_str (JStr s) = Some s"
| "json_str _ = None"

fun json_arr :: "json \<Rightarrow> json list option" where
  "json_arr (JArr xs) = Some xs"
| "json_arr _ = None"

lemma json_int_Some [simp]: "json_int j = Some i \<longleftrightarrow> j = JInt i"
  by (cases j) auto

lemma json_str_Some [simp]: "json_str j = Some s \<longleftrightarrow> j = JStr s"
  by (cases j) auto

lemma json_arr_Some [simp]: "json_arr j = Some xs \<longleftrightarrow> j = JArr xs"
  by (cases j) auto

section \<open>Days\<close>

text \<open>
  A date is its proleptic Gregorian ordinal (\<open>date.toordinal()\<close>), an instant the number of
  microseconds since 1970 in UTC. \<open>year_of\<close> is the year of an ordinal as
  \<open>date.fromordinal\<close> computes it.
\<close>

type_synonym date = int
type_synonym datetime = int

definition utc_date :: "datetime \<Rightarrow> date" where
  "utc_date t = t div 86400000000 + 719163"

definition weekday :: "date \<Rightarrow> int" where
  "weekday d = (d + 6) mod 7"

definition year_of :: "date \<Rightarrow> int" where
  "year_of d =
     (let n = d - 1;
          n400 = n div 146097; r400 = n mod 146097;
          n100 = r400 div 36524; r100 = r400 mod 36524;
          n4 = r100 div 1461; r4 = r100 mod 1461;
          n1 = r4 div 365;
          y = n400 * 400 + 1 + n100 * 100 + n4 * 4 + n1
      in if n1 = 4 \<or> n100 = 4 then y - 1 else y)"

lemma weekday_range: "0 \<le> weekday d \<and> weekday d < 7"
  by (simp add: weekday_def)

lemma year_of_examples:
  "year_of 1 = 1" "year_of 719163 = 1970" "year_of 739617 = 2026" "year_of 739616 = 2025"
  by (simp_all add: year_of_def)

end
