(* ===== verification/Models.thy ===== *)
theory Models
  imports Prelude
begin

text \<open>
  The data model (\<open>backend/app/models/\<close>): one record per table row with the columns the
  application reads or writes, the enumerations, the database as a record of tables, the settings
  (\<open>config.py\<close>) and the environment of a request (clock, storage, hashing, key allocation).
  A nullable column has an option type; ids are integers as in the schema.
\<close>

section \<open>Courts (models/court.py)\<close>

datatype court_type = Circuit | District | ProbateCourt | CourtOfClaims | CourtOfAppeals
  | SupremeCourt | Municipal

record court =
  ct_id :: int
  ct_name :: string
  ct_county :: string
  ct_type :: court_type
  ct_efiling_enabled :: bool
  ct_intake_version :: int
  ct_intake_notice :: "string option"

record case_type =
  ty_id :: int
  ty_court :: int
  ty_code :: string
  ty_name :: string
  ty_fee_cents :: int
  ty_active :: bool

record requirement =
  rq_id :: int
  rq_court :: int
  rq_case_type :: "int option"
  rq_code :: string
  rq_required :: bool
  rq_description :: string
  rq_mcr :: "string option"

section \<open>Users (models/user.py)\<close>

datatype user_type = Attorney | ClerkUser | JudgeUser | SelfRepresented | PublicUser | AdminUser

datatype court_role = FilerRole | ClerkRole | JudgeRole | AdminRole

record user =
  us_id :: int
  us_email :: string
  us_verified_email :: "string option"
  us_first_name :: string
  us_last_name :: string
  us_bar_number :: "string option"
  us_bar_verified :: bool
  us_type :: user_type
  us_keycloak :: "string option"
  us_active :: bool
  us_admin_version :: int

definition full_name :: "user \<Rightarrow> string" where
  "full_name u = us_first_name u @ '' '' @ us_last_name u"

record user_court_role =
  ur_id :: int
  ur_user :: int
  ur_court :: int
  ur_role :: court_role

section \<open>Cases (models/case.py)\<close>

datatype case_status = CaseOpen | CaseClosed | CaseDismissed | CasePending

datatype participant_role = Plaintiff | Defendant | Petitioner | Respondent | AttorneyPlaintiff
  | AttorneyDefendant | AttorneyRole | Guardian | Intervenor

definition counsel_roles :: "participant_role list" where
  "counsel_roles = [AttorneyRole, AttorneyPlaintiff, AttorneyDefendant]"

record case_row =
  cs_id :: int
  cs_court :: int
  cs_number :: string
  cs_case_type :: int
  cs_title :: string
  cs_sealed :: bool
  cs_status :: case_status
  cs_filed_date :: datetime
  cs_filing_date :: "date option"
  cs_filing_date_version :: int
  cs_participant_version :: int

record participant =
  pt_id :: int
  pt_case :: int
  pt_user :: "int option"
  pt_role :: participant_role
  pt_name :: string
  pt_bar_number :: "string option"
  pt_represents :: "string option"
  pt_active :: bool
  pt_access :: bool
  pt_reviewed_at :: "datetime option"

section \<open>Filings and documents (models/filing.py)\<close>

definition private_document_types :: "string list" where
  "private_document_types = [''FEE_WAIVER'', ''FEE_WAIVER_ORDER'']"

definition court_document_types :: "string list" where
  "court_document_types = [''FEE_WAIVER_ORDER'', ''FILING_DATE_ORDER'']"

datatype filing_status = Draft | Submitted | UnderReview | Accepted | Rejected | Returned | Served

fun status_value :: "filing_status \<Rightarrow> string" where
  "status_value Draft = ''draft''"
| "status_value Submitted = ''submitted''"
| "status_value UnderReview = ''under_review''"
| "status_value Accepted = ''accepted''"
| "status_value Rejected = ''rejected''"
| "status_value Returned = ''returned''"
| "status_value Served = ''served''"

record envelope =
  fe_id :: int
  fe_court :: int
  fe_case :: "int option"
  fe_case_type :: int
  fe_filer :: int
  fe_creation_key :: "string option"
  fe_creation_sha256 :: "string option"
  fe_type :: string
  fe_status :: filing_status
  fe_title :: "string option"
  fe_description :: "string option"
  fe_filed_at :: "datetime option"
  fe_submitted_at :: "datetime option"
  fe_reviewed_at :: "datetime option"
  fe_reviewer :: "int option"
  fe_rejection_reason :: "string option"
  fe_payment :: "int option"
  fe_payment_version :: int
  fe_waiver_requested :: bool
  fe_waiver_granted :: "bool option"
  fe_waiver_reason :: "string option"
  fe_waiver_referred_at :: "datetime option"
  fe_waiver_decided_at :: "datetime option"
  fe_waiver_due_cents :: "int option"
  fe_cms_case_number :: "string option"
  fe_cms_filing_id :: "string option"
  fe_cms_error :: "string option"
  fe_created_at :: datetime
  fe_updated_at :: datetime
  fe_submission_count :: int
  fe_filing_date :: "date option"
  fe_filing_date_basis :: "json option"
  fe_filing_date_version :: int
  fe_fee_version :: int
  fe_fee_review_at :: "datetime option"
  fe_fee_assessment :: "string option"

record document =
  dc_id :: int
  dc_envelope :: int
  dc_type :: string
  dc_title :: string
  dc_file_key :: string
  dc_size :: int
  dc_mime :: string
  dc_pages :: "int option"
  dc_sha256 :: string
  dc_confidential :: bool
  dc_searchable :: bool
  dc_pii :: "string list option"
  dc_retained_at :: "datetime option"
  dc_removed_at :: "datetime option"
  dc_access_version :: int
  dc_public_copy :: "int option"
  dc_uploaded_at :: datetime

record upload_request =
  up_envelope :: int
  up_key :: string
  up_fingerprint :: string
  up_document :: "int option"

record public_copy =
  pc_id :: int
  pc_document :: int
  pc_created_by :: int
  pc_title :: string
  pc_file_key :: string
  pc_size :: int
  pc_mime :: string
  pc_pages :: "int option"
  pc_sha256 :: string
  pc_searchable :: bool
  pc_pii :: "string list"
  pc_created_at :: datetime

section \<open>Receipts, payments, calendars\<close>

record txn =
  tx_id :: string
  tx_filing :: int
  tx_submission :: int
  tx_event :: string
  tx_actor :: int
  tx_actor_name :: string
  tx_occurred_at :: datetime
  tx_details :: json
  tx_key :: "string option"

datatype payment_status = PayPending | PayCompleted | PayFailed | PayRefunded | PayWaived | PayReversed

datatype payment_method = CreditCard | DebitCard | Ach | WaiverMethod

fun payment_status_value :: "payment_status \<Rightarrow> string" where
  "payment_status_value PayPending = ''pending''"
| "payment_status_value PayCompleted = ''completed''"
| "payment_status_value PayFailed = ''failed''"
| "payment_status_value PayRefunded = ''refunded''"
| "payment_status_value PayWaived = ''waived''"
| "payment_status_value PayReversed = ''reversed''"

record payment =
  py_id :: int
  py_envelope :: "int option"
  py_fee_basis :: "json option"
  py_request_key :: "string option"
  py_receipt_key :: "string option"
  py_receipt :: "json option"
  py_simulated :: bool
  py_amount :: int
  py_status :: payment_status
  py_method :: "payment_method option"
  py_ref :: "string option"
  py_payer :: "int option"
  py_description :: "string option"
  py_processed_at :: "datetime option"

record calendar =
  ca_id :: int
  ca_court :: int
  ca_timezone :: string
  ca_from :: date
  ca_through :: date
  ca_closed :: "(date \<times> string) list"
  ca_authority :: string
  ca_published_by :: int
  ca_published_at :: datetime

section \<open>Notices, service contacts and deliveries\<close>

datatype notification_type = FilingSubmitted | FilingAccepted | FilingRejected | FilingReturned
  | ServiceOfProcess | CaseUpdate

datatype delivery_status = Disabled | Blocked | Pending | Sending | Sent | Unknown | Legacy
  | Failed | FailureReported

datatype service_method = Electronic | Mail | HandDelivery

record email_message =
  em_from :: string
  em_to :: string
  em_date :: datetime
  em_message_id :: string
  em_link :: string
  em_reference :: int

record notification =
  nt_id :: int
  nt_type :: notification_type
  nt_recipient :: int
  nt_filing :: "int option"
  nt_subject :: string
  nt_body :: string
  nt_status :: delivery_status
  nt_email_recipient :: "string option"
  nt_email_sender :: "string option"
  nt_message_id :: "string option"
  nt_message :: "email_message option"
  nt_attempts :: int
  nt_next_attempt :: "datetime option"
  nt_last_attempt :: "datetime option"
  nt_last_error :: "string option"
  nt_sent_at :: "datetime option"
  nt_created_at :: datetime

record delivery_event =
  de_notification :: int
  de_attempt :: int
  de_outcome :: string
  de_occurred_at :: datetime
  de_detail :: "string option"
  de_smtp_code :: "int option"
  de_actor :: "int option"
  de_message :: "email_message option"

record service_contact =
  sc_id :: int
  sc_case :: int
  sc_user :: "int option"
  sc_name :: string
  sc_email :: "string option"
  sc_method :: service_method
  sc_address :: "string option"
  sc_participant :: "int option"
  sc_snapshot :: "json option"
  sc_active :: bool
  sc_authority :: "string option"
  sc_reviewed_at :: "datetime option"
  sc_reviewer :: "int option"
  sc_version :: int

record packet =
  pk_id :: string
  pk_case :: int
  pk_filing :: int
  pk_source :: string
  pk_actor :: int
  pk_actor_name :: string
  pk_created_at :: datetime
  pk_details :: json
  pk_key :: string
  pk_request_sha256 :: string

record recipient =
  rc_id :: string
  rc_packet :: string
  rc_user :: int
  rc_contact :: int
  rc_contact_version :: int
  rc_snapshot :: json
  rc_notification :: int

record service_event =
  se_id :: int
  se_recipient :: string
  se_action :: string
  se_actor :: int
  se_actor_name :: string
  se_occurred_at :: datetime
  se_details :: json

section \<open>Audit log and storage deletions\<close>

record audit_entry =
  au_user :: "int option"
  au_action :: string
  au_entity :: string
  au_entity_id :: "int option"
  au_details :: "json option"
  au_ip :: "string option"
  au_agent :: "string option"
  au_at :: datetime

record deletion =
  sd_id :: int
  sd_document :: int
  sd_envelope :: int
  sd_file_key :: string
  sd_queued_at :: datetime
  sd_next_attempt :: datetime
  sd_attempts :: int
  sd_last_error :: "string option"

section \<open>The database, the settings and the environment of a request\<close>

record db =
  courts :: "court list"
  case_types :: "case_type list"
  requirements :: "requirement list"
  users :: "user list"
  court_roles :: "user_court_role list"
  cases :: "case_row list"
  participants :: "participant list"
  filings :: "envelope list"
  documents :: "document list"
  uploads :: "upload_request list"
  public_copies :: "public_copy list"
  transactions :: "txn list"
  payments :: "payment list"
  calendars :: "calendar list"
  notifications :: "notification list"
  delivery_events :: "delivery_event list"
  contacts :: "service_contact list"
  packets :: "packet list"
  recipients :: "recipient list"
  service_events :: "service_event list"
  audit :: "audit_entry list"
  deletions :: "deletion list"

definition empty_db :: db where
  "empty_db =
     \<lparr>courts = [], case_types = [], requirements = [], users = [], court_roles = [], cases = [],
      participants = [], filings = [], documents = [], uploads = [], public_copies = [],
      transactions = [], payments = [], calendars = [], notifications = [], delivery_events = [],
      contacts = [], packets = [], recipients = [], service_events = [], audit = [],
      deletions = []\<rparr>"

datatype smtp_tls = StartTls | SslTls | PlainTls

record settings =
  st_debug :: bool
  st_allow_demo :: bool
  st_payments_simulated :: bool
  st_external_payments :: bool
  st_email_enabled :: bool
  st_service_enabled :: bool
  st_portal_base_url :: string
  st_smtp_host :: string
  st_smtp_port :: int
  st_smtp_tls :: smtp_tls
  st_smtp_username :: string
  st_smtp_from :: string
  st_max_file_mb :: int
  st_clamav_enabled :: bool
  st_strict_mime :: "bool option"

text \<open>What \<open>urlsplit\<close> returns of the parts the configuration check reads.\<close>

record url_parts =
  ur_scheme :: string
  ur_hostname :: "string option"
  ur_username :: "string option"
  ur_password :: "string option"
  ur_path :: string
  ur_query :: string
  ur_fragment :: string

text \<open>
  What reading a stored object gives: its digest and size, or the exception
  (\<open>document_service.stored_integrity\<close>): \<open>FileNotFoundError\<close>, another storage error, or
  the \<open>ValueError\<close> of a key outside the storage root.
\<close>

datatype stored_result = Stored string int | FileMissing | StorageDown | BadFileKey

text \<open>
  The verdict of the email address validator: the ASCII form, an address that needs SMTPUTF8
  (no ASCII form), or \<open>EmailNotValidError\<close>.
\<close>

datatype address_check = AsciiAddress string | NeedsSmtpUtf8 | InvalidAddress

text \<open>
  What a request takes from outside the program: the settings, the clock, the time zone database,
  the object store, \<open>sha256(json.dumps(v))\<close>, ISO formatting of instants, the primary key the
  database assigns to a new row given the keys in use, \<open>uuid4\<close>, \<open>urlsplit\<close>, the
  address check of the email validator, the message id made for a mail, and the client's address
  and agent that the audit log records.
\<close>

record env =
  cfg :: settings
  now :: datetime
  zone_date :: "string \<Rightarrow> datetime \<Rightarrow> date"
  stored :: "string \<Rightarrow> stored_result"
  digest :: "json \<Rightarrow> string"
  iso_time :: "datetime \<Rightarrow> string"
  new_key :: "int list \<Rightarrow> int"
  new_uuid :: "string list \<Rightarrow> string"
  split_url :: "string \<Rightarrow> url_parts"
  check_address :: "string \<Rightarrow> address_check"
  make_message_id :: "string \<Rightarrow> datetime \<Rightarrow> int \<Rightarrow> string"
  client_ip :: "string option"
  client_agent :: "string option"

text \<open>
  The documented behaviour the proofs rely on where they name it: an assigned primary key is
  positive and not in use, a fresh uuid is not in use and is not the empty string.
\<close>

definition fresh_keys :: "env \<Rightarrow> bool" where
  "fresh_keys e \<longleftrightarrow> (\<forall>ks. new_key e ks \<notin> set ks \<and> 0 < new_key e ks)
     \<and> (\<forall>us. new_uuid e us \<notin> set us \<and> new_uuid e us \<noteq> [])"

section \<open>Fields of request bodies (schemas/common.py)\<close>

definition max_record_id :: int where
  "max_record_id = 2147483647"

definition valid_record_id :: "int \<Rightarrow> bool" where
  "valid_record_id i \<longleftrightarrow> 1 \<le> i \<and> i \<le> max_record_id"

definition valid_version :: "int \<Rightarrow> bool" where
  "valid_version v \<longleftrightarrow> 0 \<le> v \<and> v \<le> max_record_id"

text \<open>A required text under \<open>str_strip_whitespace\<close> with bounds on its length.\<close>

definition stripped_text :: "nat \<Rightarrow> string \<Rightarrow> string option" where
  "stripped_text n s = (let t = str_strip s in if 1 \<le> length t \<and> length t \<le> n then Some t else None)"

text \<open>An optional text, and one that must not be given as blank.\<close>

definition stripped_opt :: "nat \<Rightarrow> string option \<Rightarrow> string option option" where
  "stripped_opt n s = (case s of None \<Rightarrow> Some None | Some t \<Rightarrow> map_option Some (stripped_text n t))"

section \<open>Table interfaces\<close>

interpretation filing_tbl: keyed_table filings filings_update fe_id
  by unfold_locales (simp_all add: comp_def)

interpretation document_tbl: keyed_table documents documents_update dc_id
  by unfold_locales (simp_all add: comp_def)

interpretation payment_tbl: keyed_table payments payments_update py_id
  by unfold_locales (simp_all add: comp_def)

interpretation case_tbl: keyed_table cases cases_update cs_id
  by unfold_locales (simp_all add: comp_def)

interpretation user_tbl: keyed_table users users_update us_id
  by unfold_locales (simp_all add: comp_def)

interpretation notification_tbl: keyed_table notifications notifications_update nt_id
  by unfold_locales (simp_all add: comp_def)

interpretation contact_tbl: keyed_table contacts contacts_update sc_id
  by unfold_locales (simp_all add: comp_def)

interpretation participant_tbl: keyed_table participants participants_update pt_id
  by unfold_locales (simp_all add: comp_def)

interpretation txn_tbl: keyed_table transactions transactions_update tx_id
  by unfold_locales (simp_all add: comp_def)

section \<open>The tokens of a filing\<close>

text \<open>
  \<open>FilingEnvelope.documents\<close>: the current documents of a filing, without removed ones and
  without the court's own documents, by id.
\<close>

definition current_documents :: "db \<Rightarrow> int \<Rightarrow> document list" where
  "current_documents db fid =
     sort_key dc_id (filter (\<lambda>d. dc_envelope d = fid \<and> dc_removed_at d = None
       \<and> dc_type d \<notin> set court_document_types) (documents db))"

definition details_token :: "env \<Rightarrow> envelope \<Rightarrow> string" where
  "details_token e f = digest e (JArr
     [JInt (fe_id f), JStr (status_value (fe_status f)), JInt (fe_submission_count f),
      jopt JStr (fe_title f), jopt JStr (fe_description f),
      JBool (fe_waiver_requested f), jopt JStr (fe_waiver_reason f)])"

definition document_values :: "document \<Rightarrow> json" where
  "document_values d = JArr
     [JInt (dc_id d), JStr (dc_type d), JStr (dc_title d), JStr (dc_sha256 d),
      JInt (dc_size d), JStr (dc_mime d), jopt JInt (dc_pages d),
      JBool (dc_confidential d), JBool (dc_searchable d)]"

definition submission_values :: "env \<Rightarrow> envelope \<Rightarrow> document list \<Rightarrow> json" where
  "submission_values e f docs = JArr
     [JStr (details_token e f), JInt (fe_court f), jopt JInt (fe_case f), JInt (fe_case_type f),
      JStr (fe_type f), JInt (fe_fee_version f), jopt JInt (fe_payment f),
      JInt (fe_payment_version f), JBool (fe_waiver_requested f),
      jopt JBool (fe_waiver_granted f), jopt JStr (fe_waiver_reason f),
      jopt JInt (fe_waiver_due_cents f),
      JArr (map document_values (sort_key dc_id docs))]"

definition submission_token :: "env \<Rightarrow> envelope \<Rightarrow> document list \<Rightarrow> string" where
  "submission_token e f docs = digest e (submission_values e f docs)"

lemma set_current_documents:
  "set (current_documents db fid) =
     {d \<in> set (documents db). dc_envelope d = fid \<and> dc_removed_at d = None
       \<and> dc_type d \<notin> set court_document_types}"
  by (auto simp: current_documents_def)

text \<open>Two document lists with the same token values agree on what the values record.\<close>

lemma jopt_inj:
  assumes "\<And>x y. f x = f y \<Longrightarrow> x = y" and "\<And>x. f x \<noteq> JNull"
  shows "jopt f a = jopt f b \<longleftrightarrow> a = b"
  using assms by (cases a; cases b) (auto simp: jopt_def, metis)

lemma jopt_eqs [simp]:
  "jopt JStr a = jopt JStr b \<longleftrightarrow> a = b" "jopt JInt i = jopt JInt j \<longleftrightarrow> i = j"
  "jopt JBool p = jopt JBool q \<longleftrightarrow> p = q" "jopt JDate i = jopt JDate j \<longleftrightarrow> i = j"
  by (rule jopt_inj; simp)+

section \<open>Writing a filing row\<close>

text \<open>
  Flushing a changed filing: SQLAlchemy writes the row and sets \<open>updated_at\<close>
  (\<open>onupdate=func.now()\<close>) when a column changed, and nothing otherwise.
\<close>

definition find_filing :: "db \<Rightarrow> int \<Rightarrow> envelope option" where
  "find_filing db fid = row_at fe_id fid (filings db)"

definition save_filing :: "env \<Rightarrow> envelope \<Rightarrow> db \<Rightarrow> db" where
  "save_filing e f db =
     (if find_filing db (fe_id f) = Some f then db
      else filings_update (upd_row fe_id (fe_id f) (\<lambda>_. f\<lparr>fe_updated_at := now e\<rparr>)) db)"

lemma find_filing_updated:
  assumes "\<And>r. fe_id r = k \<Longrightarrow> fe_id (f r) = k"
  shows "find_filing (filings_update (upd_row fe_id k f) db) k = map_option f (find_filing db k)"
  unfolding find_filing_def using assms by (rule filing_tbl.lookup_modified)

lemma find_filing_untouched:
  assumes "\<And>r. fe_id r = k \<Longrightarrow> fe_id (f r) = k" and "k' \<noteq> k"
  shows "find_filing (filings_update (upd_row fe_id k f) db) k' = find_filing db k'"
  unfolding find_filing_def using assms by (rule filing_tbl.lookup_untouched)

lemma find_save_same:
  assumes "find_filing db (fe_id f) = Some f0"
  obtains t where "find_filing (save_filing e f db) (fe_id f) = Some (f\<lparr>fe_updated_at := t\<rparr>)"
proof (cases "f0 = f")
  case True
  with assms have "find_filing (save_filing e f db) (fe_id f) = Some (f\<lparr>fe_updated_at := fe_updated_at f\<rparr>)"
    by (simp add: save_filing_def)
  then show ?thesis by (rule that)
next
  case False
  with assms have "find_filing (save_filing e f db) (fe_id f) = Some (f\<lparr>fe_updated_at := now e\<rparr>)"
    by (simp add: save_filing_def find_filing_updated)
  then show ?thesis by (rule that)
qed

lemma find_save_other:
  "fid \<noteq> fe_id f \<Longrightarrow> find_filing (save_filing e f db) fid = find_filing db fid"
  by (simp add: save_filing_def find_filing_untouched)

lemma save_filing_frame [simp, frame_simps]:
  "courts (save_filing e f db) = courts db"
  "case_types (save_filing e f db) = case_types db"
  "requirements (save_filing e f db) = requirements db"
  "users (save_filing e f db) = users db"
  "court_roles (save_filing e f db) = court_roles db"
  "cases (save_filing e f db) = cases db"
  "participants (save_filing e f db) = participants db"
  "documents (save_filing e f db) = documents db"
  "uploads (save_filing e f db) = uploads db"
  "public_copies (save_filing e f db) = public_copies db"
  "transactions (save_filing e f db) = transactions db"
  "payments (save_filing e f db) = payments db"
  "calendars (save_filing e f db) = calendars db"
  "notifications (save_filing e f db) = notifications db"
  "delivery_events (save_filing e f db) = delivery_events db"
  "contacts (save_filing e f db) = contacts db"
  "packets (save_filing e f db) = packets db"
  "recipients (save_filing e f db) = recipients db"
  "service_events (save_filing e f db) = service_events db"
  "audit (save_filing e f db) = audit db"
  "deletions (save_filing e f db) = deletions db"
  by (simp_all add: save_filing_def)

lemma current_documents_cong:
  "documents db' = documents db \<Longrightarrow> current_documents db' fid = current_documents db fid"
  by (simp add: current_documents_def)

lemma current_documents_save [simp]:
  "current_documents (save_filing e f db) fid = current_documents db fid"
  by (rule current_documents_cong) simp

end
