(* ===== verification/Refusals.thy ===== *)
theory Refusals
  imports Prelude
begin

text \<open>
  What an operation raises: the exception classes of the services and of FastAPI, with the message
  as a constructor. The constructors follow the texts of the source, grouped by component.
\<close>

datatype account_refusal =
    Account_not_active | Account_unavailable | Account_disabled | Public_account
  | Filing_not_found | Not_your_filing | Not_authorized | Not_clerk_for_court | Own_filing
  | Staff_assignment_required | Case_record_not_found | Receipts_not_visible | Case_not_readable
  | Signin_unavailable | Signin_invalid | Signin_unverified | Not_set_up | Demo_account_unknown
  | Authentication_required | Registration_disabled | Email_registered | Type_not_registrable

datatype calendar_refusal = No_calendar_covers | Coverage_unresolved | No_business_day_within_year

datatype destination_refusal =
    Unsupported_type | Service_only_not_accepted | Type_does_not_match_case
  | Court_or_type_not_found | Type_of_other_court | Court_not_accepting "string option"
  | Type_not_accepting "string option" | Case_not_found | Participation_required
  | Case_of_other_court | Case_type_mismatch

datatype filing_refusal =
    Details_changed | Not_draft_or_returned | Waiver_not_editable | Title_is_courts
  | No_current_documents | Document_unavailable string | Document_mismatch string
  | Documents_changed | Submission_changed | Only_draft_submitted | Payment_required
  | Validation_failed "validation_error list" "string list"
and validation_error = No_document | No_case_reference | No_case_title

datatype review_refusal =
    Resubmitted | Date_changed_in_review | Order_needs_review | No_receipt_time
  | Date_unresolved "calendar_refusal option" | Reason_required | Not_awaiting_review
  | No_longer_awaiting | Cms_failed "string option" | Could_not_accept

datatype upload_refusal =
    Key_for_other_document | Uploaded_then_removed | Cannot_upload | Court_records_decisions
  | Submitted_not_altered | Document_not_found | Earlier_save_differs int
  | Upload_too_large | Upload_empty | Type_unverified | Type_unsupported | Must_be_pdf
  | Screening_unavailable | Screening_rejected string | Pdf_unreadable

datatype payment_refusal =
    Separate_administrator_required | External_not_enabled | Request_key_reused | Receipt_in_future
  | Fee_or_payment_changed | Nothing_unpaid | Exceeds_amount_due | Payment_changed
  | Receipt_already_credited "int option" | Credit_not_found | Not_active_credit | Fee_changed
  | Assessment_required | Not_awaiting_payment | Amount_mismatch int int | Not_configured

datatype fee_refusal =
    Explain_review | Only_filer_requests | Fee_record_changed | Total_exceeds_supported
  | Not_assessor | Own_assessment | Not_for_court | No_undecided_waiver | Waiver_role_required
  | Waiver_changed | Denial_needs_reason | Attach_order | Refer_has_no_decision | Invalid_fee_request

datatype date_refusal =
    Review_signed_order | Refresh_case_date | Service_only_has_no_date | Order_after_submission
  | Filing_changed | No_case_date | Case_date_changed

datatype email_refusal =
    Service_requires_email | Bad_portal_origin | Portal_needs_https | Bad_smtp_host
  | Plain_smtp_not_local | Demo_external_relay | Bad_smtp_from
  | Notice_not_found | Notice_recipient_required | Retry_from_delivery | Email_not_enabled
  | Retry_needs_reason | Already_queued | Staff_reviews_uncertain | Still_blocked "string option"

datatype record_refusal =
    Participants_changed | Participant_not_found | No_account_for_email | Several_accounts
  | Access_needs_bound_account | Own_participant_record | Counsel_bar_mismatch
  | Account_changed | Account_not_found | Court_not_found | Email_in_use
  | System_administrator_required | Court_administrator_required | Subject_required
  | Own_access | Revoke_roles_first | Own_court_access | Only_system_administrators
  | Active_staff_only | Bind_subject_first | Judge_account_required
  | Own_case_access | Case_access_changed | Confirm_release
  | Intake_changed | Case_types_changed | Publish_instructions | Publisher_required
  | Already_assigned | Case_in_favorites | Court_in_favorites

datatype publication_refusal =
    Access_changed | Copy_not_found | Copy_unavailable | Copy_integrity | Waiver_records_private
  | Needs_accepted_filing | Not_submitted_document | Document_record_not_found
  | Public_title_required | Account_or_filing_unavailable | Copy_not_readable
  | Retained_integrity | File_unavailable | Document_not_readable | Public_copy_not_found

datatype service_refusal =
    Sender_required | Existing_case_only | Destination_needs_review | Verified_email_required
  | Reviewed_participation_required | Record_documents_first | Submission_receipt_required
  | Receipt_needs_review | Manifest_needs_review | Delivery_key_reused | Delivery_disabled
  | Filing_resubmitted | Receipt_documents_only | Reviewed_contacts_only | Instructions_changed
  | Routing_blocked string | Recipients_once | Retained_unavailable | Receipt_mismatch
  | Selected_unreadable | Selected_integrity | Alert_not_queued "string option"
  | Delivery_not_found | Delivery_party_required | Current_participation_required
  | Not_in_delivery | Delivery_mismatch | Only_recipient_acknowledges | Retry_by_sender_or_staff
  | Alert_already_active | Staff_reviews_outcome | Delivery_blocked string | Staff_reports_failures
  | Report_key_reused | Attempt_changed | Not_transmitted | Report_time_invalid
  | Filer_or_staff_required | Own_instructions | Contact_of_other_case

datatype request_refusal =
    Rate_limited | Body_too_large | Offset_missing | Queue_status_unknown
  | Administrator_of_court_required | Period_too_long | Unknown_time_zone | Dates_out_of_range
  | Register_too_large

datatype refusal =
    Account account_refusal | Destination destination_refusal | Filing filing_refusal
  | Review review_refusal | Upload upload_refusal | Payment payment_refusal | Fee fee_refusal
  | OrderDate date_refusal | Email email_refusal | Record record_refusal
  | Publication publication_refusal | Service service_refusal
  | Request request_refusal | Invalid_request

text \<open>
  The exceptions: \<open>HTTPException\<close>, the exception classes of \<open>filing_service\<close> and
  \<open>payment_service\<close>, a \<open>ValueError\<close> of the mail configuration, the database's
  \<open>IntegrityError\<close>, and the uncaught Python errors that end a request with status 500.
\<close>

datatype failure =
    Http int refusal
  | FilingDestinationError int destination_refusal
  | FilingDateUnavailableError review_refusal
  | FilingDocumentError filing_refusal
  | StaleFilingReviewError review_refusal
  | FilingSubmissionError int filing_refusal
  | FilingUpdateError int filing_refusal
  | SubmissionAlreadyRecordedError int
  | PaymentsNotConfiguredError
  | ConfigValueError email_refusal
  | IntegrityError
  | StorageError
  | StorageQuotaError
  | InternalError

end
