(* ===== verification/Scan.thy ===== *)
theory Scan
  imports Models Refusals
begin

text \<open>
  Screening of uploaded files: the built-in signatures and the ClamAV client
  (\<open>utils/malware_scan.py\<close>), the type check and the inspection of a PDF
  (\<open>services/document_service.py\<close>) with the patterns of personal data (\<open>utils/pdf.py\<close>).
  A byte string is a \<open>string\<close> of characters 0 to 255. The libraries (\<open>magic\<close>,
  \<open>pypdf\<close>, the ClamAV server, SHA-256, \<open>mimetypes\<close>) are parameters.
\<close>

section \<open>Byte strings\<close>

definition nul :: char where
  "nul = CHR 0x00"

fun bytes_value :: "string \<Rightarrow> nat" where
  "bytes_value [] = 0"
| "bytes_value (c # cs) = of_char c + 256 * bytes_value cs"

text \<open>\<open>struct.pack("!I", n)\<close>: four bytes, the most significant first.\<close>

definition pack32 :: "nat \<Rightarrow> string" where
  "pack32 n = map (\<lambda>k. char_of (n div 256 ^ k mod 256)) [3, 2, 1, 0]"

definition unpack32 :: "string \<Rightarrow> nat" where
  "unpack32 bs = bytes_value (rev bs)"

text \<open>The slices \<open>data[0:k]\<close>, \<open>data[k:2k]\<close>, \<dots> of the sending loop.\<close>

function (sequential) chunks :: "nat \<Rightarrow> string \<Rightarrow> string list" where
  "chunks k d = (if d = [] \<or> k = 0 then [] else take k d # chunks k (drop k d))"
  by pat_completeness auto
termination by (relation "measure (\<lambda>(k, d). length d)") auto

declare chunks.simps [simp del]

section \<open>Built-in signatures\<close>

definition eicar_test_signature :: string where
  "eicar_test_signature = ''X5O!P%@AP[4'' @ [CHR 0x5C] @ ''PZX54(P^)7CC)7}$''
     @ ''EICAR-STANDARD-ANTIVIRUS-TEST-FILE!$H+H*''"

definition executable_signatures :: "(string \<times> string) list" where
  "executable_signatures =
     [([CHR 0x7F] @ ''ELF'', ''ELF executable''),
      ([CHR 0xFE, CHR 0xED, CHR 0xFA, CHR 0xCE], ''Mach-O executable''),
      ([CHR 0xFE, CHR 0xED, CHR 0xFA, CHR 0xCF], ''Mach-O executable''),
      ([CHR 0xCE, CHR 0xFA, CHR 0xED, CHR 0xFE], ''Mach-O executable''),
      ([CHR 0xCF, CHR 0xFA, CHR 0xED, CHR 0xFE], ''Mach-O executable''),
      ([CHR 0xCA, CHR 0xFE, CHR 0xBA, CHR 0xBE], ''Mach-O / Java executable'')]"

record scan_result =
  sn_clean :: bool
  sn_engine :: string
  sn_reason :: "string option"

definition is_windows_executable :: "string \<Rightarrow> bool" where
  "is_windows_executable d =
     (if \<not> starts_with d ''MZ'' \<or> length d < 0x40 then False
      else take 4 (drop (bytes_value (take 4 (drop 0x3C d))) d) = ''PE'' @ [nul, nul])"

definition heuristic_scan :: "string \<Rightarrow> scan_result" where
  "heuristic_scan d =
     (if is_windows_executable d
      then \<lparr>sn_clean = False, sn_engine = ''builtin'', sn_reason =
        Some ''Rejected: file looks like a Windows PE executable, not a court document''\<rparr>
      else case List.find (\<lambda>(s, l). starts_with d s) executable_signatures of
        Some (s, l) \<Rightarrow>
          \<lparr>sn_clean = False, sn_engine = ''builtin'', sn_reason =
             Some (''Rejected: file looks like a '' @ l @ '', not a court document'')\<rparr>
      | None \<Rightarrow>
          if contains d eicar_test_signature
          then \<lparr>sn_clean = False, sn_engine = ''builtin'', sn_reason =
            Some ''Rejected: EICAR antivirus test signature detected''\<rparr>
          else \<lparr>sn_clean = True, sn_engine = ''builtin'', sn_reason = None\<rparr>)"

section \<open>The ClamAV client\<close>

text \<open>The bytes sent in a session.\<close>

definition instream :: "string \<Rightarrow> string" where
  "instream d = ''zINSTREAM'' @ [nul]
     @ concat (map (\<lambda>c. pack32 (length c) @ c) (chunks 65536 d)) @ [nul, nul, nul, nul]"

text \<open>The receiving loop over the parts the socket delivers; \<open>recv(n)\<close> returns at most \<open>n\<close> bytes,
  an empty part is a disconnect, and no further part a timeout or a socket error. \<open>None\<close> is
  \<open>ScannerUnavailableError\<close>. A part that reaches the limit ends the loop, so what \<open>recv\<close> left
  over is never read.\<close>

fun receive_reply :: "string \<Rightarrow> string list \<Rightarrow> string option" where
  "receive_reply r parts =
     (if ends_with r [nul] then Some r
      else if 4096 \<le> length r then None
      else case parts of
        [] \<Rightarrow> None
      | p # ps \<Rightarrow> if p = [] then None else receive_reply (r @ take (4096 - length r) p) ps)"

declare receive_reply.simps [simp del]

definition between :: "string \<Rightarrow> string \<Rightarrow> string \<Rightarrow> string" where
  "between r a b = take (length r - length b - length a) (drop (length a) r)"

definition limits_text :: string where
  "limits_text = ''The document or its embedded content exceeds screening limits. ''
     @ ''Reduce its size or contact the court for filing options.''"

definition clamav_verdict :: "string \<Rightarrow> scan_result option" where
  "clamav_verdict r =
     (let found = '' FOUND'' @ [nul]; failed = '' ERROR'' @ [nul]; name = between r ''stream: '' found in
      if r = ''stream: OK'' @ [nul]
      then Some \<lparr>sn_clean = True, sn_engine = ''clamav'', sn_reason = None\<rparr>
      else if starts_with r ''stream: '' \<and> ends_with r found \<and> str_strip name \<noteq> []
      then Some \<lparr>sn_clean = False, sn_engine = ''clamav'', sn_reason = Some
        (if contains name ''.Limits.Exceeded'' then limits_text else ''Rejected by malware screening'')\<rparr>
      else if starts_with r ''stream: '' \<and> ends_with r failed
      then Some \<lparr>sn_clean = False, sn_engine = ''clamav'', sn_reason = Some limits_text\<rparr>
      else None)"

text \<open>The server: from the bytes sent to the parts it answers, \<open>None\<close> for a connection that fails.\<close>

type_synonym clamd = "string \<Rightarrow> string list option"

definition clamav_scan :: "clamd \<Rightarrow> string \<Rightarrow> scan_result option" where
  "clamav_scan server d =
     (case server (instream d) of
        None \<Rightarrow> None
      | Some parts \<Rightarrow> Option.bind (receive_reply [] parts) clamav_verdict)"

definition scan_upload :: "settings \<Rightarrow> clamd \<Rightarrow> string \<Rightarrow> scan_result option" where
  "scan_upload s server d =
     (let builtin = heuristic_scan d in
      if \<not> sn_clean builtin \<or> \<not> st_clamav_enabled s then Some builtin else clamav_scan server d)"

section \<open>File types\<close>

definition octet_stream :: string where
  "octet_stream = ''application/octet-stream''"

definition detect_mime_type :: "(string \<Rightarrow> string option) \<Rightarrow> string \<Rightarrow> string" where
  "detect_mime_type magic d = (case magic (take 2048 d) of None \<Rightarrow> octet_stream | Some t \<Rightarrow> t)"

definition strict_mime_detection_enabled :: "settings \<Rightarrow> bool" where
  "strict_mime_detection_enabled s = (case st_strict_mime s of Some b \<Rightarrow> b | None \<Rightarrow> \<not> st_debug s)"

definition resolve_upload_mime_type ::
    "settings \<Rightarrow> (string \<Rightarrow> string option) \<Rightarrow> string \<Rightarrow> string option \<Rightarrow> failure + string" where
  "resolve_upload_mime_type s magic d http =
     (let detected = detect_mime_type magic d in
      if detected \<noteq> octet_stream then Inr detected
      else if strict_mime_detection_enabled s then Inl (Http 415 (Upload Type_unverified))
      else Inr (or_text http octet_stream))"

definition allowed_types :: "string list" where
  "allowed_types =
     [''application/pdf'', ''application/msword'',
      ''application/vnd.openxmlformats-officedocument.wordprocessingml.document'',
      ''text/plain'', ''application/rtf'', ''image/tiff'', ''image/jpeg'', ''image/png'']"

definition validate_mime_type :: "string \<Rightarrow> bool" where
  "validate_mime_type t \<longleftrightarrow> t \<in> set allowed_types"

section \<open>Patterns of personal data\<close>

text \<open>
  A matcher goes from a position (the character before it and the rest of the text) to the
  positions after a match. Character classes are the ASCII ones.
\<close>

type_synonym position = "char option \<times> string"
type_synonym matcher = "position \<Rightarrow> position list"

definition is_digit :: "char \<Rightarrow> bool" where
  "is_digit c \<longleftrightarrow> (let n = (of_char c :: nat) in 48 \<le> n \<and> n \<le> 57)"

definition is_word :: "char \<Rightarrow> bool" where
  "is_word c \<longleftrightarrow> is_digit c \<or> upper_char c \<noteq> c \<or> lower_char c \<noteq> c \<or> c = CHR ''_''"

definition one_of :: "(char \<Rightarrow> bool) \<Rightarrow> matcher" where
  "one_of P s = (case s of (p, []) \<Rightarrow> [] | (p, c # cs) \<Rightarrow> if P c then [(Some c, cs)] else [])"

definition seq :: "matcher \<Rightarrow> matcher \<Rightarrow> matcher" where
  "seq m n s = concat (map n (m s))"

fun repeated :: "nat \<Rightarrow> matcher \<Rightarrow> matcher" where
  "repeated 0 m s = [s]"
| "repeated (Suc k) m s = concat (map (repeated k m) (m s))"

definition optional :: "matcher \<Rightarrow> matcher" where
  "optional m s = m s @ [s]"

fun blanks_from :: "char option \<Rightarrow> string \<Rightarrow> position list" where
  "blanks_from p [] = [(p, [])]"
| "blanks_from p (c # cs) = (p, c # cs) # (if is_blank c then blanks_from (Some c) cs else [])"

definition blanks :: matcher where
  "blanks s = blanks_from (fst s) (snd s)"

definition boundary :: matcher where
  "boundary s =
     (let before = (case fst s of None \<Rightarrow> False | Some c \<Rightarrow> is_word c);
          after = (case snd s of [] \<Rightarrow> False | c # cs \<Rightarrow> is_word c)
      in if before \<noteq> after then [s] else [])"

fun literal :: "string \<Rightarrow> matcher" where
  "literal [] s = [s]"
| "literal (l # ls) s = concat (map (literal ls) (one_of (\<lambda>c. lower_char c = lower_char l) s))"

fun found_from :: "matcher \<Rightarrow> char option \<Rightarrow> string \<Rightarrow> bool" where
  "found_from m p [] \<longleftrightarrow> m (p, []) \<noteq> []"
| "found_from m p (c # cs) \<longleftrightarrow> m (p, c # cs) \<noteq> [] \<or> found_from m (Some c) cs"

definition has_ssn :: "string \<Rightarrow> bool" where
  "has_ssn t \<longleftrightarrow> found_from
     (seq boundary (seq (repeated 3 (one_of is_digit)) (seq (literal ''-'') (seq (repeated 2 (one_of is_digit))
       (seq (literal ''-'') (seq (repeated 4 (one_of is_digit)) boundary)))))) None t"

definition has_birth_date :: "string \<Rightarrow> bool" where
  "has_birth_date t \<longleftrightarrow> found_from
     (seq boundary (seq (\<lambda>s. concat (map (\<lambda>l. literal l s) [''DOB'', ''Date of Birth'', ''Birth Date'']))
       (seq blanks (seq (literal '':'') (seq blanks (one_of is_digit)))))) None t"

definition has_license :: "string \<Rightarrow> bool" where
  "has_license t \<longleftrightarrow> found_from
     (seq boundary
       (seq (\<lambda>s. literal ''DL'' s @ seq (literal ''Driver'') (seq (optional (literal [CHR 0x27]))
               (seq (optional (literal ''s'')) (seq blanks (literal ''License'')))) s)
       (seq blanks (seq (optional (literal ''#'')) (seq blanks (seq (literal '':'')
         (seq blanks (one_of is_word)))))))) None t"

definition has_account_number :: "string \<Rightarrow> bool" where
  "has_account_number t \<longleftrightarrow> found_from
     (seq boundary (seq (\<lambda>s. concat (map (\<lambda>k. repeated k (one_of is_digit) s) [12..<20])) boundary)) None t"

definition check_pii_patterns :: "string \<Rightarrow> string list" where
  "check_pii_patterns t =
     (if has_ssn t then [''Possible Social Security number detected. ''
        @ ''MCR 1.109 requires Social Security number redaction.''] else [])
     @ (if has_birth_date t then [''Possible date of birth detected. ''
        @ ''MCR 1.109 requires date of birth redaction (show only the year if needed).''] else [])
     @ (if has_license t then [''Possible driver'' @ [CHR 0x27] @ ''s license number detected. ''
        @ ''MCR 1.109 requires driver'' @ [CHR 0x27] @ ''s license number redaction.''] else [])
     @ (if has_account_number t then [''Possible financial account number detected. ''
        @ ''MCR 1.109 requires financial account number redaction.''] else [])"

section \<open>Inspecting a PDF\<close>

record pdf_inspection =
  pi_pages :: "int option"
  pi_searchable :: bool
  pi_warnings :: "string list"

definition no_inspection :: pdf_inspection where
  "no_inspection = \<lparr>pi_pages = None, pi_searchable = False, pi_warnings = []\<rparr>"

fun add_new :: "string list \<Rightarrow> string list \<Rightarrow> string list" where
  "add_new ws [] = ws"
| "add_new ws (x # xs) = add_new (if x \<in> set ws then ws else ws @ [x]) xs"

text \<open>The reader gives the number of pages and the text of every page it reaches before an exception
  ends the loop, \<open>None\<close> for a page whose extraction fails, and \<open>None\<close> altogether for a
  file it cannot open.\<close>

type_synonym pdf_reader = "string \<Rightarrow> (nat \<times> string option list) option"

definition inspect_page :: "pdf_inspection \<Rightarrow> string option \<Rightarrow> pdf_inspection" where
  "inspect_page i page =
     (case page of
        None \<Rightarrow> i
      | Some t \<Rightarrow> i\<lparr>pi_searchable := pi_searchable i \<or> str_strip t \<noteq> [],
                    pi_warnings := add_new (pi_warnings i) (check_pii_patterns t)\<rparr>)"

definition inspect_pdf :: "pdf_reader \<Rightarrow> string \<Rightarrow> pdf_inspection" where
  "inspect_pdf reader d =
     (case reader d of
        None \<Rightarrow> no_inspection
      | Some (n, pages) \<Rightarrow> foldl inspect_page (no_inspection\<lparr>pi_pages := Some (int n)\<rparr>) (take 5 pages))"

section \<open>The framing of the stream\<close>

text \<open>The protocol as ClamAV documents it, read by the server: chunks with their length in four
  bytes until an empty chunk.\<close>

function (sequential) read_frames :: "string \<Rightarrow> string option" where
  "read_frames s =
     (if length s < 4 then None
      else let n = unpack32 (take 4 s); rest = drop 4 s in
        if n = 0 then (if rest = [] then Some [] else None)
        else if length rest < n then None
        else map_option (\<lambda>t. take n rest @ t) (read_frames (drop n rest)))"
  by pat_completeness auto
termination by (relation "measure length") auto

declare read_frames.simps [simp del]

definition received_data :: "string \<Rightarrow> string option" where
  "received_data s =
     (if starts_with s (''zINSTREAM'' @ [nul]) then read_frames (drop 10 s) else None)"

lemma pack32_length [simp]: "length (pack32 n) = 4"
  by (simp add: pack32_def)

lemma unpack_pack32:
  assumes "n < 256 ^ 4"
  shows "unpack32 (pack32 n) = n"
proof -
  let ?q1 = "n div 256" and ?q2 = "n div 256 div 256" and ?q3 = "n div 256 div 256 div 256"
  have q: "n div 65536 = ?q2" "n div 16777216 = ?q3" by (simp_all add: div_mult2_eq [symmetric])
  have "unpack32 (pack32 n) = n mod 256 + 256 * (?q1 mod 256 + 256 * (?q2 mod 256 + 256 * (?q3 mod 256)))"
    by (simp add: unpack32_def pack32_def q)
  moreover have "?q3 < 256" using assms by (simp add: q(2) [symmetric] less_mult_imp_div_less)
  then have "?q3 mod 256 = ?q3" by simp
  moreover have "?q2 mod 256 + 256 * ?q3 = ?q2" "?q1 mod 256 + 256 * ?q2 = ?q1" "n mod 256 + 256 * ?q1 = n"
    by simp_all
  ultimately show ?thesis by simp
qed

lemma read_frame:
  assumes "c \<noteq> []" and "length c < 256 ^ 4"
  shows "read_frames (pack32 (length c) @ c @ t) = map_option (\<lambda>u. c @ u) (read_frames t)"
  using assms by (subst read_frames.simps) (simp add: Let_def unpack_pack32)

lemma read_end: "read_frames [nul, nul, nul, nul] = Some []"
  by (subst read_frames.simps) (simp add: unpack32_def nul_def)

lemma read_chunks:
  assumes "0 < k" and "k < 256 ^ 4"
  shows "read_frames (concat (map (\<lambda>c. pack32 (length c) @ c) (chunks k d)) @ [nul, nul, nul, nul]) = Some d"
  using assms
proof (induction k d rule: chunks.induct)
  case (1 k d)
  show ?case
  proof (cases "d = []")
    case False
    let ?c = "take k d"
    have "?c \<noteq> []" "length ?c < 256 ^ 4" using False 1 by auto
    with 1 False have "read_frames (pack32 (length ?c) @ ?c
        @ (concat (map (\<lambda>c. pack32 (length c) @ c) (chunks k (drop k d))) @ [nul, nul, nul, nul]))
      = map_option (\<lambda>u. ?c @ u) (Some (drop k d))"
      by (subst read_frame) auto
    then show ?thesis using False 1(2) by (subst chunks.simps) simp
  qed (simp add: chunks.simps read_end)
qed

lemma chunks_bound: "c \<in> set (chunks k d) \<Longrightarrow> c \<noteq> [] \<and> length c \<le> k"
proof (induction k d rule: chunks.induct)
  case (1 k d)
  then show ?case by (subst (asm) (2) chunks.simps) (auto split: if_splits)
qed

lemma receive_reply_bounded:
  "receive_reply r parts = Some s \<Longrightarrow> length r \<le> 4096 \<Longrightarrow> ends_with s [nul] \<and> length s \<le> 4096"
proof (induction r parts rule: receive_reply.induct)
  case (1 r parts)
  then show ?case by (subst (asm) (2) receive_reply.simps) (auto split: if_splits list.splits)
qed

lemma receive_reply_prefix:
  "receive_reply r parts = Some s \<Longrightarrow> \<exists>n. s = r @ take n (concat parts)"
proof (induction r parts rule: receive_reply.induct)
  case (1 r parts)
  show ?case
  proof (cases "ends_with r [nul]")
    case True
    with 1(2) show ?thesis by (subst (asm) receive_reply.simps) (auto intro: exI [of _ 0])
  next
    case False
    with 1(2) obtain p ps where p: "parts = p # ps" "p \<noteq> []" "length r < 4096"
      and r: "receive_reply (r @ take (4096 - length r) p) ps = Some s"
      by (subst (asm) receive_reply.simps) (auto split: if_splits list.splits)
    show ?thesis
    proof (cases "length p \<le> 4096 - length r")
      case True
      with 1(1) [OF False _ p(1,2)] p r obtain n where "s = r @ p @ take n (concat ps)" by auto
      then show ?thesis by (intro exI [of _ "length p + n"]) (simp add: p)
    next
      case long: False
      then have "length (r @ take (4096 - length r) p) = 4096" using p by simp
      with r have "s = r @ take (4096 - length r) p"
        by (subst (asm) receive_reply.simps) (auto split: if_splits)
      with long show ?thesis by (intro exI [of _ "4096 - length r"]) (simp add: p)
    qed
  qed
qed

section \<open>Properties\<close>

text \<open>The framing round trip: whatever the file, the server that follows the documented protocol
  reads exactly the file's bytes back from what the client sends, in chunks of at most 64 KiB,
  none of which is empty before the end.\<close>
theorem instream_roundtrip:
  "received_data (instream d) = Some d \<and> concat (chunks 65536 d) = d
     \<and> list_all (\<lambda>c. 1 \<le> length c \<and> length c \<le> 65536) (chunks 65536 d)"
proof -
  have "concat (chunks k d) = d" if "0 < k" for k
    using that
  proof (induction k d rule: chunks.induct)
    case (1 k d)
    then show ?case by (subst chunks.simps) auto
  qed
  then show ?thesis
    using read_chunks [of 65536 d] chunks_bound [of _ 65536 d]
    by (auto simp: received_data_def instream_def starts_with_def Suc_le_eq list_all_iff)
qed

lemma clamav_clean: "(\<exists>r. clamav_verdict s = Some r \<and> sn_clean r) \<longleftrightarrow> s = ''stream: OK'' @ [nul]"
  by (auto simp: clamav_verdict_def Let_def split: if_splits)

lemma heuristic_clean: "sn_clean (heuristic_scan d) \<longleftrightarrow> \<not> is_windows_executable d
    \<and> List.find (\<lambda>(s, l). starts_with d s) executable_signatures = None \<and> \<not> contains d eicar_test_signature"
  by (auto simp: heuristic_scan_def split: option.splits)

text \<open>C21: screening fails closed: a file counts as clean exactly when it is no Windows executable,
  starts with no executable signature, does not contain the test signature and, with ClamAV
  enabled, the server answered the whole stream with precisely the verdict that it is OK; a
  refused connection, a disconnect, a timeout, an oversized or an unknown answer never does.\<close>
theorem clean_needs_verdict:
  "(\<exists>r. scan_upload s server d = Some r \<and> sn_clean r) \<longleftrightarrow>
     \<not> is_windows_executable d \<and> List.find (\<lambda>(sig, l). starts_with d sig) executable_signatures = None
     \<and> \<not> contains d eicar_test_signature
     \<and> (if st_clamav_enabled s
        then (\<exists>parts n. server (instream d) = Some parts \<and> receive_reply [] parts = Some (''stream: OK'' @ [nul])
               \<and> take n (concat parts) = ''stream: OK'' @ [nul])
        else True)"
proof -
  have "(\<exists>r. clamav_scan server d = Some r \<and> sn_clean r) \<longleftrightarrow>
      (\<exists>parts n. server (instream d) = Some parts \<and> receive_reply [] parts = Some (''stream: OK'' @ [nul])
        \<and> take n (concat parts) = ''stream: OK'' @ [nul])"
    (is "?clean \<longleftrightarrow> ?ok")
  proof
    assume ?clean
    then obtain parts r where "server (instream d) = Some parts"
      and r: "receive_reply [] parts = Some r" and "\<exists>v. clamav_verdict r = Some v \<and> sn_clean v"
      by (auto simp: clamav_scan_def bind_eq_Some_conv split: option.splits)
    moreover from this have "r = ''stream: OK'' @ [nul]" by (simp only: clamav_clean)
    moreover from receive_reply_prefix [OF r] obtain n where "r = take n (concat parts)" by auto
    ultimately show ?ok by metis
  next
    assume ?ok
    then obtain parts where "server (instream d) = Some parts"
      and r: "receive_reply [] parts = Some (''stream: OK'' @ [nul])" by blast
    then show ?clean using clamav_clean [of "''stream: OK'' @ [nul]"]
      by (simp add: clamav_scan_def)
  qed
  then show ?thesis using heuristic_clean [of d]
    by (auto simp: scan_upload_def Let_def)
qed

end
