(* ===== verification/Access.thy ===== *)
theory Access
  imports Models Refusals
begin

text \<open>
  Who may read and file (\<open>services/access_service.py\<close>) and the account checks of the request
  handlers (\<open>api/auth.py\<close>). Queries are read as predicates on the tables; a comparison with a
  \<open>NULL\<close> column is never true.
\<close>

section \<open>Court staff\<close>

definition has_court_administrator_assignment :: "db \<Rightarrow> int \<Rightarrow> int \<Rightarrow> bool" where
  "has_court_administrator_assignment db uid court \<longleftrightarrow>
     (\<exists>r \<in> set (court_roles db). ur_user r = uid \<and> ur_court r = court \<and> ur_role r = AdminRole)"

definition staff_role :: "court_role \<Rightarrow> bool" where
  "staff_role r \<longleftrightarrow> r \<in> {ClerkRole, JudgeRole, AdminRole}"

definition is_court_staff :: "db \<Rightarrow> int option \<Rightarrow> int \<Rightarrow> bool" where
  "is_court_staff db uid court =
     (case uid of
        None \<Rightarrow> False
      | Some u \<Rightarrow> \<exists>r \<in> set (court_roles db). ur_user r = u \<and> ur_court r = court \<and> staff_role (ur_role r))"

section \<open>Reading a case\<close>

definition counsel_eligible :: "user \<Rightarrow> participant \<Rightarrow> bool" where
  "counsel_eligible u p \<longleftrightarrow>
     us_type u = Attorney \<and> truthy (us_bar_number u) \<and> us_bar_verified u
     \<and> pt_bar_number p = us_bar_number u"

definition participant_grant :: "db \<Rightarrow> user \<Rightarrow> int \<Rightarrow> bool" where
  "participant_grant db u cid \<longleftrightarrow>
     (\<exists>p \<in> set (participants db). pt_case p = cid \<and> pt_user p = Some (us_id u) \<and> pt_active p
        \<and> pt_access p \<and> (pt_role p \<notin> set counsel_roles \<or> counsel_eligible u p))"

definition case_visible :: "db \<Rightarrow> user option \<Rightarrow> case_row \<Rightarrow> bool" where
  "case_visible db user c =
     (case user of
        None \<Rightarrow> \<not> cs_sealed c
      | Some u \<Rightarrow>
          if \<not> us_active u then False
          else if us_type u = AdminUser then True
          else \<not> cs_sealed c \<or> participant_grant db u (cs_id c)
            \<or> is_court_staff db (Some (us_id u)) (cs_court c))"

definition may_read_sealed_case :: "db \<Rightarrow> user option \<Rightarrow> int \<Rightarrow> bool" where
  "may_read_sealed_case db user cid \<longleftrightarrow>
     user \<noteq> None \<and> (\<exists>c \<in> set (cases db). cs_id c = cid \<and> cs_sealed c \<and> case_visible db user c)"

definition may_read_case :: "db \<Rightarrow> user option \<Rightarrow> int \<Rightarrow> bool" where
  "may_read_case db user cid \<longleftrightarrow> (\<exists>c \<in> set (cases db). cs_id c = cid \<and> case_visible db user c)"

section \<open>Filing on a case\<close>

definition has_filing_grant :: "db \<Rightarrow> user \<Rightarrow> int \<Rightarrow> bool" where
  "has_filing_grant db u cid =
     (if \<not> us_active u \<or> us_type u = PublicUser then False
      else \<exists>p \<in> set (participants db). pt_case p = cid \<and> pt_user p = Some (us_id u) \<and> pt_active p
        \<and> pt_access p \<and> pt_reviewed_at p \<noteq> None
        \<and> (pt_role p \<notin> set counsel_roles \<or> counsel_eligible u p))"

definition may_file_on_case :: "db \<Rightarrow> user \<Rightarrow> int \<Rightarrow> bool" where
  "may_file_on_case db u cid \<longleftrightarrow> has_filing_grant db u cid \<and> may_read_case db (Some u) cid"

section \<open>Reading filings and documents\<close>

definition may_read_filing_envelope :: "db \<Rightarrow> user option \<Rightarrow> envelope \<Rightarrow> bool" where
  "may_read_filing_envelope db user f =
     (let uid = map_option us_id user in
      if Some (fe_filer f) = uid then True
      else if is_court_staff db uid (fe_court f) then True
      else if fe_status f \<noteq> Accepted then False
      else (case fe_case f of
              None \<Rightarrow> False
            | Some cid \<Rightarrow>
                (case row_at cs_id cid (cases db) of
                   None \<Rightarrow> False
                 | Some c \<Rightarrow> if cs_sealed c then may_read_sealed_case db user cid else True)))"

definition may_read_document :: "db \<Rightarrow> user option \<Rightarrow> document \<Rightarrow> bool" where
  "may_read_document db user d =
     (let uid = map_option us_id user in
      case find_filing db (dc_envelope d) of
        None \<Rightarrow> False
      | Some f \<Rightarrow>
          if dc_confidential d \<or> dc_type d \<in> set private_document_types \<or> dc_removed_at d \<noteq> None
          then Some (fe_filer f) = uid \<or> is_court_staff db uid (fe_court f)
          else may_read_filing_envelope db user f)"

section \<open>Account checks of the handlers (api/auth.py)\<close>

definition find_user :: "db \<Rightarrow> int \<Rightarrow> user option" where
  "find_user db uid = row_at us_id uid (users db)"

definition require_user_may_manage_efilings :: "user \<Rightarrow> failure + user" where
  "require_user_may_manage_efilings u =
     (if us_type u = PublicUser then Inl (Http 403 (Account Public_account)) else Inr u)"

definition lock_current_user :: "db \<Rightarrow> int \<Rightarrow> failure + user" where
  "lock_current_user db uid =
     (case find_user db uid of
        None \<Rightarrow> Inl (Http 403 (Account Account_not_active))
      | Some u \<Rightarrow> if us_active u then Inr u else Inl (Http 403 (Account Account_not_active)))"

definition lock_efiler :: "db \<Rightarrow> int \<Rightarrow> failure + user" where
  "lock_efiler db uid = then_do (lock_current_user db uid) require_user_may_manage_efilings"

section \<open>Lemmas\<close>

lemma lock_current_user_Inr:
  "lock_current_user db uid = Inr u \<longleftrightarrow> find_user db uid = Some u \<and> us_active u"
  by (auto simp: lock_current_user_def split: option.splits if_splits)

lemma find_user_id: "find_user db uid = Some u \<Longrightarrow> us_id u = uid"
  by (auto simp: find_user_def dest: row_at_SomeD)

lemma lock_efiler_Inr:
  "lock_efiler db uid = Inr u \<longleftrightarrow> find_user db uid = Some u \<and> us_active u \<and> us_type u \<noteq> PublicUser"
  by (auto simp: lock_efiler_def then_do_Inr_iff lock_current_user_Inr
      require_user_may_manage_efilings_def split: if_splits)

lemma administrator_is_staff:
  "has_court_administrator_assignment db uid court \<Longrightarrow> is_court_staff db (Some uid) court"
  by (auto simp: has_court_administrator_assignment_def is_court_staff_def staff_role_def)

lemma is_court_staff_None [simp]: "\<not> is_court_staff db None court"
  by (simp add: is_court_staff_def)

lemma sealed_reader:
  assumes "may_read_sealed_case db user cid"
  obtains u c where "user = Some u" and "us_active u" and "c \<in> set (cases db)" and "cs_id c = cid"
    and "us_type u = AdminUser \<or> participant_grant db u cid
      \<or> is_court_staff db (Some (us_id u)) (cs_court c)"
proof -
  from assms obtain u c where "user = Some u" and "c \<in> set (cases db)" and "cs_id c = cid"
    and "cs_sealed c" and "case_visible db user c"
    by (auto simp: may_read_sealed_case_def)
  then show ?thesis
    by (intro that [of u c]) (auto simp: case_visible_def split: if_splits)
qed

lemma sealed_reader_reads: "may_read_sealed_case db user cid \<Longrightarrow> may_read_case db user cid"
  by (auto simp: may_read_sealed_case_def may_read_case_def)

lemma anonymous_sees_unsealed: "may_read_case db None cid \<longleftrightarrow> (\<exists>c \<in> set (cases db). cs_id c = cid \<and> \<not> cs_sealed c)"
  by (simp add: may_read_case_def case_visible_def)

lemma filing_grant_is_participant:
  "has_filing_grant db u cid \<Longrightarrow> participant_grant db u cid"
  by (auto simp: has_filing_grant_def participant_grant_def split: if_splits)

section \<open>Properties\<close>

text \<open>An anonymous visitor can read a document exactly when it is public: not confidential, not
  fee waiver material, not removed, part of an accepted filing whose case exists and is not sealed.
  In particular nothing of a sealed case, of a draft or of a pending filing is public.\<close>
theorem anonymous_document_access:
  "may_read_document db None d \<longleftrightarrow>
     \<not> dc_confidential d \<and> dc_type d \<notin> set private_document_types \<and> dc_removed_at d = None
     \<and> (\<exists>f cid c. find_filing db (dc_envelope d) = Some f \<and> fe_status f = Accepted
          \<and> fe_case f = Some cid \<and> row_at cs_id cid (cases db) = Some c \<and> \<not> cs_sealed c)"
  by (auto simp: may_read_document_def may_read_filing_envelope_def may_read_sealed_case_def
      split: option.splits if_splits)

text \<open>C10: beside its filer and the staff of the filing's court, a document of a sealed case is read
  exactly by the active accounts that are system administrators, or hold an active participant record
  of that very case with its access enabled (a counsel record only as an attorney with a verified bar
  number that is the record's), or are a clerk, judge or administrator of the case's court; and only
  when the document is not confidential, not fee waiver material and not removed and its filing is
  accepted.\<close>
theorem sealed_document_readers:
  assumes "find_filing db (dc_envelope d) = Some f"
    and "fe_case f = Some cid" and "row_at cs_id cid (cases db) = Some c" and "cs_sealed c"
    and "Some (fe_filer f) \<noteq> map_option us_id user"
    and "\<not> is_court_staff db (map_option us_id user) (fe_court f)"
  shows "may_read_document db user d \<longleftrightarrow>
    \<not> dc_confidential d \<and> dc_type d \<notin> set private_document_types \<and> dc_removed_at d = None
    \<and> fe_status f = Accepted
    \<and> (\<exists>u c'. user = Some u \<and> us_active u \<and> c' \<in> set (cases db) \<and> cs_id c' = cid \<and> cs_sealed c'
       \<and> (us_type u = AdminUser
          \<or> (\<exists>p \<in> set (participants db). pt_case p = cid \<and> pt_user p = Some (us_id u) \<and> pt_active p
               \<and> pt_access p
               \<and> (pt_role p \<in> set counsel_roles \<longrightarrow> us_type u = Attorney \<and> us_bar_verified u
                    \<and> (\<exists>b. b \<noteq> [] \<and> us_bar_number u = Some b \<and> pt_bar_number p = Some b)))
          \<or> (\<exists>r \<in> set (court_roles db). ur_user r = us_id u \<and> ur_court r = cs_court c'
               \<and> ur_role r \<in> {ClerkRole, JudgeRole, AdminRole})))"
proof -
  have "may_read_document db user d \<longleftrightarrow> \<not> dc_confidential d \<and> dc_type d \<notin> set private_document_types
      \<and> dc_removed_at d = None \<and> fe_status f = Accepted \<and> may_read_sealed_case db user cid"
    using assms by (auto simp: may_read_document_def may_read_filing_envelope_def)
  moreover have "may_read_sealed_case db user cid \<longleftrightarrow> (\<exists>u c'. user = Some u \<and> us_active u
      \<and> c' \<in> set (cases db) \<and> cs_id c' = cid \<and> cs_sealed c'
      \<and> (us_type u = AdminUser \<or> participant_grant db u cid \<or> is_court_staff db (Some (us_id u)) (cs_court c')))"
    by (auto simp: may_read_sealed_case_def case_visible_def)
  moreover have "participant_grant db u cid \<longleftrightarrow>
      (\<exists>p \<in> set (participants db). pt_case p = cid \<and> pt_user p = Some (us_id u) \<and> pt_active p \<and> pt_access p
         \<and> (pt_role p \<in> set counsel_roles \<longrightarrow> us_type u = Attorney \<and> us_bar_verified u
              \<and> (\<exists>b. b \<noteq> [] \<and> us_bar_number u = Some b \<and> pt_bar_number p = Some b)))" for u
    unfolding participant_grant_def by (rule bex_cong) (auto simp: counsel_eligible_def truthy_def)
  moreover have "is_court_staff db (Some u) k \<longleftrightarrow> (\<exists>r \<in> set (court_roles db). ur_user r = u \<and> ur_court r = k
      \<and> ur_role r \<in> {ClerkRole, JudgeRole, AdminRole})" for u k
    by (simp add: is_court_staff_def staff_role_def)
  ultimately show ?thesis by (simp only:)
qed

definition example_court_db :: db where
  "example_court_db = empty_db
     \<lparr>users := [\<lparr>us_id = 1, us_email = ''a@x'', us_verified_email = None, us_first_name = ''A'',
        us_last_name = ''B'', us_bar_number = None, us_bar_verified = False,
        us_type = SelfRepresented, us_keycloak = None, us_active = True, us_admin_version = 0\<rparr>],
      court_roles := [],
      cases := [\<lparr>cs_id = 7, cs_court = 3, cs_number = ''n'', cs_case_type = 4, cs_title = ''t'',
        cs_sealed = True, cs_status = CaseOpen, cs_filed_date = 0, cs_filing_date = None,
        cs_filing_date_version = 0, cs_participant_version = 0\<rparr>],
      participants := [\<lparr>pt_id = 2, pt_case = 7, pt_user = Some 1, pt_role = Plaintiff,
        pt_name = ''A B'', pt_bar_number = None, pt_represents = None, pt_active = True,
        pt_access = True, pt_reviewed_at = Some 0\<rparr>],
      filings := [\<lparr>fe_id = 5, fe_court = 3, fe_case = Some 7, fe_case_type = 4, fe_filer = 9,
        fe_creation_key = None, fe_creation_sha256 = None, fe_type = ''subsequent'',
        fe_status = Accepted, fe_title = None, fe_description = None, fe_filed_at = Some 0,
        fe_submitted_at = Some 0, fe_reviewed_at = Some 0, fe_reviewer = Some 2,
        fe_rejection_reason = None, fe_payment = None, fe_payment_version = 0,
        fe_waiver_requested = False, fe_waiver_granted = None, fe_waiver_reason = None,
        fe_waiver_referred_at = None, fe_waiver_decided_at = None, fe_waiver_due_cents = None,
        fe_cms_case_number = None, fe_cms_filing_id = None, fe_cms_error = None,
        fe_created_at = 0, fe_updated_at = 0, fe_submission_count = 1, fe_filing_date = None,
        fe_filing_date_basis = None, fe_filing_date_version = 0, fe_fee_version = 0,
        fe_fee_review_at = None, fe_fee_assessment = None\<rparr>],
      documents := [\<lparr>dc_id = 6, dc_envelope = 5, dc_type = ''BRIEF'', dc_title = ''Brief'',
        dc_file_key = ''k'', dc_size = 1, dc_mime = ''application/pdf'', dc_pages = Some 1,
        dc_sha256 = ''h'', dc_confidential = False, dc_searchable = True, dc_pii = None,
        dc_retained_at = Some 0, dc_removed_at = None, dc_access_version = 0,
        dc_public_copy = None, dc_uploaded_at = 0\<rparr>]\<rparr>"

definition example_document :: document where
  "example_document = hd (documents example_court_db)"

definition example_participant_user :: user where
  "example_participant_user = hd (users example_court_db)"

lemmas example_defs = example_court_db_def example_document_def example_participant_user_def
  empty_db_def

theorem sealed_document_readers_witness:
  "may_read_document example_court_db (Some example_participant_user) example_document"
  by (rule sealed_document_readers [where f = "hd (filings example_court_db)"
        and c = "hd (cases example_court_db)" and cid = 7, THEN iffD2])
    (simp_all add: example_defs is_court_staff_def find_filing_def private_document_types_def counsel_roles_def)

text \<open>An account that may file on a case is active, is not a public account, can read the case
  (sealed or not) and has an active, access-enabled participant record on it that court staff have
  reviewed; a counsel record counts only with the account's verified bar number.\<close>
theorem filing_needs_reviewed_participation:
  assumes "may_file_on_case db u cid"
  shows "us_active u \<and> us_type u \<noteq> PublicUser \<and> may_read_case db (Some u) cid
    \<and> (\<exists>p \<in> set (participants db). pt_case p = cid \<and> pt_user p = Some (us_id u) \<and> pt_active p
         \<and> pt_access p \<and> pt_reviewed_at p \<noteq> None
         \<and> (pt_role p \<in> set counsel_roles \<longrightarrow>
              us_type u = Attorney \<and> us_bar_verified u \<and> us_bar_number u \<noteq> None
              \<and> pt_bar_number p = us_bar_number u))"
  using assms
  by (auto simp: may_file_on_case_def has_filing_grant_def counsel_eligible_def truthy_def
      split: if_splits)

theorem filing_needs_reviewed_participation_witness:
  "us_active example_participant_user \<and> may_file_on_case example_court_db example_participant_user 7
   \<and> may_read_case example_court_db (Some example_participant_user) 7"
proof -
  have h: "may_file_on_case example_court_db example_participant_user 7"
    by (simp add: example_defs may_file_on_case_def has_filing_grant_def may_read_case_def
        case_visible_def participant_grant_def counsel_roles_def)
  show ?thesis using h filing_needs_reviewed_participation [OF h] by simp
qed

end
