(* ===== verification/Calendar.thy ===== *)
theory Calendar
  imports Access
begin

text \<open>
  Court calendars and the filing date of a receipt (\<open>services/court_calendar_service.py\<close>): the
  first open day of the court, in the court's own time zone, on or after the day the filing was
  received. The loop over at most 367 days is a recursion with that fuel.
\<close>

section \<open>The assessment\<close>

record assessment =
  as_filing_date :: "date option"
  as_timezone :: "string option"
  as_local_date :: "date option"
  as_calendar_ids :: "int list"
  as_skipped :: "(date \<times> string) list"
  as_error :: "calendar_refusal option"

definition empty_assessment :: assessment where
  "empty_assessment = \<lparr>as_filing_date = None, as_timezone = None, as_local_date = None,
     as_calendar_ids = [], as_skipped = [], as_error = None\<rparr>"

fun calendar_error_text :: "calendar_refusal \<Rightarrow> string" where
  "calendar_error_text No_calendar_covers = ''No published court calendar covers the received date''"
| "calendar_error_text Coverage_unresolved =
     ''Calendar coverage or timezone is unresolved before the next business day''"
| "calendar_error_text No_business_day_within_year =
     ''No business day found within a year; court review is required''"

definition assessment_json :: "assessment \<Rightarrow> json" where
  "assessment_json r = JObj
     [(''filing_date'', jopt JDate (as_filing_date r)),
      (''timezone'', jopt JStr (as_timezone r)),
      (''local_received_date'', jopt JDate (as_local_date r)),
      (''calendar_ids'', JArr (map JInt (as_calendar_ids r))),
      (''skipped_dates'', JArr (map (\<lambda>(d, why). JArr [JDate d, JStr why]) (as_skipped r))),
      (''error'', jopt (\<lambda>x. JStr (calendar_error_text x)) (as_error r))]"

definition may_publish_calendar :: "db \<Rightarrow> int option \<Rightarrow> int \<Rightarrow> bool" where
  "may_publish_calendar db uid court =
     (case uid of
        None \<Rightarrow> False
      | Some u \<Rightarrow> \<exists>r \<in> set (court_roles db). ur_user r = u \<and> ur_court r = court
          \<and> ur_role r \<in> {AdminRole, JudgeRole})"

section \<open>Assessing a receipt\<close>

definition covers :: "calendar \<Rightarrow> date \<Rightarrow> bool" where
  "covers c d \<longleftrightarrow> ca_from c \<le> d \<and> d \<le> ca_through c"

definition calendar_on :: "calendar list \<Rightarrow> date \<Rightarrow> calendar option" where
  "calendar_on cals d = List.find (\<lambda>c. covers c d) cals"

fun assess_days :: "nat \<Rightarrow> calendar list \<Rightarrow> string \<Rightarrow> date \<Rightarrow> assessment \<Rightarrow> assessment" where
  "assess_days 0 cals tz day r = r\<lparr>as_error := Some No_business_day_within_year\<rparr>"
| "assess_days (Suc n) cals tz day r =
     (case calendar_on cals day of
        None \<Rightarrow> r\<lparr>as_error := Some Coverage_unresolved\<rparr>
      | Some c \<Rightarrow>
          if ca_timezone c \<noteq> tz then r\<lparr>as_error := Some Coverage_unresolved\<rparr>
          else
            let r1 = (if ca_id c \<in> set (as_calendar_ids r) then r
                      else r\<lparr>as_calendar_ids := as_calendar_ids r @ [ca_id c]\<rparr>);
                reason = map_of (ca_closed c) day
            in if reason = None \<and> weekday day < 5 then r1\<lparr>as_filing_date := Some day\<rparr>
               else assess_days n cals tz (day + 1)
                      (r1\<lparr>as_skipped := as_skipped r1 @ [(day, or_text reason ''Weekend'')]\<rparr>))"

definition initial_calendar :: "(string \<Rightarrow> datetime \<Rightarrow> date) \<Rightarrow> calendar list \<Rightarrow> datetime \<Rightarrow> calendar option" where
  "initial_calendar zone cals t = List.find (\<lambda>c. covers c (zone (ca_timezone c) t)) cals"

definition assess_date :: "(string \<Rightarrow> datetime \<Rightarrow> date) \<Rightarrow> calendar list \<Rightarrow> datetime \<Rightarrow> assessment" where
  "assess_date zone cals t =
     (case initial_calendar zone cals t of
        None \<Rightarrow> empty_assessment\<lparr>as_error := Some No_calendar_covers\<rparr>
      | Some i \<Rightarrow>
          let local = zone (ca_timezone i) t
          in assess_days 367 cals (ca_timezone i) local
               (empty_assessment\<lparr>as_timezone := Some (ca_timezone i), as_local_date := Some local\<rparr>))"

definition court_calendars :: "db \<Rightarrow> int \<Rightarrow> calendar list" where
  "court_calendars db court =
     rev (sort_key ca_id (filter (\<lambda>c. ca_court c = court) (calendars db)))"

definition filing_date_for_receipt :: "env \<Rightarrow> db \<Rightarrow> int \<Rightarrow> datetime \<Rightarrow> assessment" where
  "filing_date_for_receipt e db court t =
     (let day = utc_date t;
          cals = filter (\<lambda>c. ca_court c = court \<and> ca_through c \<ge> day - 1 \<and> ca_from c \<le> day + 367)
                   (calendars db)
      in assess_date (zone_date e) (rev (sort_key ca_id cals)) t)"

section \<open>Lemmas\<close>

lemma find_filter_weaker:
  assumes "\<And>x. x \<in> set xs \<Longrightarrow> P x \<Longrightarrow> Q x"
  shows "List.find P (filter Q xs) = List.find P xs"
  using assms by (induction xs) auto

lemma calendar_on_covers: "calendar_on cals d = Some c \<Longrightarrow> c \<in> set cals \<and> covers c d"
  unfolding calendar_on_def by (induction cals) (auto split: if_splits)

lemma calendar_on_filter:
  assumes "\<And>c. c \<in> set cals \<Longrightarrow> covers c d \<Longrightarrow> Q c"
  shows "calendar_on (filter Q cals) d = calendar_on cals d"
  unfolding calendar_on_def using assms by (rule find_filter_weaker)

lemma assess_days_cong:
  assumes "\<And>d. day \<le> d \<Longrightarrow> d < day + int n \<Longrightarrow> calendar_on cals' d = calendar_on cals d"
  shows "assess_days n cals' tz day r = assess_days n cals tz day r"
  using assms
proof (induction n arbitrary: day r)
  case (Suc n)
  have "calendar_on cals' day = calendar_on cals day"
    using Suc.prems [of day] by simp
  moreover have "\<And>r. assess_days n cals' tz (day + 1) r = assess_days n cals tz (day + 1) r"
    by (rule Suc.IH) (use Suc.prems in auto)
  ultimately show ?case by (auto simp: Let_def split: option.splits)
qed simp

text \<open>What the loop returns: either an error and no date, or a date within the fuel.\<close>

definition open_day :: "calendar list \<Rightarrow> string \<Rightarrow> date \<Rightarrow> bool" where
  "open_day cals tz d \<longleftrightarrow>
     (\<exists>c. calendar_on cals d = Some c \<and> ca_timezone c = tz \<and> map_of (ca_closed c) d = None \<and> weekday d < 5)"

definition closed_day :: "calendar list \<Rightarrow> string \<Rightarrow> date \<Rightarrow> bool" where
  "closed_day cals tz d \<longleftrightarrow>
     (\<exists>c. calendar_on cals d = Some c \<and> ca_timezone c = tz
        \<and> (map_of (ca_closed c) d \<noteq> None \<or> 5 \<le> weekday d))"

lemma open_not_closed: "open_day cals tz d \<Longrightarrow> \<not> closed_day cals tz d"
  by (auto simp: open_day_def closed_day_def)

lemma assess_days_open:
  assumes "open_day cals tz day" and "0 < n"
  shows "as_filing_date (assess_days n cals tz day r) = Some day
    \<and> as_skipped (assess_days n cals tz day r) = as_skipped r
    \<and> as_error (assess_days n cals tz day r) = as_error r"
  using assms by (cases n) (auto simp: open_day_def Let_def)

lemma assess_days_closed:
  assumes "closed_day cals tz day"
  shows "\<exists>r1 why. as_skipped r1 = as_skipped r @ [(day, why)] \<and> as_filing_date r1 = as_filing_date r
    \<and> as_error r1 = as_error r \<and> as_local_date r1 = as_local_date r
    \<and> assess_days (Suc n) cals tz day r = assess_days n cals tz (day + 1) r1"
proof -
  from assms obtain c where c: "calendar_on cals day = Some c" "ca_timezone c = tz"
    "map_of (ca_closed c) day \<noteq> None \<or> 5 \<le> weekday day"
    by (auto simp: closed_day_def)
  let ?r1 = "if ca_id c \<in> set (as_calendar_ids r) then r
    else r\<lparr>as_calendar_ids := as_calendar_ids r @ [ca_id c]\<rparr>"
  have "assess_days (Suc n) cals tz day r = assess_days n cals tz (day + 1)
    (?r1\<lparr>as_skipped := as_skipped ?r1 @ [(day, or_text (map_of (ca_closed c) day) ''Weekend'')]\<rparr>)"
    using c by (auto simp: Let_def)
  then show ?thesis
    by (intro exI [of _ "?r1\<lparr>as_skipped := as_skipped ?r1 @
          [(day, or_text (map_of (ca_closed c) day) ''Weekend'')]\<rparr>"]) auto
qed

lemma assess_days_stuck:
  assumes "\<not> open_day cals tz day" and "\<not> closed_day cals tz day"
  shows "assess_days (Suc n) cals tz day r = r\<lparr>as_error := Some Coverage_unresolved\<rparr>"
  using assms by (auto simp: open_day_def closed_day_def not_less split: option.splits)

lemma assess_days_date:
  assumes "as_filing_date r = None" and "as_filing_date (assess_days n cals tz day r) = Some d"
  shows "day \<le> d \<and> d < day + int n \<and> open_day cals tz d
    \<and> (\<forall>x. day \<le> x \<and> x < d \<longrightarrow> closed_day cals tz x)
    \<and> map fst (as_skipped (assess_days n cals tz day r)) = map fst (as_skipped r) @ [day..d - 1]
    \<and> as_error (assess_days n cals tz day r) = as_error r"
  using assms
proof (induction n arbitrary: day r)
  case (Suc n)
  consider "open_day cals tz day" | "closed_day cals tz day"
    | "\<not> open_day cals tz day" "\<not> closed_day cals tz day" by blast
  then show ?case
  proof cases
    case 1
    with assess_days_open [OF 1, of "Suc n" r] Suc.prems show ?thesis by auto
  next
    case 2
    then obtain r1 why where r1: "as_skipped r1 = as_skipped r @ [(day, why)]"
      "as_filing_date r1 = None" "as_error r1 = as_error r"
      "assess_days (Suc n) cals tz day r = assess_days n cals tz (day + 1) r1"
      using assess_days_closed [OF 2, of r n] Suc.prems(1) by auto
    with Suc.IH [of r1 "day + 1"] Suc.prems(2)
    have ih: "day + 1 \<le> d" "d < day + 1 + int n" "open_day cals tz d"
      "\<forall>x. day + 1 \<le> x \<and> x < d \<longrightarrow> closed_day cals tz x"
      "map fst (as_skipped (assess_days n cals tz (day + 1) r1)) = map fst (as_skipped r1) @ [day + 1..d - 1]"
      "as_error (assess_days n cals tz (day + 1) r1) = as_error r1" by simp_all
    moreover have "[day..d - 1] = day # [day + 1..d - 1]"
      using ih(1) by (simp add: upto_rec1)
    moreover have "\<forall>x. day \<le> x \<and> x < d \<longrightarrow> closed_day cals tz x"
      using ih(4) 2 by (metis order_le_less zless_imp_add1_zle)
    ultimately show ?thesis using r1 by simp
  next
    case 3
    with assess_days_stuck [OF 3, of n r] Suc.prems show ?thesis by simp
  qed
qed simp

lemma assess_days_error:
  assumes "as_filing_date r = None" and "as_filing_date (assess_days n cals tz day r) = None"
  shows "as_error (assess_days n cals tz day r) \<noteq> None"
  using assms
proof (induction n arbitrary: day r)
  case (Suc n)
  consider "open_day cals tz day" | "closed_day cals tz day"
    | "\<not> open_day cals tz day" "\<not> closed_day cals tz day" by blast
  then show ?case
  proof cases
    case 1
    with assess_days_open [OF 1, of "Suc n" r] Suc.prems show ?thesis by simp
  next
    case 2
    then obtain r1 where "as_filing_date r1 = None"
      "assess_days (Suc n) cals tz day r = assess_days n cals tz (day + 1) r1"
      using assess_days_closed [OF 2, of r n] Suc.prems(1) by auto
    with Suc.IH [of r1 "day + 1"] Suc.prems(2) show ?thesis by simp
  next
    case 3
    with assess_days_stuck [OF 3, of n r] show ?thesis by simp
  qed
qed simp

lemma assess_days_finds:
  assumes "day \<le> d" and "d < day + int n" and "open_day cals tz d"
    and "\<And>x. day \<le> x \<Longrightarrow> x < d \<Longrightarrow> closed_day cals tz x"
  shows "as_filing_date (assess_days n cals tz day r) = Some d"
  using assms
proof (induction n arbitrary: day r)
  case (Suc n)
  show ?case
  proof (cases "d = day")
    case True
    with Suc.prems(3) assess_days_open show ?thesis by blast
  next
    case False
    with Suc.prems have "closed_day cals tz day" by auto
    then obtain r1 where r1: "assess_days (Suc n) cals tz day r = assess_days n cals tz (day + 1) r1"
      using assess_days_closed by blast
    have "as_filing_date (assess_days n cals tz (day + 1) r1) = Some d"
      by (rule Suc.IH) (use Suc.prems False in auto)
    with r1 show ?thesis by simp
  qed
qed simp

lemma assess_date_run:
  "initial_calendar zone cals t = Some i \<Longrightarrow>
   assess_date zone cals t = assess_days 367 cals (ca_timezone i) (zone (ca_timezone i) t)
     (empty_assessment\<lparr>as_timezone := Some (ca_timezone i),
        as_local_date := Some (zone (ca_timezone i) t)\<rparr>)"
  by (simp add: assess_date_def Let_def)

lemma assess_date_none:
  "initial_calendar zone cals t = None \<Longrightarrow>
   assess_date zone cals t = empty_assessment\<lparr>as_error := Some No_calendar_covers\<rparr>"
  by (simp add: assess_date_def)

lemma assess_date_dichotomy:
  "as_filing_date (assess_date zone cals t) = None \<longleftrightarrow> as_error (assess_date zone cals t) \<noteq> None"
proof (cases "initial_calendar zone cals t")
  case None
  then show ?thesis by (simp add: assess_date_none empty_assessment_def)
next
  case (Some i)
  let ?r = "empty_assessment\<lparr>as_timezone := Some (ca_timezone i),
    as_local_date := Some (zone (ca_timezone i) t)\<rparr>"
  let ?run = "assess_days 367 cals (ca_timezone i) (zone (ca_timezone i) t) ?r"
  have r: "as_filing_date ?r = None" "as_error ?r = None" by (simp_all add: empty_assessment_def)
  have "as_filing_date ?run = None \<longleftrightarrow> as_error ?run \<noteq> None"
  proof (cases "as_filing_date ?run")
    case None
    with assess_days_error [OF r(1) None] show ?thesis by simp
  next
    case (Some d)
    with assess_days_date [OF r(1) Some] r(2) show ?thesis by simp
  qed
  with Some show ?thesis by (simp add: assess_date_run)
qed

lemma assess_date_cong:
  assumes "initial_calendar zone cals' t = initial_calendar zone cals t"
    and "\<And>i d. initial_calendar zone cals t = Some i \<Longrightarrow> zone (ca_timezone i) t \<le> d \<Longrightarrow>
      d < zone (ca_timezone i) t + 367 \<Longrightarrow> calendar_on cals' d = calendar_on cals d"
  shows "assess_date zone cals' t = assess_date zone cals t"
proof (cases "initial_calendar zone cals t")
  case None
  with assms(1) show ?thesis by (simp add: assess_date_none)
next
  case (Some i)
  with assms have "\<And>r. assess_days 367 cals' (ca_timezone i) (zone (ca_timezone i) t) r
      = assess_days 367 cals (ca_timezone i) (zone (ca_timezone i) t) r"
    by (intro assess_days_cong) auto
  with Some assms(1) show ?thesis by (simp add: assess_date_run)
qed

section \<open>Properties\<close>

text \<open>C17: an assessed filing date is the first open day of the court on or after the day of receipt
  in the court's time zone: not a weekend, not a closed date of the governing calendar, within 367
  days; every earlier day is closed under a calendar of the same time zone and is exactly what the
  assessment lists as skipped; and no error is reported.\<close>
theorem filing_date_is_first_open_day:
  assumes "as_filing_date (assess_date zone cals t) = Some d"
  shows "\<exists>i local. initial_calendar zone cals t = Some i \<and> local = zone (ca_timezone i) t
    \<and> local \<le> d \<and> d < local + 367 \<and> open_day cals (ca_timezone i) d
    \<and> (\<forall>x. local \<le> x \<and> x < d \<longrightarrow> closed_day cals (ca_timezone i) x)
    \<and> map fst (as_skipped (assess_date zone cals t)) = [local..d - 1]
    \<and> as_error (assess_date zone cals t) = None"
proof -
  from assms obtain i where i: "initial_calendar zone cals t = Some i"
    by (cases "initial_calendar zone cals t") (auto simp: assess_date_def empty_assessment_def)
  define r where "r = empty_assessment\<lparr>as_timezone := Some (ca_timezone i),
    as_local_date := Some (zone (ca_timezone i) t)\<rparr>"
  have run: "assess_date zone cals t = assess_days 367 cals (ca_timezone i) (zone (ca_timezone i) t) r"
    using i by (simp add: assess_date_run r_def)
  have r: "as_filing_date r = None" "as_skipped r = []" "as_error r = None"
    by (simp_all add: r_def empty_assessment_def)
  show ?thesis
    using assess_days_date [OF r(1), of 367 cals "ca_timezone i" "zone (ca_timezone i) t" d]
      assms i r(2,3) by (auto simp: run)
qed

definition example_calendar :: calendar where
  "example_calendar = \<lparr>ca_id = 1, ca_court = 3, ca_timezone = ''America/Detroit'', ca_from = 739616,
     ca_through = 739981, ca_closed = [(739617, ''New Year'')], ca_authority = ''AO'',
     ca_published_by = 2, ca_published_at = 0\<rparr>"

definition example_zone :: "string \<Rightarrow> datetime \<Rightarrow> date" where
  "example_zone tz t = utc_date (t - 18000000000)"

lemma example_initial:
  "initial_calendar example_zone [example_calendar] 1767290400000000 = Some example_calendar"
  by (simp add: initial_calendar_def example_zone_def utc_date_def covers_def example_calendar_def)

lemma example_closed:
  "example_zone (ca_timezone example_calendar) 1767290400000000 \<le> x \<Longrightarrow> x < 739618 \<Longrightarrow>
   closed_day [example_calendar] (ca_timezone example_calendar) x"
proof -
  assume "example_zone (ca_timezone example_calendar) 1767290400000000 \<le> x" and "x < 739618"
  then have "x = 739617" by (simp add: example_zone_def utc_date_def)
  then show ?thesis
    by (simp add: closed_day_def calendar_on_def covers_def example_calendar_def)
qed

lemma example_open: "open_day [example_calendar] (ca_timezone example_calendar) 739618"
  by (simp add: open_day_def calendar_on_def covers_def example_calendar_def weekday_def)

lemma example_local: "example_zone (ca_timezone example_calendar) 1767290400000000 = 739617"
  by (simp add: example_zone_def utc_date_def)

lemma example_assessment:
  "as_filing_date (assess_date example_zone [example_calendar] 1767290400000000) = Some 739618"
  unfolding assess_date_run [OF example_initial]
  by (rule assess_days_finds [OF _ _ example_open example_closed]) (simp_all add: example_local)

theorem filing_date_is_first_open_day_witness:
  "\<exists>i local. initial_calendar example_zone [example_calendar] 1767290400000000 = Some i
    \<and> local = example_zone (ca_timezone i) 1767290400000000
    \<and> local \<le> 739618 \<and> 739618 < local + 367 \<and> open_day [example_calendar] (ca_timezone i) 739618
    \<and> (\<forall>x. local \<le> x \<and> x < 739618 \<longrightarrow> closed_day [example_calendar] (ca_timezone i) x)
    \<and> map fst (as_skipped (assess_date example_zone [example_calendar] 1767290400000000)) = [local..739618 - 1]
    \<and> as_error (assess_date example_zone [example_calendar] 1767290400000000) = None"
  by (rule filing_date_is_first_open_day [OF example_assessment])

text \<open>The assessment is complete: when the received day is covered and an open day lies within
  367 days with only closed days of the same time zone before it, that day is the filing date;
  and whenever no date is assessed an error is reported.\<close>
theorem assessment_complete:
  assumes "initial_calendar zone cals t = Some i"
    and "zone (ca_timezone i) t \<le> d" and "d < zone (ca_timezone i) t + 367"
    and "open_day cals (ca_timezone i) d"
    and "\<And>x. zone (ca_timezone i) t \<le> x \<Longrightarrow> x < d \<Longrightarrow> closed_day cals (ca_timezone i) x"
  shows "as_filing_date (assess_date zone cals t) = Some d"
  using assms assess_days_finds [of "zone (ca_timezone i) t" d 367 cals "ca_timezone i"]
  by (simp add: assess_date_run)

theorem assessment_complete_witness:
  "as_filing_date (assess_date example_zone [example_calendar] 1767290400000000) = Some 739618"
  by (rule assessment_complete [OF example_initial _ _ example_open example_closed])
    (simp_all add: example_local)

text \<open>Reading only the calendars around the received day loses nothing: with a time zone
  database whose local date is at most one day from the UTC date, the assessment over the queried
  window equals the assessment over all the calendars the court ever published.\<close>
theorem calendar_window_suffices:
  assumes "\<And>tz. utc_date t - 1 \<le> zone_date e tz t \<and> zone_date e tz t \<le> utc_date t + 1"
  shows "filing_date_for_receipt e db court t
    = assess_date (zone_date e) (court_calendars db court) t"
proof -
  let ?W = "\<lambda>c. ca_through c \<ge> utc_date t - 1 \<and> ca_from c \<le> utc_date t + 367"
  let ?all = "court_calendars db court"
  have "filing_date_for_receipt e db court t = assess_date (zone_date e) (filter ?W ?all) t"
    by (simp add: filing_date_for_receipt_def court_calendars_def Let_def rev_filter [symmetric]
        filter_sort conj_ac)
  also have "\<dots> = assess_date (zone_date e) ?all t"
  proof (rule assess_date_cong)
    show "initial_calendar (zone_date e) (filter ?W ?all) t = initial_calendar (zone_date e) ?all t"
      unfolding initial_calendar_def
    proof (rule find_filter_weaker)
      fix c assume "covers c (zone_date e (ca_timezone c) t)"
      with assms [of "ca_timezone c"] show "?W c" by (simp add: covers_def)
    qed
  next
    fix i d
    assume "zone_date e (ca_timezone i) t \<le> d" and "d < zone_date e (ca_timezone i) t + 367"
    with assms [of "ca_timezone i"] show "calendar_on (filter ?W ?all) d = calendar_on ?all d"
      by (intro calendar_on_filter) (simp add: covers_def)
  qed
  finally show ?thesis .
qed

definition example_settings :: settings where
  "example_settings = \<lparr>st_debug = False, st_allow_demo = True, st_payments_simulated = True,
     st_external_payments = True, st_email_enabled = False, st_service_enabled = False,
     st_portal_base_url = ''https://x'', st_smtp_host = [], st_smtp_port = 587,
     st_smtp_tls = StartTls, st_smtp_username = [], st_smtp_from = [],
     st_max_file_mb = 100, st_clamav_enabled = False, st_strict_mime = None\<rparr>"

definition example_env :: env where
  "example_env = \<lparr>cfg = example_settings, now = 1767290400000000, zone_date = example_zone,
     stored = (\<lambda>k. Stored ''h'' 1), digest = (\<lambda>j. []), iso_time = (\<lambda>t. ''now''),
     new_key = (\<lambda>ks. 1 + sum_list (map abs ks)),
     new_uuid = (\<lambda>us. replicate (1 + sum_list (map length us)) (CHR ''u'')),
     split_url = (\<lambda>u. \<lparr>ur_scheme = ''https'', ur_hostname = Some ''x'', ur_username = None,
       ur_password = None, ur_path = [], ur_query = [], ur_fragment = []\<rparr>),
     check_address = AsciiAddress, make_message_id = (\<lambda>d t i. dec i @ ''@'' @ d), client_ip = None,
     client_agent = None\<rparr>"

theorem calendar_window_suffices_witness:
  "filing_date_for_receipt example_env (empty_db\<lparr>calendars := [example_calendar]\<rparr>) 3 1767290400000000
    = assess_date (zone_date example_env)
        (court_calendars (empty_db\<lparr>calendars := [example_calendar]\<rparr>) 3) 1767290400000000"
  by (rule calendar_window_suffices) (simp add: example_env_def example_zone_def utc_date_def)

lemma sum_list_abs_nonneg: "0 \<le> sum_list (map abs (ks :: int list))"
  by (induction ks) auto

lemma abs_le_sum_list: "k \<in> set ks \<Longrightarrow> \<bar>k\<bar> \<le> sum_list (map abs (ks :: int list))"
  by (induction ks) (auto intro: add_increasing simp: sum_list_abs_nonneg)

lemma length_le_sum_list: "u \<in> set us \<Longrightarrow> length u \<le> sum_list (map length us)"
  by (induction us) auto

lemma example_env_fresh: "fresh_keys example_env"
proof -
  have "1 + sum_list (map abs ks) \<notin> set ks" for ks :: "int list"
    using abs_le_sum_list [of "1 + sum_list (map abs ks)" ks] sum_list_abs_nonneg [of ks] by auto
  moreover have "replicate (1 + sum_list (map length us)) (CHR ''u'') \<notin> set us" for us :: "string list"
    using length_le_sum_list [of "replicate (1 + sum_list (map length us)) (CHR ''u'')" us] by auto
  ultimately show ?thesis
    using sum_list_abs_nonneg by (auto simp: fresh_keys_def example_env_def add_pos_nonneg)
qed

end
