(* ===== verification/Fees.thy ===== *)
theory Fees
  imports Calendar "HOL-Library.List_Lexorder" "HOL-Library.Char_ord"
begin

text \<open>
  The fees of a filing (\<open>services/fee_assessment_service.py\<close>, \<open>schemas/payment.py\<close>) and the
  state of its waiver request (\<open>services/fee_waiver_service.py\<close>): what is owed and on whose
  authority, what is paid, and who may act on it. Amounts are integers of cents.
\<close>

section \<open>Fee items\<close>

record fee_item =
  fi_type :: string
  fi_cents :: int
  fi_description :: string

definition fee_item_json :: "fee_item \<Rightarrow> json" where
  "fee_item_json i = JObj
     [(''fee_type'', JStr (fi_type i)), (''amount_cents'', JInt (fi_cents i)),
      (''description'', JStr (fi_description i))]"

definition valid_fee_text :: "nat \<Rightarrow> string \<Rightarrow> bool" where
  "valid_fee_text n s \<longleftrightarrow> 1 \<le> length s \<and> length s \<le> n \<and> str_strip s \<noteq> []"

definition valid_fee_item :: "fee_item \<Rightarrow> bool" where
  "valid_fee_item i \<longleftrightarrow> valid_fee_text 100 (fi_type i) \<and> 0 \<le> fi_cents i \<and> fi_cents i \<le> 100000000
     \<and> valid_fee_text 1000 (fi_description i)"

definition parse_fee_item :: "json \<Rightarrow> fee_item option" where
  "parse_fee_item j =
     (case (Option.bind (jget ''fee_type'' j) json_str, Option.bind (jget ''amount_cents'' j) json_int,
            Option.bind (jget ''description'' j) json_str) of
        (Some ty, Some c, Some d) \<Rightarrow>
          let i = \<lparr>fi_type = ty, fi_cents = c, fi_description = d\<rparr>
          in if valid_fee_item i
             then Some (i\<lparr>fi_type := str_strip ty, fi_description := str_strip d\<rparr>) else None
      | _ \<Rightarrow> None)"

fun all_some :: "'a option list \<Rightarrow> 'a list option" where
  "all_some [] = Some []"
| "all_some (None # xs) = None"
| "all_some (Some x # xs) = map_option (\<lambda>ys. x # ys) (all_some xs)"

section \<open>The fee state\<close>

datatype fee_source = CourtFee | WaiverFee | ServiceOnlyFee | DemoFee | Unassessed

fun source_value :: "fee_source \<Rightarrow> string" where
  "source_value CourtFee = ''court''"
| "source_value WaiverFee = ''waiver''"
| "source_value ServiceOnlyFee = ''service_only''"
| "source_value DemoFee = ''demo''"
| "source_value Unassessed = ''unassessed''"

record fee_state =
  fs_filing :: int
  fs_version :: int
  fs_payment_version :: int
  fs_source :: fee_source
  fs_assessment_id :: "string option"
  fs_authority :: "json option"
  fs_items :: "fee_item list"
  fs_total :: "int option"
  fs_paid :: int
  fs_balance :: "int option"
  fs_overpaid :: int
  fs_review_at :: "datetime option"
  fs_review_reason :: "json option"
  fs_stale :: bool
  fs_can_request_review :: bool
  fs_can_assess :: bool
  fs_can_pay :: bool
  fs_can_request_waiver :: bool
  fs_obligation_met :: bool
  fs_simulated :: bool
  fs_can_manage_external :: bool
  fs_can_record_external :: bool

definition counts_as_paid :: "env \<Rightarrow> envelope \<Rightarrow> payment \<Rightarrow> bool" where
  "counts_as_paid e f p \<longleftrightarrow>
     py_envelope p = Some (fe_id f) \<and> py_status p = PayCompleted \<and> py_payer p = Some (fe_filer f)
     \<and> 0 < py_amount p \<and> (st_allow_demo (cfg e) \<or> \<not> py_simulated p)"

definition paid_cents :: "env \<Rightarrow> db \<Rightarrow> envelope \<Rightarrow> int" where
  "paid_cents e db f = sum_list (map py_amount (filter (counts_as_paid e f) (payments db)))"

definition find_assessment :: "db \<Rightarrow> envelope \<Rightarrow> txn option" where
  "find_assessment db f =
     (case fe_fee_assessment f of
        None \<Rightarrow> None
      | Some a \<Rightarrow> if a = [] then None
          else List.find (\<lambda>t. tx_id t = a \<and> tx_filing t = fe_id f \<and> tx_event t = ''fee_assessed'')
                 (transactions db))"

definition assessment_stale :: "envelope \<Rightarrow> txn option \<Rightarrow> bool" where
  "assessment_stale f a \<longleftrightarrow> fe_fee_assessment f \<noteq> None
     \<and> (case a of None \<Rightarrow> True | Some t \<Rightarrow> jget ''filing_version'' (tx_details t) \<noteq> Some (JInt (fe_fee_version f)))"

definition latest_review_reason :: "db \<Rightarrow> envelope \<Rightarrow> json option" where
  "latest_review_reason db f =
     (case rev (sort_key tx_occurred_at (sort_key tx_id
        (filter (\<lambda>t. tx_filing t = fe_id f \<and> tx_event t = ''fee_review_requested'') (transactions db)))) of
        [] \<Rightarrow> None | t # _ \<Rightarrow> jget ''reason'' (tx_details t))"

text \<open>The source of the obligation: its kind, total, authority and items.\<close>

record fee_basis =
  fb_source :: fee_source
  fb_total :: "int option"
  fb_authority :: "json option"
  fb_items :: "fee_item list"

definition unassessed_basis :: fee_basis where
  "unassessed_basis = \<lparr>fb_source = Unassessed, fb_total = None, fb_authority = None, fb_items = []\<rparr>"

definition one_item :: "string \<Rightarrow> int \<Rightarrow> string \<Rightarrow> fee_item" where
  "one_item ty c d = \<lparr>fi_type = ty, fi_cents = c, fi_description = d\<rparr>"

definition court_basis :: "txn \<Rightarrow> failure + fee_basis" where
  "court_basis a =
     (case (Option.bind (jget ''total_cents'' (tx_details a)) json_int,
            jget ''authority_reference'' (tx_details a),
            Option.bind (Option.bind (jget ''items'' (tx_details a)) json_arr)
              (\<lambda>js. all_some (map parse_fee_item js))) of
        (Some t, Some auth, Some its) \<Rightarrow>
          Inr \<lparr>fb_source = CourtFee, fb_total = Some t, fb_authority = Some auth, fb_items = its\<rparr>
      | _ \<Rightarrow> Inl InternalError)"

definition demo_basis :: "db \<Rightarrow> envelope \<Rightarrow> fee_basis" where
  "demo_basis db f =
     (case row_at ty_id (fe_case_type f) (case_types db) of
        None \<Rightarrow> unassessed_basis
      | Some ty \<Rightarrow>
          if fe_type f = ''initial'' \<or> ty_fee_cents ty = 0
          then unassessed_basis\<lparr>fb_source := DemoFee, fb_total := Some (ty_fee_cents ty),
                 fb_items := [one_item ''demo_example'' (ty_fee_cents ty)
                   ''Synthetic example amount, not court assessed'']\<rparr>
          else unassessed_basis)"

definition fee_basis_of :: "env \<Rightarrow> db \<Rightarrow> envelope \<Rightarrow> failure + fee_basis" where
  "fee_basis_of e db f =
     (let a = find_assessment db f; stale = assessment_stale f a in
      if fe_type f = ''service_only'' then
        Inr (unassessed_basis\<lparr>fb_source := ServiceOnlyFee, fb_total := Some 0\<rparr>)
      else if fe_waiver_granted f = Some True then
        Inr (unassessed_basis\<lparr>fb_source := WaiverFee, fb_total := Some 0\<rparr>)
      else if fe_waiver_granted f = Some False \<and> fe_waiver_due_cents f \<noteq> None then
        Inr (unassessed_basis\<lparr>fb_source := WaiverFee, fb_total := fe_waiver_due_cents f,
               fb_items := [one_item ''waiver_decision'' (the (fe_waiver_due_cents f))
                 ''Amount due under the signed fee waiver decision'']\<rparr>)
      else if a \<noteq> None \<and> \<not> stale then court_basis (the a)
      else if fe_fee_assessment f = None \<and> st_allow_demo (cfg e) \<and> fe_fee_review_at f = None
      then Inr (demo_basis db f)
      else Inr unassessed_basis)"

definition waiver_pending :: "envelope \<Rightarrow> bool" where
  "waiver_pending f \<longleftrightarrow> fe_waiver_requested f \<and> fe_waiver_granted f = None"

definition ended :: "envelope \<Rightarrow> bool" where
  "ended f \<longleftrightarrow> fe_status f \<in> {Rejected, Served}"

definition can_manage_fees :: "db \<Rightarrow> envelope \<Rightarrow> int option \<Rightarrow> bool" where
  "can_manage_fees db f uid \<longleftrightarrow> uid = Some (fe_filer f)
     \<and> (case find_user db (fe_filer f) of None \<Rightarrow> False | Some u \<Rightarrow> us_active u \<and> us_type u \<noteq> PublicUser)"

definition fee_state_of :: "env \<Rightarrow> db \<Rightarrow> envelope \<Rightarrow> int option \<Rightarrow> failure + fee_state" where
  "fee_state_of e db f uid =
     then_do (fee_basis_of e db f) (\<lambda>b.
       let a = find_assessment db f;
           paid = paid_cents e db f;
           settled = fb_source b \<in> {WaiverFee, ServiceOnlyFee};
           balance = map_option (\<lambda>t. max 0 (t - paid)) (fb_total b);
           manage = can_manage_fees db f uid;
           reviewable = fe_type f \<noteq> ''service_only'' \<and> \<not> ended f \<and> \<not> fe_waiver_requested f
             \<and> fe_waiver_granted f = None;
           external = st_external_payments (cfg e) \<and> uid \<noteq> None \<and> uid \<noteq> Some (fe_filer f)
             \<and> has_court_administrator_assignment db (the uid) (fe_court f);
           owing = (case balance of None \<Rightarrow> False | Some x \<Rightarrow> 0 < x)
       in Inr
         \<lparr>fs_filing = fe_id f, fs_version = fe_fee_version f, fs_payment_version = fe_payment_version f,
          fs_source = fb_source b,
          fs_assessment_id = (if settled then None else map_option tx_id a),
          fs_authority = fb_authority b, fs_items = fb_items b, fs_total = fb_total b,
          fs_paid = paid, fs_balance = balance,
          fs_overpaid = (case fb_total b of None \<Rightarrow> 0 | Some t \<Rightarrow> max 0 (paid - t)),
          fs_review_at = fe_fee_review_at f,
          fs_review_reason = (if fe_fee_review_at f = None then None else latest_review_reason db f),
          fs_stale = (\<not> settled \<and> assessment_stale f a),
          fs_can_request_review = (reviewable \<and> manage \<and> fe_fee_review_at f = None),
          fs_can_assess = (reviewable \<and> uid \<noteq> Some (fe_filer f) \<and> is_court_staff db uid (fe_court f)),
          fs_can_pay = (manage \<and> owing \<and> \<not> ended f \<and> \<not> waiver_pending f),
          fs_can_request_waiver = (manage \<and> fe_submitted_at f = None \<and> fe_waiver_granted f = None
             \<and> fe_type f \<noteq> ''service_only'' \<and> fe_status f = Draft),
          fs_obligation_met = (balance = Some 0 \<or> waiver_pending f),
          fs_simulated = (st_payments_simulated (cfg e) \<and> st_allow_demo (cfg e)),
          fs_can_manage_external = external,
          fs_can_record_external = (external \<and> fb_source b \<in> {CourtFee, WaiverFee} \<and> owing
             \<and> \<not> ended f \<and> \<not> waiver_pending f)\<rparr>)"

section \<open>The waiver state\<close>

datatype waiver_action = GrantPublicAssistance | GrantLegalServices | Refer | GrantJudicial | DenyJudicial

fun waiver_action_value :: "waiver_action \<Rightarrow> string" where
  "waiver_action_value GrantPublicAssistance = ''grant_public_assistance''"
| "waiver_action_value GrantLegalServices = ''grant_legal_services''"
| "waiver_action_value Refer = ''refer''"
| "waiver_action_value GrantJudicial = ''grant_judicial''"
| "waiver_action_value DenyJudicial = ''deny_judicial''"

definition has_role :: "db \<Rightarrow> int \<Rightarrow> int \<Rightarrow> court_role \<Rightarrow> bool" where
  "has_role db uid court role \<longleftrightarrow>
     (\<exists>r \<in> set (court_roles db). ur_user r = uid \<and> ur_court r = court \<and> ur_role r = role)"

definition waiver_actions :: "db \<Rightarrow> envelope \<Rightarrow> int \<Rightarrow> waiver_action list" where
  "waiver_actions db f uid =
     (if waiver_pending f \<and> fe_submitted_at f \<noteq> None \<and> fe_filer f \<noteq> uid \<and> \<not> ended f
      then (if has_role db uid (fe_court f) JudgeRole then [GrantJudicial, DenyJudicial] else [])
        @ (if has_role db uid (fe_court f) ClerkRole \<and> fe_waiver_referred_at f = None
           then [GrantPublicAssistance, GrantLegalServices, Refer] else [])
      else [])"

record waiver_state =
  ws_granted :: "bool option"
  ws_referred_at :: "datetime option"
  ws_decided_at :: "datetime option"
  ws_due_cents :: "int option"
  ws_balance :: "int option"
  ws_fee_version :: int
  ws_can_pay :: bool
  ws_actions :: "waiver_action list"
  ws_simulated :: bool

definition waiver_state_of :: "env \<Rightarrow> db \<Rightarrow> envelope \<Rightarrow> int \<Rightarrow> failure + waiver_state" where
  "waiver_state_of e db f uid =
     then_do (fee_state_of e db f (Some uid)) (\<lambda>s. Inr
       \<lparr>ws_granted = fe_waiver_granted f, ws_referred_at = fe_waiver_referred_at f,
        ws_decided_at = fe_waiver_decided_at f, ws_due_cents = fe_waiver_due_cents f,
        ws_balance = fs_balance s, ws_fee_version = fs_version s,
        ws_can_pay = (fe_waiver_granted f = Some False \<and> fs_can_pay s),
        ws_actions = waiver_actions db f uid, ws_simulated = fs_simulated s\<rparr>)"

section \<open>Lemmas\<close>

lemma paid_cents_nonneg: "0 \<le> paid_cents e db f"
  unfolding paid_cents_def
  by (rule sum_list_nonneg) (auto simp: counts_as_paid_def)

lemma fee_state_basis:
  assumes "fee_state_of e db f uid = Inr s"
  obtains b where "fee_basis_of e db f = Inr b" and "fs_source s = fb_source b"
    and "fs_total s = fb_total b" and "fs_items s = fb_items b"
  using assms by (auto simp: fee_state_of_def then_do_Inr_iff Let_def intro!: that)

lemma fee_state_fields:
  assumes "fee_state_of e db f uid = Inr s"
  shows "fs_version s = fe_fee_version f" "fs_payment_version s = fe_payment_version f"
    "fs_paid s = paid_cents e db f"
    "fs_balance s = map_option (\<lambda>t. max 0 (t - paid_cents e db f)) (fs_total s)"
    "fs_obligation_met s \<longleftrightarrow> fs_balance s = Some 0 \<or> waiver_pending f"
    "fs_overpaid s = (case fs_total s of None \<Rightarrow> 0 | Some t \<Rightarrow> max 0 (paid_cents e db f - t))"
  using assms by (auto simp: fee_state_of_def then_do_Inr_iff Let_def)

lemma fee_state_can_pay:
  assumes "fee_state_of e db f uid = Inr s" and "fs_can_pay s"
  shows "can_manage_fees db f uid \<and> \<not> ended f \<and> \<not> waiver_pending f
    \<and> (\<exists>x. fs_balance s = Some x \<and> 0 < x)"
  using assms by (auto simp: fee_state_of_def then_do_Inr_iff Let_def split: option.splits)

lemma fee_state_can_record:
  assumes "fee_state_of e db f uid = Inr s" and "fs_can_record_external s"
  shows "st_external_payments (cfg e) \<and> uid \<noteq> Some (fe_filer f) \<and> uid \<noteq> None
    \<and> has_court_administrator_assignment db (the uid) (fe_court f)
    \<and> fs_source s \<in> {CourtFee, WaiverFee} \<and> \<not> ended f \<and> \<not> waiver_pending f
    \<and> (\<exists>x. fs_balance s = Some x \<and> 0 < x)"
  using assms by (auto simp: fee_state_of_def then_do_Inr_iff Let_def split: option.splits)

lemma fee_state_can_assess:
  assumes "fee_state_of e db f uid = Inr s" and "fs_can_assess s"
  shows "is_court_staff db uid (fe_court f) \<and> uid \<noteq> Some (fe_filer f) \<and> \<not> ended f
    \<and> \<not> fe_waiver_requested f \<and> fe_waiver_granted f = None \<and> fe_type f \<noteq> ''service_only''"
  using assms by (auto simp: fee_state_of_def then_do_Inr_iff Let_def)

lemma fee_state_can_request_review:
  assumes "fee_state_of e db f uid = Inr s" and "fs_can_request_review s"
  shows "uid = Some (fe_filer f) \<and> \<not> ended f \<and> \<not> fe_waiver_requested f
    \<and> fe_waiver_granted f = None \<and> fe_fee_review_at f = None"
  using assms by (auto simp: fee_state_of_def then_do_Inr_iff Let_def can_manage_fees_def)

text \<open>The fee state reads only these tables and only these columns of the filing.\<close>

lemma paid_cents_cong:
  assumes "payments db' = payments db" and "fe_id f' = fe_id f" and "fe_filer f' = fe_filer f"
  shows "paid_cents e db' f' = paid_cents e db f"
proof -
  have "counts_as_paid e f' = counts_as_paid e f"
    using assms(2,3) by (simp add: counts_as_paid_def fun_eq_iff)
  with assms(1) show ?thesis by (simp add: paid_cents_def)
qed

lemma court_basis_source: "court_basis a = Inr b \<Longrightarrow> fb_source b = CourtFee
    \<and> (\<exists>t. fb_total b = Some t \<and> jget ''total_cents'' (tx_details a) = Some (JInt t))"
  by (auto simp: court_basis_def bind_eq_Some_conv split: option.splits)

lemma find_assessment_Some:
  "find_assessment db f = Some a \<Longrightarrow> a \<in> set (transactions db) \<and> fe_fee_assessment f = Some (tx_id a)
     \<and> tx_filing a = fe_id f \<and> tx_event a = ''fee_assessed''"
  by (auto simp: find_assessment_def find_Some_iff split: option.splits if_splits)

text \<open>Round trip of a fee item through the stored details.\<close>

lemma parse_fee_item_json:
  assumes "valid_fee_item i" and "str_strip (fi_type i) = fi_type i"
    and "str_strip (fi_description i) = fi_description i"
  shows "parse_fee_item (fee_item_json i) = Some i"
  using assms by (cases i) (simp add: parse_fee_item_def fee_item_json_def jget_def Let_def)

lemma all_some_map: "(\<And>x. x \<in> set xs \<Longrightarrow> f x = Some (g x)) \<Longrightarrow> all_some (map f xs) = Some (map g xs)"
  by (induction xs) auto

section \<open>Properties\<close>

definition denied_filing :: envelope where
  "denied_filing = (hd (filings example_court_db))\<lparr>fe_status := Draft, fe_waiver_granted := Some False,
     fe_waiver_due_cents := Some 17500\<rparr>"

definition denied_db :: db where
  "denied_db = example_court_db\<lparr>filings := [denied_filing]\<rparr>"

definition production_env :: env where
  "production_env = example_env\<lparr>cfg := example_settings\<lparr>st_allow_demo := False\<rparr>\<rparr>"

lemma denied_state:
  "\<exists>s. fee_state_of example_env denied_db denied_filing (Some 9) = Inr s \<and> fs_total s = Some 17500"
  by (simp add: fee_state_of_def fee_basis_of_def denied_filing_def example_court_db_def Let_def
      unassessed_basis_def)

text \<open>The figures of a fee state balance: with a known total, the total plus what is overpaid
  equals what is paid plus what is due, both are nonnegative and one of them is zero; with no
  known total nothing is due, nothing is overpaid and nobody is offered to pay or to credit a
  payment.\<close>
theorem fee_figures_balance:
  assumes "fee_state_of e db f uid = Inr s"
  shows "(case fs_total s of
      None \<Rightarrow> fs_balance s = None \<and> fs_overpaid s = 0 \<and> \<not> fs_can_pay s \<and> \<not> fs_can_record_external s
    | Some t \<Rightarrow> \<exists>bal. fs_balance s = Some bal \<and> t + fs_overpaid s = fs_paid s + bal \<and> 0 \<le> bal
        \<and> 0 \<le> fs_overpaid s \<and> (bal = 0 \<or> fs_overpaid s = 0))"
  using fee_state_fields [OF assms] fee_state_can_pay [OF assms] fee_state_can_record [OF assms]
  by (auto split: option.splits)

theorem fee_figures_balance_witness:
  "\<exists>s bal. fee_state_of example_env denied_db denied_filing (Some 9) = Inr s
     \<and> fs_balance s = Some bal \<and> 17500 + fs_overpaid s = fs_paid s + bal"
proof -
  obtain s where s: "fee_state_of example_env denied_db denied_filing (Some 9) = Inr s"
    "fs_total s = Some 17500" using denied_state by blast
  with fee_figures_balance [OF s(1)] show ?thesis by auto
qed

text \<open>C16: outside demonstration mode an obligation counts as met only on one of the court's own
  grounds: a service-only record, a pending waiver request, a granted waiver, or a decided amount
  (waiver decision or current court assessment) covered by completed, non-simulated payments of
  the filer. The example fee of a case type never settles a filing there.\<close>
theorem production_obligation:
  assumes "\<not> st_allow_demo (cfg e)" and "fee_state_of e db f uid = Inr s" and "fs_obligation_met s"
  shows "fe_type f = ''service_only'' \<or> waiver_pending f \<or> fe_waiver_granted f = Some True
    \<or> (\<exists>due. (fe_waiver_granted f = Some False \<and> fe_waiver_due_cents f = Some due
          \<or> (\<exists>a \<in> set (transactions db). tx_filing a = fe_id f \<and> tx_event a = ''fee_assessed''
               \<and> fe_fee_assessment f = Some (tx_id a)
               \<and> jget ''filing_version'' (tx_details a) = Some (JInt (fe_fee_version f))
               \<and> jget ''total_cents'' (tx_details a) = Some (JInt due)))
        \<and> due \<le> sum_list (map py_amount (filter (\<lambda>p. py_envelope p = Some (fe_id f)
            \<and> py_status p = PayCompleted \<and> py_payer p = Some (fe_filer f) \<and> 0 < py_amount p
            \<and> \<not> py_simulated p) (payments db))))"
proof (cases "waiver_pending f")
  case False
  obtain b where b: "fee_basis_of e db f = Inr b" "fs_total s = fb_total b"
    using fee_state_basis [OF assms(2)] by metis
  have paid: "paid_cents e db f = sum_list (map py_amount (filter (\<lambda>p. py_envelope p = Some (fe_id f)
      \<and> py_status p = PayCompleted \<and> py_payer p = Some (fe_filer f) \<and> 0 < py_amount p
      \<and> \<not> py_simulated p) (payments db)))"
    using assms(1) by (simp add: paid_cents_def counts_as_paid_def [abs_def])
  from False assms(3) fee_state_fields [OF assms(2)] b(2) obtain t where
    t: "fb_total b = Some t" "t \<le> paid_cents e db f" by (auto split: option.splits)
  from b(1) t(1) assms(1) consider "fe_type f = ''service_only''" | "fe_waiver_granted f = Some True"
    | "fe_waiver_granted f = Some False" "fe_waiver_due_cents f = Some t"
    | a where "find_assessment db f = Some a" "\<not> assessment_stale f (Some a)" "court_basis a = Inr b"
    by (auto simp: fee_basis_of_def Let_def unassessed_basis_def split: if_splits option.splits)
  then show ?thesis
  proof cases
    case 4
    with find_assessment_Some [OF 4(1)] court_basis_source [OF 4(3)] t paid show ?thesis
      by (auto simp: assessment_stale_def)
  qed (use t paid in auto)
qed simp

theorem production_obligation_witness:
  "\<exists>s. fee_state_of production_env denied_db (denied_filing\<lparr>fe_waiver_granted := Some True\<rparr>) None = Inr s
     \<and> fs_obligation_met s \<and> fs_source s = WaiverFee"
proof -
  let ?f = "denied_filing\<lparr>fe_waiver_granted := Some True\<rparr>"
  have "case fee_state_of production_env denied_db ?f None of Inl _ \<Rightarrow> False
      | Inr s \<Rightarrow> fs_obligation_met s \<and> fs_source s = WaiverFee"
    by code_simp
  then have ok: "\<exists>s. fee_state_of production_env denied_db ?f None = Inr s \<and> fs_obligation_met s
      \<and> fs_source s = WaiverFee"
    by (auto split: sum.splits)
  then obtain s where s: "fee_state_of production_env denied_db ?f None = Inr s" "fs_obligation_met s"
    by blast
  have "\<not> st_allow_demo (cfg production_env)" by (simp add: production_env_def)
  from production_obligation [OF this s] ok show ?thesis by blast
qed

text \<open>Duties are separate: the filer is never offered to assess, credit or decide on the fees of
  an own filing, and nobody else is ever offered to pay, to request a fee review or to request a
  waiver for it; of a rejected or served filing nothing of this is offered to anyone.\<close>
theorem fee_duties_separate:
  assumes "fee_state_of e db f uid = Inr s"
  shows "(uid = Some (fe_filer f) \<longrightarrow> \<not> fs_can_assess s \<and> \<not> fs_can_manage_external s
        \<and> \<not> fs_can_record_external s \<and> waiver_actions db f (fe_filer f) = [])
    \<and> (uid \<noteq> Some (fe_filer f) \<longrightarrow> \<not> fs_can_pay s \<and> \<not> fs_can_request_review s \<and> \<not> fs_can_request_waiver s)
    \<and> (ended f \<longrightarrow> \<not> fs_can_pay s \<and> \<not> fs_can_request_review s \<and> \<not> fs_can_assess s
        \<and> \<not> fs_can_record_external s \<and> (\<forall>u. waiver_actions db f u = []))"
  using assms
  by (auto simp: fee_state_of_def then_do_Inr_iff Let_def can_manage_fees_def waiver_actions_def)

theorem fee_duties_separate_witness:
  "\<exists>s. fee_state_of example_env denied_db denied_filing (Some 9) = Inr s \<and> \<not> fs_can_assess s
     \<and> waiver_actions denied_db denied_filing 9 = []"
proof -
  obtain s where s: "fee_state_of example_env denied_db denied_filing (Some 9) = Inr s"
    using denied_state by blast
  have "fe_filer denied_filing = 9" by (simp add: denied_filing_def example_court_db_def)
  with fee_duties_separate [OF s] s show ?thesis by simp
qed

end
