(* ===== verification/Contacts.thy ===== *)
theory Contacts
  imports Access
begin

text \<open>
  Service contacts (\<open>services/service_contact_service.py\<close>): the snapshots of participant and
  contact records, the reasons a contact cannot be used, and the check made for a delivery notice.
\<close>

section \<open>Snapshots\<close>

fun role_value :: "participant_role \<Rightarrow> string" where
  "role_value Plaintiff = ''plaintiff''"
| "role_value Defendant = ''defendant''"
| "role_value Petitioner = ''petitioner''"
| "role_value Respondent = ''respondent''"
| "role_value AttorneyPlaintiff = ''attorney_plaintiff''"
| "role_value AttorneyDefendant = ''attorney_defendant''"
| "role_value AttorneyRole = ''attorney''"
| "role_value Guardian = ''guardian''"
| "role_value Intervenor = ''intervenor''"

fun method_value :: "service_method \<Rightarrow> string" where
  "method_value Electronic = ''electronic''"
| "method_value Mail = ''mail''"
| "method_value HandDelivery = ''hand_delivery''"

definition participant_snapshot :: "participant \<Rightarrow> json" where
  "participant_snapshot p = JObj
     [(''id'', JInt (pt_id p)), (''party_name'', JStr (pt_name p)),
      (''role'', JStr (role_value (pt_role p))), (''user_id'', jopt JInt (pt_user p)),
      (''attorney_bar_number'', jopt JStr (pt_bar_number p)),
      (''represented_party_name'', jopt JStr (pt_represents p)),
      (''is_active'', JBool (pt_active p)), (''access_enabled'', JBool (pt_access p))]"

definition contact_snapshot :: "service_contact \<Rightarrow> json" where
  "contact_snapshot c = JObj
     [(''id'', JInt (sc_id c)), (''participant_id'', jopt JInt (sc_participant c)),
      (''participant_snapshot'', jopt id (sc_snapshot c)), (''user_id'', jopt JInt (sc_user c)),
      (''name'', JStr (sc_name c)), (''method'', JStr (method_value (sc_method c))),
      (''email'', jopt JStr (sc_email c)), (''address'', jopt JStr (sc_address c)),
      (''is_active'', JBool (sc_active c)), (''authority'', jopt JStr (sc_authority c)),
      (''version'', JInt (sc_version c))]"

section \<open>Routing issues\<close>

datatype routing_issue = Instructions_inactive | Participant_not_reviewed | Participant_record_changed
  | Needs_linked_account | Email_not_verified | Needs_case_grant | Needs_counsel_bar

fun issue_text :: "routing_issue \<Rightarrow> string" where
  "issue_text Instructions_inactive = ''These service instructions are inactive.''"
| "issue_text Participant_not_reviewed = ''The participant needs an active, court-reviewed record.''"
| "issue_text Participant_record_changed =
     ''The participant record changed. Court review of these instructions is required.''"
| "issue_text Needs_linked_account =
     ''Electronic routing requires an active account linked to the identity provider.''"
| "issue_text Email_not_verified =
     ''The service email must match the linked account's current verified email.''"
| "issue_text Needs_case_grant =
     ''Electronic routing requires this participant's restricted-case access grant.''"
| "issue_text Needs_counsel_bar =
     ''Counsel routing requires the linked attorney's matching verified bar number.''"

definition account_linked :: "env \<Rightarrow> user option \<Rightarrow> bool" where
  "account_linked e account =
     (case account of
        None \<Rightarrow> False
      | Some a \<Rightarrow> us_active a \<and> (truthy (us_keycloak a) \<or> st_allow_demo (cfg e)))"

definition verified_for :: "user \<Rightarrow> service_contact \<Rightarrow> bool" where
  "verified_for a c \<longleftrightarrow>
     sc_user c = Some (us_id a) \<and> truthy (us_verified_email a)
     \<and> us_verified_email a = Some (str_lower (str_strip (us_email a)))
     \<and> us_verified_email a = sc_email c"

definition counsel_account :: "user option \<Rightarrow> participant \<Rightarrow> bool" where
  "counsel_account account p =
     (case account of
        None \<Rightarrow> False
      | Some a \<Rightarrow> us_type a = Attorney \<and> us_bar_verified a \<and> truthy (us_bar_number a)
          \<and> us_bar_number a = pt_bar_number p)"

definition routing_issues ::
    "env \<Rightarrow> case_row \<Rightarrow> participant \<Rightarrow> user option \<Rightarrow> service_contact \<Rightarrow> routing_issue list" where
  "routing_issues e c p account ct =
     (if sc_active ct then [] else [Instructions_inactive])
     @ (if pt_active p \<and> pt_reviewed_at p \<noteq> None then [] else [Participant_not_reviewed])
     @ (if sc_snapshot ct = Some (participant_snapshot p) then [] else [Participant_record_changed])
     @ (if sc_method ct = Electronic then
          (if \<not> account_linked e account then [Needs_linked_account]
           else if \<not> verified_for (the account) ct then [Email_not_verified] else [])
          @ (if cs_sealed c \<and> \<not> pt_access p then [Needs_case_grant] else [])
          @ (if pt_role p \<in> set counsel_roles \<and> \<not> counsel_account account p
             then [Needs_counsel_bar] else [])
        else [])"

definition issues_text :: "routing_issue list \<Rightarrow> string" where
  "issues_text is = join_with '' '' (map issue_text is)"

section \<open>The check of a delivery notice\<close>

definition packet_case :: "db \<Rightarrow> recipient \<Rightarrow> case_row option" where
  "packet_case db r =
     (case row_at pk_id (rc_packet r) (packets db) of
        None \<Rightarrow> None | Some p \<Rightarrow> row_at cs_id (pk_case p) (cases db))"

definition not_enabled_text :: string where
  "not_enabled_text = ''Document delivery is not enabled''"

definition unavailable_text :: string where
  "unavailable_text = ''The retained document delivery is unavailable''"

definition instructions_changed_text :: string where
  "instructions_changed_text =
     ''Service instructions changed. Review them and create a new delivery''"

definition email_context :: "env \<Rightarrow> db \<Rightarrow> int \<Rightarrow> recipient option \<times> string option" where
  "email_context e db nid =
     (if \<not> st_service_enabled (cfg e) \<or> \<not> st_email_enabled (cfg e)
      then (None, Some not_enabled_text)
      else case List.find (\<lambda>r. rc_notification r = nid \<and> packet_case db r \<noteq> None) (recipients db) of
        None \<Rightarrow> (None, Some unavailable_text)
      | Some r \<Rightarrow>
          let c = the (packet_case db r);
              ct = row_at sc_id (rc_contact r) (contacts db);
              p = row_at_opt pt_id (Option.bind ct sc_participant) (participants db);
              account = row_at_opt us_id (Option.bind p pt_user) (users db)
          in (case (ct, p) of
                (Some ct', Some p') \<Rightarrow>
                  if sc_case ct' \<noteq> cs_id c \<or> pt_case p' \<noteq> cs_id c \<or> sc_user ct' \<noteq> Some (rc_user r)
                     \<or> rc_contact_version r \<noteq> sc_version ct' \<or> rc_snapshot r \<noteq> contact_snapshot ct'
                  then (Some r, Some instructions_changed_text)
                  else let is = routing_issues e c p' account ct'
                       in (Some r, if is = [] then None else Some (issues_text is))
              | _ \<Rightarrow> (Some r, Some instructions_changed_text)))"

section \<open>Lemmas\<close>

lemma role_value_inj: "role_value r = role_value s \<longleftrightarrow> r = s"
  by (cases r; cases s) simp_all

lemma participant_snapshot_eq:
  "participant_snapshot p = participant_snapshot q \<longleftrightarrow>
     pt_id p = pt_id q \<and> pt_name p = pt_name q \<and> pt_role p = pt_role q \<and> pt_user p = pt_user q
     \<and> pt_bar_number p = pt_bar_number q \<and> pt_represents p = pt_represents q
     \<and> pt_active p = pt_active q \<and> pt_access p = pt_access q"
  by (auto simp: participant_snapshot_def role_value_inj)

lemma issue_text_nonempty: "issue_text i \<noteq> []"
  by (cases i) simp_all

lemma routing_issues_Nil:
  "routing_issues e c p account ct = [] \<longleftrightarrow>
     sc_active ct \<and> pt_active p \<and> pt_reviewed_at p \<noteq> None
     \<and> sc_snapshot ct = Some (participant_snapshot p)
     \<and> (sc_method ct = Electronic \<longrightarrow>
          account_linked e account \<and> verified_for (the account) ct
          \<and> (cs_sealed c \<longrightarrow> pt_access p)
          \<and> (pt_role p \<in> set counsel_roles \<longrightarrow> counsel_account account p))"
  by (simp add: routing_issues_def)

lemma email_context_ok:
  assumes "email_context e db nid = (Some r, None)"
  shows "\<exists>c ct p. r \<in> set (recipients db) \<and> rc_notification r = nid \<and> packet_case db r = Some c
    \<and> row_at sc_id (rc_contact r) (contacts db) = Some ct
    \<and> row_at_opt pt_id (sc_participant ct) (participants db) = Some p
    \<and> sc_case ct = cs_id c \<and> pt_case p = cs_id c \<and> sc_user ct = Some (rc_user r)
    \<and> rc_contact_version r = sc_version ct \<and> rc_snapshot r = contact_snapshot ct
    \<and> routing_issues e c p (row_at_opt us_id (pt_user p) (users db)) ct = []"
proof -
  from assms obtain r' where r': "List.find (\<lambda>r. rc_notification r = nid \<and> packet_case db r \<noteq> None)
      (recipients db) = Some r'"
    by (auto simp: email_context_def split: if_splits option.splits)
  then have mem: "r' \<in> set (recipients db)" "rc_notification r' = nid" "packet_case db r' \<noteq> None"
    by (auto simp: find_Some_iff)
  with assms r' show ?thesis
    by (auto simp: email_context_def Let_def split: if_splits option.splits)
qed

end
