(* ===== verification/Email.thy ===== *)
theory Email
  imports Contacts
begin

text \<open>
  The mail outbox: the configuration check, queueing, claiming, sending and finishing a notice
  (\<open>services/email_delivery_service.py\<close>), the notice of a filing's status
  (\<open>services/notification_service.py\<close>), the worker's draining loop
  (\<open>notification_worker.py\<close>) and the retry handler (\<open>api/notifications.py\<close>).
  The SMTP server is a function from the calls of a session to its replies.
\<close>

section \<open>The configuration\<close>

definition loopback :: "string list" where
  "loopback = [''localhost'', ''127.0.0.1'', ''::1'']"

definition validate_email_config :: "env \<Rightarrow> failure + unit" where
  "validate_email_config e =
     (let s = cfg e; origin = split_url e (st_portal_base_url s) in
      if st_service_enabled s \<and> \<not> st_email_enabled s then Inl (ConfigValueError Service_requires_email)
      else if \<not> st_email_enabled s then Inr ()
      else if ur_scheme origin \<notin> {''https'', ''http''} \<or> \<not> truthy (ur_hostname origin)
        \<or> truthy (ur_username origin) \<or> truthy (ur_password origin) \<or> ur_query origin \<noteq> []
        \<or> ur_fragment origin \<noteq> [] \<or> ur_path origin \<notin> {[], ''/''}
      then Inl (ConfigValueError Bad_portal_origin)
      else if ur_scheme origin \<noteq> ''https'' \<and> \<not> (st_debug s \<and> ur_hostname origin \<in> Some ` set loopback)
      then Inl (ConfigValueError Portal_needs_https)
      else if st_smtp_host s = [] \<or> \<not> (1 \<le> st_smtp_port s \<and> st_smtp_port s \<le> 65535)
      then Inl (ConfigValueError Bad_smtp_host)
      else if st_smtp_tls s = PlainTls \<and> \<not> (st_debug s \<and> st_smtp_host s \<in> set loopback)
      then Inl (ConfigValueError Plain_smtp_not_local)
      else if st_allow_demo s \<and> st_smtp_host s \<notin> set loopback
      then Inl (ConfigValueError Demo_external_relay)
      else (case check_address e (st_smtp_from s) of
              AsciiAddress a \<Rightarrow> Inr ()
            | _ \<Rightarrow> Inl (ConfigValueError Bad_smtp_from)))"

section \<open>Queueing\<close>

definition unverified_text :: string where
  "unverified_text = ''Recipient needs an active account and a verified matching email''"

definition normal_email :: "user \<Rightarrow> string" where
  "normal_email u = str_lower (str_strip (us_email u))"

definition may_be_mailed :: "user option \<Rightarrow> bool" where
  "may_be_mailed u =
     (case u of
        None \<Rightarrow> False
      | Some a \<Rightarrow> us_active a \<and> truthy (us_verified_email a)
          \<and> us_verified_email a = Some (normal_email a))"

definition rstrip_slash :: "string \<Rightarrow> string" where
  "rstrip_slash s = rev (dropWhile (\<lambda>c. c = CHR ''/'') (rev s))"

definition address_domain :: "string \<Rightarrow> string" where
  "address_domain a = rev (takeWhile (\<lambda>c. c \<noteq> CHR ''@'') (rev a))"

definition notice_path :: "notification \<Rightarrow> recipient option \<Rightarrow> string" where
  "notice_path n delivery =
     (case delivery of
        Some r \<Rightarrow> ''/service/deliveries/'' @ rc_id r
      | None \<Rightarrow>
          (case nt_filing n of
             None \<Rightarrow> ''/notifications''
           | Some f \<Rightarrow> if f = 0 then ''/notifications'' else ''/filings/'' @ dec f @ ''/history''))"

definition ascii_address :: "env \<Rightarrow> string \<Rightarrow> failure + string" where
  "ascii_address e a = (case check_address e a of AsciiAddress x \<Rightarrow> Inr x | _ \<Rightarrow> Inl InternalError)"

definition delivery_event_of :: "notification \<Rightarrow> string \<Rightarrow> datetime \<Rightarrow> delivery_event" where
  "delivery_event_of n outcome t =
     \<lparr>de_notification = nt_id n, de_attempt = nt_attempts n, de_outcome = outcome, de_occurred_at = t,
      de_detail = None, de_smtp_code = None, de_actor = None, de_message = None\<rparr>"

definition compose_email :: "env \<Rightarrow> notification \<Rightarrow> recipient option \<Rightarrow> user \<Rightarrow> failure + email_message" where
  "compose_email e n delivery u =
     then_do (ascii_address e (st_smtp_from (cfg e))) (\<lambda>from.
     then_do (ascii_address e (the (us_verified_email u))) (\<lambda>to. Inr
       \<lparr>em_from = from, em_to = to, em_date = now e,
        em_message_id = make_message_id e (address_domain from) (now e) (nt_id n),
        em_link = rstrip_slash (st_portal_base_url (cfg e)) @ notice_path n delivery,
        em_reference = nt_id n\<rparr>))"

text \<open>The notice and the events to add; the caller writes both.\<close>

definition queue_email ::
    "env \<Rightarrow> db \<Rightarrow> notification \<Rightarrow> int option \<Rightarrow> string option
       \<Rightarrow> failure + notification \<times> delivery_event list" where
  "queue_email e db n actor reason =
     (if \<not> st_email_enabled (cfg e) then Inr (n\<lparr>nt_status := Disabled\<rparr>, [])
      else then_do (validate_email_config e) (\<lambda>_.
        let (delivery, error) =
              (if nt_type n = ServiceOfProcess then email_context e db (nt_id n) else (None, None));
            u = find_user db (nt_recipient n)
        in if truthy error then Inr (n\<lparr>nt_status := Blocked, nt_last_error := error\<rparr>, [])
           else if \<not> may_be_mailed u
           then Inr (n\<lparr>nt_status := Blocked, nt_last_error := Some unverified_text\<rparr>, [])
           else then_do (compose_email e n delivery (the u)) (\<lambda>m. Inr
             (n\<lparr>nt_email_recipient := us_verified_email (the u),
                nt_email_sender := Some (st_smtp_from (cfg e)),
                nt_message_id := Some (em_message_id m), nt_message := Some m,
                nt_status := Pending, nt_sent_at := None, nt_next_attempt := Some (now e),
                nt_last_error := None\<rparr>,
              [(delivery_event_of n ''queued'' (now e))
                 \<lparr>de_attempt := nt_attempts n + 1, de_actor := actor, de_detail := reason,
                  de_message := Some m\<rparr>]))))"

definition find_notice :: "db \<Rightarrow> int \<Rightarrow> notification option" where
  "find_notice db nid = row_at nt_id nid (notifications db)"

definition store_notice :: "notification \<times> delivery_event list \<Rightarrow> db \<Rightarrow> db" where
  "store_notice ne db =
     delivery_events_update (\<lambda>es. es @ snd ne)
       (notifications_update (upd_row nt_id (nt_id (fst ne)) (\<lambda>_. fst ne)) db)"

section \<open>Claiming\<close>

text \<open>The first due row in the order of the query (time of the next attempt, then id).\<close>

definition due :: "datetime \<Rightarrow> notification \<Rightarrow> bool" where
  "due t n \<longleftrightarrow> nt_status n = Pending \<and> nt_message_id n \<noteq> None
     \<and> (case nt_next_attempt n of None \<Rightarrow> False | Some x \<Rightarrow> x \<le> t)"

definition next_due :: "datetime \<Rightarrow> db \<Rightarrow> notification option" where
  "next_due t db =
     (case sort_key (\<lambda>n. the (nt_next_attempt n)) (sort_key nt_id (filter (due t) (notifications db))) of
        [] \<Rightarrow> None | n # _ \<Rightarrow> Some n)"

definition recipient_changed_text :: string where
  "recipient_changed_text = ''Recipient verification or account changed before sending''"

definition recipient_unchanged :: "db \<Rightarrow> notification \<Rightarrow> bool" where
  "recipient_unchanged db n =
     (case find_user db (nt_recipient n) of
        None \<Rightarrow> False
      | Some u \<Rightarrow> us_active u \<and> us_verified_email u = nt_email_recipient n
          \<and> Some (normal_email u) = nt_email_recipient n)"

definition claimed_row :: "env \<Rightarrow> db \<Rightarrow> notification \<Rightarrow> notification" where
  "claimed_row e db n0 =
     (let n = n0\<lparr>nt_status := Sending, nt_last_attempt := Some (now e), nt_next_attempt := None,
                 nt_attempts := nt_attempts n0 + 1\<rparr>;
          error = (if nt_type n = ServiceOfProcess then snd (email_context e db (nt_id n)) else None)
      in if \<not> recipient_unchanged db n
         then n\<lparr>nt_status := Blocked, nt_last_error := Some recipient_changed_text\<rparr>
         else if truthy error then n\<lparr>nt_status := Blocked, nt_last_error := error\<rparr>
         else n)"

definition claim_email :: "env \<Rightarrow> db \<Rightarrow> notification option \<times> db" where
  "claim_email e db =
     (case next_due (now e) db of
        None \<Rightarrow> (None, db)
      | Some n0 \<Rightarrow>
          let n = claimed_row e db n0;
              blocked = (nt_status n = Blocked);
              ev = (delivery_event_of n (if blocked then ''blocked'' else ''started'') (now e))
                     \<lparr>de_detail := if blocked then nt_last_error n else None\<rparr>
          in (Some n, store_notice (n, [ev]) db))"

section \<open>Sending\<close>

datatype smtp_call = Connect smtp_tls | UpgradeTls | Login | Hello | MailFrom string
  | RcptTo string | SendData email_message

datatype smtp_reply = Reply int | ResponseError int | ConnectionError

type_synonym relay = "smtp_call \<Rightarrow> smtp_reply"

record send_result =
  sr_outcome :: string
  sr_code :: "int option"
  sr_detail :: "string option"

definition send_result_of :: "string \<Rightarrow> int option \<Rightarrow> string option \<Rightarrow> send_result" where
  "send_result_of outcome code detail = \<lparr>sr_outcome = outcome, sr_code = code, sr_detail = detail\<rparr>"

definition failure_kind :: "int \<Rightarrow> string" where
  "failure_kind code = (if code < 500 then ''temporary_failure'' else ''permanent_failure'')"

text \<open>One call of the session: an exception ends it through the handlers of \<open>send_email\<close>, which
  depend on whether the data was being sent.\<close>

definition smtp_do :: "relay \<Rightarrow> bool \<Rightarrow> smtp_call \<Rightarrow> send_result + int" where
  "smtp_do relay sending c =
     (case relay c of
        Reply code \<Rightarrow> Inr code
      | ResponseError code \<Rightarrow>
          Inl (send_result_of (failure_kind code) (Some code) (Some ''SMTP relay rejected the exchange''))
      | ConnectionError \<Rightarrow>
          Inl (if sending
               then send_result_of ''unknown'' None
                      (Some ''The connection ended before the relay confirmed acceptance'')
               else send_result_of ''temporary_failure'' None
                      (Some ''Could not complete a connection to the email relay'')))"

fun smtp_all :: "relay \<Rightarrow> smtp_call list \<Rightarrow> send_result + unit" where
  "smtp_all relay [] = Inr ()"
| "smtp_all relay (c # cs) = then_do (smtp_do relay False c) (\<lambda>_. smtp_all relay cs)"

definition queued_addresses :: "env \<Rightarrow> string \<Rightarrow> string \<Rightarrow> send_result + string \<times> string" where
  "queued_addresses e sender rcpt =
     (case (check_address e sender, check_address e rcpt) of
        (InvalidAddress, _) \<Rightarrow>
          Inl (send_result_of ''permanent_failure'' None (Some ''Queued address is invalid''))
      | (_, InvalidAddress) \<Rightarrow>
          Inl (send_result_of ''permanent_failure'' None (Some ''Queued address is invalid''))
      | (AsciiAddress a, AsciiAddress b) \<Rightarrow> Inr (a, b)
      | _ \<Rightarrow> Inl (send_result_of ''permanent_failure'' None
                (Some ''SMTPUTF8 addresses require a supported relay'')))"

definition smtp_session :: "env \<Rightarrow> relay \<Rightarrow> string \<Rightarrow> string \<Rightarrow> email_message \<Rightarrow> send_result + send_result" where
  "smtp_session e relay sender rcpt m =
     then_do (smtp_all relay
         ([Connect (st_smtp_tls (cfg e))]
          @ (if st_smtp_tls (cfg e) = StartTls then [UpgradeTls] else [])
          @ (if st_smtp_username (cfg e) \<noteq> [] then [Login] else []) @ [Hello])) (\<lambda>_.
     then_do (queued_addresses e sender rcpt) (\<lambda>(from, to).
     then_do (smtp_do relay False (MailFrom from)) (\<lambda>code.
     if code \<noteq> 250
     then Inr (send_result_of (failure_kind code) (Some code) (Some ''SMTP relay refused the sender''))
     else then_do (smtp_do relay False (RcptTo to)) (\<lambda>code.
     if code \<notin> {250, 251}
     then Inr (send_result_of (failure_kind code) (Some code) (Some ''SMTP relay refused the recipient''))
     else then_do (smtp_do relay True (SendData m)) (\<lambda>code.
     if code = 250 then Inr (send_result_of ''accepted'' (Some code) None)
     else Inr (send_result_of (failure_kind code) (Some code)
            (Some ''SMTP relay refused the message'')))))))"

definition send_email :: "env \<Rightarrow> relay \<Rightarrow> notification \<Rightarrow> send_result" where
  "send_email e relay n =
     (if \<not> truthy (nt_email_sender n) \<or> \<not> truthy (nt_email_recipient n) \<or> nt_message n = None
      then send_result_of ''permanent_failure'' None (Some ''Queued email is incomplete'')
      else case smtp_session e relay (the (nt_email_sender n)) (the (nt_email_recipient n))
                  (the (nt_message n)) of
        Inl r \<Rightarrow> r | Inr r \<Rightarrow> r)"

section \<open>Finishing and recovering\<close>

definition max_automatic_attempts :: int where
  "max_automatic_attempts = 5"

definition finished_row :: "env \<Rightarrow> send_result \<Rightarrow> notification \<Rightarrow> notification" where
  "finished_row e r n0 =
     (let n = n0\<lparr>nt_last_error := sr_detail r\<rparr> in
      if sr_outcome r = ''accepted'' then n\<lparr>nt_status := Sent, nt_sent_at := Some (now e)\<rparr>
      else if sr_outcome r = ''unknown'' then n\<lparr>nt_status := Unknown\<rparr>
      else if sr_outcome r = ''temporary_failure'' \<and> nt_attempts n < max_automatic_attempts
      then n\<lparr>nt_status := Pending,
             nt_next_attempt := Some (now e + 60000000 * 2 ^ nat (nt_attempts n))\<rparr>
      else n\<lparr>nt_status := Failed\<rparr>)"

definition finish_attempt :: "env \<Rightarrow> db \<Rightarrow> notification \<Rightarrow> send_result \<Rightarrow> db" where
  "finish_attempt e db n r =
     (case find_notice db (nt_id n) of
        None \<Rightarrow> db
      | Some current \<Rightarrow>
          let ev = (delivery_event_of n (sr_outcome r) (now e))
                     \<lparr>de_smtp_code := sr_code r, de_detail := sr_detail r\<rparr>
          in if nt_attempts current \<noteq> nt_attempts n \<or> nt_status current \<notin> {Sending, Unknown}
             then delivery_events_update (\<lambda>es. es @ [ev]) db
             else store_notice (finished_row e r current, [ev]) db)"

definition interrupted_after :: int where
  "interrupted_after = 600000000"

definition interrupted_text :: string where
  "interrupted_text = ''Worker stopped before recording an outcome; inspect relay records''"

definition interrupted :: "datetime \<Rightarrow> notification \<Rightarrow> bool" where
  "interrupted t n \<longleftrightarrow> nt_status n = Sending
     \<and> (case nt_last_attempt n of None \<Rightarrow> False | Some x \<Rightarrow> x \<le> t - interrupted_after)"

definition recover_interrupted :: "env \<Rightarrow> db \<Rightarrow> db \<times> nat" where
  "recover_interrupted e db =
     (let rows = filter (interrupted (now e)) (notifications db);
          mark = (\<lambda>n. if interrupted (now e) n
                      then n\<lparr>nt_status := Unknown, nt_last_error := Some interrupted_text\<rparr> else n)
      in (delivery_events_update (\<lambda>es. es @ map (\<lambda>n. (delivery_event_of n ''unknown'' (now e))
              \<lparr>de_detail := Some interrupted_text\<rparr>) rows)
            (notifications_update (map mark) db), length rows))"

text \<open>One delivery: claim, send outside the transaction, finish later at the clock of \<open>e'\<close>.\<close>

definition deliver_next :: "env \<Rightarrow> env \<Rightarrow> relay \<Rightarrow> db \<Rightarrow> bool \<times> db" where
  "deliver_next e e' relay db =
     (case claim_email e db of
        (None, db1) \<Rightarrow> (False, db1)
      | (Some n, db1) \<Rightarrow>
          (True, if nt_status n = Sending then finish_attempt e' db1 n (send_email e relay n) else db1))"

text \<open>
  The worker of \<open>notification_worker.run(once=True)\<close>: deliveries until none is due. The
  clock and the relay of the i-th delivery are \<open>clock i\<close> and \<open>relays i\<close>; the fuel
  bounds the number of deliveries and \<open>None\<close> is a run that needs more.
\<close>

fun drain :: "nat \<Rightarrow> (nat \<Rightarrow> env) \<Rightarrow> (nat \<Rightarrow> relay) \<Rightarrow> nat \<Rightarrow> db \<Rightarrow> db option" where
  "drain 0 clock relays i db = None"
| "drain (Suc n) clock relays i db =
     (case deliver_next (clock i) (clock i) (relays i) db of
        (False, db') \<Rightarrow> Some db'
      | (True, db') \<Rightarrow> drain n clock relays (Suc i) db')"

section \<open>The notice of a filing's status\<close>

fun title_words :: "bool \<Rightarrow> string \<Rightarrow> string" where
  "title_words start [] = []"
| "title_words start (c # cs) =
     (let up = upper_char c; letter = (upper_char c \<noteq> c \<or> lower_char c \<noteq> c) in
      (if start then up else lower_char c) # title_words (\<not> letter) cs)"

definition status_label :: "string \<Rightarrow> string" where
  "status_label s =
     (case map_of
        [(''waiver_referred'', ''Fee waiver referred for judicial review''),
         (''waiver_granted'', ''Fee waiver granted''),
         (''waiver_denied'', ''Fee waiver denied''),
         (''payment_recorded'', ''Payment recorded''),
         (''fee_payment_recorded'', ''External payment credited''),
         (''fee_payment_reversed'', ''External payment credit reversed''),
         (''filing_date_assessed'', ''Filing date assessed using court calendar''),
         (''filing_date_ordered'', ''Court-ordered filing date recorded''),
         (''fee_review_requested'', ''Fee review requested''),
         (''fee_assessed'', ''Court fee assessment recorded''),
         (''public_copy_published'', ''Reviewed public copy published''),
         (''document_withheld'', ''Document withheld from public access'')] s of
        Some l \<Rightarrow> l
      | None \<Rightarrow> title_words True (map (\<lambda>c. if c = CHR ''_'' then CHR '' '' else c) s))"

definition notice_type :: "string \<Rightarrow> notification_type" where
  "notice_type s =
     (if s = ''submitted'' then FilingSubmitted else if s = ''accepted'' then FilingAccepted
      else if s = ''rejected'' then FilingRejected else if s = ''returned'' then FilingReturned
      else CaseUpdate)"

definition new_notification ::
    "env \<Rightarrow> db \<Rightarrow> notification_type \<Rightarrow> int \<Rightarrow> int option \<Rightarrow> string \<Rightarrow> string \<Rightarrow> notification" where
  "new_notification e db ty rcpt fid subject body =
     \<lparr>nt_id = new_key e (map nt_id (notifications db)), nt_type = ty, nt_recipient = rcpt,
      nt_filing = fid, nt_subject = subject, nt_body = body, nt_status = Disabled,
      nt_email_recipient = None, nt_email_sender = None, nt_message_id = None, nt_message = None,
      nt_attempts = 0, nt_next_attempt = None, nt_last_attempt = None, nt_last_error = None,
      nt_sent_at = None, nt_created_at = now e\<rparr>"

definition notify_filing_status_change ::
    "env \<Rightarrow> int \<Rightarrow> int \<Rightarrow> string \<Rightarrow> string \<Rightarrow> string option \<Rightarrow> string option \<Rightarrow> db \<Rightarrow> failure + db" where
  "notify_filing_status_change e filer fid status court title reason db =
     (let label = status_label status;
          subject = ''Filing #'' @ dec fid @ '' - '' @ label @ '' - '' @ court;
          body = join_with [CHR 0x0A]
            ([''Filing #'' @ dec fid @ '': '' @ label @ ''.'', ''Court: '' @ court]
             @ (if truthy title then [''Case: '' @ the title] else [])
             @ (if truthy reason then [''Reason: '' @ the reason] else []));
          n = new_notification e db (notice_type status) filer (Some fid) subject body;
          db1 = notifications_update (\<lambda>ns. ns @ [n]) db
      in then_do (queue_email e db1 n None None) (\<lambda>ne. Inr (store_notice ne db1)))"

lemma notify_Inr':
  assumes "notify_filing_status_change e filer fid status court title reason db = Inr db'"
  obtains f ne where "db' = store_notice ne (notifications_update f db)"
  using assms unfolding notify_filing_status_change_def Let_def then_do_Inr_iff by blast

section \<open>The handlers (api/notifications.py)\<close>

definition list_notifications ::
    "env \<Rightarrow> db \<Rightarrow> int \<Rightarrow> nat \<Rightarrow> nat \<Rightarrow> int option \<Rightarrow> int option \<Rightarrow> delivery_status option
       \<Rightarrow> failure + (notification \<times> string option) list \<times> nat" where
  "list_notifications e db uid pg sz court fid status =
     (if (case court of None \<Rightarrow> False | Some c \<Rightarrow> \<not> is_court_staff db (Some uid) c)
      then Inl (Http 403 (Account Staff_assignment_required))
      else
        let in_scope = (\<lambda>n. case court of
                          None \<Rightarrow> nt_recipient n = uid
                        | Some c \<Rightarrow> (\<exists>f \<in> set (filings db). fe_court f = c \<and> nt_filing n = Some (fe_id f)));
            rows = filter (\<lambda>n. in_scope n \<and> (fid = None \<or> nt_filing n = fid)
                     \<and> (status = None \<or> status = Some (nt_status n))) (notifications db);
            delivery = (\<lambda>n. map_option rc_id (List.find (\<lambda>r. rc_notification r = nt_id n) (recipients db)))
        in Inr (map (\<lambda>n. (n, delivery n)) (page_of pg sz (rev (sort_key nt_created_at (sort_key nt_id rows)))), length rows))"

definition notice_for_viewer :: "db \<Rightarrow> int \<Rightarrow> int \<Rightarrow> failure + notification \<times> bool" where
  "notice_for_viewer db nid uid =
     (case find_notice db nid of
        None \<Rightarrow> Inl (Http 404 (Email Notice_not_found))
      | Some n \<Rightarrow>
          let filing = (case nt_filing n of None \<Rightarrow> None | Some f \<Rightarrow> find_filing db f);
              staff = (case filing of None \<Rightarrow> False | Some f \<Rightarrow> is_court_staff db (Some uid) (fe_court f))
          in if nt_recipient n \<noteq> uid \<and> \<not> staff
             then Inl (Http 403 (Email Notice_recipient_required)) else Inr (n, staff))"

definition retryable :: "delivery_status \<Rightarrow> bool" where
  "retryable s \<longleftrightarrow> s \<in> {Disabled, Blocked, Failed, Unknown, Legacy}"

definition delivery_history ::
    "env \<Rightarrow> db \<Rightarrow> int \<Rightarrow> nat \<Rightarrow> int \<Rightarrow> failure + delivery_event list \<times> nat \<times> bool" where
  "delivery_history e db nid pg uid =
     then_do (notice_for_viewer db nid uid) (\<lambda>(n, staff).
       let evs = filter (\<lambda>v. de_notification v = nid) (delivery_events db)
       in Inr (page_of pg 25 (rev evs), length evs,
            st_email_enabled (cfg e) \<and> nt_type n \<noteq> ServiceOfProcess
            \<and> (nt_status n \<in> {Disabled, Blocked, Failed} \<or> nt_status n \<in> {Unknown, Legacy} \<and> staff)))"

definition retry_delivery :: "env \<Rightarrow> db \<Rightarrow> int \<Rightarrow> string \<Rightarrow> int \<Rightarrow> failure + db" where
  "retry_delivery e db nid reason uid =
     then_do (notice_for_viewer db nid uid) (\<lambda>(n, staff).
       if nt_type n = ServiceOfProcess then Inl (Http 409 (Email Retry_from_delivery))
       else if \<not> st_email_enabled (cfg e) then Inl (Http 503 (Email Email_not_enabled))
       else if str_strip reason = [] then Inl (Http 400 (Email Retry_needs_reason))
       else if \<not> retryable (nt_status n) then Inl (Http 409 (Email Already_queued))
       else if nt_status n \<in> {Unknown, Legacy} \<and> \<not> staff
       then Inl (Http 403 (Email Staff_reviews_uncertain))
       else then_do (queue_email e db n (Some uid) (Some (str_strip reason))) (\<lambda>ne.
         if nt_status (fst ne) = Blocked then Inl (Http 409 (Email (Still_blocked (nt_last_error (fst ne)))))
         else Inr (store_notice ne db)))"

end
