(* ===== verification/Ledger.thy ===== *)
theory Ledger
  imports Fees Email
begin

text \<open>
  The ledger of a filing (\<open>services/filing_record_service.py\<close>): the transaction of an event
  with its snapshot, the retention of the documents it names, and the notice to the filer; and the
  audit log (\<open>services/audit_service.py\<close>). Both tables are append-only
  (\<open>models/retention.py\<close>).
\<close>

section \<open>Audit entries\<close>

definition log_action ::
    "env \<Rightarrow> int option \<Rightarrow> string \<Rightarrow> string \<Rightarrow> int option \<Rightarrow> json option \<Rightarrow> db \<Rightarrow> db" where
  "log_action e uid action entity eid details db =
     audit_update (\<lambda>as. as @ [\<lparr>au_user = uid, au_action = action, au_entity = entity,
       au_entity_id = eid, au_details = details, au_ip = client_ip e, au_agent = client_agent e,
       au_at = now e\<rparr>]) db"

definition log_filing :: "env \<Rightarrow> int \<Rightarrow> string \<Rightarrow> int \<Rightarrow> json option \<Rightarrow> db \<Rightarrow> db" where
  "log_filing e uid action fid details db =
     log_action e (Some uid) action ''filing_envelope'' (Some fid) details db"

section \<open>Snapshots\<close>

text \<open>\<open>FilingDocumentResponse.model_validate(doc).model_dump(mode="json")\<close>.\<close>

definition document_json :: "document \<Rightarrow> json" where
  "document_json d = JObj
     [(''id'', JInt (dc_id d)), (''document_type_code'', JStr (dc_type d)),
      (''title'', JStr (dc_title d)), (''file_size_bytes'', JInt (dc_size d)),
      (''mime_type'', JStr (dc_mime d)), (''page_count'', jopt JInt (dc_pages d)),
      (''sha256_hash'', JStr (dc_sha256 d)), (''is_confidential'', JBool (dc_confidential d)),
      (''is_text_searchable'', JBool (dc_searchable d)), (''uploaded_at'', JTime (dc_uploaded_at d))]"

definition payment_json :: "payment \<Rightarrow> json" where
  "payment_json p = JObj
     [(''id'', JInt (py_id p)), (''amount_cents'', JInt (py_amount p)),
      (''transaction_ref'', jopt JStr (py_ref p)), (''status'', JStr (payment_status_value (py_status p))),
      (''is_simulated'', JBool (py_simulated p)), (''external_receipt'', jopt id (py_receipt p))]"

definition fee_assessment_json :: "fee_state \<Rightarrow> json" where
  "fee_assessment_json s = JObj
     [(''source'', JStr (source_value (fs_source s))), (''assessment_id'', jopt JStr (fs_assessment_id s)),
      (''version'', JInt (fs_version s)), (''authority_reference'', jopt id (fs_authority s)),
      (''items'', JArr (map fee_item_json (fs_items s))), (''total_cents'', jopt JInt (fs_total s)),
      (''paid_cents'', JInt (fs_paid s)), (''balance_due_cents'', jopt JInt (fs_balance s)),
      (''overpaid_cents'', JInt (fs_overpaid s))]"

definition court_name :: "db \<Rightarrow> envelope \<Rightarrow> string" where
  "court_name db f =
     (case row_at ct_id (fe_court f) (courts db) of
        None \<Rightarrow> ''Court #'' @ dec (fe_court f) | Some c \<Rightarrow> ct_name c)"

definition case_of_filing :: "db \<Rightarrow> envelope \<Rightarrow> case_row option" where
  "case_of_filing db f =
     (case fe_case f of None \<Rightarrow> None | Some c \<Rightarrow> if c = 0 then None else row_at cs_id c (cases db))"

definition submission_details :: "db \<Rightarrow> envelope \<Rightarrow> fee_state \<Rightarrow> (string \<times> json) list" where
  "submission_details db f s =
     [(''court_id'', JInt (fe_court f)), (''court_name'', JStr (court_name db f)),
      (''case_id'', jopt JInt (fe_case f)),
      (''case_number'', jopt (\<lambda>c. JStr (cs_number c)) (case_of_filing db f)),
      (''case_title'', jopt JStr (fe_title f)), (''filing_type'', JStr (fe_type f)),
      (''filing_description'', jopt JStr (fe_description f)),
      (''fee_waiver_requested'', JBool (fe_waiver_requested f)),
      (''filing_date_basis'', jopt id (fe_filing_date_basis f)),
      (''payments'', JArr (map payment_json
         (sort_key py_id (filter (\<lambda>p. py_envelope p = Some (fe_id f)) (payments db))))),
      (''fee_assessment'', fee_assessment_json s),
      (''documents'', JArr (map document_json (current_documents db (fe_id f))))]"

definition acceptance_details :: "envelope \<Rightarrow> (string \<times> json) list \<Rightarrow> (string \<times> json) list" where
  "acceptance_details f kvs =
     set_key ''filing_date_basis'' (jopt id (fe_filing_date_basis f))
       (set_key ''cms_filing_id'' (jopt JStr (fe_cms_filing_id f))
         (set_key ''cms_case_number'' (jopt JStr (fe_cms_case_number f))
           (set_key ''case_id'' (jopt JInt (fe_case f)) kvs)))"

section \<open>Retaining documents\<close>

definition retain_documents :: "int \<Rightarrow> datetime \<Rightarrow> db \<Rightarrow> db" where
  "retain_documents fid t db =
     documents_update (map (\<lambda>d. if d \<in> set (current_documents db fid) \<and> dc_retained_at d = None
       then d\<lparr>dc_retained_at := Some t\<rparr> else d)) db"

section \<open>Recording a transaction\<close>

definition submission_event :: "string \<Rightarrow> bool" where
  "submission_event ev \<longleftrightarrow> ev = ''submitted'' \<or> ev = ''service_recorded''"

definition actor_name :: "db \<Rightarrow> int \<Rightarrow> string" where
  "actor_name db uid =
     (case find_user db uid of None \<Rightarrow> ''User #'' @ dec uid | Some u \<Rightarrow> full_name u)"

definition event_time :: "env \<Rightarrow> envelope \<Rightarrow> string \<Rightarrow> datetime" where
  "event_time e f ev =
     (if submission_event ev then (case fe_submitted_at f of None \<Rightarrow> now e | Some t \<Rightarrow> t) else now e)"

definition event_details ::
    "env \<Rightarrow> db \<Rightarrow> envelope \<Rightarrow> string \<Rightarrow> string option \<Rightarrow> (string \<times> json) list
       \<Rightarrow> failure + (string \<times> json) list" where
  "event_details e db f ev reason details =
     (let kvs = (if truthy reason then set_key ''reason'' (JStr (the reason)) details else details) in
      if submission_event ev
      then then_do (fee_state_of e db f None) (\<lambda>s. Inr (submission_details db f s))
      else if ev = ''accepted'' then Inr (acceptance_details f kvs)
      else Inr kvs)"

definition new_transaction ::
    "env \<Rightarrow> db \<Rightarrow> envelope \<Rightarrow> string \<Rightarrow> int \<Rightarrow> string option \<Rightarrow> (string \<times> json) list \<Rightarrow> txn" where
  "new_transaction e db f ev actor key kvs =
     \<lparr>tx_id = new_uuid e (map tx_id (transactions db)), tx_filing = fe_id f,
      tx_submission = fe_submission_count f, tx_event = ev, tx_actor = actor,
      tx_actor_name = actor_name db actor, tx_occurred_at = event_time e f ev,
      tx_details = JObj kvs, tx_key = key\<rparr>"

text \<open>Inserting a row under the unique constraint on filing and idempotency key.\<close>

definition insert_transaction :: "txn \<Rightarrow> db \<Rightarrow> failure + db" where
  "insert_transaction t db =
     (if tx_key t \<noteq> None \<and> (\<exists>u \<in> set (transactions db). tx_filing u = tx_filing t \<and> tx_key u = tx_key t)
      then Inl IntegrityError
      else Inr (transactions_update (\<lambda>ts. ts @ [t]) db))"

definition notice_reason :: "string \<Rightarrow> string option \<Rightarrow> string option" where
  "notice_reason ev reason =
     (if starts_with ev ''waiver_'' \<or> starts_with ev ''fee_'' \<or> ev = ''filing_date_ordered''
      then Some ''Open the private filing history to read the decision.'' else reason)"

definition notify_transaction :: "env \<Rightarrow> envelope \<Rightarrow> txn \<Rightarrow> string option \<Rightarrow> db \<Rightarrow> failure + db" where
  "notify_transaction e f t reason db =
     (let nid = new_key e (map nt_id (notifications db));
          extra = [CHR 0x0A] @ ''Transaction: '' @ tx_id t @ [CHR 0x0A] @ ''Recorded (UTC): ''
            @ iso_time e (tx_occurred_at t)
      in then_do (notify_filing_status_change e (fe_filer f) (fe_id f) (tx_event t) (court_name db f)
           (fe_title f) (notice_reason (tx_event t) reason) db)
         (\<lambda>db'. Inr (notifications_update (upd_row nt_id nid (\<lambda>n. n\<lparr>nt_body := nt_body n @ extra\<rparr>)) db')))"

definition record_transaction ::
    "env \<Rightarrow> envelope \<Rightarrow> string \<Rightarrow> int \<Rightarrow> string option \<Rightarrow> string option \<Rightarrow> (string \<times> json) list
       \<Rightarrow> db \<Rightarrow> failure + txn \<times> db" where
  "record_transaction e f ev actor reason key details db =
     then_do (event_details e db f ev reason details) (\<lambda>kvs.
       let db1 = (if submission_event ev then retain_documents (fe_id f) (event_time e f ev) db else db);
           t = new_transaction e db f ev actor key kvs
       in then_do (insert_transaction t db1) (\<lambda>db2.
          then_do (if ev = ''cms_failed'' then Inr db2 else notify_transaction e f t reason db2)
            (\<lambda>db3. Inr (t, db3))))"

section \<open>Lemmas\<close>

lemma log_action_frame [simp, frame_simps]:
  "filings (log_action e u a en i d db) = filings db"
  "documents (log_action e u a en i d db) = documents db"
  "payments (log_action e u a en i d db) = payments db"
  "cases (log_action e u a en i d db) = cases db"
  "users (log_action e u a en i d db) = users db"
  "court_roles (log_action e u a en i d db) = court_roles db"
  "participants (log_action e u a en i d db) = participants db"
  "transactions (log_action e u a en i d db) = transactions db"
  "notifications (log_action e u a en i d db) = notifications db"
  "uploads (log_action e u a en i d db) = uploads db"
  "deletions (log_action e u a en i d db) = deletions db"
  "public_copies (log_action e u a en i d db) = public_copies db"
  "calendars (log_action e u a en i d db) = calendars db"
  "courts (log_action e u a en i d db) = courts db"
  "case_types (log_action e u a en i d db) = case_types db"
  "find_filing (log_action e u a en i d db) = find_filing db"
  by (simp_all add: log_action_def find_filing_def fun_eq_iff)

lemma log_action_appends: "prefix (audit db) (audit (log_action e u a en i d db))"
  by (simp add: log_action_def)

lemma retain_documents_frame [simp, frame_simps]:
  "filings (retain_documents fid t db) = filings db"
  "payments (retain_documents fid t db) = payments db"
  "cases (retain_documents fid t db) = cases db"
  "users (retain_documents fid t db) = users db"
  "court_roles (retain_documents fid t db) = court_roles db"
  "participants (retain_documents fid t db) = participants db"
  "transactions (retain_documents fid t db) = transactions db"
  "notifications (retain_documents fid t db) = notifications db"
  "audit (retain_documents fid t db) = audit db"
  "calendars (retain_documents fid t db) = calendars db"
  "courts (retain_documents fid t db) = courts db"
  "case_types (retain_documents fid t db) = case_types db"
  "uploads (retain_documents fid t db) = uploads db"
  "deletions (retain_documents fid t db) = deletions db"
  "public_copies (retain_documents fid t db) = public_copies db"
  "find_filing (retain_documents fid t db) = find_filing db"
  by (simp_all add: retain_documents_def find_filing_def fun_eq_iff)

text \<open>The notice of a transaction touches only the notices and their events.\<close>

definition only_notices :: "db \<Rightarrow> db \<Rightarrow> bool" where
  "only_notices db db' \<longleftrightarrow> (\<exists>ns es. db' = db\<lparr>notifications := ns, delivery_events := es\<rparr>)"

lemma only_notices_refl [intro, simp]: "only_notices db db"
  by (auto simp: only_notices_def intro!: exI [of _ "notifications db"] exI [of _ "delivery_events db"])

lemma only_notices_update [intro, simp]: "only_notices db (notifications_update f db)"
  by (auto simp: only_notices_def intro!: exI [of _ "f (notifications db)"] exI [of _ "delivery_events db"])

lemma only_notices_store [intro, simp]: "only_notices db (store_notice ne db)"
  by (auto simp: only_notices_def store_notice_def
      intro!: exI [of _ "upd_row nt_id (nt_id (fst ne)) (\<lambda>_. fst ne) (notifications db)"]
        exI [of _ "delivery_events db @ snd ne"])

lemma only_notices_trans: "only_notices a b \<Longrightarrow> only_notices b c \<Longrightarrow> only_notices a c"
  unfolding only_notices_def by (elim exE) (simp, blast)

lemma notify_only:
  assumes "notify_filing_status_change e filer fid status court title reason db = Inr db'"
  shows "only_notices db db'"
  using assms by (rule notify_Inr') (blast intro: only_notices_trans)

lemma notify_transaction_only:
  assumes "notify_transaction e f t reason db = Inr db'"
  shows "only_notices db db'"
proof -
  from assms obtain db1 g where "notify_filing_status_change e (fe_filer f) (fe_id f) (tx_event t)
      (court_name db f) (fe_title f) (notice_reason (tx_event t) reason) db = Inr db1"
    and "db' = notifications_update g db1"
    unfolding notify_transaction_def Let_def then_do_Inr_iff by blast
  then show ?thesis by (blast intro: only_notices_trans dest: notify_only)
qed

text \<open>What a recorded transaction leaves: the documents retained, one row appended to the ledger,
  notices, and nothing else.\<close>

lemma record_transaction_effect:
  assumes "record_transaction e f ev actor reason key details db = Inr (t, db')"
  obtains kvs ns es where "event_details e db f ev reason details = Inr kvs"
    and "t = new_transaction e db f ev actor key kvs"
    and "db' = (if submission_event ev then retain_documents (fe_id f) (event_time e f ev) db else db)
      \<lparr>transactions := transactions db @ [t], notifications := ns, delivery_events := es\<rparr>"
    and "key \<noteq> None \<Longrightarrow> \<forall>u \<in> set (transactions db). tx_filing u = fe_id f \<longrightarrow> tx_key u \<noteq> key"
proof -
  let ?db1 = "if submission_event ev then retain_documents (fe_id f) (event_time e f ev) db else db"
  from assms obtain kvs db2 where kvs: "event_details e db f ev reason details = Inr kvs"
    and t: "t = new_transaction e db f ev actor key kvs"
    and ins: "insert_transaction t ?db1 = Inr db2"
    and notice: "(if ev = ''cms_failed'' then Inr db2 else notify_transaction e f t reason db2) = Inr db'"
    by (auto simp: record_transaction_def then_do_Inr_iff Let_def)
  from ins have db2: "db2 = ?db1\<lparr>transactions := transactions db @ [t]\<rparr>"
    by (auto simp: insert_transaction_def split: if_splits)
  from notice notify_transaction_only have "only_notices db2 db'" by (auto split: if_splits)
  then obtain ns es where "db' = db2\<lparr>notifications := ns, delivery_events := es\<rparr>"
    by (auto simp: only_notices_def)
  moreover have "\<forall>u \<in> set (transactions db). tx_filing u = fe_id f \<longrightarrow> tx_key u \<noteq> key" if "key \<noteq> None"
    using ins that t by (auto simp: insert_transaction_def new_transaction_def split: if_splits)
  ultimately show ?thesis using kvs t db2 by (intro that) simp_all
qed

lemma record_transaction_frame:
  assumes "record_transaction e f ev actor reason key details db = Inr (t, db')"
  shows "filings db' = filings db" "cases db' = cases db" "payments db' = payments db"
    "users db' = users db" "court_roles db' = court_roles db" "participants db' = participants db"
    "audit db' = audit db" "transactions db' = transactions db @ [t]"
    "calendars db' = calendars db" "courts db' = courts db" "case_types db' = case_types db"
    "uploads db' = uploads db" "deletions db' = deletions db" "public_copies db' = public_copies db"
    "find_filing db' = find_filing db"
    "documents db' = documents (if submission_event ev
        then retain_documents (fe_id f) (event_time e f ev) db else db)"
    "tx_filing t = fe_id f" "tx_event t = ev" "tx_actor t = actor" "tx_key t = key"
    "tx_submission t = fe_submission_count f"
  by (rule record_transaction_effect [OF assms];
      auto simp: new_transaction_def find_filing_def fun_eq_iff)+

text \<open>Outside a submission the documents are untouched, and an other event has exactly its own details.\<close>

lemma record_transaction_plain:
  assumes "record_transaction e f ev actor reason key details db = Inr (t, db')"
    and "\<not> submission_event ev" and "ev \<noteq> ''accepted''"
  shows "documents db' = documents db" "tx_occurred_at t = now e"
    "tx_details t = JObj (if truthy reason then set_key ''reason'' (JStr (the reason)) details else details)"
  by (rule record_transaction_effect [OF assms(1)];
      use assms(2,3) in \<open>auto simp: event_details_def new_transaction_def event_time_def Let_def\<close>)+

lemma retained_set:
  "set (documents (retain_documents fid t db)) =
     (\<lambda>d. if d \<in> set (current_documents db fid) \<and> dc_retained_at d = None
          then d\<lparr>dc_retained_at := Some t\<rparr> else d) ` set (documents db)"
  by (simp add: retain_documents_def)

text \<open>Retention only fills the retention time of current documents.\<close>

lemma retain_documents_kept:
  assumes "d \<in> set (documents db)"
  shows "\<exists>d' \<in> set (documents (retain_documents fid t db)).
    d' = d\<lparr>dc_retained_at := dc_retained_at d'\<rparr> \<and> (dc_retained_at d \<noteq> None \<longrightarrow> d' = d)
    \<and> (d \<in> set (current_documents db fid) \<longrightarrow> dc_retained_at d' \<noteq> None)"
proof -
  let ?d = "if d \<in> set (current_documents db fid) \<and> dc_retained_at d = None
    then d\<lparr>dc_retained_at := Some t\<rparr> else d"
  have "?d \<in> set (documents (retain_documents fid t db))"
    unfolding retained_set using assms by (rule imageI)
  then show ?thesis by (rule bexI [rotated]) simp
qed

lemma retain_documents_origin:
  assumes "d' \<in> set (documents (retain_documents fid t db))"
  shows "\<exists>d \<in> set (documents db). d' = d\<lparr>dc_retained_at := dc_retained_at d'\<rparr>
    \<and> (dc_retained_at d \<noteq> None \<longrightarrow> d' = d)"
proof -
  from assms obtain d where d: "d \<in> set (documents db)"
    "d' = (if d \<in> set (current_documents db fid) \<and> dc_retained_at d = None
      then d\<lparr>dc_retained_at := Some t\<rparr> else d)" by (auto simp only: retained_set image_iff)
  then show ?thesis by (intro bexI [of _ d]) simp_all
qed

lemma document_json_retained [simp]: "document_json (d\<lparr>dc_retained_at := x\<rparr>) = document_json d"
  by (simp add: document_json_def)

lemma document_values_retained [simp]: "document_values (d\<lparr>dc_retained_at := x\<rparr>) = document_values d"
  by (simp add: document_values_def)

lemma retain_current:
  "current_documents (retain_documents fid t db) fid' =
     map (\<lambda>d. if d \<in> set (current_documents db fid) \<and> dc_retained_at d = None
          then d\<lparr>dc_retained_at := Some t\<rparr> else d) (current_documents db fid')"
proof -
  define g where "g = (\<lambda>d. if d \<in> set (current_documents db fid) \<and> dc_retained_at d = None
          then d\<lparr>dc_retained_at := Some t\<rparr> else d)"
  have keep: "dc_id (g d) = dc_id d" "dc_envelope (g d) = dc_envelope d" "dc_removed_at (g d) = dc_removed_at d"
    "dc_type (g d) = dc_type d" for d by (simp_all add: g_def)
  have "sort_key dc_id (map g xs) = map g (sort_key dc_id xs)" for xs
  proof (induction xs)
    case (Cons x xs)
    have "insort_key dc_id (g x) (map g ys) = map g (insort_key dc_id x ys)" for ys
      by (induction ys) (auto simp: keep)
    with Cons show ?case by simp
  qed simp
  moreover have "filter (\<lambda>d. dc_envelope d = fid' \<and> dc_removed_at d = None
      \<and> dc_type d \<notin> set court_document_types) (map g (documents db))
    = map g (filter (\<lambda>d. dc_envelope d = fid' \<and> dc_removed_at d = None
      \<and> dc_type d \<notin> set court_document_types) (documents db))"
    by (simp add: filter_map o_def keep)
  moreover have "documents (retain_documents fid t db) = map g (documents db)"
    by (simp add: retain_documents_def g_def)
  ultimately have "current_documents (retain_documents fid t db) fid' = map g (current_documents db fid')"
    by (simp only: current_documents_def)
  then show ?thesis by (simp only: g_def)
qed

end
