(* ===== verification/CaseNumbers.thy ===== *)
theory CaseNumbers
  imports Models
begin

text \<open>
  Case numbers (\<open>case_numbers.py\<close>): the case-type code of a court and the number of a new case,
  with the proof that the number determines the year and the filing it was assigned for.
\<close>

definition case_codes :: "(string \<times> string) list" where
  "case_codes =
     [(''CIV-GEN'', ''CZ''), (''CIV-TORT'', ''NO''), (''CIV-CONT'', ''CK''), (''CIV-PROP'', ''CH''),
      (''CIV-COND'', ''CC''), (''CIV-BUS'', ''CB''), (''CIV-GARN'', ''PS''), (''CIR-APP'', ''AV''),
      (''CIV-SUBP'', ''PZ''), (''LT-SP'', ''LT''), (''SM-CLM'', ''SC''), (''FAM-DIV'', ''DM''),
      (''FAM-CUST'', ''DC''), (''FAM-SUP'', ''DS''), (''FAM-PPO'', ''PP''), (''FAM-ADPT'', ''AD''),
      (''CR-FEL'', ''FH''), (''CR-MISD'', ''SM''), (''TR-CIV'', ''SI''), (''PR-EST'', ''DE''),
      (''PR-GRDN'', ''GA''), (''PR-CNSRV'', ''CA''), (''PR-TRUST'', ''TT''), (''PR-MI'', ''MI''),
      (''COC-TORT'', ''MZ''), (''COC-CONT'', ''MK''), (''COC-CONST'', ''MM''), (''COC-TAX'', ''MT''),
      (''COC-HWY'', ''MD''), (''COC-PROP'', ''MZ''), (''COC-APPREV'', ''MZ''), (''APP-CIV'', ''AV''),
      (''APP-CR'', ''AR''), (''APP-FAM'', ''AV'')]"

definition district_case_codes :: "(string \<times> string) list" where
  "district_case_codes =
     [(''CIV-GEN'', ''GC''), (''CIV-TORT'', ''GC''), (''CIV-CONT'', ''GC''), (''CIV-PROP'', ''GZ''),
      (''CIV-GARN'', ''GZ''), (''CIV-SUBP'', ''GZ''), (''CR-FEL'', ''FY'')]"

definition case_number_code :: "court_type \<Rightarrow> string \<Rightarrow> string" where
  "case_number_code ty code =
     (let common = (case map_of case_codes code of None \<Rightarrow> code | Some c \<Rightarrow> c) in
      if ty \<in> {District, Municipal}
      then (case map_of district_case_codes code of None \<Rightarrow> common | Some c \<Rightarrow> c)
      else common)"

text \<open>\<open>f"{year:04d}-{filing.id:06d}-{suffix}"\<close>.\<close>

definition case_number :: "int \<Rightarrow> int \<Rightarrow> string \<Rightarrow> string" where
  "case_number year fid code = zero_pad 4 year @ ''-'' @ zero_pad 6 fid @ ''-'' @ code"

section \<open>Reading the number back\<close>

definition digit_value :: "char \<Rightarrow> nat" where
  "digit_value c = of_char c - 48"

definition dec_value :: "string \<Rightarrow> nat" where
  "dec_value s = foldl (\<lambda>n c. 10 * n + digit_value c) 0 s"

lemma dec_value_append: "dec_value (s @ [c]) = 10 * dec_value s + digit_value c"
  by (simp add: dec_value_def)

lemma digit_value_of: "d < 10 \<Longrightarrow> digit_value (char_of (48 + d)) = d"
  by (simp add: digit_value_def)

lemma dec_value_dec_nat: "dec_value (dec_nat n) = n"
proof (induction n rule: dec_nat.induct)
  case (1 n)
  show ?case
  proof (cases "n < 10")
    case True
    then show ?thesis by (subst dec_nat.simps) (simp add: dec_value_def digit_value_of)
  next
    case False
    with 1 have "dec_value (dec_nat (n div 10)) = n div 10" by simp
    with False show ?thesis
      by (subst dec_nat.simps) (simp add: dec_value_append digit_value_of)
  qed
qed

lemma dec_value_zeros: "dec_value (replicate k (CHR ''0'') @ s) = dec_value s"
proof -
  have "foldl (\<lambda>n c. 10 * n + digit_value c) 0 (replicate k (CHR ''0'')) = 0"
    by (induction k) (simp_all add: digit_value_def)
  then show ?thesis by (simp add: dec_value_def)
qed

lemma dec_value_zero_pad: "0 \<le> i \<Longrightarrow> dec_value (zero_pad w i) = nat i"
  by (simp add: zero_pad_def dec_value_zeros dec_def dec_value_dec_nat)

lemma dec_nat_digits: "c \<in> set (dec_nat n) \<Longrightarrow> c \<noteq> CHR ''-''"
proof (induction n rule: dec_nat.induct)
  case (1 n)
  have digit: "char_of (48 + d) \<noteq> CHR ''-''" if "d < 10" for d :: nat
  proof
    assume "char_of (48 + d) = CHR ''-''"
    then have "(of_char (char_of (48 + d)) :: nat) = of_char (CHR ''-'')" by simp
    with that show False by simp
  qed
  from 1 digit [of n] digit [of "n mod 10"] show ?case
    by (cases "n < 10") (auto simp: dec_nat.simps [of n])
qed

lemma zero_pad_digits: "0 \<le> i \<Longrightarrow> c \<in> set (zero_pad w i) \<Longrightarrow> c \<noteq> CHR ''-''"
  by (auto simp: zero_pad_def dec_def dest: dec_nat_digits)

lemma split_at_dash:
  assumes "\<And>c. c \<in> set a \<Longrightarrow> c \<noteq> CHR ''-''" and "\<And>c. c \<in> set a' \<Longrightarrow> c \<noteq> CHR ''-''"
    and "a @ CHR ''-'' # b = a' @ CHR ''-'' # b'"
  shows "a = a' \<and> b = b'"
proof -
  have "takeWhile (\<lambda>c. c \<noteq> CHR ''-'') (a @ CHR ''-'' # b) = a"
    "takeWhile (\<lambda>c. c \<noteq> CHR ''-'') (a' @ CHR ''-'' # b') = a'"
    using assms(1,2) by (auto simp: takeWhile_append2)
  with assms(3) have "a = a'" by simp
  with assms(3) show ?thesis by simp
qed

section \<open>Properties\<close>

text \<open>A case number determines the year, the filing and the suffix it was made from, so two
  filings never produce the same number.\<close>
theorem case_number_injective:
  assumes "case_number y f s = case_number y' f' s'"
    and "0 \<le> y" and "0 \<le> y'" and "0 \<le> f" and "0 \<le> f'"
  shows "y = y' \<and> f = f' \<and> s = s'"
proof -
  from assms(1) have 1: "zero_pad 4 y @ CHR ''-'' # (zero_pad 6 f @ CHR ''-'' # s)
      = zero_pad 4 y' @ CHR ''-'' # (zero_pad 6 f' @ CHR ''-'' # s')"
    by (simp add: case_number_def)
  have y: "zero_pad 4 y = zero_pad 4 y' \<and> zero_pad 6 f @ CHR ''-'' # s = zero_pad 6 f' @ CHR ''-'' # s'"
    by (rule split_at_dash [OF _ _ 1]) (use assms zero_pad_digits in auto)
  then have f: "zero_pad 6 f = zero_pad 6 f' \<and> s = s'"
    by (intro split_at_dash) (use assms zero_pad_digits in auto)
  from y f have "dec_value (zero_pad 4 y) = dec_value (zero_pad 4 y')"
    and "dec_value (zero_pad 6 f) = dec_value (zero_pad 6 f')" by simp_all
  with assms(2-5) have "nat y = nat y'" and "nat f = nat f'" by (simp_all add: dec_value_zero_pad)
  with assms(2-5) f show ?thesis by (simp add: eq_nat_nat_iff)
qed

theorem case_number_injective_witness:
  "case_number 2026 12 ''CZ'' = ''2026-000012-CZ'' \<and> (2026 :: int) = 2026 \<and> (12 :: int) = 12"
proof -
  have n: "case_number 2026 12 ''CZ'' = ''2026-000012-CZ''" by code_simp
  with case_number_injective [of 2026 12 "''CZ''" 2026 12 "''CZ''"] show ?thesis by simp
qed

end
