(* ===== verification/Filing.thy ===== *)
theory Filing
  imports Ledger CaseNumbers
begin

text \<open>
  Filings up to their submission (\<open>services/filing_service.py\<close>): the destination check, creation,
  editing, validation and submission. A request first reads the filing without a lock and reads
  it again under a lock; the two database states are the two arguments \<open>db0\<close> and \<open>db\<close>
  of an operation, so that whatever other requests commit in between is covered.
\<close>

section \<open>Verifying stored documents\<close>

fun verify_stored :: "env \<Rightarrow> document list \<Rightarrow> failure + unit" where
  "verify_stored e [] = Inr ()"
| "verify_stored e (d # ds) =
     (case stored e (dc_file_key d) of
        BadFileKey \<Rightarrow> Inl InternalError
      | FileMissing \<Rightarrow> Inl (FilingDocumentError (Document_unavailable (dc_title d)))
      | StorageDown \<Rightarrow> Inl (FilingDocumentError (Document_unavailable (dc_title d)))
      | Stored h n \<Rightarrow>
          if h \<noteq> dc_sha256 d \<or> n \<noteq> dc_size d
          then Inl (FilingDocumentError (Document_mismatch (dc_title d)))
          else verify_stored e ds)"

definition verify_filing_documents :: "env \<Rightarrow> document list \<Rightarrow> document option \<Rightarrow> failure + unit" where
  "verify_filing_documents e docs order =
     (if docs = [] then Inl (FilingDocumentError No_current_documents)
      else verify_stored e (docs @ (case order of None \<Rightarrow> [] | Some d \<Rightarrow> [d])))"

definition fingerprint :: "document \<Rightarrow> int \<times> string \<times> int" where
  "fingerprint d = (dc_id d, dc_sha256 d, dc_size d)"

section \<open>Required documents\<close>

definition service_proof_codes :: "string list" where
  "service_proof_codes = [''PROOF_SERVICE'', ''POS_ELECTRONIC'', ''CERT_SERVICE'']"

definition discovery_motion_codes :: "string list" where
  "discovery_motion_codes = [''MOT_COMPEL'', ''MOT_PROTECTIVE'', ''MOT_SANCTIONS'']"

definition is_motion_code :: "string \<Rightarrow> bool" where
  "is_motion_code code \<longleftrightarrow> (let c = str_upper code in
     starts_with c ''MOT_''
     \<or> c \<in> set [''MOTION'', ''BRIEF'', ''BRIEF_SUPPORT'', ''BRIEF_RESPONSE'', ''BRIEF_REPLY'',
          ''PROPOSED_ORDER'', ''NOT_HEARING'', ''NOTICE_HEARING'', ''DISC_CERT_GF'']
     \<or> contains c ''MOTION'' \<or> contains c ''BRIEF'')"

definition is_response_code :: "string \<Rightarrow> bool" where
  "is_response_code code \<longleftrightarrow> (let c = str_upper code in
     c \<in> set [''ANSWER'', ''REPLY'', ''RESPONSE_BRIEF'', ''BRIEF_RESPONSE'', ''BRIEF_REPLY'']
     \<or> contains c ''ANSWER'' \<or> contains c ''REPLY'')"

definition requirements_for_filing_type :: "requirement list \<Rightarrow> string \<Rightarrow> requirement list" where
  "requirements_for_filing_type rs ty =
     (if ty = ''initial'' then
        filter (\<lambda>r. \<not> (is_motion_code (rq_code r) \<or> is_response_code (rq_code r)
          \<or> str_upper (rq_code r) \<in> set service_proof_codes)) rs
      else if ty \<in> {''subsequent'', ''motion''} then filter (\<lambda>r. is_motion_code (rq_code r)) rs
      else rs)"

section \<open>The destination of a filing\<close>

record destination =
  dn_court :: int
  dn_case :: "int option"
  dn_case_type :: int
  dn_type :: string

definition destination_of :: "envelope \<Rightarrow> destination" where
  "destination_of f = \<lparr>dn_court = fe_court f, dn_case = fe_case f, dn_case_type = fe_case_type f,
     dn_type = fe_type f\<rparr>"

definition filing_types :: "string list" where
  "filing_types = [''initial'', ''subsequent'', ''motion'', ''service_only'']"

definition notice_or_none :: "string option \<Rightarrow> string option" where
  "notice_or_none n = (if truthy n then n else None)"

definition check_target :: "db \<Rightarrow> destination \<Rightarrow> int option \<Rightarrow> failure + unit" where
  "check_target db d filer =
     (case (row_at ct_id (dn_court d) (courts db), row_at ty_id (dn_case_type d) (case_types db)) of
        (Some c, Some ty) \<Rightarrow>
          if ty_court ty \<noteq> dn_court d then Inl (FilingDestinationError 400 Type_of_other_court)
          else if filer \<noteq> None \<and> \<not> ct_efiling_enabled c
          then Inl (FilingDestinationError 409 (Court_not_accepting (notice_or_none (ct_intake_notice c))))
          else if filer \<noteq> None \<and> \<not> ty_active ty
          then Inl (FilingDestinationError 409 (Type_not_accepting (notice_or_none (ct_intake_notice c))))
          else Inr ()
      | _ \<Rightarrow> Inl (FilingDestinationError 404 Court_or_type_not_found))"

definition check_case :: "db \<Rightarrow> destination \<Rightarrow> int option \<Rightarrow> int \<Rightarrow> failure + case_row" where
  "check_case db d filer cid =
     (case row_at cs_id cid (cases db) of
        None \<Rightarrow> Inl (FilingDestinationError 404 Case_not_found)
      | Some c \<Rightarrow>
          if (case filer of
                None \<Rightarrow> False
              | Some u \<Rightarrow> (case find_user db u of
                  None \<Rightarrow> True | Some usr \<Rightarrow> \<not> may_file_on_case db usr cid))
          then Inl (FilingDestinationError 403 Participation_required)
          else if cs_court c \<noteq> dn_court d then Inl (FilingDestinationError 400 Case_of_other_court)
          else if cs_case_type c \<noteq> dn_case_type d then Inl (FilingDestinationError 400 Case_type_mismatch)
          else Inr c)"

definition validate_filing_destination :: "db \<Rightarrow> destination \<Rightarrow> int option \<Rightarrow> failure + case_row option" where
  "validate_filing_destination db d filer =
     (if dn_type d \<notin> set filing_types then Inl (FilingDestinationError 409 Unsupported_type)
      else if filer = None \<and> dn_type d = ''service_only''
      then Inl (FilingDestinationError 409 Service_only_not_accepted)
      else if filer \<noteq> None \<and> ((dn_type d = ''initial'') \<noteq> (dn_case d = None))
      then Inl (FilingDestinationError 409 Type_does_not_match_case)
      else then_do (check_target db d filer) (\<lambda>_.
        case dn_case d of
          None \<Rightarrow> Inr None
        | Some cid \<Rightarrow> then_do (check_case db d filer cid) (\<lambda>c. Inr (Some c))))"

section \<open>Creating and editing\<close>

record filing_draft =
  fd_court :: int
  fd_case :: "int option"
  fd_case_type :: int
  fd_type :: string
  fd_title :: "string option"
  fd_description :: "string option"
  fd_waiver_requested :: bool
  fd_waiver_reason :: "string option"

definition creation_fingerprint :: "env \<Rightarrow> filing_draft \<Rightarrow> string" where
  "creation_fingerprint e d = digest e (JObj
     [(''court_id'', JInt (fd_court d)), (''case_id'', jopt JInt (fd_case d)),
      (''case_type_id'', JInt (fd_case_type d)), (''filing_type'', JStr (fd_type d)),
      (''case_title'', jopt JStr (fd_title d)), (''filing_description'', jopt JStr (fd_description d)),
      (''fee_waiver_requested'', JBool (fd_waiver_requested d)),
      (''fee_waiver_reason'', jopt JStr (fd_waiver_reason d))])"

definition draft_destination :: "filing_draft \<Rightarrow> destination" where
  "draft_destination d = \<lparr>dn_court = fd_court d, dn_case = fd_case d, dn_case_type = fd_case_type d,
     dn_type = fd_type d\<rparr>"

definition new_envelope ::
    "env \<Rightarrow> db \<Rightarrow> int \<Rightarrow> filing_draft \<Rightarrow> string option \<Rightarrow> case_row option \<Rightarrow> envelope" where
  "new_envelope e db filer d key c =
     \<lparr>fe_id = new_key e (map fe_id (filings db)), fe_court = fd_court d, fe_case = fd_case d,
      fe_case_type = fd_case_type d, fe_filer = filer, fe_creation_key = key,
      fe_creation_sha256 = (if truthy key then Some (creation_fingerprint e d) else None),
      fe_type = fd_type d, fe_status = Draft,
      fe_title = (case c of None \<Rightarrow> fd_title d | Some r \<Rightarrow> Some (cs_title r)),
      fe_description = fd_description d, fe_filed_at = None, fe_submitted_at = None,
      fe_reviewed_at = None, fe_reviewer = None, fe_rejection_reason = None, fe_payment = None,
      fe_payment_version = 0, fe_waiver_requested = fd_waiver_requested d,
      fe_waiver_granted = None, fe_waiver_reason = fd_waiver_reason d,
      fe_waiver_referred_at = None, fe_waiver_decided_at = None, fe_waiver_due_cents = None,
      fe_cms_case_number = None, fe_cms_filing_id = None, fe_cms_error = None,
      fe_created_at = now e, fe_updated_at = now e, fe_submission_count = 0, fe_filing_date = None,
      fe_filing_date_basis = None, fe_filing_date_version = 0, fe_fee_version = 0,
      fe_fee_review_at = None, fe_fee_assessment = None\<rparr>"

text \<open>The insert is subject to the unique index on filer and creation key.\<close>

definition create_filing ::
    "env \<Rightarrow> db \<Rightarrow> int \<Rightarrow> filing_draft \<Rightarrow> string option \<Rightarrow> failure + envelope \<times> db" where
  "create_filing e db filer d key =
     then_do (validate_filing_destination db (draft_destination d) (Some filer)) (\<lambda>c.
       let f = new_envelope e db filer d key c in
       if key \<noteq> None \<and> (\<exists>g \<in> set (filings db). fe_filer g = filer \<and> fe_creation_key g = key)
       then Inl IntegrityError
       else Inr (f, filings_update (\<lambda>fs. fs @ [f]) db))"

record details_edit =
  ed_token :: "string option"
  ed_title :: "string option"
  ed_description :: "string option"
  ed_waiver_requested :: "bool option"
  ed_waiver_reason :: "string option"

definition edited :: "details_edit \<Rightarrow> envelope \<Rightarrow> envelope" where
  "edited d f =
     (let f1 = (case ed_title d of None \<Rightarrow> f | Some t \<Rightarrow> f\<lparr>fe_title := Some t\<rparr>);
          f2 = (case ed_description d of None \<Rightarrow> f1 | Some t \<Rightarrow> f1\<lparr>fe_description := Some t\<rparr>);
          f3 = (case ed_waiver_requested d of
                  None \<Rightarrow> f2
                | Some b \<Rightarrow> f2\<lparr>fe_waiver_requested := b,
                    fe_fee_review_at := if b then None else fe_fee_review_at f2\<rparr>)
      in (case ed_waiver_reason d of None \<Rightarrow> f3 | Some t \<Rightarrow> f3\<lparr>fe_waiver_reason := Some t\<rparr>))"

definition update_details :: "env \<Rightarrow> envelope \<Rightarrow> details_edit \<Rightarrow> db \<Rightarrow> failure + db" where
  "update_details e f d db =
     (if ed_token d \<noteq> None \<and> ed_token d \<noteq> Some (details_token e f)
      then Inl (FilingUpdateError 409 Details_changed)
      else if fe_status f \<notin> {Draft, Returned} then Inl (FilingUpdateError 400 Not_draft_or_returned)
      else if fe_submitted_at f \<noteq> None
        \<and> (ed_waiver_requested d \<noteq> None \<and> ed_waiver_requested d \<noteq> Some (fe_waiver_requested f)
           \<or> ed_waiver_reason d \<noteq> None \<and> ed_waiver_reason d \<noteq> fe_waiver_reason f)
      then Inl (FilingUpdateError 409 Waiver_not_editable)
      else if ed_title d \<noteq> None \<and> ed_title d \<noteq> fe_title f \<and> fe_case f \<noteq> None
      then Inl (FilingUpdateError 409 Title_is_courts)
      else Inr (save_filing e (edited d f) db))"

section \<open>Validation\<close>

record validation =
  va_errors :: "validation_error list"
  va_warnings :: "string list"
  va_missing :: "string list"

definition va_valid :: "validation \<Rightarrow> bool" where
  "va_valid v \<longleftrightarrow> va_errors v = [] \<and> va_missing v = []"

definition motion_type :: "string \<Rightarrow> bool" where
  "motion_type t \<longleftrightarrow> starts_with t ''MOT_'' \<or> t = ''MOTION''"

definition required_documents :: "db \<Rightarrow> envelope \<Rightarrow> string list \<Rightarrow> requirement list" where
  "required_documents db f types =
     (let rs = requirements_for_filing_type
                 (filter (\<lambda>r. rq_court r = fe_court f \<and> rq_case_type r = Some (fe_case_type f) \<and> rq_required r)
                   (requirements db)) (fe_type f)
      in if fe_type f = ''subsequent'' \<and> \<not> (\<exists>t \<in> set types. motion_type t) then [] else rs)"

definition satisfied :: "string list \<Rightarrow> requirement \<Rightarrow> bool" where
  "satisfied types r \<longleftrightarrow>
     rq_code r \<in> set types
     \<or> motion_type (rq_code r) \<and> (\<exists>t \<in> set types. motion_type t)
     \<or> rq_code r = ''DISC_CERT_GF'' \<and> (\<forall>t \<in> set types. t \<notin> set discovery_motion_codes)"

definition requirement_text :: "requirement \<Rightarrow> string" where
  "requirement_text r = rq_description r @ (if truthy (rq_mcr r) then ''. See '' @ the (rq_mcr r) @ ''.'' else [])"

definition waiver_form_text :: string where
  "waiver_form_text = ''Completed, signed Fee Waiver Request (MC 20), nonpublic''"

definition search_warnings :: "document list \<Rightarrow> string list" where
  "search_warnings docs =
     map (\<lambda>d. ''Document '' @ [CHR 0x27] @ dc_title d @ [CHR 0x27] @ '' may not be text-searchable. ''
            @ ''MCR 1.109 requires text-searchable PDFs.'')
       (filter (\<lambda>d. \<not> dc_searchable d \<and> dc_mime d = ''application/pdf'') docs)"

definition pii_warnings :: "document list \<Rightarrow> string list" where
  "pii_warnings docs = concat (map (\<lambda>d.
     let name = ''Document '' @ [CHR 0x27] @ dc_title d @ [CHR 0x27] in
     if dc_mime d = ''application/pdf'' then
       (case dc_pii d of
          None \<Rightarrow> [name @ '' has no retained PII screening result. Review its full contents before submission.'']
        | Some ws \<Rightarrow> map (\<lambda>w. name @ '': '' @ w) ws)
     else []) docs)"

definition validate_filing :: "db \<Rightarrow> envelope \<Rightarrow> document list \<Rightarrow> validation" where
  "validate_filing db f docs =
     (let types = map dc_type docs;
          service_only = (fe_type f = ''service_only'');
          no_case = (fe_case f = None \<or> fe_case f = Some 0);
          missing_waiver = (if waiver_pending f \<and> ''FEE_WAIVER'' \<notin> set types then [waiver_form_text] else []);
          missing = (if service_only then [] else
            map requirement_text (filter (\<lambda>r. \<not> satisfied types r) (required_documents db f types)))
      in \<lparr>va_errors = (if docs = [] then [No_document] else [])
            @ (if service_only then (if no_case then [No_case_reference] else [])
               else if \<not> truthy (fe_title f) \<and> no_case then [No_case_title] else []),
          va_warnings = search_warnings docs @ pii_warnings docs,
          va_missing = missing_waiver @ missing\<rparr>)"

section \<open>Submission\<close>

definition check_submission ::
    "env \<Rightarrow> db \<Rightarrow> envelope \<Rightarrow> string \<Rightarrow> string option \<Rightarrow> failure + unit" where
  "check_submission e db f token key =
     (let docs = current_documents db (fe_id f) in
      if truthy key \<and> (\<exists>t \<in> set (transactions db). tx_filing t = fe_id f \<and> tx_key t = key)
      then Inl (SubmissionAlreadyRecordedError (fe_id f))
      else if token \<noteq> submission_token e f docs then Inl (FilingSubmissionError 409 Submission_changed)
      else if fe_status f \<notin> {Draft, Returned} then Inl (FilingSubmissionError 400 Only_draft_submitted)
      else then_do (fee_state_of e db f None) (\<lambda>s.
        if \<not> fs_obligation_met s then Inl (FilingSubmissionError 402 Payment_required)
        else let v = validate_filing db f docs in
          if \<not> va_valid v
          then Inl (FilingSubmissionError 400 (Validation_failed (va_errors v) (va_missing v)))
          else Inr ()))"

definition check_submission_opt ::
    "env \<Rightarrow> db \<Rightarrow> envelope \<Rightarrow> string option \<Rightarrow> string option \<Rightarrow> failure + unit" where
  "check_submission_opt e db f token key =
     (case token of None \<Rightarrow> Inr () | Some t \<Rightarrow> check_submission e db f t key)"

definition or_else :: "'a option \<Rightarrow> 'a option \<Rightarrow> 'a option" where
  "or_else a b = (case a of None \<Rightarrow> b | Some _ \<Rightarrow> a)"

text \<open>The filing as submitted, before its transaction is recorded.\<close>

definition submitted_envelope :: "env \<Rightarrow> db \<Rightarrow> envelope \<Rightarrow> envelope" where
  "submitted_envelope e db f =
     (let filed = or_else (or_else (fe_filed_at f) (fe_submitted_at f)) (Some (now e));
          f1 = f\<lparr>fe_filed_at := filed, fe_submitted_at := Some (now e), fe_reviewed_at := None,
                 fe_reviewer := None, fe_rejection_reason := None, fe_cms_error := None,
                 fe_submission_count := fe_submission_count f + 1,
                 fe_filing_date_version := fe_filing_date_version f + 1\<rparr>;
          f2 = (if fe_type f1 \<noteq> ''service_only'' \<and> fe_filing_date f1 = None then
                  (let a = filing_date_for_receipt e db (fe_court f1) (the filed)
                   in f1\<lparr>fe_filing_date := as_filing_date a, fe_filing_date_basis := Some (assessment_json a)\<rparr>)
                else f1)
      in f2\<lparr>fe_status := (if fe_type f2 = ''service_only'' then Served else Submitted)\<rparr>)"

definition submission_event_of :: "envelope \<Rightarrow> string" where
  "submission_event_of f = (if fe_type f = ''service_only'' then ''service_recorded'' else ''submitted'')"

definition submit_locked :: "env \<Rightarrow> db \<Rightarrow> envelope \<Rightarrow> string option \<Rightarrow> failure + envelope \<times> db" where
  "submit_locked e db f key =
     (let f' = submitted_envelope e db f in
      then_do (record_transaction e f' (submission_event_of f') (fe_filer f') None key [] (save_filing e f' db))
        (\<lambda>(t, db'). Inr (f', db')))"

definition submit_filing ::
    "env \<Rightarrow> db \<Rightarrow> db \<Rightarrow> int \<Rightarrow> string option \<Rightarrow> string option \<Rightarrow> failure + (envelope \<times> db) option" where
  "submit_filing e db0 db fid key token =
     (case find_filing db0 fid of
        None \<Rightarrow> Inr None
      | Some probe \<Rightarrow>
          then_do (check_submission_opt e db0 probe token key) (\<lambda>_.
          if fe_status probe \<notin> {Draft, Returned} then Inr None
          else then_do (validate_filing_destination db0 (destination_of probe) (Some (fe_filer probe))) (\<lambda>_.
          let docs0 = current_documents db0 fid in
          then_do (verify_filing_documents e docs0 None) (\<lambda>_.
          case find_filing db fid of
            None \<Rightarrow> Inr None
          | Some f \<Rightarrow>
              then_do (check_submission_opt e db f token key) (\<lambda>_.
              if fe_status f \<notin> {Draft, Returned} then Inr None
              else then_do (validate_filing_destination db (destination_of f) (Some (fe_filer f))) (\<lambda>_.
              if map fingerprint (current_documents db fid) \<noteq> map fingerprint docs0
              then Inl (FilingDocumentError Documents_changed)
              else then_do (submit_locked e db f key) (\<lambda>r. Inr (Some r))))))))"

section \<open>Lemmas\<close>

lemma find_filing_id: "find_filing db fid = Some f \<Longrightarrow> fe_id f = fid"
  by (auto simp: find_filing_def dest: row_at_SomeD)

lemma verify_stored_Inr:
  "verify_stored e ds = Inr u \<longleftrightarrow> (\<forall>d \<in> set ds. stored e (dc_file_key d) = Stored (dc_sha256 d) (dc_size d))"
  by (induction ds) (auto split: stored_result.splits)

lemma verify_filing_documents_Inr:
  "verify_filing_documents e docs order = Inr u \<longleftrightarrow> docs \<noteq> []
     \<and> (\<forall>d \<in> set docs. stored e (dc_file_key d) = Stored (dc_sha256 d) (dc_size d))
     \<and> (\<forall>d. order = Some d \<longrightarrow> stored e (dc_file_key d) = Stored (dc_sha256 d) (dc_size d))"
  by (auto simp: verify_filing_documents_def verify_stored_Inr split: option.splits)

lemma destination_Inr:
  assumes "validate_filing_destination db d filer = Inr c"
  shows "dn_type d \<in> set filing_types
    \<and> (\<exists>ct ty. row_at ct_id (dn_court d) (courts db) = Some ct \<and> row_at ty_id (dn_case_type d) (case_types db) = Some ty
        \<and> ty_court ty = dn_court d \<and> (filer \<noteq> None \<longrightarrow> ct_efiling_enabled ct \<and> ty_active ty))
    \<and> (case dn_case d of
         None \<Rightarrow> c = None
       | Some cid \<Rightarrow> \<exists>r. c = Some r \<and> row_at cs_id cid (cases db) = Some r \<and> cs_court r = dn_court d
           \<and> cs_case_type r = dn_case_type d
           \<and> (\<forall>u. filer = Some u \<longrightarrow> (\<exists>usr. find_user db u = Some usr \<and> may_file_on_case db usr cid)))"
  using assms
  by (auto simp: validate_filing_destination_def then_do_Inr_iff check_target_def check_case_def
      split: if_splits option.splits)

lemma destination_type_case:
  "validate_filing_destination db d (Some u) = Inr c \<Longrightarrow> dn_type d = ''initial'' \<longleftrightarrow> dn_case d = None"
  by (auto simp: validate_filing_destination_def then_do_Inr_iff split: if_splits)

lemma check_submission_Inr:
  assumes "check_submission e db f token key = Inr u"
  shows "token = submission_token e f (current_documents db (fe_id f)) \<and> fe_status f \<in> {Draft, Returned}
    \<and> (\<exists>s. fee_state_of e db f None = Inr s \<and> fs_obligation_met s)
    \<and> va_valid (validate_filing db f (current_documents db (fe_id f)))
    \<and> (truthy key \<longrightarrow> (\<forall>t \<in> set (transactions db). tx_filing t = fe_id f \<longrightarrow> tx_key t \<noteq> key))"
  using assms by (auto simp: check_submission_def Let_def then_do_Inr_iff split: if_splits)

lemma submit_filing_Inr:
  assumes "submit_filing e db0 db fid key token = Inr (Some (f', db'))"
  obtains probe f t c where "find_filing db0 fid = Some probe"
    and "verify_filing_documents e (current_documents db0 fid) None = Inr ()"
    and "find_filing db fid = Some f" and "fe_status f \<in> {Draft, Returned}"
    and "check_submission_opt e db f token key = Inr ()"
    and "validate_filing_destination db (destination_of f) (Some (fe_filer f)) = Inr c"
    and "map fingerprint (current_documents db fid) = map fingerprint (current_documents db0 fid)"
    and "f' = submitted_envelope e db f"
    and "record_transaction e f' (submission_event_of f') (fe_filer f') None key [] (save_filing e f' db) = Inr (t, db')"
  using assms
  by (auto simp: submit_filing_def submit_locked_def then_do_Inr_iff Let_def
      split: option.splits if_splits intro: that)

lemma submitted_envelope_fields:
  "fe_id (submitted_envelope e db f) = fe_id f" "fe_filer (submitted_envelope e db f) = fe_filer f"
  "fe_court (submitted_envelope e db f) = fe_court f" "fe_type (submitted_envelope e db f) = fe_type f"
  "fe_submission_count (submitted_envelope e db f) = fe_submission_count f + 1"
  "fe_submitted_at (submitted_envelope e db f) = Some (now e)"
  "fe_filed_at (submitted_envelope e db f) = or_else (or_else (fe_filed_at f) (fe_submitted_at f)) (Some (now e))"
  "fe_status (submitted_envelope e db f) = (if fe_type f = ''service_only'' then Served else Submitted)"
  "fe_reviewer (submitted_envelope e db f) = None" "fe_case (submitted_envelope e db f) = fe_case f"
  by (simp_all add: submitted_envelope_def Let_def)

lemma submission_event_of_event: "submission_event (submission_event_of f)"
  by (simp add: submission_event_def submission_event_of_def)

lemma submit_result:
  assumes "find_filing db fid = Some f"
    and "record_transaction e f' ev a None key [] (save_filing e f' db) = Inr (t, db')"
    and "f' = submitted_envelope e db f"
  shows "\<exists>u. find_filing db' fid = Some (f'\<lparr>fe_updated_at := u\<rparr>)"
    and "\<And>g. g \<noteq> fid \<Longrightarrow> find_filing db' g = find_filing db g"
proof -
  have id: "fe_id f' = fid" using assms by (simp add: submitted_envelope_fields find_filing_id)
  with assms(1) obtain u where "find_filing (save_filing e f' db) fid = Some (f'\<lparr>fe_updated_at := u\<rparr>)"
    using find_save_same [of db f' f e] by metis
  then show "\<exists>u. find_filing db' fid = Some (f'\<lparr>fe_updated_at := u\<rparr>)"
    using record_transaction_frame(15) [OF assms(2)] by (intro exI [of _ u]) simp
  show "find_filing db' g = find_filing db g" if "g \<noteq> fid" for g
    using record_transaction_frame(15) [OF assms(2)] that id by (simp add: find_save_other)
qed

lemma submission_details_documents:
  "jget ''documents'' (JObj (submission_details db f s))
     = Some (JArr (map document_json (current_documents db (fe_id f))))"
  by (simp add: jget_def submission_details_def)

text \<open>The transaction of a submission names every current document and retains it.\<close>

lemma submission_recorded:
  assumes "record_transaction e f ev a r key kvs db = Inr (t, db')" and "submission_event ev"
  shows "jget ''documents'' (tx_details t) = Some (JArr (map document_json (current_documents db (fe_id f))))"
    and "tx_occurred_at t = event_time e f ev"
    and "\<And>d. d \<in> set (current_documents db' (fe_id f)) \<Longrightarrow> dc_retained_at d \<noteq> None"
    and "map document_json (current_documents db' fid) = map document_json (current_documents db fid)"
proof -
  obtain kvs' ns es where ev: "event_details e db f ev r kvs = Inr kvs'"
    and t: "t = new_transaction e db f ev a key kvs'"
    and db': "db' = (retain_documents (fe_id f) (event_time e f ev) db)
      \<lparr>transactions := transactions db @ [t], notifications := ns, delivery_events := es\<rparr>"
    by (rule record_transaction_effect [OF assms(1)], unfold if_P [OF assms(2)], rule that)
  from ev assms(2) obtain s where "kvs' = submission_details db f s"
    by (auto simp: event_details_def Let_def then_do_Inr_iff)
  then have "tx_details t = JObj (submission_details db f s)" using t by (simp add: new_transaction_def)
  then show "jget ''documents'' (tx_details t) = Some (JArr (map document_json (current_documents db (fe_id f))))"
    by (simp only: submission_details_documents)
  from t show "tx_occurred_at t = event_time e f ev" by (simp add: new_transaction_def)
  have cur: "current_documents db' g = current_documents (retain_documents (fe_id f) (event_time e f ev) db) g" for g
    by (rule current_documents_cong) (simp add: db')
  show "dc_retained_at d \<noteq> None" if "d \<in> set (current_documents db' (fe_id f))" for d
    using that unfolding cur retain_current by auto
  show "map document_json (current_documents db' fid) = map document_json (current_documents db fid)"
    unfolding cur retain_current by simp
qed

section \<open>An example\<close>

definition draft_filing :: envelope where
  "draft_filing = new_envelope example_env empty_db 1
     \<lparr>fd_court = 3, fd_case = None, fd_case_type = 4, fd_type = ''initial'', fd_title = Some ''T'',
      fd_description = None, fd_waiver_requested = False, fd_waiver_reason = None\<rparr> None None"

definition submit_db :: db where
  "submit_db = example_court_db\<lparr>
     courts := [\<lparr>ct_id = 3, ct_name = ''C'', ct_county = ''K'', ct_type = Circuit,
       ct_efiling_enabled = True, ct_intake_version = 0, ct_intake_notice = None\<rparr>],
     case_types := [\<lparr>ty_id = 4, ty_court = 3, ty_code = ''CIV-GEN'', ty_name = ''N'', ty_fee_cents = 0,
       ty_active = True\<rparr>],
     cases := [], filings := [draft_filing],
     documents := [example_document\<lparr>dc_envelope := 1, dc_retained_at := None\<rparr>]\<rparr>"

definition submitted_state :: "envelope \<times> db" where
  "submitted_state =
     (case submit_filing example_env submit_db submit_db 1 (Some ''k'') (Some []) of
        Inr (Some r) \<Rightarrow> r | _ \<Rightarrow> (draft_filing, submit_db))"

lemma submit_example:
  "submit_filing example_env submit_db submit_db 1 (Some ''k'') (Some [])
     = Inr (Some (fst submitted_state, snd submitted_state))"
proof -
  have "case submit_filing example_env submit_db submit_db 1 (Some ''k'') (Some []) of
      Inr (Some r) \<Rightarrow> True | _ \<Rightarrow> False"
    by code_simp
  then show ?thesis by (auto simp: submitted_state_def split: sum.splits option.splits)
qed

section \<open>Properties\<close>

text \<open>C1: what a submission has established when it succeeds, whatever was committed between its two
  reads: the filer's token names the locked state of the filing with its current documents, the
  filing was a draft or returned, its fee obligation is met, validation reports nothing, the
  court and case type accept electronic filings and an existing case accepts the filer, and each
  current document has the id, digest and size of a document whose stored bytes were just
  verified.\<close>
theorem submission_established:
  assumes "submit_filing e db0 db fid key (Some token) = Inr (Some (f', db'))"
  shows "\<exists>f s. find_filing db fid = Some f \<and> fe_status f \<in> {Draft, Returned}
    \<and> token = submission_token e f (current_documents db fid)
    \<and> fee_state_of e db f None = Inr s \<and> fs_obligation_met s
    \<and> va_valid (validate_filing db f (current_documents db fid))
    \<and> (\<exists>ct ty. row_at ct_id (fe_court f) (courts db) = Some ct \<and> ct_efiling_enabled ct
         \<and> row_at ty_id (fe_case_type f) (case_types db) = Some ty \<and> ty_active ty \<and> ty_court ty = fe_court f)
    \<and> (\<forall>cid. fe_case f = Some cid \<longrightarrow>
         (\<exists>u. find_user db (fe_filer f) = Some u \<and> may_file_on_case db u cid))
    \<and> current_documents db fid \<noteq> []
    \<and> (\<forall>d \<in> set (current_documents db fid). \<exists>d0 \<in> set (current_documents db0 fid).
         fingerprint d0 = fingerprint d \<and> stored e (dc_file_key d0) = Stored (dc_sha256 d) (dc_size d))"
  using assms
proof (rule submit_filing_Inr)
  fix probe f t c
  assume v: "verify_filing_documents e (current_documents db0 fid) None = Inr ()"
    and f: "find_filing db fid = Some f" "fe_status f \<in> {Draft, Returned}"
    and chk: "check_submission_opt e db f (Some token) key = Inr ()"
    and dest: "validate_filing_destination db (destination_of f) (Some (fe_filer f)) = Inr c"
    and fp: "map fingerprint (current_documents db fid) = map fingerprint (current_documents db0 fid)"
  have id: "fe_id f = fid" using f(1) by (rule find_filing_id)
  have chk': "check_submission e db f token key = Inr ()"
    using chk by (simp add: check_submission_opt_def)
  have docs: "\<exists>d0 \<in> set (current_documents db0 fid). fingerprint d0 = fingerprint d
      \<and> stored e (dc_file_key d0) = Stored (dc_sha256 d) (dc_size d)"
    if "d \<in> set (current_documents db fid)" for d
  proof -
    from that have "fingerprint d \<in> set (map fingerprint (current_documents db0 fid))"
      by (simp add: fp [symmetric])
    then obtain d0 where "d0 \<in> set (current_documents db0 fid)" "fingerprint d0 = fingerprint d"
      by (metis imageE list.set_map)
    with v show ?thesis by (intro bexI [of _ d0]) (auto simp: verify_filing_documents_Inr fingerprint_def)
  qed
  have "current_documents db fid \<noteq> []"
    using v fp by (auto simp: verify_filing_documents_Inr)
  with check_submission_Inr [OF chk'] destination_Inr [OF dest] f id docs show ?thesis
    by (intro exI [of _ f]) (auto simp: destination_of_def split: option.splits)
qed

theorem submission_established_witness:
  "\<exists>f. find_filing submit_db 1 = Some f \<and> fe_status f = Draft
     \<and> va_valid (validate_filing submit_db f (current_documents submit_db 1))
     \<and> current_documents submit_db 1 \<noteq> []"
proof -
  have "map_option fe_status (find_filing submit_db 1) = Some Draft" by code_simp
  with submission_established [OF submit_example] show ?thesis by auto
qed

text \<open>C15: what a submission leaves behind: the filing is submitted (or served, for a service-only
  record) with the next submission number and its first receipt time kept, exactly one ledger row
  is added, for the filer and this submission, that lists the current documents in order, all of
  which are retained from now on; no other filing, no case, payment or account changes.\<close>
theorem submission_recorded_once:
  assumes "submit_filing e db0 db fid key token = Inr (Some (f', db'))"
  shows "\<exists>f t u. find_filing db fid = Some f \<and> find_filing db' fid = Some (f'\<lparr>fe_updated_at := u\<rparr>)
    \<and> fe_status f' = (if fe_type f = ''service_only'' then Served else Submitted)
    \<and> fe_submission_count f' = fe_submission_count f + 1
    \<and> (\<forall>r. fe_filed_at f = Some r \<longrightarrow> fe_filed_at f' = Some r)
    \<and> transactions db' = transactions db @ [t] \<and> tx_filing t = fid \<and> tx_actor t = fe_filer f
    \<and> tx_submission t = fe_submission_count f' \<and> tx_key t = key
    \<and> jget ''documents'' (tx_details t) = Some (JArr (map document_json (current_documents db' fid)))
    \<and> (\<forall>d \<in> set (current_documents db' fid). dc_retained_at d \<noteq> None)
    \<and> (\<forall>g. g \<noteq> fid \<longrightarrow> find_filing db' g = find_filing db g)
    \<and> cases db' = cases db \<and> payments db' = payments db \<and> users db' = users db"
  using assms
proof (rule submit_filing_Inr)
  fix probe f t c
  assume f: "find_filing db fid = Some f"
    and f': "f' = submitted_envelope e db f"
    and rec: "record_transaction e f' (submission_event_of f') (fe_filer f') None key [] (save_filing e f' db) = Inr (t, db')"
  have id: "fe_id f' = fid" using f f' by (simp add: submitted_envelope_fields find_filing_id)
  note eff = submission_recorded [OF rec submission_event_of_event]
  obtain u where u: "find_filing db' fid = Some (f'\<lparr>fe_updated_at := u\<rparr>)"
    using submit_result(1) [OF f rec f'] by blast
  show ?thesis
    by (intro exI [of _ f] exI [of _ t] exI [of _ u])
      (use f u id eff f' submit_result(2) [OF f rec f'] record_transaction_frame [OF rec] in
        \<open>auto simp: submitted_envelope_fields or_else_def split: option.splits\<close>)
qed

theorem submission_recorded_once_witness:
  "\<exists>t. transactions (snd submitted_state) = transactions submit_db @ [t] \<and> tx_filing t = 1
     \<and> tx_key t = Some ''k'' \<and> (\<forall>d \<in> set (current_documents (snd submitted_state) 1). dc_retained_at d \<noteq> None)"
  using submission_recorded_once [OF submit_example] by blast

text \<open>A submission request is idempotent: after one succeeded under a key, every repetition with
  that key, in any later state that kept the filing and the ledger rows, reports the recorded
  submission and changes nothing.\<close>
theorem submission_replayed:
  assumes "submit_filing e db0 db fid key token = Inr (Some (f', db'))" and "truthy key"
    and "find_filing db1 fid \<noteq> None" and "set (transactions db') \<subseteq> set (transactions db1)"
  shows "submit_filing e' db1 db2 fid key (Some token') = Inl (SubmissionAlreadyRecordedError fid)"
  using assms(1)
proof (rule submit_filing_Inr)
  fix probe f t c
  assume f: "find_filing db fid = Some f"
    and f': "f' = submitted_envelope e db f"
    and rec: "record_transaction e f' (submission_event_of f') (fe_filer f') None key [] (save_filing e f' db) = Inr (t, db')"
  have id: "fe_id f' = fid" using f f' by (simp add: submitted_envelope_fields find_filing_id)
  obtain g where g: "find_filing db1 fid = Some g" "fe_id g = fid"
    using assms(3) by (auto dest: find_filing_id)
  have "t \<in> set (transactions db1)" "tx_filing t = fid" "tx_key t = key"
    using record_transaction_frame [OF rec] assms(4) id by auto
  with assms(2) g have "check_submission e' db1 g token' key = Inl (SubmissionAlreadyRecordedError fid)"
    by (auto simp: check_submission_def Let_def)
  with g show ?thesis by (simp add: submit_filing_def check_submission_opt_def)
qed

theorem submission_replayed_witness:
  "submit_filing example_env (snd submitted_state) (snd submitted_state) 1 (Some ''k'') (Some ''x'')
     = Inl (SubmissionAlreadyRecordedError 1)"
proof (rule submission_replayed [OF submit_example])
  have "case find_filing (snd submitted_state) 1 of None \<Rightarrow> False | Some f \<Rightarrow> True" by code_simp
  then show "find_filing (snd submitted_state) 1 \<noteq> None" by (auto split: option.splits)
qed simp_all

end
