(* ===== verification/Uploads.thy ===== *)
theory Uploads
  imports Scan Filing "HOL-Library.Sublist"
begin

text \<open>
  Uploading a file (\<open>api/document_upload.py\<close>): reading it, inspecting it and storing it, and the
  object store with the clean-up of an upload whose request failed (\<open>services/storage_intent.py\<close>).
  The object store is a list of keys with their bytes; it is not part of the database's
  transaction, so an operation that uploads returns the store beside its result.
\<close>

section \<open>The environment of an upload\<close>

record upload_file =
  uf_name :: "string option"
  uf_type :: "string option"
  uf_data :: string

text \<open>
  The libraries and services: the type detector, the PDF reader, the ClamAV server, SHA-256, the
  extension of a type, and the faults of the object store by key: a write may fail and leave nothing
  or the first bytes of the object, and a deletion may fail.
\<close>

record upload_env =
  ue_magic :: "string \<Rightarrow> string option"
  ue_pdf :: pdf_reader
  ue_clamd :: clamd
  ue_sha256 :: "string \<Rightarrow> string"
  ue_extension :: "string \<Rightarrow> string option"
  ue_write_fault :: "string \<Rightarrow> (failure \<times> nat option) option"
  ue_delete_fault :: "string \<Rightarrow> bool"

type_synonym objects = "(string \<times> string) list"

definition put_object :: "upload_env \<Rightarrow> string \<Rightarrow> string \<Rightarrow> objects \<Rightarrow> (failure + unit) \<times> objects" where
  "put_object u k d os =
     (case ue_write_fault u k of
        None \<Rightarrow> (Inr (), set_key k d os)
      | Some (x, None) \<Rightarrow> (Inl x, os)
      | Some (x, Some n) \<Rightarrow> (Inl x, set_key k (take n d) os))"

definition delete_object :: "upload_env \<Rightarrow> string \<Rightarrow> objects \<Rightarrow> failure + objects" where
  "delete_object u k os =
     (if ue_delete_fault u k then Inl StorageError else Inr (filter (\<lambda>(k', d). k' \<noteq> k) os))"

text \<open>\<open>purge_keys\<close>: reclaiming uploads, where a failure is only logged.\<close>

fun purge_keys :: "upload_env \<Rightarrow> string list \<Rightarrow> objects \<Rightarrow> objects" where
  "purge_keys u [] os = os"
| "purge_keys u (k # ks) os = purge_keys u ks (case delete_object u k os of Inl x \<Rightarrow> os | Inr os' \<Rightarrow> os')"

definition referenced_keys :: "db \<Rightarrow> string list" where
  "referenced_keys db = map dc_file_key (documents db) @ map pc_file_key (public_copies db)"

text \<open>
  \<open>rollback_with_upload_cleanup\<close>: after an exception in the request every pending upload of the
  session is reclaimed; after a failed commit (\<open>verify\<close>) only those the database, as another
  session sees it, does not refer to, and none when it cannot be asked.
\<close>

definition referenced :: "db option \<Rightarrow> string list \<Rightarrow> string list" where
  "referenced check keys =
     (case check of None \<Rightarrow> keys | Some db \<Rightarrow> filter (\<lambda>k. k \<in> set (referenced_keys db)) keys)"

definition rollback_cleanup ::
    "upload_env \<Rightarrow> db option option \<Rightarrow> string list \<Rightarrow> objects \<Rightarrow> objects" where
  "rollback_cleanup u verify pending os =
     (let kept = (case verify of None \<Rightarrow> [] | Some check \<Rightarrow> referenced check pending)
      in purge_keys u (filter (\<lambda>k. k \<notin> set kept) pending) os)"

section \<open>Reading and inspecting\<close>

definition max_bytes :: "settings \<Rightarrow> nat" where
  "max_bytes s = nat (st_max_file_mb s * 1024 * 1024)"

definition read_upload :: "settings \<Rightarrow> upload_file \<Rightarrow> failure + string" where
  "read_upload s f =
     (let d = take (max_bytes s + 1) (uf_data f) in
      if max_bytes s < length d then Inl (Http 413 (Upload Upload_too_large))
      else if d = [] then Inl (Http 422 (Upload Upload_empty))
      else Inr d)"

record inspected =
  in_data :: string
  in_mime :: string
  in_sha256 :: string
  in_pdf :: pdf_inspection

definition check_type :: "settings \<Rightarrow> upload_env \<Rightarrow> upload_file \<Rightarrow> string \<Rightarrow> bool \<Rightarrow> failure + string" where
  "check_type s u f d require_pdf =
     then_do (resolve_upload_mime_type s (ue_magic u) d (uf_type f)) (\<lambda>mime.
       if \<not> validate_mime_type mime then Inl (Http 415 (Upload Type_unsupported))
       else if require_pdf \<and> mime \<noteq> ''application/pdf'' then Inl (Http 415 (Upload Must_be_pdf))
       else Inr mime)"

definition check_scan :: "settings \<Rightarrow> upload_env \<Rightarrow> string \<Rightarrow> failure + unit" where
  "check_scan s u d =
     (case scan_upload s (ue_clamd u) d of
        None \<Rightarrow> Inl (Http 503 (Upload Screening_unavailable))
      | Some r \<Rightarrow>
          if sn_clean r then Inr ()
          else Inl (Http 422 (Upload (Screening_rejected
                 (or_text (sn_reason r) ''File rejected by malware screening'')))))"

definition inspect_upload :: "settings \<Rightarrow> upload_env \<Rightarrow> upload_file \<Rightarrow> bool \<Rightarrow> failure + inspected" where
  "inspect_upload s u f require_pdf =
     then_do (read_upload s f) (\<lambda>d.
     then_do (check_type s u f d require_pdf) (\<lambda>mime.
     then_do (check_scan s u d) (\<lambda>_.
       let i = (if mime = ''application/pdf'' then inspect_pdf (ue_pdf u) d else no_inspection) in
       if mime = ''application/pdf'' \<and> (pi_pages i = None \<or> pi_pages i = Some 0)
       then Inl (Http 422 (Upload Pdf_unreadable))
       else Inr \<lparr>in_data = d, in_mime = mime, in_sha256 = ue_sha256 u d, in_pdf = i\<rparr>)))"

section \<open>Storing\<close>

text \<open>A fresh object key: \<open>uuid4\<close> does not occur inside any key in use.\<close>

definition new_file_key :: "env \<Rightarrow> string \<Rightarrow> string \<Rightarrow> objects \<Rightarrow> string" where
  "new_file_key e path extension os =
     path @ new_uuid e (concat (map (\<lambda>(k, d). sublists k) os)) @ extension"

definition filing_path :: "int \<Rightarrow> string" where
  "filing_path fid = ''filings/'' @ dec fid @ ''/''"

text \<open>The row to insert; its id is assigned with the insert.\<close>

definition uploaded_document ::
    "env \<Rightarrow> int \<Rightarrow> string \<Rightarrow> string \<Rightarrow> bool \<Rightarrow> string \<Rightarrow> inspected \<Rightarrow> document" where
  "uploaded_document e fid code title confidential key i =
     \<lparr>dc_id = 0, dc_envelope = fid, dc_type = code, dc_title = title, dc_file_key = key,
      dc_size = int (length (in_data i)), dc_mime = in_mime i, dc_pages = pi_pages (in_pdf i),
      dc_sha256 = in_sha256 i,
      dc_confidential = (confidential \<or> code \<in> set private_document_types),
      dc_searchable = pi_searchable (in_pdf i), dc_pii = Some (pi_warnings (in_pdf i)),
      dc_retained_at = (if code = ''FEE_WAIVER_ORDER'' then Some (now e) else None),
      dc_removed_at = None, dc_access_version = 0, dc_public_copy = None, dc_uploaded_at = now e\<rparr>"

text \<open>A write that fails was not yet tracked, so the request does not reclaim what it left.\<close>

definition store_document_upload ::
    "env \<Rightarrow> upload_env \<Rightarrow> int \<Rightarrow> upload_file \<Rightarrow> string \<Rightarrow> string \<Rightarrow> bool \<Rightarrow> objects
       \<Rightarrow> (failure + document) \<times> objects" where
  "store_document_upload e u fid f code title confidential os =
     (case inspect_upload (cfg e) u f (code = ''FEE_WAIVER_ORDER'') of
        Inl x \<Rightarrow> (Inl x, os)
      | Inr i \<Rightarrow>
          let key = new_file_key e (filing_path fid) (or_text (ue_extension u (in_mime i)) []) os in
          (case put_object u key (in_data i) os of
             (Inl x, os') \<Rightarrow> (Inl x, os')
           | (Inr _, os') \<Rightarrow> (Inr (uploaded_document e fid code title confidential key i), os')))"

definition add_document :: "env \<Rightarrow> document \<Rightarrow> db \<Rightarrow> document \<times> db" where
  "add_document e d db =
     (let d' = d\<lparr>dc_id := new_key e (map dc_id (documents db))\<rparr>
      in (d', documents_update (\<lambda>ds. ds @ [d']) db))"

section \<open>Lemmas\<close>

lemma delete_object_Inr: "delete_object u k os = Inr os' \<longleftrightarrow> \<not> ue_delete_fault u k \<and> os' = filter (\<lambda>(k', d). k' \<noteq> k) os"
  by (auto simp: delete_object_def)

lemma map_of_filter_key: "map_of (filter (\<lambda>(k', d). k' \<noteq> k) os) x = (if x = k then None else map_of os x)"
  by (induction os) auto

lemma purge_keys_other: "x \<notin> set ks \<Longrightarrow> map_of (purge_keys u ks os) x = map_of os x"
  by (induction ks arbitrary: os) (auto simp: delete_object_def map_of_filter_key)

lemma purge_key_gone: "\<not> ue_delete_fault u k \<Longrightarrow> map_of (purge_keys u [k] os) k = None"
  by (simp add: delete_object_def map_of_filter_key)

lemma set_key_append: "k \<notin> fst ` set os \<Longrightarrow> set_key k d os = os @ [(k, d)]"
  by (induction os) auto

lemma filter_fresh_key: "k \<notin> fst ` set os \<Longrightarrow> filter (\<lambda>(k', d). k' \<noteq> k) os = os"
  by (induction os) auto

text \<open>
  What a request that is refused may leave in the store: nothing, or, when its write or its deletion
  failed, one object under a new key that holds the bytes written.
\<close>

definition at_most_orphan :: "upload_env \<Rightarrow> string \<Rightarrow> objects \<Rightarrow> objects \<Rightarrow> bool" where
  "at_most_orphan u bytes os os' \<longleftrightarrow> os' = os
     \<or> (\<exists>k n. k \<notin> fst ` set os \<and> os' = os @ [(k, take n bytes)]
          \<and> (ue_write_fault u k \<noteq> None \<or> ue_delete_fault u k))"

lemma at_most_orphan_refl [simp]: "at_most_orphan u bytes os os"
  by (simp add: at_most_orphan_def)

lemma at_most_orphanI:
  "k \<notin> fst ` set os \<Longrightarrow> os' = os @ [(k, take n bytes)] \<Longrightarrow> ue_write_fault u k \<noteq> None \<or> ue_delete_fault u k \<Longrightarrow>
     at_most_orphan u bytes os os'"
  unfolding at_most_orphan_def by blast

lemma put_object_Inr: "put_object u k d os = (Inr x, os') \<longleftrightarrow> ue_write_fault u k = None \<and> os' = set_key k d os"
  by (auto simp: put_object_def split: option.splits)

lemma put_object_new:
  "put_object u k d os = (Inr x, os') \<Longrightarrow> k \<notin> fst ` set os \<Longrightarrow> os' = os @ [(k, d)]"
  by (simp add: put_object_Inr set_key_append)

lemma put_object_Inl:
  assumes "put_object u k d os = (Inl x, os')" and "k \<notin> fst ` set os"
  shows "os' = os \<or> (\<exists>n. os' = os @ [(k, take n d)])" and "at_most_orphan u d os os'"
proof -
  from assms obtain n where "os' = os \<or> os' = os @ [(k, take n d)] \<and> ue_write_fault u k \<noteq> None"
    by (auto simp: put_object_def set_key_append split: option.splits prod.splits)
  then show "os' = os \<or> (\<exists>n. os' = os @ [(k, take n d)])" "at_most_orphan u d os os'"
    using assms(2) by (auto intro: at_most_orphanI [of k os _ n])
qed

text \<open>An upload that is reclaimed leaves the store as it was.\<close>

lemma purge_new_key:
  assumes "k \<notin> fst ` set os"
  shows "purge_keys u [k] (os @ [(k, d)]) = (if ue_delete_fault u k then os @ [(k, d)] else os)"
    and "at_most_orphan u d os (purge_keys u [k] (os @ [(k, d)]))"
proof -
  show "purge_keys u [k] (os @ [(k, d)]) = (if ue_delete_fault u k then os @ [(k, d)] else os)"
    using assms by (simp add: delete_object_def filter_fresh_key)
  then show "at_most_orphan u d os (purge_keys u [k] (os @ [(k, d)]))"
    using at_most_orphanI [of k os "os @ [(k, d)]" "length d" d u] assms by (simp del: purge_keys.simps)
qed

lemma new_file_key_fresh:
  assumes "fresh_keys e"
  shows "new_file_key e path extension os \<notin> fst ` set os"
proof
  let ?us = "concat (map (\<lambda>(k, d). sublists k) os)"
  assume "new_file_key e path extension os \<in> fst ` set os"
  then obtain k d where k: "(k, d) \<in> set os" "k = path @ new_uuid e ?us @ extension"
    by (auto simp: new_file_key_def)
  then have "new_uuid e ?us \<in> set (sublists k)" by (simp add: sublist_appendI)
  with k(1) have "new_uuid e ?us \<in> set ?us" by auto
  moreover have "new_uuid e ?us \<notin> set ?us" using assms unfolding fresh_keys_def by blast
  ultimately show False by contradiction
qed

lemma inspect_upload_Inr:
  assumes "inspect_upload s u f r = Inr i"
  shows "in_data i = uf_data f \<and> 1 \<le> length (in_data i) \<and> length (in_data i) \<le> max_bytes s
    \<and> validate_mime_type (in_mime i) \<and> in_sha256 i = ue_sha256 u (in_data i)
    \<and> (\<exists>v. scan_upload s (ue_clamd u) (in_data i) = Some v \<and> sn_clean v)
    \<and> (r \<longrightarrow> in_mime i = ''application/pdf'')
    \<and> (in_mime i = ''application/pdf'' \<longrightarrow> (\<exists>n. pi_pages (in_pdf i) = Some n \<and> n \<noteq> 0))"
  using assms
  by (auto simp: inspect_upload_def read_upload_def check_type_def check_scan_def then_do_Inr_iff Let_def
      Suc_le_eq split: if_splits option.splits)

lemma store_document_upload_Inr:
  assumes "store_document_upload e u fid f code title conf os = (Inr d, os')"
  obtains i k where "inspect_upload (cfg e) u f (code = ''FEE_WAIVER_ORDER'') = Inr i"
    and "k = new_file_key e (filing_path fid) (or_text (ue_extension u (in_mime i)) []) os"
    and "put_object u k (in_data i) os = (Inr (), os')" and "d = uploaded_document e fid code title conf k i"
  using assms by (auto simp: store_document_upload_def Let_def split: sum.splits prod.splits intro: that)

lemma store_document_upload_Inl:
  assumes "store_document_upload e u fid f code title conf os = (Inl x, os')" and "fresh_keys e"
  shows "os' = os \<or> (\<exists>k n. k \<notin> fst ` set os \<and> os' = os @ [(k, take n (uf_data f))])"
    and "at_most_orphan u (uf_data f) os os'"
proof -
  have "os' = os \<or> (\<exists>k. k \<notin> fst ` set os \<and> (\<exists>y. put_object u k (uf_data f) os = (Inl y, os')))"
  proof (cases "inspect_upload (cfg e) u f (code = ''FEE_WAIVER_ORDER'')")
    case (Inr i)
    have "in_data i = uf_data f" using inspect_upload_Inr [OF Inr] by simp
    moreover have "new_file_key e p ext os \<notin> fst ` set os" for p ext by (rule new_file_key_fresh [OF assms(2)])
    ultimately show ?thesis using assms(1) Inr
      by (auto simp: store_document_upload_def Let_def split: sum.splits prod.splits) blast
  qed (use assms(1) in \<open>simp add: store_document_upload_def\<close>)
  then show "os' = os \<or> (\<exists>k n. k \<notin> fst ` set os \<and> os' = os @ [(k, take n (uf_data f))])"
    "at_most_orphan u (uf_data f) os os'"
    using put_object_Inl by (blast, fastforce)
qed

lemma uploaded_document_simps [simp]:
  "dc_envelope (uploaded_document e fid code title conf k i) = fid"
  "dc_type (uploaded_document e fid code title conf k i) = code"
  "dc_file_key (uploaded_document e fid code title conf k i) = k"
  "dc_sha256 (uploaded_document e fid code title conf k i) = in_sha256 i"
  "dc_size (uploaded_document e fid code title conf k i) = int (length (in_data i))"
  "dc_removed_at (uploaded_document e fid code title conf k i) = None"
  by (simp_all add: uploaded_document_def)

lemma add_document_frame [simp, frame_simps]:
  "filings (snd (add_document e d db)) = filings db"
  "transactions (snd (add_document e d db)) = transactions db"
  "payments (snd (add_document e d db)) = payments db"
  "cases (snd (add_document e d db)) = cases db"
  "users (snd (add_document e d db)) = users db"
  "court_roles (snd (add_document e d db)) = court_roles db"
  "participants (snd (add_document e d db)) = participants db"
  "audit (snd (add_document e d db)) = audit db"
  "notifications (snd (add_document e d db)) = notifications db"
  "uploads (snd (add_document e d db)) = uploads db"
  "deletions (snd (add_document e d db)) = deletions db"
  "public_copies (snd (add_document e d db)) = public_copies db"
  "case_types (snd (add_document e d db)) = case_types db"
  "courts (snd (add_document e d db)) = courts db"
  "calendars (snd (add_document e d db)) = calendars db"
  "documents (snd (add_document e d db)) = documents db @ [fst (add_document e d db)]"
  "find_filing (snd (add_document e d db)) = find_filing db"
  by (simp_all add: add_document_def Let_def find_filing_def fun_eq_iff)

end
