(* ===== verification/FeeApi.thy ===== *)
theory FeeApi
  imports Filing
begin

text \<open>
  The handlers of fee assessments (\<open>api/fee_assessments.py\<close>): reading the fee record, requesting a
  fee review, assessing fees and the queue of requested reviews. A request and an assessment name
  the version of the fee record they were made against and advance it.
\<close>

section \<open>Requests\<close>

record fee_assessment_request =
  aq_version :: int
  aq_authority :: string
  aq_reason :: string
  aq_items :: "fee_item list"

definition stripped_item :: "fee_item \<Rightarrow> fee_item" where
  "stripped_item i = i\<lparr>fi_type := str_strip (fi_type i), fi_description := str_strip (fi_description i)\<rparr>"

text \<open>The validation of the request body: \<open>None\<close> is answered with status 422.\<close>

definition parse_assessment :: "fee_assessment_request \<Rightarrow> fee_assessment_request option" where
  "parse_assessment r =
     (if valid_fee_text 1000 (aq_authority r) \<and> valid_fee_text 5000 (aq_reason r)
        \<and> aq_items r \<noteq> [] \<and> length (aq_items r) \<le> 50 \<and> (\<forall>i \<in> set (aq_items r). valid_fee_item i)
      then Some (r\<lparr>aq_authority := str_strip (aq_authority r), aq_reason := str_strip (aq_reason r),
                   aq_items := map stripped_item (aq_items r)\<rparr>)
      else None)"

definition document_conflict :: "failure \<Rightarrow> failure" where
  "document_conflict x = (case x of FilingDocumentError d \<Rightarrow> Http 409 (Filing d) | _ \<Rightarrow> x)"

definition verified_documents :: "env \<Rightarrow> db \<Rightarrow> int \<Rightarrow> failure + document list" where
  "verified_documents e db fid =
     then_do (map_failure document_conflict (verify_filing_documents e (current_documents db fid) None))
       (\<lambda>_. Inr (current_documents db fid))"

section \<open>Reading\<close>

definition current_fees :: "env \<Rightarrow> db \<Rightarrow> int \<Rightarrow> int \<Rightarrow> failure + fee_state \<times> envelope" where
  "current_fees e db fid uid =
     (case find_filing db fid of
        None \<Rightarrow> Inl (Http 404 (Account Filing_not_found))
      | Some f \<Rightarrow>
          if fe_filer f \<noteq> uid \<and> \<not> is_court_staff db (Some uid) (fe_court f)
          then Inl (Http 403 (Account Not_authorized))
          else then_do (fee_state_of e db f (Some uid)) (\<lambda>s. Inr (s, f)))"

section \<open>Requesting a review\<close>

text \<open>The event with the documents it was made on, all retained from now on, and the audit entry.\<close>

definition record_fee_event ::
    "env \<Rightarrow> envelope \<Rightarrow> string \<Rightarrow> int \<Rightarrow> string \<Rightarrow> (string \<times> json) list \<Rightarrow> db \<Rightarrow> failure + txn \<times> db" where
  "record_fee_event e f ev uid reason kvs db =
     (let docs = current_documents db (fe_id f) in
      then_do (record_transaction e f ev uid (Some reason) None
          (kvs @ [(''documents'', JArr (map document_json docs))])
          (retain_documents (fe_id f) (now e) (save_filing e f db)))
        (\<lambda>(t, db'). Inr (t, log_filing e uid ev (fe_id f) (Some (JObj [(''transaction_id'', JStr (tx_id t))])) db')))"

definition request_fee_review ::
    "env \<Rightarrow> db \<Rightarrow> int \<Rightarrow> int \<Rightarrow> string \<Rightarrow> int \<Rightarrow> failure + fee_state \<times> db" where
  "request_fee_review e db fid expected reason uid =
     (if str_strip reason = [] then Inl (Http 422 (Fee Explain_review))
      else then_do (lock_efiler db uid) (\<lambda>_.
      case find_filing db fid of
        None \<Rightarrow> Inl (Http 404 (Account Filing_not_found))
      | Some f \<Rightarrow>
          if fe_filer f \<noteq> uid then Inl (Http 403 (Fee Only_filer_requests))
          else then_do (fee_state_of e db f (Some uid)) (\<lambda>s.
          if \<not> fs_can_request_review s \<or> fe_fee_version f \<noteq> expected
          then Inl (Http 409 (Fee Fee_record_changed))
          else then_do (verified_documents e db fid) (\<lambda>docs.
          let f' = f\<lparr>fe_fee_version := fe_fee_version f + 1, fe_fee_review_at := Some (now e)\<rparr> in
          then_do (record_fee_event e f' ''fee_review_requested'' uid (str_strip reason) [] db) (\<lambda>(t, db').
          then_do (fee_state_of e db' f' (Some uid)) (\<lambda>s'. Inr (s', db')))))))"

section \<open>Assessing\<close>

definition assessment_details :: "fee_assessment_request \<Rightarrow> fee_state \<Rightarrow> (string \<times> json) list" where
  "assessment_details r s =
     [(''filing_version'', JInt (aq_version r + 1)), (''authority_reference'', JStr (aq_authority r)),
      (''items'', JArr (map fee_item_json (aq_items r))),
      (''total_cents'', JInt (sum_list (map fi_cents (aq_items r)))),
      (''previous_assessment_id'', jopt JStr (fs_assessment_id s)),
      (''previous_total_cents'', jopt JInt (fs_total s))]"

definition enter_assessment ::
    "env \<Rightarrow> envelope \<Rightarrow> fee_assessment_request \<Rightarrow> fee_state \<Rightarrow> int \<Rightarrow> db \<Rightarrow> failure + fee_state \<times> db" where
  "enter_assessment e f r s uid db =
     (let f1 = f\<lparr>fe_fee_version := fe_fee_version f + 1, fe_fee_review_at := None\<rparr> in
      then_do (record_fee_event e f1 ''fee_assessed'' uid (aq_reason r) (assessment_details r s) db) (\<lambda>(t, db1).
      let f2 = f1\<lparr>fe_fee_assessment := Some (tx_id t)\<rparr>; db2 = save_filing e f2 db1
      in then_do (fee_state_of e db2 f2 (Some uid)) (\<lambda>s'. Inr (s', db2))))"

definition check_assessor :: "db \<Rightarrow> envelope \<Rightarrow> int \<Rightarrow> failure + unit" where
  "check_assessor db f uid =
     (if \<not> is_court_staff db (Some uid) (fe_court f) then Inl (Http 403 (Fee Not_assessor))
      else if fe_filer f = uid then Inl (Http 403 (Fee Own_assessment)) else Inr ())"

definition assess_parsed ::
    "env \<Rightarrow> db \<Rightarrow> int \<Rightarrow> fee_assessment_request \<Rightarrow> int \<Rightarrow> failure + fee_state \<times> db" where
  "assess_parsed e db fid r uid =
     (if sum_list (map fi_cents (aq_items r)) > 100000000 then Inl (Http 422 (Fee Total_exceeds_supported))
      else then_do (lock_current_user db uid) (\<lambda>_.
      case find_filing db fid of
        None \<Rightarrow> Inl (Http 404 (Account Filing_not_found))
      | Some f \<Rightarrow>
          then_do (check_assessor db f uid) (\<lambda>_.
          then_do (fee_state_of e db f (Some uid)) (\<lambda>s.
          if \<not> fs_can_assess s \<or> fe_fee_version f \<noteq> aq_version r
          then Inl (Http 409 (Fee Fee_record_changed))
          else then_do (verified_documents e db fid) (\<lambda>docs. enter_assessment e f r s uid db)))))"

definition assess_fees ::
    "env \<Rightarrow> db \<Rightarrow> int \<Rightarrow> fee_assessment_request \<Rightarrow> int \<Rightarrow> failure + fee_state \<times> db" where
  "assess_fees e db fid raw uid =
     (case parse_assessment raw of
        None \<Rightarrow> Inl (Http 422 (Fee Invalid_fee_request))
      | Some r \<Rightarrow> assess_parsed e db fid r uid)"

section \<open>The queue of requested reviews\<close>

definition awaits_fee_review :: "int \<Rightarrow> envelope \<Rightarrow> bool" where
  "awaits_fee_review court f \<longleftrightarrow> fe_court f = court \<and> fe_fee_review_at f \<noteq> None \<and> \<not> ended f
     \<and> \<not> fe_waiver_requested f \<and> fe_waiver_granted f = None"

text \<open>The entries are joined with the filer's account, so a filing without one is left out.\<close>

definition fee_review_queue ::
    "db \<Rightarrow> int \<Rightarrow> nat \<Rightarrow> int \<Rightarrow> failure + (envelope \<times> string) list \<times> nat" where
  "fee_review_queue db court pg uid =
     (if \<not> is_court_staff db (Some uid) court then Inl (Http 403 (Fee Not_for_court))
      else
        let rows = filter (awaits_fee_review court) (filings db);
            named = concat (map (\<lambda>f. case find_user db (fe_filer f) of
                      None \<Rightarrow> [] | Some u \<Rightarrow> [(f, full_name u)]) rows)
        in Inr (page_of pg 25 (sort_key (\<lambda>(f, n). the (fe_fee_review_at f)) (sort_key (\<lambda>(f, n). fe_id f) named)),
                length rows))"

section \<open>Lemmas\<close>

lemma stripped_item_simps [simp]:
  "fi_cents (stripped_item i) = fi_cents i"
  by (simp add: stripped_item_def)

lemma valid_stripped: "valid_fee_text n s \<Longrightarrow> valid_fee_text n (str_strip s)"
  using str_strip_length [of s] by (simp add: valid_fee_text_def) (metis One_nat_def Suc_leI length_greater_0_conv)

lemma parse_stripped_json:
  assumes "valid_fee_item i"
  shows "parse_fee_item (fee_item_json (stripped_item i)) = Some (stripped_item i)"
  using assms
  by (intro parse_fee_item_json) (auto simp: valid_fee_item_def stripped_item_def dest: valid_stripped)

lemma parse_assessment_items:
  assumes "parse_assessment raw = Some r"
  shows "all_some (map parse_fee_item (map fee_item_json (aq_items r))) = Some (aq_items r)"
proof -
  from assms have "\<forall>i \<in> set (aq_items raw). valid_fee_item i" and "aq_items r = map stripped_item (aq_items raw)"
    by (auto simp: parse_assessment_def split: if_splits)
  then show ?thesis
    by (simp add: comp_def all_some_map [of "aq_items raw" _ stripped_item] parse_stripped_json)
qed

lemma record_fee_event_effect:
  assumes "record_fee_event e f ev uid why kvs db = Inr (t, db')"
    and "\<not> submission_event ev" and "ev \<noteq> ''accepted''" and "find_filing db (fe_id f) = Some f0"
  shows "\<exists>u. find_filing db' (fe_id f) = Some (f\<lparr>fe_updated_at := u\<rparr>)"
    and "\<And>g. g \<noteq> fe_id f \<Longrightarrow> find_filing db' g = find_filing db g"
    and "transactions db' = transactions db @ [t]"
    and "documents db' = documents (retain_documents (fe_id f) (now e) db)"
    and "tx_details t = JObj (if why \<noteq> []
        then set_key ''reason'' (JStr why) (kvs @ [(''documents'', JArr (map document_json (current_documents db (fe_id f))))])
        else kvs @ [(''documents'', JArr (map document_json (current_documents db (fe_id f))))])"
    and "tx_filing t = fe_id f" "tx_event t = ev" "tx_actor t = uid"
    and "cases db' = cases db" "payments db' = payments db" "users db' = users db"
    and "court_roles db' = court_roles db" "case_types db' = case_types db"
    and "tx_id t = new_uuid e (map tx_id (transactions db))"
proof -
  let ?db1 = "retain_documents (fe_id f) (now e) (save_filing e f db)"
  let ?kvs = "kvs @ [(''documents'', JArr (map document_json (current_documents db (fe_id f))))]"
  from assms(1) obtain db1 where r: "record_transaction e f ev uid (Some why) None ?kvs ?db1 = Inr (t, db1)"
    and db': "db' = log_filing e uid ev (fe_id f) (Some (JObj [(''transaction_id'', JStr (tx_id t))])) db1"
    by (auto simp: record_fee_event_def then_do_Inr_iff)
  note fr = record_transaction_frame [OF r] and pl = record_transaction_plain [OF r assms(2,3)]
  obtain u where u: "find_filing (save_filing e f db) (fe_id f) = Some (f\<lparr>fe_updated_at := u\<rparr>)"
    using find_save_same [OF assms(4)] by metis
  then show "\<exists>u. find_filing db' (fe_id f) = Some (f\<lparr>fe_updated_at := u\<rparr>)"
    using fr(15) by (intro exI [of _ u]) (simp add: db' log_filing_def)
  show "find_filing db' g = find_filing db g" if "g \<noteq> fe_id f" for g
    using fr(15) that by (simp add: db' log_filing_def find_save_other)
  show "transactions db' = transactions db @ [t]" using fr(8) by (simp add: db' log_filing_def)
  show "documents db' = documents (retain_documents (fe_id f) (now e) db)"
    using pl(1) by (simp add: db' log_filing_def retain_documents_def)
  show "tx_details t = JObj (if why \<noteq> [] then set_key ''reason'' (JStr why) ?kvs else ?kvs)"
    using pl(3) by simp
  show "tx_filing t = fe_id f" "tx_event t = ev" "tx_actor t = uid" using fr by auto
  show "cases db' = cases db" "payments db' = payments db" "users db' = users db"
    "court_roles db' = court_roles db" "case_types db' = case_types db"
    using fr by (simp_all add: db' log_filing_def)
  show "tx_id t = new_uuid e (map tx_id (transactions db))"
    by (rule record_transaction_effect [OF r]) (simp add: new_transaction_def)
qed

lemma assess_fees_Inr:
  assumes "assess_fees e db fid raw uid = Inr (s', db')"
  obtains r f s t db1 where "parse_assessment raw = Some r"
    and "sum_list (map fi_cents (aq_items r)) \<le> 100000000"
    and "find_filing db fid = Some f" and "is_court_staff db (Some uid) (fe_court f)" and "fe_filer f \<noteq> uid"
    and "fee_state_of e db f (Some uid) = Inr s" and "fs_can_assess s" and "fe_fee_version f = aq_version r"
    and "verify_filing_documents e (current_documents db fid) None = Inr ()"
    and "record_fee_event e (f\<lparr>fe_fee_version := fe_fee_version f + 1, fe_fee_review_at := None\<rparr>)
           ''fee_assessed'' uid (aq_reason r) (assessment_details r s) db = Inr (t, db1)"
    and "db' = save_filing e (f\<lparr>fe_fee_version := fe_fee_version f + 1, fe_fee_review_at := None,
           fe_fee_assessment := Some (tx_id t)\<rparr>) db1"
    and "fee_state_of e db' (f\<lparr>fe_fee_version := fe_fee_version f + 1, fe_fee_review_at := None,
           fe_fee_assessment := Some (tx_id t)\<rparr>) (Some uid) = Inr s'"
  using assms
  by (auto simp: assess_fees_def assess_parsed_def enter_assessment_def verified_documents_def check_assessor_def
      then_do_Inr_iff Let_def split: option.splits if_splits intro: that)

lemma request_fee_review_Inr:
  assumes "request_fee_review e db fid v why uid = Inr (s', db')"
  obtains f s t where "find_filing db fid = Some f" and "fe_filer f = uid"
    and "fee_state_of e db f (Some uid) = Inr s" and "fs_can_request_review s" and "fe_fee_version f = v"
    and "verify_filing_documents e (current_documents db fid) None = Inr ()" and "str_strip why \<noteq> []"
    and "record_fee_event e (f\<lparr>fe_fee_version := fe_fee_version f + 1, fe_fee_review_at := Some (now e)\<rparr>)
           ''fee_review_requested'' uid (str_strip why) [] db = Inr (t, db')"
  using assms
  by (auto simp: request_fee_review_def verified_documents_def then_do_Inr_iff Let_def
      split: option.splits if_splits intro: that)

section \<open>Versions of the fee record\<close>

text \<open>Review requests and assessments are optimistic updates of the fee record's version.\<close>

definition fee_version_of :: "int \<Rightarrow> db \<Rightarrow> int" where
  "fee_version_of fid db = (case find_filing db fid of None \<Rightarrow> 0 | Some f \<Rightarrow> fe_fee_version f)"

datatype fee_update = AskReview string | Assess fee_assessment_request

definition update_fees :: "int \<Rightarrow> env \<times> int \<times> fee_update \<Rightarrow> int \<Rightarrow> db \<Rightarrow> failure + db" where
  "update_fees fid a v db =
     (case a of (e, uid, req) \<Rightarrow>
        then_do (case req of
            AskReview why \<Rightarrow> request_fee_review e db fid v why uid
          | Assess r \<Rightarrow> assess_fees e db fid (r\<lparr>aq_version := v\<rparr>) uid) (\<lambda>(s, db'). Inr db'))"

lemma request_fee_review_version:
  assumes "request_fee_review e db fid v why uid = Inr (s', db')"
  shows "fee_version_of fid db = v \<and> fee_version_of fid db' = v + 1"
  using assms
proof (rule request_fee_review_Inr)
  fix f :: envelope and s and t :: txn
  let ?f = "f\<lparr>fe_fee_version := fe_fee_version f + 1, fe_fee_review_at := Some (now e)\<rparr>"
  assume f: "find_filing db fid = Some f" and v: "fe_fee_version f = v"
    and r: "record_fee_event e ?f ''fee_review_requested'' uid (str_strip why) [] db = Inr (t, db')"
  have "fe_id ?f = fid" using f by (simp add: find_filing_id)
  with record_fee_event_effect(1) [OF r] f
  obtain u where "find_filing db' fid = Some (?f\<lparr>fe_updated_at := u\<rparr>)" by (auto simp: submission_event_def)
  with f v show ?thesis by (simp add: fee_version_of_def)
qed

lemma assess_fees_filing:
  assumes "assess_fees e db fid raw uid = Inr (s', db')"
  shows "\<exists>f t u. find_filing db fid = Some f \<and> fe_fee_version f = aq_version raw
    \<and> transactions db' = transactions db @ [t]
    \<and> find_filing db' fid = Some (f\<lparr>fe_fee_version := fe_fee_version f + 1, fe_fee_review_at := None,
           fe_fee_assessment := Some (tx_id t), fe_updated_at := u\<rparr>)"
  using assms
proof (rule assess_fees_Inr)
  fix r s db1 and t :: txn and f :: envelope
  let ?f = "f\<lparr>fe_fee_version := fe_fee_version f + 1, fe_fee_review_at := None\<rparr>"
  let ?g = "?f\<lparr>fe_fee_assessment := Some (tx_id t)\<rparr>"
  assume f: "find_filing db fid = Some f" and p: "parse_assessment raw = Some r"
    and v: "fe_fee_version f = aq_version r"
    and r: "record_fee_event e ?f ''fee_assessed'' uid (aq_reason r) (assessment_details r s) db = Inr (t, db1)"
    and db': "db' = save_filing e ?g db1"
  from p have "aq_version r = aq_version raw" by (auto simp: parse_assessment_def split: if_splits)
  moreover have id: "fe_id f = fid" using f by (simp add: find_filing_id)
  have ne: "\<not> submission_event ''fee_assessed''" by (simp add: submission_event_def)
  have "find_filing db (fe_id ?f) = Some f" using f id by simp
  note eff = record_fee_event_effect [OF r ne _ this]
  obtain u where "find_filing db1 (fe_id ?f) = Some (?f\<lparr>fe_updated_at := u\<rparr>)" using eff(1) by auto
  then have "find_filing db1 (fe_id ?g) = Some (?f\<lparr>fe_updated_at := u\<rparr>)" by simp
  from find_save_same [OF this, of e] obtain u2 where
    "find_filing db' (fe_id ?g) = Some (?g\<lparr>fe_updated_at := u2\<rparr>)" unfolding db' by metis
  moreover have "transactions db' = transactions db @ [t]" using eff(3) by (simp add: db')
  ultimately show ?thesis using f v id by auto
qed

lemma update_fees_version:
  assumes "update_fees fid a v db = Inr db'"
  shows "fee_version_of fid db = v \<and> fee_version_of fid db' = v + 1"
  using assms
  by (auto simp: update_fees_def then_do_Inr_iff fee_version_of_def split: fee_update.splits prod.splits
      dest!: request_fee_review_version assess_fees_filing)

interpretation fee_record: versioned_update "fee_version_of fid" "update_fees fid" for fid
  by unfold_locales (simp_all add: update_fees_version)

section \<open>What an assessment establishes\<close>

lemma assessment_basis:
  assumes "tx_details t = JObj (set_key ''reason'' (JStr why) (assessment_details r s @ rest))"
    and "parse_assessment raw = Some r"
  shows "court_basis t = Inr \<lparr>fb_source = CourtFee, fb_total = Some (sum_list (map fi_cents (aq_items r))),
      fb_authority = Some (JStr (aq_authority r)), fb_items = aq_items r\<rparr>"
    and "jget ''filing_version'' (tx_details t) = Some (JInt (aq_version r + 1))"
  using parse_assessment_items [OF assms(2)]
  by (simp_all add: court_basis_def assms(1) jget_def assessment_details_def)

lemma find_new_assessment:
  assumes "fresh_keys e" and "transactions db' = transactions db @ [t]"
    and "tx_id t = new_uuid e (map tx_id (transactions db))"
    and "tx_filing t = fe_id f" and "tx_event t = ''fee_assessed''" and "fe_fee_assessment f = Some (tx_id t)"
  shows "find_assessment db' f = Some t"
proof -
  have "tx_id t \<noteq> []" and "tx_id t \<notin> tx_id ` set (transactions db)"
    using assms(1,3) by (auto simp: fresh_keys_def dest: spec [of _ "map tx_id (transactions db)"])
  then show ?thesis using assms(2,4-6)
    by (auto simp: find_assessment_def image_iff intro!: find_appended)
qed

lemma assessed_filing:
  assumes "assess_fees e db fid raw uid = Inr (s', db')" and "fresh_keys e"
  obtains r f f' t where "parse_assessment raw = Some r" and "find_filing db fid = Some f"
    and "fe_filer f \<noteq> uid" and "is_court_staff db (Some uid) (fe_court f)" and "fe_fee_version f = aq_version raw"
    and "find_filing db' fid = Some f'" and "fe_fee_version f' = fe_fee_version f + 1"
    and "fe_fee_review_at f' = None"
    and "fee_basis_of e db' f' = Inr \<lparr>fb_source = CourtFee, fb_total = Some (sum_list (map fi_cents (aq_items r))),
      fb_authority = Some (JStr (aq_authority r)), fb_items = aq_items r\<rparr>"
    and "find_assessment db' f' = Some t" and "\<not> assessment_stale f' (Some t)"
    and "\<forall>d \<in> set (current_documents db fid). stored e (dc_file_key d) = Stored (dc_sha256 d) (dc_size d)"
    and "current_documents db fid \<noteq> []" and "documents db' = documents (retain_documents fid (now e) db)"
  using assms(1)
proof (rule assess_fees_Inr)
  fix r s db1 and t :: txn and f :: envelope
  let ?f = "f\<lparr>fe_fee_version := fe_fee_version f + 1, fe_fee_review_at := None\<rparr>"
  let ?g = "?f\<lparr>fe_fee_assessment := Some (tx_id t)\<rparr>"
  assume p: "parse_assessment raw = Some r" and f: "find_filing db fid = Some f"
    and who: "is_court_staff db (Some uid) (fe_court f)" "fe_filer f \<noteq> uid"
    and s: "fee_state_of e db f (Some uid) = Inr s" "fs_can_assess s" and v: "fe_fee_version f = aq_version r"
    and ver: "verify_filing_documents e (current_documents db fid) None = Inr ()"
    and r: "record_fee_event e ?f ''fee_assessed'' uid (aq_reason r) (assessment_details r s) db = Inr (t, db1)"
    and db': "db' = save_filing e ?g db1"
  have id: "fe_id f = fid" using f by (simp add: find_filing_id)
  have ne: "\<not> submission_event ''fee_assessed''" by (simp add: submission_event_def)
  have "find_filing db (fe_id ?f) = Some f" using f id by simp
  note eff = record_fee_event_effect [OF r ne _ this]
  obtain u0 where "find_filing db1 (fe_id ?f) = Some (?f\<lparr>fe_updated_at := u0\<rparr>)" using eff(1) by auto
  then have "find_filing db1 (fe_id ?g) = Some (?f\<lparr>fe_updated_at := u0\<rparr>)" by simp
  from find_save_same [OF this, of e] obtain u where
    g: "find_filing db' (fe_id ?g) = Some (?g\<lparr>fe_updated_at := u\<rparr>)" unfolding db' by metis
  let ?g' = "?g\<lparr>fe_updated_at := u\<rparr>"
  have tx: "transactions db' = transactions db @ [t]" using eff(3) by (simp add: db')
  have fa: "find_assessment db' ?g' = Some t"
    by (rule find_new_assessment [OF assms(2) tx]) (use eff in auto)
  have "aq_reason r \<noteq> []" and ver': "aq_version r = aq_version raw"
    using p by (auto simp: parse_assessment_def valid_fee_text_def split: if_splits)
  with eff(5) have "tx_details t = JObj (set_key ''reason'' (JStr (aq_reason r)) (assessment_details r s
      @ [(''documents'', JArr (map document_json (current_documents db fid)))]))" using id by simp
  note b = assessment_basis [OF this p]
  have st: "\<not> assessment_stale ?g' (Some t)" using b(2) v by (simp add: assessment_stale_def)
  have "fee_basis_of e db' ?g' = court_basis t"
    using fa st fee_state_can_assess [OF s] by (simp add: fee_basis_of_def Let_def)
  with b(1) show thesis
    using p f who v ver' g id fa st ver eff(4)
    by (intro that [of r f ?g' t]) (auto simp: verify_filing_documents_Inr db')
qed

lemma assessed_state:
  assumes "fee_basis_of e db f = Inr b" and "fb_source b = CourtFee" and "find_assessment db f = Some t"
    and "\<not> assessment_stale f (Some t)"
  shows "\<exists>s. fee_state_of e db f uid = Inr s \<and> fs_source s = CourtFee \<and> fs_total s = fb_total b
    \<and> fs_items s = fb_items b \<and> fs_authority s = fb_authority b \<and> \<not> fs_stale s"
  using assms by (simp add: fee_state_of_def Let_def)

section \<open>Properties\<close>

text \<open>C18: an assessment is made by staff of the court other than the filer, against the version of the
  fee record they saw and on documents whose stored bytes were just verified and are retained
  from now on; from then on it governs the filing: for every viewer the fee state has exactly the
  assessed items, their total and the stated authority, is not stale, and no review is pending.\<close>
theorem assessment_governs:
  assumes "fresh_keys e" and "assess_fees e db fid raw uid = Inr (s', db')"
  shows "\<exists>r f f'. parse_assessment raw = Some r \<and> find_filing db fid = Some f
    \<and> fe_filer f \<noteq> uid \<and> is_court_staff db (Some uid) (fe_court f) \<and> fe_fee_version f = aq_version raw
    \<and> (\<forall>d \<in> set (current_documents db fid). stored e (dc_file_key d) = Stored (dc_sha256 d) (dc_size d))
    \<and> (\<forall>d \<in> set (current_documents db' fid). dc_retained_at d \<noteq> None)
    \<and> find_filing db' fid = Some f' \<and> fe_fee_version f' = fe_fee_version f + 1 \<and> fe_fee_review_at f' = None
    \<and> (\<forall>viewer. \<exists>s. fee_state_of e db' f' viewer = Inr s \<and> fs_source s = CourtFee
         \<and> fs_total s = Some (sum_list (map fi_cents (aq_items r))) \<and> fs_items s = aq_items r
         \<and> fs_authority s = Some (JStr (aq_authority r)) \<and> \<not> fs_stale s)"
  using assms(2,1)
proof (rule assessed_filing)
  fix r t and f f' :: envelope
  assume a: "parse_assessment raw = Some r" "find_filing db fid = Some f" "fe_filer f \<noteq> uid"
    "is_court_staff db (Some uid) (fe_court f)" "fe_fee_version f = aq_version raw"
    "find_filing db' fid = Some f'" "fe_fee_version f' = fe_fee_version f + 1" "fe_fee_review_at f' = None"
    "\<forall>d \<in> set (current_documents db fid). stored e (dc_file_key d) = Stored (dc_sha256 d) (dc_size d)"
    and b: "fee_basis_of e db' f' = Inr \<lparr>fb_source = CourtFee,
      fb_total = Some (sum_list (map fi_cents (aq_items r))), fb_authority = Some (JStr (aq_authority r)),
      fb_items = aq_items r\<rparr>" "find_assessment db' f' = Some t" "\<not> assessment_stale f' (Some t)"
    and d: "documents db' = documents (retain_documents fid (now e) db)"
  have "current_documents db' fid = current_documents (retain_documents fid (now e) db) fid"
    by (rule current_documents_cong [OF d])
  then have "\<forall>d \<in> set (current_documents db' fid). dc_retained_at d \<noteq> None"
    unfolding retain_current by auto
  moreover have "\<forall>viewer. \<exists>s. fee_state_of e db' f' viewer = Inr s \<and> fs_source s = CourtFee
      \<and> fs_total s = Some (sum_list (map fi_cents (aq_items r))) \<and> fs_items s = aq_items r
      \<and> fs_authority s = Some (JStr (aq_authority r)) \<and> \<not> fs_stale s"
    using assessed_state [OF b(1) _ b(2,3)] by simp
  ultimately show ?thesis using a by blast
qed

definition assess_db :: db where
  "assess_db = submit_db\<lparr>
     users := users submit_db @ [\<lparr>us_id = 2, us_email = ''c@x'', us_verified_email = None, us_first_name = ''C'',
        us_last_name = ''D'', us_bar_number = None, us_bar_verified = False,
        us_type = ClerkUser, us_keycloak = None, us_active = True, us_admin_version = 0\<rparr>],
     court_roles := [\<lparr>ur_id = 1, ur_user = 2, ur_court = 3, ur_role = ClerkRole\<rparr>]\<rparr>"

definition example_assessment :: fee_assessment_request where
  "example_assessment = \<lparr>aq_version = 0, aq_authority = ''MCL'', aq_reason = ''r'',
     aq_items = [\<lparr>fi_type = '' filing'', fi_cents = 150, fi_description = ''d''\<rparr>,
                 \<lparr>fi_type = ''fee'', fi_cents = 25, fi_description = ''e''\<rparr>]\<rparr>"

definition assessed_db :: db where
  "assessed_db = (case assess_fees example_env assess_db 1 example_assessment 2 of Inr (s, d) \<Rightarrow> d | _ \<Rightarrow> assess_db)"

lemma assess_example: "\<exists>s. assess_fees example_env assess_db 1 example_assessment 2 = Inr (s, assessed_db)"
proof -
  have "case assess_fees example_env assess_db 1 example_assessment 2 of Inr r \<Rightarrow> True | _ \<Rightarrow> False"
    by code_simp
  then show ?thesis by (auto simp: assessed_db_def split: sum.splits)
qed

theorem assessment_governs_witness:
  "\<exists>f s. find_filing assessed_db 1 = Some f \<and> fe_fee_version f = 1
     \<and> fee_state_of example_env assessed_db f (Some 1) = Inr s \<and> fs_total s = Some 175"
proof -
  have "map_option fe_fee_version (find_filing assess_db 1) = Some 0" by code_simp
  moreover have "parse_assessment example_assessment = Some (example_assessment
      \<lparr>aq_items := [\<lparr>fi_type = ''filing'', fi_cents = 150, fi_description = ''d''\<rparr>,
                 \<lparr>fi_type = ''fee'', fi_cents = 25, fi_description = ''e''\<rparr>]\<rparr>)" by code_simp
  ultimately show ?thesis
    using assess_example assessment_governs [OF example_env_fresh, of assess_db 1 example_assessment 2 _ assessed_db]
    by fastforce
qed

end
