(* ===== verification/FilingApi.thy ===== *)
theory FilingApi
  imports Uploads FeeApi
begin

text \<open>
  The filer's handlers (\<open>api/filings.py\<close>): creating, editing, validating and submitting a filing,
  uploading and removing its documents, and reading it with its history. The current user comes
  from a dependency of the handler and is a parameter here. Where a handler reads before it locks,
  \<open>db0\<close> is the database of the first read and \<open>db\<close> the one under the lock.
\<close>

section \<open>Access\<close>

definition owned_filing :: "db \<Rightarrow> int \<Rightarrow> int \<Rightarrow> account_refusal \<Rightarrow> failure + envelope" where
  "owned_filing db fid uid refusal =
     (case find_filing db fid of
        None \<Rightarrow> Inl (Http 404 (Account Filing_not_found))
      | Some f \<Rightarrow> if fe_filer f \<noteq> uid then Inl (Http 403 (Account refusal)) else Inr f)"

section \<open>Creating\<close>

datatype creation_reply = Created envelope | Existing envelope

definition creation_request :: "db \<Rightarrow> int \<Rightarrow> string \<Rightarrow> envelope option" where
  "creation_request db uid key =
     List.find (\<lambda>f. fe_filer f = uid \<and> fe_creation_key f = Some key) (filings db)"

definition replay_creation :: "env \<Rightarrow> filing_draft \<Rightarrow> envelope \<Rightarrow> failure + creation_reply" where
  "replay_creation e d f =
     (if fe_creation_sha256 f \<noteq> Some (creation_fingerprint e d)
      then Inl (Http 409 (Upload (Earlier_save_differs (fe_id f)))) else Inr (Existing f))"

text \<open>\<open>db1\<close> is the database the second query reads after the insert was refused, when another
  request may have committed the same key.\<close>

definition create_filing_handler ::
    "env \<Rightarrow> db \<Rightarrow> db \<Rightarrow> int \<Rightarrow> filing_draft \<Rightarrow> string \<Rightarrow> failure + creation_reply \<times> db" where
  "create_filing_handler e db db1 uid d key =
     then_do (lock_efiler db uid) (\<lambda>_.
     case creation_request db uid key of
       Some f \<Rightarrow> then_do (replay_creation e d f) (\<lambda>r. Inr (r, db))
     | None \<Rightarrow>
         (case create_filing e db uid d (Some key) of
            Inr (f, db') \<Rightarrow> Inr (Created f, log_filing e uid ''create_filing'' (fe_id f) None db')
          | Inl x \<Rightarrow>
              if x = IntegrityError \<or> (\<exists>c r. x = FilingDestinationError c r) then
                (case creation_request db1 uid key of
                   Some f \<Rightarrow> then_do (replay_creation e d f) (\<lambda>r. Inr (r, db))
                 | None \<Rightarrow>
                     Inl (case x of FilingDestinationError c r \<Rightarrow> Http c (Destination r) | _ \<Rightarrow> x))
              else Inl x))"

section \<open>Editing, validating, submitting\<close>

definition update_conflict :: "failure \<Rightarrow> failure" where
  "update_conflict x = (case x of FilingUpdateError c r \<Rightarrow> Http c (Filing r) | _ \<Rightarrow> x)"

definition update_filing :: "env \<Rightarrow> db \<Rightarrow> int \<Rightarrow> details_edit \<Rightarrow> int \<Rightarrow> failure + db" where
  "update_filing e db fid d uid =
     then_do (owned_filing db fid uid Not_your_filing) (\<lambda>f.
       map_failure update_conflict (update_details e f d db))"

text \<open>A destination that refuses is reported as the only error.\<close>

datatype validation_reply = DestinationRefused destination_refusal | Validated validation

definition validate_handler :: "db \<Rightarrow> int \<Rightarrow> int \<Rightarrow> failure + validation_reply" where
  "validate_handler db fid uid =
     then_do (owned_filing db fid uid Not_authorized) (\<lambda>f.
       case validate_filing_destination db (destination_of f) (Some uid) of
         Inl (FilingDestinationError c r) \<Rightarrow> Inr (DestinationRefused r)
       | Inl x \<Rightarrow> Inl x
       | Inr c \<Rightarrow> Inr (Validated (validate_filing db f (current_documents db fid))))"

definition submit_conflict :: "failure \<Rightarrow> failure" where
  "submit_conflict x =
     (case x of
        FilingDestinationError c r \<Rightarrow> Http c (Destination r)
      | FilingSubmissionError c r \<Rightarrow> Http c (Filing r)
      | FilingDocumentError r \<Rightarrow> Http 409 (Filing r)
      | _ \<Rightarrow> x)"

text \<open>The filing a repeated submission is answered with: as the read that found the key saw it.\<close>

definition recorded_filing :: "db \<Rightarrow> db \<Rightarrow> envelope \<Rightarrow> string option \<Rightarrow> envelope" where
  "recorded_filing db0 db f0 key =
     (if \<exists>t \<in> set (transactions db0). tx_filing t = fe_id f0 \<and> tx_key t = key then f0
      else (case find_filing db (fe_id f0) of None \<Rightarrow> f0 | Some f \<Rightarrow> f))"

definition submit_handler ::
    "env \<Rightarrow> db \<Rightarrow> db \<Rightarrow> int \<Rightarrow> string option \<Rightarrow> string \<Rightarrow> int \<Rightarrow> failure + envelope \<times> db" where
  "submit_handler e db0 db fid key token uid =
     then_do (lock_efiler db0 uid) (\<lambda>_.
     then_do (owned_filing db0 fid uid Not_authorized) (\<lambda>f0.
     case submit_filing e db0 db fid key (Some token) of
       Inl (SubmissionAlreadyRecordedError i) \<Rightarrow> Inr (recorded_filing db0 db f0 key, db)
     | Inl x \<Rightarrow> Inl (submit_conflict x)
     | Inr None \<Rightarrow> Inl (Http 400 (Filing Only_draft_submitted))
     | Inr (Some (f, db')) \<Rightarrow> Inr (f, log_filing e uid ''submit_filing'' fid None db')))"

section \<open>Uploading a document\<close>

definition upload_fingerprint ::
    "env \<Rightarrow> string \<Rightarrow> string \<Rightarrow> bool \<Rightarrow> upload_file \<Rightarrow> string \<Rightarrow> int \<Rightarrow> string" where
  "upload_fingerprint e code title confidential f sha sz = digest e (JArr
     [JStr code, JStr title, JBool confidential, jopt JStr (uf_name f), jopt JStr (uf_type f),
      JInt sz, JStr sha])"

definition upload_recorded :: "db \<Rightarrow> int \<Rightarrow> string \<Rightarrow> upload_request option" where
  "upload_recorded db fid key = List.find (\<lambda>r. up_envelope r = fid \<and> up_key r = key) (uploads db)"

definition replay_upload :: "db \<Rightarrow> upload_request \<Rightarrow> string \<Rightarrow> failure + document" where
  "replay_upload db r fp =
     (if up_fingerprint r \<noteq> fp then Inl (Http 409 (Upload Key_for_other_document))
      else (case row_at_opt dc_id (case up_document r of None \<Rightarrow> None | Some i \<Rightarrow> if i = 0 then None else Some i)
              (documents db) of
          None \<Rightarrow> Inl (Http 409 (Upload Uploaded_then_removed))
        | Some d \<Rightarrow>
            if dc_removed_at d \<noteq> None then Inl (Http 409 (Upload Uploaded_then_removed)) else Inr d))"

text \<open>The rows of a new document: the document, the request key and the advanced fee version.\<close>

definition enter_upload ::
    "env \<Rightarrow> envelope \<Rightarrow> document \<Rightarrow> string \<Rightarrow> string \<Rightarrow> string option \<Rightarrow> int \<Rightarrow> db \<Rightarrow> document \<times> db" where
  "enter_upload e f d key fp name uid db =
     (let (d', db1) = add_document e d db;
          r = \<lparr>up_envelope = fe_id f, up_key = key, up_fingerprint = fp, up_document = Some (dc_id d')\<rparr>;
          db2 = save_filing e (f\<lparr>fe_fee_version := fe_fee_version f + 1\<rparr>) (uploads_update (\<lambda>rs. rs @ [r]) db1)
      in (d', log_action e (Some uid) ''upload_document'' ''filing_document'' (Some (dc_id d'))
           (Some (JObj [(''filing_id'', JInt (fe_id f)), (''filename'', jopt JStr name)])) db2))"

datatype upload_step = Replay document | Enter document db

text \<open>The part under the lock; \<open>d\<close> is the document just stored.\<close>

definition upload_locked ::
    "env \<Rightarrow> db \<Rightarrow> int \<Rightarrow> string \<Rightarrow> document \<Rightarrow> string \<Rightarrow> string option \<Rightarrow> int \<Rightarrow> failure + upload_step" where
  "upload_locked e db fid key d fp name uid =
     then_do (lock_efiler db uid) (\<lambda>_.
     case find_filing db fid of
       None \<Rightarrow> Inl (Http 403 (Account Not_your_filing))
     | Some f \<Rightarrow>
         if fe_filer f \<noteq> uid then Inl (Http 403 (Account Not_your_filing))
         else (case upload_recorded db fid key of
             Some r \<Rightarrow> then_do (replay_upload db r fp) (\<lambda>x. Inr (Replay x))
           | None \<Rightarrow>
               if fe_status f \<notin> {Draft, Returned} then Inl (Http 400 (Upload Cannot_upload))
               else (let (d', db') = enter_upload e f d key fp name uid db in Inr (Enter d' db'))))"

text \<open>What follows the part under the lock: a replay removes the second copy of the object, and any
  exception reclaims the upload.\<close>

definition finish_upload ::
    "upload_env \<Rightarrow> db \<Rightarrow> string \<Rightarrow> failure + upload_step \<Rightarrow> objects \<Rightarrow> (failure + document \<times> db) \<times> objects" where
  "finish_upload u db k r os =
     (case r of
        Inl x \<Rightarrow> (Inl x, purge_keys u [k] os)
      | Inr (Enter d db') \<Rightarrow> (Inr (d, db'), os)
      | Inr (Replay d) \<Rightarrow>
          (case delete_object u k os of
             Inl x \<Rightarrow> (Inl x, purge_keys u [k] os)
           | Inr os' \<Rightarrow> (Inr (d, db), os')))"

definition upload_document ::
    "env \<Rightarrow> upload_env \<Rightarrow> db \<Rightarrow> db \<Rightarrow> objects \<Rightarrow> int \<Rightarrow> string \<Rightarrow> upload_file \<Rightarrow> string \<Rightarrow> string \<Rightarrow> bool \<Rightarrow> int
       \<Rightarrow> (failure + document \<times> db) \<times> objects" where
  "upload_document e u db0 db os fid key f code title confidential uid =
     (case owned_filing db0 fid uid Not_your_filing of
        Inl x \<Rightarrow> (Inl x, os)
      | Inr probe \<Rightarrow>
          (case upload_recorded db0 fid key of
             Some r \<Rightarrow>
               (then_do (read_upload (cfg e) f) (\<lambda>d.
                then_do (replay_upload db0 r (upload_fingerprint e code title confidential f
                    (ue_sha256 u d) (int (length d)))) (\<lambda>x. Inr (x, db))), os)
           | None \<Rightarrow>
               if fe_status probe \<notin> {Draft, Returned} then (Inl (Http 400 (Upload Cannot_upload)), os)
               else if code \<in> set court_document_types
               then (Inl (Http 403 (Upload Court_records_decisions)), os)
               else (case store_document_upload e u fid f code title confidential os of
                   (Inl x, os1) \<Rightarrow> (Inl x, os1)
                 | (Inr d, os1) \<Rightarrow>
                     finish_upload u db (dc_file_key d)
                       (upload_locked e db fid key d (upload_fingerprint e code title confidential f
                          (dc_sha256 d) (dc_size d)) (uf_name f) uid) os1)))"

section \<open>Removing a document\<close>

definition detach_upload :: "int \<Rightarrow> db \<Rightarrow> db" where
  "detach_upload did db =
     uploads_update (map (\<lambda>r. if up_document r = Some did then r\<lparr>up_document := None\<rparr> else r)) db"

definition queue_deletion :: "env \<Rightarrow> document \<Rightarrow> db \<Rightarrow> db" where
  "queue_deletion e d db =
     deletions_update (\<lambda>qs. qs @ [\<lparr>sd_id = new_key e (map sd_id (deletions db)), sd_document = dc_id d,
       sd_envelope = dc_envelope d, sd_file_key = dc_file_key d, sd_queued_at = now e,
       sd_next_attempt = now e, sd_attempts = 0, sd_last_error = None\<rparr>]) db"

text \<open>A retained document or one of a filing that was ever submitted is only marked removed; a draft's
  document is deleted and its object queued for deletion.\<close>

definition drop_document :: "env \<Rightarrow> envelope \<Rightarrow> document \<Rightarrow> db \<Rightarrow> db" where
  "drop_document e f d db =
     (if dc_retained_at d \<noteq> None \<or> fe_submitted_at f \<noteq> None
      then documents_update (upd_row dc_id (dc_id d) (\<lambda>r. r\<lparr>dc_removed_at := Some (now e)\<rparr>)) db
      else documents_update (filter (\<lambda>r. dc_id r \<noteq> dc_id d))
             (queue_deletion e d (detach_upload (dc_id d) db)))"

definition remove_document :: "env \<Rightarrow> db \<Rightarrow> int \<Rightarrow> int \<Rightarrow> int \<Rightarrow> failure + db" where
  "remove_document e db fid did uid =
     then_do (owned_filing db fid uid Not_your_filing) (\<lambda>f.
     if fe_status f \<notin> {Draft, Returned} then Inl (Http 400 (Upload Submitted_not_altered))
     else (case List.find (\<lambda>d. dc_id d = did) (current_documents db fid) of
         None \<Rightarrow> Inl (Http 404 (Upload Document_not_found))
       | Some d \<Rightarrow> Inr (log_action e (Some uid) ''remove_document'' ''filing_document'' (Some did)
           (Some (JObj [(''filing_id'', JInt fid)]))
           (drop_document e f d (save_filing e (f\<lparr>fe_fee_version := fe_fee_version f + 1\<rparr>) db)))))"

section \<open>Reading\<close>

definition get_filing_handler :: "db \<Rightarrow> int \<Rightarrow> int \<Rightarrow> failure + envelope" where
  "get_filing_handler db fid uid =
     (case find_filing db fid of
        None \<Rightarrow> Inl (Http 404 (Account Filing_not_found))
      | Some f \<Rightarrow>
          if fe_filer f \<noteq> uid \<and> \<not> is_court_staff db (Some uid) (fe_court f)
          then Inl (Http 403 (Account Not_authorized)) else Inr f)"

record history =
  hs_filing :: envelope
  hs_transactions :: "txn list"
  hs_total :: nat
  hs_waiver :: "waiver_state option"
  hs_can_manage :: bool

definition filing_history :: "env \<Rightarrow> db \<Rightarrow> int \<Rightarrow> nat \<Rightarrow> nat \<Rightarrow> int \<Rightarrow> failure + history" where
  "filing_history e db fid pg sz uid =
     (case find_filing db fid of
        None \<Rightarrow> Inl (Http 404 (Account Filing_not_found))
      | Some f \<Rightarrow>
          let staff = is_court_staff db (Some uid) (fe_court f);
              rows = filter (\<lambda>t. tx_filing t = fid) (transactions db)
          in if fe_filer f \<noteq> uid \<and> \<not> staff then Inl (Http 403 (Account Receipts_not_visible))
             else then_do (if fe_waiver_requested f
                  then then_do (waiver_state_of e db f uid) (\<lambda>w. Inr (Some w)) else Inr None) (\<lambda>w.
               Inr \<lparr>hs_filing = f,
                 hs_transactions = page_of pg sz (rev (sort_key tx_occurred_at (sort_key tx_id rows))),
                 hs_total = length rows, hs_waiver = w, hs_can_manage = (staff \<and> fe_filer f \<noteq> uid)\<rparr>))"

section \<open>Lemmas\<close>

lemma owned_filing_Inr: "owned_filing db fid uid r = Inr f \<longleftrightarrow> find_filing db fid = Some f \<and> fe_filer f = uid"
  by (auto simp: owned_filing_def split: option.splits if_splits)

lemma enter_upload_frame:
  assumes "enter_upload e f d key fp name uid db = (d', db')"
  shows "d' = d\<lparr>dc_id := new_key e (map dc_id (documents db))\<rparr>" "documents db' = documents db @ [d']"
    "uploads db' = uploads db @ [\<lparr>up_envelope = fe_id f, up_key = key, up_fingerprint = fp, up_document = Some (dc_id d')\<rparr>]"
    "transactions db' = transactions db" "payments db' = payments db" "cases db' = cases db"
    "users db' = users db" "deletions db' = deletions db" "public_copies db' = public_copies db"
    "find_filing db' = find_filing (save_filing e (f\<lparr>fe_fee_version := fe_fee_version f + 1\<rparr>) db)"
  using assms
  by (auto simp: enter_upload_def Let_def add_document_def find_filing_def fun_eq_iff save_filing_def
      log_action_def split: prod.splits)

text \<open>The ways an upload goes.\<close>

lemma upload_document_cases:
  assumes "upload_document e u db0 db os fid key f code title conf uid = (r, os')"
  obtains (refused) x where "r = Inl x" and "os' = os"
  | (known) d where "r = Inr (d, db)" and "os' = os"
  | (failed) x where "store_document_upload e u fid f code title conf os = (Inl x, os')" and "r = Inl x"
  | (stored) d os1 where "store_document_upload e u fid f code title conf os = (Inr d, os1)"
      and "code \<notin> set court_document_types"
      and "(r, os') = finish_upload u db (dc_file_key d)
             (upload_locked e db fid key d (upload_fingerprint e code title conf f (dc_sha256 d) (dc_size d))
                (uf_name f) uid) os1"
proof (cases "owned_filing db0 fid uid Not_your_filing")
  case (Inl x)
  with assms refused show ?thesis by (auto simp: upload_document_def)
next
  case owned: (Inr probe)
  show ?thesis
  proof (cases "upload_recorded db0 fid key")
    case (Some q)
    let ?m = "then_do (read_upload (cfg e) f) (\<lambda>d. then_do (replay_upload db0 q
      (upload_fingerprint e code title conf f (ue_sha256 u d) (int (length d)))) (\<lambda>x. Inr (x, db)))"
    from assms owned Some have r: "r = ?m" "os' = os" by (auto simp: upload_document_def)
    show ?thesis
    proof (cases ?m)
      case (Inl x)
      with r refused show ?thesis by simp
    next
      case (Inr y)
      then obtain d where "?m = Inr (d, db)" by (auto simp: then_do_Inr_iff)
      with r known show ?thesis by simp
    qed
  next
    case None
    with assms owned refused failed stored show ?thesis
      by (auto simp: upload_document_def split: if_splits sum.splits prod.splits)
  qed
qed

end
