(* ===== verification/Cleanup.thy ===== *)
theory Cleanup
  imports FilingApi
begin

text \<open>
  The cleanup of deleted drafts' objects (\<open>storage_cleanup.py\<close>): a job of the deletion queue is
  taken when it is due, its object is deleted unless a document or a public copy still refers to
  it, and otherwise the job is deferred with a growing delay.
\<close>

section \<open>One job\<close>

datatype cleanup = Deleted | Retry

definition job_before :: "deletion \<Rightarrow> deletion \<Rightarrow> bool" where
  "job_before p q \<longleftrightarrow> sd_next_attempt p < sd_next_attempt q
     \<or> sd_next_attempt p = sd_next_attempt q \<and> sd_id p \<le> sd_id q"

fun first_job :: "deletion list \<Rightarrow> deletion option" where
  "first_job [] = None"
| "first_job (q # qs) =
     (case first_job qs of None \<Rightarrow> Some q | Some p \<Rightarrow> Some (if job_before q p then q else p))"

definition due_job :: "env \<Rightarrow> db \<Rightarrow> deletion option" where
  "due_job e db = first_job (filter (\<lambda>q. sd_next_attempt q \<le> now e) (deletions db))"

definition second :: int where
  "second = 1000000"

text \<open>The delay after an attempt, given the attempts made before it.\<close>

definition backoff :: "int \<Rightarrow> int" where
  "backoff n = second * min 3600 (30 * 2 ^ nat (min n 7))"

definition deferred :: "env \<Rightarrow> string \<Rightarrow> deletion \<Rightarrow> deletion" where
  "deferred e err q = q\<lparr>sd_attempts := sd_attempts q + 1, sd_last_error := Some err,
     sd_next_attempt := now e + backoff (sd_attempts q)\<rparr>"

definition referenced_text :: string where
  "referenced_text = ''Object is still referenced by a filing document or public copy''"

definition failed_text :: string where
  "failed_text = ''Storage deletion failed (StorageUnavailableError)''"

definition defer_job :: "env \<Rightarrow> string \<Rightarrow> deletion \<Rightarrow> db \<Rightarrow> db" where
  "defer_job e err q db = deletions_update (upd_row sd_id (sd_id q) (\<lambda>_. deferred e err q)) db"

definition finish_job :: "env \<Rightarrow> deletion \<Rightarrow> db \<Rightarrow> db" where
  "finish_job e q db =
     deletions_update (filter (\<lambda>p. sd_id p \<noteq> sd_id q))
       (log_action e None ''purge_draft_document'' ''filing_document'' (Some (sd_document q))
         (Some (JObj [(''filing_id'', JInt (sd_envelope q)), (''file_key'', JStr (sd_file_key q)),
           (''deletion_id'', JInt (sd_id q)), (''queued_at'', JTime (sd_queued_at q))])) db)"

definition cleanup_next :: "env \<Rightarrow> upload_env \<Rightarrow> db \<Rightarrow> objects \<Rightarrow> cleanup option \<times> db \<times> objects" where
  "cleanup_next e u db os =
     (case due_job e db of
        None \<Rightarrow> (None, db, os)
      | Some q \<Rightarrow>
          if sd_file_key q \<in> set (referenced_keys db)
          then (Some Retry, defer_job e referenced_text q db, os)
          else (case delete_object u (sd_file_key q) os of
              Inl x \<Rightarrow> (Some Retry, defer_job e failed_text q db, os)
            | Inr os' \<Rightarrow> (Some Deleted, finish_job e q db, os')))"

section \<open>Runs\<close>

text \<open>\<open>es n\<close> is the environment, with its clock, of the n-th iteration.\<close>

lemma first_job_in: "first_job qs = Some q \<Longrightarrow> q \<in> set qs"
  by (induction qs arbitrary: q) (auto split: option.splits if_splits)

lemma first_job_None: "first_job qs = None \<longleftrightarrow> qs = []"
  by (cases qs) (auto split: option.splits)

lemma due_job_Some: "due_job e db = Some q \<Longrightarrow> q \<in> set (deletions db) \<and> sd_next_attempt q \<le> now e"
  by (auto simp: due_job_def dest: first_job_in)

lemma due_job_None: "due_job e db = None \<longleftrightarrow> list_all (\<lambda>q. now e < sd_next_attempt q) (deletions db)"
  by (auto simp: due_job_def first_job_None filter_empty_conv list_all_iff not_le)

lemma cleanup_deleted:
  assumes "cleanup_next e u db os = (Some Deleted, db', os')"
  obtains q where "due_job e db = Some q" and "sd_file_key q \<notin> set (referenced_keys db)"
    and "\<not> ue_delete_fault u (sd_file_key q)" and "db' = finish_job e q db"
    and "os' = filter (\<lambda>(k, d). k \<noteq> sd_file_key q) os"
  using assms by (auto simp: cleanup_next_def delete_object_def split: option.splits if_splits intro: that)

lemma cleanup_retry:
  assumes "cleanup_next e u db os = (Some Retry, db', os')"
  obtains q err where "due_job e db = Some q" and "db' = defer_job e err q db" and "os' = os"
    and "sd_file_key q \<in> set (referenced_keys db) \<or> ue_delete_fault u (sd_file_key q)"
  using assms by (auto simp: cleanup_next_def delete_object_def split: option.splits if_splits intro: that)

lemma finish_job_deletions: "deletions (finish_job e q db) = filter (\<lambda>p. sd_id p \<noteq> sd_id q) (deletions db)"
  by (simp add: finish_job_def)

lemma defer_job_deletions:
  "deletions (defer_job e err q db) = upd_row sd_id (sd_id q) (\<lambda>_. deferred e err q) (deletions db)"
  by (simp add: defer_job_def)

lemma cleanup_deleted_fewer:
  assumes "cleanup_next e u db os = (Some Deleted, db', os')"
  shows "length (deletions db') < length (deletions db)"
  using assms
proof (rule cleanup_deleted)
  fix q assume "due_job e db = Some q" and "db' = finish_job e q db"
  then show ?thesis by (auto simp: finish_job_deletions dest!: due_job_Some intro!: length_filter_less)
qed

function drain_cleanup :: "(nat \<Rightarrow> env) \<Rightarrow> upload_env \<Rightarrow> db \<Rightarrow> objects \<Rightarrow> db \<times> objects" where
  "drain_cleanup es u db os =
     (case cleanup_next (es 0) u db os of
        (r, db', os') \<Rightarrow> if r = Some Deleted then drain_cleanup (\<lambda>n. es (Suc n)) u db' os' else (db', os'))"
  by pat_completeness auto

termination
  by (relation "measure (\<lambda>(es, u, db, os). length (deletions db))") (auto dest: cleanup_deleted_fewer [OF sym])

declare drain_cleanup.simps [simp del]

text \<open>\<open>run(once=True)\<close>: every due job, deferred ones included; the result is whether one was deferred.\<close>

fun run_once :: "nat \<Rightarrow> (nat \<Rightarrow> env) \<Rightarrow> upload_env \<Rightarrow> bool \<Rightarrow> db \<Rightarrow> objects \<Rightarrow> (bool \<times> db \<times> objects) option" where
  "run_once 0 es u failed db os = None"
| "run_once (Suc k) es u failed db os =
     (case cleanup_next (es 0) u db os of
        (None, db', os') \<Rightarrow> Some (failed, db', os')
      | (Some r, db', os') \<Rightarrow> run_once k (\<lambda>n. es (Suc n)) u (failed \<or> r = Retry) db' os')"

end
