(* ===== verification/Application.thy ===== *)
theory Application
  imports Cleanup
begin

text \<open>
  The application around the handlers: the unit of work of a request with its commit and the
  clean-up of its uploads (\<open>database.py\<close>, \<open>services/storage_intent.py\<close>), the responses to exceptions
  (\<open>main.py\<close>), the readiness check, the configuration handed to the client and the read-only
  connection of the operator commands (\<open>readiness.py\<close>, \<open>readonly_database.py\<close>).
\<close>

section \<open>The unit of work of a request\<close>

text \<open>
  The keys the session has tracked as pending uploads: those the handler stored and did not
  release. A deletion was queued when the queue has grown.
\<close>

definition pending_uploads :: "objects \<Rightarrow> objects \<Rightarrow> string list" where
  "pending_uploads os os1 = filter (\<lambda>k. k \<notin> fst ` set os) (map fst os1)"

definition queued_deletion :: "db \<Rightarrow> db \<Rightarrow> bool" where
  "queued_deletion db db' \<longleftrightarrow> length (deletions db) < length (deletions db')"

text \<open>
  A commit that raises: whether the transaction is nevertheless durable, and whether another
  session can be asked about it.
\<close>

record commit_fault =
  cf_landed :: bool
  cf_asked :: bool

datatype raised_by = Handler failure | Commit

text \<open>
  \<open>session_scope\<close>: \<open>r\<close> is the result of the handler with the database as it would commit it, \<open>os1\<close>
  the store after it. The result is the response, the durable database and the store.
\<close>

definition session_scope ::
    "(nat \<Rightarrow> env) \<Rightarrow> upload_env \<Rightarrow> commit_fault option \<Rightarrow> bool \<Rightarrow> (failure + 'a \<times> db) \<Rightarrow> objects \<Rightarrow> db \<Rightarrow> objects
       \<Rightarrow> (raised_by + 'a) \<times> db \<times> objects" where
  "session_scope es u fault local r os1 db os =
     (let pending = pending_uploads os os1 in
      case r of
        Inl x \<Rightarrow> (Inl (Handler x), db, rollback_cleanup u None pending os1)
      | Inr (y, db') \<Rightarrow>
          (case fault of
             None \<Rightarrow> (Inr y, if local \<and> queued_deletion db db' then drain_cleanup es u db' os1 else (db', os1))
           | Some c \<Rightarrow> let durable = (if cf_landed c then db' else db) in
               (Inl Commit, durable,
                rollback_cleanup u (Some (if cf_asked c then Some durable else None)) pending os1)))"

section \<open>Responses to exceptions\<close>

text \<open>The exceptions of a request: the model's failures and those of Python and the database driver.\<close>

datatype app_error = Refused failure | Overflow | Database bool "string option"

text \<open>\<open>Quota_text\<close> is the message of the exception.\<close>

datatype detail = Refusal refusal | Detail string | Quota_text

record response =
  rs_status :: int
  rs_retry_after :: "int option"
  rs_detail :: detail

definition server_error :: response where
  "server_error = \<lparr>rs_status = 500, rs_retry_after = None, rs_detail = Detail ''Internal server error''\<rparr>"

text \<open>\<open>database_error_handler\<close>: only invalid data is the client's fault.\<close>

definition database_response :: "bool \<Rightarrow> string option \<Rightarrow> response" where
  "database_response data_error sqlstate =
     (if \<not> data_error \<and> \<not> starts_with (or_text sqlstate []) ''22'' then server_error
      else \<lparr>rs_status = 422, rs_retry_after = None,
        rs_detail = Detail ''The request contains a value that cannot be stored.''\<rparr>)"

fun error_response :: "app_error \<Rightarrow> response" where
  "error_response (Refused (Http status r)) = \<lparr>rs_status = status, rs_retry_after = None, rs_detail = Refusal r\<rparr>"
| "error_response (Refused StorageError) = \<lparr>rs_status = 503, rs_retry_after = Some 30,
     rs_detail = Detail ''Document storage is temporarily unavailable. Please retry shortly.''\<rparr>"
| "error_response (Refused StorageQuotaError) = \<lparr>rs_status = 507, rs_retry_after = None,
     rs_detail = Quota_text\<rparr>"
| "error_response (Refused IntegrityError) = database_response False (Some ''23505'')"
| "error_response Overflow = \<lparr>rs_status = 422, rs_retry_after = None,
     rs_detail = Detail ''A date or number in the request is outside the supported range.''\<rparr>"
| "error_response (Database data_error sqlstate) = database_response data_error sqlstate"
| "error_response (Refused x) = server_error"

section \<open>The configuration of the client\<close>

record frontend_settings =
  fr_allow_demo :: bool
  fr_isolated :: bool
  fr_secret :: string

definition hex_digit :: "nat \<Rightarrow> char" where
  "hex_digit n = ''0123456789abcdef'' ! n"

text \<open>\<open>json.dumps\<close> of a string of single-byte characters.\<close>

definition json_char :: "char \<Rightarrow> string" where
  "json_char c = (let n = (of_char c :: nat) in
     if n = 34 then [CHR 0x5C, CHR 0x22] else if n = 92 then [CHR 0x5C, CHR 0x5C]
     else if n = 10 then [CHR 0x5C, CHR ''n''] else if n = 13 then [CHR 0x5C, CHR ''r'']
     else if n = 9 then [CHR 0x5C, CHR ''t''] else if n = 12 then [CHR 0x5C, CHR ''f'']
     else if n = 8 then [CHR 0x5C, CHR ''b'']
     else if n < 32 \<or> 126 < n \<and> n \<noteq> 127 then [CHR 0x5C, CHR ''u'', CHR ''0'', CHR ''0'', hex_digit (n div 16), hex_digit (n mod 16)]
     else [c])"

definition json_string :: "string \<Rightarrow> string" where
  "json_string s = [CHR 0x22] @ concat (map json_char s) @ [CHR 0x22]"

definition runtime_frontend_config :: "frontend_settings \<Rightarrow> string" where
  "runtime_frontend_config s =
     ''window.__MUEFS_DEMO_SECRET__=''
       @ json_string (if fr_allow_demo s \<and> fr_isolated s then fr_secret s else []) @ '';''"

section \<open>Readiness\<close>

text \<open>What asking the database for its schema revisions gives within the time allowed.\<close>

datatype probe = Heads "string set" | Probe_timeout | Probe_failed

datatype not_ready = Schema_mismatch | Database_timeout | Database_unavailable

definition not_ready_reason :: "string set \<Rightarrow> probe \<Rightarrow> not_ready option" where
  "not_ready_reason expected p =
     (case p of
        Heads hs \<Rightarrow> if expected = {} \<or> hs \<noteq> expected then Some Schema_mismatch else None
      | Probe_timeout \<Rightarrow> Some Database_timeout
      | Probe_failed \<Rightarrow> Some Database_unavailable)"

definition readiness :: "string set \<Rightarrow> probe \<Rightarrow> int \<times> not_ready option \<times> int option" where
  "readiness expected p =
     (case not_ready_reason expected p of None \<Rightarrow> (200, None, None) | Some r \<Rightarrow> (503, Some r, Some 5))"

section \<open>Read-only connections\<close>

record database_url =
  du_backend :: string
  du_database :: "string option"
  du_query :: "(string \<times> string) list"

datatype read_only_error = Use_file_database | Database_missing | Backend_unsupported

text \<open>The address that is opened, the isolation level and the statements before the first query.\<close>

record read_only =
  ro_url :: database_url
  ro_isolation :: "string option"
  ro_statements :: "string list"

text \<open>\<open>resolve\<close> is \<open>Path.resolve(strict=True)\<close> as a file URI, or \<open>None\<close> where no file exists.\<close>

definition read_only_connection :: "(string \<Rightarrow> string option) \<Rightarrow> database_url \<Rightarrow> read_only_error + read_only" where
  "read_only_connection resolve u =
     (if du_backend u = ''sqlite'' then
        (if \<not> truthy (du_database u) \<or> du_database u = Some '':memory:'' \<or> truthy (map_of (du_query u) ''uri'')
         then Inl Use_file_database
         else (case resolve (the (du_database u)) of
             None \<Rightarrow> Inl Database_missing
           | Some uri \<Rightarrow> Inr \<lparr>ro_url = u\<lparr>du_database := Some uri,
                 du_query := set_key ''uri'' ''true'' (set_key ''mode'' ''ro'' (du_query u))\<rparr>,
               ro_isolation = None, ro_statements = [''PRAGMA query_only=ON'', ''BEGIN'']\<rparr>))
      else if du_backend u \<noteq> ''postgresql'' then Inl Backend_unsupported
      else Inr \<lparr>ro_url = u, ro_isolation = Some ''REPEATABLE READ'', ro_statements = [''SET TRANSACTION READ ONLY'']\<rparr>)"

section \<open>Lemmas\<close>

text \<open>The demonstration's secret leaves the server only where every visitor has an isolated sandbox.\<close>

lemma secret_withheld:
  "\<not> (fr_allow_demo s \<and> fr_isolated s) \<Longrightarrow>
    runtime_frontend_config s = runtime_frontend_config (s\<lparr>fr_secret := any\<rparr>)"
  by (auto simp: runtime_frontend_config_def)

text \<open>Whatever the URL asks for, the connection is read-only.\<close>

lemma read_only_enforced:
  "read_only_connection resolve u = Inr c \<Longrightarrow>
     (du_backend u = ''sqlite'' \<and> map_of (du_query (ro_url c)) ''mode'' = Some ''ro''
        \<and> ''PRAGMA query_only=ON'' \<in> set (ro_statements c))
     \<or> (du_backend u = ''postgresql'' \<and> ro_statements c = [''SET TRANSACTION READ ONLY''])"
  by (auto simp: read_only_connection_def split: if_splits option.splits)

end
