(* ===== verification/Review.thy ===== *)
theory Review
  imports Filing
begin

text \<open>
  The review of a submitted filing: verification of the evidence and the decision
  (\<open>services/filing_service.py\<close>), the case management system adapter
  (\<open>integrations/cms_adapter.py\<close>) and the clerk's handlers, single and batch
  (\<open>api/clerk_review.py\<close>).
\<close>

section \<open>The case management system\<close>

record cms_result =
  cm_success :: bool
  cm_case_number :: "string option"
  cm_filing_id :: "string option"
  cm_error :: "string option"

type_synonym cms = "string \<Rightarrow> int \<Rightarrow> cms_result"

text \<open>The adapter of this repository; the review takes the adapter as a parameter, so that its
  failure branch is covered too.\<close>

definition submit_filing_to_cms :: "env \<Rightarrow> cms" where
  "submit_filing_to_cms e number fid =
     (if st_allow_demo (cfg e)
      then \<lparr>cm_success = True, cm_case_number = Some number, cm_filing_id = Some (''DEMO-'' @ dec fid),
            cm_error = None\<rparr>
      else \<lparr>cm_success = True, cm_case_number = Some number, cm_filing_id = None, cm_error = None\<rparr>)"

section \<open>Verifying a review\<close>

datatype review_action = AcceptFiling | RejectFiling | ReturnFiling

fun action_value :: "review_action \<Rightarrow> string" where
  "action_value AcceptFiling = ''accept''"
| "action_value RejectFiling = ''reject''"
| "action_value ReturnFiling = ''return''"

record review_evidence =
  ev_date_version :: int
  ev_ordered :: bool
  ev_fingerprints :: "(int \<times> string \<times> int) list option"

definition ordered_date :: "envelope \<Rightarrow> bool" where
  "ordered_date f \<longleftrightarrow>
     (case fe_filing_date_basis f of None \<Rightarrow> False | Some b \<Rightarrow> jget ''source'' b = Some (JStr ''court_order''))"

definition order_document_id :: "envelope \<Rightarrow> int option" where
  "order_document_id f =
     Option.bind (Option.bind (fe_filing_date_basis f) (jget ''order_document_id'')) json_int"

definition date_order :: "db \<Rightarrow> envelope \<Rightarrow> document option" where
  "date_order db f = List.find (\<lambda>d. Some (dc_id d) = order_document_id f \<and> dc_envelope d = fe_id f
     \<and> dc_type d = ''FILING_DATE_ORDER'' \<and> dc_retained_at d \<noteq> None) (documents db)"

definition awaiting_review :: "envelope \<Rightarrow> bool" where
  "awaiting_review f \<longleftrightarrow> fe_status f \<in> {Submitted, UnderReview}"

definition accept_evidence :: "env \<Rightarrow> db \<Rightarrow> envelope \<Rightarrow> failure + (int \<times> string \<times> int) list" where
  "accept_evidence e db f =
     (let docs = current_documents db (fe_id f);
          order = (if ordered_date f then date_order db f else None)
      in if ordered_date f \<and> (order = None \<or> fe_filing_date f = None)
         then Inl (FilingDateUnavailableError Order_needs_review)
         else then_do (verify_filing_documents e docs order) (\<lambda>_.
           Inr (map fingerprint docs @ (case order of None \<Rightarrow> [] | Some d \<Rightarrow> [fingerprint d]))))"

definition verify_review ::
    "env \<Rightarrow> db \<Rightarrow> int \<Rightarrow> review_action \<Rightarrow> int \<Rightarrow> failure + review_evidence option" where
  "verify_review e db fid action count =
     (case find_filing db fid of
        None \<Rightarrow> Inr None
      | Some f \<Rightarrow>
          if fe_submission_count f \<noteq> count then Inl (StaleFilingReviewError Resubmitted)
          else if \<not> awaiting_review f then Inr None
          else then_do (if action = AcceptFiling
                        then then_do (accept_evidence e db f) (\<lambda>fps. Inr (Some fps)) else Inr None) (\<lambda>fps.
            Inr (Some \<lparr>ev_date_version = fe_filing_date_version f, ev_ordered = ordered_date f,
                        ev_fingerprints = fps\<rparr>)))"

section \<open>Recording a review\<close>

text \<open>The fingerprints of the locked filing, with the order document while it exists.\<close>

definition current_fingerprints :: "db \<Rightarrow> envelope \<Rightarrow> bool \<Rightarrow> (int \<times> string \<times> int) list" where
  "current_fingerprints db f ordered =
     map fingerprint (current_documents db (fe_id f))
     @ (if ordered then
          (case List.find (\<lambda>d. Some (dc_id d) = order_document_id f \<and> dc_envelope d = fe_id f) (documents db) of
             None \<Rightarrow> [] | Some d \<Rightarrow> [fingerprint d])
        else [])"

definition check_acceptance ::
    "db \<Rightarrow> envelope \<Rightarrow> review_evidence \<Rightarrow> failure + case_row option" where
  "check_acceptance db f ev =
     (if fe_filing_date_version f \<noteq> ev_date_version ev then Inl (StaleFilingReviewError Date_changed_in_review)
      else then_do (validate_filing_destination db (destination_of f) None) (\<lambda>c.
        if ev_fingerprints ev \<noteq> Some (current_fingerprints db f (ev_ordered ev))
        then Inl (FilingDocumentError Documents_changed) else Inr c))"

definition text_of_date_error :: "calendar_refusal option \<Rightarrow> failure" where
  "text_of_date_error why = FilingDateUnavailableError (Date_unresolved why)"

text \<open>Assessing the filing date again at acceptance, with its ledger entry when the basis changed.\<close>

definition reassess_date ::
    "env \<Rightarrow> int \<Rightarrow> datetime \<Rightarrow> envelope \<Rightarrow> db \<Rightarrow> failure + envelope \<times> db" where
  "reassess_date e reviewer received f db =
     (let a = filing_date_for_receipt e db (fe_court f) received; basis = assessment_json a in
      if as_filing_date a = None \<and> \<not> st_allow_demo (cfg e) then Inl (text_of_date_error (as_error a))
      else if fe_filing_date_basis f = Some basis then Inr (f, db)
      else
        let f' = f\<lparr>fe_filing_date := as_filing_date a, fe_filing_date_basis := Some basis\<rparr>
        in then_do (record_transaction e f' ''filing_date_assessed'' reviewer None None
             [(''previous_filing_date'', jopt JDate (fe_filing_date f)), (''filing_date_basis'', basis)] db)
           (\<lambda>(t, db'). Inr (f', db')))"

definition new_case_number :: "db \<Rightarrow> envelope \<Rightarrow> datetime \<Rightarrow> failure + string" where
  "new_case_number db f received =
     (case (row_at ct_id (fe_court f) (courts db), row_at ty_id (fe_case_type f) (case_types db)) of
        (Some c, Some ty) \<Rightarrow>
          if ty_court ty \<noteq> ct_id c then Inl InternalError
          else Inr (case_number (year_of (case fe_filing_date f of None \<Rightarrow> utc_date received | Some d \<Rightarrow> d))
                 (fe_id f) (case_number_code (ct_type c) (ty_code ty)))
      | _ \<Rightarrow> Inl InternalError)"

definition new_case :: "env \<Rightarrow> db \<Rightarrow> envelope \<Rightarrow> datetime \<Rightarrow> string \<Rightarrow> case_row" where
  "new_case e db f received number =
     \<lparr>cs_id = new_key e (map cs_id (cases db)), cs_court = fe_court f, cs_number = number,
      cs_case_type = fe_case_type f, cs_title = or_text (fe_title f) ''Untitled Case'',
      cs_sealed = False, cs_status = CaseOpen, cs_filed_date = received,
      cs_filing_date = fe_filing_date f, cs_filing_date_version = 0, cs_participant_version = 0\<rparr>"

text \<open>The insert is subject to the unique constraint on court and case number.\<close>

definition insert_case :: "case_row \<Rightarrow> db \<Rightarrow> failure + db" where
  "insert_case c db =
     (if \<exists>r \<in> set (cases db). cs_court r = cs_court c \<and> cs_number r = cs_number c
      then Inl IntegrityError else Inr (cases_update (\<lambda>cs. cs @ [c]) db))"

definition finish_review ::
    "env \<Rightarrow> int \<Rightarrow> string option \<Rightarrow> envelope \<Rightarrow> db \<Rightarrow> failure + envelope \<times> db" where
  "finish_review e reviewer reason f db =
     then_do (record_transaction e f (status_value (fe_status f)) reviewer reason None [] db)
       (\<lambda>(t, db'). Inr (f, save_filing e f db'))"

definition cms_failed ::
    "env \<Rightarrow> int \<Rightarrow> cms_result \<Rightarrow> envelope \<Rightarrow> db \<Rightarrow> failure + envelope \<times> db" where
  "cms_failed e reviewer r f db =
     (let why = or_text (cm_error r) ''No reason was given'';
          f' = f\<lparr>fe_cms_error := Some why, fe_cms_filing_id := None, fe_cms_case_number := None\<rparr>
      in then_do (record_transaction e f' ''cms_failed'' reviewer (Some why) None [] db)
           (\<lambda>(t, db'). Inr (f', save_filing e f' db')))"

definition under_review :: "envelope \<Rightarrow> envelope" where
  "under_review f = f\<lparr>fe_filing_date_version := fe_filing_date_version f + 1, fe_status := UnderReview\<rparr>"

definition case_to_enter ::
    "env \<Rightarrow> db \<Rightarrow> envelope \<Rightarrow> datetime \<Rightarrow> case_row option \<Rightarrow> failure + case_row" where
  "case_to_enter e db f received existing =
     (case existing of
        Some c \<Rightarrow> Inr c
      | None \<Rightarrow> then_do (new_case_number db f received) (\<lambda>n. Inr (new_case e db f received n)))"

definition entered :: "cms_result \<Rightarrow> case_row \<Rightarrow> envelope \<Rightarrow> envelope" where
  "entered r c f =
     f\<lparr>fe_case := (if fe_case f = None then Some (cs_id c) else fe_case f), fe_status := Accepted,
       fe_cms_filing_id := cm_filing_id r, fe_cms_case_number := cm_case_number r, fe_cms_error := None\<rparr>"

definition enter_case ::
    "env \<Rightarrow> cms \<Rightarrow> int \<Rightarrow> string option \<Rightarrow> case_row \<Rightarrow> envelope \<Rightarrow> db \<Rightarrow> failure + envelope \<times> db" where
  "enter_case e cms reviewer reason c f db =
     (let r = cms (cs_number c) (fe_id f) in
      if \<not> cm_success r then cms_failed e reviewer r f db
      else then_do (if fe_case f = None then insert_case c db else Inr db)
             (\<lambda>db'. finish_review e reviewer reason (entered r c f) db'))"

definition accept_filing ::
    "env \<Rightarrow> cms \<Rightarrow> int \<Rightarrow> string option \<Rightarrow> bool \<Rightarrow> case_row option \<Rightarrow> envelope \<Rightarrow> db
       \<Rightarrow> failure + envelope \<times> db" where
  "accept_filing e cms reviewer reason ordered existing f db =
     (case or_else (fe_filed_at f) (fe_submitted_at f) of
        None \<Rightarrow> Inl (FilingDateUnavailableError No_receipt_time)
      | Some received \<Rightarrow>
          then_do (if ordered then Inr (f, db) else reassess_date e reviewer received f db) (\<lambda>(f1, db1).
          then_do (case_to_enter e db1 (under_review f1) received existing) (\<lambda>c.
          enter_case e cms reviewer reason c (under_review f1) db1)))"

definition record_review ::
    "env \<Rightarrow> cms \<Rightarrow> db \<Rightarrow> int \<Rightarrow> int \<Rightarrow> review_action \<Rightarrow> string option \<Rightarrow> int \<Rightarrow> review_evidence
       \<Rightarrow> failure + (envelope \<times> db) option" where
  "record_review e cms db fid reviewer action reason count ev =
     (case find_filing db fid of
        None \<Rightarrow> Inr None
      | Some f \<Rightarrow>
          if fe_submission_count f \<noteq> count then Inl (StaleFilingReviewError Resubmitted)
          else if \<not> awaiting_review f then Inr None
          else
            let f1 = f\<lparr>fe_reviewer := Some reviewer, fe_reviewed_at := Some (now e)\<rparr>;
                decided = (\<lambda>s. f1\<lparr>fe_filing_date_version := fe_filing_date_version f1 + 1,
                  fe_status := s, fe_rejection_reason := reason\<rparr>)
            in then_do
              (case action of
                 AcceptFiling \<Rightarrow>
                   then_do (check_acceptance db f ev) (\<lambda>c.
                     accept_filing e cms reviewer reason (ev_ordered ev) c f1 db)
               | RejectFiling \<Rightarrow> finish_review e reviewer reason (decided Rejected) db
               | ReturnFiling \<Rightarrow> finish_review e reviewer reason (decided Returned) db)
              (\<lambda>r. Inr (Some r)))"

definition review_filing ::
    "env \<Rightarrow> cms \<Rightarrow> db \<Rightarrow> db \<Rightarrow> int \<Rightarrow> int \<Rightarrow> review_action \<Rightarrow> string option \<Rightarrow> int
       \<Rightarrow> failure + (envelope \<times> db) option" where
  "review_filing e cms db0 db fid reviewer action reason count =
     then_do (verify_review e db0 fid action count) (\<lambda>ev.
       case ev of None \<Rightarrow> Inr None
       | Some ev' \<Rightarrow> record_review e cms db fid reviewer action reason count ev')"

section \<open>The clerk's handlers\<close>

definition require_clerk_role :: "db \<Rightarrow> int \<Rightarrow> int \<Rightarrow> failure + unit" where
  "require_clerk_role db uid court =
     ensure (is_court_staff db (Some uid) court) (Http 403 (Account Not_clerk_for_court))"

definition require_independent_reviewer :: "db \<Rightarrow> int \<Rightarrow> envelope \<Rightarrow> failure + unit" where
  "require_independent_reviewer db uid f =
     then_do (require_clerk_role db uid (fe_court f)) (\<lambda>_.
       ensure (fe_filer f \<noteq> uid) (Http 403 (Account Own_filing)))"

text \<open>The exceptions the handler turns into a conflict, with their texts.\<close>

definition review_conflict :: "failure \<Rightarrow> failure" where
  "review_conflict x =
     (case x of
        FilingDestinationError _ d \<Rightarrow> Http 409 (Destination d)
      | StaleFilingReviewError d \<Rightarrow> Http 409 (Review d)
      | FilingDateUnavailableError d \<Rightarrow> Http 409 (Review d)
      | FilingDocumentError d \<Rightarrow> Http 409 (Filing d)
      | _ \<Rightarrow> x)"

text \<open>The reply of the handler: the filing, or the 502 answer, which is committed like a success.\<close>

datatype review_reply = Reviewed envelope | CmsRefused "string option"

definition review_handler ::
    "env \<Rightarrow> cms \<Rightarrow> db \<Rightarrow> db \<Rightarrow> int \<Rightarrow> review_action \<Rightarrow> string option \<Rightarrow> int \<Rightarrow> int
       \<Rightarrow> failure + review_reply \<times> db" where
  "review_handler e cms db0 db fid action reason count uid =
     (let why = (if truthy reason then Some (str_strip (the reason)) else None) in
      if action \<in> {RejectFiling, ReturnFiling} \<and> \<not> truthy why then Inl (Http 400 (Review Reason_required))
      else then_do (lock_current_user db0 uid) (\<lambda>_.
      case find_filing db0 fid of
        None \<Rightarrow> Inl (Http 404 (Account Filing_not_found))
      | Some check \<Rightarrow>
          then_do (require_independent_reviewer db0 uid check) (\<lambda>_.
          then_do (map_failure review_conflict (review_filing e cms db0 db fid uid action why count)) (\<lambda>r.
          case r of
            None \<Rightarrow> Inl (Http 400 (Review Not_awaiting_review))
          | Some (f, db') \<Rightarrow>
              if action = AcceptFiling \<and> fe_status f \<noteq> Accepted
              then Inr (CmsRefused (fe_cms_error f), db')
              else Inr (Reviewed f, log_filing e uid (''review_filing_'' @ action_value action) fid
                (Some (JObj [(''action'', JStr (action_value action)), (''reason'', jopt JStr reason)])) db')))))"

section \<open>Batch acceptance\<close>

record batch_item =
  bi_filing :: int
  bi_count :: int

definition batch_failure :: "failure \<Rightarrow> refusal" where
  "batch_failure x =
     (case x of
        FilingDestinationError _ d \<Rightarrow> Destination d
      | StaleFilingReviewError d \<Rightarrow> Review d
      | FilingDateUnavailableError d \<Rightarrow> Review d
      | FilingDocumentError d \<Rightarrow> Filing d
      | Http _ d \<Rightarrow> d
      | _ \<Rightarrow> Review Could_not_accept)"

text \<open>The first pass: each item against the database as it is when its turn comes.\<close>

definition batch_probe :: "env \<Rightarrow> db \<Rightarrow> int \<Rightarrow> batch_item \<Rightarrow> refusal + review_evidence" where
  "batch_probe e db uid i =
     (case find_filing db (bi_filing i) of
        None \<Rightarrow> Inl (Review No_longer_awaiting)
      | Some f \<Rightarrow>
          (case then_do (require_independent_reviewer db uid f)
                  (\<lambda>_. verify_review e db (bi_filing i) AcceptFiling (bi_count i)) of
             Inl x \<Rightarrow> Inl (batch_failure x)
           | Inr None \<Rightarrow> Inl (Review No_longer_awaiting)
           | Inr (Some ev) \<Rightarrow> Inr ev))"

text \<open>The second pass: a failed item rolls back to its savepoint, the others stay.\<close>

definition batch_record ::
    "env \<Rightarrow> cms \<Rightarrow> int \<Rightarrow> batch_item \<times> review_evidence \<Rightarrow> db \<Rightarrow> (refusal + unit) \<times> db" where
  "batch_record e cms uid ie db =
     (case record_review e cms db (bi_filing (fst ie)) uid AcceptFiling None (bi_count (fst ie)) (snd ie) of
        Inl x \<Rightarrow> (Inl (batch_failure x), db)
      | Inr None \<Rightarrow> (Inl (Review No_longer_awaiting), db)
      | Inr (Some (f, db')) \<Rightarrow>
          if fe_status f = Accepted then (Inr (), db')
          else if truthy (fe_cms_error f) then (Inl (Review (Cms_failed None)), db')
          else (Inl (Review No_longer_awaiting), db'))"

fun batch_records ::
    "env \<Rightarrow> cms \<Rightarrow> int \<Rightarrow> (batch_item \<times> review_evidence) list \<Rightarrow> db
       \<Rightarrow> int list \<times> (int \<times> refusal) list \<times> db" where
  "batch_records e cms uid [] db = ([], [], db)"
| "batch_records e cms uid (ie # ies) db =
     (case batch_record e cms uid ie db of (outcome, db1) \<Rightarrow>
      case batch_records e cms uid ies db1 of (ok, bad, db2) \<Rightarrow>
        (case outcome of
           Inr _ \<Rightarrow> (bi_filing (fst ie) # ok, bad, db2)
         | Inl x \<Rightarrow> (ok, (bi_filing (fst ie), x) # bad, db2)))"

record batch_reply =
  br_succeeded :: "int list"
  br_failed :: "int list"
  br_errors :: "(int \<times> refusal) list"

definition batch_review_filings ::
    "env \<Rightarrow> cms \<Rightarrow> (int \<Rightarrow> db) \<Rightarrow> db \<Rightarrow> db \<Rightarrow> batch_item list \<Rightarrow> int \<Rightarrow> failure + batch_reply \<times> db" where
  "batch_review_filings e cms probe db0 db items uid =
     then_do (lock_current_user db0 uid) (\<lambda>_.
       let sorted_items = sort_key bi_filing items;
           probes = map (\<lambda>i. (i, batch_probe e (probe (bi_filing i)) uid i)) sorted_items;
           verified = concat (map (\<lambda>(i, p). case p of Inr ev \<Rightarrow> [(i, ev)] | Inl _ \<Rightarrow> []) probes);
           refused = concat (map (\<lambda>(i, p). case p of Inr _ \<Rightarrow> [] | Inl x \<Rightarrow> [(bi_filing i, x)]) probes)
       in case batch_records e cms uid verified db of (ok, bad, db') \<Rightarrow>
         Inr (\<lparr>br_succeeded = ok, br_failed = sort (map fst (refused @ bad)), br_errors = refused @ bad\<rparr>,
           log_filing e uid ''batch_review_accept'' 0
             (Some (JObj [(''succeeded'', JInt (int (length ok))),
                          (''failed'', JInt (int (length (refused @ bad))))])) db'))"

end
