(* ===== verification/ReviewProofs.thy ===== *)
theory ReviewProofs
  imports Review "HOL-Library.Multiset"
begin

text \<open>
  What a review does: the effect of each step of \<open>record_review\<close>, the decisions it can leave, the
  case of an accepted filing, and the accounting of a batch.
\<close>

section \<open>The frame of a review\<close>

definition review_frame :: "int \<Rightarrow> db \<Rightarrow> db \<Rightarrow> bool" where
  "review_frame fid db db' \<longleftrightarrow>
     (\<forall>g. g \<noteq> fid \<longrightarrow> find_filing db' g = find_filing db g)
     \<and> documents db' = documents db \<and> payments db' = payments db \<and> users db' = users db
     \<and> court_roles db' = court_roles db \<and> participants db' = participants db \<and> audit db' = audit db
     \<and> courts db' = courts db \<and> case_types db' = case_types db
     \<and> prefix (transactions db) (transactions db') \<and> prefix (cases db) (cases db')"

lemma review_frame_refl [simp]: "review_frame fid db db"
  by (simp add: review_frame_def)

lemma review_frame_trans: "review_frame fid a b \<Longrightarrow> review_frame fid b c \<Longrightarrow> review_frame fid a c"
  by (auto simp: review_frame_def)

lemma review_frame_transaction:
  assumes "record_transaction e f ev r why key kvs db = Inr (t, db')" and "\<not> submission_event ev"
  shows "review_frame fid db db'"
  using record_transaction_frame [OF assms(1)] assms(2) by (simp add: review_frame_def)

lemma review_frame_save: "fe_id f = fid \<Longrightarrow> review_frame fid db (save_filing e f db)"
  by (auto simp: review_frame_def find_save_other)

lemma review_frame_case: "insert_case c db = Inr db' \<Longrightarrow> review_frame fid db db'"
  by (auto simp: insert_case_def review_frame_def find_filing_def split: if_splits)

lemma decision_event: "\<not> submission_event (status_value s) \<or> s = Submitted"
  by (cases s) (simp_all add: submission_event_def)

section \<open>The steps\<close>

text \<open>The columns of a filing that a review never writes.\<close>

definition same_filing :: "envelope \<Rightarrow> envelope \<Rightarrow> bool" where
  "same_filing f g \<longleftrightarrow> fe_id g = fe_id f \<and> fe_court g = fe_court f \<and> fe_case_type g = fe_case_type f
     \<and> fe_filer g = fe_filer f \<and> fe_type g = fe_type f \<and> fe_title g = fe_title f
     \<and> fe_submission_count g = fe_submission_count f \<and> fe_submitted_at g = fe_submitted_at f
     \<and> fe_filed_at g = fe_filed_at f \<and> fe_payment_version g = fe_payment_version f
     \<and> fe_fee_version g = fe_fee_version f \<and> fe_fee_assessment g = fe_fee_assessment f
     \<and> fe_waiver_granted g = fe_waiver_granted f"

lemma same_filing_refl [simp]: "same_filing f f"
  by (simp add: same_filing_def)

lemma same_filing_trans: "same_filing a b \<Longrightarrow> same_filing b c \<Longrightarrow> same_filing a c"
  by (simp add: same_filing_def)

lemma finish_review_effect:
  assumes "finish_review e reviewer reason f db = Inr (f', db')" and "fe_status f \<noteq> Submitted"
    and "find_filing db (fe_id f) = Some f0"
  shows "f' = f \<and> review_frame (fe_id f) db db' \<and> cases db' = cases db
    \<and> (\<exists>u. find_filing db' (fe_id f) = Some (f\<lparr>fe_updated_at := u\<rparr>))
    \<and> (\<exists>t. transactions db' = transactions db @ [t] \<and> tx_event t = status_value (fe_status f)
        \<and> tx_filing t = fe_id f \<and> tx_actor t = reviewer \<and> tx_submission t = fe_submission_count f)"
proof -
  from assms(1) obtain t db1 where rec: "record_transaction e f (status_value (fe_status f)) reviewer reason None [] db = Inr (t, db1)"
    and res: "f' = f" "db' = save_filing e f db1"
    by (auto simp: finish_review_def then_do_Inr_iff)
  note fr = record_transaction_frame [OF rec]
  obtain u where "find_filing (save_filing e f db1) (fe_id f) = Some (f\<lparr>fe_updated_at := u\<rparr>)"
    using find_save_same [of db1 f f0 e] assms(3) fr(15) by metis
  moreover have "review_frame (fe_id f) db db'"
    unfolding res by (rule review_frame_trans [OF review_frame_transaction [OF rec] review_frame_save])
      (use decision_event assms(2) in auto)
  moreover have "transactions db' = transactions db @ [t]" "cases db' = cases db"
    using fr res by simp_all
  ultimately show ?thesis using res fr(17-19,21) by blast
qed

lemma reassess_date_effect:
  assumes "reassess_date e reviewer received f db = Inr (f', db')"
  shows "same_filing f f' \<and> fe_status f' = fe_status f \<and> fe_case f' = fe_case f
    \<and> fe_reviewer f' = fe_reviewer f \<and> fe_filing_date_version f' = fe_filing_date_version f
    \<and> (as_filing_date (filing_date_for_receipt e db (fe_court f) received) \<noteq> None \<or> st_allow_demo (cfg e))
    \<and> fe_filing_date_basis f' = Some (assessment_json (filing_date_for_receipt e db (fe_court f) received))
    \<and> review_frame (fe_id f) db db' \<and> cases db' = cases db \<and> filings db' = filings db"
proof (cases "fe_filing_date_basis f = Some (assessment_json (filing_date_for_receipt e db (fe_court f) received))")
  case True
  with assms show ?thesis
    by (auto simp: reassess_date_def Let_def split: if_splits)
next
  case False
  let ?a = "filing_date_for_receipt e db (fe_court f) received"
  let ?f = "f\<lparr>fe_filing_date := as_filing_date ?a, fe_filing_date_basis := Some (assessment_json ?a)\<rparr>"
  from assms False obtain t where f': "f' = ?f"
    and ok: "as_filing_date ?a \<noteq> None \<or> st_allow_demo (cfg e)"
    and rec: "record_transaction e ?f ''filing_date_assessed'' reviewer None None
      [(''previous_filing_date'', jopt JDate (fe_filing_date f)), (''filing_date_basis'', assessment_json ?a)] db
      = Inr (t, db')"
    unfolding reassess_date_def Let_def by (auto simp only: then_do_Inr_iff split: if_splits prod.splits)
  have "review_frame (fe_id f) db db'"
    by (rule review_frame_transaction [OF rec]) (simp add: submission_event_def)
  with f' ok record_transaction_frame(1,2) [OF rec] show ?thesis by (simp add: same_filing_def)
qed

text \<open>The two ways an acceptance can end.\<close>

definition accepted_into :: "envelope \<Rightarrow> envelope \<Rightarrow> db \<Rightarrow> db \<Rightarrow> bool" where
  "accepted_into f f' db db' \<longleftrightarrow> fe_status f' = Accepted \<and> fe_cms_error f' = None
     \<and> (\<exists>c. fe_case f' = Some (cs_id c) \<and> row_at cs_id (cs_id c) (cases db') = Some c
          \<and> cs_court c = fe_court f \<and> cs_case_type c = fe_case_type f
          \<and> cases db' = (if fe_case f = None then cases db @ [c] else cases db)
          \<and> (fe_case f = None \<longrightarrow> cs_id c \<notin> cs_id ` set (cases db)
               \<and> (\<exists>year code. cs_number c = case_number year (fe_id f) code)))"

definition held_by_cms :: "envelope \<Rightarrow> envelope \<Rightarrow> db \<Rightarrow> db \<Rightarrow> bool" where
  "held_by_cms f f' db db' \<longleftrightarrow> fe_status f' = UnderReview \<and> truthy (fe_cms_error f')
     \<and> fe_case f' = fe_case f \<and> cases db' = cases db"

lemma cms_failed_effect:
  assumes "cms_failed e reviewer r f db = Inr (f', db')" and "find_filing db (fe_id f) = Some f0"
  shows "same_filing f f' \<and> fe_status f' = fe_status f \<and> fe_case f' = fe_case f
    \<and> fe_reviewer f' = fe_reviewer f \<and> fe_filing_date_version f' = fe_filing_date_version f
    \<and> truthy (fe_cms_error f') \<and> review_frame (fe_id f) db db' \<and> cases db' = cases db
    \<and> (\<exists>u. find_filing db' (fe_id f) = Some (f'\<lparr>fe_updated_at := u\<rparr>))"
proof -
  define why where "why = or_text (cm_error r) ''No reason was given''"
  let ?f = "f\<lparr>fe_cms_error := Some why, fe_cms_filing_id := None, fe_cms_case_number := None\<rparr>"
  from assms(1) obtain t db1 where rec: "record_transaction e ?f ''cms_failed'' reviewer (Some why) None [] db = Inr (t, db1)"
    and res: "f' = ?f" "db' = save_filing e ?f db1"
    unfolding cms_failed_def Let_def why_def [symmetric] by (auto simp only: then_do_Inr_iff split: prod.splits)
  note fr = record_transaction_frame [OF rec]
  obtain u where "find_filing (save_filing e ?f db1) (fe_id ?f) = Some (?f\<lparr>fe_updated_at := u\<rparr>)"
    using find_save_same [of db1 ?f f0 e] assms(2) fr(15) by (metis envelope.select_convs(1) envelope.surjective envelope.update_convs(25,26,27))
  moreover have "review_frame (fe_id f) db db'"
    unfolding res by (rule review_frame_trans [OF review_frame_transaction [OF rec] review_frame_save])
      (simp_all add: submission_event_def)
  moreover have "truthy (fe_cms_error ?f)" by (cases "cm_error r") (auto simp: why_def or_text_def)
  ultimately show ?thesis using res fr(2) by (auto simp: same_filing_def)
qed

lemma new_case_number_form:
  "new_case_number db f received = Inr n \<Longrightarrow> \<exists>year code. n = case_number year (fe_id f) code"
  by (auto simp: new_case_number_def split: option.splits if_splits)

lemma accept_effect:
  assumes acc: "accept_filing e cms reviewer reason ordered existing f db = Inr (f', db')"
    and f0: "find_filing db (fe_id f) = Some f0" and fresh: "fresh_keys e"
    and none: "existing = None \<longleftrightarrow> fe_case f = None"
    and some: "\<And>c. existing = Some c \<Longrightarrow> fe_case f = Some (cs_id c)
      \<and> row_at cs_id (cs_id c) (cases db) = Some c \<and> cs_court c = fe_court f \<and> cs_case_type c = fe_case_type f"
  shows "same_filing f f' \<and> fe_reviewer f' = fe_reviewer f
    \<and> fe_filing_date_version f' = fe_filing_date_version f + 1
    \<and> review_frame (fe_id f) db db' \<and> (accepted_into f f' db db' \<or> held_by_cms f f' db db')
    \<and> (\<exists>u. find_filing db' (fe_id f) = Some (f'\<lparr>fe_updated_at := u\<rparr>))"
proof -
  from acc obtain received f1 db1 c where
    d: "(if ordered then Inr (f, db) else reassess_date e reviewer received f db) = Inr (f1, db1)"
    and c: "case_to_enter e db1 (under_review f1) received existing = Inr c"
    and fin: "enter_case e cms reviewer reason c (under_review f1) db1 = Inr (f', db')"
    unfolding accept_filing_def by (auto simp: then_do_Inr_iff split: option.splits)
  define f2 where "f2 = under_review f1"
  let ?r = "cms (cs_number c) (fe_id f2)"
  have d': "same_filing f f1 \<and> fe_case f1 = fe_case f \<and> fe_reviewer f1 = fe_reviewer f
      \<and> fe_filing_date_version f1 = fe_filing_date_version f
      \<and> review_frame (fe_id f) db db1 \<and> cases db1 = cases db \<and> filings db1 = filings db"
    using d reassess_date_effect [of e reviewer received f db f1 db1] by (cases ordered) auto
  have f2: "same_filing f f2" "fe_case f2 = fe_case f" "fe_reviewer f2 = fe_reviewer f" "fe_status f2 = UnderReview"
    "fe_filing_date_version f2 = fe_filing_date_version f + 1" "fe_id f2 = fe_id f"
    using d' by (simp_all add: f2_def under_review_def same_filing_def)
  have found: "find_filing db1 (fe_id f2) = Some f0" using f0 d' f2 by (simp add: find_filing_def)
  have court: "cs_court c = fe_court f \<and> cs_case_type c = fe_case_type f
      \<and> (fe_case f = None \<longrightarrow> cs_id c \<notin> cs_id ` set (cases db)
          \<and> (\<exists>year code. cs_number c = case_number year (fe_id f) code))
      \<and> (fe_case f \<noteq> None \<longrightarrow> existing = Some c)"
  proof (cases existing)
    case None
    with c obtain n where n: "new_case_number db1 f2 received = Inr n" "c = new_case e db1 f2 received n"
      by (auto simp: then_do_Inr_iff f2_def case_to_enter_def)
    have "cs_id c \<notin> cs_id ` set (cases db)"
      using fresh n(2) d' by (auto simp: fresh_keys_def new_case_def dest: spec [of _ "map cs_id (cases db)"])
    moreover have "\<exists>year code. cs_number c = case_number year (fe_id f) code"
      using new_case_number_form [OF n(1)] f2 n(2) by (simp add: new_case_def)
    ultimately show ?thesis using None none n(2) f2 by (simp add: new_case_def same_filing_def)
  next
    case (Some c')
    with c some [OF Some] show ?thesis by (auto simp: case_to_enter_def)
  qed
  show ?thesis
  proof (cases "cm_success ?r")
    case False
    with fin have "cms_failed e reviewer ?r f2 db1 = Inr (f', db')"
      by (simp add: f2_def enter_case_def Let_def)
    from cms_failed_effect [OF this found] f2 d' show ?thesis
      by (auto simp: held_by_cms_def intro: same_filing_trans review_frame_trans)
  next
    case True
    define f3 where "f3 = entered ?r c f2"
    from fin True obtain db2 where ins: "(if fe_case f = None then insert_case c db1 else Inr db1) = Inr db2"
      and fr: "finish_review e reviewer reason f3 db2 = Inr (f', db')"
      unfolding f3_def f2_def [symmetric] enter_case_def Let_def f2(2) by (auto simp: then_do_Inr_iff)
    have f3: "same_filing f f3" "fe_status f3 = Accepted" "fe_id f3 = fe_id f" "fe_cms_error f3 = None"
      "fe_case f3 = (if fe_case f = None then Some (cs_id c) else fe_case f)" "fe_reviewer f3 = fe_reviewer f"
      "fe_filing_date_version f3 = fe_filing_date_version f + 1"
      using f2 by (simp_all add: f3_def entered_def same_filing_def)
    have db2: "review_frame (fe_id f) db db2" "find_filing db2 (fe_id f3) = Some f0"
      "cases db2 = (if fe_case f = None then cases db @ [c] else cases db)"
      using ins d' found f2 f3 review_frame_case [of c db1 db2 "fe_id f"]
      by (auto simp: insert_case_def find_filing_def split: if_splits intro: review_frame_trans)
    from finish_review_effect [OF fr _ db2(2)] f3 db2
    have fin': "f' = f3" "review_frame (fe_id f) db db'" "cases db' = cases db2"
      "\<exists>u. find_filing db' (fe_id f) = Some (f3\<lparr>fe_updated_at := u\<rparr>)"
      by (auto intro: review_frame_trans)
    have "row_at cs_id (cs_id c) (cases db') = Some c"
    proof (cases "fe_case f = None")
      case True
      with court have "cs_id c \<notin> cs_id ` set (cases db)" by simp
      with True fin'(3) db2(3) row_at_None_iff [of cs_id "cs_id c" "cases db"] show ?thesis
        by (simp add: row_at_append)
    next
      case False
      with court have "existing = Some c" by simp
      from some [OF this] False fin'(3) db2(3) show ?thesis by simp
    qed
    moreover have "fe_case f3 = Some (cs_id c)"
      using f3(5) court some by (cases "fe_case f") auto
    ultimately have "accepted_into f f3 db db'"
      using fin'(3) db2(3) f3 court by (auto simp: accepted_into_def)
    with fin' f3 show ?thesis by simp
  qed
qed

section \<open>A recorded review\<close>

lemma check_acceptance_Inr:
  assumes "check_acceptance db f ev = Inr c"
  shows "fe_filing_date_version f = ev_date_version ev
    \<and> ev_fingerprints ev = Some (current_fingerprints db f (ev_ordered ev))
    \<and> (c = None \<longleftrightarrow> fe_case f = None) \<and> fe_type f \<noteq> ''service_only''
    \<and> (\<forall>r. c = Some r \<longrightarrow> fe_case f = Some (cs_id r) \<and> row_at cs_id (cs_id r) (cases db) = Some r
        \<and> cs_court r = fe_court f \<and> cs_case_type r = fe_case_type f)"
proof -
  from assms have dest: "validate_filing_destination db (destination_of f) None = Inr c"
    and ev: "fe_filing_date_version f = ev_date_version ev"
      "ev_fingerprints ev = Some (current_fingerprints db f (ev_ordered ev))"
    by (auto simp: check_acceptance_def then_do_Inr_iff split: if_splits)
  moreover have "fe_type f \<noteq> ''service_only''"
    using dest by (auto simp: validate_filing_destination_def destination_of_def split: if_splits)
  ultimately show ?thesis
    using destination_Inr [OF dest]
    by (auto simp: destination_of_def split: option.splits dest: row_at_SomeD)
qed

lemma record_review_found:
  assumes "record_review e cms db fid reviewer action reason cnt ev = Inr (Some (f', db'))"
  obtains f where "find_filing db fid = Some f" and "fe_id f = fid" and "fe_submission_count f = cnt"
    and "awaiting_review f"
  using assms by (auto simp: record_review_def split: option.splits if_splits
      intro: that dest: find_filing_id)

lemma record_review_accept:
  assumes "record_review e cms db fid reviewer AcceptFiling reason cnt ev = Inr (Some (f', db'))"
    and "find_filing db fid = Some f"
  obtains c where "check_acceptance db f ev = Inr c"
    and "accept_filing e cms reviewer reason (ev_ordered ev) c
      (f\<lparr>fe_reviewer := Some reviewer, fe_reviewed_at := Some (now e)\<rparr>) db = Inr (f', db')"
  using assms by (auto simp: record_review_def then_do_Inr_iff Let_def split: if_splits intro: that)

lemma record_review_decline:
  assumes "record_review e cms db fid reviewer action reason cnt ev = Inr (Some (f', db'))"
    and "find_filing db fid = Some f" and "action \<noteq> AcceptFiling"
  shows "finish_review e reviewer reason
    (f\<lparr>fe_reviewer := Some reviewer, fe_reviewed_at := Some (now e),
       fe_filing_date_version := fe_filing_date_version f + 1,
       fe_status := (if action = RejectFiling then Rejected else Returned),
       fe_rejection_reason := reason\<rparr>) db = Inr (f', db')"
  using assms by (cases action) (auto simp: record_review_def then_do_Inr_iff Let_def split: if_splits)

definition decided :: "review_action \<Rightarrow> envelope \<Rightarrow> envelope \<Rightarrow> db \<Rightarrow> db \<Rightarrow> bool" where
  "decided action f f' db db' \<longleftrightarrow>
     (case action of
        AcceptFiling \<Rightarrow> accepted_into f f' db db' \<or> held_by_cms f f' db db'
      | RejectFiling \<Rightarrow> fe_status f' = Rejected \<and> fe_case f' = fe_case f \<and> cases db' = cases db
      | ReturnFiling \<Rightarrow> fe_status f' = Returned \<and> fe_case f' = fe_case f \<and> cases db' = cases db)"

lemma record_review_effect:
  assumes rr: "record_review e cms db fid reviewer action reason cnt ev = Inr (Some (f', db'))"
    and fresh: "fresh_keys e" and f: "find_filing db fid = Some f"
  shows "same_filing f f' \<and> fe_reviewer f' = Some reviewer
    \<and> fe_filing_date_version f' = fe_filing_date_version f + 1
    \<and> review_frame fid db db' \<and> decided action f f' db db'
    \<and> (\<exists>u. find_filing db' fid = Some (f'\<lparr>fe_updated_at := u\<rparr>))"
proof (cases "action = AcceptFiling")
  case True
  let ?f1 = "f\<lparr>fe_reviewer := Some reviewer, fe_reviewed_at := Some (now e)\<rparr>"
  from rr [unfolded True] f obtain c where c: "check_acceptance db f ev = Inr c"
    and acc: "accept_filing e cms reviewer reason (ev_ordered ev) c ?f1 db = Inr (f', db')"
    by (rule record_review_accept)
  have id: "fe_id f = fid" using f by (rule find_filing_id)
  note ca = check_acceptance_Inr [OF c]
  have "same_filing ?f1 f' \<and> fe_reviewer f' = fe_reviewer ?f1
    \<and> fe_filing_date_version f' = fe_filing_date_version ?f1 + 1
    \<and> review_frame (fe_id ?f1) db db' \<and> (accepted_into ?f1 f' db db' \<or> held_by_cms ?f1 f' db db')
    \<and> (\<exists>u. find_filing db' (fe_id ?f1) = Some (f'\<lparr>fe_updated_at := u\<rparr>))"
    by (rule accept_effect [OF acc _ fresh]) (use f id ca in auto)
  then show ?thesis using id True
    by (simp add: decided_def same_filing_def accepted_into_def held_by_cms_def)
next
  case False
  let ?f1 = "f\<lparr>fe_reviewer := Some reviewer, fe_reviewed_at := Some (now e),
       fe_filing_date_version := fe_filing_date_version f + 1,
       fe_status := (if action = RejectFiling then Rejected else Returned),
       fe_rejection_reason := reason\<rparr>"
  have id: "fe_id f = fid" using f by (rule find_filing_id)
  have "fe_status ?f1 \<noteq> Submitted" and "find_filing db (fe_id ?f1) = Some f"
    using f id by simp_all
  from finish_review_effect [OF record_review_decline [OF rr f False] this] id
  have "f' = ?f1 \<and> review_frame fid db db' \<and> cases db' = cases db
    \<and> (\<exists>u. find_filing db' fid = Some (?f1\<lparr>fe_updated_at := u\<rparr>))" by simp
  then show ?thesis using False
    by (cases action) (auto simp: same_filing_def decided_def)
qed

section \<open>Batches\<close>

lemma batch_record_effect:
  assumes "batch_record e cms uid (i, ev) db = (outcome, db')" and "fresh_keys e"
  shows "review_frame (bi_filing i) db db'
    \<and> (outcome = Inr () \<longrightarrow> (\<exists>f. find_filing db' (bi_filing i) = Some f \<and> fe_status f = Accepted))"
proof (cases "record_review e cms db (bi_filing i) uid AcceptFiling None (bi_count i) ev")
  case (Inl x)
  with assms(1) show ?thesis by (auto simp: batch_record_def)
next
  case (Inr r)
  show ?thesis
  proof (cases r)
    case None
    with Inr assms(1) show ?thesis by (auto simp: batch_record_def)
  next
    case (Some p)
    obtain f' db1 where p: "p = (f', db1)" by (cases p)
    with Inr Some have rr: "record_review e cms db (bi_filing i) uid AcceptFiling None (bi_count i) ev
      = Inr (Some (f', db1))" by simp
    obtain f where f: "find_filing db (bi_filing i) = Some f" using record_review_found [OF rr] by blast
    have db': "db' = db1" "outcome = Inr () \<longrightarrow> fe_status f' = Accepted"
      using assms(1) rr by (auto simp: batch_record_def split: if_splits)
    from record_review_effect [OF rr assms(2) f] db' show ?thesis by auto
  qed
qed

lemma batch_records_effect:
  assumes "batch_records e cms uid ies db = (ok, bad, db')" and "fresh_keys e"
    and "distinct (map (bi_filing \<circ> fst) ies)"
  shows "mset (ok @ map fst bad) = mset (map (bi_filing \<circ> fst) ies)
    \<and> (\<forall>fid. fid \<notin> set (map (bi_filing \<circ> fst) ies) \<longrightarrow> find_filing db' fid = find_filing db fid)
    \<and> (\<forall>fid \<in> set ok. \<exists>f. find_filing db' fid = Some f \<and> fe_status f = Accepted)
    \<and> documents db' = documents db \<and> payments db' = payments db
    \<and> prefix (transactions db) (transactions db') \<and> prefix (cases db) (cases db')"
  using assms(1,3)
proof (induction ies arbitrary: db ok bad db')
  case Nil
  then show ?case by simp
next
  case (Cons ie ies)
  obtain i ev where ie: "ie = (i, ev)" by (cases ie)
  obtain outcome db1 where r: "batch_record e cms uid (i, ev) db = (outcome, db1)" by fastforce
  obtain ok1 bad1 db2 where rs: "batch_records e cms uid ies db1 = (ok1, bad1, db2)"
    by (metis prod_cases3)
  have d: "bi_filing i \<notin> set (map (bi_filing \<circ> fst) ies)" "distinct (map (bi_filing \<circ> fst) ies)"
    using Cons.prems(2) ie by (simp_all add: o_def)
  note ih = Cons.IH [OF rs d(2)]
  note eff = batch_record_effect [OF r assms(2)]
  from Cons.prems(1) r rs ie have res: "db' = db2"
    "(ok, bad) = (case outcome of Inr _ \<Rightarrow> (bi_filing i # ok1, bad1) | Inl x \<Rightarrow> (ok1, (bi_filing i, x) # bad1))"
    by (auto split: sum.splits)
  have subset: "set ok1 \<subseteq> set (map (bi_filing \<circ> fst) ies)"
    using ih by (metis Un_iff set_append set_mset_mset subsetI)
  have own: "find_filing db2 (bi_filing i) = find_filing db1 (bi_filing i)" using ih d by simp
  have frame: "documents db2 = documents db \<and> payments db2 = payments db
    \<and> prefix (transactions db) (transactions db2) \<and> prefix (cases db) (cases db2)"
    using ih eff by (auto simp: review_frame_def)
  have others: "\<forall>fid. fid \<notin> set (map (bi_filing \<circ> fst) (ie # ies)) \<longrightarrow> find_filing db2 fid = find_filing db fid"
    using ih eff ie by (auto simp: review_frame_def)
  show ?case
  proof (cases outcome)
    case (Inl x)
    with res ih frame others ie show ?thesis by auto
  next
    case (Inr u)
    with res ih frame others ie eff own show ?thesis by auto
  qed
qed

section \<open>What a review writes\<close>

text \<open>
  Beside the filing itself a review only appends: cases, ledger rows of the filing, and notices to its
  filer with their delivery events. Every other table is the one it was.
\<close>

definition review_scope :: "int \<Rightarrow> int \<Rightarrow> db \<Rightarrow> db \<Rightarrow> bool" where
  "review_scope filer fid db db' \<longleftrightarrow> (\<exists>fs cs ts ns es.
     db' = db\<lparr>filings := fs, cases := cases db @ cs, transactions := transactions db @ ts,
       notifications := notifications db @ ns, delivery_events := delivery_events db @ es\<rparr>
     \<and> (\<forall>t \<in> set ts. tx_filing t = fid)
     \<and> (\<forall>n \<in> set ns. nt_recipient n = filer \<and> nt_filing n = Some fid))"

lemma review_scopeI:
  assumes "db' = db\<lparr>filings := fs, cases := cases db @ cs, transactions := transactions db @ ts,
       notifications := notifications db @ ns, delivery_events := delivery_events db @ es\<rparr>"
    and "\<And>t. t \<in> set ts \<Longrightarrow> tx_filing t = fid"
    and "\<And>n. n \<in> set ns \<Longrightarrow> nt_recipient n = filer \<and> nt_filing n = Some fid"
  shows "review_scope filer fid db db'"
  unfolding review_scope_def using assms by blast

lemma review_scope_refl [simp]: "review_scope filer fid db db"
  by (rule review_scopeI [where fs = "filings db" and cs = "[]" and ts = "[]" and ns = "[]" and es = "[]"]) simp_all

lemma review_scope_trans:
  assumes "review_scope filer fid a b" and "review_scope filer fid b c"
  shows "review_scope filer fid a c"
proof -
  from assms(1) obtain fs cs ts ns es where b: "b = a\<lparr>filings := fs, cases := cases a @ cs,
      transactions := transactions a @ ts, notifications := notifications a @ ns,
      delivery_events := delivery_events a @ es\<rparr>"
    and old: "\<forall>t \<in> set ts. tx_filing t = fid" "\<forall>n \<in> set ns. nt_recipient n = filer \<and> nt_filing n = Some fid"
    unfolding review_scope_def by blast
  from assms(2) obtain fs' cs' ts' ns' es' where c: "c = b\<lparr>filings := fs', cases := cases b @ cs',
      transactions := transactions b @ ts', notifications := notifications b @ ns',
      delivery_events := delivery_events b @ es'\<rparr>"
    and new: "\<forall>t \<in> set ts'. tx_filing t = fid" "\<forall>n \<in> set ns'. nt_recipient n = filer \<and> nt_filing n = Some fid"
    unfolding review_scope_def by blast
  show ?thesis
    by (rule review_scopeI [where fs = fs' and cs = "cs @ cs'" and ts = "ts @ ts'" and ns = "ns @ ns'"
          and es = "es @ es'"]) (use b c old new in auto)
qed

lemma review_scope_filings [simp]: "review_scope filer fid db (filings_update g db)"
  by (rule review_scopeI [where fs = "g (filings db)" and cs = "[]" and ts = "[]" and ns = "[]" and es = "[]"]) simp_all

lemma review_scope_save [simp]: "review_scope filer fid db (save_filing e f db)"
  by (simp add: save_filing_def)

lemma review_scope_case: "insert_case c db = Inr db' \<Longrightarrow> review_scope filer fid db db'"
  by (rule review_scopeI [where fs = "filings db" and cs = "[c]" and ts = "[]" and ns = "[]" and es = "[]"])
    (auto simp: insert_case_def split: if_splits)

lemma queue_email_for:
  "queue_email e db n actor reason = Inr (n', evs) \<Longrightarrow>
     nt_id n' = nt_id n \<and> nt_recipient n' = nt_recipient n \<and> nt_filing n' = nt_filing n"
  by (auto simp: queue_email_def then_do_Inr_iff Let_def split: if_splits prod.splits)

lemma upd_row_appended:
  "key n \<notin> key ` set xs \<Longrightarrow> upd_row key (key n) g (xs @ [n]) = xs @ [g n]"
  unfolding upd_row_def by (auto intro!: map_idI simp: image_iff)

lemma notice_appended:
  assumes "notify_filing_status_change e filer fid status court title why db = Inr db'" and "fresh_keys e"
  obtains n es where "db' = db\<lparr>notifications := notifications db @ [n], delivery_events := delivery_events db @ es\<rparr>"
    and "nt_id n = new_key e (map nt_id (notifications db))" and "nt_recipient n = filer" and "nt_filing n = Some fid"
proof -
  from assms(1) obtain ty sj bd ne where
    q0: "queue_email e (notifications_update (\<lambda>ns. ns @ [new_notification e db ty filer (Some fid) sj bd]) db)
      (new_notification e db ty filer (Some fid) sj bd) None None = Inr ne"
    and db0: "db' = store_notice ne
      (notifications_update (\<lambda>ns. ns @ [new_notification e db ty filer (Some fid) sj bd]) db)"
    unfolding notify_filing_status_change_def Let_def then_do_Inr_iff by blast
  define n0 where "n0 = new_notification e db ty filer (Some fid) sj bd"
  note q = q0 [folded n0_def] and db' = db0 [folded n0_def]
  have n0: "nt_id n0 = new_key e (map nt_id (notifications db))" "nt_recipient n0 = filer" "nt_filing n0 = Some fid"
    by (simp_all add: n0_def new_notification_def)
  from q have keep: "nt_id (fst ne) = nt_id n0" "nt_recipient (fst ne) = filer" "nt_filing (fst ne) = Some fid"
    using queue_email_for [of e _ n0 _ _ "fst ne" "snd ne"] n0 by simp_all
  have "nt_id n0 \<notin> nt_id ` set (notifications db)"
    using assms(2) n0(1) by (auto simp: fresh_keys_def dest: spec [of _ "map nt_id (notifications db)"])
  from upd_row_appended [OF this] keep db'
  have "db' = db\<lparr>notifications := notifications db @ [fst ne], delivery_events := delivery_events db @ snd ne\<rparr>"
    by (simp add: store_notice_def)
  with that keep n0(1) show ?thesis by auto
qed

lemma record_transaction_scope:
  assumes "record_transaction e f ev actor reason key kvs db = Inr (t, db')" and "\<not> submission_event ev"
    and "fresh_keys e"
  shows "review_scope (fe_filer f) (fe_id f) db db'"
proof -
  from assms(1,2) obtain db2 where ins: "insert_transaction t db = Inr db2" and t: "tx_filing t = fe_id f"
    and notice: "(if ev = ''cms_failed'' then Inr db2 else notify_transaction e f t reason db2) = Inr db'"
    by (auto simp: record_transaction_def then_do_Inr_iff Let_def new_transaction_def)
  have "db2 = db\<lparr>transactions := transactions db @ [t]\<rparr>"
    using ins by (auto simp: insert_transaction_def split: if_splits)
  then have one: "review_scope (fe_filer f) (fe_id f) db db2"
    by (intro review_scopeI [where fs = "filings db" and cs = "[]" and ts = "[t]" and ns = "[]" and es = "[]"])
      (simp_all add: t)
  show ?thesis
  proof (cases "ev = ''cms_failed''")
    case True
    with notice one show ?thesis by simp
  next
    case False
    let ?add = "\<lambda>n. n\<lparr>nt_body := nt_body n @ ([CHR 0x0A] @ ''Transaction: '' @ tx_id t @ [CHR 0x0A]
        @ ''Recorded (UTC): '' @ iso_time e (tx_occurred_at t))\<rparr>"
    from notice False obtain db3 where
      n3: "notify_filing_status_change e (fe_filer f) (fe_id f) (tx_event t) (court_name db2 f)
        (fe_title f) (notice_reason (tx_event t) reason) db2 = Inr db3"
      and db': "db' = notifications_update (upd_row nt_id (new_key e (map nt_id (notifications db2))) ?add) db3"
      unfolding notify_transaction_def Let_def by (auto simp only: then_do_Inr_iff if_False)
    obtain n es where db3: "db3 = db2\<lparr>notifications := notifications db2 @ [n], delivery_events := delivery_events db2 @ es\<rparr>"
      and n: "nt_id n = new_key e (map nt_id (notifications db2))" "nt_recipient n = fe_filer f" "nt_filing n = Some (fe_id f)"
      by (rule notice_appended [OF n3 assms(3)])
    have "nt_id n \<notin> nt_id ` set (notifications db2)"
      using assms(3) n(1) by (auto simp: fresh_keys_def dest: spec [of _ "map nt_id (notifications db2)"])
    from upd_row_appended [OF this, of ?add] n(1) db' db3
    have "db' = db2\<lparr>notifications := notifications db2 @ [?add n], delivery_events := delivery_events db2 @ es\<rparr>"
      by simp
    then have "review_scope (fe_filer f) (fe_id f) db2 db'"
      by (intro review_scopeI [where fs = "filings db2" and cs = "[]" and ts = "[]" and ns = "[?add n]" and es = es])
        (simp_all add: n)
    with one show ?thesis by (rule review_scope_trans)
  qed
qed

lemma finish_review_scope:
  assumes "finish_review e reviewer reason f db = Inr (f', db')" and "fe_status f \<noteq> Submitted" and "fresh_keys e"
  shows "review_scope (fe_filer f) (fe_id f) db db'"
proof -
  from assms(1) obtain t db1 where
    rec: "record_transaction e f (status_value (fe_status f)) reviewer reason None [] db = Inr (t, db1)"
    and db': "db' = save_filing e f db1"
    by (auto simp: finish_review_def then_do_Inr_iff)
  have "\<not> submission_event (status_value (fe_status f))" using decision_event [of "fe_status f"] assms(2) by blast
  from review_scope_trans [OF record_transaction_scope [OF rec this assms(3)] review_scope_save] show ?thesis
    by (simp add: db')
qed

lemma reassess_date_scope:
  assumes "reassess_date e reviewer received f db = Inr (f', db')" and "fresh_keys e"
  shows "review_scope (fe_filer f) (fe_id f) db db'"
proof (cases "f' = f \<and> db' = db")
  case False
  let ?a = "filing_date_for_receipt e db (fe_court f) received"
  let ?f = "f\<lparr>fe_filing_date := as_filing_date ?a, fe_filing_date_basis := Some (assessment_json ?a)\<rparr>"
  from assms(1) False obtain t where "record_transaction e ?f ''filing_date_assessed'' reviewer None None
      [(''previous_filing_date'', jopt JDate (fe_filing_date f)), (''filing_date_basis'', assessment_json ?a)] db
      = Inr (t, db')"
    unfolding reassess_date_def Let_def by (auto simp only: then_do_Inr_iff split: if_splits prod.splits)
  from record_transaction_scope [OF this _ assms(2)] show ?thesis by (simp add: submission_event_def)
qed simp

lemma enter_case_scope:
  assumes "enter_case e cms reviewer reason c f db = Inr (f', db')" and "fresh_keys e"
  shows "review_scope (fe_filer f) (fe_id f) db db'"
proof (cases "cm_success (cms (cs_number c) (fe_id f))")
  case True
  define f2 where "f2 = entered (cms (cs_number c) (fe_id f)) c f"
  have f2: "fe_status f2 = Accepted" "fe_filer f2 = fe_filer f" "fe_id f2 = fe_id f"
    by (simp_all add: f2_def entered_def)
  from assms(1) True obtain db2 where ins: "(if fe_case f = None then insert_case c db else Inr db) = Inr db2"
    and fin: "finish_review e reviewer reason f2 db2 = Inr (f', db')"
    unfolding enter_case_def Let_def f2_def [symmetric] by (auto simp: then_do_Inr_iff)
  from ins have "review_scope (fe_filer f) (fe_id f) db db2"
    using review_scope_case by (auto split: if_splits)
  from review_scope_trans [OF this] finish_review_scope [OF fin _ assms(2)] f2 show ?thesis by simp
next
  case False
  let ?r = "cms (cs_number c) (fe_id f)"
  define why where "why = or_text (cm_error ?r) ''No reason was given''"
  let ?f = "f\<lparr>fe_cms_error := Some why, fe_cms_filing_id := None, fe_cms_case_number := None\<rparr>"
  from False assms(1) have "cms_failed e reviewer ?r f db = Inr (f', db')" by (simp add: enter_case_def Let_def)
  then obtain t db1 where rec: "record_transaction e ?f ''cms_failed'' reviewer (Some why) None [] db = Inr (t, db1)"
    and db': "db' = save_filing e ?f db1"
    unfolding cms_failed_def Let_def why_def [symmetric] by (auto simp only: then_do_Inr_iff split: prod.splits)
  from record_transaction_scope [OF rec _ assms(2)] have "review_scope (fe_filer f) (fe_id f) db db1"
    by (simp add: submission_event_def)
  from review_scope_trans [OF this review_scope_save] show ?thesis by (simp add: db')
qed

lemma accept_scope:
  assumes "accept_filing e cms reviewer reason ordered existing f db = Inr (f', db')" and "fresh_keys e"
  shows "review_scope (fe_filer f) (fe_id f) db db'"
proof -
  from assms(1) obtain received f1 db1 c where
    d: "(if ordered then Inr (f, db) else reassess_date e reviewer received f db) = Inr (f1, db1)"
    and fin: "enter_case e cms reviewer reason c (under_review f1) db1 = Inr (f', db')"
    unfolding accept_filing_def by (auto simp: then_do_Inr_iff split: option.splits)
  have same: "same_filing f f1"
    using d reassess_date_effect [of e reviewer received f db f1 db1] by (cases ordered) simp_all
  have one: "review_scope (fe_filer f) (fe_id f) db db1"
    using d reassess_date_scope [OF _ assms(2), of reviewer received f db f1 db1] by (cases ordered) simp_all
  from same have "fe_filer (under_review f1) = fe_filer f" "fe_id (under_review f1) = fe_id f"
    by (simp_all add: same_filing_def under_review_def)
  with review_scope_trans [OF one] enter_case_scope [OF fin assms(2)] show ?thesis by simp
qed

lemma record_review_scope:
  assumes "record_review e cms db fid reviewer action reason cnt ev = Inr (Some (f', db'))" and "fresh_keys e"
    and "find_filing db fid = Some f"
  shows "review_scope (fe_filer f) fid db db'"
proof (cases "action = AcceptFiling")
  case True
  from assms(1) [unfolded True] assms(3) obtain c where
    "accept_filing e cms reviewer reason (ev_ordered ev) c
      (f\<lparr>fe_reviewer := Some reviewer, fe_reviewed_at := Some (now e)\<rparr>) db = Inr (f', db')"
    by (rule record_review_accept)
  from accept_scope [OF this assms(2)] find_filing_id [OF assms(3)] show ?thesis by simp
next
  case False
  from finish_review_scope [OF record_review_decline [OF assms(1,3) False] _ assms(2)]
    find_filing_id [OF assms(3)] show ?thesis by simp
qed

section \<open>An example\<close>

definition clerk_user :: user where
  "clerk_user = example_participant_user\<lparr>us_id := 2, us_type := ClerkUser\<rparr>"

definition review_db :: db where
  "review_db = (snd submitted_state)\<lparr>users := [example_participant_user, clerk_user],
     court_roles := [\<lparr>ur_id = 1, ur_user = 2, ur_court = 3, ur_role = ClerkRole\<rparr>]\<rparr>"

definition demo_cms :: cms where
  "demo_cms = submit_filing_to_cms example_env"

definition accepted_reply :: "review_reply \<times> db" where
  "accepted_reply =
     (case review_handler example_env demo_cms review_db review_db 1 AcceptFiling None 1 2 of
        Inr r \<Rightarrow> r | Inl _ \<Rightarrow> (CmsRefused None, review_db))"

lemma review_example:
  "review_handler example_env demo_cms review_db review_db 1 AcceptFiling None 1 2
     = Inr (fst accepted_reply, snd accepted_reply)"
proof -
  have "case review_handler example_env demo_cms review_db review_db 1 AcceptFiling None 1 2 of
      Inr r \<Rightarrow> True | _ \<Rightarrow> False"
    by code_simp
  then show ?thesis by (auto simp: accepted_reply_def split: sum.splits)
qed

lemma review_example_cases:
  "map_option fe_status (find_filing (snd accepted_reply) 1) = Some Accepted
   \<and> map cs_number (cases (snd accepted_reply)) = [''2026-000001-CZ'']"
  by code_simp

section \<open>Properties\<close>

text \<open>The database a handler answers with: what the service left, with an audit entry or without.\<close>

definition audited :: "db \<Rightarrow> db \<Rightarrow> bool" where
  "audited db db' \<longleftrightarrow> (\<exists>as. db' = audit_update (\<lambda>x. x @ as) db)"

lemma audited_refl [simp]: "audited db db"
  unfolding audited_def by (rule exI [of _ "[]"]) simp

lemma audited_log [simp]: "audited db (log_filing e u a fid d db)"
  unfolding audited_def log_filing_def log_action_def by blast

lemma audited_frame:
  assumes "audited db db'"
  shows "find_filing db' = find_filing db" "documents db' = documents db" "payments db' = payments db"
    "users db' = users db" "transactions db' = transactions db" "cases db' = cases db"
  using assms by (auto simp: audited_def find_filing_def fun_eq_iff)

lemma review_handler_Inr:
  assumes "review_handler e cms db0 db fid action reason cnt uid = Inr (reply, db')"
  obtains f0 f' db1 why where "find_filing db0 fid = Some f0" and "is_court_staff db0 (Some uid) (fe_court f0)"
    and "fe_filer f0 \<noteq> uid" and "review_filing e cms db0 db fid uid action why cnt = Inr (Some (f', db1))"
    and "action = AcceptFiling \<or> truthy why"
    and "audited db1 db'" and "why = (if truthy reason then Some (str_strip (the reason)) else None)"
    and "db' = (if action = AcceptFiling \<and> fe_status f' \<noteq> Accepted then db1
      else log_filing e uid (''review_filing_'' @ action_value action) fid
        (Some (JObj [(''action'', JStr (action_value action)), (''reason'', jopt JStr reason)])) db1)"
  using assms
  by (cases action)
    (auto simp: review_handler_def Let_def then_do_Inr_iff require_independent_reviewer_def
      require_clerk_role_def map_failure_def split: option.splits sum.splits if_splits intro: that)

lemma review_filing_Inr:
  assumes "review_filing e cms db0 db fid reviewer action reason cnt = Inr (Some r)"
  obtains ev where "verify_review e db0 fid action cnt = Inr (Some ev)"
    and "record_review e cms db fid reviewer action reason cnt ev = Inr (Some r)"
  using assms by (auto simp: review_filing_def then_do_Inr_iff split: option.splits intro: that)

lemma log_filing_frame [simp]:
  "find_filing (log_filing e u a fid d db) = find_filing db"
  "documents (log_filing e u a fid d db) = documents db"
  "payments (log_filing e u a fid d db) = payments db"
  "transactions (log_filing e u a fid d db) = transactions db"
  "cases (log_filing e u a fid d db) = cases db"
  "filings (log_filing e u a fid d db) = filings db"
  "users (log_filing e u a fid d db) = users db"
  by (simp_all add: log_filing_def)

text \<open>C3: a review that succeeds was made by staff of the filing's court who did not file it, of a
  filing awaiting review at exactly the submission the reviewer saw. A rejection or return leaves the
  filing as it was but for that status, the reviewer and time, the next filing date version and exactly
  the stripped reason of the request; an acceptance leaves it accepted, or under review with the error
  of the case management system, with its parties, type, receipt and fee columns as they were.
  Everything else that the handler writes is appended: at most one case and only by an acceptance,
  ledger rows of this filing, notices to its filer with their events, and one audit entry of the
  reviewer; no other filing and no other table changes.\<close>
theorem review_decision:
  assumes "fresh_keys e" and "review_handler e cms db0 db fid action reason cnt uid = Inr (reply, db')"
  shows "\<exists>f0 f g cs ts ns es as. find_filing db0 fid = Some f0 \<and> fe_filer f0 \<noteq> uid
    \<and> is_court_staff db0 (Some uid) (fe_court f0)
    \<and> find_filing db fid = Some f \<and> awaiting_review f \<and> fe_submission_count f = cnt
    \<and> find_filing db' fid = Some g \<and> fe_reviewer g = Some uid
    \<and> (case action of
         AcceptFiling \<Rightarrow> same_filing f g
           \<and> (fe_status g = Accepted \<or> fe_status g = UnderReview \<and> truthy (fe_cms_error g))
       | _ \<Rightarrow> truthy (Some (str_strip (the reason))) \<and> cs = []
           \<and> g = f\<lparr>fe_reviewer := Some uid, fe_reviewed_at := Some (now e),
               fe_filing_date_version := fe_filing_date_version f + 1,
               fe_status := (if action = RejectFiling then Rejected else Returned),
               fe_rejection_reason := Some (str_strip (the reason)), fe_updated_at := fe_updated_at g\<rparr>)
    \<and> (\<forall>x. x \<noteq> fid \<longrightarrow> find_filing db' x = find_filing db x)
    \<and> db' = db\<lparr>filings := filings db', cases := cases db @ cs, transactions := transactions db @ ts,
        notifications := notifications db @ ns, delivery_events := delivery_events db @ es,
        audit := audit db @ as\<rparr>
    \<and> length cs \<le> 1 \<and> (\<forall>t \<in> set ts. tx_filing t = fid)
    \<and> (\<forall>n \<in> set ns. nt_recipient n = fe_filer f \<and> nt_filing n = Some fid)
    \<and> map au_action as = (if action = AcceptFiling \<and> fe_status g \<noteq> Accepted then []
        else [''review_filing_'' @ action_value action])
    \<and> (\<forall>a \<in> set as. au_user a = Some uid \<and> au_entity_id a = Some fid)"
  using assms(2)
proof (rule review_handler_Inr)
  fix f0 f' db1 why
  assume f0: "find_filing db0 fid = Some f0" "is_court_staff db0 (Some uid) (fe_court f0)" "fe_filer f0 \<noteq> uid"
    and rf: "review_filing e cms db0 db fid uid action why cnt = Inr (Some (f', db1))"
    and given: "action = AcceptFiling \<or> truthy why" "why = (if truthy reason then Some (str_strip (the reason)) else None)"
    and db': "db' = (if action = AcceptFiling \<and> fe_status f' \<noteq> Accepted then db1
      else log_filing e uid (''review_filing_'' @ action_value action) fid
        (Some (JObj [(''action'', JStr (action_value action)), (''reason'', jopt JStr reason)])) db1)"
  obtain ev where rr: "record_review e cms db fid uid action why cnt ev = Inr (Some (f', db1))"
    using rf by (rule review_filing_Inr)
  obtain f where f: "find_filing db fid = Some f" "fe_submission_count f = cnt" "awaiting_review f"
    using record_review_found [OF rr] by metis
  note eff = record_review_effect [OF rr assms(1) f(1)]
  obtain u where g: "find_filing db1 fid = Some (f'\<lparr>fe_updated_at := u\<rparr>)" using eff by blast
  let ?g = "f'\<lparr>fe_updated_at := u\<rparr>"
  obtain fs cs ts ns es where db1: "db1 = db\<lparr>filings := fs, cases := cases db @ cs,
      transactions := transactions db @ ts, notifications := notifications db @ ns,
      delivery_events := delivery_events db @ es\<rparr>"
    and rows: "\<forall>t \<in> set ts. tx_filing t = fid" "\<forall>n \<in> set ns. nt_recipient n = fe_filer f \<and> nt_filing n = Some fid"
    using record_review_scope [OF rr assms(1) f(1)] unfolding review_scope_def by blast
  have entries: "length cs \<le> 1 \<and> (action \<noteq> AcceptFiling \<longrightarrow> cs = [])"
    using eff db1 by (cases action) (auto simp: decided_def accepted_into_def held_by_cms_def split: if_splits)
  have outcome: "case action of
      AcceptFiling \<Rightarrow> same_filing f ?g \<and> (fe_status ?g = Accepted \<or> fe_status ?g = UnderReview \<and> truthy (fe_cms_error ?g))
    | _ \<Rightarrow> truthy (Some (str_strip (the reason))) \<and> cs = []
        \<and> ?g = f\<lparr>fe_reviewer := Some uid, fe_reviewed_at := Some (now e),
            fe_filing_date_version := fe_filing_date_version f + 1,
            fe_status := (if action = RejectFiling then Rejected else Returned),
            fe_rejection_reason := Some (str_strip (the reason)), fe_updated_at := fe_updated_at ?g\<rparr>"
  proof (cases "action = AcceptFiling")
    case True
    with eff show ?thesis by (auto simp: decided_def accepted_into_def held_by_cms_def same_filing_def)
  next
    case False
    from given False have why: "why = Some (str_strip (the reason))" "truthy why" by (auto split: if_splits)
    have "f' = f\<lparr>fe_reviewer := Some uid, fe_reviewed_at := Some (now e),
       fe_filing_date_version := fe_filing_date_version f + 1,
       fe_status := (if action = RejectFiling then Rejected else Returned), fe_rejection_reason := why\<rparr>"
      using record_review_decline [OF rr f(1) False] by (auto simp: finish_review_def then_do_Inr_iff)
    with why entries False show ?thesis by (cases action) simp_all
  qed
  have others: "\<forall>x. x \<noteq> fid \<longrightarrow> find_filing db1 x = find_filing db x" and rv: "fe_reviewer f' = Some uid"
    using eff by (simp_all add: review_frame_def)
  obtain as where db2: "db' = db1\<lparr>audit := audit db1 @ as\<rparr>"
    and as: "map au_action as = (if action = AcceptFiling \<and> fe_status ?g \<noteq> Accepted then []
        else [''review_filing_'' @ action_value action])"
      "\<forall>a \<in> set as. au_user a = Some uid \<and> au_entity_id a = Some fid"
  proof (cases "action = AcceptFiling \<and> fe_status f' \<noteq> Accepted")
    case True
    with db' that [of "[]"] show ?thesis by simp
  next
    case False
    define a where "a = \<lparr>au_user = Some uid, au_action = ''review_filing_'' @ action_value action,
      au_entity = ''filing_envelope'', au_entity_id = Some fid,
      au_details = Some (JObj [(''action'', JStr (action_value action)), (''reason'', jopt JStr reason)]),
      au_ip = client_ip e, au_agent = client_agent e, au_at = now e\<rparr>"
    have "db' = db1\<lparr>audit := audit db1 @ [a]\<rparr>"
      unfolding db' if_not_P [OF False] log_filing_def log_action_def a_def by simp
    with False that [of "[a]"] show ?thesis by (simp add: a_def)
  qed
  have scope: "db' = db\<lparr>filings := filings db', cases := cases db @ cs, transactions := transactions db @ ts,
      notifications := notifications db @ ns, delivery_events := delivery_events db @ es,
      audit := audit db @ as\<rparr>"
    by (simp add: db2 db1)
  have found: "find_filing db' = find_filing db1" by (simp add: db2 find_filing_def fun_eq_iff)
  have "find_filing db' fid = Some ?g" "fe_reviewer ?g = Some uid"
    "\<forall>x. x \<noteq> fid \<longrightarrow> find_filing db' x = find_filing db x"
    using g others rv unfolding found by simp_all
  with scope f0 f outcome rows entries as show ?thesis by blast
qed

theorem review_decision_witness:
  "\<exists>g. find_filing (snd accepted_reply) 1 = Some g \<and> fe_status g = Accepted \<and> fe_reviewer g = Some 2"
proof -
  have "\<exists>g. find_filing (snd accepted_reply) 1 = Some g \<and> fe_status g = Accepted"
    using review_example_cases by auto
  with review_decision [OF example_env_fresh review_example] show ?thesis by auto
qed

text \<open>C2: the documents a filing is accepted on are the ones whose stored bytes were verified in the
  same review: every current document, and the signed order when the filing date was ordered, has
  the id, digest and size of a document of the first read whose stored object matched; and
  the filing date was not changed in between.\<close>
theorem acceptance_verified:
  assumes "review_filing e cms db0 db fid uid AcceptFiling reason cnt = Inr (Some (f', db'))"
  shows "\<exists>f f0. find_filing db fid = Some f \<and> find_filing db0 fid = Some f0
    \<and> fe_filing_date_version f = fe_filing_date_version f0 \<and> current_documents db0 fid \<noteq> []
    \<and> (\<forall>p \<in> set (current_fingerprints db f (ordered_date f0)). \<exists>d0 \<in> set (documents db0).
         dc_envelope d0 = fid \<and> p = fingerprint d0
         \<and> stored e (dc_file_key d0) = Stored (dc_sha256 d0) (dc_size d0))
    \<and> fingerprint ` set (current_documents db fid) \<subseteq> set (current_fingerprints db f (ordered_date f0))"
  using assms
proof (rule review_filing_Inr)
  fix ev
  assume v: "verify_review e db0 fid AcceptFiling cnt = Inr (Some ev)"
    and rr: "record_review e cms db fid uid AcceptFiling reason cnt ev = Inr (Some (f', db'))"
  obtain f where f: "find_filing db fid = Some f" "fe_id f = fid" using record_review_found [OF rr] by metis
  obtain c where c: "check_acceptance db f ev = Inr c" using record_review_accept [OF rr f(1)] by blast
  from v obtain f0 fps where f0: "find_filing db0 fid = Some f0" "accept_evidence e db0 f0 = Inr fps"
    and ev: "ev_date_version ev = fe_filing_date_version f0" "ev_ordered ev = ordered_date f0"
      "ev_fingerprints ev = Some fps"
    by (auto simp: verify_review_def then_do_Inr_iff split: option.splits if_splits)
  have id: "fe_id f0 = fid" using f0(1) by (rule find_filing_id)
  define order where "order = (if ordered_date f0 then date_order db0 f0 else None)"
  from f0(2) id have ver: "verify_filing_documents e (current_documents db0 fid) order = Inr ()"
    and fps: "fps = map fingerprint (current_documents db0 fid)
      @ (case order of None \<Rightarrow> [] | Some d \<Rightarrow> [fingerprint d])"
    by (auto simp: accept_evidence_def Let_def then_do_Inr_iff order_def split: if_splits)
  have order: "d \<in> set (documents db0) \<and> dc_envelope d = fid" if "order = Some d" for d
    using that id by (auto simp: order_def date_order_def find_Some_iff split: if_splits)
  have cur: "fps = current_fingerprints db f (ordered_date f0)"
    "fe_filing_date_version f = fe_filing_date_version f0"
    using check_acceptance_Inr [OF c] ev by simp_all
  have "\<exists>d0 \<in> set (documents db0). dc_envelope d0 = fid \<and> p = fingerprint d0
      \<and> stored e (dc_file_key d0) = Stored (dc_sha256 d0) (dc_size d0)" if "p \<in> set fps" for p
  proof -
    from that fps consider d where "d \<in> set (current_documents db0 fid)" "p = fingerprint d"
      | d where "order = Some d" "p = fingerprint d"
      by (auto split: option.splits)
    then show ?thesis
    proof cases
      case 1
      with ver show ?thesis by (auto simp: verify_filing_documents_Inr set_current_documents)
    next
      case 2
      with ver order [OF 2(1)] show ?thesis by (auto simp: verify_filing_documents_Inr)
    qed
  qed
  moreover have "fingerprint ` set (current_documents db fid) \<subseteq> set (current_fingerprints db f (ordered_date f0))"
    unfolding current_fingerprints_def f(2) set_append set_map by (rule Un_upper1)
  moreover have "current_documents db0 fid \<noteq> []"
    using ver by (simp add: verify_filing_documents_Inr)
  ultimately show ?thesis
    using f(1) f0(1) cur(2) unfolding cur(1) by blast
qed

theorem acceptance_verified_witness:
  "current_documents review_db 1 \<noteq> []"
proof -
  obtain f' db1 why where "review_filing example_env demo_cms review_db review_db 1 2 AcceptFiling why 1
      = Inr (Some (f', db1))"
    using review_handler_Inr [OF review_example] by metis
  from acceptance_verified [OF this] show ?thesis by blast
qed

text \<open>A decision is final for its submission: after a filing was accepted, rejected or returned,
  no further review of that submission changes it, whatever evidence it brings; it reports that
  the filing is not awaiting review.\<close>
theorem decided_once:
  assumes "fresh_keys e" and "record_review e cms db fid uid action reason cnt ev = Inr (Some (f', db'))"
    and "fe_status f' \<noteq> UnderReview"
  shows "record_review e' cms' db' fid uid' action' reason' cnt ev' = Inr None"
proof -
  obtain f where f: "find_filing db fid = Some f" "fe_submission_count f = cnt"
    using record_review_found [OF assms(2)] by metis
  note eff = record_review_effect [OF assms(2,1) f(1)]
  obtain u where g: "find_filing db' fid = Some (f'\<lparr>fe_updated_at := u\<rparr>)" using eff by blast
  have "fe_submission_count f' = cnt" "fe_status f' \<in> {Accepted, Rejected, Returned}"
    using eff f(2) assms(3)
    by (auto simp: same_filing_def decided_def accepted_into_def held_by_cms_def split: review_action.splits)
  with g show ?thesis by (auto simp: record_review_def awaiting_review_def)
qed

theorem decided_once_witness:
  "\<exists>(f' :: envelope) db1. fe_status f' = Accepted
     \<and> record_review example_env demo_cms db1 1 2 RejectFiling (Some ''late'') 1 undefined = Inr None"
proof -
  obtain f' db1 why where rf: "review_filing example_env demo_cms review_db review_db 1 2 AcceptFiling why 1
      = Inr (Some (f', db1))"
    and db: "audited db1 (snd accepted_reply)"
    using review_handler_Inr [OF review_example] by metis
  obtain ev where rr: "record_review example_env demo_cms review_db 1 2 AcceptFiling why 1 ev = Inr (Some (f', db1))"
    using rf by (rule review_filing_Inr)
  obtain f where f: "find_filing review_db 1 = Some f" using record_review_found [OF rr] by metis
  obtain u where g: "find_filing db1 1 = Some (f'\<lparr>fe_updated_at := u\<rparr>)"
    using record_review_effect [OF rr example_env_fresh f] by blast
  have "find_filing (snd accepted_reply) 1 = find_filing db1 1" using audited_frame [OF db] by simp
  with g review_example_cases have "fe_status f' = Accepted" by simp
  then show ?thesis
    by (intro exI [of _ f'] exI [of _ db1] conjI decided_once [OF example_env_fresh rr]) simp_all
qed

lemma batch_split:
  assumes "probes = map (\<lambda>i. (i, g i)) items"
  shows "mset (map (bi_filing \<circ> fst) (concat (map (\<lambda>(i, p). case p of Inr ev \<Rightarrow> [(i, ev)] | Inl _ \<Rightarrow> []) probes))
      @ map fst (concat (map (\<lambda>(i, p). case p of Inr _ \<Rightarrow> [] | Inl x \<Rightarrow> [(bi_filing i, x)]) probes)))
    = mset (map bi_filing items)"
  unfolding assms by (induction items) (auto split: sum.splits)

lemma batch_run:
  assumes "batch_review_filings e cms probe db0 db items uid = Inr (reply, db')"
  obtains verified refused ok bad db1 where
    "mset (map (bi_filing \<circ> fst) verified @ map fst refused) = mset (map bi_filing items)"
    and "batch_records e cms uid verified db = (ok, bad, db1)" and "audited db1 db'"
    and "br_succeeded reply = ok" and "mset (br_failed reply) = mset (map fst (refused @ bad))"
proof -
  let ?items = "sort_key bi_filing items"
  define probes where "probes = map (\<lambda>i. (i, batch_probe e (probe (bi_filing i)) uid i)) ?items"
  define verified where "verified = concat (map (\<lambda>(i, p). case p of Inr ev \<Rightarrow> [(i, ev)] | Inl _ \<Rightarrow> []) probes)"
  define refused where "refused = concat (map (\<lambda>(i, p). case p of Inr _ \<Rightarrow> [] | Inl x \<Rightarrow> [(bi_filing i, x)]) probes)"
  obtain ok bad db1 where r: "batch_records e cms uid verified db = (ok, bad, db1)" by (metis prod_cases3)
  have "mset (map (bi_filing \<circ> fst) verified @ map fst refused) = mset (map bi_filing ?items)"
    unfolding verified_def refused_def by (rule batch_split [OF probes_def])
  then have "mset (map (bi_filing \<circ> fst) verified @ map fst refused) = mset (map bi_filing items)"
    by (simp add: mset_map)
  moreover have "audited db1 db' \<and> br_succeeded reply = ok
      \<and> br_failed reply = sort (map fst (refused @ bad))"
    using assms
    unfolding batch_review_filings_def Let_def probes_def [symmetric] verified_def [symmetric]
      refused_def [symmetric] r by (auto simp: then_do_Inr_iff)
  ultimately show ?thesis using r by (intro that) auto
qed

text \<open>A batch accounts for every requested filing exactly once, as succeeded or as failed; what is
  reported as succeeded is accepted in the resulting database, a filing outside the batch is
  untouched, and no item's failure touches documents or payments or removes ledger rows or cases.\<close>
theorem batch_accounts:
  assumes "fresh_keys e" and "distinct (map bi_filing items)"
    and "batch_review_filings e cms probe db0 db items uid = Inr (reply, db')"
  shows "mset (br_succeeded reply @ br_failed reply) = mset (map bi_filing items)
    \<and> (\<forall>fid \<in> set (br_succeeded reply). \<exists>f. find_filing db' fid = Some f \<and> fe_status f = Accepted)
    \<and> (\<forall>fid. fid \<notin> bi_filing ` set items \<longrightarrow> find_filing db' fid = find_filing db fid)
    \<and> documents db' = documents db \<and> payments db' = payments db
    \<and> prefix (transactions db) (transactions db') \<and> prefix (cases db) (cases db')"
  using assms(3)
proof (rule batch_run)
  fix verified refused ok bad db1
  assume m: "mset (map (bi_filing \<circ> fst) verified @ map fst refused) = mset (map bi_filing items)"
    and r: "batch_records e cms uid verified db = (ok, bad, db1)" and a: "audited db1 db'"
    and rep: "br_succeeded reply = ok" "mset (br_failed reply) = mset (map fst (refused @ bad))"
  have "distinct (map (bi_filing \<circ> fst) verified @ map fst refused)"
    using assms(2) m by (metis mset_eq_imp_distinct_iff)
  then have d: "distinct (map (bi_filing \<circ> fst) verified)" by simp
  note eff = batch_records_effect [OF r assms(1) d]
  have "mset (ok @ br_failed reply) = mset (map (bi_filing \<circ> fst) verified @ map fst refused)"
    using eff rep(2) by simp
  moreover have sub: "set (map (bi_filing \<circ> fst) verified) \<subseteq> bi_filing ` set items"
    using m by (metis Un_upper1 list.set_map set_append set_mset_mset)
  have "find_filing db' fid = find_filing db fid" if "fid \<notin> bi_filing ` set items" for fid
  proof -
    have "fid \<notin> set (map (bi_filing \<circ> fst) verified)" using sub that by blast
    with eff audited_frame(1) [OF a] show ?thesis by simp
  qed
  ultimately show ?thesis
    using eff m rep(1) audited_frame [OF a] by simp
qed

lemma batch_example:
  "\<exists>r d. batch_review_filings example_env demo_cms (\<lambda>_. review_db) review_db review_db
     [\<lparr>bi_filing = 1, bi_count = 1\<rparr>, \<lparr>bi_filing = 8, bi_count = 0\<rparr>] 2 = Inr (r, d)
     \<and> br_failed r = [8]"
proof -
  have "case batch_review_filings example_env demo_cms (\<lambda>_. review_db) review_db review_db
      [\<lparr>bi_filing = 1, bi_count = 1\<rparr>, \<lparr>bi_filing = 8, bi_count = 0\<rparr>] 2
    of Inr (r, d) \<Rightarrow> br_failed r = [8] | Inl _ \<Rightarrow> False"
    by code_simp
  then show ?thesis by (auto split: sum.splits)
qed

theorem batch_accounts_witness:
  "\<exists>(r :: batch_reply) d f. mset (br_succeeded r @ br_failed r) = {#1, 8#} \<and> find_filing d 1 = Some f
     \<and> fe_status f = Accepted"
proof -
  let ?items = "[\<lparr>bi_filing = 1, bi_count = 1\<rparr>, \<lparr>bi_filing = 8, bi_count = 0\<rparr>]"
  obtain r d where b: "batch_review_filings example_env demo_cms (\<lambda>_. review_db) review_db review_db
      ?items 2 = Inr (r, d)" "br_failed r = [8]" using batch_example by blast
  have "distinct (map bi_filing ?items)" by simp
  from batch_accounts [OF example_env_fresh this b(1)]
  have m: "mset (br_succeeded r @ br_failed r) = mset (map bi_filing ?items)"
    and acc: "\<forall>fid \<in> set (br_succeeded r). \<exists>f. find_filing d fid = Some f \<and> fe_status f = Accepted"
    by blast+
  from m b(2) have "mset (br_succeeded r) = {#1#}" by simp
  then have "1 \<in> set (br_succeeded r)" by (metis set_mset_mset union_single_eq_member add_mset_add_single empty_neutral(1))
  with acc obtain f where "find_filing d 1 = Some f" "fe_status f = Accepted" by blast
  with m show ?thesis by (intro exI [of _ r] exI [of _ d] exI [of _ f]) simp
qed

end
