(* ===== verification/Payments.thy ===== *)
theory Payments
  imports Ledger
begin

text \<open>
  Payments: the simulated payment by the filer (\<open>services/payment_service.py\<close>,
  \<open>api/payments.py\<close>) and the credits of external receipts by a separate administrator, with
  their reversal (\<open>api/external_payments.py\<close>, constraints of \<open>models/payment.py\<close>).
\<close>

section \<open>Inserting payments\<close>

text \<open>The unique indexes: on the request key, and on the receipt key among completed payments.\<close>

definition payment_conflict :: "payment \<Rightarrow> db \<Rightarrow> bool" where
  "payment_conflict p db \<longleftrightarrow>
     (\<exists>q \<in> set (payments db). py_request_key p \<noteq> None \<and> py_request_key q = py_request_key p)
     \<or> py_status p = PayCompleted \<and> py_receipt_key p \<noteq> None
       \<and> (\<exists>q \<in> set (payments db). py_status q = PayCompleted \<and> py_receipt_key q = py_receipt_key p)"

definition insert_payment :: "payment \<Rightarrow> db \<Rightarrow> failure + db" where
  "insert_payment p db =
     (if payment_conflict p db then Inl IntegrityError else Inr (payments_update (\<lambda>ps. ps @ [p]) db))"

text \<open>The trigger on external payments: their evidence is retained, only the status of a completed
  credit may become reversed.\<close>

definition update_allowed :: "payment \<Rightarrow> payment \<Rightarrow> bool" where
  "update_allowed old new \<longleftrightarrow> py_request_key old = None
     \<or> py_status old = PayCompleted \<and> py_status new = PayReversed \<and> new = old\<lparr>py_status := PayReversed\<rparr>"

definition update_payment :: "payment \<Rightarrow> payment \<Rightarrow> db \<Rightarrow> failure + db" where
  "update_payment old new db =
     (if update_allowed old new then Inr (payments_update (upd_row py_id (py_id old) (\<lambda>_. new)) db)
      else Inl IntegrityError)"

definition basis_json :: "fee_state \<Rightarrow> json" where
  "basis_json s = JObj
     [(''source'', JStr (source_value (fs_source s))), (''assessment_id'', jopt JStr (fs_assessment_id s)),
      (''version'', JInt (fs_version s)), (''authority_reference'', jopt id (fs_authority s)),
      (''items'', JArr (map fee_item_json (fs_items s))), (''total_cents'', jopt JInt (fs_total s)),
      (''previous_paid_cents'', JInt (fs_paid s))]"

definition new_payment_id :: "env \<Rightarrow> db \<Rightarrow> int" where
  "new_payment_id e db = new_key e (map py_id (payments db))"

section \<open>The simulated payment\<close>

definition simulated_payment ::
    "env \<Rightarrow> db \<Rightarrow> int \<Rightarrow> payment_method \<Rightarrow> int \<Rightarrow> int \<Rightarrow> json \<Rightarrow> string option \<Rightarrow> failure + payment" where
  "simulated_payment e db amount meth payer fid basis description =
     (if \<not> st_payments_simulated (cfg e) \<or> \<not> st_allow_demo (cfg e) then Inl PaymentsNotConfiguredError
      else Inr
        \<lparr>py_id = new_payment_id e db, py_envelope = Some fid, py_fee_basis = Some basis,
         py_request_key = None, py_receipt_key = None, py_receipt = None, py_simulated = True,
         py_amount = amount, py_status = PayCompleted, py_method = Some meth,
         py_ref = Some (''MUEFS-'' @ new_uuid e (concat (map (\<lambda>p. case py_ref p of None \<Rightarrow> [] | Some r \<Rightarrow> [r])
           (payments db)))),
         py_payer = Some payer,
         py_description = Some (str_strip (''[SIMULATED: no funds moved] '' @ str_strip (or_text description []))),
         py_processed_at = Some (now e)\<rparr>)"

record payment_request =
  pr_envelope :: int
  pr_fee_version :: int
  pr_method :: payment_method
  pr_amount :: int

definition paid_filing :: "payment \<Rightarrow> envelope \<Rightarrow> envelope" where
  "paid_filing p f = f\<lparr>fe_payment := Some (py_id p), fe_payment_version := fe_payment_version f + 1\<rparr>"

definition payment_event_json :: "payment \<Rightarrow> (string \<times> json) list \<Rightarrow> json" where
  "payment_event_json p extra = JObj
     ([(''id'', JInt (py_id p)), (''amount_cents'', JInt (py_amount p)),
       (''transaction_ref'', jopt JStr (py_ref p)), (''is_simulated'', JBool (py_simulated p))] @ extra)"

text \<open>The part the two kinds of payment share: the row, the filing's version and the ledger.\<close>

definition enter_payment ::
    "env \<Rightarrow> payment \<Rightarrow> envelope \<Rightarrow> string \<Rightarrow> int \<Rightarrow> string option \<Rightarrow> (string \<times> json) list \<Rightarrow> db
       \<Rightarrow> failure + db" where
  "enter_payment e p f ev actor why kvs db =
     then_do (insert_payment p db) (\<lambda>db1.
     then_do (record_transaction e (paid_filing p f) ev actor why None kvs (save_filing e (paid_filing p f) db1))
       (\<lambda>(t, db2). Inr db2))"

definition log_payment :: "env \<Rightarrow> int \<Rightarrow> string \<Rightarrow> int \<Rightarrow> json \<Rightarrow> db \<Rightarrow> db" where
  "log_payment e uid action pid details db = log_action e (Some uid) action ''payment'' (Some pid) (Some details) db"

definition check_payment :: "payment_request \<Rightarrow> fee_state \<Rightarrow> failure + unit" where
  "check_payment r s =
     (if fs_version s \<noteq> pr_fee_version r then Inl (Http 409 (Payment Fee_changed))
      else (case fs_balance s of
              None \<Rightarrow> Inl (Http 409 (Payment Assessment_required))
            | Some owed \<Rightarrow>
                if \<not> fs_can_pay s then Inl (Http 409 (Payment Not_awaiting_payment))
                else if pr_amount r \<noteq> owed then Inl (Http 400 (Payment (Amount_mismatch (pr_amount r) owed)))
                else Inr ()))"

definition process_payment :: "env \<Rightarrow> db \<Rightarrow> payment_request \<Rightarrow> int \<Rightarrow> failure + payment \<times> db" where
  "process_payment e db r uid =
     then_do (lock_efiler db uid) (\<lambda>_.
     case find_filing db (pr_envelope r) of
       None \<Rightarrow> Inl (Http 404 (Account Filing_not_found))
     | Some f \<Rightarrow>
         if fe_filer f \<noteq> uid then Inl (Http 403 (Account Not_authorized))
         else then_do (fee_state_of e db f (Some uid)) (\<lambda>s.
         then_do (check_payment r s) (\<lambda>_.
         then_do (map_failure (\<lambda>_. Http 503 (Payment Not_configured))
             (simulated_payment e db (pr_amount r) (pr_method r) uid (fe_id f) (basis_json s)
               (Some (''Filing #'' @ dec (pr_envelope r))))) (\<lambda>p.
         then_do (enter_payment e p f ''payment_recorded'' uid None
             [(''payment'', payment_event_json p [(''fee_basis'', basis_json s)])] db)
           (\<lambda>db2. Inr (p, log_payment e uid ''process_payment'' (py_id p)
              (JObj [(''amount_cents'', JInt (pr_amount r)), (''envelope_id'', JInt (pr_envelope r))]) db2))))))"

section \<open>Credits of external receipts\<close>

definition lock_payment_filing :: "env \<Rightarrow> db \<Rightarrow> int \<Rightarrow> int \<Rightarrow> failure + envelope \<times> user" where
  "lock_payment_filing e db fid uid =
     then_do (lock_current_user db uid) (\<lambda>actor.
     case find_filing db fid of
       None \<Rightarrow> Inl (Http 404 (Account Filing_not_found))
     | Some f \<Rightarrow>
         if us_id actor = fe_filer f \<or> \<not> has_court_administrator_assignment db (us_id actor) (fe_court f)
         then Inl (Http 403 (Payment Separate_administrator_required))
         else if \<not> st_external_payments (cfg e) then Inl (Http 503 (Payment External_not_enabled))
         else Inr (f, actor))"

definition list_payment_records ::
    "db \<Rightarrow> int \<Rightarrow> nat \<Rightarrow> int \<Rightarrow> failure + payment list \<times> nat \<times> int" where
  "list_payment_records db fid pg uid =
     (case find_filing db fid of
        None \<Rightarrow> Inl (Http 404 (Account Filing_not_found))
      | Some f \<Rightarrow>
          if fe_filer f \<noteq> uid \<and> \<not> is_court_staff db (Some uid) (fe_court f)
          then Inl (Http 403 (Account Not_authorized))
          else let rows = filter (\<lambda>p. py_envelope p = Some fid) (payments db)
               in Inr (page_of pg 25 (rev (sort_key py_id rows)), length rows, fe_payment_version f))"

record credit_request =
  cr_fee_version :: int
  cr_payment_version :: int
  cr_amount :: int
  cr_system :: string
  cr_reference :: string
  cr_received_at :: datetime
  cr_reason :: string

definition credit_fingerprint :: "env \<Rightarrow> int \<Rightarrow> int \<Rightarrow> credit_request \<Rightarrow> string" where
  "credit_fingerprint e fid actor r = digest e (JArr
     [JInt fid, JInt actor, JObj
       [(''amount_cents'', JInt (cr_amount r)), (''expected_fee_version'', JInt (cr_fee_version r)),
        (''expected_payment_version'', JInt (cr_payment_version r)), (''reason'', JStr (cr_reason r)),
        (''receipt_reference'', JStr (cr_reference r)), (''receipt_system'', JStr (cr_system r)),
        (''received_at'', JTime (cr_received_at r)), (''verified'', JBool True)]])"

fun words_of :: "string \<Rightarrow> string \<Rightarrow> string list" where
  "words_of acc [] = (if acc = [] then [] else [acc])"
| "words_of acc (c # cs) =
     (if is_blank c then (if acc = [] then words_of [] cs else acc # words_of [] cs)
      else words_of (acc @ [c]) cs)"

text \<open>\<open>" ".join(text.casefold().split())\<close>.\<close>

definition normal_words :: "string \<Rightarrow> string" where
  "normal_words s = join_with '' '' (words_of [] (str_lower s))"

definition receipt_key :: "env \<Rightarrow> int \<Rightarrow> credit_request \<Rightarrow> string" where
  "receipt_key e court r = digest e (JArr
     [JInt court, JStr (normal_words (cr_system r)), JStr (normal_words (cr_reference r))])"

definition receipt_json :: "credit_request \<Rightarrow> user \<Rightarrow> string \<Rightarrow> json" where
  "receipt_json r actor fp = JObj
     [(''system'', JStr (cr_system r)), (''reference'', JStr (cr_reference r)),
      (''received_at'', JTime (cr_received_at r)), (''recorded_by'', JInt (us_id actor)),
      (''recorded_by_name'', JStr (full_name actor)), (''reason'', JStr (cr_reason r)),
      (''request_sha256'', JStr fp)]"

definition credit_payment ::
    "env \<Rightarrow> db \<Rightarrow> envelope \<Rightarrow> user \<Rightarrow> credit_request \<Rightarrow> string \<Rightarrow> fee_state \<Rightarrow> payment" where
  "credit_payment e db f actor r key s =
     \<lparr>py_id = new_payment_id e db, py_envelope = Some (fe_id f), py_fee_basis = Some (basis_json s),
      py_request_key = Some key, py_receipt_key = Some (receipt_key e (fe_court f) r),
      py_receipt = Some (receipt_json r actor (credit_fingerprint e (fe_id f) (us_id actor) r)),
      py_simulated = st_allow_demo (cfg e), py_amount = cr_amount r, py_status = PayCompleted,
      py_method = None, py_ref = Some (''MUEFS-EXT-'' @ key), py_payer = Some (fe_filer f),
      py_description = Some ''Credit from an external receipt; no funds moved by this portal'',
      py_processed_at = Some (cr_received_at r)\<rparr>"

definition check_credit :: "env \<Rightarrow> credit_request \<Rightarrow> fee_state \<Rightarrow> failure + unit" where
  "check_credit e r s =
     (if cr_fee_version r \<noteq> fs_version s \<or> cr_payment_version r \<noteq> fs_payment_version s
      then Inl (Http 409 (Payment Fee_or_payment_changed))
      else if \<not> fs_can_record_external s \<or> fs_balance s = None then Inl (Http 409 (Payment Nothing_unpaid))
      else if cr_amount r > the (fs_balance s) then Inl (Http 409 (Payment Exceeds_amount_due))
      else Inr ())"

text \<open>The savepoint of the credit; a constraint violation leaves the database as it was.\<close>

definition enter_credit ::
    "env \<Rightarrow> db \<Rightarrow> envelope \<Rightarrow> user \<Rightarrow> credit_request \<Rightarrow> string \<Rightarrow> fee_state \<Rightarrow> failure + payment \<times> db" where
  "enter_credit e db f actor r key s =
     (let p = credit_payment e db f actor r key s in
      if fe_payment_version f \<noteq> cr_payment_version r then Inl (Http 409 (Payment Payment_changed))
      else then_do (enter_payment e p f ''fee_payment_recorded'' (us_id actor) (Some (cr_reason r))
            [(''payment'', payment_event_json p
               [(''fee_basis'', basis_json s), (''external_receipt'', jopt id (py_receipt p))])] db)
          (\<lambda>db2. Inr (p, log_payment e (us_id actor) ''record_external_payment'' (py_id p)
             (JObj [(''filing_id'', JInt (fe_id f)), (''amount_cents'', JInt (py_amount p)),
                    (''external_receipt'', jopt id (py_receipt p))]) db2)))"

definition credit_conflict :: "db \<Rightarrow> string \<Rightarrow> string \<Rightarrow> failure" where
  "credit_conflict db rkey key =
     (case List.find (\<lambda>p. py_receipt_key p = Some rkey \<and> py_status p = PayCompleted) (payments db) of
        Some d \<Rightarrow> Http 409 (Payment (Receipt_already_credited (py_envelope d)))
      | None \<Rightarrow>
          if \<exists>p \<in> set (payments db). py_request_key p = Some key
          then Http 409 (Payment Request_key_reused) else IntegrityError)"

definition record_external_payment ::
    "env \<Rightarrow> db \<Rightarrow> int \<Rightarrow> credit_request \<Rightarrow> string \<Rightarrow> int \<Rightarrow> failure + payment \<times> db" where
  "record_external_payment e db fid r key uid =
     then_do (lock_payment_filing e db fid uid) (\<lambda>(f, actor).
     case List.find (\<lambda>p. py_request_key p = Some key) (payments db) of
       Some p \<Rightarrow>
         if py_envelope p \<noteq> Some fid
            \<or> Option.bind (py_receipt p) (jget ''request_sha256'') \<noteq> Some (JStr (credit_fingerprint e fid (us_id actor) r))
         then Inl (Http 409 (Payment Request_key_reused))
         else Inr (p, db)
     | None \<Rightarrow>
         if cr_received_at r > now e then Inl (Http 422 (Payment Receipt_in_future))
         else then_do (fee_state_of e db f (Some (us_id actor))) (\<lambda>s.
         then_do (check_credit e r s) (\<lambda>_.
         map_failure (\<lambda>x. if x = IntegrityError then credit_conflict db (receipt_key e (fe_court f) r) key else x)
           (enter_credit e db f actor r key s))))"

definition reverse_external_payment ::
    "env \<Rightarrow> db \<Rightarrow> int \<Rightarrow> int \<Rightarrow> int \<Rightarrow> string \<Rightarrow> int \<Rightarrow> failure + payment \<times> db" where
  "reverse_external_payment e db fid pid expected reason uid =
     then_do (lock_payment_filing e db fid uid) (\<lambda>(f, actor).
     case List.find (\<lambda>p. py_id p = pid \<and> py_envelope p = Some fid \<and> py_request_key p \<noteq> None) (payments db) of
       None \<Rightarrow> Inl (Http 404 (Payment Credit_not_found))
     | Some p \<Rightarrow>
         if py_status p = PayReversed then Inr (p, db)
         else if py_status p \<noteq> PayCompleted then Inl (Http 409 (Payment Not_active_credit))
         else if fe_payment_version f \<noteq> expected then Inl (Http 409 (Payment Payment_changed))
         else
           let p' = p\<lparr>py_status := PayReversed\<rparr>;
               f' = f\<lparr>fe_payment_version := fe_payment_version f + 1\<rparr>
           in then_do (update_payment p p' (save_filing e f' db)) (\<lambda>db1.
              then_do (record_transaction e f' ''fee_payment_reversed'' (us_id actor) (Some reason) None
                  [(''payment'', payment_event_json p' [(''external_receipt'', jopt id (py_receipt p'))])] db1)
                (\<lambda>(t, db2). Inr (p', log_payment e (us_id actor) ''reverse_external_payment'' pid
                   (JObj [(''filing_id'', JInt fid), (''amount_cents'', JInt (py_amount p')),
                          (''reason'', JStr reason)]) db2))))"

end
