(* ===== verification/PaymentProofs.thy ===== *)
theory PaymentProofs
  imports Payments Filing
begin

text \<open>
  What payments and credits do to the fee state of a filing, that a receipt is credited once, that
  the evidence of external payments is retained, and that requests can be repeated safely.
\<close>

section \<open>The fee state after a payment\<close>

text \<open>The columns of a filing that its fees depend on.\<close>

definition same_fees :: "envelope \<Rightarrow> envelope \<Rightarrow> bool" where
  "same_fees f g \<longleftrightarrow> fe_id g = fe_id f \<and> fe_filer g = fe_filer f \<and> fe_court g = fe_court f
     \<and> fe_type g = fe_type f \<and> fe_case_type g = fe_case_type f \<and> fe_status g = fe_status f
     \<and> fe_waiver_requested g = fe_waiver_requested f \<and> fe_waiver_granted g = fe_waiver_granted f
     \<and> fe_waiver_due_cents g = fe_waiver_due_cents f \<and> fe_fee_assessment g = fe_fee_assessment f
     \<and> fe_fee_version g = fe_fee_version f \<and> fe_fee_review_at g = fe_fee_review_at f"

lemma find_append_other: "\<not> P y \<Longrightarrow> List.find P (xs @ [y]) = List.find P xs"
  by (induction xs) auto

lemma find_assessment_kept:
  assumes "same_fees f g" and "transactions db' = transactions db @ [t]" and "tx_event t \<noteq> ''fee_assessed''"
  shows "find_assessment db' g = find_assessment db f"
  using assms by (auto simp: find_assessment_def same_fees_def find_append_other split: option.splits)

lemma fee_basis_kept:
  assumes "same_fees f g" and "transactions db' = transactions db @ [t]" and "tx_event t \<noteq> ''fee_assessed''"
    and "case_types db' = case_types db"
  shows "fee_basis_of e db' g = fee_basis_of e db f"
proof -
  have stale: "assessment_stale g a = assessment_stale f a" for a
    using assms(1) by (simp add: assessment_stale_def same_fees_def split: option.splits)
  have demo: "demo_basis db' g = demo_basis db f"
    using assms(1,4) by (simp add: demo_basis_def same_fees_def cong: option.case_cong if_cong)
  have eqs: "fe_type g = fe_type f" "fe_waiver_granted g = fe_waiver_granted f"
    "fe_waiver_due_cents g = fe_waiver_due_cents f" "fe_fee_assessment g = fe_fee_assessment f"
    "fe_fee_review_at g = fe_fee_review_at f"
    using assms(1) by (simp_all add: same_fees_def)
  show ?thesis
    by (simp only: fee_basis_of_def eqs demo stale find_assessment_kept [OF assms(1-3)])
qed

lemma fee_state_exists:
  assumes "fee_basis_of e db f = Inr b"
  obtains s where "fee_state_of e db f uid = Inr s" and "fs_total s = fb_total b" and "fs_source s = fb_source b"
  using assms by (simp add: fee_state_of_def Let_def)

lemma fee_state_figures:
  assumes "fee_state_of e db f uid = Inr s"
  shows "fs_balance s = map_option (\<lambda>t. max 0 (t - fs_paid s)) (fs_total s)"
    and "fs_overpaid s = (case fs_total s of None \<Rightarrow> 0 | Some t \<Rightarrow> max 0 (fs_paid s - t))"
  by (simp_all only: fee_state_fields(3,4,6) [OF assms])

text \<open>The state after a payment was appended, or one credit's status changed.\<close>

lemma fee_state_paid:
  assumes s: "fee_state_of e db f uid = Inr s" and "same_fees f g"
    and "transactions db' = transactions db @ [t]" and "tx_event t \<noteq> ''fee_assessed''"
    and "case_types db' = case_types db" and paid: "paid_cents e db' g = paid_cents e db f + x"
  obtains s' where "fee_state_of e db' g uid = Inr s'" and "fs_total s' = fs_total s"
    and "fs_source s' = fs_source s" and "fs_paid s' = fs_paid s + x"
proof -
  obtain b where b: "fee_basis_of e db f = Inr b" "fs_source s = fb_source b" "fs_total s = fb_total b"
    using s by (rule fee_state_basis)
  have "fee_basis_of e db' g = Inr b" using fee_basis_kept [OF assms(2-5)] b(1) by simp
  then obtain s' where s': "fee_state_of e db' g uid = Inr s'" "fs_total s' = fb_total b" "fs_source s' = fb_source b"
    by (rule fee_state_exists)
  have "fs_paid s' = fs_paid s + x"
    using fee_state_fields(3) [OF s'(1)] fee_state_fields(3) [OF s] paid by simp
  with s' b show ?thesis by (intro that) simp_all
qed

lemma paid_cents_appended:
  assumes "payments db' = payments db @ [p]" and "same_fees f g"
  shows "paid_cents e db' g = paid_cents e db f + (if counts_as_paid e f p then py_amount p else 0)"
proof -
  have "counts_as_paid e g = counts_as_paid e f"
    using assms(2) by (simp add: counts_as_paid_def same_fees_def fun_eq_iff)
  with assms(1) show ?thesis by (simp add: paid_cents_def)
qed

section \<open>The effect of each operation\<close>

lemma log_payment_frame [simp]:
  "find_filing (log_payment e u a pid d db) = find_filing db"
  "payments (log_payment e u a pid d db) = payments db"
  "transactions (log_payment e u a pid d db) = transactions db"
  "case_types (log_payment e u a pid d db) = case_types db"
  "documents (log_payment e u a pid d db) = documents db"
  by (simp_all add: log_payment_def)

lemma save_then_find:
  assumes "find_filing db (fe_id f) = Some f0"
  obtains u where "find_filing (save_filing e f db) (fe_id f) = Some (f\<lparr>fe_updated_at := u\<rparr>)"
  using find_save_same [OF assms] by metis

lemma same_fees_paid [simp]: "same_fees f ((paid_filing p f)\<lparr>fe_updated_at := u\<rparr>)"
  by (simp add: same_fees_def paid_filing_def)

text \<open>A payment entered on a filing: common to the simulated payment and the external credit.\<close>

lemma payment_entered:
  assumes ent: "enter_payment e p f ev actor why kvs db = Inr db2"
    and ev: "\<not> submission_event ev" and f: "find_filing db (fe_id f) = Some f"
  obtains t u where "payments db2 = payments db @ [p]" and "\<not> payment_conflict p db"
    and "transactions db2 = transactions db @ [t]" and "tx_event t = ev" and "case_types db2 = case_types db"
    and "find_filing db2 (fe_id f) = Some ((paid_filing p f)\<lparr>fe_updated_at := u\<rparr>)"
    and "documents db2 = documents db"
proof -
  from ent obtain db1 t where ins: "insert_payment p db = Inr db1"
    and rec: "record_transaction e (paid_filing p f) ev actor why None kvs (save_filing e (paid_filing p f) db1) = Inr (t, db2)"
    by (auto simp: enter_payment_def then_do_Inr_iff)
  have db1: "db1 = payments_update (\<lambda>ps. ps @ [p]) db" "\<not> payment_conflict p db"
    using ins by (auto simp: insert_payment_def split: if_splits)
  have "find_filing db1 (fe_id (paid_filing p f)) = Some f"
    using f db1(1) by (simp add: find_filing_def paid_filing_def)
  then obtain u where "find_filing (save_filing e (paid_filing p f) db1) (fe_id (paid_filing p f))
      = Some ((paid_filing p f)\<lparr>fe_updated_at := u\<rparr>)" by (rule save_then_find)
  moreover have "fe_id (paid_filing p f) = fe_id f" by (simp add: paid_filing_def)
  ultimately show ?thesis
    using record_transaction_frame [OF rec] db1 ev by (intro that [of t u]) simp_all
qed

definition same_payments :: "db \<Rightarrow> db \<Rightarrow> bool" where
  "same_payments db db' \<longleftrightarrow> payments db' = payments db \<and> transactions db' = transactions db
     \<and> case_types db' = case_types db \<and> find_filing db' = find_filing db \<and> documents db' = documents db"

lemma same_payments_log [simp]: "same_payments db (log_payment e u a pid d db)"
  by (simp add: same_payments_def)

lemma process_payment_Inr:
  assumes "process_payment e db r uid = Inr (p, db')"
  obtains f s kvs db2 where "find_filing db (pr_envelope r) = Some f" and "fe_filer f = uid"
    and "fee_state_of e db f (Some uid) = Inr s" and "check_payment r s = Inr ()"
    and "simulated_payment e db (pr_amount r) (pr_method r) uid (fe_id f) (basis_json s)
      (Some (''Filing #'' @ dec (pr_envelope r))) = Inr p"
    and "enter_payment e p f ''payment_recorded'' uid None kvs db = Inr db2" and "same_payments db2 db'"
  using assms unfolding process_payment_def
  by (auto simp: then_do_Inr_iff split: option.splits if_splits sum.splits intro: that)

lemma enter_credit_Inr:
  assumes "enter_credit e db f actor r key s = Inr (p, db')"
  obtains kvs db2 where "p = credit_payment e db f actor r key s"
    and "fe_payment_version f = cr_payment_version r"
    and "enter_payment e p f ''fee_payment_recorded'' (us_id actor) (Some (cr_reason r)) kvs db = Inr db2"
    and "same_payments db2 db'"
  using assms unfolding enter_credit_def Let_def
  by (auto simp: then_do_Inr_iff split: if_splits intro: that)

lemma record_external_payment_cases:
  assumes "record_external_payment e db fid r key uid = Inr (p, db')"
  obtains (replayed) "p \<in> set (payments db)" "py_request_key p = Some key" "py_envelope p = Some fid" "db' = db"
    | (entered) f actor s where "lock_payment_filing e db fid uid = Inr (f, actor)"
        "\<forall>q \<in> set (payments db). py_request_key q \<noteq> Some key" "cr_received_at r \<le> now e"
        "fee_state_of e db f (Some (us_id actor)) = Inr s" "check_credit e r s = Inr ()"
        "enter_credit e db f actor r key s = Inr (p, db')"
proof -
  from assms obtain f actor where lock: "lock_payment_filing e db fid uid = Inr (f, actor)"
    by (auto simp: record_external_payment_def elim!: then_do_InrE)
  show ?thesis
  proof (cases "List.find (\<lambda>p. py_request_key p = Some key) (payments db)")
    case (Some q)
    with assms lock have "p = q \<and> db' = db \<and> py_envelope q = Some fid"
      by (auto simp: record_external_payment_def split: if_splits)
    with Some show ?thesis by (auto simp: find_Some_iff intro: replayed)
  next
    case None
    with assms lock obtain s where "cr_received_at r \<le> now e" "fee_state_of e db f (Some (us_id actor)) = Inr s"
      "check_credit e r s = Inr ()" "enter_credit e db f actor r key s = Inr (p, db')"
      by (auto simp: record_external_payment_def then_do_Inr_iff not_less split: if_splits)
    with None lock show ?thesis by (intro entered) (auto simp: find_None_iff)
  qed
qed

lemma lock_payment_filing_Inr:
  assumes "lock_payment_filing e db fid uid = Inr (f, actor)"
  shows "find_filing db fid = Some f" "us_id actor = uid" "uid \<noteq> fe_filer f"
    "has_court_administrator_assignment db uid (fe_court f)" "st_external_payments (cfg e)"
    "find_user db uid = Some actor" "us_active actor"
proof -
  from assms have lock: "find_user db uid = Some actor" "us_active actor" and f: "find_filing db fid = Some f"
    and ok: "us_id actor \<noteq> fe_filer f" "has_court_administrator_assignment db (us_id actor) (fe_court f)"
      "st_external_payments (cfg e)"
    by (auto simp: lock_payment_filing_def then_do_Inr_iff lock_current_user_Inr split: option.splits if_splits)
  moreover have "us_id actor = uid" using lock(1) by (rule find_user_id)
  ultimately show "find_filing db fid = Some f" "us_id actor = uid" "uid \<noteq> fe_filer f"
    "has_court_administrator_assignment db uid (fe_court f)" "st_external_payments (cfg e)"
    "find_user db uid = Some actor" "us_active actor" by auto
qed

lemma reverse_cases:
  assumes "reverse_external_payment e db fid pid expected reason uid = Inr (p', db')"
  obtains (already) "p' \<in> set (payments db)" "py_id p' = pid" "py_envelope p' = Some fid"
      "py_status p' = PayReversed" "db' = db"
    | (reversed) f actor p t u where "lock_payment_filing e db fid uid = Inr (f, actor)" "p \<in> set (payments db)"
        "py_id p = pid" "py_envelope p = Some fid" "py_request_key p \<noteq> None" "py_status p = PayCompleted"
        "fe_payment_version f = expected" "p' = p\<lparr>py_status := PayReversed\<rparr>"
        "payments db' = upd_row py_id pid (\<lambda>_. p') (payments db)"
        "transactions db' = transactions db @ [t]" "tx_event t = ''fee_payment_reversed''"
        "case_types db' = case_types db"
        "find_filing db' fid = Some (f\<lparr>fe_payment_version := fe_payment_version f + 1, fe_updated_at := u\<rparr>)"
proof -
  from assms obtain f actor p where lock: "lock_payment_filing e db fid uid = Inr (f, actor)"
    and p: "List.find (\<lambda>p. py_id p = pid \<and> py_envelope p = Some fid \<and> py_request_key p \<noteq> None) (payments db) = Some p"
    by (auto simp: reverse_external_payment_def then_do_Inr_iff split: option.splits)
  have pm: "p \<in> set (payments db)" "py_id p = pid" "py_envelope p = Some fid" "py_request_key p \<noteq> None"
    using p by (auto simp: find_Some_iff)
  show ?thesis
  proof (cases "py_status p = PayReversed")
    case True
    with assms lock p have "p' = p" "db' = db" by (simp_all add: reverse_external_payment_def)
    with True pm show ?thesis by (intro already) simp_all
  next
    case False
    let ?f = "f\<lparr>fe_payment_version := fe_payment_version f + 1\<rparr>"
    have f: "find_filing db fid = Some f" "fe_id f = fid"
      using lock_payment_filing_Inr(1) [OF lock] find_filing_id by auto
    from assms lock p False obtain db1 t db2 kvs where st: "py_status p = PayCompleted" "fe_payment_version f = expected"
      and upd: "update_payment p (p\<lparr>py_status := PayReversed\<rparr>) (save_filing e ?f db) = Inr db1"
      and rec: "record_transaction e ?f ''fee_payment_reversed'' (us_id actor) (Some reason) None kvs db1 = Inr (t, db2)"
      and res: "p' = p\<lparr>py_status := PayReversed\<rparr>" "same_payments db2 db'"
      unfolding reverse_external_payment_def Let_def
      by (auto simp: then_do_Inr_iff split: if_splits)
    have db1: "db1 = payments_update (upd_row py_id (py_id p) (\<lambda>_. p')) (save_filing e ?f db)"
      using upd res(1) by (simp add: update_payment_def split: if_splits)
    obtain u where "find_filing (save_filing e ?f db) fid = Some (?f\<lparr>fe_updated_at := u\<rparr>)"
      using save_then_find [of db ?f f e] f by (metis envelope.select_convs(1) envelope.surjective envelope.update_convs(18))
    then have "find_filing db1 fid = Some (?f\<lparr>fe_updated_at := u\<rparr>)" by (simp add: db1 find_filing_def)
    then show ?thesis using lock pm st res db1 record_transaction_frame [OF rec]
      by (intro reversed [of f actor p t u]) (simp_all add: same_payments_def)
  qed
qed

section \<open>Credits and the fee state\<close>

lemma check_credit_Inr:
  "check_credit e r s = Inr () \<longleftrightarrow> cr_fee_version r = fs_version s \<and> cr_payment_version r = fs_payment_version s
     \<and> fs_can_record_external s \<and> (\<exists>b. fs_balance s = Some b \<and> cr_amount r \<le> b)"
  by (auto simp: check_credit_def not_less split: if_splits)

section \<open>Receipts and evidence over any history\<close>

text \<open>The three operations on payments, and any other step of the system, which leaves the payments
  table alone.\<close>

inductive payment_step :: "db \<Rightarrow> db \<Rightarrow> bool" where
  Pay: "fresh_keys e \<Longrightarrow> process_payment e db r uid = Inr (p, db') \<Longrightarrow> payment_step db db'"
| Credit: "fresh_keys e \<Longrightarrow> record_external_payment e db fid c key uid = Inr (p, db') \<Longrightarrow> payment_step db db'"
| Reverse: "reverse_external_payment e db fid pid v why uid = Inr (p, db') \<Longrightarrow> payment_step db db'"
| Other: "payments db' = payments db \<Longrightarrow> payment_step db db'"

definition active_receipts :: "db \<Rightarrow> string list" where
  "active_receipts db = map (\<lambda>p. the (py_receipt_key p))
     (filter (\<lambda>p. py_status p = PayCompleted \<and> py_receipt_key p \<noteq> None) (payments db))"

definition used_keys :: "db \<Rightarrow> string list" where
  "used_keys db = map (\<lambda>p. the (py_request_key p)) (filter (\<lambda>p. py_request_key p \<noteq> None) (payments db))"

definition payments_ok :: "db \<Rightarrow> bool" where
  "payments_ok db \<longleftrightarrow> unique_key py_id (payments db) \<and> distinct (active_receipts db) \<and> distinct (used_keys db)"

lemma payment_appended_ok:
  assumes "payments_ok db" and "payments db' = payments db @ [p]" and "\<not> payment_conflict p db"
    and "py_id p \<notin> py_id ` set (payments db)"
  shows "payments_ok db'"
  using assms
  by (auto simp: payments_ok_def active_receipts_def used_keys_def payment_conflict_def unique_key_append)

lemma new_payment_id_fresh: "fresh_keys e \<Longrightarrow> new_payment_id e db \<notin> py_id ` set (payments db)"
  by (auto simp: fresh_keys_def new_payment_id_def dest: spec [of _ "map py_id (payments db)"])

lemma enter_payment_ok:
  assumes "enter_payment e p f ev actor why kvs db = Inr db2" and "same_payments db2 db'"
    and "payments_ok db" and "py_id p \<notin> py_id ` set (payments db)"
  shows "payments_ok db' \<and> payments db' = payments db @ [p]"
proof -
  from assms(1) obtain db1 t where ins: "insert_payment p db = Inr db1"
    and rec: "record_transaction e (paid_filing p f) ev actor why None kvs (save_filing e (paid_filing p f) db1) = Inr (t, db2)"
    by (auto simp: enter_payment_def then_do_Inr_iff)
  have c: "\<not> payment_conflict p db" and "payments db1 = payments db @ [p]"
    using ins by (auto simp: insert_payment_def split: if_splits)
  then have "payments db' = payments db @ [p]"
    using record_transaction_frame(3) [OF rec] assms(2) by (simp add: same_payments_def)
  with payment_appended_ok [OF assms(3) this c assms(4)] show ?thesis by simp
qed

lemma upd_row_Cons [simp]:
  "upd_row k i g (x # rows) = (if k x = i then g x else x) # upd_row k i g rows"
  by (simp add: upd_row_def)

lemma upd_row_Nil [simp]: "upd_row k i g [] = []"
  by (simp add: upd_row_def)

lemma distinct_filter_upd:
  assumes "\<not> P r" and "distinct (map g (filter P rows))"
  shows "distinct (map g (filter P (upd_row k i (\<lambda>_. r) rows)))
    \<and> set (map g (filter P (upd_row k i (\<lambda>_. r) rows))) \<subseteq> set (map g (filter P rows))"
  using assms(2)
proof (induction rows)
  case (Cons x rows)
  from Cons.prems have "distinct (map g (filter P rows))" by (simp split: if_splits)
  note ih = Cons.IH [OF this]
  show ?case
  proof (cases "k x = i")
    case True
    with ih assms(1) show ?thesis by auto
  next
    case False
    show ?thesis
    proof (cases "P x")
      case True
      with False Cons.prems have "g x \<notin> set (map g (filter P rows))" by simp
      with ih have "g x \<notin> set (map g (filter P (upd_row k i (\<lambda>_. r) rows)))" by blast
      with True False ih show ?thesis by auto
    qed (use False ih in simp)
  qed
qed simp

lemma same_key_same_row:
  "unique_key k rows \<Longrightarrow> p \<in> set rows \<Longrightarrow> q \<in> set rows \<Longrightarrow> k q = k p \<Longrightarrow> q = p"
  using row_at_unique [of k rows p] row_at_unique [of k rows q] by simp

lemma map_upd_row_same:
  assumes "p \<in> set rows" and "unique_key k rows" and "h (g p) = h p"
  shows "map h (upd_row k (k p) (\<lambda>_. g p) rows) = map h rows"
  unfolding upd_row_def map_map o_def
proof (rule map_cong [OF refl])
  fix x assume x: "x \<in> set rows"
  show "h (if k x = k p then g p else x) = h x"
  proof (cases "k x = k p")
    case True
    with same_key_same_row [OF assms(2,1) x] assms(3) show ?thesis by simp
  qed simp
qed

lemma payment_step_keeps:
  assumes "payment_step db db'" and "payments_ok db"
  shows "payments_ok db' \<and> (\<forall>p \<in> set (payments db). py_request_key p \<noteq> None \<longrightarrow>
    p \<in> set (payments db') \<or> py_status p = PayCompleted \<and> p\<lparr>py_status := PayReversed\<rparr> \<in> set (payments db'))"
  using assms
proof (induction rule: payment_step.induct)
  case (Pay e db r uid p db')
  from Pay.hyps(2) show ?case
  proof (rule process_payment_Inr)
    fix f s kvs db2
    assume p: "simulated_payment e db (pr_amount r) (pr_method r) uid (fe_id f) (basis_json s)
        (Some (''Filing #'' @ dec (pr_envelope r))) = Inr p"
      and ent: "enter_payment e p f ''payment_recorded'' uid None kvs db = Inr db2" "same_payments db2 db'"
    have "py_id p = new_payment_id e db"
      using p by (auto simp: simulated_payment_def split: if_splits)
    with enter_payment_ok [OF ent Pay.prems] new_payment_id_fresh [OF Pay.hyps(1)] show ?case by simp
  qed
next
  case (Credit e db fid c key uid p db')
  from Credit.hyps(2) show ?case
  proof (cases rule: record_external_payment_cases)
    case replayed
    with Credit.prems show ?thesis by simp
  next
    case (entered f actor s)
    from entered(6) obtain kvs db2 where p: "p = credit_payment e db f actor c key s"
      and ent: "enter_payment e p f ''fee_payment_recorded'' (us_id actor) (Some (cr_reason c)) kvs db = Inr db2"
        "same_payments db2 db'" by (rule enter_credit_Inr)
    have "py_id p = new_payment_id e db" using p by (simp add: credit_payment_def)
    with enter_payment_ok [OF ent Credit.prems] new_payment_id_fresh [OF Credit.hyps(1)] show ?thesis by simp
  qed
next
  case (Reverse e db fid pid v why uid p' db')
  from Reverse.hyps show ?case
  proof (cases rule: reverse_cases)
    case already
    with Reverse.prems show ?thesis by simp
  next
    case (reversed f actor p t u)
    have u: "unique_key py_id (payments db)" using Reverse.prems by (simp add: payments_ok_def)
    have upd: "payments db' = upd_row py_id (py_id p) (\<lambda>_. p\<lparr>py_status := PayReversed\<rparr>) (payments db)"
      using reversed by simp
    have "unique_key py_id (payments db')" using u by (simp add: upd unique_key_upd_row)
    moreover have "distinct (active_receipts db')"
      unfolding active_receipts_def upd
      by (rule distinct_filter_upd [THEN conjunct1]) (use Reverse.prems in \<open>simp_all add: payments_ok_def active_receipts_def\<close>)
    moreover have "used_keys db' = used_keys db"
    proof -
      have "map py_request_key (payments db') = map py_request_key (payments db)"
        unfolding upd by (rule map_upd_row_same [OF reversed(2) u]) simp
      moreover have "used_keys d = map the (filter (\<lambda>k. k \<noteq> None) (map py_request_key (payments d)))" for d
        by (simp add: used_keys_def filter_map o_def)
      ultimately show ?thesis by simp
    qed
    moreover have "q \<in> set (payments db') \<or> py_status q = PayCompleted
        \<and> q\<lparr>py_status := PayReversed\<rparr> \<in> set (payments db')" if "q \<in> set (payments db)" for q
    proof (cases "py_id q = py_id p")
      case True
      with same_key_same_row [OF u reversed(2) that] have "q = p" by simp
      with reversed(2,6) show ?thesis by (auto simp: upd set_upd_row)
    qed (use that in \<open>auto simp: upd set_upd_row\<close>)
    ultimately show ?thesis using Reverse.prems by (auto simp: payments_ok_def)
  qed
next
  case (Other db' db)
  then show ?case by (simp add: payments_ok_def active_receipts_def used_keys_def)
qed

lemma payment_run_keeps:
  assumes "payment_step\<^sup>*\<^sup>* db db'" and "payments_ok db"
  shows "payments_ok db' \<and> (\<forall>p \<in> set (payments db). py_request_key p \<noteq> None \<longrightarrow>
    p \<in> set (payments db') \<or> py_status p = PayCompleted \<and> p\<lparr>py_status := PayReversed\<rparr> \<in> set (payments db'))"
  using assms
proof (induction rule: rtranclp_induct)
  case base
  then show ?case by simp
next
  case (step d d')
  then have ok: "payments_ok d" by simp
  note keep = payment_step_keeps [OF step.hyps(2) ok]
  show ?case
  proof (intro conjI ballI impI)
    show "payments_ok d'" using keep by simp
  next
    fix p assume p: "p \<in> set (payments db)" "py_request_key p \<noteq> None"
    with step.IH [OF step.prems] consider "p \<in> set (payments d)"
      | "py_status p = PayCompleted" "p\<lparr>py_status := PayReversed\<rparr> \<in> set (payments d)" by blast
    then show "p \<in> set (payments d') \<or> py_status p = PayCompleted \<and> p\<lparr>py_status := PayReversed\<rparr> \<in> set (payments d')"
    proof cases
      case 1
      with keep p(2) show ?thesis by blast
    next
      case 2
      have "py_request_key (p\<lparr>py_status := PayReversed\<rparr>) \<noteq> None"
        and "py_status (p\<lparr>py_status := PayReversed\<rparr>) \<noteq> PayCompleted" using p(2) by simp_all
      with keep 2 show ?thesis by blast
    qed
  qed
qed

section \<open>An example\<close>

definition admin_user :: user where
  "admin_user = example_participant_user\<lparr>us_id := 4, us_type := ClerkUser\<rparr>"

definition credit_db :: db where
  "credit_db = denied_db\<lparr>users := [example_participant_user, admin_user],
     court_roles := [\<lparr>ur_id = 1, ur_user = 4, ur_court = 3, ur_role = AdminRole\<rparr>]\<rparr>"

definition credit_example :: credit_request where
  "credit_example = \<lparr>cr_fee_version = 0, cr_payment_version = 0, cr_amount = 17500, cr_system = ''POS'',
     cr_reference = ''r1'', cr_received_at = 0, cr_reason = ''paid''\<rparr>"

definition credited :: "payment \<times> db" where
  "credited = (case record_external_payment example_env credit_db 5 credit_example ''k'' 4 of
     Inr r \<Rightarrow> r | Inl _ \<Rightarrow> (undefined, credit_db))"

lemma credited_run: "record_external_payment example_env credit_db 5 credit_example ''k'' 4 = Inr (fst credited, snd credited)"
proof -
  have "case record_external_payment example_env credit_db 5 credit_example ''k'' 4 of Inr r \<Rightarrow> True | _ \<Rightarrow> False"
    by code_simp
  then show ?thesis by (auto simp: credited_def split: sum.splits)
qed

definition filer_user :: user where
  "filer_user = example_participant_user\<lparr>us_id := 9\<rparr>"

definition payer_db :: db where
  "payer_db = denied_db\<lparr>users := [filer_user]\<rparr>"

definition pay_example :: payment_request where
  "pay_example = \<lparr>pr_envelope = 5, pr_fee_version = 0, pr_method = Ach, pr_amount = 17500\<rparr>"

lemma paid_run: "\<exists>p d. process_payment example_env payer_db pay_example 9 = Inr (p, d)"
proof -
  have "case process_payment example_env payer_db pay_example 9 of Inr r \<Rightarrow> True | _ \<Rightarrow> False"
    by code_simp
  then show ?thesis by (auto split: sum.splits)
qed

section \<open>Properties\<close>

text \<open>C8: a new credit is made by an active administrator of the court other than the filer, against a
  court-assessed or waiver-decided amount and never above what is due; afterwards the filing is
  governed by the same total, exactly the credit has been added to what is paid, the balance has
  fallen by it and nothing is overpaid.\<close>
theorem credit_settles:
  assumes "record_external_payment e db fid r key uid = Inr (p, db')"
    and "\<forall>q \<in> set (payments db). py_request_key q \<noteq> Some key" and "0 < cr_amount r"
  shows "\<exists>f f' s s' owed. find_filing db fid = Some f \<and> uid \<noteq> fe_filer f
    \<and> has_court_administrator_assignment db uid (fe_court f)
    \<and> fee_state_of e db f (Some uid) = Inr s \<and> fs_source s \<in> {CourtFee, WaiverFee}
    \<and> fs_balance s = Some owed \<and> cr_amount r \<le> owed
    \<and> find_filing db' fid = Some f' \<and> fe_payment_version f' = fe_payment_version f + 1
    \<and> fe_payment_version f = cr_payment_version r
    \<and> fee_state_of e db' f' (Some uid) = Inr s' \<and> fs_total s' = fs_total s
    \<and> fs_paid s' = fs_paid s + cr_amount r \<and> fs_balance s' = Some (owed - cr_amount r)
    \<and> fs_overpaid s' = 0"
  using assms(1)
proof (cases rule: record_external_payment_cases)
  case replayed
  with assms(2) show ?thesis by blast
next
  case (entered f actor s)
  note lock = lock_payment_filing_Inr [OF entered(1)]
  have id: "fe_id f = fid" using lock(1) by (rule find_filing_id)
  from entered(6) obtain kvs db2 where p: "p = credit_payment e db f actor r key s"
    and v: "fe_payment_version f = cr_payment_version r"
    and ent: "enter_payment e p f ''fee_payment_recorded'' (us_id actor) (Some (cr_reason r)) kvs db = Inr db2"
    and same: "same_payments db2 db'" by (rule enter_credit_Inr)
  from ent obtain t u where eff: "payments db2 = payments db @ [p]" "transactions db2 = transactions db @ [t]"
    "tx_event t = ''fee_payment_recorded''" "case_types db2 = case_types db"
    "find_filing db2 (fe_id f) = Some ((paid_filing p f)\<lparr>fe_updated_at := u\<rparr>)"
    by (rule payment_entered) (use lock(1) id in \<open>simp_all add: submission_event_def\<close>)
  let ?g = "(paid_filing p f)\<lparr>fe_updated_at := u\<rparr>"
  obtain owed where owed: "fs_balance s = Some owed" "cr_amount r \<le> owed" "fs_can_record_external s"
    using entered(5) by (auto simp: check_credit_Inr)
  have counts: "counts_as_paid e f p" "py_amount p = cr_amount r"
    using p assms(3) id by (simp_all add: counts_as_paid_def credit_payment_def)
  have "paid_cents e db' ?g = paid_cents e db f + cr_amount r"
    using paid_cents_appended [of db' db p f ?g e] eff(1) same counts by (simp add: same_payments_def)
  then obtain s' where s': "fee_state_of e db' ?g (Some uid) = Inr s'" "fs_total s' = fs_total s"
    "fs_paid s' = fs_paid s + cr_amount r"
    using fee_state_paid [OF entered(4) same_fees_paid [of f u p], where db' = db' and t = t and x = "cr_amount r"] eff same lock(2)
    by (auto simp: same_payments_def)
  have bal: "fs_balance s = map_option (\<lambda>t. max 0 (t - fs_paid s)) (fs_total s)"
    "fs_balance s' = map_option (\<lambda>t. max 0 (t - fs_paid s')) (fs_total s')"
    "fs_overpaid s' = (case fs_total s' of None \<Rightarrow> 0 | Some t \<Rightarrow> max 0 (fs_paid s' - t))"
    by (fact fee_state_figures [OF entered(4)] fee_state_figures [OF s'(1)])+
  obtain total where total: "fs_total s = Some total" "owed = max 0 (total - fs_paid s)"
    using bal(1) owed(1) by (cases "fs_total s") auto
  have "fs_balance s' = Some (owed - cr_amount r) \<and> fs_overpaid s' = 0"
    using bal(2,3) s'(2,3) total owed(2) assms(3) by auto
  then have after: "fs_balance s' = Some (owed - cr_amount r)" "fs_overpaid s' = 0" by blast+
  have st: "fee_state_of e db f (Some uid) = Inr s" using entered(4) lock(2) by simp
  have found: "find_filing db' fid = Some ?g" using eff(5) same id by (simp add: same_payments_def)
  have version: "fe_payment_version ?g = fe_payment_version f + 1" by (simp add: paid_filing_def)
  have source: "fs_source s \<in> {CourtFee, WaiverFee}"
    using fee_state_can_record [OF entered(4) owed(3)] by blast
  show ?thesis
    by (intro exI [of _ f] exI [of _ ?g] exI [of _ s] exI [of _ s'] exI [of _ owed] conjI
        lock(1,3,4) st source owed(1,2) found version v s' after)
qed

theorem credit_settles_witness:
  "\<exists>f' s'. find_filing (snd credited) 5 = Some f' \<and> fee_state_of example_env (snd credited) f' (Some 4) = Inr s'
     \<and> fs_overpaid s' = 0"
proof -
  have "\<forall>q \<in> set (payments credit_db). py_request_key q \<noteq> Some ''k''"
    by (simp add: credit_db_def denied_db_def example_court_db_def empty_db_def)
  with credit_settles [OF credited_run] show ?thesis by (auto simp: credit_example_def)
qed

text \<open>A payment by the filer goes through only in demonstration mode and only for exactly what is
  due under the fee record the filer saw; it settles the obligation: nothing is due and nothing is
  overpaid afterwards, under the same total.\<close>
theorem payment_settles:
  assumes "process_payment e db r uid = Inr (p, db')" and "0 < pr_amount r"
  shows "\<exists>f f' s s'. find_filing db (pr_envelope r) = Some f \<and> fe_filer f = uid
    \<and> st_allow_demo (cfg e) \<and> st_payments_simulated (cfg e) \<and> fe_fee_version f = pr_fee_version r
    \<and> fee_state_of e db f (Some uid) = Inr s \<and> fs_balance s = Some (pr_amount r)
    \<and> find_filing db' (pr_envelope r) = Some f' \<and> fe_payment f' = Some (py_id p)
    \<and> fe_payment_version f' = fe_payment_version f + 1
    \<and> fee_state_of e db' f' (Some uid) = Inr s' \<and> fs_total s' = fs_total s
    \<and> fs_balance s' = Some 0 \<and> fs_overpaid s' = 0 \<and> fs_obligation_met s'"
  using assms(1)
proof (rule process_payment_Inr)
  fix f s kvs db2
  assume f: "find_filing db (pr_envelope r) = Some f" "fe_filer f = uid"
    and s: "fee_state_of e db f (Some uid) = Inr s" and chk: "check_payment r s = Inr ()"
    and p: "simulated_payment e db (pr_amount r) (pr_method r) uid (fe_id f) (basis_json s)
      (Some (''Filing #'' @ dec (pr_envelope r))) = Inr p"
    and ent: "enter_payment e p f ''payment_recorded'' uid None kvs db = Inr db2" and same: "same_payments db2 db'"
  have id: "fe_id f = pr_envelope r" using f(1) by (rule find_filing_id)
  have demo: "st_allow_demo (cfg e)" "st_payments_simulated (cfg e)"
    and pf: "py_envelope p = Some (fe_id f)" "py_status p = PayCompleted" "py_payer p = Some uid" "py_amount p = pr_amount r"
    using p by (auto simp: simulated_payment_def split: if_splits)
  from ent obtain t u where eff: "payments db2 = payments db @ [p]" "transactions db2 = transactions db @ [t]"
    "tx_event t = ''payment_recorded''" "case_types db2 = case_types db"
    "find_filing db2 (fe_id f) = Some ((paid_filing p f)\<lparr>fe_updated_at := u\<rparr>)"
    by (rule payment_entered) (use f(1) id in \<open>simp_all add: submission_event_def\<close>)
  let ?g = "(paid_filing p f)\<lparr>fe_updated_at := u\<rparr>"
  have bal0: "fs_balance s = Some (pr_amount r)" "fs_version s = pr_fee_version r"
    using chk by (auto simp: check_payment_def split: if_splits option.splits)
  have "counts_as_paid e f p" using pf f(2) assms(2) demo by (simp add: counts_as_paid_def)
  then have "paid_cents e db' ?g = paid_cents e db f + pr_amount r"
    using paid_cents_appended [of db' db p f ?g e] eff(1) same pf by (simp add: same_payments_def)
  then obtain s' where s': "fee_state_of e db' ?g (Some uid) = Inr s'" "fs_total s' = fs_total s"
    "fs_paid s' = fs_paid s + pr_amount r"
    using fee_state_paid [OF s same_fees_paid [of f u p], where db' = db' and t = t and x = "pr_amount r"] eff same
    by (auto simp: same_payments_def)
  obtain total where total: "fs_total s = Some total" "pr_amount r = max 0 (total - fs_paid s)"
    using fee_state_figures(1) [OF s] bal0(1) by (cases "fs_total s") auto
  have "fs_balance s' = Some 0 \<and> fs_overpaid s' = 0"
    using fee_state_figures [OF s'(1)] s'(2,3) total assms(2) by auto
  moreover from this have "fs_obligation_met s'" using fee_state_fields(5) [OF s'(1)] by simp
  ultimately show ?thesis
    using f demo bal0 s s' eff(5) same id fee_state_fields(1) [OF s]
    by (intro exI [of _ f] exI [of _ ?g] exI [of _ s] exI [of _ s'])
      (simp add: same_payments_def paid_filing_def)
qed

theorem payment_settles_witness:
  "\<exists>d f' s'. find_filing d 5 = Some f' \<and> fee_state_of example_env d f' (Some 9) = Inr s'
     \<and> fs_obligation_met s' \<and> fs_balance s' = Some 0"
proof -
  obtain p d where r: "process_payment example_env payer_db pay_example 9 = Inr (p, d)"
    using paid_run by blast
  from payment_settles [OF r] show ?thesis by (auto simp: pay_example_def)
qed

text \<open>C14: over any history of payments, credits, reversals and other steps, a receipt is credited at
  most once at a time (no two completed payments carry the same receipt key), a request key is
  used once, and every external payment stays: its row is kept as it was or, from completed, with
  only its status changed to reversed.\<close>
theorem receipts_and_evidence:
  assumes "payment_step\<^sup>*\<^sup>* db db'" and "payments_ok db"
  shows "distinct (active_receipts db') \<and> distinct (used_keys db')
    \<and> (\<forall>p \<in> set (payments db). py_request_key p \<noteq> None \<longrightarrow>
         p \<in> set (payments db')
         \<or> py_status p = PayCompleted \<and> p\<lparr>py_status := PayReversed\<rparr> \<in> set (payments db'))"
  using payment_run_keeps [OF assms] by (simp add: payments_ok_def)

lemma credit_db_ok: "payments_ok credit_db"
  by (simp add: payments_ok_def credit_db_def denied_db_def example_court_db_def empty_db_def unique_key_def
      active_receipts_def used_keys_def)

theorem receipts_and_evidence_witness:
  "distinct (active_receipts (snd credited)) \<and> used_keys (snd credited) = [''k'']"
proof -
  have "payment_step\<^sup>*\<^sup>* credit_db (snd credited)"
    using payment_step.Credit [OF example_env_fresh credited_run] by blast
  moreover have "used_keys (snd credited) = [''k'']" by code_simp
  ultimately show ?thesis using receipts_and_evidence [OF _ credit_db_ok] by blast
qed

text \<open>Entering a credit can be repeated safely: the same administrator sending the same request
  under the same key again, in any later state that still has the row and for which the request
  is still admitted, gets the recorded payment back and changes nothing.\<close>
theorem credit_replayed:
  assumes "record_external_payment e db fid r key uid = Inr (p, db')"
    and "\<forall>q \<in> set (payments db). py_request_key q \<noteq> Some key"
    and "payments_ok db1" and "p \<in> set (payments db1)" and "digest e' = digest e"
    and "lock_payment_filing e' db1 fid uid = Inr (f1, actor1)"
  shows "record_external_payment e' db1 fid r key uid = Inr (p, db1)"
  using assms(1)
proof (cases rule: record_external_payment_cases)
  case replayed
  with assms(2) show ?thesis by blast
next
  case (entered f actor s)
  have id: "fe_id f = fid" "us_id actor = uid" "us_id actor1 = uid"
    using lock_payment_filing_Inr [OF entered(1)] lock_payment_filing_Inr [OF assms(6)] find_filing_id by auto
  from entered(6) have p: "p = credit_payment e db f actor r key s" by (rule enter_credit_Inr)
  have fp: "credit_fingerprint e' fid uid r = credit_fingerprint e fid uid r"
    using assms(5) by (simp add: credit_fingerprint_def)
  have "List.find (\<lambda>q. py_request_key q = Some key) (payments db1) = Some p"
  proof (cases "List.find (\<lambda>q. py_request_key q = Some key) (payments db1)")
    case None
    with assms(4) p show ?thesis by (auto simp: find_None_iff credit_payment_def)
  next
    case (Some q)
    then have q: "q \<in> set (payments db1)" "py_request_key q = Some key" by (auto simp: find_Some_iff)
    have "inj_on (\<lambda>p. the (py_request_key p)) (set (filter (\<lambda>p. py_request_key p \<noteq> None) (payments db1)))"
      using assms(3) by (simp add: payments_ok_def used_keys_def distinct_map)
    with q assms(4) p have "q = p" by (auto simp: inj_on_def credit_payment_def)
    with Some show ?thesis by simp
  qed
  moreover have "py_envelope p = Some fid"
    "Option.bind (py_receipt p) (jget ''request_sha256'') = Some (JStr (credit_fingerprint e fid uid r))"
    using p id by (simp_all add: credit_payment_def receipt_json_def jget_def)
  ultimately show ?thesis
    using assms(6) id by (simp add: record_external_payment_def fp)
qed

lemma credited_member: "fst credited \<in> set (payments (snd credited))"
proof -
  have none: "\<forall>q \<in> set (payments credit_db). py_request_key q \<noteq> Some ''k''"
    by (simp add: credit_db_def denied_db_def example_court_db_def empty_db_def)
  show ?thesis
    using credited_run
  proof (cases rule: record_external_payment_cases)
    case replayed
    with none show ?thesis by blast
  next
    case (entered f actor s)
    from entered(6) obtain kvs db2 where "enter_payment example_env (fst credited) f ''fee_payment_recorded''
        (us_id actor) (Some (cr_reason credit_example)) kvs credit_db = Inr db2" "same_payments db2 (snd credited)"
      by (rule enter_credit_Inr)
    moreover have "py_id (fst credited) \<notin> py_id ` set (payments credit_db)"
      by (simp add: credit_db_def denied_db_def example_court_db_def empty_db_def)
    ultimately show ?thesis using enter_payment_ok credit_db_ok by fastforce
  qed
qed

theorem credit_replayed_witness:
  "record_external_payment example_env (snd credited) 5 credit_example ''k'' 4
     = Inr (fst credited, snd credited)"
proof -
  have none: "\<forall>q \<in> set (payments credit_db). py_request_key q \<noteq> Some ''k''"
    by (simp add: credit_db_def denied_db_def example_court_db_def empty_db_def)
  have ok: "payments_ok (snd credited)"
    using payment_step_keeps [OF payment_step.Credit [OF example_env_fresh credited_run] credit_db_ok] by blast
  have "case lock_payment_filing example_env (snd credited) 5 4 of Inr _ \<Rightarrow> True | _ \<Rightarrow> False" by code_simp
  then obtain f a where lock: "lock_payment_filing example_env (snd credited) 5 4 = Inr (f, a)"
    by (auto split: sum.splits)
  from credit_replayed [OF credited_run none ok credited_member _ lock] show ?thesis by simp
qed

lemma sum_filter_upd:
  assumes "p \<in> set rows" and "unique_key k rows" and "P p" and "\<not> P q" and "k q = k p"
  shows "sum_list (map g (filter P (upd_row k (k p) (\<lambda>_. q) rows))) = sum_list (map g (filter P rows)) - (g p :: int)"
  using assms(1,2)
proof (induction rows)
  case (Cons x rows)
  show ?case
  proof (cases "k x = k p")
    case True
    then have x: "x = p" using same_key_same_row [OF Cons.prems(2,1)] by simp
    have "upd_row k (k p) (\<lambda>_. q) rows = rows"
      using Cons.prems(2) x by (auto simp: upd_row_def unique_key_def intro!: map_idI) (metis image_eqI)
    with x assms(3,4) show ?thesis by simp
  next
    case False
    with Cons show ?thesis by (auto simp: unique_key_def)
  qed
qed simp

text \<open>Reversing a credit takes exactly its amount out of what is paid, under the same total, and
  changes nothing else of the payment.\<close>
theorem reversal_restores:
  assumes "reverse_external_payment e db fid pid v why uid = Inr (p', db')" and "payments_ok db"
    and "p \<in> set (payments db)" and "py_id p = pid" and "py_status p = PayCompleted"
    and "find_filing db fid = Some f" and "counts_as_paid e f p"
    and "fee_state_of e db f (Some uid) = Inr s"
  shows "p' = p\<lparr>py_status := PayReversed\<rparr> \<and> v = fe_payment_version f
    \<and> (\<exists>f' s'. find_filing db' fid = Some f' \<and> fe_payment_version f' = fe_payment_version f + 1
         \<and> fee_state_of e db' f' (Some uid) = Inr s' \<and> fs_total s' = fs_total s
         \<and> fs_paid s' = fs_paid s - py_amount p)"
  using assms(1)
proof (cases rule: reverse_cases)
  case already
  have "p' = p"
    using same_key_same_row [of py_id "payments db" p p'] assms(2,3,4) already by (simp add: payments_ok_def)
  with already assms(5) show ?thesis by simp
next
  case (reversed f1 actor q t u)
  have f1: "f1 = f" using lock_payment_filing_Inr(1) [OF reversed(1)] assms(6) by simp
  have uk: "unique_key py_id (payments db)" using assms(2) by (simp add: payments_ok_def)
  have q: "q = p" using same_key_same_row [OF uk assms(3) reversed(2)] reversed(3) assms(4) by simp
  let ?g = "f\<lparr>fe_payment_version := fe_payment_version f + 1, fe_updated_at := u\<rparr>"
  have same: "same_fees f ?g" by (simp add: same_fees_def)
  have counts: "counts_as_paid e ?g = counts_as_paid e f" by (simp add: counts_as_paid_def fun_eq_iff)
  have "paid_cents e db' ?g = paid_cents e db f + (- py_amount p)"
    unfolding paid_cents_def counts
    using sum_filter_upd [OF assms(3) uk, of "counts_as_paid e f" "p\<lparr>py_status := PayReversed\<rparr>" py_amount]
      assms(4,7) reversed(8,9) q by (simp add: counts_as_paid_def)
  then obtain s' where "fee_state_of e db' ?g (Some uid) = Inr s'" "fs_total s' = fs_total s"
    "fs_paid s' = fs_paid s + (- py_amount p)"
    using fee_state_paid [OF assms(8) same, where db' = db' and t = t and x = "- py_amount p"] reversed(10-12)
    by auto
  then show ?thesis using reversed f1 q by auto
qed

lemma reversed_run:
  "\<exists>p d. reverse_external_payment example_env (snd credited) 5 (py_id (fst credited)) 1 ''wrong'' 4 = Inr (p, d)"
proof -
  have "case reverse_external_payment example_env (snd credited) 5 (py_id (fst credited)) 1 ''wrong'' 4 of
      Inr r \<Rightarrow> True | _ \<Rightarrow> False"
    by code_simp
  then show ?thesis by (auto split: sum.splits)
qed

theorem reversal_restores_witness:
  "\<exists>p d f' s'. reverse_external_payment example_env (snd credited) 5 (py_id (fst credited)) 1 ''wrong'' 4
       = Inr (p, d) \<and> py_status p = PayReversed
     \<and> find_filing d 5 = Some f' \<and> fee_state_of example_env d f' (Some 4) = Inr s'"
proof -
  obtain p d where r: "reverse_external_payment example_env (snd credited) 5 (py_id (fst credited)) 1 ''wrong'' 4
      = Inr (p, d)" using reversed_run by blast
  have ok: "payments_ok (snd credited)"
    using payment_step_keeps [OF payment_step.Credit [OF example_env_fresh credited_run] credit_db_ok] by blast
  have "py_status (fst credited) = PayCompleted" by code_simp
  moreover have "case find_filing (snd credited) 5 of None \<Rightarrow> False
      | Some f \<Rightarrow> counts_as_paid example_env f (fst credited)
          \<and> (case fee_state_of example_env (snd credited) f (Some 4) of Inr _ \<Rightarrow> True | _ \<Rightarrow> False)"
    by code_simp
  then obtain f s where "find_filing (snd credited) 5 = Some f" "counts_as_paid example_env f (fst credited)"
    "fee_state_of example_env (snd credited) f (Some 4) = Inr s"
    by (auto split: option.splits sum.splits)
  ultimately have "p = (fst credited)\<lparr>py_status := PayReversed\<rparr>"
    and "\<exists>f' s'. find_filing d 5 = Some f' \<and> fee_state_of example_env d f' (Some 4) = Inr s'"
    using reversal_restores [OF r ok credited_member refl] by blast+
  with r show ?thesis by auto
qed

end
