(* ===== verification/Orders.thy ===== *)
theory Orders
  imports FilingApi Review
begin

text \<open>
  Court orders entered with their signed document: decisions on a fee waiver request
  (\<open>api/fee_waivers.py\<close>) and orders of a filing date (\<open>api/filing_dates.py\<close>). Both name the
  version of the record they were made against, upload a PDF before the lock is taken and reclaim
  it when the order is refused after all.
\<close>

section \<open>Deciding a fee waiver\<close>

definition decidable_filing ::
    "env \<Rightarrow> db \<Rightarrow> int \<Rightarrow> int \<Rightarrow> waiver_action \<Rightarrow> int \<Rightarrow> failure + envelope" where
  "decidable_filing e db fid uid a v =
     (case find_filing db fid of
        None \<Rightarrow> Inl (Http 404 (Account Filing_not_found))
      | Some f \<Rightarrow>
          if \<not> is_court_staff db (Some uid) (fe_court f) then Inl (Http 403 (Fee Not_for_court))
          else if \<not> fe_waiver_requested f \<or> fe_waiver_granted f \<noteq> None
          then Inl (Http 409 (Fee No_undecided_waiver))
          else then_do (waiver_state_of e db f uid) (\<lambda>s.
            if a \<notin> set (ws_actions s) then Inl (Http 403 (Fee Waiver_role_required))
            else if fe_fee_version f \<noteq> v then Inl (Http 409 (Fee Waiver_changed))
            else Inr f))"

text \<open>The filing after the action; the amount applies to a denial.\<close>

definition decided_envelope :: "env \<Rightarrow> envelope \<Rightarrow> waiver_action \<Rightarrow> int option \<Rightarrow> envelope" where
  "decided_envelope e f a owed =
     (let f' = f\<lparr>fe_fee_version := fe_fee_version f + 1, fe_fee_review_at := None\<rparr> in
      if a = Refer then f'\<lparr>fe_waiver_referred_at := Some (now e)\<rparr>
      else f'\<lparr>fe_waiver_granted := Some (a \<noteq> DenyJudicial), fe_waiver_decided_at := Some (now e),
              fe_waiver_due_cents := (if a \<noteq> DenyJudicial then Some 0 else owed)\<rparr>)"

definition decision_event :: "waiver_action \<Rightarrow> string" where
  "decision_event a =
     (if a = Refer then ''waiver_referred'' else if a \<noteq> DenyJudicial then ''waiver_granted''
      else ''waiver_denied'')"

definition decision_details :: "waiver_action \<Rightarrow> int option \<Rightarrow> document option \<Rightarrow> (string \<times> json) list" where
  "decision_details a owed doc =
     [(''basis'', JStr (waiver_action_value a))]
     @ (case doc of None \<Rightarrow> [] | Some d \<Rightarrow>
          [(''documents'', JArr [document_json d]),
           (''amount_due_cents'', jopt JInt (if a \<noteq> DenyJudicial then Some 0 else owed))])"

text \<open>A decision without its document is a failed assertion.\<close>

definition record_decision ::
    "env \<Rightarrow> envelope \<Rightarrow> int \<Rightarrow> waiver_action \<Rightarrow> string \<Rightarrow> int option \<Rightarrow> document option \<Rightarrow> db \<Rightarrow> failure + db" where
  "record_decision e f uid a reason owed doc db =
     (if a \<noteq> Refer \<and> doc = None then Inl InternalError
      else
        let (doc', db1) = (if a = Refer then (None, db)
              else (let (d, db') = add_document e (the doc) db in (Some d, db')));
            f' = decided_envelope e f a owed
        in then_do (record_transaction e f' (decision_event a) uid (Some reason) None
              (decision_details a owed doc') (save_filing e f' db1)) (\<lambda>(t, db2).
           Inr (log_filing e uid (decision_event a) (fe_id f)
             (Some (JObj [(''basis'', JStr (waiver_action_value a))])) db2)))"

definition decide_locked ::
    "env \<Rightarrow> db \<Rightarrow> int \<Rightarrow> int \<Rightarrow> waiver_action \<Rightarrow> int \<Rightarrow> string \<Rightarrow> int option \<Rightarrow> document option \<Rightarrow> failure + db" where
  "decide_locked e db fid uid a v reason owed doc =
     then_do (lock_current_user db uid) (\<lambda>_.
     then_do (decidable_filing e db fid uid a v) (\<lambda>f.
     record_decision e f uid a reason owed doc db))"

text \<open>The form of the request: the amount and the version are bounded, the reason is limited.\<close>

record waiver_form =
  wf_action :: waiver_action
  wf_reason :: string
  wf_due :: "int option"
  wf_version :: int
  wf_file :: "upload_file option"

definition valid_waiver_form :: "waiver_form \<Rightarrow> bool" where
  "valid_waiver_form w \<longleftrightarrow> length (wf_reason w) \<le> 5000 \<and> valid_version (wf_version w)
     \<and> (case wf_due w of None \<Rightarrow> True | Some c \<Rightarrow> 0 \<le> c \<and> c \<le> 100000000)"

definition check_decision :: "waiver_form \<Rightarrow> failure + unit" where
  "check_decision w =
     (if wf_action w = DenyJudicial \<and> (str_strip (wf_reason w) = [] \<or> wf_due w = None)
      then Inl (Http 400 (Fee Denial_needs_reason))
      else if wf_action w \<noteq> Refer \<and> wf_file w = None then Inl (Http 400 (Fee Attach_order))
      else if wf_action w = Refer \<and> wf_file w \<noteq> None then Inl (Http 400 (Fee Refer_has_no_decision))
      else Inr ())"

text \<open>\<open>r\<close> is the part under the lock; when it fails the stored object is reclaimed.\<close>

definition keep_or_purge :: "upload_env \<Rightarrow> string \<Rightarrow> failure + 'a \<Rightarrow> objects \<Rightarrow> (failure + 'a) \<times> objects" where
  "keep_or_purge u k r os = (case r of Inl x \<Rightarrow> (Inl x, purge_keys u [k] os) | Inr y \<Rightarrow> (Inr y, os))"

definition decide_fee_waiver ::
    "env \<Rightarrow> upload_env \<Rightarrow> db \<Rightarrow> db \<Rightarrow> objects \<Rightarrow> int \<Rightarrow> waiver_form \<Rightarrow> int \<Rightarrow> (failure + db) \<times> objects" where
  "decide_fee_waiver e u db0 db os fid w uid =
     (if \<not> valid_waiver_form w then (Inl (Http 422 Invalid_request), os)
      else case decidable_filing e db0 fid uid (wf_action w) (wf_version w) of
        Inl x \<Rightarrow> (Inl x, os)
      | Inr _ \<Rightarrow>
          (case check_decision w of
             Inl x \<Rightarrow> (Inl x, os)
           | Inr _ \<Rightarrow>
               let decide = decide_locked e db fid uid (wf_action w) (wf_version w)
                     (str_strip (wf_reason w)) (wf_due w)
               in (case wf_file w of
                     None \<Rightarrow> (decide None, os)
                   | Some f \<Rightarrow>
                       (case store_document_upload e u fid f ''FEE_WAIVER_ORDER'' ''Signed fee waiver decision'' True os of
                          (Inl x, os1) \<Rightarrow> (Inl x, os1)
                        | (Inr d, os1) \<Rightarrow> keep_or_purge u (dc_file_key d) (decide (Some d)) os1))))"

section \<open>Ordering a filing date\<close>

definition date_filing :: "db \<Rightarrow> int \<Rightarrow> int \<Rightarrow> bool \<Rightarrow> bool \<Rightarrow> failure + envelope" where
  "date_filing db uid fid for_update decision =
     then_do (if for_update then then_do (lock_current_user db uid) (\<lambda>_. Inr ()) else Inr ()) (\<lambda>_.
     case find_filing db fid of
       None \<Rightarrow> Inl (Http 404 (Account Filing_not_found))
     | Some f \<Rightarrow>
         if \<not> is_court_staff db (Some uid) (fe_court f) then Inl (Http 403 (Fee Not_for_court))
         else if decision \<and> fe_filer f = uid then Inl (Http 403 (Account Own_filing))
         else Inr f)"

definition order_block :: "envelope \<Rightarrow> date_refusal option" where
  "order_block f =
     (if fe_type f = ''service_only'' \<or> fe_status f = Served then Some Service_only_has_no_date
      else if fe_status f = Draft then Some Order_after_submission
      else None)"

record filing_date_state =
  fd_filing :: envelope
  fd_case_number :: "string option"
  fd_case_date :: "date option"
  fd_case_version :: "int option"
  fd_block :: "date_refusal option"

definition filing_date_state_of :: "db \<Rightarrow> int \<Rightarrow> int \<Rightarrow> failure + filing_date_state" where
  "filing_date_state_of db fid uid =
     then_do (date_filing db uid fid False False) (\<lambda>f.
       let c = case_of_filing db f in
       Inr \<lparr>fd_filing = f, fd_case_number = map_option cs_number c,
            fd_case_date = Option.bind c cs_filing_date,
            fd_case_version = map_option cs_filing_date_version c, fd_block = order_block f\<rparr>)"

record date_order_form =
  of_date :: date
  of_signed :: date
  of_authority :: string
  of_reason :: string
  of_reviewed :: bool
  of_version :: int
  of_update_case :: bool
  of_case_version :: "int option"
  of_file :: upload_file

definition valid_date_form :: "date_order_form \<Rightarrow> bool" where
  "valid_date_form o' \<longleftrightarrow>
     1 \<le> length (of_authority o') \<and> length (of_authority o') \<le> 1000
     \<and> 1 \<le> length (of_reason o') \<and> length (of_reason o') \<le> 5000 \<and> valid_version (of_version o')
     \<and> (case of_case_version o' of None \<Rightarrow> True | Some v \<Rightarrow> valid_version v)"

definition check_date_form :: "date_order_form \<Rightarrow> failure + unit" where
  "check_date_form o' =
     (if \<not> of_reviewed o' \<or> str_strip (of_authority o') = [] \<or> str_strip (of_reason o') = []
      then Inl (Http 422 (OrderDate Review_signed_order))
      else if of_update_case o' \<and> of_case_version o' = None
      then Inl (Http 422 (OrderDate Refresh_case_date))
      else Inr ())"

definition check_order :: "envelope \<Rightarrow> int \<Rightarrow> failure + unit" where
  "check_order f v =
     (case order_block f of
        Some b \<Rightarrow> Inl (Http 409 (OrderDate b))
      | None \<Rightarrow> if fe_filing_date_version f \<noteq> v then Inl (Http 409 (OrderDate Filing_changed)) else Inr ())"

text \<open>The opening date of the case, changed under its own version.\<close>

definition order_case_date ::
    "envelope \<Rightarrow> date_order_form \<Rightarrow> db \<Rightarrow> failure + (string \<times> json) list \<times> db" where
  "order_case_date f o' db =
     (if \<not> of_update_case o' then Inr ([], db)
      else case List.find (\<lambda>c. Some (cs_id c) = fe_case f \<and> cs_court c = fe_court f) (cases db) of
        None \<Rightarrow> Inl (Http 409 (OrderDate No_case_date))
      | Some c \<Rightarrow>
          if Some (cs_filing_date_version c) \<noteq> of_case_version o'
          then Inl (Http 409 (OrderDate Case_date_changed))
          else Inr ([(''case_date_change'', JObj
                 [(''case_id'', JInt (cs_id c)), (''case_number'', JStr (cs_number c)),
                  (''previous_filing_date'', jopt JDate (cs_filing_date c)),
                  (''filing_date'', JDate (of_date o'))])],
               cases_update (upd_row cs_id (cs_id c) (\<lambda>r. r\<lparr>cs_filing_date := Some (of_date o'),
                 cs_filing_date_version := cs_filing_date_version r + 1\<rparr>)) db))"

definition order_document :: "env \<Rightarrow> envelope \<Rightarrow> string \<Rightarrow> inspected \<Rightarrow> document" where
  "order_document e f key i =
     \<lparr>dc_id = 0, dc_envelope = fe_id f, dc_type = ''FILING_DATE_ORDER'',
      dc_title = (if fe_submission_count f \<noteq> 0
        then ''Signed filing-date order, submission '' @ dec (fe_submission_count f)
        else ''Signed filing-date order, older filing''),
      dc_file_key = key, dc_size = int (length (in_data i)), dc_mime = in_mime i,
      dc_pages = pi_pages (in_pdf i), dc_sha256 = in_sha256 i, dc_confidential = True,
      dc_searchable = pi_searchable (in_pdf i), dc_pii = Some (pi_warnings (in_pdf i)),
      dc_retained_at = Some (now e), dc_removed_at = None, dc_access_version = 0,
      dc_public_copy = None, dc_uploaded_at = now e\<rparr>"

definition order_basis :: "envelope \<Rightarrow> date_order_form \<Rightarrow> int \<Rightarrow> json" where
  "order_basis f o' did = JObj
     [(''source'', JStr ''court_order''), (''filing_date'', JDate (of_date o')),
      (''order_document_id'', JInt did), (''order_signed_date'', JDate (of_signed o')),
      (''authority_reference'', JStr (str_strip (of_authority o'))),
      (''submission_number'', JInt (fe_submission_count f))]"

definition enter_order ::
    "env \<Rightarrow> envelope \<Rightarrow> date_order_form \<Rightarrow> document \<Rightarrow> int \<Rightarrow> db \<Rightarrow> failure + txn \<times> db" where
  "enter_order e f o' d0 uid db =
     then_do (order_case_date f o' db) (\<lambda>(change, db1).
       let (d, db2) = add_document e d0 db1;
           basis = order_basis f o' (dc_id d);
           f' = f\<lparr>fe_filing_date := Some (of_date o'), fe_filing_date_basis := Some basis,
                  fe_filing_date_version := fe_filing_date_version f + 1\<rparr>;
           details = [(''previous_filing_date'', jopt JDate (fe_filing_date f)),
                      (''previous_filing_date_basis'', jopt id (fe_filing_date_basis f))] @ change
                     @ [(''filing_date_basis'', basis), (''documents'', JArr [document_json d])]
       in then_do (record_transaction e f' ''filing_date_ordered'' uid (Some (str_strip (of_reason o'))) None
            details (save_filing e f' db2)) (\<lambda>(t, db3).
          Inr (t, log_filing e uid ''filing_date_ordered'' (fe_id f)
            (Some (JObj [(''transaction_id'', JStr (tx_id t)), (''order_document_id'', JInt (dc_id d))])) db3)))"

definition order_locked ::
    "env \<Rightarrow> db \<Rightarrow> int \<Rightarrow> date_order_form \<Rightarrow> string \<Rightarrow> inspected \<Rightarrow> int \<Rightarrow> failure + txn \<times> db" where
  "order_locked e db fid o' key i uid =
     then_do (date_filing db uid fid True True) (\<lambda>f.
     then_do (check_order f (of_version o')) (\<lambda>_.
     enter_order e f o' (order_document e f key i) uid db))"

definition orders_path :: "int \<Rightarrow> string" where
  "orders_path fid = ''filings/'' @ dec fid @ ''/orders/''"

definition record_filing_date_order ::
    "env \<Rightarrow> upload_env \<Rightarrow> db \<Rightarrow> db \<Rightarrow> objects \<Rightarrow> int \<Rightarrow> date_order_form \<Rightarrow> int
       \<Rightarrow> (failure + txn \<times> db) \<times> objects" where
  "record_filing_date_order e u db0 db os fid o' uid =
     (case (if \<not> valid_date_form o' then Inl (Http 422 Invalid_request)
            else then_do (check_date_form o') (\<lambda>_.
              then_do (date_filing db0 uid fid False True) (\<lambda>f.
              then_do (check_order f (of_version o')) (\<lambda>_.
              inspect_upload (cfg e) u (of_file o') True)))) of
        Inl x \<Rightarrow> (Inl x, os)
      | Inr i \<Rightarrow>
          let key = new_file_key e (orders_path fid) ''.pdf'' os in
          (case put_object u key (in_data i) os of
             (Inl x, os1) \<Rightarrow> (Inl x, os1)
           | (Inr _, os1) \<Rightarrow> keep_or_purge u key (order_locked e db fid o' key i uid) os1))"

end
