(* ===== verification/Publication.thy ===== *)
theory Publication
  imports Orders
begin

text \<open>
  Reading documents (\<open>api/documents.py\<close>) and publishing reviewed copies of them
  (\<open>services/document_publication_service.py\<close>, \<open>api/document_publication.py\<close>): the original
  of a published document is restricted and a prepared public copy stands for it until it is
  withheld. Changes name the access version of the document.
\<close>

section \<open>The stored bytes of a response\<close>

text \<open>What opening an object gives: its bytes, a missing file or another exception.\<close>

datatype fetched = Fetched string | NotStored | FetchFails failure

type_synonym fetch = "string \<Rightarrow> fetched"

text \<open>The copying loop: it stops as soon as more bytes arrive than were recorded.\<close>

fun spool :: "nat \<Rightarrow> string \<Rightarrow> string list \<Rightarrow> failure + string" where
  "spool n acc [] = Inr acc"
| "spool n acc (c # cs) =
     (if n < length acc + length c then Inl (Http 409 (Publication Retained_integrity))
      else spool n (acc @ c) cs)"

definition open_file :: "fetch \<Rightarrow> (string \<Rightarrow> string) \<Rightarrow> string \<Rightarrow> string \<times> int \<Rightarrow> failure + string" where
  "open_file fetch sha key integrity =
     (case fetch key of
        NotStored \<Rightarrow> Inl (Http 404 (Publication File_unavailable))
      | FetchFails x \<Rightarrow> Inl x
      | Fetched bytes \<Rightarrow>
          then_do (spool (nat (snd integrity)) [] (chunks 65536 bytes)) (\<lambda>b.
            if (sha b, int (length b)) \<noteq> integrity then Inl (Http 409 (Publication Retained_integrity))
            else Inr b))"

definition file_char :: "char \<Rightarrow> bool" where
  "file_char c \<longleftrightarrow> is_word c \<or> is_blank c \<or> c = CHR ''-'' \<or> c = CHR ''.''"

definition dot_or_space :: "char \<Rightarrow> bool" where
  "dot_or_space c \<longleftrightarrow> c = CHR ''.'' \<or> c = CHR '' ''"

definition strip_chars :: "(char \<Rightarrow> bool) \<Rightarrow> string \<Rightarrow> string" where
  "strip_chars P s = rev (dropWhile P (rev (dropWhile P s)))"

definition sanitize_filename :: "string \<Rightarrow> string" where
  "sanitize_filename s =
     (let t = strip_chars dot_or_space (filter file_char s) in if t = [] then ''document'' else t)"

definition response_filename :: "(string \<Rightarrow> string option) \<Rightarrow> string \<Rightarrow> string \<Rightarrow> string" where
  "response_filename extension title mime =
     (let name = sanitize_filename title; ext = or_text (extension mime) [] in
      if ext \<noteq> [] \<and> \<not> ends_with (str_lower name) ext then name @ ext else name)"

section \<open>Downloading and verifying\<close>

text \<open>A successful download names the stored object and what it must match.\<close>

definition download_document ::
    "env \<Rightarrow> db \<Rightarrow> int \<Rightarrow> user option \<Rightarrow> failure + (string \<times> string \<times> int) \<times> db" where
  "download_document e db did user =
     (case row_at dc_id did (documents db) of
        None \<Rightarrow> Inl (Http 404 (Publication Document_record_not_found))
      | Some d \<Rightarrow>
          if \<not> may_read_document db user d then Inl (Http 403 (Publication Document_not_readable))
          else Inr ((dc_file_key d, dc_sha256 d, dc_size d),
            log_action e (map_option us_id user) ''document_download'' ''filing_document'' (Some did) None db))"

datatype verification = Verified | Changed_bytes | File_missing

definition verify_document :: "env \<Rightarrow> db \<Rightarrow> int \<Rightarrow> user \<Rightarrow> failure + verification" where
  "verify_document e db did user =
     (case row_at dc_id did (documents db) of
        None \<Rightarrow> Inl (Http 404 (Publication Document_record_not_found))
      | Some d \<Rightarrow>
          if \<not> may_read_document db (Some user) d then Inl (Http 403 (Publication Document_not_readable))
          else (case stored e (dc_file_key d) of
              Stored h n \<Rightarrow> Inr (if h = dc_sha256 d \<and> n = dc_size d then Verified else Changed_bytes)
            | FileMissing \<Rightarrow> Inr File_missing
            | StorageDown \<Rightarrow> Inl StorageError
            | BadFileKey \<Rightarrow> Inl InternalError))"

section \<open>The document and its filing\<close>

text \<open>Reading for a change locks the account, the filing and the document and reads them again.\<close>

definition document_context ::
    "db \<Rightarrow> user \<Rightarrow> int \<Rightarrow> bool \<Rightarrow> bool \<Rightarrow> failure + user \<times> document \<times> envelope" where
  "document_context db actor did for_update decision =
     (case row_at dc_id did (documents db) of
        None \<Rightarrow> Inl (Http 404 (Publication Document_record_not_found))
      | Some d \<Rightarrow>
          then_do (if for_update
            then (case find_user db (us_id actor) of
                    None \<Rightarrow> Inl (Http 403 (Account Account_unavailable)) | Some a \<Rightarrow> Inr a)
            else Inr actor) (\<lambda>a.
          case find_filing db (dc_envelope d) of
            None \<Rightarrow> Inl (Http 403 (Publication Account_or_filing_unavailable))
          | Some f \<Rightarrow>
              if \<not> us_active a then Inl (Http 403 (Publication Account_or_filing_unavailable))
              else if \<not> is_court_staff db (Some (us_id a)) (fe_court f)
              then Inl (Http 403 (Account Staff_assignment_required))
              else if decision \<and> fe_filer f = us_id a then Inl (Http 403 (Account Own_filing))
              else Inr (a, d, f)))"

definition publication_block :: "document \<Rightarrow> envelope \<Rightarrow> publication_refusal option" where
  "publication_block d f =
     (if dc_type d \<in> set private_document_types then Some Waiver_records_private
      else if dc_removed_at d \<noteq> None \<or> fe_status f \<noteq> Accepted \<or> fe_case f = None
      then Some Needs_accepted_filing
      else None)"

definition public_copy_json :: "public_copy \<Rightarrow> json" where
  "public_copy_json c = JObj
     [(''id'', JInt (pc_id c)), (''document_id'', JInt (pc_document c)), (''title'', JStr (pc_title c)),
      (''file_size_bytes'', JInt (pc_size c)), (''mime_type'', JStr (pc_mime c)),
      (''page_count'', jopt JInt (pc_pages c)), (''sha256_hash'', JStr (pc_sha256 c)),
      (''is_text_searchable'', JBool (pc_searchable c)), (''pii_warnings'', JArr (map JStr (pc_pii c))),
      (''created_at'', JTime (pc_created_at c))]"

definition restriction_json :: "bool \<Rightarrow> int option \<Rightarrow> json" where
  "restriction_json restricted copy = JObj
     [(''original_restricted'', JBool restricted), (''public_copy_id'', jopt JInt copy)]"

text \<open>The update of the access columns under the expected version.\<close>

definition set_access :: "int \<Rightarrow> int \<Rightarrow> int option \<Rightarrow> db \<Rightarrow> db" where
  "set_access did v copy db =
     documents_update (upd_row dc_id did (\<lambda>d. d\<lparr>dc_confidential := True, dc_public_copy := copy,
       dc_access_version := v + 1\<rparr>)) db"

section \<open>Publishing and withholding\<close>

record publish_request =
  pr_copy :: int
  pr_version :: int
  pr_reason :: string
  pr_reviewed :: bool

definition parse_publish :: "publish_request \<Rightarrow> publish_request option" where
  "parse_publish r =
     (case stripped_text 2000 (pr_reason r) of
        None \<Rightarrow> None
      | Some why \<Rightarrow> if valid_record_id (pr_copy r) \<and> valid_version (pr_version r) \<and> pr_reviewed r
          then Some (r\<lparr>pr_reason := why\<rparr>) else None)"

definition find_copy :: "db \<Rightarrow> int \<Rightarrow> int \<Rightarrow> public_copy option" where
  "find_copy db cid did = List.find (\<lambda>c. pc_id c = cid \<and> pc_document c = did) (public_copies db)"

definition check_copy :: "env \<Rightarrow> public_copy \<Rightarrow> failure + unit" where
  "check_copy e c =
     (case stored e (pc_file_key c) of
        Stored h n \<Rightarrow>
          if h \<noteq> pc_sha256 c \<or> n \<noteq> pc_size c then Inl (Http 409 (Publication Copy_integrity)) else Inr ()
      | FileMissing \<Rightarrow> Inl (Http 409 (Publication Copy_unavailable))
      | StorageDown \<Rightarrow> Inl StorageError
      | BadFileKey \<Rightarrow> Inl InternalError)"

definition enter_publication ::
    "env \<Rightarrow> user \<Rightarrow> document \<Rightarrow> envelope \<Rightarrow> public_copy \<Rightarrow> publish_request \<Rightarrow> db \<Rightarrow> failure + db" where
  "enter_publication e a d f c r db =
     (let db1 = set_access (dc_id d) (pr_version r) (Some (pc_id c)) db;
          db2 = log_action e (Some (us_id a)) ''public_copy.published'' ''document_public_copy'' (Some (pc_id c))
            (Some (JObj [(''document_id'', JInt (dc_id d)), (''reason'', JStr (pr_reason r)),
              (''actor_name'', JStr (full_name a)), (''reviewed'', JBool True),
              (''before'', restriction_json (dc_confidential d) (dc_public_copy d)),
              (''after'', restriction_json True (Some (pc_id c)))])) db1
      in then_do (record_transaction e f ''public_copy_published'' (us_id a) (Some (pr_reason r)) None
           [(''document_id'', JInt (dc_id d)), (''public_copy'', public_copy_json c)] db2)
         (\<lambda>(t, db3). Inr db3))"

definition publish_locked ::
    "env \<Rightarrow> db \<Rightarrow> user \<Rightarrow> int \<Rightarrow> public_copy \<Rightarrow> publish_request \<Rightarrow> failure + db" where
  "publish_locked e db actor did c r =
     then_do (document_context db actor did True True) (\<lambda>(a, d, f).
       case publication_block d f of
         Some b \<Rightarrow> Inl (Http 409 (Publication b))
       | None \<Rightarrow>
           if dc_access_version d \<noteq> pr_version r then Inl (Http 409 (Publication Access_changed))
           else if dc_public_copy d = Some (pc_id c) \<and> dc_confidential d then Inr db
           else enter_publication e a d f c r db)"

definition publish_copy ::
    "env \<Rightarrow> db \<Rightarrow> db \<Rightarrow> user \<Rightarrow> int \<Rightarrow> publish_request \<Rightarrow> failure + db" where
  "publish_copy e db0 db actor did raw =
     (case parse_publish raw of
        None \<Rightarrow> Inl (Http 422 Invalid_request)
      | Some r \<Rightarrow>
          then_do (document_context db0 actor did False True) (\<lambda>(a0, d0, f0).
          if dc_access_version d0 \<noteq> pr_version r then Inl (Http 409 (Publication Access_changed))
          else (case find_copy db0 (pr_copy r) did of
              None \<Rightarrow> Inl (Http 404 (Publication Copy_not_found))
            | Some c \<Rightarrow> then_do (check_copy e c) (\<lambda>_. publish_locked e db actor did c r))))"

record withhold_request =
  wh_version :: int
  wh_reason :: string

definition enter_withholding ::
    "env \<Rightarrow> user \<Rightarrow> document \<Rightarrow> envelope \<Rightarrow> int \<Rightarrow> string \<Rightarrow> db \<Rightarrow> failure + db" where
  "enter_withholding e a d f v why db =
     (let db1 = set_access (dc_id d) v None db;
          db2 = log_action e (Some (us_id a)) ''document.withheld'' ''filing_document'' (Some (dc_id d))
            (Some (JObj [(''reason'', JStr why),
              (''before'', restriction_json (dc_confidential d) (dc_public_copy d)),
              (''actor_name'', JStr (full_name a)), (''after'', restriction_json True None)])) db1
      in then_do (record_transaction e f ''document_withheld'' (us_id a) (Some why) None
           [(''document_id'', JInt (dc_id d)), (''withdrawn_copy_id'', jopt JInt (dc_public_copy d))] db2)
         (\<lambda>(t, db3). Inr db3))"

definition withhold_document :: "env \<Rightarrow> db \<Rightarrow> user \<Rightarrow> int \<Rightarrow> withhold_request \<Rightarrow> failure + db" where
  "withhold_document e db actor did r =
     (case stripped_text 2000 (wh_reason r) of
        None \<Rightarrow> Inl (Http 422 Invalid_request)
      | Some why \<Rightarrow>
          if \<not> valid_version (wh_version r) then Inl (Http 422 Invalid_request)
          else then_do (document_context db actor did True True) (\<lambda>(a, d, f).
            if dc_access_version d \<noteq> wh_version r then Inl (Http 409 (Publication Access_changed))
            else if fe_status f = Draft \<and> dc_retained_at d = None
            then Inl (Http 409 (Publication Not_submitted_document))
            else if dc_confidential d \<and> dc_public_copy d = None then Inr db
            else enter_withholding e a d f (wh_version r) why db))"

section \<open>Preparing a copy\<close>

definition new_copy :: "env \<Rightarrow> document \<Rightarrow> user \<Rightarrow> string \<Rightarrow> string \<Rightarrow> inspected \<Rightarrow> db \<Rightarrow> public_copy" where
  "new_copy e d actor title key i db =
     \<lparr>pc_id = new_key e (map pc_id (public_copies db)), pc_document = dc_id d, pc_created_by = us_id actor,
      pc_title = title, pc_file_key = key, pc_size = int (length (in_data i)), pc_mime = in_mime i,
      pc_pages = pi_pages (in_pdf i), pc_sha256 = in_sha256 i, pc_searchable = pi_searchable (in_pdf i),
      pc_pii = pi_warnings (in_pdf i), pc_created_at = now e\<rparr>"

definition unblocked :: "db \<Rightarrow> user \<Rightarrow> int \<Rightarrow> bool \<Rightarrow> failure + user \<times> document \<times> envelope" where
  "unblocked db actor did for_update =
     then_do (document_context db actor did for_update True) (\<lambda>(a, d, f).
       case publication_block d f of Some b \<Rightarrow> Inl (Http 409 (Publication b)) | None \<Rightarrow> Inr (a, d, f))"

definition prepare_locked ::
    "env \<Rightarrow> db \<Rightarrow> user \<Rightarrow> int \<Rightarrow> string \<Rightarrow> string \<Rightarrow> inspected \<Rightarrow> failure + public_copy \<times> db" where
  "prepare_locked e db actor did title key i =
     then_do (unblocked db actor did True) (\<lambda>(a, d, f).
       let c = new_copy e d a title key i db;
           db1 = public_copies_update (\<lambda>cs. cs @ [c]) db
       in Inr (c, log_action e (Some (us_id a)) ''document.public_copy_prepared'' ''filing_document''
            (Some (dc_id d)) (Some (JObj [(''copy_id'', JInt (pc_id c)), (''title'', JStr title),
              (''sha256_hash'', JStr (in_sha256 i)), (''actor_name'', JStr (full_name a))])) db1))"

definition copies_path :: "int \<Rightarrow> string" where
  "copies_path did = ''public-copies/'' @ dec did @ ''/''"

definition prepare_copy ::
    "env \<Rightarrow> upload_env \<Rightarrow> db \<Rightarrow> db \<Rightarrow> objects \<Rightarrow> int \<Rightarrow> string \<Rightarrow> upload_file \<Rightarrow> user
       \<Rightarrow> (failure + public_copy \<times> db) \<times> objects" where
  "prepare_copy e u db0 db os did raw file' actor =
     (let title = str_strip raw in
      case (if length raw < 1 \<or> 500 < length raw then Inl (Http 422 Invalid_request)
            else if title = [] then Inl (Http 422 (Publication Public_title_required))
            else then_do (unblocked db0 actor did False) (\<lambda>_.
              inspect_upload (cfg e) u file' True)) of
        Inl x \<Rightarrow> (Inl x, os)
      | Inr i \<Rightarrow>
          let key = new_file_key e (copies_path did) ''.pdf'' os in
          (case put_object u key (in_data i) os of
             (Inl x, os1) \<Rightarrow> (Inl x, os1)
           | (Inr _, os1) \<Rightarrow> keep_or_purge u key (prepare_locked e db actor did title key i) os1))"

section \<open>Reading copies\<close>

definition published_before :: "db \<Rightarrow> int \<Rightarrow> int \<Rightarrow> bool" where
  "published_before db fid cid \<longleftrightarrow>
     (\<exists>t \<in> set (transactions db). tx_filing t = fid \<and> tx_event t = ''public_copy_published''
        \<and> Option.bind (Option.bind (jget ''public_copy'' (tx_details t)) (jget ''id'')) json_int = Some cid)"

definition may_read_public_copy :: "db \<Rightarrow> user option \<Rightarrow> public_copy \<Rightarrow> bool" where
  "may_read_public_copy db user c =
     (let uid = map_option us_id user in
      case row_at dc_id (pc_document c) (documents db) of
        None \<Rightarrow> False
      | Some d \<Rightarrow>
          (case find_filing db (dc_envelope d) of
             None \<Rightarrow> False
           | Some f \<Rightarrow>
               if is_court_staff db uid (fe_court f) then True
               else if uid = Some (fe_filer f) then published_before db (fe_id f) (pc_id c)
               else if dc_public_copy d \<noteq> Some (pc_id c) \<or> publication_block d f \<noteq> None then False
               else (case fe_case f of None \<Rightarrow> False | Some cid \<Rightarrow> may_read_case db user cid)))"

definition download_public_copy ::
    "env \<Rightarrow> db \<Rightarrow> int \<Rightarrow> user option \<Rightarrow> failure + (string \<times> string \<times> int) \<times> db" where
  "download_public_copy e db cid user =
     (case row_at pc_id cid (public_copies db) of
        None \<Rightarrow> Inl (Http 404 (Publication Public_copy_not_found))
      | Some c \<Rightarrow>
          if \<not> may_read_public_copy db user c then Inl (Http 403 (Publication Copy_not_readable))
          else Inr ((pc_file_key c, pc_sha256 c, pc_size c),
            log_action e (map_option us_id user) ''public_copy.downloaded'' ''document_public_copy'' (Some cid) None db))"

record publication_state =
  ps_document :: document
  ps_filing :: envelope
  ps_block :: "publication_refusal option"
  ps_can_withhold :: bool
  ps_current :: "public_copy option"
  ps_copies :: "public_copy list"
  ps_total :: nat

definition publication_state_of :: "db \<Rightarrow> user \<Rightarrow> int \<Rightarrow> nat \<Rightarrow> failure + publication_state" where
  "publication_state_of db actor did pg =
     then_do (document_context db actor did False False) (\<lambda>(a, d, f).
       let rows = filter (\<lambda>c. pc_document c = did) (public_copies db) in
       Inr \<lparr>ps_document = d, ps_filing = f, ps_block = publication_block d f,
            ps_can_withhold = ((fe_status f \<noteq> Draft \<or> dc_retained_at d \<noteq> None)
              \<and> (\<not> dc_confidential d \<or> dc_public_copy d \<noteq> None)),
            ps_current = (case dc_public_copy d of None \<Rightarrow> None
              | Some k \<Rightarrow> if k = 0 then None else row_at pc_id k (public_copies db)),
            ps_copies = page_of pg 25 (rev (sort_key pc_id rows)), ps_total = length rows\<rparr>)"

text \<open>The entries of the audit log are listed newest first.\<close>

definition publication_entry :: "db \<Rightarrow> int \<Rightarrow> audit_entry \<Rightarrow> bool" where
  "publication_entry db did a \<longleftrightarrow>
     au_entity a = ''filing_document'' \<and> au_entity_id a = Some did
       \<and> au_action a \<in> {''document.public_copy_prepared'', ''document.withheld''}
     \<or> au_entity a = ''document_public_copy'' \<and> au_action a = ''public_copy.published''
       \<and> (\<exists>c \<in> set (public_copies db). pc_document c = did \<and> au_entity_id a = Some (pc_id c))"

definition publication_history :: "db \<Rightarrow> user \<Rightarrow> int \<Rightarrow> nat \<Rightarrow> failure + audit_entry list \<times> nat" where
  "publication_history db actor did pg =
     then_do (document_context db actor did False False) (\<lambda>_.
       let rows = filter (publication_entry db did) (audit db)
       in Inr (page_of pg 25 (rev rows), length rows))"

end
