(* ===== verification/FilingApiProofs.thy ===== *)
theory FilingApiProofs
  imports FilingApi
begin

text \<open>
  What the filer's handlers guarantee: an upload leaves either exactly one new document with its
  bytes, or no row and at most an unreferenced object, it can be repeated, and removing a document never loses a retained one.
\<close>

section \<open>Uploads\<close>

lemma upload_locked_Enter:
  assumes "upload_locked e db fid key d fp name uid = Inr (Enter d' db')"
  obtains f0 where "find_filing db fid = Some f0" and "fe_filer f0 = uid" and "fe_status f0 \<in> {Draft, Returned}"
    and "upload_recorded db fid key = None" and "enter_upload e f0 d key fp name uid db = (d', db')"
  using assms
  by (auto simp: upload_locked_def then_do_Inr_iff split: option.splits if_splits prod.splits intro: that)

lemma finish_upload_Inl:
  assumes "finish_upload u db k r (os @ [(k, b)]) = (Inl x, os')" and "k \<notin> fst ` set os"
  shows "at_most_orphan u b os os'"
proof -
  have "os' = purge_keys u [k] (os @ [(k, b)])"
    using assms(1) by (auto simp: finish_upload_def simp del: purge_keys.simps split: sum.splits upload_step.splits)
  then show ?thesis using purge_new_key(2) [OF assms(2)] by simp
qed

lemma finish_upload_Inr:
  assumes "finish_upload u db k r (os @ [(k, c)]) = (Inr (d, db'), os')" and "k \<notin> fst ` set os"
  shows "r = Inr (Enter d db') \<and> os' = os @ [(k, c)] \<or> r = Inr (Replay d) \<and> db' = db \<and> os' = os"
proof (cases r)
  case (Inr s)
  with assms show ?thesis
    by (auto simp: finish_upload_def delete_object_def filter_fresh_key split: upload_step.splits if_splits)
qed (use assms(1) in \<open>simp add: finish_upload_def\<close>)

lemma stored_upload:
  assumes "store_document_upload e u fid f code title conf os = (Inr d, os1)" and "fresh_keys e"
  shows "dc_file_key d \<notin> fst ` set os \<and> os1 = os @ [(dc_file_key d, uf_data f)]
    \<and> dc_envelope d = fid \<and> dc_type d = code \<and> dc_removed_at d = None
    \<and> dc_sha256 d = ue_sha256 u (uf_data f) \<and> dc_size d = int (length (uf_data f)) \<and> uf_data f \<noteq> []
    \<and> (code \<in> set private_document_types \<longrightarrow> dc_confidential d)
    \<and> (\<exists>v. scan_upload (cfg e) (ue_clamd u) (uf_data f) = Some v \<and> sn_clean v)
    \<and> read_upload (cfg e) f = Inr (uf_data f)"
  using assms(1)
proof (rule store_document_upload_Inr)
  fix i k
  assume i: "inspect_upload (cfg e) u f (code = ''FEE_WAIVER_ORDER'') = Inr i"
    and k: "k = new_file_key e (filing_path fid) (or_text (ue_extension u (in_mime i)) []) os"
    and put: "put_object u k (in_data i) os = (Inr (), os1)" and d: "d = uploaded_document e fid code title conf k i"
  note ins = inspect_upload_Inr [OF i]
  have new: "k \<notin> fst ` set os" unfolding k by (rule new_file_key_fresh [OF assms(2)])
  from put new have "os1 = os @ [(k, in_data i)]" by (rule put_object_new)
  moreover have "read_upload (cfg e) f = Inr (uf_data f)"
    using i ins by (auto simp: inspect_upload_def then_do_Inr_iff read_upload_def Let_def split: if_splits)
  ultimately show ?thesis using new ins by (auto simp: d uploaded_document_def)
qed

text \<open>A new upload, from the rows it leaves.\<close>

definition upload_entered :: "env \<Rightarrow> upload_env \<Rightarrow> db \<Rightarrow> objects \<Rightarrow> int \<Rightarrow> int \<Rightarrow> upload_file \<Rightarrow> string
    \<Rightarrow> document \<Rightarrow> db \<Rightarrow> objects \<Rightarrow> bool" where
  "upload_entered e u db os fid uid f code d db' os' \<longleftrightarrow>
     documents db' = documents db @ [d] \<and> dc_id d \<notin> dc_id ` set (documents db)
     \<and> dc_envelope d = fid \<and> dc_type d = code \<and> code \<notin> set court_document_types \<and> dc_removed_at d = None
     \<and> os' = os @ [(dc_file_key d, uf_data f)] \<and> dc_file_key d \<notin> fst ` set os
     \<and> dc_sha256 d = ue_sha256 u (uf_data f) \<and> dc_size d = int (length (uf_data f)) \<and> uf_data f \<noteq> []
     \<and> (code \<in> set private_document_types \<longrightarrow> dc_confidential d)
     \<and> (\<exists>v. scan_upload (cfg e) (ue_clamd u) (uf_data f) = Some v \<and> sn_clean v)
     \<and> (\<exists>f0 t. find_filing db fid = Some f0 \<and> fe_filer f0 = uid \<and> fe_status f0 \<in> {Draft, Returned}
          \<and> find_filing db' fid = Some (f0\<lparr>fe_fee_version := fe_fee_version f0 + 1, fe_updated_at := t\<rparr>))
     \<and> (\<forall>g. g \<noteq> fid \<longrightarrow> find_filing db' g = find_filing db g)
     \<and> transactions db' = transactions db \<and> payments db' = payments db \<and> cases db' = cases db
     \<and> users db' = users db \<and> public_copies db' = public_copies db \<and> deletions db' = deletions db"

lemma enter_upload_filing:
  assumes "enter_upload e f d key fp name uid db = (d', db')" and "find_filing db fid = Some f"
  shows "\<exists>t. find_filing db' fid = Some (f\<lparr>fe_fee_version := fe_fee_version f + 1, fe_updated_at := t\<rparr>)"
    and "g \<noteq> fid \<Longrightarrow> find_filing db' g = find_filing db g"
proof -
  have id: "fe_id f = fid" using assms(2) by (simp add: find_filing_id)
  let ?f = "f\<lparr>fe_fee_version := fe_fee_version f + 1\<rparr>"
  obtain t where "find_filing (save_filing e ?f db) (fe_id ?f) = Some (?f\<lparr>fe_updated_at := t\<rparr>)"
    using find_save_same [of db ?f f e] assms(2) id by auto
  then show "\<exists>t. find_filing db' fid = Some (f\<lparr>fe_fee_version := fe_fee_version f + 1, fe_updated_at := t\<rparr>)"
    using enter_upload_frame(10) [OF assms(1)] id by auto
  show "g \<noteq> fid \<Longrightarrow> find_filing db' g = find_filing db g"
    using enter_upload_frame(10) [OF assms(1)] id by (simp add: find_save_other)
qed

lemma upload_document_outcome:
  assumes "upload_document e u db0 db os fid key f code title conf uid = (r, os')" and "fresh_keys e"
  shows "(case r of
      Inl x \<Rightarrow> at_most_orphan u (uf_data f) os os'
    | Inr (d, db') \<Rightarrow> db' = db \<and> os' = os
        \<or> upload_entered e u db os fid uid f code d db' os'
          \<and> uploads db' = uploads db @ [\<lparr>up_envelope = fid, up_key = key,
              up_fingerprint = upload_fingerprint e code title conf f (dc_sha256 d) (dc_size d),
              up_document = Some (dc_id d)\<rparr>]
          \<and> upload_recorded db fid key = None \<and> read_upload (cfg e) f = Inr (uf_data f))"
  using assms(1)
proof (cases rule: upload_document_cases)
  case (stored d os1)
  note st = stored_upload [OF stored(1) assms(2)]
  let ?fp = "upload_fingerprint e code title conf f (dc_sha256 d) (dc_size d)"
  let ?l = "upload_locked e db fid key d ?fp (uf_name f) uid"
  have fin: "finish_upload u db (dc_file_key d) ?l os1 = (r, os')" using stored(3) by simp
  show ?thesis
  proof (cases r)
    case (Inl x)
    with finish_upload_Inl [of u db "dc_file_key d" ?l os "uf_data f" x os'] fin st show ?thesis by auto
  next
    case (Inr p)
    obtain d' db' where p: "p = (d', db')" by fastforce
    from finish_upload_Inr [of u db "dc_file_key d" ?l os "uf_data f" d' db' os'] fin [unfolded Inr p] st consider
      "?l = Inr (Enter d' db')" "os' = os1" | "db' = db" "os' = os" by metis
    then show ?thesis
    proof cases
      case 1
      from 1(1) show ?thesis
      proof (rule upload_locked_Enter)
        fix f0
        assume f0: "find_filing db fid = Some f0" "fe_filer f0 = uid" "fe_status f0 \<in> {Draft, Returned}"
          and none: "upload_recorded db fid key = None"
          and en: "enter_upload e f0 d key ?fp (uf_name f) uid db = (d', db')"
        note fr = enter_upload_frame [OF en]
        have new: "dc_id d' \<notin> dc_id ` set (documents db)"
          using assms(2) fr(1) by (auto simp: fresh_keys_def dest: spec [of _ "map dc_id (documents db)"])
        obtain t where t: "find_filing db' fid
            = Some (f0\<lparr>fe_fee_version := fe_fee_version f0 + 1, fe_updated_at := t\<rparr>)"
          using enter_upload_filing(1) [OF en f0(1)] by blast
        have oth: "\<forall>g. g \<noteq> fid \<longrightarrow> find_filing db' g = find_filing db g"
          using enter_upload_filing(2) [OF en f0(1)] by blast
        have ex: "\<exists>f0 t. find_filing db fid = Some f0 \<and> fe_filer f0 = uid \<and> fe_status f0 \<in> {Draft, Returned}
          \<and> find_filing db' fid = Some (f0\<lparr>fe_fee_version := fe_fee_version f0 + 1, fe_updated_at := t\<rparr>)"
          using f0 t by blast
        have "upload_entered e u db os fid uid f code d' db' os'"
          unfolding upload_entered_def
          apply (intro conjI; (rule ex oth new)?)
          using st fr(1-9) stored(2) 1(2) by simp_all
        then show ?thesis using Inr p fr(1,3) none st find_filing_id [OF f0(1)] by simp
      qed
    next
      case 2
      then show ?thesis using Inr p by simp
    qed
  qed
qed (use store_document_upload_Inl(2) [OF _ assms(2)] in auto)

section \<open>Removing\<close>

lemma filter_mark_row:
  assumes "\<And>r. key r = k \<Longrightarrow> key (g r) = k" and "\<And>r. key r = k \<Longrightarrow> \<not> P (g r)"
  shows "filter P (upd_row key k g rows) = filter (\<lambda>r. key r \<noteq> k) (filter P rows)"
  using assms by (induction rows) (auto simp: upd_row_def)

lemma row_at_filter_key:
  "row_at key x (filter (\<lambda>r. key r \<noteq> k) rows) = (if x = k then None else row_at key x rows)"
  by (induction rows) auto

lemma drop_document_frame:
  "find_filing (drop_document e f d db) = find_filing db"
  "transactions (drop_document e f d db) = transactions db"
  by (simp_all add: drop_document_def queue_deletion_def detach_upload_def find_filing_def fun_eq_iff)

lemma drop_document_current:
  "current_documents (drop_document e f d db) fid = filter (\<lambda>x. dc_id x \<noteq> dc_id d) (current_documents db fid)"
proof -
  let ?P = "\<lambda>d. dc_envelope d = fid \<and> dc_removed_at d = None \<and> dc_type d \<notin> set court_document_types"
  have "filter ?P (upd_row dc_id (dc_id d) (\<lambda>r. r\<lparr>dc_removed_at := Some (now e)\<rparr>) ds)
      = filter (\<lambda>r. dc_id r \<noteq> dc_id d) (filter ?P ds)" for ds
    by (rule filter_mark_row) simp_all
  from this [of "documents db"] have mark: "filter ?P (upd_row dc_id (dc_id d)
      (\<lambda>r. r\<lparr>dc_removed_at := Some (now e)\<rparr>) (documents db))
    = filter (\<lambda>r. dc_id r \<noteq> dc_id d) (filter ?P (documents db))" .
  have "filter ?P (filter (\<lambda>r. dc_id r \<noteq> dc_id d) (documents db))
      = filter (\<lambda>r. dc_id r \<noteq> dc_id d) (filter ?P (documents db))"
    by (simp add: conj_commute)
  with mark show ?thesis
    by (simp add: drop_document_def current_documents_def queue_deletion_def detach_upload_def filter_sort
        del: filter_filter)
qed

lemma drop_document_rows:
  "row_at dc_id x (documents (drop_document e f d db)) =
     (if x \<noteq> dc_id d then row_at dc_id x (documents db)
      else if dc_retained_at d \<noteq> None \<or> fe_submitted_at f \<noteq> None
      then map_option (\<lambda>r. r\<lparr>dc_removed_at := Some (now e)\<rparr>) (row_at dc_id x (documents db)) else None)"
  by (simp add: drop_document_def queue_deletion_def detach_upload_def row_at_filter_key row_at_upd_same
      row_at_upd_other)

lemma drop_document_deletions:
  "map sd_file_key (deletions (drop_document e f d db)) = map sd_file_key (deletions db) @
     (if dc_retained_at d \<noteq> None \<or> fe_submitted_at f \<noteq> None then [] else [dc_file_key d])"
  by (simp add: drop_document_def queue_deletion_def detach_upload_def)

lemma remove_document_Inr:
  assumes "remove_document e db fid did uid = Inr db'"
  obtains f :: envelope and d where "find_filing db fid = Some f" and "fe_filer f = uid"
    and "fe_status f \<in> {Draft, Returned}" and "d \<in> set (current_documents db fid)" and "dc_id d = did"
    and "db' = log_action e (Some uid) ''remove_document'' ''filing_document'' (Some did)
      (Some (JObj [(''filing_id'', JInt fid)]))
      (drop_document e f d (save_filing e (f\<lparr>fe_fee_version := fe_fee_version f + 1\<rparr>) db))"
  using assms by (auto simp: remove_document_def then_do_Inr_iff owned_filing_Inr 
      split: if_splits option.splits intro: that dest!: find_SomeD)

section \<open>An example\<close>

definition up_env :: upload_env where
  "up_env = \<lparr>ue_magic = (\<lambda>d. Some ''text/plain''), ue_pdf = (\<lambda>d. None), ue_clamd = (\<lambda>d. None),
     ue_sha256 = id, ue_extension = (\<lambda>m. Some ''.txt''), ue_write_fault = (\<lambda>k. None),
     ue_delete_fault = (\<lambda>k. False)\<rparr>"

definition up_file :: upload_file where
  "up_file = \<lparr>uf_name = Some ''n'', uf_type = None, uf_data = ''hello''\<rparr>"

definition up_key_example :: string where
  "up_key_example = new_file_key example_env (filing_path 1) ''.txt'' []"

definition up_result :: "(failure + document \<times> db) \<times> objects" where
  "up_result = upload_document example_env up_env submit_db submit_db [] 1 ''k'' up_file ''PETITION'' ''T'' False 1"

definition up_doc :: document where
  "up_doc = (case fst up_result of Inr (d, db) \<Rightarrow> d | _ \<Rightarrow> example_document)"

definition up_db :: db where
  "up_db = (case fst up_result of Inr (d, db) \<Rightarrow> db | _ \<Rightarrow> submit_db)"

lemma up_inspected: "inspect_upload (cfg example_env) up_env up_file b =
  (if b then Inl (Http 415 (Upload Must_be_pdf))
   else Inr \<lparr>in_data = ''hello'', in_mime = ''text/plain'', in_sha256 = ''hello'', in_pdf = no_inspection\<rparr>)"
proof -
  have rd: "read_upload (cfg example_env) up_file = Inr ''hello''"
    by (simp add: read_upload_def max_bytes_def example_env_def example_settings_def up_file_def)
  have ty: "check_type (cfg example_env) up_env up_file ''hello'' b
      = (if b then Inl (Http 415 (Upload Must_be_pdf)) else Inr ''text/plain'')"
  proof (cases b)
    case True
    have "check_type (cfg example_env) up_env up_file ''hello'' True = Inl (Http 415 (Upload Must_be_pdf))"
      by code_simp
    with True show ?thesis by simp
  next
    case False
    have "check_type (cfg example_env) up_env up_file ''hello'' False = Inr ''text/plain''" by code_simp
    with False show ?thesis by simp
  qed
  have sc: "check_scan (cfg example_env) up_env ''hello'' = Inr ()" by code_simp
  show ?thesis by (simp add: inspect_upload_def rd ty sc Let_def) (simp add: up_env_def)
qed

lemma up_example:
  "upload_document example_env up_env submit_db submit_db [] 1 ''k'' up_file ''PETITION'' ''T'' False 1
     = (Inr (up_doc, up_db), [(up_key_example, ''hello'')])"
  "length (documents up_db) = 2"
proof -
  let ?i = "\<lparr>in_data = ''hello'', in_mime = ''text/plain'', in_sha256 = ''hello'', in_pdf = no_inspection\<rparr>"
  let ?d = "uploaded_document example_env 1 ''PETITION'' ''T'' False up_key_example ?i"
  have store: "store_document_upload example_env up_env 1 up_file ''PETITION'' ''T'' False []
      = (Inr ?d, [(up_key_example, ''hello'')])"
    unfolding store_document_upload_def up_inspected
    by (simp add: Let_def up_key_example_def put_object_def) (simp add: up_env_def or_text_def)
  have own: "owned_filing submit_db 1 1 Not_your_filing = Inr draft_filing" by code_simp
  have none: "upload_recorded submit_db 1 ''k'' = None" by code_simp
  have st: "fe_status draft_filing = Draft" by code_simp
  have code: "''PETITION'' \<notin> set court_document_types" by code_simp
  let ?r = "finish_upload up_env submit_db up_key_example (upload_locked example_env submit_db 1 ''k'' ?d
    (upload_fingerprint example_env ''PETITION'' ''T'' False up_file ''hello'' 5) (Some ''n'') 1)
    [(up_key_example, ''hello'')]"
  have res: "up_result = ?r"
    unfolding up_result_def upload_document_def own none store
    using st code by (simp add: uploaded_document_def up_file_def)
  have "(case ?r of (Inr (d, db), os) \<Rightarrow> length (documents db) = 2 \<and> os = [(up_key_example, ''hello'')] | _ \<Rightarrow> False)"
    by code_simp
  then have "\<exists>d db. up_result = (Inr (d, db), [(up_key_example, ''hello'')]) \<and> length (documents db) = 2"
    unfolding res by (cases ?r; cases "fst ?r") auto
  then show "upload_document example_env up_env submit_db submit_db [] 1 ''k'' up_file ''PETITION'' ''T'' False 1
     = (Inr (up_doc, up_db), [(up_key_example, ''hello'')])" "length (documents up_db) = 2"
    by (auto simp: up_doc_def up_db_def up_result_def)
qed

lemma up_db_new: "up_db \<noteq> submit_db"
proof -
  have "length (documents submit_db) = 1" by code_simp
  with up_example(2) show ?thesis by auto
qed

section \<open>Properties\<close>



text \<open>An upload can be repeated: the same request under the same key, in any later state that
  still has the user's filing, the request row and the document, is answered with the document
  recorded first; neither the database nor the object store changes.\<close>
theorem upload_replayed:
  assumes "fresh_keys e"
    and "upload_document e u db0 db os fid key f code title conf uid = (Inr (d, db'), os')" and "db' \<noteq> db"
    and "upload_recorded db1 fid key = upload_recorded db' fid key"
    and "row_at dc_id (dc_id d) (documents db1) = Some d"
    and "find_filing db1 fid = Some g" and "fe_filer g = uid"
  shows "upload_document e u db1 db2 os2 fid key f code title conf uid = (Inr (d, db2), os2)"
proof -
  have en: "upload_entered e u db os fid uid f code d db' os'"
    and up: "uploads db' = uploads db @ [\<lparr>up_envelope = fid, up_key = key,
      up_fingerprint = upload_fingerprint e code title conf f (dc_sha256 d) (dc_size d),
      up_document = Some (dc_id d)\<rparr>]"
    and none: "upload_recorded db fid key = None" and rd: "read_upload (cfg e) f = Inr (uf_data f)"
    using upload_document_outcome [OF assms(2,1)] assms(3) by auto
  have none': "List.find (\<lambda>r. up_envelope r = fid \<and> up_key r = key) (uploads db) = None"
    using none by (simp add: upload_recorded_def)
  have "List.find P (xs @ [y]) = Some y" if "List.find P xs = None" "P y" for P xs and y :: upload_request
    using that by (induction xs) (auto split: if_splits)
  from this [OF none'] have rec: "upload_recorded db' fid key = Some \<lparr>up_envelope = fid, up_key = key,
      up_fingerprint = upload_fingerprint e code title conf f (dc_sha256 d) (dc_size d),
      up_document = Some (dc_id d)\<rparr>" by (simp add: upload_recorded_def up)
  have "dc_id d \<noteq> 0"
  proof -
    from assms(2) consider "db' = db"
      | d0 where "d = d0\<lparr>dc_id := new_key e (map dc_id (documents db))\<rparr>"
    proof (cases rule: upload_document_cases)
      case (stored d0 os1)
      note st = stored_upload [OF stored(1) assms(1)]
      then have "dc_file_key d0 \<notin> fst ` set os" and "os1 = os @ [(dc_file_key d0, uf_data f)]" by auto
      from finish_upload_Inr [OF stored(3) [symmetric, unfolded this(2)] this(1)] show ?thesis
        using that by (elim disjE conjE) (auto elim!: upload_locked_Enter dest: enter_upload_frame(1))
    qed (use that in auto)
    then show ?thesis
    proof cases
      case 2
      have "0 < new_key e (map dc_id (documents db))" using assms(1) unfolding fresh_keys_def by blast
      with 2 show ?thesis by simp
    qed (use assms(3) in simp)
  qed
  then have "replay_upload db1 \<lparr>up_envelope = fid, up_key = key,
      up_fingerprint = upload_fingerprint e code title conf f (dc_sha256 d) (dc_size d),
      up_document = Some (dc_id d)\<rparr> (upload_fingerprint e code title conf f (dc_sha256 d) (dc_size d)) = Inr d"
    using assms(5) en by (simp add: replay_upload_def upload_entered_def)
  moreover have "dc_sha256 d = ue_sha256 u (uf_data f)" "dc_size d = int (length (uf_data f))"
    using en by (simp_all add: upload_entered_def)
  ultimately show ?thesis
    using assms(4,6,7) rec rd by (simp add: upload_document_def owned_filing_def)
qed

theorem upload_replayed_witness:
  "upload_document example_env up_env up_db up_db [] 1 ''k'' up_file ''PETITION'' ''T'' False 1
     = (Inr (up_doc, up_db), [])"
proof -
  note en = upload_document_outcome [OF up_example(1) example_env_fresh]
  from en up_db_new have en': "upload_entered example_env up_env submit_db [] 1 1 up_file ''PETITION'' up_doc up_db
    [(up_key_example, ''hello'')]" by simp
  then obtain g where "find_filing up_db 1 = Some g" "fe_filer g = 1" by (auto simp: upload_entered_def)
  moreover have "row_at dc_id (dc_id up_doc) (documents up_db) = Some up_doc"
    using en' row_at_None_iff [of dc_id "dc_id up_doc" "documents submit_db"]
    by (auto simp: upload_entered_def row_at_append)
  ultimately show ?thesis
    using upload_replayed [OF example_env_fresh up_example(1) up_db_new refl] by blast
qed

text \<open>Only the filer removes a document, from an own draft or returned filing, and no retained
  document is lost by it: the document leaves the filing's current list and the fee version
  advances; a retained document, or one of a filing that was ever submitted, stays as a row that is
  only marked removed and its object is not queued for deletion, while a draft's document goes and
  exactly its object is queued. Every other document is untouched.\<close>
theorem removal_accounted:
  assumes "remove_document e db fid did uid = Inr db'" and "unique_key dc_id (documents db)"
  shows "\<exists>f d. find_filing db fid = Some f \<and> fe_filer f = uid \<and> fe_status f \<in> {Draft, Returned}
    \<and> row_at dc_id did (documents db) = Some d \<and> dc_envelope d = fid
    \<and> current_documents db' fid = filter (\<lambda>x. dc_id x \<noteq> did) (current_documents db fid)
    \<and> (\<exists>t. find_filing db' fid = Some (f\<lparr>fe_fee_version := fe_fee_version f + 1, fe_updated_at := t\<rparr>))
    \<and> row_at dc_id did (documents db') = (if dc_retained_at d \<noteq> None \<or> fe_submitted_at f \<noteq> None
         then Some (d\<lparr>dc_removed_at := Some (now e)\<rparr>) else None)
    \<and> map sd_file_key (deletions db') = map sd_file_key (deletions db) @
         (if dc_retained_at d \<noteq> None \<or> fe_submitted_at f \<noteq> None then [] else [dc_file_key d])
    \<and> (\<forall>x. x \<noteq> did \<longrightarrow> row_at dc_id x (documents db') = row_at dc_id x (documents db))"
  using assms(1)
proof (rule remove_document_Inr)
  fix f :: envelope and d
  let ?g = "f\<lparr>fe_fee_version := fe_fee_version f + 1\<rparr>"
  assume f: "find_filing db fid = Some f" "fe_filer f = uid" "fe_status f \<in> {Draft, Returned}"
    and d: "d \<in> set (current_documents db fid)" "dc_id d = did"
    and db': "db' = log_action e (Some uid) ''remove_document'' ''filing_document'' (Some did)
      (Some (JObj [(''filing_id'', JInt fid)])) (drop_document e f d (save_filing e ?g db))"
  have row: "row_at dc_id did (documents db) = Some d" "dc_envelope d = fid"
    using d assms(2) row_at_unique [of dc_id "documents db" d] by (auto simp: current_documents_def)
  have "find_filing db (fe_id ?g) = Some f" using f(1) by (simp add: find_filing_id)
  from find_save_same [OF this, of e] obtain t where
    "find_filing (save_filing e ?g db) fid = Some (?g\<lparr>fe_updated_at := t\<rparr>)"
    using find_filing_id [OF f(1)] by auto
  then have "find_filing db' fid = Some (?g\<lparr>fe_updated_at := t\<rparr>)" by (simp add: db' drop_document_frame)
  moreover have "current_documents db' fid = filter (\<lambda>x. dc_id x \<noteq> did) (current_documents db fid)"
    using d(2) by (simp add: db' drop_document_current current_documents_cong [OF log_action_frame(2)])
  ultimately show ?thesis
    using f row d(2)
    by (intro exI [of _ f] exI [of _ d]) (auto simp: db' drop_document_rows drop_document_deletions)
qed

theorem removal_accounted_witness:
  "\<exists>db'. remove_document example_env submit_db 1 6 1 = Inr db' \<and> current_documents db' 1 = []
     \<and> row_at dc_id 6 (documents db') = None"
proof -
  have "case remove_document example_env submit_db 1 6 1 of Inr db' \<Rightarrow> True | _ \<Rightarrow> False" by code_simp
  then obtain db' where r: "remove_document example_env submit_db 1 6 1 = Inr db'" by (auto split: sum.splits)
  have u: "unique_key dc_id (documents submit_db)"
    by (simp add: submit_db_def unique_key_def)
  have "map_option dc_retained_at (row_at dc_id 6 (documents submit_db)) = Some None"
    "map_option fe_submitted_at (find_filing submit_db 1) = Some None"
    "list_all (\<lambda>d. dc_id d = 6) (current_documents submit_db 1)" by code_simp+
  with removal_accounted [OF r u] r show ?thesis
    by (auto simp: list_all_iff intro!: exI [of _ db'])
qed

end
