(* ===== verification/OrderProofs.thy ===== *)
theory OrderProofs
  imports Orders FilingApiProofs
begin

text \<open>
  What the court orders establish: who entered them, on which record, and what they change.
\<close>

section \<open>The stored document\<close>

lemma keep_or_purge_result:
  assumes "keep_or_purge u k r (os @ [(k, c)]) = (r', os')" and "k \<notin> fst ` set os"
  shows "r' = r \<and> (case r of Inl x \<Rightarrow> at_most_orphan u c os os' | Inr y \<Rightarrow> os' = os @ [(k, c)])"
  using assms(1) purge_new_key(2) [OF assms(2)]
  by (auto simp: keep_or_purge_def simp del: purge_keys.simps split: sum.splits)

section \<open>Waiver decisions\<close>

lemma decidable_filing_Inr:
  assumes "decidable_filing e db fid uid a v = Inr f"
  shows "find_filing db fid = Some f \<and> waiver_pending f \<and> fe_filer f \<noteq> uid \<and> fe_submitted_at f \<noteq> None
    \<and> \<not> ended f \<and> fe_fee_version f = v
    \<and> has_role db uid (fe_court f) (if a \<in> {GrantJudicial, DenyJudicial} then JudgeRole else ClerkRole)"
  using assms
  by (auto simp: decidable_filing_def waiver_state_of_def waiver_actions_def then_do_Inr_iff
      split: option.splits if_splits)

lemma record_decision_effect:
  assumes "record_decision e f uid a reason owed doc db = Inr db'" and "find_filing db (fe_id f) = Some f0"
  shows "\<exists>t. find_filing db' (fe_id f) = Some ((decided_envelope e f a owed)\<lparr>fe_updated_at := t\<rparr>)"
    and "documents db' = (if a = Refer then documents db else documents (snd (add_document e (the doc) db)))"
    and "a \<noteq> Refer \<Longrightarrow> doc \<noteq> None"
    and "\<exists>t. transactions db' = transactions db @ [t] \<and> tx_event t = decision_event a \<and> tx_actor t = uid"
    and "payments db' = payments db" "cases db' = cases db" "users db' = users db"
proof -
  let ?f = "decided_envelope e f a owed"
  have id: "fe_id ?f = fe_id f" by (simp add: decided_envelope_def Let_def)
  have ne: "\<not> submission_event (decision_event a)" "decision_event a \<noteq> ''accepted''"
    by (simp_all add: decision_event_def submission_event_def)
  let ?db1 = "if a = Refer then db else snd (add_document e (the doc) db)"
  from assms(1) obtain doc' t db2 where
    r: "record_transaction e ?f (decision_event a) uid (Some reason) None (decision_details a owed doc')
          (save_filing e ?f ?db1) = Inr (t, db2)"
    and db': "db' = log_filing e uid (decision_event a) (fe_id f)
          (Some (JObj [(''basis'', JStr (waiver_action_value a))])) db2"
    and doc: "a \<noteq> Refer \<Longrightarrow> doc \<noteq> None"
    by (auto simp: record_decision_def then_do_Inr_iff Let_def split: if_splits prod.splits)
  note fr = record_transaction_frame [OF r] and pl = record_transaction_plain [OF r ne]
  have f0: "find_filing ?db1 (fe_id ?f) = Some f0" using assms(2) id by simp
  obtain u where "find_filing (save_filing e ?f ?db1) (fe_id ?f) = Some (?f\<lparr>fe_updated_at := u\<rparr>)"
    using find_save_same [OF f0] by metis
  with id fr(15) show "\<exists>t. find_filing db' (fe_id f) = Some (?f\<lparr>fe_updated_at := t\<rparr>)"
    by (auto simp: db' log_filing_def)
  show "documents db' = (if a = Refer then documents db else documents (snd (add_document e (the doc) db)))"
    using pl(1) by (simp add: db' log_filing_def)
  show "a \<noteq> Refer \<Longrightarrow> doc \<noteq> None" by (rule doc)
  show "\<exists>t. transactions db' = transactions db @ [t] \<and> tx_event t = decision_event a \<and> tx_actor t = uid"
    using fr(8,18,19) by (intro exI [of _ t]) (simp add: db' log_filing_def)
  show "payments db' = payments db" "cases db' = cases db" "users db' = users db"
    using fr by (simp_all add: db' log_filing_def)
qed

text \<open>A decided waiver settles the fee state of every viewer.\<close>

lemma decided_fee_state:
  assumes "f' = (decided_envelope e f a owed)\<lparr>fe_updated_at := t\<rparr>" and "a \<noteq> Refer"
    and "a = DenyJudicial \<Longrightarrow> owed \<noteq> None"
  shows "\<exists>s. fee_state_of e db f' viewer = Inr s
    \<and> fs_total s = (if a = DenyJudicial \<and> fe_type f \<noteq> ''service_only'' then owed else Some 0)"
proof -
  have "\<exists>b. fee_basis_of e db f' = Inr b
      \<and> fb_total b = (if a = DenyJudicial \<and> fe_type f \<noteq> ''service_only'' then owed else Some 0)"
    using assms by (auto simp: fee_basis_of_def decided_envelope_def Let_def unassessed_basis_def)
  then show ?thesis by (auto simp: fee_state_of_def Let_def)
qed

lemma decide_fee_waiver_cases:
  assumes "decide_fee_waiver e u db0 db os fid w uid = (r, os')" and "fresh_keys e"
  shows "(\<exists>x. r = Inl x \<and> (os' = os \<or> (\<exists>f. wf_file w = Some f \<and> at_most_orphan u (uf_data f) os os')))
    \<or> (\<exists>db'. r = Inr db' \<and> wf_action w = Refer \<and> os' = os \<and>
         decide_locked e db fid uid Refer (wf_version w) (str_strip (wf_reason w)) (wf_due w) None = Inr db')
    \<or> (\<exists>db' d f os1. r = Inr db' \<and> wf_action w \<noteq> Refer \<and> os' = os1
         \<and> (wf_action w = DenyJudicial \<longrightarrow> wf_due w \<noteq> None)
         \<and> store_document_upload e u fid f ''FEE_WAIVER_ORDER'' ''Signed fee waiver decision'' True os = (Inr d, os1)
         \<and> decide_locked e db fid uid (wf_action w) (wf_version w) (str_strip (wf_reason w)) (wf_due w) (Some d) = Inr db')"
proof (cases "wf_file w")
  case None
  then show ?thesis
    using assms(1)
    by (cases r) (auto simp: decide_fee_waiver_def check_decision_def Let_def split: if_splits sum.splits)
next
  case (Some f)
  let ?store = "store_document_upload e u fid f ''FEE_WAIVER_ORDER'' ''Signed fee waiver decision'' True os"
  obtain s os1 where s: "?store = (s, os1)" by fastforce
  show ?thesis
  proof (cases s)
    case (Inl x)
    with s have "at_most_orphan u (uf_data f) os os1" using store_document_upload_Inl(2) [OF _ assms(2)] by simp
    with s Inl Some assms(1) show ?thesis
      by (auto simp: decide_fee_waiver_def Let_def split: if_splits sum.splits)
  next
    case (Inr d)
    with s have p: "?store = (Inr d, os1)" by simp
    let ?l = "decide_locked e db fid uid (wf_action w) (wf_version w) (str_strip (wf_reason w)) (wf_due w) (Some d)"
    from assms(1) Some p consider "\<exists>x. r = Inl x \<and> os' = os"
      | "keep_or_purge u (dc_file_key d) ?l os1 = (r, os')" "wf_action w \<noteq> Refer"
        "wf_action w = DenyJudicial \<longrightarrow> wf_due w \<noteq> None"
      by (auto simp: decide_fee_waiver_def check_decision_def Let_def split: if_splits sum.splits)
    then show ?thesis
    proof cases
      case 2
      from stored_upload [OF p assms(2)] have st: "dc_file_key d \<notin> fst ` set os"
        "os1 = os @ [(dc_file_key d, uf_data f)]" by auto
      from keep_or_purge_result [OF 2(1) [unfolded st(2)] st(1)]
      have "r = ?l" "case ?l of Inl x \<Rightarrow> at_most_orphan u (uf_data f) os os' | Inr y \<Rightarrow> os' = os1" using st(2) by auto
      with 2(2,3) p Some show ?thesis by (cases ?l) auto
    qed simp
  qed
qed

section \<open>Date orders\<close>

lemma record_filing_date_order_cases:
  assumes "record_filing_date_order e u db0 db os fid o' uid = (r, os')" and "fresh_keys e"
  shows "(\<exists>x. r = Inl x \<and> at_most_orphan u (uf_data (of_file o')) os os')
    \<or> (\<exists>y i key. r = Inr y \<and> os' = os @ [(key, uf_data (of_file o'))] \<and> key \<notin> fst ` set os
         \<and> inspect_upload (cfg e) u (of_file o') True = Inr i
         \<and> order_locked e db fid o' key i uid = Inr y \<and> (of_update_case o' \<longrightarrow> of_case_version o' \<noteq> None))"
proof -
  let ?pre = "if \<not> valid_date_form o' then Inl (Http 422 Invalid_request)
            else then_do (check_date_form o') (\<lambda>_.
              then_do (date_filing db0 uid fid False True) (\<lambda>f.
              then_do (check_order f (of_version o')) (\<lambda>_.
              inspect_upload (cfg e) u (of_file o') True)))"
  show ?thesis
  proof (cases ?pre)
    case (Inl x)
    with assms(1) show ?thesis by (auto simp: record_filing_date_order_def)
  next
    case pre: (Inr i)
    from pre have i: "inspect_upload (cfg e) u (of_file o') True = Inr i"
      and cv: "of_update_case o' \<longrightarrow> of_case_version o' \<noteq> None"
      by (auto simp: then_do_Inr_iff check_date_form_def split: if_splits)
    define key where "key = new_file_key e (orders_path fid) ''.pdf'' os"
    have new: "key \<notin> fst ` set os" unfolding key_def by (rule new_file_key_fresh [OF assms(2)])
    have dat: "in_data i = uf_data (of_file o')" using inspect_upload_Inr [OF i] by simp
    obtain p os1 where put: "put_object u key (uf_data (of_file o')) os = (p, os1)" by fastforce
    have run: "(case p of Inl x \<Rightarrow> (Inl x, os1)
        | Inr _ \<Rightarrow> keep_or_purge u key (order_locked e db fid o' key i uid) os1) = (r, os')"
      using assms(1) pre put
      by (auto simp: record_filing_date_order_def Let_def dat simp flip: key_def split: sum.splits)
    show ?thesis
    proof (cases p)
      case (Inl x)
      with run put_object_Inl(2) [OF _ new] put show ?thesis by auto
    next
      case (Inr q)
      have os1: "os1 = os @ [(key, uf_data (of_file o'))]" using put_object_new [OF _ new] put Inr by blast
      from run Inr os1 have "keep_or_purge u key (order_locked e db fid o' key i uid) (os @ [(key, uf_data (of_file o'))]) = (r, os')"
        by simp
      from keep_or_purge_result [OF this new] show ?thesis using i new cv
        by (cases "order_locked e db fid o' key i uid") auto
    qed
  qed
qed

lemma order_locked_Inr:
  assumes "order_locked e db fid o' key i uid = Inr (t, db')"
  obtains f change db1 d db2 db3 where "find_filing db fid = Some f"
    and "is_court_staff db (Some uid) (fe_court f)" and "fe_filer f \<noteq> uid" and "order_block f = None"
    and "fe_filing_date_version f = of_version o'"
    and "order_case_date f o' db = Inr (change, db1)" and "add_document e (order_document e f key i) db1 = (d, db2)"
    and "record_transaction e (f\<lparr>fe_filing_date := Some (of_date o'),
           fe_filing_date_basis := Some (order_basis f o' (dc_id d)),
           fe_filing_date_version := fe_filing_date_version f + 1\<rparr>) ''filing_date_ordered'' uid
         (Some (str_strip (of_reason o'))) None
         ([(''previous_filing_date'', jopt JDate (fe_filing_date f)),
           (''previous_filing_date_basis'', jopt id (fe_filing_date_basis f))] @ change
          @ [(''filing_date_basis'', order_basis f o' (dc_id d)), (''documents'', JArr [document_json d])])
         (save_filing e (f\<lparr>fe_filing_date := Some (of_date o'),
           fe_filing_date_basis := Some (order_basis f o' (dc_id d)),
           fe_filing_date_version := fe_filing_date_version f + 1\<rparr>) db2) = Inr (t, db3)"
    and "db' = log_filing e uid ''filing_date_ordered'' (fe_id f)
            (Some (JObj [(''transaction_id'', JStr (tx_id t)), (''order_document_id'', JInt (dc_id d))])) db3"
proof -
  from assms obtain f change db1 where f: "find_filing db fid = Some f"
      "is_court_staff db (Some uid) (fe_court f)" "fe_filer f \<noteq> uid" "order_block f = None"
      "fe_filing_date_version f = of_version o'" "order_case_date f o' db = Inr (change, db1)"
    and en: "enter_order e f o' (order_document e f key i) uid db = Inr (t, db')"
    by (auto simp: order_locked_def date_filing_def check_order_def then_do_Inr_iff enter_order_def
        split: option.splits if_splits)
  obtain d db2 where "add_document e (order_document e f key i) db1 = (d, db2)" by fastforce
  with en f obtain db3 where "record_transaction e (f\<lparr>fe_filing_date := Some (of_date o'),
           fe_filing_date_basis := Some (order_basis f o' (dc_id d)),
           fe_filing_date_version := fe_filing_date_version f + 1\<rparr>) ''filing_date_ordered'' uid
         (Some (str_strip (of_reason o'))) None
         ([(''previous_filing_date'', jopt JDate (fe_filing_date f)),
           (''previous_filing_date_basis'', jopt id (fe_filing_date_basis f))] @ change
          @ [(''filing_date_basis'', order_basis f o' (dc_id d)), (''documents'', JArr [document_json d])])
         (save_filing e (f\<lparr>fe_filing_date := Some (of_date o'),
           fe_filing_date_basis := Some (order_basis f o' (dc_id d)),
           fe_filing_date_version := fe_filing_date_version f + 1\<rparr>) db2) = Inr (t, db3)"
    "db' = log_filing e uid ''filing_date_ordered'' (fe_id f)
            (Some (JObj [(''transaction_id'', JStr (tx_id t)), (''order_document_id'', JInt (dc_id d))])) db3"
    by (auto simp: enter_order_def then_do_Inr_iff Let_def)
  with f \<open>add_document e (order_document e f key i) db1 = (d, db2)\<close> show ?thesis by (intro that)
qed

lemma order_case_date_frame:
  assumes "order_case_date f o' db = Inr (change, db1)"
  shows "documents db1 = documents db" "filings db1 = filings db" "find_filing db1 = find_filing db"
    "transactions db1 = transactions db" "payments db1 = payments db"
    "if of_update_case o'
     then \<exists>c \<in> set (cases db). Some (cs_id c) = fe_case f \<and> cs_court c = fe_court f
       \<and> Some (cs_filing_date_version c) = of_case_version o'
       \<and> cases db1 = upd_row cs_id (cs_id c) (\<lambda>r. r\<lparr>cs_filing_date := Some (of_date o'),
                 cs_filing_date_version := cs_filing_date_version r + 1\<rparr>) (cases db)
     else cases db1 = cases db"
  using assms
  by (auto simp: order_case_date_def find_filing_def fun_eq_iff split: if_splits option.splits dest!: find_SomeD)

lemma order_basis_simps:
  "jget ''source'' (order_basis f o' k) = Some (JStr ''court_order'')"
  "jget ''order_document_id'' (order_basis f o' k) = Some (JInt k)"
  by (simp_all add: order_basis_def jget_def)

lemma order_document_simps [simp]:
  "dc_envelope (order_document e f key i) = fe_id f" "dc_type (order_document e f key i) = ''FILING_DATE_ORDER''"
  "dc_file_key (order_document e f key i) = key" "dc_confidential (order_document e f key i)"
  "dc_retained_at (order_document e f key i) = Some (now e)" "dc_sha256 (order_document e f key i) = in_sha256 i"
  by (simp_all add: order_document_def)

lemma add_document_fresh:
  assumes "add_document e d0 db = (d, db')" and "fresh_keys e"
  shows "d = d0\<lparr>dc_id := dc_id d\<rparr>" "documents db' = documents db @ [d]" "dc_id d \<notin> dc_id ` set (documents db)"
    "find_filing db' = find_filing db" "cases db' = cases db" "transactions db' = transactions db"
  using assms by (auto simp: add_document_def Let_def find_filing_def fun_eq_iff fresh_keys_def
      dest: spec [of _ "map dc_id (documents db)"])

section \<open>An example\<close>

definition pdf_env :: upload_env where
  "pdf_env = up_env\<lparr>ue_magic := (\<lambda>d. Some ''application/pdf''), ue_pdf := (\<lambda>d. Some (1, [Some ''x'']))\<rparr>"

definition pdf_info :: inspected where
  "pdf_info = \<lparr>in_data = ''hello'', in_mime = ''application/pdf'', in_sha256 = ''hello'',
     in_pdf = \<lparr>pi_pages = Some 1, pi_searchable = True, pi_warnings = []\<rparr>\<rparr>"

lemma pdf_inspected: "inspect_upload (cfg example_env) pdf_env up_file b = Inr pdf_info"
proof -
  have rd: "read_upload (cfg example_env) up_file = Inr ''hello''"
    by (simp add: read_upload_def max_bytes_def example_env_def example_settings_def up_file_def)
  have ty: "check_type (cfg example_env) pdf_env up_file ''hello'' b = Inr ''application/pdf''"
  proof (cases b)
    case True
    have "check_type (cfg example_env) pdf_env up_file ''hello'' True = Inr ''application/pdf''" by code_simp
    with True show ?thesis by simp
  next
    case False
    have "check_type (cfg example_env) pdf_env up_file ''hello'' False = Inr ''application/pdf''" by code_simp
    with False show ?thesis by simp
  qed
  have sc: "check_scan (cfg example_env) pdf_env ''hello'' = Inr ()" by code_simp
  have pdf: "inspect_pdf (ue_pdf pdf_env) ''hello'' = \<lparr>pi_pages = Some 1, pi_searchable = True, pi_warnings = []\<rparr>"
    by code_simp
  have sha: "ue_sha256 pdf_env ''hello'' = ''hello''" by code_simp
  show ?thesis by (simp add: inspect_upload_def rd ty sc pdf sha Let_def pdf_info_def)
qed

lemma pdf_env_stores: "put_object pdf_env k d [] = (Inr (), [(k, d)])"
  by (simp add: put_object_def pdf_env_def up_env_def)

definition waiver_db :: db where
  "waiver_db = assess_db\<lparr>filings := [draft_filing\<lparr>fe_status := Submitted, fe_submitted_at := Some 0,
     fe_submission_count := 1, fe_waiver_requested := True\<rparr>]\<rparr>"

definition grant_form :: waiver_form where
  "grant_form = \<lparr>wf_action = GrantPublicAssistance, wf_reason = [], wf_due = None, wf_version = 0,
     wf_file = Some up_file\<rparr>"

definition order_key :: string where
  "order_key = new_file_key example_env (filing_path 1) ''.txt'' []"

definition granted_db :: db where
  "granted_db = (case fst (decide_fee_waiver example_env pdf_env waiver_db waiver_db [] 1 grant_form 2) of
     Inr db \<Rightarrow> db | _ \<Rightarrow> waiver_db)"

lemma grant_example:
  "decide_fee_waiver example_env pdf_env waiver_db waiver_db [] 1 grant_form 2
     = (Inr granted_db, [(order_key, ''hello'')])"
proof -
  let ?d = "uploaded_document example_env 1 ''FEE_WAIVER_ORDER'' ''Signed fee waiver decision'' True order_key pdf_info"
  have store: "store_document_upload example_env pdf_env 1 up_file ''FEE_WAIVER_ORDER''
      ''Signed fee waiver decision'' True [] = (Inr ?d, [(order_key, ''hello'')])"
    unfolding store_document_upload_def pdf_inspected
    by (simp add: Let_def order_key_def pdf_env_stores pdf_info_def) (simp add: pdf_env_def up_env_def or_text_def)
  have key: "dc_file_key ?d = order_key" by simp
  have form: "valid_waiver_form grant_form" "check_decision grant_form = Inr ()" by code_simp+
  have w: "wf_action grant_form = GrantPublicAssistance" "wf_version grant_form = 0" "wf_reason grant_form = []"
    "wf_due grant_form = None" "wf_file grant_form = Some up_file" by (simp_all add: grant_form_def)
  have "case decidable_filing example_env waiver_db 1 2 GrantPublicAssistance 0 of Inr f \<Rightarrow> True | _ \<Rightarrow> False"
    by code_simp
  then obtain f where dec: "decidable_filing example_env waiver_db 1 2 GrantPublicAssistance 0 = Inr f"
    by (auto split: sum.splits)
  have "case decide_locked example_env waiver_db 1 2 GrantPublicAssistance 0 (str_strip []) None (Some ?d) of
      Inr db \<Rightarrow> True | _ \<Rightarrow> False"
    by code_simp
  then obtain db where lk: "decide_locked example_env waiver_db 1 2 GrantPublicAssistance 0 (str_strip []) None
      (Some ?d) = Inr db" by (auto split: sum.splits)
  have "decide_fee_waiver example_env pdf_env waiver_db waiver_db [] 1 grant_form 2
      = (Inr db, [(order_key, ''hello'')])"
    by (simp add: decide_fee_waiver_def form w dec store lk key keep_or_purge_def Let_def)
  then show ?thesis by (simp add: granted_db_def)
qed

definition date_form :: date_order_form where
  "date_form = \<lparr>of_date = 739600, of_signed = 739610, of_authority = ''A'', of_reason = ''r'', of_reviewed = True,
     of_version = 0, of_update_case = False, of_case_version = None, of_file = up_file\<rparr>"

definition date_key :: string where
  "date_key = new_file_key example_env (orders_path 1) ''.pdf'' []"

definition ordered_state :: "txn \<times> db" where
  "ordered_state = (case order_locked example_env waiver_db 1 date_form date_key pdf_info 2 of
     Inr r \<Rightarrow> r | _ \<Rightarrow> (hd (transactions waiver_db), waiver_db))"

lemma order_example:
  "record_filing_date_order example_env pdf_env waiver_db waiver_db [] 1 date_form 2
     = (Inr (fst ordered_state, snd ordered_state), [(date_key, ''hello'')])"
proof -
  have form: "valid_date_form date_form" "check_date_form date_form = Inr ()" by code_simp+
  have "case date_filing waiver_db 2 1 False True of Inr f \<Rightarrow> check_order f 0 = Inr () | _ \<Rightarrow> False"
    by code_simp
  then obtain f where df: "date_filing waiver_db 2 1 False True = Inr f" "check_order f 0 = Inr ()"
    by (auto split: sum.splits)
  have w: "of_version date_form = 0" "of_file date_form = up_file" by (simp_all add: date_form_def)
  have "case order_locked example_env waiver_db 1 date_form date_key pdf_info 2 of Inr r \<Rightarrow> True | _ \<Rightarrow> False"
    by code_simp
  then have lk: "order_locked example_env waiver_db 1 date_form date_key pdf_info 2 = Inr ordered_state"
    by (auto simp: ordered_state_def split: sum.splits)
  have dat: "in_data pdf_info = ''hello''" by (simp add: pdf_info_def)
  show ?thesis
    by (simp add: record_filing_date_order_def form df w pdf_inspected Let_def pdf_env_stores lk dat
        keep_or_purge_def flip: date_key_def)
qed

section \<open>Properties\<close>



text \<open>C26: a court order of a filing date is entered by court staff other than the filer, on a
  submitted filing that is not a service-only record, against the date version they saw. It adds
  one confidential, retained order document whose bytes were screened and stored; from then on the
  filing has the ordered date, its basis is that order, and a clerk's acceptance is checked against
  exactly that document. The current documents of the filing and its status stay as they are. The
  opening date of a case of the same court changes only when asked for, under the case's own
  version. A refused order leaves the object store as it was, or, when its write or its reclaiming
  failed, with one orphan more under an unused key.\<close>
theorem date_order_governs:
  assumes "fresh_keys e"
    and "record_filing_date_order e u db0 db os fid o' uid = (r, os')"
  shows "case r of
      Inl x \<Rightarrow> os' = os \<or> (\<exists>k n. k \<notin> fst ` set os \<and> os' = os @ [(k, take n (uf_data (of_file o')))]
        \<and> (ue_write_fault u k \<noteq> None \<or> ue_delete_fault u k))
    | Inr (t, db') \<Rightarrow> (\<exists>f f' d v. find_filing db fid = Some f \<and> fe_filer f \<noteq> uid
        \<and> is_court_staff db (Some uid) (fe_court f) \<and> fe_status f \<notin> {Draft, Served}
        \<and> fe_filing_date_version f = of_version o'
        \<and> find_filing db' fid = Some f' \<and> fe_status f' = fe_status f
        \<and> fe_filing_date f' = Some (of_date o') \<and> fe_filing_date_version f' = of_version o' + 1
        \<and> ordered_date f' \<and> date_order db' f' = Some d
        \<and> documents db' = documents db @ [d] \<and> current_documents db' fid = current_documents db fid
        \<and> dc_confidential d \<and> dc_sha256 d = ue_sha256 u (uf_data (of_file o'))
        \<and> os' = os @ [(dc_file_key d, uf_data (of_file o'))]
        \<and> scan_upload (cfg e) (ue_clamd u) (uf_data (of_file o')) = Some v \<and> sn_clean v
        \<and> (if of_update_case o'
           then \<exists>c \<in> set (cases db). Some (cs_id c) = fe_case f \<and> cs_court c = fe_court f
             \<and> Some (cs_filing_date_version c) = of_case_version o'
             \<and> cases db' = upd_row cs_id (cs_id c) (\<lambda>r. r\<lparr>cs_filing_date := Some (of_date o'),
                 cs_filing_date_version := cs_filing_date_version r + 1\<rparr>) (cases db)
           else cases db' = cases db))"
proof (cases r)
  case (Inr y)
  obtain t db' where y: "y = (t, db')" by (cases y)
  from record_filing_date_order_cases [OF assms(2,1)] Inr y obtain i key where
    os': "os' = os @ [(key, uf_data (of_file o'))]"
    and i: "inspect_upload (cfg e) u (of_file o') True = Inr i"
    and lk: "order_locked e db fid o' key i uid = Inr (t, db')" by auto
  note ins = inspect_upload_Inr [OF i]
  then obtain v where v: "scan_upload (cfg e) (ue_clamd u) (uf_data (of_file o')) = Some v" "sn_clean v" by auto
  from lk show ?thesis
  proof (rule order_locked_Inr)
    fix f :: envelope and change db1 and d :: document and db2 db3
    let ?f = "f\<lparr>fe_filing_date := Some (of_date o'), fe_filing_date_basis := Some (order_basis f o' (dc_id d)),
           fe_filing_date_version := fe_filing_date_version f + 1\<rparr>"
    let ?kvs = "[(''previous_filing_date'', jopt JDate (fe_filing_date f)),
           (''previous_filing_date_basis'', jopt id (fe_filing_date_basis f))] @ change
          @ [(''filing_date_basis'', order_basis f o' (dc_id d)), (''documents'', JArr [document_json d])]"
    assume f: "find_filing db fid = Some f" "is_court_staff db (Some uid) (fe_court f)" "fe_filer f \<noteq> uid"
        "order_block f = None" "fe_filing_date_version f = of_version o'"
      and ocd: "order_case_date f o' db = Inr (change, db1)"
      and add: "add_document e (order_document e f key i) db1 = (d, db2)"
      and rec: "record_transaction e ?f ''filing_date_ordered'' uid (Some (str_strip (of_reason o'))) None ?kvs
          (save_filing e ?f db2) = Inr (t, db3)"
      and db': "db' = log_filing e uid ''filing_date_ordered'' (fe_id f)
            (Some (JObj [(''transaction_id'', JStr (tx_id t)), (''order_document_id'', JInt (dc_id d))])) db3"
    note cf = order_case_date_frame [OF ocd] and af = add_document_fresh [OF add assms(1)]
    note rf = record_transaction_frame [OF rec]
    have id: "fe_id f = fid" using f(1) by (simp add: find_filing_id)
    have "find_filing db2 (fe_id ?f) = Some f" using f(1) id af(4) cf(3) by simp
    from find_save_same [OF this, of e] obtain tm where
      "find_filing (save_filing e ?f db2) fid = Some (?f\<lparr>fe_updated_at := tm\<rparr>)" using id by auto
    then have f': "find_filing db' fid = Some (?f\<lparr>fe_updated_at := tm\<rparr>)"
      using rf(15) by (simp add: db' log_filing_def)
    have ne: "\<not> submission_event ''filing_date_ordered''" "''filing_date_ordered'' \<noteq> ''accepted''"
      by (simp_all add: submission_event_def)
    have docs: "documents db' = documents db @ [d]"
      using record_transaction_plain(1) [OF rec ne] af(2) cf(1) by (simp add: db' log_filing_def)
    have dd: "dc_envelope d = fid" "dc_type d = ''FILING_DATE_ORDER''" "dc_file_key d = key"
      "dc_confidential d" "dc_retained_at d \<noteq> None" "dc_sha256 d = ue_sha256 u (uf_data (of_file o'))"
      using ins id by (subst af(1); simp)+
    have cur: "current_documents db' fid = current_documents db fid"
      using docs dd(2) by (simp add: current_documents_def court_document_types_def)
    have order: "date_order db' (?f\<lparr>fe_updated_at := tm\<rparr>) = Some d"
      unfolding date_order_def docs
      by (rule find_appended) (use af(3) cf(1) dd(1,2,5) id in
        \<open>auto simp: order_document_id_def order_basis_simps image_iff\<close>)
    have ord: "ordered_date (?f\<lparr>fe_updated_at := tm\<rparr>)" by (simp add: ordered_date_def order_basis_simps)
    have cs: "cases db' = cases db1" using rf(2) af(5) by (simp add: db' log_filing_def)
    have stat: "fe_status f \<notin> {Draft, Served}" using f(4) by (auto simp: order_block_def split: if_splits)
    show ?thesis unfolding Inr y sum.case prod.case
      by (intro exI [of _ f] exI [of _ "?f\<lparr>fe_updated_at := tm\<rparr>"] exI [of _ d] exI [of _ v] conjI)
        (use f stat f' order ord docs cur dd os' v cf(6) cs in \<open>simp_all\<close>)
  qed
next
  case (Inl x)
  with record_filing_date_order_cases [OF assms(2,1)] show ?thesis unfolding at_most_orphan_def by auto
qed

theorem date_order_governs_witness:
  "\<exists>f' d. find_filing (snd ordered_state) 1 = Some f' \<and> fe_filing_date f' = Some 739600
     \<and> date_order (snd ordered_state) f' = Some d \<and> dc_confidential d
     \<and> cases (snd ordered_state) = cases waiver_db"
proof -
  have w: "of_date date_form = 739600" "of_update_case date_form = False" by (simp_all add: date_form_def)
  show ?thesis
    using date_order_governs [OF example_env_fresh order_example]
    unfolding sum.case prod.case w by fastforce
qed

section \<open>Versions of the filing date\<close>

definition date_version_of :: "int \<Rightarrow> db \<Rightarrow> int" where
  "date_version_of fid db = (case find_filing db fid of None \<Rightarrow> 0 | Some f \<Rightarrow> fe_filing_date_version f)"

definition order_date :: "int \<Rightarrow> env \<times> date_order_form \<times> string \<times> inspected \<times> int \<Rightarrow> int \<Rightarrow> db \<Rightarrow> failure + db" where
  "order_date fid a v db =
     (case a of (e, o', key, i, uid) \<Rightarrow>
        then_do (order_locked e db fid (o'\<lparr>of_version := v\<rparr>) key i uid) (\<lambda>(t, db'). Inr db'))"

lemma order_locked_version:
  assumes "order_locked e db fid o' key i uid = Inr (t, db')"
  shows "date_version_of fid db = of_version o' \<and> date_version_of fid db' = of_version o' + 1"
  using assms
proof (rule order_locked_Inr)
  fix f :: envelope and change db1 and d :: document and db2 db3
  let ?f = "f\<lparr>fe_filing_date := Some (of_date o'), fe_filing_date_basis := Some (order_basis f o' (dc_id d)),
           fe_filing_date_version := fe_filing_date_version f + 1\<rparr>"
  let ?kvs = "[(''previous_filing_date'', jopt JDate (fe_filing_date f)),
           (''previous_filing_date_basis'', jopt id (fe_filing_date_basis f))] @ change
          @ [(''filing_date_basis'', order_basis f o' (dc_id d)), (''documents'', JArr [document_json d])]"
  assume f: "find_filing db fid = Some f" "fe_filing_date_version f = of_version o'"
    and ocd: "order_case_date f o' db = Inr (change, db1)"
    and add: "add_document e (order_document e f key i) db1 = (d, db2)"
    and rec: "record_transaction e ?f ''filing_date_ordered'' uid (Some (str_strip (of_reason o'))) None ?kvs
        (save_filing e ?f db2) = Inr (t, db3)"
    and db': "db' = log_filing e uid ''filing_date_ordered'' (fe_id f)
          (Some (JObj [(''transaction_id'', JStr (tx_id t)), (''order_document_id'', JInt (dc_id d))])) db3"
  have id: "fe_id f = fid" using f(1) by (simp add: find_filing_id)
  have "db2 = snd (add_document e (order_document e f key i) db1)" using add by simp
  then have "find_filing db2 (fe_id ?f) = Some f" using f(1) id order_case_date_frame(3) [OF ocd] by simp
  from find_save_same [OF this, of e] obtain tm where
    "find_filing (save_filing e ?f db2) fid = Some (?f\<lparr>fe_updated_at := tm\<rparr>)" using id by auto
  then have "find_filing db' fid = Some (?f\<lparr>fe_updated_at := tm\<rparr>)"
    using record_transaction_frame(15) [OF rec] by (simp add: db' log_filing_def)
  with f show ?thesis by (simp add: date_version_of_def)
qed

interpretation date_record: versioned_update "date_version_of fid" "order_date fid" for fid
  by unfold_locales (auto simp: order_date_def then_do_Inr_iff dest!: order_locked_version split: prod.splits)

end
