(* ===== verification/PublicationProofs.thy ===== *)
theory PublicationProofs
  imports Publication OrderProofs
begin

text \<open>
  Who can read a document and its copies after publication and after withholding, and what a
  download delivers.
\<close>

section \<open>Downloads\<close>

lemma concat_chunks: "0 < k \<Longrightarrow> concat (chunks k d) = d"
proof (induction k d rule: chunks.induct)
  case (1 k d)
  then show ?case by (subst chunks.simps) auto
qed

lemma spool_result:
  "length acc \<le> n \<Longrightarrow> spool n acc cs =
     (if length acc + length (concat cs) \<le> n then Inr (acc @ concat cs)
      else Inl (Http 409 (Publication Retained_integrity)))"
  by (induction cs arbitrary: acc) auto

section \<open>Reading depends on these tables\<close>

lemma is_court_staff_cong: "court_roles db' = court_roles db \<Longrightarrow> is_court_staff db' = is_court_staff db"
  by (simp add: is_court_staff_def fun_eq_iff split: option.splits)

lemma case_visible_cong:
  assumes "court_roles db' = court_roles db" and "participants db' = participants db"
  shows "case_visible db' = case_visible db"
  using assms is_court_staff_cong [OF assms(1)]
  by (simp add: case_visible_def participant_grant_def fun_eq_iff split: option.splits)

lemma may_read_case_cong:
  assumes "court_roles db' = court_roles db" and "participants db' = participants db" and "cases db' = cases db"
  shows "may_read_case db' = may_read_case db"
  using assms case_visible_cong [OF assms(1,2)] by (simp add: may_read_case_def fun_eq_iff)

section \<open>The document under the lock\<close>

lemma document_context_Inr:
  assumes "document_context db actor did True True = Inr (a, d, f)"
  shows "row_at dc_id did (documents db) = Some d \<and> dc_id d = did \<and> us_id a = us_id actor \<and> us_active a
    \<and> find_filing db (dc_envelope d) = Some f \<and> is_court_staff db (Some (us_id actor)) (fe_court f)
    \<and> fe_filer f \<noteq> us_id actor"
proof -
  from assms have d: "row_at dc_id did (documents db) = Some d"
    by (auto simp: document_context_def then_do_Inr_iff split: option.splits if_splits)
  from assms have "find_user db (us_id actor) = Some a"
    by (auto simp: document_context_def then_do_Inr_iff split: option.splits if_splits)
  then have "us_id a = us_id actor" by (rule find_user_id)
  with assms d row_at_SomeD [OF d] show ?thesis
    by (auto simp: document_context_def then_do_Inr_iff split: option.splits if_splits)
qed

lemma set_access_row:
  assumes "row_at dc_id did (documents db) = Some d"
  shows "row_at dc_id did (documents (set_access did v copy db))
    = Some (d\<lparr>dc_confidential := True, dc_public_copy := copy, dc_access_version := v + 1\<rparr>)"
  using assms by (simp add: set_access_def row_at_upd_same)

lemma set_access_frame [simp]:
  "find_filing (set_access did v copy db) = find_filing db"
  "court_roles (set_access did v copy db) = court_roles db"
  "participants (set_access did v copy db) = participants db"
  "cases (set_access did v copy db) = cases db"
  "users (set_access did v copy db) = users db"
  "public_copies (set_access did v copy db) = public_copies db"
  "transactions (set_access did v copy db) = transactions db"
  by (simp_all add: set_access_def find_filing_def fun_eq_iff)

text \<open>An access change with its audit entry and ledger row, whatever they say.\<close>

lemma access_changed:
  assumes "record_transaction e f ev uid (Some why) None kvs
      (log_action e who act ent ei det (set_access did v copy db)) = Inr (t, db')"
    and "row_at dc_id did (documents db) = Some d"
    and "\<not> submission_event ev" and "ev \<noteq> ''accepted''"
  shows "row_at dc_id did (documents db') =
      Some (d\<lparr>dc_confidential := True, dc_public_copy := copy, dc_access_version := v + 1\<rparr>)"
    and "find_filing db' = find_filing db" and "is_court_staff db' = is_court_staff db"
    and "may_read_case db' = may_read_case db" and "public_copies db' = public_copies db"
proof -
  note fr = record_transaction_frame [OF assms(1)] and pl = record_transaction_plain [OF assms(1,3,4)]
  show "row_at dc_id did (documents db') =
      Some (d\<lparr>dc_confidential := True, dc_public_copy := copy, dc_access_version := v + 1\<rparr>)"
    using pl(1) set_access_row [OF assms(2)] by simp
  show "find_filing db' = find_filing db" "public_copies db' = public_copies db" using fr by simp_all
  have same: "court_roles db' = court_roles db" "participants db' = participants db" "cases db' = cases db"
    using fr by simp_all
  from is_court_staff_cong [OF same(1)] show "is_court_staff db' = is_court_staff db" .
  from may_read_case_cong [OF same] show "may_read_case db' = may_read_case db" .
qed

lemma publish_locked_Inr:
  assumes "publish_locked e db actor did c r = Inr db'"
  shows "\<exists>d f. row_at dc_id did (documents db') = Some d \<and> dc_confidential d
    \<and> dc_public_copy d = Some (pc_id c) \<and> find_filing db' (dc_envelope d) = Some f
    \<and> fe_filer f \<noteq> us_id actor \<and> is_court_staff db' (Some (us_id actor)) (fe_court f)
    \<and> publication_block d f = None"
proof -
  from assms obtain a d f where ctx: "document_context db actor did True True = Inr (a, d, f)"
    and b: "publication_block d f = None"
    and v: "dc_access_version d = pr_version r"
    and en: "(if dc_public_copy d = Some (pc_id c) \<and> dc_confidential d then Inr db
              else enter_publication e a d f c r db) = Inr db'"
    by (auto simp: publish_locked_def then_do_Inr_iff split: option.splits if_splits)
  note cx = document_context_Inr [OF ctx]
  show ?thesis
  proof (cases "dc_public_copy d = Some (pc_id c) \<and> dc_confidential d")
    case True
    with en cx b show ?thesis by (intro exI [of _ d] exI [of _ f]) auto
  next
    case False
    with en have "enter_publication e a d f c r db = Inr db'" by (simp only: if_False)
    then obtain who act ent ei det kvs t where
      r: "record_transaction e f ''public_copy_published'' (us_id a) (Some (pr_reason r)) None kvs
        (log_action e who act ent ei det (set_access did (pr_version r) (Some (pc_id c)) db)) = Inr (t, db')"
      using cx unfolding enter_publication_def Let_def by (elim then_do_InrE) (auto intro: that)
    let ?d = "d\<lparr>dc_confidential := True, dc_public_copy := Some (pc_id c), dc_access_version := pr_version r + 1\<rparr>"
    have "publication_block ?d f = None" using b by (simp add: publication_block_def split: if_splits)
    moreover have ne: "\<not> submission_event ''public_copy_published''" "''public_copy_published'' \<noteq> ''accepted''"
      by (simp_all add: submission_event_def)
    ultimately show ?thesis
      using cx access_changed [OF r _ ne, of d] by (intro exI [of _ ?d] exI [of _ f]) simp
  qed
qed

lemma publish_copy_Inr:
  assumes "publish_copy e db0 db actor did raw = Inr db'"
  obtains r c where "parse_publish raw = Some r" and "pr_copy r = pr_copy raw"
    and "c \<in> set (public_copies db0)" and "pc_id c = pr_copy raw" and "pc_document c = did"
    and "stored e (pc_file_key c) = Stored (pc_sha256 c) (pc_size c)" and "publish_locked e db actor did c r = Inr db'"
  using assms
  by (auto simp: publish_copy_def then_do_Inr_iff check_copy_def find_copy_def parse_publish_def
      split: option.splits if_splits stored_result.splits dest!: find_SomeD intro: that)

lemma withhold_document_Inr:
  assumes "withhold_document e db actor did r = Inr db'"
  shows "\<exists>d f. row_at dc_id did (documents db') = Some d \<and> dc_confidential d
    \<and> dc_public_copy d = None \<and> find_filing db' (dc_envelope d) = Some f
    \<and> fe_filer f \<noteq> us_id actor \<and> is_court_staff db' (Some (us_id actor)) (fe_court f)"
proof -
  from assms obtain why a d f where ctx: "document_context db actor did True True = Inr (a, d, f)"
    and en: "(if dc_confidential d \<and> dc_public_copy d = None then Inr db
              else enter_withholding e a d f (wh_version r) why db) = Inr db'"
    by (auto simp: withhold_document_def then_do_Inr_iff split: option.splits if_splits)
  note cx = document_context_Inr [OF ctx]
  show ?thesis
  proof (cases "dc_confidential d \<and> dc_public_copy d = None")
    case True
    with en cx show ?thesis by (intro exI [of _ d] exI [of _ f]) auto
  next
    case False
    with en have "enter_withholding e a d f (wh_version r) why db = Inr db'" by (simp only: if_False)
    then obtain who act ent ei det kvs t where
      r: "record_transaction e f ''document_withheld'' (us_id a) (Some why) None kvs
        (log_action e who act ent ei det (set_access did (wh_version r) None db)) = Inr (t, db')"
      using cx unfolding enter_withholding_def Let_def by (elim then_do_InrE) (auto intro: that)
    have ne: "\<not> submission_event ''document_withheld''" "''document_withheld'' \<noteq> ''accepted''"
      by (simp_all add: submission_event_def)
    let ?d = "d\<lparr>dc_confidential := True, dc_public_copy := None, dc_access_version := wh_version r + 1\<rparr>"
    show ?thesis using cx access_changed [OF r _ ne, of d] by (intro exI [of _ ?d] exI [of _ f]) simp
  qed
qed

lemma restricted_readers:
  assumes "dc_confidential d" and "find_filing db (dc_envelope d) = Some f"
  shows "may_read_document db viewer d \<longleftrightarrow>
    map_option us_id viewer = Some (fe_filer f) \<or> is_court_staff db (map_option us_id viewer) (fe_court f)"
  using assms by (cases viewer) (auto simp: may_read_document_def)

section \<open>An example\<close>

definition clerk :: user where
  "clerk = example_participant_user\<lparr>us_id := 2, us_type := ClerkUser\<rparr>"

definition example_copy :: public_copy where
  "example_copy = \<lparr>pc_id = 1, pc_document = 6, pc_created_by = 2, pc_title = ''Brief'', pc_file_key = ''c'',
     pc_size = 1, pc_mime = ''application/pdf'', pc_pages = Some 1, pc_sha256 = ''h'', pc_searchable = True,
     pc_pii = [], pc_created_at = 0\<rparr>"

definition publish_db :: db where
  "publish_db = example_court_db\<lparr>users := users example_court_db @ [clerk],
     court_roles := [\<lparr>ur_id = 1, ur_user = 2, ur_court = 3, ur_role = ClerkRole\<rparr>],
     public_copies := [example_copy]\<rparr>"

definition publish_example :: publish_request where
  "publish_example = \<lparr>pr_copy = 1, pr_version = 0, pr_reason = ''r'', pr_reviewed = True\<rparr>"

definition published_db :: db where
  "published_db = (case publish_copy example_env publish_db publish_db clerk 6 publish_example of
     Inr db \<Rightarrow> db | _ \<Rightarrow> publish_db)"

lemma publish_example_runs:
  "publish_copy example_env publish_db publish_db clerk 6 publish_example = Inr published_db"
proof -
  have "case publish_copy example_env publish_db publish_db clerk 6 publish_example of Inr db \<Rightarrow> True | _ \<Rightarrow> False"
    by code_simp
  then show ?thesis by (auto simp: published_db_def split: sum.splits)
qed

definition withheld_db :: db where
  "withheld_db = (case withhold_document example_env published_db clerk 6 \<lparr>wh_version = 1, wh_reason = ''r''\<rparr> of
     Inr db \<Rightarrow> db | _ \<Rightarrow> publish_db)"

lemma withhold_example_runs:
  "withhold_document example_env published_db clerk 6 \<lparr>wh_version = 1, wh_reason = ''r''\<rparr> = Inr withheld_db"
proof -
  have "case withhold_document example_env published_db clerk 6 \<lparr>wh_version = 1, wh_reason = ''r''\<rparr> of
      Inr db \<Rightarrow> True | _ \<Rightarrow> False"
    by code_simp
  then show ?thesis by (auto simp: withheld_db_def split: sum.splits)
qed

section \<open>Properties\<close>

text \<open>What a download delivers: streaming an object against a recorded digest and size gives the
  stored bytes exactly when both match, whatever the chunks are, and otherwise fails with the
  integrity error; nothing of an altered or longer object is ever delivered.\<close>
theorem open_file_checks:
  "open_file fetch sha key (h, n) =
     (case fetch key of
        NotStored \<Rightarrow> Inl (Http 404 (Publication File_unavailable))
      | FetchFails x \<Rightarrow> Inl x
      | Fetched bytes \<Rightarrow>
          if sha bytes = h \<and> int (length bytes) = n then Inr bytes
          else Inl (Http 409 (Publication Retained_integrity)))"
  by (auto simp: open_file_def spool_result concat_chunks split: fetched.splits)

text \<open>C27: publishing a copy restricts its original: it is done by court staff other than the filer on a
  document of an accepted filing that is no fee waiver material, with a copy of that document whose
  stored bytes were just verified. Afterwards the original is read only by the filer and the court's
  staff, and everyone else reads the copy exactly when they may read the case.\<close>
theorem published_copy_replaces_original:
  assumes "publish_copy e db0 db actor did raw = Inr db'"
  shows "\<exists>d f c cid. row_at dc_id did (documents db') = Some d \<and> find_filing db' (dc_envelope d) = Some f
    \<and> pc_id c = pr_copy raw \<and> pc_document c = did \<and> c \<in> set (public_copies db0)
    \<and> stored e (pc_file_key c) = Stored (pc_sha256 c) (pc_size c)
    \<and> fe_filer f \<noteq> us_id actor \<and> is_court_staff db' (Some (us_id actor)) (fe_court f)
    \<and> fe_status f = Accepted \<and> fe_case f = Some cid \<and> dc_type d \<notin> set private_document_types
    \<and> (\<forall>viewer. if map_option us_id viewer = Some (fe_filer f)
           \<or> is_court_staff db' (map_option us_id viewer) (fe_court f)
         then may_read_document db' viewer d
         else \<not> may_read_document db' viewer d
           \<and> may_read_public_copy db' viewer c = may_read_case db' viewer cid)"
  using assms
proof (rule publish_copy_Inr)
  fix r c
  assume c: "c \<in> set (public_copies db0)" "pc_id c = pr_copy raw" "pc_document c = did"
    "stored e (pc_file_key c) = Stored (pc_sha256 c) (pc_size c)"
    and lk: "publish_locked e db actor did c r = Inr db'"
  from publish_locked_Inr [OF lk] obtain d f where d: "row_at dc_id did (documents db') = Some d"
    "dc_confidential d" "dc_public_copy d = Some (pc_id c)" "find_filing db' (dc_envelope d) = Some f"
    "fe_filer f \<noteq> us_id actor" "is_court_staff db' (Some (us_id actor)) (fe_court f)"
    and b: "publication_block d f = None" by blast
  from b obtain cid where f: "fe_status f = Accepted" "fe_case f = Some cid"
    "dc_type d \<notin> set private_document_types" by (auto simp: publication_block_def split: if_splits)
  have "may_read_public_copy db' viewer c = may_read_case db' viewer cid"
    if "map_option us_id viewer \<noteq> Some (fe_filer f)"
      and "\<not> is_court_staff db' (map_option us_id viewer) (fe_court f)" for viewer
    using that d f b c(3) by (cases viewer) (auto simp: may_read_public_copy_def Let_def)
  with restricted_readers [OF d(2,4)] d f c show ?thesis
    by (intro exI [of _ d] exI [of _ f] exI [of _ c] exI [of _ cid]) simp
qed

theorem published_copy_replaces_original_witness:
  "\<exists>d c. row_at dc_id 6 (documents published_db) = Some d \<and> \<not> may_read_document published_db None d
     \<and> pc_id c = 1 \<and> may_read_public_copy published_db None c = may_read_case published_db None 7"
proof -
  have f: "list_all (\<lambda>f. fe_filer f \<noteq> 1 \<and> fe_case f = Some 7) (filings published_db)"
    "court_roles published_db = court_roles publish_db" by code_simp+
  have "us_id clerk = 2" "pr_copy publish_example = 1" by (simp_all add: clerk_def publish_example_def)
  with published_copy_replaces_original [OF publish_example_runs] f(1) show ?thesis
    by (auto simp: list_all_iff find_filing_def dest!: row_at_SomeD [where key = fe_id] spec [of _ "None :: user option"])
qed

text \<open>A document that court staff withhold is gone from the public record: afterwards nobody but
  the filer and the staff of the filing's court reads it, and nobody but them reads any public copy
  ever prepared of it.\<close>
theorem withheld_document_is_private:
  assumes "withhold_document e db actor did r = Inr db'"
  shows "\<exists>d f. row_at dc_id did (documents db') = Some d \<and> find_filing db' (dc_envelope d) = Some f
    \<and> fe_filer f \<noteq> us_id actor \<and> is_court_staff db' (Some (us_id actor)) (fe_court f)
    \<and> (\<forall>viewer c. if map_option us_id viewer = Some (fe_filer f)
           \<or> is_court_staff db' (map_option us_id viewer) (fe_court f)
         then may_read_document db' viewer d
         else \<not> may_read_document db' viewer d \<and> (if pc_document c = did then \<not> may_read_public_copy db' viewer c else True))"
proof -
  from withhold_document_Inr [OF assms] obtain d f where d: "row_at dc_id did (documents db') = Some d"
    "dc_confidential d" "dc_public_copy d = None" "find_filing db' (dc_envelope d) = Some f"
    "fe_filer f \<noteq> us_id actor" "is_court_staff db' (Some (us_id actor)) (fe_court f)" by blast
  have "\<not> may_read_public_copy db' viewer c"
    if "map_option us_id viewer \<noteq> Some (fe_filer f)" "pc_document c = did"
      and "\<not> is_court_staff db' (map_option us_id viewer) (fe_court f)" for viewer c
    using that d by (cases viewer) (auto simp: may_read_public_copy_def Let_def)
  with restricted_readers [OF d(2,4)] d show ?thesis
    by (intro exI [of _ d] exI [of _ f]) auto
qed

theorem withheld_document_is_private_witness:
  "\<exists>d. row_at dc_id 6 (documents withheld_db) = Some d \<and> \<not> may_read_document withheld_db None d
     \<and> \<not> may_read_public_copy withheld_db None example_copy"
  using withheld_document_is_private [OF withhold_example_runs]
  by (auto simp: example_copy_def dest!: spec [of _ "None :: user option"])

end
