(* ===== verification/CleanupProofs.thy ===== *)
theory CleanupProofs
  imports Cleanup FilingApiProofs
begin

text \<open>
  The cleanup never deletes an object that is still referred to, defers a job by between half a
  minute and an hour, and a run that takes less than half a minute visits every due job and ends.
\<close>

section \<open>One iteration\<close>

lemma job_frame:
  "documents (defer_job e err q db) = documents db" "public_copies (defer_job e err q db) = public_copies db"
  "audit (defer_job e err q db) = audit db" "find_filing (defer_job e err q db) = find_filing db"
  "documents (finish_job e q db) = documents db" "public_copies (finish_job e q db) = public_copies db"
  "prefix (audit db) (audit (finish_job e q db))" "find_filing (finish_job e q db) = find_filing db"
  by (simp_all add: defer_job_def finish_job_def log_action_def find_filing_def fun_eq_iff)

text \<open>What an iteration keeps: the rows that refer to objects, those objects, and it adds none; a job
  that leaves the queue leaves with its object.\<close>

definition cleaned :: "db \<Rightarrow> objects \<Rightarrow> db \<Rightarrow> objects \<Rightarrow> bool" where
  "cleaned db os db' os' \<longleftrightarrow> documents db' = documents db \<and> public_copies db' = public_copies db
     \<and> prefix (audit db) (audit db')
     \<and> (\<forall>k. map_of os' k = map_of os k \<or> map_of os' k = None)
     \<and> (\<forall>k \<in> set (referenced_keys db). map_of os' k = map_of os k)
     \<and> (\<forall>q \<in> set (deletions db). sd_id q \<in> sd_id ` set (deletions db') \<or> map_of os' (sd_file_key q) = None)
     \<and> (\<forall>q' \<in> set (deletions db'). \<exists>q \<in> set (deletions db). sd_id q = sd_id q' \<and> sd_file_key q = sd_file_key q')"

lemma cleaned_refl: "cleaned db os db os"
  by (auto simp: cleaned_def)

lemma unique_key_filter: "unique_key key rows \<Longrightarrow> unique_key key (filter P rows)"
  by (simp add: unique_key_def distinct_map inj_on_def)

lemma unique_key_same: "unique_key key rows \<Longrightarrow> p \<in> set rows \<Longrightarrow> q \<in> set rows \<Longrightarrow> key p = key q \<Longrightarrow> p = q"
  by (auto simp: unique_key_def distinct_map inj_on_def)

lemma cleanup_next_cleaned:
  assumes "cleanup_next e u db os = (r, db', os')" and "unique_key sd_id (deletions db)"
  shows "cleaned db os db' os' \<and> unique_key sd_id (deletions db')"
proof (cases r)
  case None
  with assms show ?thesis
    by (auto simp: cleanup_next_def cleaned_refl split: option.splits if_splits sum.splits)
next
  case (Some c)
  show ?thesis
  proof (cases c)
    case Deleted
    with Some assms(1) have "cleanup_next e u db os = (Some Deleted, db', os')" by simp
    then show ?thesis
    proof (rule cleanup_deleted)
      fix q assume q: "due_job e db = Some q" "sd_file_key q \<notin> set (referenced_keys db)"
        and db': "db' = finish_job e q db" and os': "os' = filter (\<lambda>(k, d). k \<noteq> sd_file_key q) os"
      have qin: "q \<in> set (deletions db)" using due_job_Some [OF q(1)] by simp
      have m: "map_of os' k = (if k = sd_file_key q then None else map_of os k)" for k
        unfolding os' by (rule map_of_filter_key)
      have gone: "sd_id p \<in> sd_id ` set (deletions db') \<or> map_of os' (sd_file_key p) = None"
        if "p \<in> set (deletions db)" for p
        using that unique_key_same [OF assms(2) that qin] by (auto simp: db' finish_job_deletions m)
      show ?thesis
        using q(2) gone job_frame(5-7) [where e = e and q = q and db = db] unique_key_filter [OF assms(2)]
        by (auto simp: cleaned_def db' finish_job_deletions m)
    qed
  next
    case Retry
    with Some assms(1) have "cleanup_next e u db os = (Some Retry, db', os')" by simp
    then show ?thesis
    proof (rule cleanup_retry)
      fix q err assume q: "due_job e db = Some q" and db': "db' = defer_job e err q db" and os': "os' = os"
      have qin: "q \<in> set (deletions db)" using due_job_Some [OF q] by simp
      have ids: "map sd_id (deletions db') = map sd_id (deletions db)"
        unfolding db' defer_job_deletions by (rule keys_upd_row) (simp add: deferred_def)
      then have "sd_id ` set (deletions db') = sd_id ` set (deletions db)" by (metis list.set_map)
      moreover have "\<exists>p \<in> set (deletions db). sd_id p = sd_id q' \<and> sd_file_key p = sd_file_key q'"
        if "q' \<in> set (deletions db')" for q'
        using that qin by (auto simp: db' defer_job_deletions set_upd_row deferred_def)
      ultimately show ?thesis
        using assms(2) ids job_frame(1-3) [where e = e and err = err and q = q and db = db]
        by (auto simp: cleaned_def db' os' unique_key_def)
    qed
  qed
qed

lemma cleaned_trans:
  assumes "cleaned db os db1 os1" and "cleaned db1 os1 db2 os2" and "unique_key sd_id (deletions db)"
  shows "cleaned db os db2 os2"
proof -
  have refs: "referenced_keys db1 = referenced_keys db" using assms(1) by (simp add: cleaned_def referenced_keys_def)
  have jobs: "sd_id q \<in> sd_id ` set (deletions db2) \<or> map_of os2 (sd_file_key q) = None"
    if q: "q \<in> set (deletions db)" for q
  proof (cases "sd_id q \<in> sd_id ` set (deletions db1)")
    case False
    with assms(1) q have "map_of os1 (sd_file_key q) = None" by (auto simp: cleaned_def)
    with assms(2) show ?thesis unfolding cleaned_def by metis
  next
    case True
    then obtain q1 where q1: "q1 \<in> set (deletions db1)" "sd_id q1 = sd_id q" by auto
    with assms(1) obtain q0 where "q0 \<in> set (deletions db)" "sd_id q0 = sd_id q1" "sd_file_key q0 = sd_file_key q1"
      unfolding cleaned_def by blast
    with unique_key_same [OF assms(3) q] q1 have "sd_file_key q1 = sd_file_key q" by metis
    with assms(2) q1 show ?thesis unfolding cleaned_def by metis
  qed
  have keys: "\<exists>q \<in> set (deletions db). sd_id q = sd_id q' \<and> sd_file_key q = sd_file_key q'"
    if "q' \<in> set (deletions db2)" for q'
    using that assms(1,2) unfolding cleaned_def by metis
  have objs: "map_of os2 k = map_of os k \<or> map_of os2 k = None" for k
    using assms(1,2) unfolding cleaned_def by metis
  have kept: "map_of os2 k = map_of os k" if "k \<in> set (referenced_keys db)" for k
    using that assms(1,2) refs unfolding cleaned_def by metis
  have same: "documents db2 = documents db" "public_copies db2 = public_copies db"
    using assms(1,2) by (simp_all add: cleaned_def)
  have log: "prefix (audit db) (audit db2)"
    using assms(1,2) by (auto simp: cleaned_def intro: prefix_order.order_trans)
  show ?thesis unfolding cleaned_def
    by (intro conjI ballI allI; (rule same log objs; fail | erule jobs keys kept))
qed

section \<open>Runs\<close>

lemma drain_cleanup_cleaned:
  assumes "unique_key sd_id (deletions db)" and "drain_cleanup es u db os = (db', os')"
  shows "cleaned db os db' os'"
  using assms
proof (induction es u db os rule: drain_cleanup.induct)
  case (1 es u db os)
  obtain r db1 os1 where n: "cleanup_next (es 0) u db os = (r, db1, os1)" by (metis prod_cases3)
  note c = cleanup_next_cleaned [OF n 1(2)]
  show ?case
  proof (cases "r = Some Deleted")
    case True
    with 1(3) n have "drain_cleanup (\<lambda>n. es (Suc n)) u db1 os1 = (db', os')" by (simp add: drain_cleanup.simps [of es])
    with 1(1) [OF n [symmetric] refl] True c have "cleaned db1 os1 db' os'" by auto
    with c 1(2) show ?thesis by (blast intro: cleaned_trans)
  next
    case False
    with 1(3) n c show ?thesis by (simp add: drain_cleanup.simps [of es])
  qed
qed

lemma run_once_cleaned:
  assumes "unique_key sd_id (deletions db)" and "run_once k es u failed db os = Some (failed', db', os')"
  shows "cleaned db os db' os'"
  using assms
proof (induction k es u failed db os rule: run_once.induct)
  case (2 k es u failed db os)
  obtain r db1 os1 where n: "cleanup_next (es 0) u db os = (r, db1, os1)" by (metis prod_cases3)
  note c = cleanup_next_cleaned [OF n 2(2)]
  show ?case
  proof (cases r)
    case None
    with 2(3) n c show ?thesis by simp
  next
    case (Some x)
    with 2(3) n have "run_once k (\<lambda>n. es (Suc n)) u (failed \<or> x = Retry) db1 os1 = Some (failed', db', os')" by simp
    with 2(1) [OF n [symmetric] Some refl] c have "cleaned db1 os1 db' os'" by auto
    with c 2(2) show ?thesis by (blast intro: cleaned_trans)
  qed
qed simp

lemma filter_upd_fewer:
  assumes "q \<in> set rows" and "P q" and "\<not> P q'"
  shows "length (filter P (upd_row key (key q) (\<lambda>_. q') rows)) < length (filter P rows)"
  using assms(1)
proof (induction rows)
  case (Cons r rows)
  have le: "length (filter P (upd_row key (key q) (\<lambda>_. q') xs)) \<le> length (filter P xs)" for xs
    using assms(3) by (induction xs) (auto simp: upd_row_def)
  show ?case
  proof (cases "q = r")
    case True
    with assms(2,3) le [of rows] show ?thesis by (simp add: upd_row_def)
  next
    case False
    with Cons have "length (filter P (upd_row key (key q) (\<lambda>_. q') rows)) < length (filter P rows)" by simp
    with assms(3) show ?thesis by (auto simp: upd_row_def)
  qed
qed simp

lemma filter_filter_fewer:
  assumes "q \<in> set rows" and "P q" and "\<not> Q q"
  shows "length (filter P (filter Q rows)) < length (filter P rows)"
proof -
  have "length (filter Q (filter P rows)) < length (filter P rows)"
    by (rule length_filter_less [of q]) (use assms in auto)
  then show ?thesis by (simp add: conj_commute)
qed

lemma backoff_bounds: "30 * second \<le> backoff n \<and> backoff n \<le> 3600 * second"
  by (simp add: backoff_def second_def)

text \<open>While the clock stays within half a minute, every iteration leaves fewer jobs that can still
  become due in that time.\<close>

lemma cleanup_next_fewer:
  assumes "cleanup_next e u db os = (Some r, db', os')" and "t \<le> now e" and "now e < t + 30 * second"
  shows "length (filter (\<lambda>q. sd_next_attempt q < t + 30 * second) (deletions db'))
    < length (filter (\<lambda>q. sd_next_attempt q < t + 30 * second) (deletions db))"
proof (cases r)
  case Deleted
  with assms(1) have "cleanup_next e u db os = (Some Deleted, db', os')" by simp
  then show ?thesis
  proof (rule cleanup_deleted)
    fix q assume q: "due_job e db = Some q" and db': "db' = finish_job e q db"
    note d = due_job_Some [OF q]
    then have "sd_next_attempt q < t + 30 * second" using assms(3) by simp
    with d show ?thesis unfolding db' finish_job_deletions by (intro filter_filter_fewer [of q]) simp_all
  qed
next
  case Retry
  with assms(1) have "cleanup_next e u db os = (Some Retry, db', os')" by simp
  then show ?thesis
  proof (rule cleanup_retry)
    fix q err assume q: "due_job e db = Some q" and db': "db' = defer_job e err q db"
    note d = due_job_Some [OF q]
    then have "sd_next_attempt q < t + 30 * second" using assms(3) by simp
    moreover have "\<not> sd_next_attempt (deferred e err q) < t + 30 * second"
      using backoff_bounds [of "sd_attempts q"] assms(2) by (simp add: deferred_def)
    ultimately show ?thesis using d unfolding db' defer_job_deletions by (intro filter_upd_fewer) simp_all
  qed
qed

lemma run_once_ends:
  assumes "\<And>n. t \<le> now (es n) \<and> now (es n) < t + 30 * second"
    and "length (filter (\<lambda>q. sd_next_attempt q < t + 30 * second) (deletions db)) < k"
  shows "\<exists>failed' db' os'. run_once k es u failed db os = Some (failed', db', os')
    \<and> list_all (\<lambda>q. t < sd_next_attempt q) (deletions db')"
  using assms
proof (induction k es u failed db os rule: run_once.induct)
  case (2 k es u failed db os)
  obtain r db1 os1 where n: "cleanup_next (es 0) u db os = (r, db1, os1)" by (metis prod_cases3)
  show ?case
  proof (cases r)
    case None
    with n have "due_job (es 0) db = None" "db1 = db"
      by (auto simp: cleanup_next_def split: option.splits if_splits sum.splits)
    then have "list_all (\<lambda>q. t < sd_next_attempt q) (deletions db1)"
      using 2(2) [of 0] by (auto simp: due_job_None list_all_iff)
    with None n show ?thesis by simp
  next
    case (Some x)
    have "length (filter (\<lambda>q. sd_next_attempt q < t + 30 * second) (deletions db1)) < k"
      using cleanup_next_fewer [of "es 0" u db os x db1 os1 t] n Some 2(2) [of 0] 2(3) by simp
    then have "\<exists>failed' db' os'. run_once k (\<lambda>n. es (Suc n)) u (failed \<or> x = Retry) db1 os1 = Some (failed', db', os')
        \<and> list_all (\<lambda>q. t < sd_next_attempt q) (deletions db')"
      using 2(1) [OF n [symmetric] Some refl] 2(2) by simp
    with Some n show ?thesis by simp
  qed
qed simp

section \<open>Properties\<close>

text \<open>The cleanup never loses an object in use: however often it runs and whatever fails, every
  object that a document or a public copy refers to keeps its bytes, documents and copies stay, no
  object appears, and a job leaves the queue only with its object gone. This holds for the draining
  loop and for a whole run.\<close>
theorem cleanup_keeps_referenced:
  assumes "unique_key sd_id (deletions db)"
    and "drain_cleanup es u db os = (db', os') \<or> run_once k es u failed db os = Some (failed', db', os')"
  shows "documents db' = documents db \<and> public_copies db' = public_copies db
    \<and> (\<forall>key \<in> set (map dc_file_key (documents db)) \<union> set (map pc_file_key (public_copies db)).
         map_of os' key = map_of os key)
    \<and> (\<forall>key. map_of os' key = map_of os key \<or> map_of os' key = None)
    \<and> (\<forall>q \<in> set (deletions db). sd_id q \<in> sd_id ` set (deletions db') \<or> map_of os' (sd_file_key q) = None)"
proof -
  from assms have "cleaned db os db' os'" by (auto intro: drain_cleanup_cleaned run_once_cleaned)
  then show ?thesis by (simp add: cleaned_def referenced_keys_def)
qed

text \<open>C28: a run of the cleanup that takes less than half a minute ends, within one iteration more
  than there are jobs, and leaves nothing undone: every job that was due when it began has left the
  queue with its object or was deferred to a later time.\<close>
theorem cleanup_run_completes:
  assumes "unique_key sd_id (deletions db)"
    and "\<And>n. now (es 0) \<le> now (es n) \<and> now (es n) < now (es 0) + 30 * second"
  shows "\<exists>failed db' os'. run_once (Suc (length (deletions db))) es u False db os = Some (failed, db', os')
    \<and> list_all (\<lambda>q. now (es 0) < sd_next_attempt q) (deletions db')
    \<and> list_all (\<lambda>q. sd_id q \<in> sd_id ` set (deletions db') \<or> map_of os' (sd_file_key q) = None) (deletions db)"
proof -
  have "length (filter (\<lambda>q. sd_next_attempt q < now (es 0) + 30 * second) (deletions db))
      < Suc (length (deletions db))" by (simp add: le_imp_less_Suc)
  from run_once_ends [where es = es and t = "now (es 0)" and u = u and failed = False and os = os and db = db, OF assms(2) this] obtain failed db' os' where
    r: "run_once (Suc (length (deletions db))) es u False db os = Some (failed, db', os')"
    and l: "list_all (\<lambda>q. now (es 0) < sd_next_attempt q) (deletions db')" by blast
  with run_once_cleaned [OF assms(1) r] show ?thesis by (auto simp: cleaned_def list_all_iff)
qed

text \<open>The bounds of a deferral: a job whose object is in use or cannot be deleted stays queued
  with one attempt more, due again no sooner than 30 seconds and no later than an hour from now;
  the delay doubles from 30 seconds with every attempt until it reaches the hour. Nothing is
  deleted.\<close>
theorem cleanup_backoff:
  assumes "cleanup_next e u db os = (Some Retry, db', os')"
  shows "\<exists>q q'. q \<in> set (deletions db) \<and> q' \<in> set (deletions db') \<and> sd_id q' = sd_id q
    \<and> sd_attempts q' = sd_attempts q + 1
    \<and> now e + 30 * second \<le> sd_next_attempt q' \<and> sd_next_attempt q' \<le> now e + 3600 * second
    \<and> (if 0 \<le> sd_attempts q \<and> sd_attempts q \<le> 6
       then sd_next_attempt q' = now e + 30 * 2 ^ nat (sd_attempts q) * second
       else 6 < sd_attempts q \<longrightarrow> sd_next_attempt q' = now e + 3600 * second)
    \<and> os' = os"
  using assms
proof (rule cleanup_retry)
  fix q err assume q: "due_job e db = Some q" and db': "db' = defer_job e err q db" and os': "os' = os"
  have qin: "q \<in> set (deletions db)" using due_job_Some [OF q] by simp
  have "deferred e err q \<in> set (deletions db')"
    using qin by (auto simp: db' defer_job_deletions set_upd_row)
  moreover have small: "backoff n = 30 * 2 ^ nat n * second" if "0 \<le> n" "n \<le> 6" for n
  proof -
    from that have "n \<in> {0, 1, 2, 3, 4, 5, 6}" by auto
    then show ?thesis by (auto simp: backoff_def)
  qed
  moreover have "backoff n = 3600 * second" if "6 < n" for n
    using that by (simp add: backoff_def min_absorb2)
  ultimately show ?thesis
    using qin backoff_bounds [of "sd_attempts q"] os'
    by (intro exI [of _ q] exI [of _ "deferred e err q"]) (auto simp: deferred_def)
qed

section \<open>An example\<close>

text \<open>Two due jobs: one object is still in use, the other is not.\<close>

definition job :: "int \<Rightarrow> string \<Rightarrow> deletion" where
  "job i k = \<lparr>sd_id = i, sd_document = i, sd_envelope = 1, sd_file_key = k, sd_queued_at = 0,
     sd_next_attempt = 0, sd_attempts = 0, sd_last_error = None\<rparr>"

definition jobs_db :: db where
  "jobs_db = submit_db\<lparr>deletions := [job 1 ''k'', job 2 ''gone'']\<rparr>"

definition job_objects :: objects where
  "job_objects = [(''k'', ''a''), (''gone'', ''b'')]"

lemma jobs_unique: "unique_key sd_id (deletions jobs_db)"
  by (simp add: jobs_db_def job_def unique_key_def)

lemma jobs_run:
  "\<exists>db'. run_once 3 (\<lambda>n. example_env) up_env False jobs_db job_objects = Some (True, db', [(''k'', ''a'')])"
proof -
  have "case run_once 3 (\<lambda>n. example_env) up_env False jobs_db job_objects of
      Some (f, db, os) \<Rightarrow> f \<and> os = [(''k'', ''a'')] | None \<Rightarrow> False"
    by code_simp
  then show ?thesis by (auto split: option.splits)
qed

theorem cleanup_keeps_referenced_witness:
  "\<exists>db' os'. run_once 3 (\<lambda>n. example_env) up_env False jobs_db job_objects = Some (True, db', os')
     \<and> map_of os' ''k'' = map_of job_objects ''k'' \<and> documents db' = documents jobs_db"
proof -
  obtain db' where r:
    "run_once 3 (\<lambda>n. example_env) up_env False jobs_db job_objects = Some (True, db', [(''k'', ''a'')])"
    using jobs_run by blast
  have "''k'' \<in> set (map dc_file_key (documents jobs_db))" by code_simp
  with r cleanup_keeps_referenced [OF jobs_unique disjI2 [OF r]] show ?thesis by blast
qed

theorem cleanup_run_completes_witness:
  "\<exists>failed db' os'. run_once (Suc (length (deletions jobs_db))) (\<lambda>n. example_env) up_env False jobs_db job_objects
      = Some (failed, db', os') \<and> list_all (\<lambda>q. now example_env < sd_next_attempt q) (deletions db')"
  using cleanup_run_completes [OF jobs_unique, of "\<lambda>n. example_env" up_env job_objects]
  by (auto simp: second_def)

lemma jobs_retry: "\<exists>db'. cleanup_next example_env up_env jobs_db job_objects = (Some Retry, db', job_objects)"
proof -
  have "case cleanup_next example_env up_env jobs_db job_objects of (r, db, os) \<Rightarrow> r = Some Retry \<and> os = job_objects"
    by code_simp
  then show ?thesis by (auto split: prod.splits)
qed

theorem cleanup_backoff_witness:
  "\<exists>db' q'. cleanup_next example_env up_env jobs_db job_objects = (Some Retry, db', job_objects)
     \<and> q' \<in> set (deletions db') \<and> sd_attempts q' = 1 \<and> now example_env + 30 * second \<le> sd_next_attempt q'"
proof -
  obtain db' where r: "cleanup_next example_env up_env jobs_db job_objects = (Some Retry, db', job_objects)"
    using jobs_retry by blast
  have "list_all (\<lambda>q. sd_attempts q = 0) (deletions jobs_db)" by code_simp
  with cleanup_backoff [OF r] r show ?thesis by (auto simp: list_all_iff)
qed

end
