(* ===== verification/Deliveries.thy ===== *)
theory Deliveries
  imports Ledger
begin

text \<open>
  Delivering retained documents to case participants (\<open>services/service_delivery_service.py\<close>,
  \<open>api/service_deliveries.py\<close>): who may send, the receipt the documents are taken from, the packet
  with its recipients and alerts, who may open a delivery, and its records of downloads,
  acknowledgments, retries and failure reports.
\<close>

section \<open>The sender\<close>

definition reviewed_participation :: "db \<Rightarrow> user \<Rightarrow> int \<Rightarrow> bool" where
  "reviewed_participation db u cid \<longleftrightarrow>
     (\<exists>p \<in> set (participants db). pt_case p = cid \<and> pt_user p = Some (us_id u) \<and> pt_active p
        \<and> pt_reviewed_at p \<noteq> None \<and> (pt_role p \<notin> set counsel_roles \<or> counsel_eligible u p))"

definition delivered_types :: "string list" where
  "delivered_types = [''subsequent'', ''motion'', ''service_only'']"

definition require_sender :: "db \<Rightarrow> user \<Rightarrow> int \<Rightarrow> failure + envelope \<times> case_row" where
  "require_sender db actor fid =
     (if us_type actor = PublicUser then Inl (Http 403 (Account Public_account))
      else case find_filing db fid of
        None \<Rightarrow> Inl (Http 404 (Account Filing_not_found))
      | Some f \<Rightarrow>
          let staff = is_court_staff db (Some (us_id actor)) (fe_court f) in
          if fe_filer f \<noteq> us_id actor \<and> \<not> staff then Inl (Http 403 (Service Sender_required))
          else case (if fe_type f \<in> set delivered_types then fe_case f else None) of
            None \<Rightarrow> Inl (Http 409 (Service Existing_case_only))
          | Some cid \<Rightarrow>
              (case row_at cs_id cid (cases db) of
                 None \<Rightarrow> Inl (Http 409 (Service Destination_needs_review))
               | Some c \<Rightarrow>
                   if cs_court c \<noteq> fe_court f then Inl (Http 409 (Service Destination_needs_review))
                   else if \<not> us_active actor \<or> \<not> truthy (us_verified_email actor)
                     \<or> us_verified_email actor \<noteq> Some (normal_email actor)
                   then Inl (Http 403 (Service Verified_email_required))
                   else if \<not> staff \<and> (\<not> reviewed_participation db actor (cs_id c)
                     \<or> \<not> may_read_case db (Some actor) (cs_id c))
                   then Inl (Http 403 (Service Reviewed_participation_required))
                   else Inr (f, c)))"

section \<open>The receipt\<close>

text \<open>\<open>dict.get\<close>: a missing key reads as \<open>None\<close>, like a null.\<close>

definition jvalue :: "string \<Rightarrow> json \<Rightarrow> json" where
  "jvalue k j = (case jget k j of None \<Rightarrow> JNull | Some v \<Rightarrow> v)"

definition current_source :: "db \<Rightarrow> envelope \<Rightarrow> failure + txn" where
  "current_source db f =
     (if fe_status f \<notin> {Submitted, UnderReview, Accepted, Served}
      then Inl (Http 409 (Service Record_documents_first))
      else case filter (\<lambda>t. tx_filing t = fe_id f \<and> tx_submission t = fe_submission_count f
                  \<and> submission_event (tx_event t)) (transactions db) of
        [t] \<Rightarrow>
          if jvalue ''case_id'' (tx_details t) \<noteq> jopt JInt (fe_case f)
            \<or> jvalue ''court_id'' (tx_details t) \<noteq> JInt (fe_court f)
            \<or> jvalue ''filing_type'' (tx_details t) \<noteq> JStr (fe_type f)
          then Inl (Http 409 (Service Receipt_needs_review)) else Inr t
      | _ \<Rightarrow> Inl (Http 409 (Service Submission_receipt_required)))"

text \<open>A document of a receipt, as \<open>FilingDocumentResponse\<close> reads it back.\<close>

record saved_document =
  sv_id :: int
  sv_type :: string
  sv_title :: string
  sv_size :: int
  sv_mime :: string
  sv_pages :: "int option"
  sv_sha256 :: string
  sv_confidential :: bool
  sv_searchable :: bool
  sv_uploaded_at :: datetime

fun json_bool :: "json \<Rightarrow> bool option" where
  "json_bool (JBool b) = Some b"
| "json_bool _ = None"

fun json_time :: "json \<Rightarrow> datetime option" where
  "json_time (JTime t) = Some t"
| "json_time _ = None"

text \<open>A nullable field: \<open>Some None\<close> is a null.\<close>

fun nullable_int :: "json \<Rightarrow> int option option" where
  "nullable_int JNull = Some None"
| "nullable_int (JInt i) = Some (Some i)"
| "nullable_int _ = None"

definition field :: "string \<Rightarrow> (json \<Rightarrow> 'a option) \<Rightarrow> json \<Rightarrow> 'a option" where
  "field k read j = Option.bind (jget k j) read"

definition parse_saved :: "json \<Rightarrow> saved_document option" where
  "parse_saved j =
     (case (field ''id'' json_int j, field ''document_type_code'' json_str j, field ''title'' json_str j,
            field ''file_size_bytes'' json_int j, field ''mime_type'' json_str j,
            field ''page_count'' nullable_int j, field ''sha256_hash'' json_str j,
            field ''is_confidential'' json_bool j, field ''is_text_searchable'' json_bool j,
            field ''uploaded_at'' json_time j) of
        (Some i, Some ty, Some t, Some n, Some m, Some p, Some h, Some c, Some s, Some at) \<Rightarrow>
          Some \<lparr>sv_id = i, sv_type = ty, sv_title = t, sv_size = n, sv_mime = m, sv_pages = p,
            sv_sha256 = h, sv_confidential = c, sv_searchable = s, sv_uploaded_at = at\<rparr>
      | _ \<Rightarrow> None)"

definition saved_json :: "saved_document \<Rightarrow> json" where
  "saved_json d = JObj
     [(''id'', JInt (sv_id d)), (''document_type_code'', JStr (sv_type d)),
      (''title'', JStr (sv_title d)), (''file_size_bytes'', JInt (sv_size d)),
      (''mime_type'', JStr (sv_mime d)), (''page_count'', jopt JInt (sv_pages d)),
      (''sha256_hash'', JStr (sv_sha256 d)), (''is_confidential'', JBool (sv_confidential d)),
      (''is_text_searchable'', JBool (sv_searchable d)), (''uploaded_at'', JTime (sv_uploaded_at d))]"

fun parse_all :: "json list \<Rightarrow> saved_document list option" where
  "parse_all [] = Some []"
| "parse_all (j # js) =
     (case (parse_saved j, parse_all js) of (Some d, Some ds) \<Rightarrow> Some (d # ds) | _ \<Rightarrow> None)"

definition source_documents :: "txn \<Rightarrow> failure + saved_document list" where
  "source_documents t =
     (case Option.bind (field ''documents'' json_arr (tx_details t)) parse_all of
        None \<Rightarrow> Inl (Http 409 (Service Manifest_needs_review))
      | Some ds \<Rightarrow>
          if \<not> distinct (map sv_id ds) then Inl (Http 409 (Service Manifest_needs_review))
          else Inr (filter (\<lambda>d. sv_type d \<notin> set private_document_types) ds))"

section \<open>Selecting\<close>

record packet_request =
  pq_source :: string
  pq_documents :: "int list"
  pq_recipients :: "(int \<times> int) list"
  pq_reviewed :: bool

definition valid_packet_request :: "packet_request \<Rightarrow> bool" where
  "valid_packet_request q \<longleftrightarrow> pq_reviewed q
     \<and> 1 \<le> length (pq_documents q) \<and> length (pq_documents q) \<le> 100
     \<and> list_all valid_record_id (pq_documents q) \<and> distinct (pq_documents q)
     \<and> 1 \<le> length (pq_recipients q) \<and> length (pq_recipients q) \<le> 100
     \<and> list_all (\<lambda>(c, v). valid_record_id c \<and> 1 \<le> v \<and> v \<le> max_record_id) (pq_recipients q)
     \<and> distinct (map fst (pq_recipients q))"

text \<open>Sorting the pairs of a selection; their contacts are distinct.\<close>

definition packet_fingerprint :: "env \<Rightarrow> int \<Rightarrow> packet_request \<Rightarrow> string" where
  "packet_fingerprint e fid q = digest e (JObj
     [(''documents'', JArr (map JInt (sort (pq_documents q)))), (''filing_id'', JInt fid),
      (''recipients'', JArr (map (\<lambda>(c, v). JArr [JInt c, JInt v]) (sort_key fst (pq_recipients q)))),
      (''source_transaction_id'', JStr (pq_source q))])"

definition recorded_packet :: "db \<Rightarrow> int \<Rightarrow> string \<Rightarrow> packet option" where
  "recorded_packet db uid key = List.find (\<lambda>p. pk_actor p = uid \<and> pk_key p = key) (packets db)"

definition replay_packet :: "packet \<Rightarrow> string \<Rightarrow> failure + packet" where
  "replay_packet p fp =
     (if pk_request_sha256 p \<noteq> fp then Inl (Http 409 (Service Delivery_key_reused)) else Inr p)"

type_synonym route = "service_contact \<times> participant \<times> user"

definition route_of :: "db \<Rightarrow> case_row \<Rightarrow> service_contact \<Rightarrow> route option" where
  "route_of db c ct =
     (case row_at_opt pt_id (sc_participant ct) (participants db) of
        None \<Rightarrow> None
      | Some p \<Rightarrow>
          if pt_case p \<noteq> cs_id c then None
          else map_option (\<lambda>u. (ct, p, u)) (row_at_opt us_id (pt_user p) (users db)))"

definition selected_routes :: "db \<Rightarrow> case_row \<Rightarrow> (int \<times> int) list \<Rightarrow> route list" where
  "selected_routes db c choices =
     List.map_filter (route_of db c)
       (sort_key sc_id (filter (\<lambda>ct. sc_id ct \<in> set (map fst choices) \<and> sc_case ct = cs_id c) (contacts db)))"

fun check_routes ::
    "env \<Rightarrow> case_row \<Rightarrow> int \<Rightarrow> (int \<times> int) list \<Rightarrow> int list \<Rightarrow> route list \<Rightarrow> failure + unit" where
  "check_routes e c actor choices accounts [] = Inr ()"
| "check_routes e c actor choices accounts ((ct, p, u) # rows) =
     (if sc_method ct \<noteq> Electronic \<or> map_of choices (sc_id ct) \<noteq> Some (sc_version ct)
      then Inl (Http 409 (Service Instructions_changed))
      else let is = routing_issues e c p (Some u) ct in
        if is \<noteq> [] then Inl (Http 409 (Service (Routing_blocked (issues_text is))))
        else if us_id u = actor \<or> us_id u \<in> set accounts then Inl (Http 422 (Service Recipients_once))
        else check_routes e c actor choices (us_id u # accounts) rows)"

definition saved_with_id :: "int \<Rightarrow> saved_document list \<Rightarrow> saved_document option" where
  "saved_with_id i manifest = List.find (\<lambda>s. sv_id s = i) manifest"

definition matches_saved :: "document \<Rightarrow> saved_document \<Rightarrow> bool" where
  "matches_saved d s \<longleftrightarrow> dc_type d \<notin> set private_document_types \<and> dc_sha256 d = sv_sha256 s
     \<and> dc_size d = sv_size s \<and> dc_mime d = sv_mime s"

fun check_selected :: "env \<Rightarrow> saved_document list \<Rightarrow> document list \<Rightarrow> failure + unit" where
  "check_selected e manifest [] = Inr ()"
| "check_selected e manifest (d # ds) =
     (case saved_with_id (dc_id d) manifest of
        None \<Rightarrow> Inl InternalError
      | Some s \<Rightarrow>
          if \<not> matches_saved d s then Inl (Http 409 (Service Receipt_mismatch))
          else (case stored e (dc_file_key d) of
              FileMissing \<Rightarrow> Inl (Http 409 (Service Selected_unreadable))
            | StorageDown \<Rightarrow> Inl StorageError
            | BadFileKey \<Rightarrow> Inl InternalError
            | Stored h n \<Rightarrow>
                if h \<noteq> sv_sha256 s \<or> n \<noteq> sv_size s then Inl (Http 409 (Service Selected_integrity))
                else check_selected e manifest ds))"

definition selected_documents :: "db \<Rightarrow> int \<Rightarrow> int list \<Rightarrow> document list" where
  "selected_documents db fid ids =
     filter (\<lambda>d. dc_id d \<in> set ids \<and> dc_envelope d = fid \<and> dc_retained_at d \<noteq> None) (documents db)"

text \<open>What the checks of a request establish: the filing, its case, the receipt, its documents and
  the recipients.\<close>

type_synonym selection = "envelope \<times> case_row \<times> txn \<times> saved_document list \<times> route list"

definition check_packet ::
    "env \<Rightarrow> db \<Rightarrow> user \<Rightarrow> int \<Rightarrow> packet_request \<Rightarrow> failure + selection" where
  "check_packet e db actor fid q =
     then_do (require_sender db actor fid) (\<lambda>(f, c).
     then_do (current_source db f) (\<lambda>t.
     if tx_id t \<noteq> pq_source q then Inl (Http 409 (Service Filing_resubmitted))
     else then_do (source_documents t) (\<lambda>manifest.
       if \<not> set (pq_documents q) \<subseteq> set (map sv_id manifest)
       then Inl (Http 422 (Service Receipt_documents_only))
       else let rows = selected_routes db c (pq_recipients q) in
         if length rows \<noteq> length (pq_recipients q) then Inl (Http 422 (Service Reviewed_contacts_only))
         else then_do (check_routes e c (us_id actor) (pq_recipients q) [] rows) (\<lambda>_.
           let ds = selected_documents db fid (pq_documents q) in
           if length ds \<noteq> length (pq_documents q) then Inl (Http 409 (Service Retained_unavailable))
           else then_do (check_selected e manifest ds) (\<lambda>_. Inr (f, c, t, manifest, rows))))))"

section \<open>Sending\<close>

definition new_packet ::
    "env \<Rightarrow> db \<Rightarrow> user \<Rightarrow> envelope \<Rightarrow> case_row \<Rightarrow> txn \<Rightarrow> saved_document list \<Rightarrow> packet_request \<Rightarrow> string \<Rightarrow> packet" where
  "new_packet e db actor f c t manifest q key =
     \<lparr>pk_id = new_uuid e (map pk_id (packets db)), pk_case = cs_id c, pk_filing = fe_id f,
      pk_source = tx_id t, pk_actor = us_id actor, pk_actor_name = full_name actor,
      pk_created_at = now e,
      pk_details = JObj
        [(''court_name'', jopt (\<lambda>ct. JStr (ct_name ct)) (row_at ct_id (cs_court c) (courts db))),
         (''case_number'', JStr (cs_number c)), (''case_title'', JStr (cs_title c)),
         (''documents'', JArr (map (\<lambda>i. saved_json (the (saved_with_id i manifest))) (sort (pq_documents q))))],
      pk_key = key, pk_request_sha256 = packet_fingerprint e (fe_id f) q\<rparr>"

definition delivery_subject :: string where
  "delivery_subject = ''Documents are available for your case''"

definition delivery_body :: string where
  "delivery_body = ''A document package is available in your secure delivery inbox. ''
     @ ''Open the delivery to inspect its contents and history.''"

definition delivery_reason :: string where
  "delivery_reason = ''Explicit document delivery requested''"

definition new_recipient :: "env \<Rightarrow> db \<Rightarrow> packet \<Rightarrow> route \<Rightarrow> int \<Rightarrow> recipient" where
  "new_recipient e db pk r nid =
     (case r of (ct, p, u) \<Rightarrow>
        \<lparr>rc_id = new_uuid e (map rc_id (recipients db)), rc_packet = pk_id pk, rc_user = us_id u,
         rc_contact = sc_id ct, rc_contact_version = sc_version ct, rc_snapshot = contact_snapshot ct,
         rc_notification = nid\<rparr>)"

definition add_recipient :: "env \<Rightarrow> packet \<Rightarrow> route \<Rightarrow> db \<Rightarrow> failure + db" where
  "add_recipient e pk r db =
     (let n = new_notification e db ServiceOfProcess (us_id (snd (snd r))) (Some (pk_filing pk))
                delivery_subject delivery_body;
          db1 = recipients_update (\<lambda>rs. rs @ [new_recipient e db pk r (nt_id n)])
                  (notifications_update (\<lambda>ns. ns @ [n]) db)
      in then_do (queue_email e db1 n (Some (pk_actor pk)) (Some delivery_reason)) (\<lambda>ne.
         if nt_status (fst ne) \<noteq> Pending
         then Inl (Http 409 (Service (Alert_not_queued (nt_last_error (fst ne)))))
         else Inr (store_notice ne db1)))"

fun add_recipients :: "env \<Rightarrow> packet \<Rightarrow> route list \<Rightarrow> db \<Rightarrow> failure + db" where
  "add_recipients e pk [] db = Inr db"
| "add_recipients e pk (r # rs) db = then_do (add_recipient e pk r db) (add_recipients e pk rs)"

definition find_sender :: "db \<Rightarrow> int \<Rightarrow> failure + user" where
  "find_sender db uid =
     (case find_user db uid of
        None \<Rightarrow> Inl (Http 403 (Account Account_unavailable))
      | Some u \<Rightarrow> if us_active u then Inr u else Inl (Http 403 (Account Account_unavailable)))"

text \<open>
  \<open>db0\<close> is read before the filing is locked and \<open>db\<close> under the lock, when another request may
  have committed a packet with the same key: then the insert is refused and that packet answers.
\<close>

definition create_packet ::
    "env \<Rightarrow> db \<Rightarrow> db \<Rightarrow> int \<Rightarrow> int \<Rightarrow> packet_request \<Rightarrow> string \<Rightarrow> failure + packet \<times> db" where
  "create_packet e db0 db uid fid q key =
     then_do (find_sender db0 uid) (\<lambda>actor.
     let fp = packet_fingerprint e fid q in
     case recorded_packet db0 uid key of
       Some p \<Rightarrow> then_do (replay_packet p fp) (\<lambda>p. Inr (p, db))
     | None \<Rightarrow>
         if \<not> st_service_enabled (cfg e) \<or> \<not> st_email_enabled (cfg e)
         then Inl (Http 503 (Service Delivery_disabled))
         else then_do (validate_email_config e) (\<lambda>_.
           then_do (check_packet e db actor fid q) (\<lambda>(f, c, t, manifest, rows).
           case recorded_packet db uid key of
             Some p \<Rightarrow> then_do (replay_packet p fp) (\<lambda>p. Inr (p, db))
           | None \<Rightarrow>
               let pk = new_packet e db actor f c t manifest q key in
               then_do (add_recipients e pk rows (packets_update (\<lambda>ps. ps @ [pk]) db)) (\<lambda>db'.
                 Inr (pk, db')))))"

definition send_documents ::
    "env \<Rightarrow> db \<Rightarrow> db \<Rightarrow> int \<Rightarrow> packet_request \<Rightarrow> string \<Rightarrow> int \<Rightarrow> failure + string \<times> db" where
  "send_documents e db0 db fid q key uid =
     (if \<not> valid_packet_request q then Inl (Http 422 Invalid_request)
      else then_do (create_packet e db0 db uid fid q key) (\<lambda>(pk, db'). Inr (pk_id pk, db')))"

section \<open>Opening a delivery\<close>

record delivery_view =
  dv_recipient :: recipient
  dv_packet :: packet
  dv_notice :: notification
  dv_staff :: bool

text \<open>The participant a recipient's contact named when it was sent.\<close>

definition contact_participant :: "recipient \<Rightarrow> int option" where
  "contact_participant r =
     (case Option.bind (jget ''participant_id'' (rc_snapshot r)) json_int of
        Some i \<Rightarrow> if i = 0 then None else Some i | None \<Rightarrow> None)"

definition current_participation :: "db \<Rightarrow> user \<Rightarrow> case_row \<Rightarrow> recipient \<Rightarrow> bool" where
  "current_participation db u c r =
     (case row_at_opt pt_id (contact_participant r) (participants db) of
        None \<Rightarrow> False
      | Some p \<Rightarrow> pt_case p = cs_id c \<and> pt_user p = Some (us_id u) \<and> pt_active p
          \<and> pt_reviewed_at p \<noteq> None \<and> (pt_role p \<notin> set counsel_roles \<or> counsel_eligible u p)
          \<and> may_read_case db (Some u) (cs_id c))"

definition require_delivery_viewer :: "db \<Rightarrow> user \<Rightarrow> string \<Rightarrow> failure + delivery_view" where
  "require_delivery_viewer db actor rid =
     (case row_at rc_id rid (recipients db) of
        None \<Rightarrow> Inl (Http 404 (Service Delivery_not_found))
      | Some r \<Rightarrow>
     (case row_at pk_id (rc_packet r) (packets db) of
        None \<Rightarrow> Inl InternalError
      | Some pk \<Rightarrow>
     (case row_at cs_id (pk_case pk) (cases db) of
        None \<Rightarrow> Inl InternalError
      | Some c \<Rightarrow>
          let staff = is_court_staff db (Some (us_id actor)) (cs_court c);
              sender = (us_id actor = pk_actor pk
                \<and> (staff \<or> map_option fe_filer (find_filing db (pk_filing pk)) = Some (us_id actor)))
          in if \<not> us_active actor then Inl (Http 403 (Account Account_unavailable))
             else if \<not> sender \<and> \<not> staff \<and> us_id actor \<noteq> rc_user r
             then Inl (Http 403 (Service Delivery_party_required))
             else if \<not> sender \<and> \<not> staff \<and> \<not> current_participation db actor c r
             then Inl (Http 403 (Service Current_participation_required))
             else (case find_notice db (rc_notification r) of
                 None \<Rightarrow> Inl InternalError
               | Some n \<Rightarrow> Inr \<lparr>dv_recipient = r, dv_packet = pk, dv_notice = n, dv_staff = staff\<rparr>))))"

definition record_service_event ::
    "env \<Rightarrow> recipient \<Rightarrow> user \<Rightarrow> string \<Rightarrow> (string \<times> json) list \<Rightarrow> db \<Rightarrow> db" where
  "record_service_event e r actor action details db =
     service_events_update (\<lambda>es. es @
       [\<lparr>se_id = new_key e (map se_id (service_events db)), se_recipient = rc_id r, se_action = action,
         se_actor = us_id actor, se_actor_name = full_name actor, se_occurred_at = now e,
         se_details = JObj details\<rparr>]) db"

definition acknowledgment :: "db \<Rightarrow> recipient \<Rightarrow> service_event option" where
  "acknowledgment db r =
     List.find (\<lambda>v. se_recipient v = rc_id r \<and> se_action v = ''acknowledged'') (service_events db)"

record delivery_details =
  dd_view :: delivery_view
  dd_can_report :: bool
  dd_acknowledged_at :: "datetime option"
  dd_can_acknowledge :: bool
  dd_can_retry :: bool

definition delivery_details_of :: "env \<Rightarrow> db \<Rightarrow> string \<Rightarrow> user \<Rightarrow> failure + delivery_details" where
  "delivery_details_of e db rid actor =
     then_do (require_delivery_viewer db actor rid) (\<lambda>v.
       let n = dv_notice v; ack = acknowledgment db (dv_recipient v); status = nt_status n in
       Inr \<lparr>dd_view = v,
         dd_can_report = (dv_staff v \<and> nt_message_id n \<noteq> None \<and> 0 < nt_attempts n
           \<and> status \<in> {Sent, Unknown, FailureReported}),
         dd_acknowledged_at = map_option se_occurred_at ack,
         dd_can_acknowledge = (us_id actor = rc_user (dv_recipient v) \<and> ack = None),
         dd_can_retry = (st_service_enabled (cfg e) \<and> st_email_enabled (cfg e)
           \<and> (dv_staff v \<or> us_id actor = pk_actor (dv_packet v))
           \<and> (status \<in> {Blocked, Disabled, Failed}
              \<or> dv_staff v \<and> status \<in> {Unknown, Legacy, FailureReported}))\<rparr>)"

datatype event_kind = PortalEvents | EmailEvents

datatype event_page = PortalPage "service_event list" | EmailPage "delivery_event list"

text \<open>The newest first; mail events are in the order of their ids.\<close>

definition delivery_events_of ::
    "db \<Rightarrow> string \<Rightarrow> event_kind \<Rightarrow> nat \<Rightarrow> user \<Rightarrow> failure + event_page \<times> nat" where
  "delivery_events_of db rid kind pg actor =
     then_do (require_delivery_viewer db actor rid) (\<lambda>v.
       case kind of
         PortalEvents \<Rightarrow>
           let es = filter (\<lambda>x. se_recipient x = rc_id (dv_recipient v)) (service_events db)
           in Inr (PortalPage (page_of pg 25 (rev (sort_key se_id es))), length es)
       | EmailEvents \<Rightarrow>
           let es = filter (\<lambda>x. de_notification x = nt_id (dv_notice v)) (delivery_events db)
           in Inr (EmailPage (page_of pg 25 (rev es)), length es))"

section \<open>Using a delivery\<close>

definition json_with_id :: "int \<Rightarrow> json list \<Rightarrow> json option" where
  "json_with_id i js = List.find (\<lambda>j. jget ''id'' j = Some (JInt i)) js"

definition packet_documents :: "packet \<Rightarrow> json list" where
  "packet_documents pk =
     (case Option.bind (jget ''documents'' (pk_details pk)) json_arr of None \<Rightarrow> [] | Some js \<Rightarrow> js)"

definition same_as_delivered :: "document \<Rightarrow> packet \<Rightarrow> json \<Rightarrow> bool" where
  "same_as_delivered d pk s \<longleftrightarrow> dc_envelope d = pk_filing pk \<and> dc_retained_at d \<noteq> None
     \<and> dc_type d \<notin> set private_document_types \<and> jget ''sha256_hash'' s = Some (JStr (dc_sha256 d))
     \<and> jget ''file_size_bytes'' s = Some (JInt (dc_size d)) \<and> jget ''mime_type'' s = Some (JStr (dc_mime d))"

text \<open>A download names the stored object and the digest and size it must match.\<close>

definition download_delivery_document ::
    "env \<Rightarrow> db \<Rightarrow> string \<Rightarrow> int \<Rightarrow> user \<Rightarrow> failure + (string \<times> string \<times> int) \<times> db" where
  "download_delivery_document e db rid did actor =
     then_do (require_delivery_viewer db actor rid) (\<lambda>v.
       case json_with_id did (packet_documents (dv_packet v)) of
         None \<Rightarrow> Inl (Http 404 (Service Not_in_delivery))
       | Some s \<Rightarrow>
           if jget ''document_type_code'' s \<in> (\<lambda>t. Some (JStr t)) ` set private_document_types
           then Inl (Http 404 (Service Not_in_delivery))
           else (case row_at dc_id did (documents db) of
               None \<Rightarrow> Inl (Http 409 (Service Delivery_mismatch))
             | Some d \<Rightarrow>
                 if \<not> same_as_delivered d (dv_packet v) s then Inl (Http 409 (Service Delivery_mismatch))
                 else Inr ((dc_file_key d, dc_sha256 d, dc_size d),
                   record_service_event e (dv_recipient v) actor ''download_requested''
                     [(''document_id'', JInt (dc_id d))] db)))"

definition acknowledge_delivery :: "env \<Rightarrow> db \<Rightarrow> string \<Rightarrow> user \<Rightarrow> failure + db" where
  "acknowledge_delivery e db rid actor =
     then_do (require_delivery_viewer db actor rid) (\<lambda>v.
       if us_id actor \<noteq> rc_user (dv_recipient v)
       then Inl (Http 403 (Service Only_recipient_acknowledges))
       else case acknowledgment db (dv_recipient v) of
         Some a \<Rightarrow> Inr db
       | None \<Rightarrow> Inr (record_service_event e (dv_recipient v) actor ''acknowledged'' [] db))"

definition retry_alert :: "env \<Rightarrow> db \<Rightarrow> string \<Rightarrow> string \<Rightarrow> int \<Rightarrow> failure + delivery_status \<times> db" where
  "retry_alert e db rid reason0 uid =
     (case stripped_text 1000 reason0 of
        None \<Rightarrow> Inl (Http 422 Invalid_request)
      | Some reason \<Rightarrow>
     then_do (lock_current_user db uid) (\<lambda>actor.
     then_do (require_delivery_viewer db actor rid) (\<lambda>v.
       let n = dv_notice v; staff = dv_staff v in
       if us_id actor \<noteq> pk_actor (dv_packet v) \<and> \<not> staff
       then Inl (Http 403 (Service Retry_by_sender_or_staff))
       else if \<not> staff \<and> us_type actor = PublicUser then Inl (Http 403 (Account Public_account))
       else if nt_status n \<notin> {Blocked, Disabled, Failed, Unknown, Legacy, FailureReported}
       then Inl (Http 409 (Service Alert_already_active))
       else if nt_status n \<in> {Unknown, Legacy, FailureReported} \<and> \<not> staff
       then Inl (Http 403 (Service Staff_reviews_outcome))
       else case snd (email_context e db (nt_id n)) of
         Some err \<Rightarrow> Inl (Http 409 (Service (Delivery_blocked err)))
       | None \<Rightarrow>
           then_do (queue_email e db n (Some (us_id actor)) (Some reason)) (\<lambda>ne.
             Inr (nt_status (fst ne), record_service_event e (dv_recipient v) actor ''retry_requested''
               [(''reason'', JStr reason)] (store_notice ne db))))))"

section \<open>Failure reports\<close>

text \<open>The observed time is kept as the instant and as the text the report serialises to.\<close>

record failure_report =
  fr_source :: string
  fr_reference :: string
  fr_description :: string
  fr_observed :: datetime
  fr_observed_text :: string
  fr_message_id :: string
  fr_attempts :: int
  fr_reviewed :: bool

definition parse_report :: "failure_report \<Rightarrow> failure_report option" where
  "parse_report d =
     (case (stripped_text 1000 (fr_reference d), stripped_text 900 (fr_description d),
            stripped_text 255 (fr_message_id d)) of
        (Some r, Some t, Some m) \<Rightarrow>
          if fr_source d \<in> {''relay_notice'', ''recipient_report''} \<and> 1 \<le> fr_attempts d \<and> fr_reviewed d
          then Some (d\<lparr>fr_reference := r, fr_description := t, fr_message_id := m\<rparr>) else None
      | _ \<Rightarrow> None)"

definition report_values :: "failure_report \<Rightarrow> (string \<times> json) list" where
  "report_values d =
     [(''source'', JStr (fr_source d)), (''source_reference'', JStr (fr_reference d)),
      (''description'', JStr (fr_description d)), (''observed_at'', JStr (fr_observed_text d)),
      (''expected_message_id'', JStr (fr_message_id d)),
      (''expected_attempt_count'', JInt (fr_attempts d)), (''reviewed'', JBool (fr_reviewed d))]"

text \<open>\<open>sort_keys=True\<close>: the digest is of the values in the order of their names.\<close>

definition report_fingerprint :: "env \<Rightarrow> failure_report \<Rightarrow> string" where
  "report_fingerprint e d = digest e (JObj
     [(''description'', JStr (fr_description d)), (''expected_attempt_count'', JInt (fr_attempts d)),
      (''expected_message_id'', JStr (fr_message_id d)), (''observed_at'', JStr (fr_observed_text d)),
      (''reviewed'', JBool (fr_reviewed d)), (''source'', JStr (fr_source d)),
      (''source_reference'', JStr (fr_reference d))])"

fun delivery_status_value :: "delivery_status \<Rightarrow> string" where
  "delivery_status_value Disabled = ''disabled''"
| "delivery_status_value Blocked = ''blocked''"
| "delivery_status_value Pending = ''pending''"
| "delivery_status_value Sending = ''sending''"
| "delivery_status_value Sent = ''sent''"
| "delivery_status_value Unknown = ''unknown''"
| "delivery_status_value Legacy = ''legacy''"
| "delivery_status_value Failed = ''failed''"
| "delivery_status_value FailureReported = ''failure_reported''"

definition earlier_report :: "db \<Rightarrow> recipient \<Rightarrow> string \<Rightarrow> service_event option" where
  "earlier_report db r key =
     List.find (\<lambda>v. se_recipient v = rc_id r \<and> se_action v = ''failure_reported''
       \<and> jget ''idempotency_key'' (se_details v) = Some (JStr key)) (service_events db)"

text \<open>A report follows the last transmission, compared by whole seconds, and is not in the future.\<close>

definition report_time_ok :: "env \<Rightarrow> notification \<Rightarrow> datetime \<Rightarrow> bool" where
  "report_time_ok e n t \<longleftrightarrow> t \<le> now e
     \<and> (case nt_last_attempt n of None \<Rightarrow> False | Some x \<Rightarrow> (x div 1000000) * 1000000 \<le> t)"

definition attention_body :: "string \<Rightarrow> string" where
  "attention_body rid = ''Court staff recorded a delivery-failure report for delivery '' @ rid @ ''. ''
     @ ''Open the filing's document delivery records to review the report and any ''
     @ ''required action. The earlier relay result and recipient acknowledgments ''
     @ ''remain in the delivery history.''"

definition alert_sender ::
    "env \<Rightarrow> delivery_view \<Rightarrow> user \<Rightarrow> (string \<times> json) list \<Rightarrow> db \<Rightarrow> failure + (string \<times> json) list \<times> db" where
  "alert_sender e v actor kvs db =
     (let pk = dv_packet v in
      if pk_actor pk = us_id actor then Inr (kvs, db)
      else let n = new_notification e db CaseUpdate (pk_actor pk) (Some (pk_filing pk))
                     ''Document delivery needs attention'' (attention_body (rc_id (dv_recipient v)));
               db1 = notifications_update (\<lambda>ns. ns @ [n]) db
           in then_do (queue_email e db1 n (Some (us_id actor)) (Some ''Delivery-failure report recorded'')) (\<lambda>ne.
                Inr (kvs @ [(''sender_notification_id'', JInt (nt_id n))], store_notice ne db1)))"

definition reported_notice :: "failure_report \<Rightarrow> notification \<Rightarrow> notification" where
  "reported_notice d n = n\<lparr>nt_status := FailureReported, nt_next_attempt := None,
     nt_last_error := Some (''Delivery failure reported: '' @ fr_description d)\<rparr>"

definition report_details :: "env \<Rightarrow> failure_report \<Rightarrow> string \<Rightarrow> notification \<Rightarrow> (string \<times> json) list" where
  "report_details e d key n = report_values d @
     [(''idempotency_key'', JStr key), (''request_sha256'', JStr (report_fingerprint e d)),
      (''previous_status'', JStr (delivery_status_value (nt_status n))),
      (''email_recipient'', jopt JStr (nt_email_recipient n))]"

definition check_report :: "env \<Rightarrow> notification \<Rightarrow> failure_report \<Rightarrow> failure + unit" where
  "check_report e n d =
     (if nt_message_id n \<noteq> Some (fr_message_id d) \<or> nt_attempts n \<noteq> fr_attempts d
      then Inl (Http 409 (Service Attempt_changed))
      else if nt_status n \<notin> {Sent, Unknown, FailureReported}
      then Inl (Http 409 (Service Not_transmitted))
      else if \<not> report_time_ok e n (fr_observed d) then Inl (Http 422 (Service Report_time_invalid))
      else Inr ())"

definition report_delivery_failure ::
    "env \<Rightarrow> db \<Rightarrow> string \<Rightarrow> failure_report \<Rightarrow> string \<Rightarrow> int \<Rightarrow> failure + (int \<times> delivery_status) \<times> db" where
  "report_delivery_failure e db rid d0 key uid =
     (case parse_report d0 of
        None \<Rightarrow> Inl (Http 422 Invalid_request)
      | Some d \<Rightarrow>
     then_do (lock_current_user db uid) (\<lambda>actor.
     then_do (require_delivery_viewer db actor rid) (\<lambda>v.
       let n = dv_notice v in
       if \<not> dv_staff v then Inl (Http 403 (Service Staff_reports_failures))
       else case earlier_report db (dv_recipient v) key of
         Some x \<Rightarrow>
           if jget ''request_sha256'' (se_details x) \<noteq> Some (JStr (report_fingerprint e d))
           then Inl (Http 409 (Service Report_key_reused))
           else Inr ((se_id x, nt_status n), db)
       | None \<Rightarrow>
           then_do (check_report e n d) (\<lambda>_.
           let db1 = store_notice (reported_notice d n, []) db in
           then_do (alert_sender e v actor (report_details e d key n) db1) (\<lambda>(kvs, db2).
             Inr ((new_key e (map se_id (service_events db2)), FailureReported),
               record_service_event e (dv_recipient v) actor ''failure_reported'' kvs db2))))))"

section \<open>Lists\<close>

record recipient_option =
  ro_participant :: participant
  ro_contact :: "service_contact option"
  ro_issues :: "string list"

definition no_instructions_text :: string where
  "no_instructions_text = ''The court has not reviewed service instructions for this participant.''"

definition recipient_issues ::
    "env \<Rightarrow> case_row \<Rightarrow> int \<Rightarrow> participant \<Rightarrow> user option \<Rightarrow> service_contact option \<Rightarrow> string list" where
  "recipient_issues e c actor p account ct =
     (case ct of
        None \<Rightarrow> [no_instructions_text]
      | Some x \<Rightarrow>
          (if sc_case x \<noteq> cs_id c then [''The contact's case destination needs court review.'']
           else map issue_text (routing_issues e c p account x))
          @ (if sc_method x \<noteq> Electronic
             then [''Follow these service instructions outside the portal.''] else []))
     @ (case account of
          Some a \<Rightarrow> if us_id a = actor then [''This is your own account.''] else []
        | None \<Rightarrow> [])"

text \<open>The outer join: every contact row of a participant; the schema allows one.\<close>

definition participant_contacts :: "db \<Rightarrow> participant \<Rightarrow> service_contact option list" where
  "participant_contacts db p =
     (case filter (\<lambda>ct. sc_participant ct = Some (pt_id p)) (contacts db) of
        [] \<Rightarrow> [None] | cts \<Rightarrow> map Some cts)"

definition delivery_options ::
    "env \<Rightarrow> db \<Rightarrow> int \<Rightarrow> nat \<Rightarrow> user
       \<Rightarrow> failure + bool \<times> string \<times> saved_document list \<times> recipient_option list \<times> nat" where
  "delivery_options e db fid pg actor =
     then_do (require_sender db actor fid) (\<lambda>(f, c).
     then_do (current_source db f) (\<lambda>t.
       let ps = filter (\<lambda>p. pt_case p = cs_id c \<and> pt_active p) (participants db);
           rows = concat (map (\<lambda>p. map (Pair p) (participant_contacts db p)) (sort_key pt_id ps));
           option_of = (\<lambda>(p, ct). \<lparr>ro_participant = p, ro_contact = ct,
             ro_issues = recipient_issues e c (us_id actor) p (row_at_opt us_id (pt_user p) (users db)) ct\<rparr>)
       in then_do (source_documents t) (\<lambda>ds.
            Inr (st_service_enabled (cfg e) \<and> st_email_enabled (cfg e), tx_id t, ds,
              map option_of (page_of pg 25 rows), length ps))))"

text \<open>Rows joined with their packet and alert, the newest packet first.\<close>

type_synonym delivery_row = "recipient \<times> packet \<times> delivery_status"

definition delivery_row :: "db \<Rightarrow> recipient \<Rightarrow> delivery_row option" where
  "delivery_row db r =
     (case (row_at pk_id (rc_packet r) (packets db), find_notice db (rc_notification r)) of
        (Some pk, Some n) \<Rightarrow> Some (r, pk, nt_status n) | _ \<Rightarrow> None)"

fun string_le :: "string \<Rightarrow> string \<Rightarrow> bool" where
  "string_le [] t = True"
| "string_le (c # s) [] = False"
| "string_le (c # s) (d # t) =
     ((of_char c :: nat) < of_char d \<or> c = d \<and> string_le s t)"

fun newer :: "delivery_row \<Rightarrow> delivery_row \<Rightarrow> bool" where
  "newer (r, pk, s) (r', pk', s') \<longleftrightarrow> pk_created_at pk' < pk_created_at pk
     \<or> pk_created_at pk' = pk_created_at pk \<and> string_le (rc_id r') (rc_id r)"

fun insert_newest :: "delivery_row \<Rightarrow> delivery_row list \<Rightarrow> delivery_row list" where
  "insert_newest r [] = [r]"
| "insert_newest r (x # rows) = (if newer r x then r # x # rows else x # insert_newest r rows)"

definition newest_deliveries :: "nat \<Rightarrow> delivery_row list \<Rightarrow> delivery_row list \<times> nat" where
  "newest_deliveries pg rows = (page_of pg 25 (foldr insert_newest rows []), length rows)"

definition received_deliveries :: "db \<Rightarrow> nat \<Rightarrow> user \<Rightarrow> delivery_row list \<times> nat" where
  "received_deliveries db pg actor =
     (let mine = filter (\<lambda>r. rc_user r = us_id actor) (recipients db)
      in (fst (newest_deliveries pg (List.map_filter (delivery_row db) mine)), length mine))"

definition sent_deliveries :: "db \<Rightarrow> int \<Rightarrow> nat \<Rightarrow> user \<Rightarrow> failure + delivery_row list \<times> nat" where
  "sent_deliveries db fid pg actor =
     (case find_filing db fid of
        None \<Rightarrow> Inl (Http 404 (Account Filing_not_found))
      | Some f \<Rightarrow>
          if fe_filer f \<noteq> us_id actor \<and> \<not> is_court_staff db (Some (us_id actor)) (fe_court f)
          then Inl (Http 403 (Service Filer_or_staff_required))
          else Inr (newest_deliveries pg
            (filter (\<lambda>(r, pk, s). pk_filing pk = fid) (List.map_filter (delivery_row db) (recipients db)))))"

end
