(* ===== verification/Outbox.thy ===== *)
theory Outbox
  imports Deliveries Calendar
begin

text \<open>
  The mail outbox as a transition system: any number of workers claim, send, finish or die, the
  recovery marks interrupted notices, staff and recipients retry, court staff report a failed
  delivery, and the application queues new notices (of a filing's events, of a delivery to a
  participant, of a reported failure), in every order. A worker between its two transactions holds the
  claimed copy of the notice; those copies are part of the state. Every writer of the two tables under
  \<open>src/backend/app\<close> is a step; what else happens to the database is any change that leaves them alone.
\<close>

section \<open>The transition system\<close>

record outbox =
  ob_db :: db
  ob_held :: "notification list"

inductive outbox_step :: "outbox \<Rightarrow> outbox \<Rightarrow> bool" where
  Claim: "claim_email e (ob_db s) = (Some n, db') \<Longrightarrow>
     outbox_step s \<lparr>ob_db = db', ob_held = (if nt_status n = Sending then n # ob_held s else ob_held s)\<rparr>"
| Finish: "n \<in> set (ob_held s) \<Longrightarrow>
     outbox_step s \<lparr>ob_db = finish_attempt e' (ob_db s) n (send_email e relay n),
       ob_held = remove1 n (ob_held s)\<rparr>"
| Crash: "n \<in> set (ob_held s) \<Longrightarrow> outbox_step s (s\<lparr>ob_held := remove1 n (ob_held s)\<rparr>)"
| Recover: "outbox_step s (s\<lparr>ob_db := fst (recover_interrupted e (ob_db s))\<rparr>)"
| Retry: "retry_delivery e (ob_db s) nid reason uid = Inr db' \<Longrightarrow> outbox_step s (s\<lparr>ob_db := db'\<rparr>)"
| Notify: "fresh_keys e \<Longrightarrow>
     notify_filing_status_change e filer fid status court title why (ob_db s) = Inr db' \<Longrightarrow>
     outbox_step s (s\<lparr>ob_db := db'\<rparr>)"
| Record: "fresh_keys e \<Longrightarrow> record_transaction e f ev actor why key kvs (ob_db s) = Inr (t, db') \<Longrightarrow>
     outbox_step s (s\<lparr>ob_db := db'\<rparr>)"
| Deliver: "fresh_keys e \<Longrightarrow> send_documents e db0 (ob_db s) fid q key uid = Inr (pid, db') \<Longrightarrow>
     outbox_step s (s\<lparr>ob_db := db'\<rparr>)"
| Alert: "retry_alert e (ob_db s) rid reason uid = Inr (st, db') \<Longrightarrow> outbox_step s (s\<lparr>ob_db := db'\<rparr>)"
| Report: "fresh_keys e \<Longrightarrow> report_delivery_failure e (ob_db s) rid d key uid = Inr (r, db') \<Longrightarrow>
     outbox_step s (s\<lparr>ob_db := db'\<rparr>)"
| Elsewhere: "notifications db' = notifications (ob_db s) \<Longrightarrow> delivery_events db' = delivery_events (ob_db s) \<Longrightarrow>
     outbox_step s (s\<lparr>ob_db := db'\<rparr>)"

inductive_cases outbox_stepE: "outbox_step s s'"

definition outbox_start :: "outbox \<Rightarrow> bool" where
  "outbox_start s \<longleftrightarrow> notifications (ob_db s) = [] \<and> delivery_events (ob_db s) = [] \<and> ob_held s = []"

definition outbox_reachable :: "outbox \<Rightarrow> bool" where
  "outbox_reachable s \<longleftrightarrow> (\<exists>s0. outbox_start s0 \<and> outbox_step\<^sup>*\<^sup>* s0 s)"

section \<open>What each operation does to the rows\<close>

lemma queue_email_keeps:
  assumes "queue_email e db n actor reason = Inr (n', evs)"
  shows "nt_id n' = nt_id n \<and> nt_attempts n' = nt_attempts n \<and> nt_status n' \<in> {Disabled, Blocked, Pending}
    \<and> (\<forall>v \<in> set evs. de_notification v = nt_id n \<and> de_outcome v = ''queued'')"
  using assms
  by (auto simp: queue_email_def then_do_Inr_iff delivery_event_of_def Let_def
      split: if_splits prod.splits)

lemma store_notice_simps [simp]:
  "delivery_events (store_notice ne db) = delivery_events db @ snd ne"
  "notifications (store_notice ne db)
     = upd_row nt_id (nt_id (fst ne)) (\<lambda>_. fst ne) (notifications db)"
  by (simp_all add: store_notice_def)

lemma next_due_due: "next_due t db = Some n \<Longrightarrow> n \<in> set (notifications db) \<and> due t n"
  by (auto simp: next_due_def split: list.splits dest!: arg_cong [of _ _ set])

lemma next_due_None: "next_due t db = None \<longleftrightarrow> (\<forall>n \<in> set (notifications db). \<not> due t n)"
proof
  assume "next_due t db = None"
  then have "sort_key (\<lambda>n. the (nt_next_attempt n))
      (sort_key nt_id (filter (due t) (notifications db))) = []"
    by (auto simp: next_due_def split: list.splits)
  then have "filter (due t) (notifications db) = []"
    by (metis length_0_conv length_sort)
  then show "\<forall>n \<in> set (notifications db). \<not> due t n" by (simp add: filter_empty_conv)
qed (simp add: next_due_def)

lemma claimed_row_keeps:
  "nt_id (claimed_row e db n) = nt_id n" "nt_attempts (claimed_row e db n) = nt_attempts n + 1"
  "nt_status (claimed_row e db n) \<in> {Sending, Blocked}"
  by (auto simp: claimed_row_def Let_def)

lemma claim_email_Some:
  assumes "claim_email e db = (Some n, db')"
  obtains n0 v where "n0 \<in> set (notifications db)" and "due (now e) n0" and "n = claimed_row e db n0"
    and "de_notification v = nt_id n" and "de_attempt v = nt_attempts n"
    and "de_outcome v = (if nt_status n = Blocked then ''blocked'' else ''started'')"
    and "db' = store_notice (n, [v]) db"
  using assms
  by (auto simp: claim_email_def delivery_event_of_def Let_def split: option.splits
      dest!: next_due_due intro!: that)

lemma finished_row_keeps:
  "nt_id (finished_row e r n) = nt_id n" "nt_attempts (finished_row e r n) = nt_attempts n"
  by (simp_all add: finished_row_def Let_def)

section \<open>The invariant\<close>

definition started :: "db \<Rightarrow> (int \<times> int) list" where
  "started db = map (\<lambda>v. (de_notification v, de_attempt v))
     (filter (\<lambda>v. de_outcome v = ''started'') (delivery_events db))"

definition events_ok :: "db \<Rightarrow> bool" where
  "events_ok db \<longleftrightarrow> (\<forall>v \<in> set (delivery_events db). \<exists>n. find_notice db (de_notification v) = Some n
     \<and> (de_outcome v \<noteq> ''queued'' \<longrightarrow> de_attempt v \<le> nt_attempts n))"

definition accepted_event :: "db \<Rightarrow> notification \<Rightarrow> bool" where
  "accepted_event db n \<longleftrightarrow> (\<exists>v \<in> set (delivery_events db). de_outcome v = ''accepted''
     \<and> de_notification v = nt_id n \<and> de_attempt v = nt_attempts n)"

definition sent_ok :: "db \<Rightarrow> bool" where
  "sent_ok db \<longleftrightarrow> (\<forall>n \<in> set (notifications db). nt_status n = Sent \<longrightarrow> accepted_event db n)"

definition outbox_db_ok :: "db \<Rightarrow> bool" where
  "outbox_db_ok db \<longleftrightarrow> unique_key nt_id (notifications db) \<and> events_ok db \<and> distinct (started db)
     \<and> sent_ok db"

definition held_ok :: "outbox \<Rightarrow> bool" where
  "held_ok s \<longleftrightarrow> distinct (map (\<lambda>n. (nt_id n, nt_attempts n)) (ob_held s))
     \<and> (\<forall>n \<in> set (ob_held s). (nt_id n, nt_attempts n) \<in> set (started (ob_db s)))"

definition outbox_ok :: "outbox \<Rightarrow> bool" where
  "outbox_ok s \<longleftrightarrow> outbox_db_ok (ob_db s) \<and> held_ok s"

lemma started_attempt:
  assumes "events_ok db" and "(i, k) \<in> set (started db)" and "find_notice db i = Some n"
  shows "k \<le> nt_attempts n"
  using assms by (fastforce simp: events_ok_def started_def)

lemma find_notice_id: "find_notice db i = Some n \<Longrightarrow> nt_id n = i \<and> n \<in> set (notifications db)"
  by (auto simp: find_notice_def dest: row_at_SomeD)

lemma find_notice_member:
  "unique_key nt_id (notifications db) \<Longrightarrow> n \<in> set (notifications db) \<Longrightarrow> find_notice db (nt_id n) = Some n"
  by (simp add: find_notice_def row_at_unique)

lemma find_notice_stored:
  assumes "find_notice db (nt_id n) = Some n0"
  shows "find_notice (store_notice (n, evs) db) i = (if i = nt_id n then Some n else find_notice db i)"
proof (cases "i = nt_id n")
  case True
  with assms show ?thesis by (simp add: find_notice_def row_at_upd_same)
next
  case False
  then show ?thesis by (simp add: find_notice_def row_at_upd_other)
qed

lemma started_stored: "started (store_notice ne db) = started db
    @ map (\<lambda>v. (de_notification v, de_attempt v)) (filter (\<lambda>v. de_outcome v = ''started'') (snd ne))"
  by (simp add: started_def)

text \<open>Writing back a row with the same id whose attempt count has not decreased.\<close>

lemma store_keeps_ok:
  assumes ok: "outbox_db_ok db" and n0: "find_notice db (nt_id n) = Some n0"
    and grow: "nt_attempts n0 \<le> nt_attempts n"
    and evs: "\<forall>v \<in> set evs. de_notification v = nt_id n \<and> (de_outcome v \<noteq> ''queued'' \<longrightarrow> de_attempt v \<le> nt_attempts n)"
    and st: "distinct (started (store_notice (n, evs) db))"
    and snt: "nt_status n = Sent \<Longrightarrow> accepted_event (store_notice (n, evs) db) n"
  shows "outbox_db_ok (store_notice (n, evs) db)"
proof -
  have "unique_key nt_id (notifications (store_notice (n, evs) db))"
    using ok by (simp add: outbox_db_ok_def unique_key_upd_row)
  moreover have "events_ok (store_notice (n, evs) db)"
    unfolding events_ok_def find_notice_stored [OF n0]
  proof
    fix v assume "v \<in> set (delivery_events (store_notice (n, evs) db))"
    then consider "v \<in> set evs" | "v \<in> set (delivery_events db)" by auto
    then show "\<exists>m. (if de_notification v = nt_id n then Some n else find_notice db (de_notification v)) = Some m
        \<and> (de_outcome v \<noteq> ''queued'' \<longrightarrow> de_attempt v \<le> nt_attempts m)"
    proof cases
      case 1
      with evs show ?thesis by auto
    next
      case 2
      with ok obtain m where "find_notice db (de_notification v) = Some m"
        and "de_outcome v \<noteq> ''queued'' \<longrightarrow> de_attempt v \<le> nt_attempts m"
        by (auto simp: outbox_db_ok_def events_ok_def)
      with n0 grow show ?thesis by auto
    qed
  qed
  moreover have "sent_ok (store_notice (n, evs) db)"
    unfolding sent_ok_def
  proof (intro ballI impI)
    fix m assume m: "m \<in> set (notifications (store_notice (n, evs) db))" "nt_status m = Sent"
    then consider "m = n" | "m \<in> set (notifications db)" by (auto dest: set_upd_rowD)
    then show "accepted_event (store_notice (n, evs) db) m"
    proof cases
      case 1
      with m snt show ?thesis by simp
    next
      case 2
      with ok m show ?thesis
        by (fastforce simp: outbox_db_ok_def sent_ok_def accepted_event_def)
    qed
  qed
  ultimately show ?thesis using st by (simp add: outbox_db_ok_def)
qed

lemma events_only_ok:
  assumes ok: "outbox_db_ok db" and n: "find_notice db (de_notification v) = Some n"
    and "de_attempt v \<le> nt_attempts n" and "de_outcome v \<noteq> ''started''"
  shows "outbox_db_ok (delivery_events_update (\<lambda>es. es @ [v]) db)"
proof -
  have f: "find_notice (delivery_events_update (\<lambda>es. es @ [v]) db) i = find_notice db i" for i
    by (simp add: find_notice_def)
  show ?thesis using assms
    by (fastforce simp: outbox_db_ok_def events_ok_def f started_def sent_ok_def accepted_event_def)
qed

section \<open>Every step keeps the invariant\<close>

lemma claim_keeps_ok:
  assumes ok: "outbox_db_ok db" and c: "claim_email e db = (Some n, db')"
  shows "outbox_db_ok db' \<and> (nt_id n, nt_attempts n) \<notin> set (started db)
    \<and> (nt_status n = Sending \<longrightarrow> (nt_id n, nt_attempts n) \<in> set (started db'))
    \<and> set (started db) \<subseteq> set (started db')"
proof -
  obtain n0 v where n0: "n0 \<in> set (notifications db)" and n: "n = claimed_row e db n0"
    and v: "de_notification v = nt_id n" "de_attempt v = nt_attempts n"
      "de_outcome v = (if nt_status n = Blocked then ''blocked'' else ''started'')"
    and db': "db' = store_notice (n, [v]) db"
    using claim_email_Some [OF c] by metis
  have keep: "nt_id n = nt_id n0" "nt_attempts n = nt_attempts n0 + 1" "nt_status n \<in> {Sending, Blocked}"
    by (simp_all add: n claimed_row_keeps del: insert_iff)
  have f: "find_notice db (nt_id n) = Some n0"
    using find_notice_member [OF _ n0] ok keep(1) by (simp add: outbox_db_ok_def)
  have fresh: "(nt_id n, nt_attempts n) \<notin> set (started db)"
    using started_attempt [OF _ _ f] ok keep(2) by (fastforce simp: outbox_db_ok_def)
  have "outbox_db_ok db'"
    unfolding db' by (rule store_keeps_ok [OF ok f])
      (use keep v fresh ok in \<open>auto simp: started_stored outbox_db_ok_def\<close>)
  moreover have "nt_status n = Sending \<longrightarrow> (nt_id n, nt_attempts n) \<in> set (started db')"
    using v by (simp add: db' started_stored)
  ultimately show ?thesis using fresh by (auto simp: db' started_stored)
qed

lemma finish_keeps_ok:
  assumes ok: "outbox_db_ok db" and held: "(nt_id n, nt_attempts n) \<in> set (started db)"
    and outcome: "sr_outcome r \<noteq> ''started''"
  shows "outbox_db_ok (finish_attempt e db n r)
    \<and> started (finish_attempt e db n r) = started db"
proof (cases "find_notice db (nt_id n)")
  case None
  then show ?thesis using ok by (simp add: finish_attempt_def)
next
  case (Some c)
  define v where "v = (delivery_event_of n (sr_outcome r) (now e))
    \<lparr>de_smtp_code := sr_code r, de_detail := sr_detail r\<rparr>"
  have v: "de_notification v = nt_id n" "de_attempt v = nt_attempts n" "de_outcome v = sr_outcome r"
    by (simp_all add: v_def delivery_event_of_def)
  have le: "nt_attempts n \<le> nt_attempts c"
    using started_attempt [OF _ held Some] ok by (simp add: outbox_db_ok_def)
  have id: "nt_id c = nt_id n" using Some by (simp add: find_notice_id)
  show ?thesis
  proof (cases "nt_attempts c \<noteq> nt_attempts n \<or> nt_status c \<notin> {Sending, Unknown}")
    case True
    then have "finish_attempt e db n r = delivery_events_update (\<lambda>es. es @ [v]) db"
      by (simp add: finish_attempt_def Some v_def)
    with events_only_ok [OF ok, of v c] Some v le outcome show ?thesis by (simp add: started_def)
  next
    case False
    let ?c = "finished_row e r c"
    have eq: "finish_attempt e db n r = store_notice (?c, [v]) db"
      using False by (simp add: finish_attempt_def Some v_def)
    have "outbox_db_ok (store_notice (?c, [v]) db)"
    proof (rule store_keeps_ok [OF ok])
      show "find_notice db (nt_id ?c) = Some c" by (simp add: finished_row_keeps id Some)
      show "distinct (started (store_notice (?c, [v]) db))"
        using ok v outcome by (simp add: started_stored outbox_db_ok_def)
      show "accepted_event (store_notice (?c, [v]) db) ?c" if "nt_status ?c = Sent"
        using that v False id
        by (auto simp: accepted_event_def finished_row_def Let_def split: if_splits)
    qed (use v id False in \<open>auto simp: finished_row_keeps\<close>)
    then show ?thesis using v outcome by (simp add: eq started_stored)
  qed
qed

lemma recover_keeps_ok:
  assumes ok: "outbox_db_ok db"
  shows "outbox_db_ok (fst (recover_interrupted e db))
    \<and> started (fst (recover_interrupted e db)) = started db"
proof -
  define mark where "mark = (\<lambda>n. if interrupted (now e) n
    then n\<lparr>nt_status := Unknown, nt_last_error := Some interrupted_text\<rparr> else n)"
  define evs where "evs = map (\<lambda>n. (delivery_event_of n ''unknown'' (now e))
      \<lparr>de_detail := Some interrupted_text\<rparr>) (filter (interrupted (now e)) (notifications db))"
  let ?db = "fst (recover_interrupted e db)"
  have tables: "notifications ?db = map mark (notifications db)"
    "delivery_events ?db = delivery_events db @ evs"
    by (simp_all add: recover_interrupted_def Let_def mark_def evs_def)
  have mark: "nt_id (mark n) = nt_id n" "nt_attempts (mark n) = nt_attempts n" for n
    by (simp_all add: mark_def)
  have evs: "\<exists>n \<in> set (notifications db). de_notification v = nt_id n \<and> de_attempt v = nt_attempts n
      \<and> de_outcome v = ''unknown''" if "v \<in> set evs" for v
    using that by (auto simp: evs_def delivery_event_of_def)
  have f: "find_notice ?db i = map_option mark (find_notice db i)" for i
    unfolding find_notice_def tables using mark(1) by (rule row_at_map)
  have st: "started ?db = started db"
    using evs by (fastforce simp: started_def tables filter_empty_conv)
  have u: "unique_key nt_id (notifications ?db)"
    using ok by (simp add: outbox_db_ok_def unique_key_def tables o_def mark)
  have "events_ok ?db"
    unfolding events_ok_def
  proof
    fix v assume "v \<in> set (delivery_events ?db)"
    then consider "v \<in> set evs" | "v \<in> set (delivery_events db)" by (auto simp: tables)
    then show "\<exists>n. find_notice ?db (de_notification v) = Some n
        \<and> (de_outcome v \<noteq> ''queued'' \<longrightarrow> de_attempt v \<le> nt_attempts n)"
    proof cases
      case 1
      with evs obtain n where "n \<in> set (notifications db)" "de_notification v = nt_id n"
        "de_attempt v = nt_attempts n" by blast
      with ok find_notice_member [of db n] show ?thesis
        by (auto simp: outbox_db_ok_def f mark)
    next
      case 2
      with ok show ?thesis by (fastforce simp: outbox_db_ok_def events_ok_def f mark)
    qed
  qed
  moreover have "sent_ok ?db"
    using ok by (auto simp: sent_ok_def tables accepted_event_def mark outbox_db_ok_def)
      (auto simp: mark_def interrupted_def split: if_splits)
  ultimately show ?thesis using u st ok by (simp add: outbox_db_ok_def)
qed

text \<open>Storing what \<open>queue_email\<close> returns for a row of the table.\<close>

lemma queue_store_ok:
  assumes ok: "outbox_db_ok db" and n: "find_notice db (nt_id n) = Some n"
    and q: "queue_email e db0 n actor reason = Inr ne"
  shows "outbox_db_ok (store_notice ne db) \<and> started (store_notice ne db) = started db"
proof -
  obtain n' evs where ne: "ne = (n', evs)" by (cases ne)
  have keep: "nt_id n' = nt_id n" "nt_attempts n' = nt_attempts n" "nt_status n' \<noteq> Sent"
    "\<forall>v \<in> set evs. de_notification v = nt_id n \<and> de_outcome v = ''queued''"
    using queue_email_keeps [OF q [unfolded ne]] by auto
  have st: "started (store_notice (n', evs) db) = started db"
    using keep(4) by (auto simp: started_stored filter_empty_conv)
  moreover have "outbox_db_ok (store_notice (n', evs) db)"
    by (rule store_keeps_ok [OF ok]) (use keep n st ok in \<open>auto simp: outbox_db_ok_def\<close>)
  ultimately show ?thesis by (simp add: ne)
qed

lemma notice_for_viewer_Inr: "notice_for_viewer db nid uid = Inr (n, staff) \<Longrightarrow> find_notice db nid = Some n"
  by (auto simp: notice_for_viewer_def Let_def split: option.splits if_splits)

lemma retry_delivery_Inr:
  assumes "retry_delivery e db nid reason uid = Inr db'"
  obtains n staff ne where "find_notice db nid = Some n" and "retryable (nt_status n)"
    and "notice_for_viewer db nid uid = Inr (n, staff)"
    and "nt_status n \<in> {Unknown, Legacy} \<Longrightarrow> staff"
    and "queue_email e db n (Some uid) (Some (str_strip reason)) = Inr ne" and "db' = store_notice ne db"
  using assms
  by (auto simp: retry_delivery_def then_do_Inr_iff split: if_splits intro!: that
      dest: notice_for_viewer_Inr)

lemma retry_keeps_ok:
  assumes ok: "outbox_db_ok db" and r: "retry_delivery e db nid reason uid = Inr db'"
  shows "outbox_db_ok db' \<and> started db' = started db"
  using r
proof (rule retry_delivery_Inr)
  fix n staff ne
  assume n: "find_notice db nid = Some n"
    and q: "queue_email e db n (Some uid) (Some (str_strip reason)) = Inr ne" "db' = store_notice ne db"
  have "find_notice db (nt_id n) = Some n" using n by (simp add: find_notice_id)
  with queue_store_ok [OF ok this q(1)] q(2) show ?thesis by simp
qed

lemma append_notice_ok:
  assumes ok: "outbox_db_ok db" and new: "nt_id n \<notin> nt_id ` set (notifications db)" "nt_status n \<noteq> Sent"
  shows "outbox_db_ok (notifications_update (\<lambda>ns. ns @ [n]) db)
    \<and> started (notifications_update (\<lambda>ns. ns @ [n]) db) = started db
    \<and> find_notice (notifications_update (\<lambda>ns. ns @ [n]) db) (nt_id n) = Some n"
proof -
  let ?db = "notifications_update (\<lambda>ns. ns @ [n]) db"
  have kept: "find_notice ?db i = Some m" if "find_notice db i = Some m" for i m
    using that notification_tbl.lookup_kept [of i db m n] by (simp add: find_notice_def)
  have "events_ok ?db"
    using ok kept by (fastforce simp: outbox_db_ok_def events_ok_def)
  moreover have "sent_ok ?db"
    using ok new by (auto simp: outbox_db_ok_def sent_ok_def accepted_event_def)
  moreover have "unique_key nt_id (notifications ?db)"
    using ok new notification_tbl.unique_inserted by (auto simp: outbox_db_ok_def unique_key_append)
  moreover have "find_notice ?db (nt_id n) = Some n"
    using notification_tbl.lookup_inserted [OF new(1)] by (simp add: find_notice_def)
  ultimately show ?thesis using ok by (simp add: outbox_db_ok_def started_def)
qed

lemma notify_Inr:
  assumes "notify_filing_status_change e filer fid status court title why db = Inr db'"
  obtains n ne where "nt_id n = new_key e (map nt_id (notifications db))" and "nt_status n = Disabled"
    and "queue_email e (notifications_update (\<lambda>ns. ns @ [n]) db) n None None = Inr ne"
    and "db' = store_notice ne (notifications_update (\<lambda>ns. ns @ [n]) db)"
  using assms
  by (auto simp: notify_filing_status_change_def then_do_Inr_iff Let_def new_notification_def intro!: that)

lemma new_notice_fresh:
  "fresh_keys e \<Longrightarrow> new_key e (map nt_id (notifications db)) \<notin> nt_id ` set (notifications db)"
  by (auto simp: fresh_keys_def dest: spec [of _ "map nt_id (notifications db)"])

lemma notify_keeps_ok:
  assumes ok: "outbox_db_ok db" and "fresh_keys e"
    and "notify_filing_status_change e filer fid status court title why db = Inr db'"
  shows "outbox_db_ok db' \<and> started db' = started db"
  using assms(3)
proof (rule notify_Inr)
  fix n ne
  assume id: "nt_id n = new_key e (map nt_id (notifications db))" and "nt_status n = Disabled"
    and q: "queue_email e (notifications_update (\<lambda>ns. ns @ [n]) db) n None None = Inr ne"
    and db': "db' = store_notice ne (notifications_update (\<lambda>ns. ns @ [n]) db)"
  then have "nt_id n \<notin> nt_id ` set (notifications db)" "nt_status n \<noteq> Sent"
    using new_notice_fresh [OF assms(2), of db] by simp_all
  from append_notice_ok [OF ok this] q db' show ?thesis
    using queue_store_ok [of "notifications_update (\<lambda>ns. ns @ [n]) db" n] by auto
qed

text \<open>The invariant reads two tables only.\<close>

lemma same_outbox:
  assumes "notifications db' = notifications db" and "delivery_events db' = delivery_events db"
  shows "outbox_db_ok db' = outbox_db_ok db" and "started db' = started db"
    and "find_notice db' i = find_notice db i"
  using assms by (simp_all add: outbox_db_ok_def events_ok_def sent_ok_def accepted_event_def started_def find_notice_def)

lemma edited_body_ok:
  assumes ok: "outbox_db_ok db"
  shows "outbox_db_ok (notifications_update (upd_row nt_id k (\<lambda>n. n\<lparr>nt_body := h n\<rparr>)) db)
    \<and> started (notifications_update (upd_row nt_id k (\<lambda>n. n\<lparr>nt_body := h n\<rparr>)) db) = started db"
proof -
  define g where "g = (\<lambda>n. if nt_id n = k then n\<lparr>nt_body := h n\<rparr> else n)"
  let ?db = "notifications_update (upd_row nt_id k (\<lambda>n. n\<lparr>nt_body := h n\<rparr>)) db"
  have g: "nt_id (g n) = nt_id n" "nt_attempts (g n) = nt_attempts n" "nt_status (g n) = nt_status n" for n
    by (simp_all add: g_def)
  have rows: "notifications ?db = map g (notifications db)" "delivery_events ?db = delivery_events db"
    by (simp_all add: upd_row_def g_def)
  have f: "find_notice ?db i = map_option g (find_notice db i)" for i
    unfolding find_notice_def rows using g(1) by (rule row_at_map)
  show ?thesis
    using ok unfolding outbox_db_ok_def events_ok_def sent_ok_def accepted_event_def started_def f rows
    by (fastforce simp: unique_key_def o_def g)
qed

text \<open>A new notice, appended and queued; whatever else the caller writes beside it.\<close>

lemma queued_new_ok:
  assumes ok: "outbox_db_ok db" and "fresh_keys e"
    and n: "nt_id n = new_key e (map nt_id (notifications db))" "nt_status n = Disabled"
    and db1: "notifications db1 = notifications db @ [n]" "delivery_events db1 = delivery_events db"
    and q: "queue_email e db0 n actor reason = Inr ne"
  shows "outbox_db_ok (store_notice ne db1) \<and> started (store_notice ne db1) = started db"
proof -
  have "nt_id n \<notin> nt_id ` set (notifications db)" "nt_status n \<noteq> Sent"
    using new_notice_fresh [OF assms(2), of db] n by simp_all
  note app = append_notice_ok [OF ok this]
  have "outbox_db_ok db1 \<and> started db1 = started db \<and> find_notice db1 (nt_id n) = Some n"
    using app same_outbox [of db1 "notifications_update (\<lambda>ns. ns @ [n]) db"] db1 by simp
  then show ?thesis using queue_store_ok [OF _ _ q, of db1] by simp
qed

lemma record_keeps_ok:
  assumes ok: "outbox_db_ok db" and fresh: "fresh_keys e"
    and rec: "record_transaction e f ev actor why key kvs db = Inr (t, db')"
  shows "outbox_db_ok db' \<and> started db' = started db"
proof -
  let ?db1 = "if submission_event ev then retain_documents (fe_id f) (event_time e f ev) db else db"
  from rec obtain db2 where ins: "insert_transaction t ?db1 = Inr db2"
    and notice: "(if ev = ''cms_failed'' then Inr db2 else notify_transaction e f t why db2) = Inr db'"
    by (auto simp: record_transaction_def then_do_Inr_iff Let_def)
  have "notifications db2 = notifications db" "delivery_events db2 = delivery_events db"
    using ins by (auto simp: insert_transaction_def retain_documents_def split: if_splits)
  note db2 = same_outbox [OF this]
  show ?thesis
  proof (cases "ev = ''cms_failed''")
    case True
    with notice db2 ok show ?thesis by simp
  next
    case False
    with notice obtain db3 h where
      n3: "notify_filing_status_change e (fe_filer f) (fe_id f) (tx_event t) (court_name db2 f)
        (fe_title f) (notice_reason (tx_event t) why) db2 = Inr db3"
      and db': "db' = notifications_update (upd_row nt_id (new_key e (map nt_id (notifications db2)))
        (\<lambda>n. n\<lparr>nt_body := nt_body n @ h\<rparr>)) db3"
      unfolding notify_transaction_def Let_def by (auto simp only: then_do_Inr_iff if_False)
    from notify_keeps_ok [OF _ fresh n3] db2 ok have "outbox_db_ok db3" "started db3 = started db" by simp_all
    with edited_body_ok db' show ?thesis by simp
  qed
qed

lemma add_recipients_keeps_ok:
  "add_recipients e pk rs db = Inr db' \<Longrightarrow> fresh_keys e \<Longrightarrow> outbox_db_ok db \<Longrightarrow>
     outbox_db_ok db' \<and> started db' = started db"
proof (induction rs arbitrary: db)
  case (Cons r rs)
  from Cons.prems(1) obtain db1 where add: "add_recipient e pk r db = Inr db1"
    and rest: "add_recipients e pk rs db1 = Inr db'" by (auto simp: then_do_Inr_iff)
  let ?n = "new_notification e db ServiceOfProcess (us_id (snd (snd r))) (Some (pk_filing pk))
    delivery_subject delivery_body"
  let ?d = "recipients_update (\<lambda>rs. rs @ [new_recipient e db pk r (nt_id ?n)]) (notifications_update (\<lambda>ns. ns @ [?n]) db)"
  from add obtain ne where q: "queue_email e ?d ?n (Some (pk_actor pk)) (Some delivery_reason) = Inr ne"
    and db1: "db1 = store_notice ne ?d"
    unfolding add_recipient_def Let_def by (auto simp only: then_do_Inr_iff split: if_splits)
  have "outbox_db_ok db1 \<and> started db1 = started db"
    unfolding db1 by (rule queued_new_ok [OF Cons.prems(3,2) _ _ _ _ q]) (simp_all add: new_notification_def)
  with Cons.IH [OF rest Cons.prems(2)] show ?case by simp
qed simp

lemma deliver_keeps_ok:
  assumes ok: "outbox_db_ok db" and "fresh_keys e" and "send_documents e db0 db fid q key uid = Inr (pid, db')"
  shows "outbox_db_ok db' \<and> started db' = started db"
proof -
  from assms(3) obtain pk where c: "create_packet e db0 db uid fid q key = Inr (pk, db')"
    by (auto simp: send_documents_def then_do_Inr_iff split: if_splits)
  then consider "db' = db"
    | rows where "add_recipients e pk rows (packets_update (\<lambda>ps. ps @ [pk]) db) = Inr db'"
    by (auto simp: create_packet_def then_do_Inr_iff Let_def split: option.splits if_splits)
  then show ?thesis
  proof cases
    case 2
    from add_recipients_keeps_ok [OF 2 assms(2)] ok same_outbox [of "packets_update (\<lambda>ps. ps @ [pk]) db" db]
    show ?thesis by simp
  qed (simp add: ok)
qed

lemma viewer_notice: "require_delivery_viewer db actor rid = Inr v \<Longrightarrow> find_notice db (nt_id (dv_notice v)) = Some (dv_notice v)"
  by (auto simp: require_delivery_viewer_def Let_def find_notice_id split: option.splits if_splits)

lemma record_service_event_outbox [simp]:
  "notifications (record_service_event e r a ac d db) = notifications db"
  "delivery_events (record_service_event e r a ac d db) = delivery_events db"
  by (simp_all add: record_service_event_def)

lemma alert_keeps_ok:
  assumes ok: "outbox_db_ok db" and "retry_alert e db rid reason uid = Inr (st, db')"
  shows "outbox_db_ok db' \<and> started db' = started db"
proof -
  obtain t where t: "stripped_text 1000 reason = Some t"
    using assms(2) by (cases "stripped_text 1000 reason") (simp_all add: retry_alert_def)
  obtain actor where actor: "lock_current_user db uid = Inr actor"
    using assms(2) by (cases "lock_current_user db uid") (simp_all add: retry_alert_def t)
  obtain v where v: "require_delivery_viewer db actor rid = Inr v"
    using assms(2) by (cases "require_delivery_viewer db actor rid") (simp_all add: retry_alert_def t actor)
  have "snd (email_context e db (nt_id (dv_notice v))) = None"
    using assms(2) by (cases "snd (email_context e db (nt_id (dv_notice v)))")
      (simp_all add: retry_alert_def t actor v Let_def del: insert_iff split: if_split_asm)
  then obtain ne x where q: "queue_email e db (dv_notice v) (Some (us_id actor)) (Some t) = Inr ne"
    and db': "db' = record_service_event e (dv_recipient v) actor ''retry_requested'' x (store_notice ne db)"
    using assms(2) by (cases "queue_email e db (dv_notice v) (Some (us_id actor)) (Some t)")
      (auto simp: retry_alert_def t actor v Let_def simp del: insert_iff split: if_split_asm)
  from queue_store_ok [OF ok viewer_notice [OF v] q] same_outbox [of db' "store_notice ne db"] db'
  show ?thesis by simp
qed

lemma report_keeps_ok:
  assumes ok: "outbox_db_ok db" and fresh: "fresh_keys e"
    and rep: "report_delivery_failure e db rid d0 key uid = Inr (r, db')"
  shows "outbox_db_ok db' \<and> started db' = started db"
proof (cases "db' = db")
  case False
  obtain d where d: "parse_report d0 = Some d"
    using rep by (cases "parse_report d0") (simp_all add: report_delivery_failure_def)
  obtain actor where actor: "lock_current_user db uid = Inr actor"
    using rep by (cases "lock_current_user db uid") (simp_all add: report_delivery_failure_def d)
  obtain v where v: "require_delivery_viewer db actor rid = Inr v"
    using rep by (cases "require_delivery_viewer db actor rid") (simp_all add: report_delivery_failure_def d actor)
  have cases: "(if \<not> dv_staff v then Inl (Http 403 (Service Staff_reports_failures))
       else case earlier_report db (dv_recipient v) key of
         Some x \<Rightarrow>
           if jget ''request_sha256'' (se_details x) \<noteq> Some (JStr (report_fingerprint e d))
           then Inl (Http 409 (Service Report_key_reused))
           else Inr ((se_id x, nt_status (dv_notice v)), db)
       | None \<Rightarrow>
           then_do (check_report e (dv_notice v) d) (\<lambda>_.
           then_do (alert_sender e v actor (report_details e d key (dv_notice v))
             (store_notice (reported_notice d (dv_notice v), []) db)) (\<lambda>(kvs, db2).
             Inr ((new_key e (map se_id (service_events db2)), FailureReported),
               record_service_event e (dv_recipient v) actor ''failure_reported'' kvs db2)))) = Inr (r, db')"
    using rep by (simp only: report_delivery_failure_def d actor v Let_def option.case then_do.simps)
  have step: "then_do (alert_sender e v actor (report_details e d key (dv_notice v))
        (store_notice (reported_notice d (dv_notice v), []) db)) (\<lambda>(kvs, db2).
          Inr ((new_key e (map se_id (service_events db2)), FailureReported),
            record_service_event e (dv_recipient v) actor ''failure_reported'' kvs db2)) = Inr (r, db')"
  proof (cases "earlier_report db (dv_recipient v) key")
    case None
    with cases show ?thesis by (cases "dv_staff v"; cases "check_report e (dv_notice v) d") simp_all
  next
    case (Some x)
    with cases False show ?thesis by (auto split: if_splits)
  qed
  let ?n = "reported_notice d (dv_notice v)"
  let ?db1 = "store_notice (?n, []) db"
  have n: "nt_id ?n = nt_id (dv_notice v)" "nt_attempts ?n = nt_attempts (dv_notice v)" "nt_status ?n \<noteq> Sent"
    by (simp_all add: reported_notice_def)
  have "started ?db1 = started db" by (simp add: started_stored)
  moreover have "outbox_db_ok ?db1"
    by (rule store_keeps_ok [OF ok]) (use n viewer_notice [OF v] ok in \<open>auto simp: started_stored outbox_db_ok_def\<close>)
  ultimately have one: "outbox_db_ok ?db1" "started ?db1 = started db" by simp_all
  from step obtain kvs db2 where al: "alert_sender e v actor (report_details e d key (dv_notice v)) ?db1 = Inr (kvs, db2)"
    and db': "db' = record_service_event e (dv_recipient v) actor ''failure_reported'' kvs db2"
    by (auto simp: then_do_Inr_iff)
  have "outbox_db_ok db2 \<and> started db2 = started db"
  proof (cases "pk_actor (dv_packet v) = us_id actor")
    case True
    with al one show ?thesis by (simp add: alert_sender_def)
  next
    case False
    let ?m = "new_notification e ?db1 CaseUpdate (pk_actor (dv_packet v)) (Some (pk_filing (dv_packet v)))
      ''Document delivery needs attention'' (attention_body (rc_id (dv_recipient v)))"
    from al False obtain ne where
      q: "queue_email e (notifications_update (\<lambda>ns. ns @ [?m]) ?db1) ?m (Some (us_id actor))
        (Some ''Delivery-failure report recorded'') = Inr ne"
      and db2: "db2 = store_notice ne (notifications_update (\<lambda>ns. ns @ [?m]) ?db1)"
      unfolding alert_sender_def Let_def by (auto simp only: then_do_Inr_iff if_False)
    have "outbox_db_ok db2 \<and> started db2 = started ?db1"
      unfolding db2 by (rule queued_new_ok [OF one(1) fresh _ _ _ _ q]) (simp_all add: new_notification_def)
    with one show ?thesis by simp
  qed
  with same_outbox [of db' db2] db' show ?thesis by simp
qed (simp add: ok)

lemma send_outcome: "sr_outcome (send_email e relay n) \<noteq> ''started''"
proof -
  have do: "sr_outcome r \<noteq> ''started''" if "smtp_do relay b c = Inl r" for r b c
    using that by (auto simp: smtp_do_def send_result_of_def failure_kind_def split: smtp_reply.splits if_splits)
  have all: "sr_outcome r \<noteq> ''started''" if "smtp_all relay cs = Inl r" for r cs
    using that by (induction cs) (auto simp: then_do_Inl_iff dest: do)
  have adr: "sr_outcome r \<noteq> ''started''" if "queued_addresses e x y = Inl r" for r x y
    using that by (auto simp: queued_addresses_def send_result_of_def split: address_check.splits)
  have "sr_outcome r \<noteq> ''started''" if "smtp_session e relay x y m = Inl r \<or> smtp_session e relay x y m = Inr r"
    for r x y m
    using that unfolding smtp_session_def
    by (auto simp: then_do_Inl_iff then_do_Inr_iff send_result_of_def failure_kind_def
        dest!: do all adr split: if_splits)
  then show ?thesis
    by (auto simp: send_email_def send_result_of_def split: sum.splits)
qed

lemma held_same_started:
  assumes "held_ok s" and "set (started (ob_db s)) \<subseteq> set (started db')"
  shows "held_ok (s\<lparr>ob_db := db'\<rparr>)"
  using assms by (auto simp: held_ok_def)

lemma held_removed:
  assumes "held_ok s" and "set (started (ob_db s)) \<subseteq> set (started db')"
  shows "held_ok \<lparr>ob_db = db', ob_held = remove1 n (ob_held s)\<rparr>"
  using assms set_remove1_subset [of n "ob_held s"]
  by (auto simp: held_ok_def distinct_map distinct_remove1 dest: inj_on_subset)

lemma step_keeps_ok: "outbox_step s s' \<Longrightarrow> outbox_ok s \<Longrightarrow> outbox_ok s'"
proof (induction rule: outbox_step.induct)
  case (Claim e s n db')
  then have db: "outbox_db_ok (ob_db s)" and h: "held_ok s" by (simp_all add: outbox_ok_def)
  from claim_keeps_ok [OF db Claim.hyps] h show ?case
    by (auto simp: outbox_ok_def held_ok_def)
next
  case (Finish n s e' e relay)
  then have db: "outbox_db_ok (ob_db s)" and h: "held_ok s"
    and started: "(nt_id n, nt_attempts n) \<in> set (started (ob_db s))"
    by (auto simp: outbox_ok_def held_ok_def)
  from finish_keeps_ok [OF db started send_outcome, of e' e relay] held_removed [OF h]
  show ?case by (simp add: outbox_ok_def)
next
  case (Crash n s)
  then show ?case using held_removed [of s "ob_db s" n] by (auto simp: outbox_ok_def held_ok_def)
next
  case (Recover s e)
  then show ?case using recover_keeps_ok [of "ob_db s" e] held_same_started [of s]
    by (simp add: outbox_ok_def)
next
  case (Retry e s nid reason uid db')
  then show ?case using retry_keeps_ok [OF _ Retry.hyps] held_same_started [of s db']
    by (simp add: outbox_ok_def)
next
  case (Notify e filer fid status court title why s db')
  then show ?case using notify_keeps_ok [OF _ Notify.hyps] held_same_started [of s db']
    by (simp add: outbox_ok_def)
next
  case (Record e f ev actor why key kvs s t db')
  then show ?case using record_keeps_ok [OF _ Record.hyps] held_same_started [of s db']
    by (simp add: outbox_ok_def)
next
  case (Deliver e db0 s fid q key uid pid db')
  then show ?case using deliver_keeps_ok [OF _ Deliver.hyps] held_same_started [of s db']
    by (simp add: outbox_ok_def)
next
  case (Alert e s rid reason uid st db')
  then show ?case using alert_keeps_ok [OF _ Alert.hyps] held_same_started [of s db']
    by (simp add: outbox_ok_def)
next
  case (Report e s rid d key uid r db')
  then show ?case using report_keeps_ok [OF _ Report.hyps] held_same_started [of s db']
    by (simp add: outbox_ok_def)
next
  case (Elsewhere db' s)
  then show ?case using same_outbox [OF Elsewhere.hyps] held_same_started [of s db']
    by (simp add: outbox_ok_def)
qed

lemma reachable_ok: "outbox_reachable s \<Longrightarrow> outbox_ok s"
proof -
  assume "outbox_reachable s"
  then obtain s0 where s0: "outbox_start s0" and run: "outbox_step\<^sup>*\<^sup>* s0 s"
    by (auto simp: outbox_reachable_def)
  have "outbox_ok s0"
    using s0 by (simp add: outbox_start_def outbox_ok_def outbox_db_ok_def held_ok_def started_def
        events_ok_def sent_ok_def unique_key_def)
  with run show "outbox_ok s"
    by (induction rule: rtranclp_induct) (auto intro: step_keeps_ok)
qed

section \<open>Draining ends\<close>

definition due_count :: "datetime \<Rightarrow> db \<Rightarrow> nat" where
  "due_count t db = length (filter (due t) (notifications db))"

lemma count_replace:
  assumes "\<not> due t n"
  shows "length (filter (due t) (upd_row nt_id i (\<lambda>_. n) rows)) \<le> length (filter (due t) rows)"
  using assms by (induction rows) (auto simp: upd_row_def)

lemma count_replace_due:
  assumes "\<not> due t n" and "n0 \<in> set rows" and "due t n0"
  shows "length (filter (due t) (upd_row nt_id (nt_id n0) (\<lambda>_. n) rows)) < length (filter (due t) rows)"
  using assms(2)
proof (induction rows)
  case (Cons r rows)
  from count_replace [OF assms(1), of "nt_id n0" rows] Cons assms(1,3) show ?case
    by (auto simp: upd_row_def le_less_Suc_eq)
qed simp

lemma finished_not_due: "t < now e + 60000000 \<Longrightarrow> \<not> due t (finished_row e r n)"
proof -
  assume t: "t < now e + 60000000"
  have "(1::int) \<le> 2 ^ nat (nt_attempts n)" by simp
  then have "\<not> now e + 60000000 * 2 ^ nat (nt_attempts n) \<le> t" using t by linarith
  then show ?thesis by (simp add: finished_row_def due_def Let_def)
qed

lemma finish_count: "t < now e + 60000000 \<Longrightarrow> due_count t (finish_attempt e db n r) \<le> due_count t db"
  by (auto simp: finish_attempt_def due_count_def Let_def count_replace finished_not_due
      split: option.splits)

lemma deliver_count:
  assumes "deliver_next e e relay db = (True, db')" and "now e \<le> t" and "t < now e + 60000000"
  shows "due_count t db' < due_count t db"
proof -
  from assms(1) obtain n db1 where c: "claim_email e db = (Some n, db1)"
    and db': "db' = (if nt_status n = Sending then finish_attempt e db1 n (send_email e relay n) else db1)"
    by (auto simp: deliver_next_def split: prod.splits option.splits)
  from claim_email_Some [OF c] obtain n0 v where n0: "n0 \<in> set (notifications db)" "due (now e) n0"
    "n = claimed_row e db n0" "db1 = store_notice (n, [v]) db" by metis
  have "due t n0" using n0(2) assms(2) by (auto simp: due_def split: option.splits)
  moreover have "\<not> due t n" using claimed_row_keeps(3) [of e db n0] n0(3) by (auto simp: due_def)
  ultimately have "due_count t db1 < due_count t db"
    using count_replace_due [of t n n0 "notifications db"] n0 by (simp add: due_count_def claimed_row_keeps)
  moreover have "due_count t db' \<le> due_count t db1"
    using db' finish_count [OF assms(3)] by simp
  ultimately show ?thesis by simp
qed

lemma deliver_none: "deliver_next e e' relay db = (False, db') \<Longrightarrow> due_count (now e) db = 0 \<and> db' = db"
  by (auto simp: deliver_next_def claim_email_def due_count_def Let_def next_due_None filter_empty_conv
      split: prod.splits option.splits if_splits)

section \<open>A concrete run\<close>

definition mail_env :: env where
  "mail_env = example_env\<lparr>cfg := example_settings\<lparr>st_email_enabled := True, st_smtp_host := ''localhost'',
     st_smtp_from := ''c@d''\<rparr>\<rparr>"

definition mail_db :: db where
  "mail_db = example_court_db\<lparr>users := [example_participant_user\<lparr>us_verified_email := Some ''a@x''\<rparr>]\<rparr>"

definition open_relay :: relay where
  "open_relay c = Reply 250"

definition queued_db :: db where
  "queued_db = (case notify_filing_status_change mail_env 1 5 ''accepted'' ''C'' None None mail_db of
     Inr d \<Rightarrow> d | Inl _ \<Rightarrow> mail_db)"

lemma mail_env_fresh: "fresh_keys mail_env"
  using example_env_fresh by (simp add: mail_env_def fresh_keys_def)

lemma queued_run: "notify_filing_status_change mail_env 1 5 ''accepted'' ''C'' None None mail_db = Inr queued_db"
  by code_simp

lemma queued_notice: "length (notifications queued_db) = 1 \<and> due_count (now mail_env) queued_db = 1"
  by code_simp

definition sent_outbox :: outbox where
  "sent_outbox = (case claim_email mail_env queued_db of
     (Some n, d) \<Rightarrow> \<lparr>ob_db = finish_attempt mail_env d n (send_email mail_env open_relay n), ob_held = []\<rparr>
   | (None, d) \<Rightarrow> \<lparr>ob_db = d, ob_held = []\<rparr>)"

lemma sent_example:
  "map nt_status (notifications (ob_db sent_outbox)) = [Sent]
   \<and> map de_outcome (delivery_events (ob_db sent_outbox)) = [''queued'', ''started'', ''accepted'']
   \<and> find_notice (ob_db sent_outbox) 1 = Some (hd (notifications (ob_db sent_outbox)))"
  by code_simp

lemma claimed_example: "\<exists>n d. claim_email mail_env queued_db = (Some n, d) \<and> nt_status n = Sending"
proof -
  have "case claim_email mail_env queued_db of (Some n, d) \<Rightarrow> nt_status n = Sending | _ \<Rightarrow> False"
    by code_simp
  then show ?thesis by (auto split: prod.splits option.splits)
qed

lemma sent_outbox_reachable: "outbox_reachable sent_outbox"
proof -
  obtain n d where c: "claim_email mail_env queued_db = (Some n, d)" "nt_status n = Sending"
    using claimed_example by blast
  have "outbox_step \<lparr>ob_db = mail_db, ob_held = []\<rparr> \<lparr>ob_db = queued_db, ob_held = []\<rparr>"
    using outbox_step.Notify [OF mail_env_fresh, of 1 5 _ _ _ _ "\<lparr>ob_db = mail_db, ob_held = []\<rparr>"]
      queued_run by fastforce
  moreover have "outbox_step \<lparr>ob_db = queued_db, ob_held = []\<rparr> \<lparr>ob_db = d, ob_held = [n]\<rparr>"
    using outbox_step.Claim [of mail_env "\<lparr>ob_db = queued_db, ob_held = []\<rparr>" n d] c by simp
  moreover have "outbox_step \<lparr>ob_db = d, ob_held = [n]\<rparr> sent_outbox"
    using outbox_step.Finish [of n "\<lparr>ob_db = d, ob_held = [n]\<rparr>" mail_env mail_env open_relay] c
    by (simp add: sent_outbox_def)
  moreover have "outbox_start \<lparr>ob_db = mail_db, ob_held = []\<rparr>"
    by (simp add: outbox_start_def mail_db_def example_court_db_def empty_db_def)
  ultimately show ?thesis
    unfolding outbox_reachable_def
    by (intro exI conjI) (auto intro: rtranclp.rtrancl_into_rtrancl)
qed

section \<open>Properties\<close>

text \<open>C9: however the workers, the recovery, the retries of notices and of delivery alerts, the failure
  reports, the deliveries to participants and all other new notices interleave, whatever else happens
  to the database, no attempt of a notice is ever started twice, two workers never hold the same
  attempt, and every notice shown as sent has a recorded acceptance by the relay for its current
  attempt.\<close>
theorem outbox_attempts_once:
  assumes "outbox_reachable s"
  shows "distinct (started (ob_db s)) \<and> distinct (map (\<lambda>n. (nt_id n, nt_attempts n)) (ob_held s))
    \<and> (\<forall>n \<in> set (notifications (ob_db s)). nt_status n = Sent \<longrightarrow>
         (\<exists>v \<in> set (delivery_events (ob_db s)). de_outcome v = ''accepted''
            \<and> de_notification v = nt_id n \<and> de_attempt v = nt_attempts n))"
  using reachable_ok [OF assms]
  by (simp add: outbox_ok_def outbox_db_ok_def held_ok_def sent_ok_def accepted_event_def)

theorem outbox_attempts_once_witness:
  "distinct (started (ob_db sent_outbox))
   \<and> (\<exists>v \<in> set (delivery_events (ob_db sent_outbox)). de_outcome v = ''accepted'')"
proof -
  have "hd (notifications (ob_db sent_outbox)) \<in> set (notifications (ob_db sent_outbox))
    \<and> nt_status (hd (notifications (ob_db sent_outbox))) = Sent"
    using sent_example by (cases "notifications (ob_db sent_outbox)") auto
  with outbox_attempts_once [OF sent_outbox_reachable] show ?thesis by blast
qed

text \<open>The worker's draining run ends: when all its deliveries happen within one minute, the number
  of notices due at the end of that minute, plus one, bounds the number of iterations, whatever the
  relay answers; and nothing is due when it stops.\<close>
theorem drain_ends:
  assumes "\<And>j. now (clock j) \<le> t \<and> t < now (clock j) + 60000000"
    and "due_count t db < fuel"
  shows "\<exists>db' j. drain fuel clock relays i db = Some db' \<and> due_count (now (clock j)) db' = 0"
  using assms(2)
proof (induction fuel arbitrary: i db)
  case (Suc fuel)
  obtain b db1 where d: "deliver_next (clock i) (clock i) (relays i) db = (b, db1)" by fastforce
  show ?case
  proof (cases b)
    case True
    with d deliver_count [of "clock i" "relays i" db db1 t] assms(1) [of i] Suc.prems
    have "due_count t db1 < fuel" by simp
    from Suc.IH [OF this, of "Suc i"] d True show ?thesis by simp
  next
    case False
    with d deliver_none [of "clock i" "clock i" "relays i" db db1] show ?thesis by auto
  qed
qed simp

theorem drain_ends_witness:
  "\<exists>db' j. drain 2 (\<lambda>_. mail_env) (\<lambda>_. open_relay) 0 queued_db = Some db'
     \<and> due_count (now ((\<lambda>_. mail_env) (j :: nat))) db' = 0"
  by (rule drain_ends [where t = "now mail_env"]) (use queued_notice in simp_all)

end
