(* ===== verification/DeliveryProofs.thy ===== *)
theory DeliveryProofs
  imports Deliveries Outbox Filing
begin

text \<open>
  A receipt reads back as the documents it was recorded with; a delivery goes only to distinct
  reviewed recipients and only with retained, verified, non-private documents of the current
  receipt; and only the sender, the court's staff and the named recipient under current
  participation open it.
\<close>

section \<open>Receipts\<close>

definition saved_of :: "document \<Rightarrow> saved_document" where
  "saved_of d = \<lparr>sv_id = dc_id d, sv_type = dc_type d, sv_title = dc_title d, sv_size = dc_size d,
     sv_mime = dc_mime d, sv_pages = dc_pages d, sv_sha256 = dc_sha256 d,
     sv_confidential = dc_confidential d, sv_searchable = dc_searchable d,
     sv_uploaded_at = dc_uploaded_at d\<rparr>"

lemma nullable_int_jopt [simp]: "nullable_int (jopt JInt x) = Some x"
  by (cases x) (simp_all add: jopt_def)

lemma parse_document_json [simp]: "parse_saved (document_json d) = Some (saved_of d)"
  by (simp add: parse_saved_def document_json_def field_def jget_def saved_of_def)

lemma saved_json_of [simp]: "saved_json (saved_of d) = document_json d"
  by (simp add: saved_json_def saved_of_def document_json_def)

lemma parse_all_documents: "parse_all (map document_json ds) = Some (map saved_of ds)"
  by (induction ds) simp_all

lemma sv_of_simps [simp]: "sv_id (saved_of d) = dc_id d" "sv_type (saved_of d) = dc_type d"
  by (simp_all add: saved_of_def)

section \<open>Checks\<close>

lemma require_sender_Inr:
  assumes "require_sender db actor fid = Inr (f, c)"
  shows "us_type actor \<noteq> PublicUser \<and> find_filing db fid = Some f
    \<and> (fe_filer f = us_id actor \<or> is_court_staff db (Some (us_id actor)) (fe_court f))
    \<and> fe_type f \<in> set delivered_types \<and> fe_case f = Some (cs_id c)
    \<and> row_at cs_id (cs_id c) (cases db) = Some c \<and> cs_court c = fe_court f
    \<and> us_active actor \<and> us_verified_email actor = Some (normal_email actor)
    \<and> (is_court_staff db (Some (us_id actor)) (fe_court f)
       \<or> reviewed_participation db actor (cs_id c) \<and> may_read_case db (Some actor) (cs_id c))"
  using assms
  by (auto simp: require_sender_def Let_def dest: row_at_SomeD split: if_splits option.splits)

lemma current_source_Inr:
  assumes "current_source db f = Inr t"
  shows "t \<in> set (transactions db) \<and> tx_filing t = fe_id f \<and> tx_submission t = fe_submission_count f
    \<and> submission_event (tx_event t) \<and> fe_status f \<in> {Submitted, UnderReview, Accepted, Served}"
proof -
  let ?P = "\<lambda>t. tx_filing t = fe_id f \<and> tx_submission t = fe_submission_count f \<and> submission_event (tx_event t)"
  from assms have "filter ?P (transactions db) = [t]" "fe_status f \<in> {Submitted, UnderReview, Accepted, Served}"
    by (auto simp: current_source_def split: if_splits list.splits)
  then have "t \<in> set (filter ?P (transactions db))" by simp
  then show ?thesis using \<open>fe_status f \<in> _\<close> by simp
qed

lemma route_of_Some:
  assumes "route_of db c ct = Some (ct', p, u)"
  shows "ct' = ct \<and> row_at_opt pt_id (sc_participant ct) (participants db) = Some p \<and> pt_case p = cs_id c
    \<and> row_at_opt us_id (pt_user p) (users db) = Some u"
  using assms by (auto simp: route_of_def split: option.splits if_splits)

lemma selected_routes_set:
  assumes "(ct, p, u) \<in> set (selected_routes db c choices)"
  shows "ct \<in> set (contacts db) \<and> sc_case ct = cs_id c \<and> sc_id ct \<in> set (map fst choices)
    \<and> row_at_opt pt_id (sc_participant ct) (participants db) = Some p \<and> pt_case p = cs_id c
    \<and> row_at_opt us_id (pt_user p) (users db) = Some u"
  proof -
  from assms obtain x where x: "x \<in> set (contacts db)" "sc_case x = cs_id c" "\<exists>b. (sc_id x, b) \<in> set choices"
    and r: "route_of db c x = Some (ct, p, u)"
    by (fastforce simp: selected_routes_def List.map_filter_def)
  from x(3) have "sc_id x \<in> set (map fst choices)" by force
  with x route_of_Some [OF r] show ?thesis by simp
qed

lemma check_routes_Inr:
  assumes "check_routes e c actor choices accounts rows = Inr ()"
  shows "distinct (map (\<lambda>(ct, p, u). us_id u) rows)
    \<and> (\<forall>(ct, p, u) \<in> set rows. us_id u \<notin> set accounts \<and> us_id u \<noteq> actor \<and> sc_method ct = Electronic
         \<and> map_of choices (sc_id ct) = Some (sc_version ct) \<and> routing_issues e c p (Some u) ct = [])"
  using assms
proof (induction e c actor choices accounts rows rule: check_routes.induct)
  case (2 e c actor choices accounts ct p u rows)
  then have "check_routes e c actor choices (us_id u # accounts) rows = Inr ()"
    and h: "sc_method ct = Electronic" "map_of choices (sc_id ct) = Some (sc_version ct)"
      "routing_issues e c p (Some u) ct = []" "us_id u \<noteq> actor" "us_id u \<notin> set accounts"
    by (auto simp: Let_def split: if_splits)
  with 2 have "distinct (map (\<lambda>(ct, p, u). us_id u) rows)
    \<and> (\<forall>(ct', p', u') \<in> set rows. us_id u' \<notin> set (us_id u # accounts) \<and> us_id u' \<noteq> actor
         \<and> sc_method ct' = Electronic \<and> map_of choices (sc_id ct') = Some (sc_version ct')
         \<and> routing_issues e c p' (Some u') ct' = [])" by (auto simp: Let_def split: if_splits)
  with h show ?case by auto
qed simp

lemma saved_with_id_Some: "saved_with_id i manifest = Some s \<Longrightarrow> s \<in> set manifest \<and> sv_id s = i"
  unfolding saved_with_id_def by (drule find_SomeD) simp

lemma check_selected_Inr:
  assumes "check_selected e manifest ds = Inr ()" and "d \<in> set ds"
  shows "\<exists>s. saved_with_id (dc_id d) manifest = Some s \<and> matches_saved d s
    \<and> stored e (dc_file_key d) = Stored (sv_sha256 s) (sv_size s)"
  using assms
  by (induction e manifest ds rule: check_selected.induct)
    (auto split: option.splits if_splits stored_result.splits)

lemma check_packet_Inr:
  assumes "check_packet e db actor fid q = Inr (f, c, t, manifest, rows)"
  shows "require_sender db actor fid = Inr (f, c) \<and> current_source db f = Inr t \<and> tx_id t = pq_source q
    \<and> source_documents t = Inr manifest \<and> set (pq_documents q) \<subseteq> set (map sv_id manifest)
    \<and> rows = selected_routes db c (pq_recipients q) \<and> length rows = length (pq_recipients q)
    \<and> check_routes e c (us_id actor) (pq_recipients q) [] rows = Inr ()
    \<and> length (selected_documents db fid (pq_documents q)) = length (pq_documents q)
    \<and> check_selected e manifest (selected_documents db fid (pq_documents q)) = Inr ()"
  using assms by (auto simp: check_packet_def then_do_Inr_iff Let_def split: if_splits)

text \<open>A selection of the right length covers every id asked for.\<close>

lemma covers_ids:
  assumes "distinct (map key xs)" and "key ` set xs \<subseteq> set ids" and "length xs = length ids"
    and "i \<in> set ids"
  shows "\<exists>x \<in> set xs. key x = i"
proof -
  have "card (key ` set xs) = length xs" using distinct_card [OF assms(1)] by simp
  moreover have "card (set ids) \<le> length ids" by (rule card_length)
  moreover have "card (key ` set xs) \<le> card (set ids)" using assms(2) by (intro card_mono) auto
  ultimately have "key ` set xs = set ids" using assms(2,3) by (intro card_subset_eq) auto
  with assms(4) show ?thesis by (metis imageE)
qed

lemma selected_document_exists:
  assumes "unique_key dc_id (documents db)" and "length (selected_documents db fid ids) = length ids"
    and "i \<in> set ids"
  shows "\<exists>d \<in> set (selected_documents db fid ids). dc_id d = i"
proof (rule covers_ids [OF _ _ assms(2,3)])
  show "distinct (map dc_id (selected_documents db fid ids))"
    using assms(1) by (simp add: selected_documents_def unique_key_def distinct_map inj_on_def)
qed (auto simp: selected_documents_def)

lemma routes_contacts:
  "map fst (List.map_filter (route_of db c) cts) = filter (\<lambda>ct. route_of db c ct \<noteq> None) cts"
proof (induction cts)
  case (Cons ct cts)
  then show ?case
    by (cases "route_of db c ct") (auto simp: map_filter_simps dest: route_of_Some)
qed (simp add: map_filter_simps)

lemma selected_route_exists:
  assumes "unique_key sc_id (contacts db)" and "length (selected_routes db c choices) = length choices"
    and "(i, v) \<in> set choices"
  shows "\<exists>ct p u. (ct, p, u) \<in> set (selected_routes db c choices) \<and> sc_id ct = i"
proof -
  have "\<exists>r \<in> set (selected_routes db c choices). sc_id (fst r) = i"
  proof (rule covers_ids [of "\<lambda>r. sc_id (fst r)" _ "map fst choices"])
    have "distinct (map sc_id (map fst (selected_routes db c choices)))"
      using assms(1)
      by (simp add: selected_routes_def routes_contacts unique_key_def distinct_map inj_on_def distinct_sort)
    then show "distinct (map (\<lambda>r. sc_id (fst r)) (selected_routes db c choices))" by (simp add: o_def)
    show "(\<lambda>r. sc_id (fst r)) ` set (selected_routes db c choices) \<subseteq> set (map fst choices)"
      using selected_routes_set by fastforce
    show "i \<in> set (map fst choices)" using assms(3) by force
  qed (use assms(2) in simp)
  then show ?thesis by fastforce
qed

section \<open>Recipients\<close>

lemma queued_same_notice:
  assumes "queue_email e db n actor reason = Inr (n', evs)"
  shows "nt_id n' = nt_id n \<and> nt_recipient n' = nt_recipient n \<and> nt_type n' = nt_type n \<and> nt_filing n' = nt_filing n"
  using assms by (auto simp: queue_email_def then_do_Inr_iff Let_def split: if_splits prod.splits)

definition routed :: "packet \<Rightarrow> db \<Rightarrow> route \<Rightarrow> recipient \<Rightarrow> bool" where
  "routed pk db r rc \<longleftrightarrow> rc_packet rc = pk_id pk \<and> rc_user rc = us_id (snd (snd r))
     \<and> rc_contact rc = sc_id (fst r) \<and> rc_contact_version rc = sc_version (fst r)
     \<and> rc_snapshot rc = contact_snapshot (fst r)
     \<and> (\<exists>n. find_notice db (rc_notification rc) = Some n \<and> nt_status n = Pending
          \<and> nt_type n = ServiceOfProcess \<and> nt_recipient n = us_id (snd (snd r)))"

text \<open>The database with other recipients, notices and mail events.\<close>

definition delivered_db :: "db \<Rightarrow> recipient list \<Rightarrow> db \<Rightarrow> bool" where
  "delivered_db db rs db' \<longleftrightarrow> (\<exists>ns es. db' = db\<lparr>recipients := recipients db @ rs, notifications := ns,
     delivery_events := delivery_events db @ es\<rparr>)
   \<and> (\<forall>i n. find_notice db i = Some n \<longrightarrow> find_notice db' i = Some n)"

lemma add_recipient_effect:
  assumes "add_recipient e pk r db = Inr db'" and "fresh_keys e"
  shows "\<exists>rc. delivered_db db [rc] db' \<and> routed pk db' r rc"
proof -
  define n where "n = new_notification e db ServiceOfProcess (us_id (snd (snd r))) (Some (pk_filing pk))
    delivery_subject delivery_body"
  define rc where "rc = new_recipient e db pk r (nt_id n)"
  define db1 where "db1 = recipients_update (\<lambda>rs. rs @ [rc]) (notifications_update (\<lambda>ns. ns @ [n]) db)"
  from assms(1) obtain n' evs where q: "queue_email e db1 n (Some (pk_actor pk)) (Some delivery_reason) = Inr (n', evs)"
    and p: "nt_status n' = Pending" and db': "db' = store_notice (n', evs) db1"
    by (auto simp: add_recipient_def Let_def then_do_Inr_iff db1_def rc_def n_def split: if_splits)
  note same = queued_same_notice [OF q]
  have n: "nt_id n = new_key e (map nt_id (notifications db))" "nt_recipient n = us_id (snd (snd r))"
    "nt_type n = ServiceOfProcess" by (simp_all add: n_def new_notification_def)
  have fresh: "nt_id n \<notin> nt_id ` set (notifications db)"
    unfolding n by (rule new_notice_fresh [OF assms(2)])
  then have "find_notice db1 (nt_id n') = Some n"
    unfolding same [THEN conjunct1] find_notice_def db1_def
    using notification_tbl.lookup_inserted [OF fresh] by simp
  note st = find_notice_stored [OF this, of evs, folded db']
  have kept: "find_notice db' i = Some m" if m: "find_notice db i = Some m" for i m
  proof -
    from m have "i \<in> nt_id ` set (notifications db)" by (auto simp: find_notice_def dest: row_at_SomeD)
    with fresh same have "i \<noteq> nt_id n'" by metis
    moreover have "find_notice db1 i = Some m"
      using notification_tbl.lookup_kept [of i db m n] m by (simp add: find_notice_def db1_def)
    ultimately show ?thesis by (simp add: st)
  qed
  have "delivered_db db [rc] db'"
    unfolding delivered_db_def using kept
    by (intro conjI exI [of _ "notifications db'"] exI [of _ evs])
      (simp_all add: db' db1_def store_notice_def)
  moreover have "routed pk db' r rc"
    using same p n(2,3) st [of "nt_id n"]
    by (auto simp: routed_def rc_def new_recipient_def split: prod.splits)
  ultimately show ?thesis by blast
qed

lemma routed_kept:
  assumes "routed pk db r rc" and "delivered_db db rs db'"
  shows "routed pk db' r rc"
  using assms unfolding routed_def delivered_db_def by blast

lemma add_recipients_effect:
  assumes "add_recipients e pk rows db = Inr db'" and "fresh_keys e"
  shows "\<exists>rs. delivered_db db rs db' \<and> list_all2 (routed pk db') rows rs"
  using assms(1)
proof (induction rows arbitrary: db)
  case Nil
  moreover have "db = db\<lparr>recipients := recipients db @ [], notifications := notifications db,
    delivery_events := delivery_events db @ []\<rparr>" by simp
  ultimately have "delivered_db db [] db'" unfolding delivered_db_def add_recipients.simps sum.inject by blast
  then show ?case by (intro exI [of _ "[]"]) simp
next
  case (Cons r rows)
  then obtain db1 where 1: "add_recipient e pk r db = Inr db1" and 2: "add_recipients e pk rows db1 = Inr db'"
    by (auto simp: then_do_Inr_iff)
  from add_recipient_effect [OF 1 assms(2)] obtain rc where rc: "delivered_db db [rc] db1" "routed pk db1 r rc" by blast
  from Cons.IH [OF 2] obtain rs where rs: "delivered_db db1 rs db'" "list_all2 (routed pk db') rows rs" by blast
  have "delivered_db db (rc # rs) db'"
  proof -
    from rc(1) obtain ns es where 1: "db1 = db\<lparr>recipients := recipients db @ [rc], notifications := ns,
      delivery_events := delivery_events db @ es\<rparr>" by (auto simp: delivered_db_def)
    from rs(1) obtain ms fs where "db' = db1\<lparr>recipients := recipients db1 @ rs, notifications := ms,
      delivery_events := delivery_events db1 @ fs\<rparr>" by (auto simp: delivered_db_def)
    with 1 have "db' = db\<lparr>recipients := recipients db @ rc # rs, notifications := ms,
      delivery_events := delivery_events db @ (es @ fs)\<rparr>" by simp
    moreover have "\<forall>i n. find_notice db i = Some n \<longrightarrow> find_notice db' i = Some n"
      using rc(1) rs(1) by (simp add: delivered_db_def)
    ultimately show ?thesis unfolding delivered_db_def by blast
  qed
  with routed_kept [OF rc(2) rs(1)] rs(2) show ?case by (intro exI [of _ "rc # rs"]) simp
qed

section \<open>Packets\<close>

text \<open>A successful request replays a recorded packet or sends a new one.\<close>

lemma create_packet_cases:
  assumes "create_packet e db0 db uid fid q key = Inr (pk, db')"
  obtains (replayed) "recorded_packet db0 uid key = Some pk \<or> recorded_packet db uid key = Some pk"
      and "pk_request_sha256 pk = packet_fingerprint e fid q" and "db' = db"
  | (sent) u f c t manifest rows where "find_user db0 uid = Some u" and "us_active u" and "us_id u = uid"
      and "check_packet e db u fid q = Inr (f, c, t, manifest, rows)"
      and "recorded_packet db0 uid key = None" and "recorded_packet db uid key = None"
      and "pk = new_packet e db u f c t manifest q key"
      and "add_recipients e pk rows (packets_update (\<lambda>ps. ps @ [pk]) db) = Inr db'"
proof -
  from assms obtain u where "find_sender db0 uid = Inr u" by (auto simp: create_packet_def then_do_Inr_iff)
  then have u: "find_user db0 uid = Some u" "us_active u" "us_id u = uid"
    by (auto simp: find_sender_def find_user_id split: option.splits if_splits)
  note step = assms [unfolded create_packet_def \<open>find_sender db0 uid = Inr u\<close> then_do.simps Let_def]
  show ?thesis
  proof (cases "recorded_packet db0 uid key")
    case (Some p)
    with step show ?thesis by (intro replayed) (auto simp: replay_packet_def split: if_splits)
  next
    case None
    with step obtain f c t manifest rows where k: "check_packet e db u fid q = Inr (f, c, t, manifest, rows)"
      by (auto simp: then_do_Inr_iff split: if_splits)
    show ?thesis
    proof (cases "recorded_packet db uid key")
      case (Some p)
      with step None k show ?thesis
        by (intro replayed) (auto simp: replay_packet_def then_do_Inr_iff split: if_splits)
    next
      case new: None
      with step None k show ?thesis by (intro sent [OF u k None new]) (auto simp: then_do_Inr_iff split: if_splits)
    qed
  qed
qed

lemma send_documents_Inr:
  assumes "send_documents e db0 db fid q key uid = Inr (pid, db')"
  shows "valid_packet_request q \<and> (\<exists>pk. create_packet e db0 db uid fid q key = Inr (pk, db') \<and> pid = pk_id pk)"
  using assms by (auto simp: send_documents_def then_do_Inr_iff split: if_splits)

lemma new_packet_simps [simp]:
  "pk_filing (new_packet e db u f c t manifest q key) = fe_id f"
  "pk_actor (new_packet e db u f c t manifest q key) = us_id u"
  "pk_source (new_packet e db u f c t manifest q key) = tx_id t"
  "pk_case (new_packet e db u f c t manifest q key) = cs_id c"
  by (simp_all add: new_packet_def)

lemma add_recipients_tables:
  "add_recipients e pk rows db = Inr db' \<Longrightarrow> packets db' = packets db \<and> documents db' = documents db"
proof (induction rows arbitrary: db)
  case (Cons r rows)
  then obtain db1 where "add_recipient e pk r db = Inr db1" and rest: "add_recipients e pk rows db1 = Inr db'"
    by (auto simp: then_do_Inr_iff)
  then have "packets db1 = packets db \<and> documents db1 = documents db"
    by (auto simp: add_recipient_def Let_def then_do_Inr_iff store_notice_def split: if_splits)
  with Cons.IH [OF rest] show ?case by simp
qed simp

text \<open>The document list of a packet: the selected documents of the receipt in the order of their ids.\<close>

lemma packet_documents_new:
  "packet_documents (new_packet e db u f c t manifest q key)
     = map saved_json (map (\<lambda>i. the (saved_with_id i manifest)) (sort (pq_documents q)))"
  by (simp add: packet_documents_def new_packet_def jget_def o_def)

text \<open>The route a selected contact goes.\<close>

lemma selected_recipient:
  assumes "check_packet e db u fid q = Inr (f, c, t, manifest, rows)"
    and "unique_key sc_id (contacts db)" and "(i, v) \<in> set (pq_recipients q)" and "distinct (map fst (pq_recipients q))"
  shows "\<exists>ct p a. (ct, p, a) \<in> set rows \<and> sc_id ct = i \<and> sc_version ct = v \<and> ct \<in> set (contacts db)
    \<and> sc_method ct = Electronic \<and> sc_case ct = cs_id c \<and> routing_issues e c p (Some a) ct = []
    \<and> us_id a \<noteq> us_id u"
proof -
  note c = check_packet_Inr [OF assms(1)]
  from selected_route_exists [OF assms(2), of c "pq_recipients q" i v] c assms(3)
  obtain ct p a where r: "(ct, p, a) \<in> set rows" "sc_id ct = i" by auto
  with c selected_routes_set [of ct p a db c "pq_recipients q"]
  have "ct \<in> set (contacts db)" "sc_case ct = cs_id c" by auto
  moreover have "case (ct, p, a) of (ct, p, a) \<Rightarrow> us_id a \<notin> set [] \<and> us_id a \<noteq> us_id u
      \<and> sc_method ct = Electronic \<and> map_of (pq_recipients q) (sc_id ct) = Some (sc_version ct)
      \<and> routing_issues e c p (Some a) ct = []"
    using c r(1) check_routes_Inr [of e c "us_id u" "pq_recipients q" "[]" rows] by blast
  moreover have "map_of (pq_recipients q) i = Some v" using assms(3,4) by simp
  ultimately show ?thesis using r by (intro exI [of _ ct] exI [of _ p] exI [of _ a]) simp
qed

lemma list_all2_member: "list_all2 P xs ys \<Longrightarrow> x \<in> set xs \<Longrightarrow> \<exists>y \<in> set ys. P x y"
  by (induction rule: list_all2_induct) auto

lemma list_all_pairI: "(\<And>i v. (i, v) \<in> set xs \<Longrightarrow> P i v) \<Longrightarrow> list_all (\<lambda>(i, v). P i v) xs"
  by (auto simp: list_all_iff)

text \<open>Every selected contact got its recipient record and its alert.\<close>

lemma recipient_reached:
  assumes k: "check_packet e db u fid q = Inr (f, c, t, manifest, rows)" and "unique_key sc_id (contacts db)"
    and "distinct (map fst (pq_recipients q))" and l: "list_all2 (routed pk db') rows rcs"
    and iv: "(i, v) \<in> set (pq_recipients q)" and pk: "pk_case pk = cs_id c" and pid: "pid = pk_id pk"
  shows "\<exists>ct p a rc n. ct \<in> set (contacts db) \<and> sc_id ct = i \<and> sc_version ct = v
        \<and> sc_method ct = Electronic \<and> sc_case ct = pk_case pk
        \<and> (\<exists>c. row_at cs_id (pk_case pk) (cases db) = Some c \<and> routing_issues e c p (Some a) ct = [])
        \<and> us_id a \<noteq> us_id u \<and> rc \<in> set rcs \<and> rc_packet rc = pid \<and> rc_user rc = us_id a
        \<and> rc_contact rc = i \<and> rc_contact_version rc = v \<and> rc_snapshot rc = contact_snapshot ct
        \<and> find_notice db' (rc_notification rc) = Some n \<and> nt_status n = Pending
        \<and> nt_recipient n = us_id a"
proof -
  from k have "row_at cs_id (cs_id c) (cases db) = Some c"
    using check_packet_Inr [OF k] require_sender_Inr [of db u fid f c] by simp
  moreover from selected_recipient [OF k assms(2) iv assms(3)] obtain ct p a where
    r: "(ct, p, a) \<in> set rows" and h: "sc_id ct = i" "sc_version ct = v" "ct \<in> set (contacts db)"
      "sc_method ct = Electronic" "sc_case ct = cs_id c" "routing_issues e c p (Some a) ct = []"
      "us_id a \<noteq> us_id u" by blast
  moreover from l r obtain rc where "rc \<in> set rcs" and "routed pk db' (ct, p, a) rc"
    by (blast dest: list_all2_member)
  moreover then obtain n where "find_notice db' (rc_notification rc) = Some n" "nt_status n = Pending"
    "nt_recipient n = us_id a" by (auto simp: routed_def)
  ultimately show ?thesis using pk pid
    by (intro exI [of _ ct] exI [of _ p] exI [of _ a] exI [of _ rc] exI [of _ n]) (simp add: routed_def)
qed

text \<open>Who may open a delivery of a case.\<close>

definition opens :: "db \<Rightarrow> user \<Rightarrow> delivery_view \<Rightarrow> case_row \<Rightarrow> bool" where
  "opens db u v c \<longleftrightarrow> is_court_staff db (Some (us_id u)) (cs_court c)
     \<or> pk_actor (dv_packet v) = us_id u
       \<and> map_option fe_filer (find_filing db (pk_filing (dv_packet v))) = Some (us_id u)
     \<or> rc_user (dv_recipient v) = us_id u \<and> current_participation db u c (dv_recipient v)"

text \<open>A current participation is a row of the case.\<close>

lemma current_participation_row:
  assumes "current_participation db u c r"
  shows "may_read_case db (Some u) (cs_id c)
    \<and> (\<exists>p \<in> set (participants db). pt_case p = cs_id c \<and> pt_user p = Some (us_id u) \<and> pt_active p
         \<and> pt_reviewed_at p \<noteq> None \<and> (pt_role p \<notin> set counsel_roles \<or> counsel_eligible u p))"
  using assms
  by (auto simp: current_participation_def row_at_opt_def split: option.splits dest!: row_at_SomeD)

lemma delivery_viewer:
  assumes "require_delivery_viewer db actor rid = Inr v"
  shows "us_active actor \<and> row_at rc_id rid (recipients db) = Some (dv_recipient v)
    \<and> row_at pk_id (rc_packet (dv_recipient v)) (packets db) = Some (dv_packet v)
    \<and> find_notice db (rc_notification (dv_recipient v)) = Some (dv_notice v)
    \<and> (\<exists>c. row_at cs_id (pk_case (dv_packet v)) (cases db) = Some c \<and> opens db actor v c
         \<and> dv_staff v = is_court_staff db (Some (us_id actor)) (cs_court c))"
  using assms
  by (auto simp: require_delivery_viewer_def Let_def opens_def split: option.splits if_splits)

lemma service_event_row:
  obtains x where "se_recipient x = rc_id r" and "se_actor x = us_id actor" and "se_action x = action"
    and "record_service_event e r actor action details db = db\<lparr>service_events := service_events db @ [x]\<rparr>"
  by (rule that [of "\<lparr>se_id = new_key e (map se_id (service_events db)), se_recipient = rc_id r,
      se_action = action, se_actor = us_id actor, se_actor_name = full_name actor, se_occurred_at = now e,
      se_details = JObj details\<rparr>"]) (cases db; simp add: record_service_event_def)+

lemma delivered_document:
  assumes "download_delivery_document e db rid did actor = Inr (out, db')"
    and "require_delivery_viewer db actor rid = Inr v"
  shows "\<exists>s d x. s \<in> set (packet_documents (dv_packet v)) \<and> jget ''id'' s = Some (JInt did)
    \<and> d \<in> set (documents db) \<and> dc_id d = did \<and> dc_envelope d = pk_filing (dv_packet v)
    \<and> dc_retained_at d \<noteq> None \<and> dc_type d \<notin> set private_document_types
    \<and> out = (dc_file_key d, dc_sha256 d, dc_size d)
    \<and> jget ''sha256_hash'' s = Some (JStr (dc_sha256 d)) \<and> jget ''file_size_bytes'' s = Some (JInt (dc_size d))
    \<and> se_recipient x = rid \<and> se_actor x = us_id actor \<and> se_action x = ''download_requested''
    \<and> db' = db\<lparr>service_events := service_events db @ [x]\<rparr>"
proof -
  from assms obtain s d where s: "json_with_id did (packet_documents (dv_packet v)) = Some s"
    and d: "row_at dc_id did (documents db) = Some d" and m: "same_as_delivered d (dv_packet v) s"
    and out: "out = (dc_file_key d, dc_sha256 d, dc_size d)"
    and db': "db' = record_service_event e (dv_recipient v) actor ''download_requested''
      [(''document_id'', JInt (dc_id d))] db"
    by (auto simp: download_delivery_document_def split: option.splits if_splits)
  have "rc_id (dv_recipient v) = rid" using delivery_viewer [OF assms(2)] by (auto dest: row_at_SomeD)
  moreover have "s \<in> set (packet_documents (dv_packet v)) \<and> jget ''id'' s = Some (JInt did)"
    using find_SomeD [OF s [unfolded json_with_id_def]] .
  moreover obtain x where "se_recipient x = rc_id (dv_recipient v)" "se_actor x = us_id actor"
    "se_action x = ''download_requested''" "db' = db\<lparr>service_events := service_events db @ [x]\<rparr>"
    unfolding db' by (rule service_event_row)
  ultimately show ?thesis using row_at_SomeD [OF d] m out
    by (intro exI [of _ s] exI [of _ d] exI [of _ x]) (simp add: same_as_delivered_def)
qed

section \<open>Properties\<close>

text \<open>The receipt of a submission reads back, when its documents are selected for delivery, as
  exactly the current documents of the filing at the submission, without fee waiver material and
  with every recorded value.\<close>
theorem receipt_reads_back:
  assumes "record_transaction e f ev actor reason key details db = Inr (t, db')" and "submission_event ev"
    and "unique_key dc_id (documents db)"
  shows "source_documents t = Inr (map saved_of
      (filter (\<lambda>d. dc_type d \<notin> set private_document_types) (current_documents db (fe_id f))))
    \<and> map saved_json (map saved_of (current_documents db (fe_id f)))
      = map document_json (current_documents db (fe_id f))"
proof -
  from assms(1) obtain kvs where k: "event_details e db f ev reason details = Inr kvs"
    and t: "t = new_transaction e db f ev actor key kvs" by (rule record_transaction_effect)
  then have "jget ''documents'' (tx_details t) = Some (JArr (map document_json (current_documents db (fe_id f))))"
    using assms(2)
    by (auto simp: event_details_def then_do_Inr_iff submission_details_def new_transaction_def jget_def Let_def)
  moreover have "distinct (map dc_id (current_documents db (fe_id f)))"
    using assms(3) by (simp add: current_documents_def unique_key_def distinct_map inj_on_def distinct_sort)
  ultimately show ?thesis
    by (simp add: source_documents_def field_def parse_all_documents o_def filter_map)
qed

text \<open>C19: a request that succeeds either replays the packet recorded under its key and changes
  nothing, or adds exactly one packet, of this sender, filing and receipt. It was then asked for by an
  active account with a verified email that filed the filing or is staff of its court, and by a filer
  who is not staff only under a court-reviewed participation in the case; and the documents the new
  packet lists are exactly the selected ones, in the order of their ids, each with the values of the
  receipt of the current submission, of a document that is retained, is not fee waiver material, and
  whose stored bytes had the digest and size of the receipt.\<close>
theorem delivery_documents_verified:
  assumes "send_documents e db0 db fid q key uid = Inr (pid, db')" and "unique_key dc_id (documents db)"
  shows "db' = db \<and> (\<exists>pk. (recorded_packet db0 uid key = Some pk \<or> recorded_packet db uid key = Some pk)
      \<and> pid = pk_id pk \<and> pk_request_sha256 pk = packet_fingerprint e fid q)
    \<or> recorded_packet db0 uid key = None \<and> recorded_packet db uid key = None
      \<and> (\<exists>u f c t manifest pk ss. find_user db0 uid = Some u \<and> us_active u \<and> us_type u \<noteq> PublicUser
        \<and> us_verified_email u = Some (normal_email u)
        \<and> find_filing db fid = Some f \<and> fe_case f = Some (cs_id c)
        \<and> row_at cs_id (cs_id c) (cases db) = Some c \<and> cs_court c = fe_court f
        \<and> (is_court_staff db (Some uid) (fe_court f)
           \<or> fe_filer f = uid \<and> reviewed_participation db u (cs_id c) \<and> may_read_case db (Some u) (cs_id c))
        \<and> t \<in> set (transactions db) \<and> tx_id t = pq_source q \<and> tx_filing t = fid
        \<and> tx_submission t = fe_submission_count f \<and> submission_event (tx_event t)
        \<and> source_documents t = Inr manifest
        \<and> packets db' = packets db @ [pk] \<and> documents db' = documents db
        \<and> pk_id pk = pid \<and> pk_filing pk = fid \<and> pk_actor pk = uid \<and> pk_source pk = pq_source q
        \<and> pk_case pk = cs_id c
        \<and> packet_documents pk = map saved_json ss \<and> map sv_id ss = sort (pq_documents q)
        \<and> list_all (\<lambda>s. s \<in> set manifest \<and> (\<exists>d. d \<in> set (documents db) \<and> dc_id d = sv_id s \<and> dc_envelope d = fid
            \<and> dc_retained_at d \<noteq> None \<and> matches_saved d s
            \<and> stored e (dc_file_key d) = Stored (sv_sha256 s) (sv_size s))) ss)"
proof -
  from send_documents_Inr [OF assms(1)] obtain pk where
    cp: "create_packet e db0 db uid fid q key = Inr (pk, db')" and pid: "pid = pk_id pk" by blast
  from cp show ?thesis
  proof (cases rule: create_packet_cases)
    case replayed
    with pid show ?thesis by blast
  next
    case (sent u f c t manifest rows)
    note k = check_packet_Inr [OF sent(4)]
    then have "require_sender db u fid = Inr (f, c)" and "current_source db f = Inr t" by simp_all
    note rs = require_sender_Inr [OF this(1)] and cs = current_source_Inr [OF this(2)]
    define item where "item = (\<lambda>i. the (saved_with_id i manifest))"
    have item: "item i \<in> set manifest \<and> sv_id (item i) = i \<and> (\<exists>d. d \<in> set (documents db) \<and> dc_id d = sv_id (item i)
        \<and> dc_envelope d = fid \<and> dc_retained_at d \<noteq> None \<and> matches_saved d (item i)
        \<and> stored e (dc_file_key d) = Stored (sv_sha256 (item i)) (sv_size (item i)))"
      if "i \<in> set (pq_documents q)" for i
    proof -
      from selected_document_exists [OF assms(2) _ that] k obtain d
        where d: "d \<in> set (selected_documents db fid (pq_documents q))" "dc_id d = i" by blast
      from check_selected_Inr [OF _ d(1)] k obtain s where s: "saved_with_id (dc_id d) manifest = Some s"
        "matches_saved d s" "stored e (dc_file_key d) = Stored (sv_sha256 s) (sv_size s)" by blast
      then have "item i = s" by (simp add: item_def d(2))
      with d s saved_with_id_Some [OF s(1)] show ?thesis by (auto simp: selected_documents_def)
    qed
    let ?ss = "map item (sort (pq_documents q))"
    have order: "map sv_id ?ss = sort (pq_documents q)" unfolding map_map by (rule map_idI) (use item in simp)
    have docs: "list_all (\<lambda>s. s \<in> set manifest \<and> (\<exists>d. d \<in> set (documents db) \<and> dc_id d = sv_id s \<and> dc_envelope d = fid
            \<and> dc_retained_at d \<noteq> None \<and> matches_saved d s
            \<and> stored e (dc_file_key d) = Stored (sv_sha256 s) (sv_size s))) ?ss"
      unfolding list_all_iff set_map set_sort ball_simps using item by blast
    have pk: "packet_documents pk = map saved_json ?ss"
      unfolding sent(7) packet_documents_new item_def ..
    have added: "packets db' = packets db @ [pk]" "documents db' = documents db"
      using add_recipients_tables [OF sent(8)] by simp_all
    have ids: "fe_id f = fid" "pk_filing pk = fid" "pk_actor pk = uid" "pk_source pk = pq_source q" "pk_case pk = cs_id c"
      using rs find_filing_id [of db fid f] sent(3,7) k by simp_all
    have who: "is_court_staff db (Some uid) (fe_court f)
        \<or> fe_filer f = uid \<and> reviewed_participation db u (cs_id c) \<and> may_read_case db (Some u) (cs_id c)"
      using rs sent(3) by auto
    show ?thesis
      by (intro disjI2 conjI sent(5,6) exI [of _ u] exI [of _ f] exI [of _ c] exI [of _ t] exI [of _ manifest]
          exI [of _ pk] exI [of _ ?ss] order docs who pk added)
        (use k rs cs sent(1-3) ids pid in simp_all)
  qed
qed

text \<open>A delivery that is sent goes to exactly the selected contacts, each an electronic contact of
  the case at the version the sender saw, with nothing standing against its routing, and to distinct
  accounts other than the sender's; every one of them gets one recipient record with a copy of the
  contact and one queued alert. Nothing else changes: the packet, the recipients, the notices and the
  mail events are all that is added.\<close>
theorem delivery_recipients_reviewed:
  assumes "send_documents e db0 db fid q key uid = Inr (pid, db')" and "recorded_packet db0 uid key = None"
    and "recorded_packet db uid key = None" and "fresh_keys e" and "unique_key sc_id (contacts db)"
  shows "\<exists>pk rs ns es. pk_id pk = pid \<and> pk_filing pk = fid \<and> pk_actor pk = uid \<and> pk_source pk = pq_source q
    \<and> db' = db\<lparr>packets := packets db @ [pk], recipients := recipients db @ rs, notifications := ns,
        delivery_events := delivery_events db @ es\<rparr>
    \<and> length rs = length (pq_recipients q) \<and> distinct (map rc_user rs)
    \<and> list_all (\<lambda>(i, v). \<exists>ct p a rc n. ct \<in> set (contacts db) \<and> sc_id ct = i \<and> sc_version ct = v
        \<and> sc_method ct = Electronic \<and> sc_case ct = pk_case pk
        \<and> (\<exists>c. row_at cs_id (pk_case pk) (cases db) = Some c \<and> routing_issues e c p (Some a) ct = [])
        \<and> us_id a \<noteq> uid \<and> rc \<in> set rs \<and> rc_packet rc = pid \<and> rc_user rc = us_id a
        \<and> rc_contact rc = i \<and> rc_contact_version rc = v \<and> rc_snapshot rc = contact_snapshot ct
        \<and> find_notice db' (rc_notification rc) = Some n \<and> nt_status n = Pending
        \<and> nt_recipient n = us_id a) (pq_recipients q)"
proof -
  from send_documents_Inr [OF assms(1)] obtain pk where
    cp: "create_packet e db0 db uid fid q key = Inr (pk, db')" and pid: "pid = pk_id pk"
    and v: "distinct (map fst (pq_recipients q))" by (auto simp: valid_packet_request_def)
  from cp show ?thesis
  proof (cases rule: create_packet_cases)
    case replayed
    with assms(2,3) show ?thesis by simp
  next
    case (sent u f c t manifest rows)
    note k = check_packet_Inr [OF sent(4)]
    then have "require_sender db u fid = Inr (f, c)" by simp
    note rs = require_sender_Inr [OF this]
    from add_recipients_effect [OF sent(8) assms(4)] obtain rcs where
      d: "delivered_db (packets_update (\<lambda>ps. ps @ [pk]) db) rcs db'" and
      l: "list_all2 (routed pk db') rows rcs" by blast
    from d obtain ns es where "db' = packets_update (\<lambda>ps. ps @ [pk]) db\<lparr>recipients := recipients db @ rcs,
        notifications := ns, delivery_events := delivery_events db @ es\<rparr>"
      by (auto simp: delivered_db_def)
    then have db': "db' = db\<lparr>packets := packets db @ [pk], recipients := recipients db @ rcs,
        notifications := ns, delivery_events := delivery_events db @ es\<rparr>" by (cases db) simp
    have "map rc_user rcs = map (\<lambda>(ct, p, a). us_id a) rows"
      using l by (induction rows rcs rule: list_all2_induct) (auto simp: routed_def split: prod.splits)
    moreover have "distinct (map (\<lambda>(ct, p, a). us_id a) rows)" using k check_routes_Inr by blast
    ultimately have dist: "distinct (map rc_user rcs)" by simp
    have pk: "pk_filing pk = fid" "pk_actor pk = uid" "pk_source pk = pq_source q" "pk_case pk = cs_id c"
      using sent(3,7) k rs find_filing_id [of db fid f] by simp_all
    note reached = list_all_pairI [OF recipient_reached [OF sent(4) assms(5) v l _ pk(4) pid], unfolded sent(3)]
    show ?thesis
      using db' pk pid dist k list_all2_lengthD [OF l]
      by (intro exI [of _ pk] exI [of _ rcs] exI [of _ ns] exI [of _ es] conjI reached) simp_all
  qed
qed

text \<open>Whoever opens a delivery, and so whoever downloads a document of it, is an active account that
  is staff of the case's court, or sent it and filed the filing, or is its named recipient with a
  current, active, court-reviewed participation in the case (counsel with the matching verified bar
  number) and may read the case. A download hands out only a document of the delivery's manifest
  that is retained, is not fee waiver material and still has the manifest's digest and size, and
  records the request.\<close>
theorem delivery_readers:
  assumes "require_delivery_viewer db actor rid = Inr v \<or> download_delivery_document e db rid did actor = Inr (out, db')"
  shows "us_active actor \<and> (\<exists>r pk c. row_at rc_id rid (recipients db) = Some r
      \<and> row_at pk_id (rc_packet r) (packets db) = Some pk \<and> row_at cs_id (pk_case pk) (cases db) = Some c
      \<and> (is_court_staff db (Some (us_id actor)) (cs_court c)
         \<or> pk_actor pk = us_id actor \<and> map_option fe_filer (find_filing db (pk_filing pk)) = Some (us_id actor)
         \<or> rc_user r = us_id actor \<and> may_read_case db (Some actor) (cs_id c)
           \<and> (\<exists>p \<in> set (participants db). pt_case p = cs_id c \<and> pt_user p = Some (us_id actor) \<and> pt_active p
                \<and> pt_reviewed_at p \<noteq> None \<and> (pt_role p \<notin> set counsel_roles \<or> counsel_eligible actor p)))
      \<and> (download_delivery_document e db rid did actor = Inr (out, db') \<longrightarrow>
           (\<exists>s d x. s \<in> set (packet_documents pk) \<and> jget ''id'' s = Some (JInt did)
              \<and> d \<in> set (documents db) \<and> dc_id d = did \<and> dc_envelope d = pk_filing pk \<and> dc_retained_at d \<noteq> None
              \<and> dc_type d \<notin> set private_document_types \<and> out = (dc_file_key d, dc_sha256 d, dc_size d)
              \<and> jget ''sha256_hash'' s = Some (JStr (dc_sha256 d)) \<and> jget ''file_size_bytes'' s = Some (JInt (dc_size d))
              \<and> se_recipient x = rid \<and> se_actor x = us_id actor \<and> se_action x = ''download_requested''
              \<and> db' = db\<lparr>service_events := service_events db @ [x]\<rparr>)))"
proof -
  from assms obtain v where v: "require_delivery_viewer db actor rid = Inr v"
    by (auto simp: download_delivery_document_def then_do_Inr_iff)
  from delivery_viewer [OF v] obtain c where
    g: "us_active actor" "row_at rc_id rid (recipients db) = Some (dv_recipient v)"
      "row_at pk_id (rc_packet (dv_recipient v)) (packets db) = Some (dv_packet v)"
      "row_at cs_id (pk_case (dv_packet v)) (cases db) = Some c" "opens db actor v c" by blast
  from g(5) have who: "is_court_staff db (Some (us_id actor)) (cs_court c)
      \<or> pk_actor (dv_packet v) = us_id actor
        \<and> map_option fe_filer (find_filing db (pk_filing (dv_packet v))) = Some (us_id actor)
      \<or> rc_user (dv_recipient v) = us_id actor \<and> may_read_case db (Some actor) (cs_id c)
        \<and> (\<exists>p \<in> set (participants db). pt_case p = cs_id c \<and> pt_user p = Some (us_id actor) \<and> pt_active p
             \<and> pt_reviewed_at p \<noteq> None \<and> (pt_role p \<notin> set counsel_roles \<or> counsel_eligible actor p))"
    using current_participation_row [of db actor c "dv_recipient v"] unfolding opens_def by blast
  show ?thesis
    by (intro conjI exI [of _ "dv_recipient v"] exI [of _ "dv_packet v"] exI [of _ c] impI g(1-4) who
        delivered_document [OF _ v])
qed

section \<open>An example\<close>

text \<open>Court staff who filed on the case send its document to the other participant.\<close>

definition service_env :: env where
  "service_env = mail_env\<lparr>cfg := (cfg mail_env)\<lparr>st_service_enabled := True\<rparr>\<rparr>"

definition service_sender :: user where
  "service_sender = example_participant_user\<lparr>us_id := 9, us_verified_email := Some ''a@x''\<rparr>"

definition service_receipt :: txn where
  "service_receipt = \<lparr>tx_id = ''t'', tx_filing = 5, tx_submission = 1, tx_event = ''submitted'', tx_actor = 9,
     tx_actor_name = ''A B'', tx_occurred_at = 0, tx_details = JObj
       [(''case_id'', JInt 7), (''court_id'', JInt 3), (''filing_type'', JStr ''subsequent''),
        (''documents'', JArr [document_json example_document])], tx_key = None\<rparr>"

definition service_row :: service_contact where
  "service_row = \<lparr>sc_id = 4, sc_case = 7, sc_user = Some 1, sc_name = ''A B'', sc_email = Some ''a@x'',
     sc_method = Electronic, sc_address = None, sc_participant = Some 2,
     sc_snapshot = Some (participant_snapshot (hd (participants example_court_db))), sc_active = True,
     sc_authority = Some ''r'', sc_reviewed_at = Some 0, sc_reviewer = Some 9, sc_version = 1\<rparr>"

definition service_db :: db where
  "service_db = mail_db\<lparr>users := users mail_db @ [service_sender],
     court_roles := [\<lparr>ur_id = 1, ur_user = 9, ur_court = 3, ur_role = ClerkRole\<rparr>],
     transactions := [service_receipt], contacts := [service_row]\<rparr>"

definition service_request :: packet_request where
  "service_request = \<lparr>pq_source = ''t'', pq_documents = [6], pq_recipients = [(4, 1)], pq_reviewed = True\<rparr>"

definition service_sent :: "string \<times> db" where
  "service_sent = (case send_documents service_env service_db service_db 5 service_request ''k'' 9 of
     Inr r \<Rightarrow> r | Inl x \<Rightarrow> ([], service_db))"

lemma service_run: "send_documents service_env service_db service_db 5 service_request ''k'' 9
    = Inr (fst service_sent, snd service_sent)"
proof -
  have "case send_documents service_env service_db service_db 5 service_request ''k'' 9 of
      Inr r \<Rightarrow> True | Inl x \<Rightarrow> False" by code_simp
  then show ?thesis by (auto simp: service_sent_def split: sum.splits)
qed

lemma service_fresh: "fresh_keys service_env"
  using mail_env_fresh by (simp add: service_env_def fresh_keys_def)

lemma service_new: "recorded_packet service_db 9 ''k'' = None"
  by code_simp

lemma service_keys: "unique_key dc_id (documents service_db)" "unique_key sc_id (contacts service_db)"
  "unique_key dc_id (documents submit_db)"
  by (simp_all add: unique_key_def service_db_def mail_db_def submit_db_def example_court_db_def)

lemma receipt_run: "\<exists>t db'. record_transaction example_env draft_filing ''submitted'' 1 None None [] submit_db = Inr (t, db')"
proof -
  have "case record_transaction example_env draft_filing ''submitted'' 1 None None [] submit_db of
      Inr r \<Rightarrow> True | Inl x \<Rightarrow> False" by code_simp
  then show ?thesis by (auto split: sum.splits)
qed

theorem receipt_reads_back_witness:
  "\<exists>t db'. record_transaction example_env draft_filing ''submitted'' 1 None None [] submit_db = Inr (t, db')
     \<and> source_documents t = Inr [saved_of (hd (documents submit_db))]"
proof -
  have "filter (\<lambda>d. dc_type d \<notin> set private_document_types) (current_documents submit_db (fe_id draft_filing))
      = [hd (documents submit_db)]" by code_simp
  with receipt_run receipt_reads_back [OF _ _ service_keys(3), of example_env draft_filing "''submitted''" 1 None None "[]"]
  show ?thesis by (auto simp: submission_event_def)
qed

theorem delivery_documents_verified_witness:
  "\<exists>pk s. packets (snd service_sent) = packets service_db @ [pk] \<and> packet_documents pk = [saved_json s] \<and> sv_id s = 6
     \<and> (\<exists>d \<in> set (documents service_db). dc_id d = 6 \<and> dc_retained_at d \<noteq> None
          \<and> stored service_env (dc_file_key d) = Stored (sv_sha256 s) (sv_size s))"
  using delivery_documents_verified [OF service_run service_keys(1)] service_new
  by (auto simp: service_request_def Cons_eq_map_conv map_eq_Cons_conv; blast)

theorem delivery_recipients_reviewed_witness:
  "\<exists>rc n. rc \<in> set (recipients (snd service_sent)) \<and> rc_user rc = 1
     \<and> find_notice (snd service_sent) (rc_notification rc) = Some n \<and> nt_status n = Pending"
proof -
  have "list_all (\<lambda>rc. rc_user rc = 1) (recipients (snd service_sent))" by code_simp
  with delivery_recipients_reviewed [OF service_run service_new service_new service_fresh service_keys(2)]
  show ?thesis by (auto simp: service_request_def list_all_iff)
qed

definition delivery_id :: string where
  "delivery_id = rc_id (hd (recipients (snd service_sent)))"

lemma delivery_download: "\<exists>out db'. download_delivery_document service_env (snd service_sent) delivery_id 6
    (hd (users service_db)) = Inr (out, db')"
proof -
  have "case download_delivery_document service_env (snd service_sent) delivery_id 6 (hd (users service_db)) of
      Inr r \<Rightarrow> True | Inl x \<Rightarrow> False" by code_simp
  then show ?thesis by (auto split: sum.splits)
qed

theorem delivery_readers_witness:
  "\<exists>out db' x. download_delivery_document service_env (snd service_sent) delivery_id 6 (hd (users service_db))
      = Inr (out, db') \<and> se_action x = ''download_requested''
    \<and> db' = snd service_sent\<lparr>service_events := service_events (snd service_sent) @ [x]\<rparr>"
proof -
  obtain out db' where d: "download_delivery_document service_env (snd service_sent) delivery_id 6
      (hd (users service_db)) = Inr (out, db')" using delivery_download by blast
  from delivery_readers [OF disjI2 [OF d]] d show ?thesis by blast
qed

end
