(* ===== verification/Administration.thy ===== *)
theory Administration
  imports Contacts Ledger
begin

text \<open>
  Accounts and court roles (\<open>services/administration_service.py\<close>, \<open>api/admin.py\<close>,
  \<open>schemas/administration.py\<close>): system administrators create and change accounts, court
  administrators grant and revoke the staff roles of their court. Every change names the version of
  the account, advances it and is written to the audit log.
\<close>

section \<open>Requests\<close>

text \<open>The address is what the email type of the request model accepted.\<close>

record account_change =
  ag_first_name :: string
  ag_last_name :: string
  ag_email :: string
  ag_type :: user_type
  ag_keycloak :: "string option"
  ag_active :: bool
  ag_bar_number :: "string option"
  ag_bar_verified :: bool
  ag_reason :: string

definition parse_account_change :: "account_change \<Rightarrow> account_change option" where
  "parse_account_change d =
     (case (stripped_text 100 (ag_first_name d), stripped_text 100 (ag_last_name d),
            stripped_opt 255 (ag_keycloak d), stripped_opt 20 (ag_bar_number d), stripped_text 1000 (ag_reason d)) of
        (Some f, Some l, Some k, Some b, Some r) \<Rightarrow>
          if ag_bar_verified d \<and> (\<not> truthy b \<or> ag_type d \<noteq> Attorney) then None
          else Some (d\<lparr>ag_first_name := f, ag_last_name := l, ag_email := str_lower (ag_email d),
            ag_keycloak := k, ag_bar_number := b, ag_reason := r\<rparr>)
      | _ \<Rightarrow> None)"

datatype role_action = Grant | Revoke

record role_change =
  rh_role :: court_role
  rh_action :: role_action
  rh_reason :: string
  rh_version :: int

definition parse_role_change :: "role_change \<Rightarrow> role_change option" where
  "parse_role_change d =
     (case stripped_text 1000 (rh_reason d) of
        None \<Rightarrow> None
      | Some r \<Rightarrow>
          if rh_role d \<in> {ClerkRole, JudgeRole, AdminRole} \<and> valid_version (rh_version d)
          then Some (d\<lparr>rh_reason := r\<rparr>) else None)"

section \<open>Administrators\<close>

definition require_system_administrator :: "user \<Rightarrow> failure + unit" where
  "require_system_administrator u =
     (if \<not> us_active u \<or> us_type u \<noteq> AdminUser
      then Inl (Http 403 (Record System_administrator_required)) else Inr ())"

definition require_court_administrator :: "db \<Rightarrow> user \<Rightarrow> int \<Rightarrow> failure + unit" where
  "require_court_administrator db u court =
     (if \<not> us_active u then Inl (Http 403 (Account Account_disabled))
      else if us_type u \<noteq> AdminUser \<and> \<not> has_court_administrator_assignment db (us_id u) court
      then Inl (Http 403 (Record Court_administrator_required))
      else if row_at ct_id court (courts db) = None then Inl (Http 404 (Record Court_not_found))
      else Inr ())"

definition lock_actor :: "db \<Rightarrow> int \<Rightarrow> failure + user" where
  "lock_actor db uid = (case find_user db uid of None \<Rightarrow> Inl InternalError | Some u \<Rightarrow> Inr u)"

section \<open>Accounts\<close>

fun user_type_value :: "user_type \<Rightarrow> string" where
  "user_type_value Attorney = ''attorney''"
| "user_type_value ClerkUser = ''clerk''"
| "user_type_value JudgeUser = ''judge''"
| "user_type_value SelfRepresented = ''self_represented''"
| "user_type_value PublicUser = ''public''"
| "user_type_value AdminUser = ''admin''"

definition account_snapshot :: "user \<Rightarrow> json" where
  "account_snapshot u = JObj
     [(''id'', JInt (us_id u)), (''first_name'', JStr (us_first_name u)), (''last_name'', JStr (us_last_name u)),
      (''email'', JStr (us_email u)), (''user_type'', JStr (user_type_value (us_type u))),
      (''keycloak_id'', jopt JStr (us_keycloak u)), (''is_active'', JBool (us_active u)),
      (''bar_number'', jopt JStr (us_bar_number u)), (''bar_number_verified'', JBool (us_bar_verified u)),
      (''administration_version'', JInt (us_admin_version u))]"

definition set_account :: "account_change \<Rightarrow> user \<Rightarrow> user" where
  "set_account d u = u\<lparr>us_first_name := ag_first_name d, us_last_name := ag_last_name d,
     us_email := ag_email d, us_type := ag_type d, us_keycloak := ag_keycloak d, us_active := ag_active d,
     us_bar_number := ag_bar_number d, us_bar_verified := ag_bar_verified d\<rparr>"

definition validate_identity :: "env \<Rightarrow> account_change \<Rightarrow> failure + unit" where
  "validate_identity e d =
     (if ag_active d \<and> \<not> truthy (ag_keycloak d) \<and> \<not> st_allow_demo (cfg e)
      then Inl (Http 422 (Record Subject_required)) else Inr ())"

definition email_taken :: "db \<Rightarrow> string \<Rightarrow> int option \<Rightarrow> bool" where
  "email_taken db email except \<longleftrightarrow>
     (\<exists>u \<in> set (users db). str_lower (us_email u) = email \<and> Some (us_id u) \<noteq> except)"

text \<open>The unique columns of the table: the address as written and the identity subject.\<close>

definition unique_account :: "db \<Rightarrow> user \<Rightarrow> bool" where
  "unique_account db u \<longleftrightarrow>
     (\<forall>v \<in> set (users db). us_id v \<noteq> us_id u \<longrightarrow>
        us_email v \<noteq> us_email u \<and> (us_keycloak u = None \<or> us_keycloak v \<noteq> us_keycloak u))"

definition account_details :: "string \<Rightarrow> user \<Rightarrow> json \<Rightarrow> json \<Rightarrow> json" where
  "account_details reason actor before after = JObj
     [(''reason'', JStr reason), (''actor_name'', JStr (full_name actor)),
      (''before'', before), (''after'', after)]"

definition new_account :: "env \<Rightarrow> db \<Rightarrow> user" where
  "new_account e db =
     \<lparr>us_id = new_key e (map us_id (users db)), us_email = [], us_verified_email = None, us_first_name = [],
      us_last_name = [], us_bar_number = None, us_bar_verified = False, us_type = PublicUser,
      us_keycloak = None, us_active = True, us_admin_version = 0\<rparr>"

definition create_account :: "env \<Rightarrow> db \<Rightarrow> int \<Rightarrow> account_change \<Rightarrow> failure + user \<times> db" where
  "create_account e db uid d =
     then_do (lock_actor db uid) (\<lambda>actor.
     then_do (require_system_administrator actor) (\<lambda>_.
     then_do (validate_identity e d) (\<lambda>_.
     if email_taken db (ag_email d) None then Inl (Http 409 (Record Email_in_use))
     else let u = set_account d (new_account e db) in
       if \<not> unique_account db u then Inl IntegrityError
       else Inr (u, log_action e (Some (us_id actor)) ''identity.account_created'' ''user'' (Some (us_id u))
         (Some (account_details (ag_reason d) actor JNull (account_snapshot u)))
         (users_update (\<lambda>us. us @ [u]) db)))))"

text \<open>\<open>_advance_version\<close>: the conditional update of the version.\<close>

definition advance_version :: "int \<Rightarrow> int \<Rightarrow> db \<Rightarrow> failure + db" where
  "advance_version uid v db =
     (case find_user db uid of
        None \<Rightarrow> Inl (Http 409 (Record Account_changed))
      | Some u \<Rightarrow>
          if us_admin_version u \<noteq> v then Inl (Http 409 (Record Account_changed))
          else Inr (users_update (upd_row us_id uid (\<lambda>u. u\<lparr>us_admin_version := v + 1\<rparr>)) db))"

definition holds_staff_role :: "db \<Rightarrow> int \<Rightarrow> bool" where
  "holds_staff_role db uid \<longleftrightarrow> (\<exists>r \<in> set (court_roles db). ur_user r = uid \<and> ur_role r \<noteq> FilerRole)"

definition check_account ::
    "env \<Rightarrow> db \<Rightarrow> user \<Rightarrow> user \<Rightarrow> account_change \<Rightarrow> int \<Rightarrow> failure + unit" where
  "check_account e db actor u d v =
     (if us_admin_version u \<noteq> v then Inl (Http 409 (Record Account_changed))
      else then_do (validate_identity e d) (\<lambda>_.
        if us_id actor = us_id u \<and> (ag_type d \<noteq> us_type u \<or> \<not> ag_active d \<or> ag_keycloak d \<noteq> us_keycloak u)
        then Inl (Http 409 (Record Own_access))
        else if email_taken db (ag_email d) (Some (us_id u)) then Inl (Http 409 (Record Email_in_use))
        else if (ag_type d \<noteq> us_type u \<or> ag_keycloak d \<noteq> us_keycloak u) \<and> holds_staff_role db (us_id u)
        then Inl (Http 409 (Record Revoke_roles_first))
        else Inr ()))"

text \<open>A changed address, subject or activity ends the verification of the address.\<close>

definition changed_account :: "account_change \<Rightarrow> int \<Rightarrow> user \<Rightarrow> user" where
  "changed_account d v u =
     (set_account d u)\<lparr>us_admin_version := v + 1,
       us_verified_email := (if us_email u \<noteq> ag_email d \<or> us_keycloak u \<noteq> ag_keycloak d \<or> \<not> ag_active d
                             then None else us_verified_email u)\<rparr>"

definition update_account ::
    "env \<Rightarrow> db \<Rightarrow> int \<Rightarrow> int \<Rightarrow> account_change \<Rightarrow> int \<Rightarrow> failure + user \<times> db" where
  "update_account e db uid target d v =
     then_do (lock_actor db uid) (\<lambda>actor.
     then_do (require_system_administrator actor) (\<lambda>_.
     case find_user db target of
       None \<Rightarrow> Inl (Http 404 (Record Account_not_found))
     | Some u \<Rightarrow>
         then_do (check_account e db actor u d v) (\<lambda>_.
         if set_account d u = u then Inr (u, db)
         else then_do (advance_version target v db) (\<lambda>db1.
           let u' = changed_account d v u in
           if \<not> unique_account db u' then Inl IntegrityError
           else Inr (u', log_action e (Some (us_id actor)) ''identity.account_updated'' ''user'' (Some target)
             (Some (account_details (ag_reason d) actor (account_snapshot u) (account_snapshot u')))
             (users_update (upd_row us_id target (\<lambda>_. u')) db1))))))"

section \<open>Court roles\<close>

fun court_role_value :: "court_role \<Rightarrow> string" where
  "court_role_value FilerRole = ''filer''"
| "court_role_value ClerkRole = ''clerk''"
| "court_role_value JudgeRole = ''judge''"
| "court_role_value AdminRole = ''admin''"

text \<open>The order of the role column, and of the names of the roles.\<close>

fun role_rank :: "court_role \<Rightarrow> nat" where
  "role_rank FilerRole = 0"
| "role_rank ClerkRole = 1"
| "role_rank JudgeRole = 2"
| "role_rank AdminRole = 3"

fun name_rank :: "court_role \<Rightarrow> nat" where
  "name_rank AdminRole = 0"
| "name_rank ClerkRole = 1"
| "name_rank FilerRole = 2"
| "name_rank JudgeRole = 3"

definition grants_of :: "db \<Rightarrow> int \<Rightarrow> int \<Rightarrow> user_court_role list" where
  "grants_of db uid court =
     sort_key (\<lambda>r. role_rank (ur_role r)) (filter (\<lambda>r. ur_user r = uid \<and> ur_court r = court) (court_roles db))"

definition check_role ::
    "env \<Rightarrow> user \<Rightarrow> user \<Rightarrow> role_change \<Rightarrow> failure + unit" where
  "check_role e actor u d =
     (if us_id actor = us_id u then Inl (Http 409 (Record Own_court_access))
      else if us_admin_version u \<noteq> rh_version d then Inl (Http 409 (Record Account_changed))
      else if us_type actor \<noteq> AdminUser \<and> (rh_role d = AdminRole \<or> us_type u = AdminUser)
      then Inl (Http 403 (Record Only_system_administrators))
      else if rh_action d = Revoke then Inr ()
      else if \<not> us_active u \<or> us_type u \<notin> {ClerkUser, JudgeUser, AdminUser}
      then Inl (Http 422 (Record Active_staff_only))
      else if \<not> truthy (us_keycloak u) \<and> \<not> st_allow_demo (cfg e)
      then Inl (Http 422 (Record Bind_subject_first))
      else if rh_role d = JudgeRole \<and> us_type u \<noteq> JudgeUser
      then Inl (Http 422 (Record Judge_account_required))
      else Inr ())"

definition role_names :: "court_role list \<Rightarrow> json" where
  "role_names rs = JArr (map (\<lambda>r. JStr (court_role_value r)) rs)"

definition role_details :: "role_change \<Rightarrow> user \<Rightarrow> int \<Rightarrow> court_role list \<Rightarrow> json" where
  "role_details d actor court before = JObj
     [(''reason'', JStr (rh_reason d)), (''actor_name'', JStr (full_name actor)), (''court_id'', JInt court),
      (''before'', role_names before),
      (''after'', role_names (if rh_action d = Grant then sort_key name_rank (before @ [rh_role d])
                              else filter (\<lambda>r. r \<noteq> rh_role d) before))]"

definition enter_role ::
    "env \<Rightarrow> user \<Rightarrow> user \<Rightarrow> int \<Rightarrow> role_change \<Rightarrow> user_court_role option \<Rightarrow> court_role list \<Rightarrow> db \<Rightarrow> db" where
  "enter_role e actor u court d held before db =
     log_action e (Some (us_id actor))
       (if rh_action d = Grant then ''identity.role_granted'' else ''identity.role_revoked'') ''user'' (Some (us_id u))
       (Some (role_details d actor court before))
       (court_roles_update
          (\<lambda>rs. case held of
             None \<Rightarrow> rs @ [\<lparr>ur_id = new_key e (map ur_id rs), ur_user = us_id u, ur_court = court, ur_role = rh_role d\<rparr>]
           | Some g \<Rightarrow> filter (\<lambda>r. ur_id r \<noteq> ur_id g) rs) db)"

definition change_court_role ::
    "env \<Rightarrow> db \<Rightarrow> int \<Rightarrow> int \<Rightarrow> int \<Rightarrow> role_change \<Rightarrow> failure + user \<times> db" where
  "change_court_role e db uid target court d =
     then_do (lock_actor db uid) (\<lambda>actor.
     then_do (require_court_administrator db actor court) (\<lambda>_.
     case find_user db target of
       None \<Rightarrow> Inl (Http 404 (Record Account_not_found))
     | Some u \<Rightarrow>
         then_do (check_role e actor u d) (\<lambda>_.
         let grants = grants_of db target court;
             held = List.find (\<lambda>r. ur_role r = rh_role d) grants
         in if (rh_action d = Grant) = (held \<noteq> None) then Inr (u, db)
            else then_do (advance_version target (rh_version d) db) (\<lambda>db1.
              Inr (u\<lparr>us_admin_version := rh_version d + 1\<rparr>,
                enter_role e actor u court d held (map ur_role grants) db1)))))"

section \<open>The handlers (api/admin.py)\<close>

definition administration_conflict :: "failure \<Rightarrow> failure" where
  "administration_conflict x = (case x of IntegrityError \<Rightarrow> Http 409 (Record Already_assigned) | _ \<Rightarrow> x)"

definition provision_account :: "env \<Rightarrow> db \<Rightarrow> int \<Rightarrow> account_change \<Rightarrow> failure + user \<times> db" where
  "provision_account e db uid d0 =
     (case parse_account_change d0 of
        None \<Rightarrow> Inl (Http 422 Invalid_request)
      | Some d \<Rightarrow> map_failure administration_conflict (create_account e db uid d))"

definition change_account :: "env \<Rightarrow> db \<Rightarrow> int \<Rightarrow> int \<Rightarrow> account_change \<Rightarrow> int \<Rightarrow> failure + user \<times> db" where
  "change_account e db uid target d0 v =
     (case parse_account_change d0 of
        None \<Rightarrow> Inl (Http 422 Invalid_request)
      | Some d \<Rightarrow>
          if \<not> valid_version v then Inl (Http 422 Invalid_request)
          else map_failure administration_conflict (update_account e db uid target d v))"

definition change_role ::
    "env \<Rightarrow> db \<Rightarrow> int \<Rightarrow> int \<Rightarrow> int \<Rightarrow> role_change \<Rightarrow> failure + user \<times> db" where
  "change_role e db uid court target d0 =
     (case parse_role_change d0 of
        None \<Rightarrow> Inl (Http 422 Invalid_request)
      | Some d \<Rightarrow> map_failure administration_conflict (change_court_role e db uid target court d))"

record system_stats =
  ss_courts :: nat
  ss_users :: nat
  ss_cases :: nat
  ss_filings :: nat
  ss_pending :: nat

definition get_system_stats :: "db \<Rightarrow> user \<Rightarrow> failure + system_stats" where
  "get_system_stats db u =
     then_do (require_system_administrator u) (\<lambda>_. Inr
       \<lparr>ss_courts = length (courts db), ss_users = length (users db), ss_cases = length (cases db),
        ss_filings = length (filings db),
        ss_pending = length (filter (\<lambda>f. fe_status f \<in> {Submitted, UnderReview}) (filings db))\<rparr>)"

text \<open>Filters that are not given, or are empty, do not restrict; entries are kept in the order of
  their ids, and the newest come first.\<close>

definition get_audit_log ::
    "db \<Rightarrow> string option \<Rightarrow> string option \<Rightarrow> int option \<Rightarrow> nat \<Rightarrow> nat \<Rightarrow> user \<Rightarrow> failure + audit_entry list" where
  "get_audit_log db action entity by pg sz u =
     then_do (require_system_administrator u) (\<lambda>_. Inr (page_of pg sz (rev (sort_key au_at
       (filter (\<lambda>a. (\<not> truthy action \<or> Some (au_action a) = action)
          \<and> (\<not> truthy entity \<or> Some (au_entity a) = entity) \<and> (by = None \<or> au_user a = by)) (audit db))))))"

text \<open>The order of the courts by name is left out.\<close>

definition administration_access :: "db \<Rightarrow> user \<Rightarrow> failure + bool \<times> court list" where
  "administration_access db u =
     (let system = (us_type u = AdminUser);
          cs = filter (\<lambda>c. system \<or> has_court_administrator_assignment db (us_id u) (ct_id c)) (courts db)
      in if \<not> system \<and> cs = [] then Inl (Http 403 (Record Court_administrator_required))
         else Inr (system, cs))"

text \<open>The scope of a list: a court administrator looking for an address sees staff accounts only.\<close>

definition account_listed :: "db \<Rightarrow> int option \<Rightarrow> string option \<Rightarrow> user \<Rightarrow> user \<Rightarrow> bool" where
  "account_listed db court email viewer u =
     (let m = str_lower (str_strip (or_text email [])) in
      if str_strip (or_text email []) \<noteq> []
      then str_lower (us_email u) = m \<and> (us_type viewer = AdminUser \<or> us_type u \<in> {ClerkUser, JudgeUser})
      else (case court of
              None \<Rightarrow> True
            | Some c \<Rightarrow> \<exists>r \<in> set (court_roles db). ur_user r = us_id u \<and> ur_court r = c))"

definition administers :: "db \<Rightarrow> user \<Rightarrow> int option \<Rightarrow> failure + unit" where
  "administers db u court =
     (case court of
        None \<Rightarrow> require_system_administrator u | Some c \<Rightarrow> require_court_administrator db u c)"

text \<open>A record: only system administrators see the identity and the roles at other courts.\<close>

definition user_record ::
    "db \<Rightarrow> bool \<Rightarrow> int option \<Rightarrow> user \<Rightarrow> user \<times> user_court_role list \<times> bool option" where
  "user_record db identity court u =
     (if identity then u
      else u\<lparr>us_keycloak := None, us_bar_number := None, us_bar_verified := False, us_verified_email := None\<rparr>,
      filter (\<lambda>r. ur_user r = us_id u \<and> row_at ct_id (ur_court r) (courts db) \<noteq> None
        \<and> (identity \<or> court = None \<or> Some (ur_court r) = court)) (court_roles db),
      if identity then Some (truthy (us_verified_email u) \<and> us_verified_email u = Some (str_lower (us_email u)))
      else None)"

definition list_accounts ::
    "db \<Rightarrow> int option \<Rightarrow> string option \<Rightarrow> nat \<Rightarrow> user
       \<Rightarrow> failure + (user \<times> user_court_role list \<times> bool option) list \<times> nat" where
  "list_accounts db court email pg viewer =
     then_do (administers db viewer court) (\<lambda>_.
       let us = filter (account_listed db court email viewer) (users db)
       in Inr (map (user_record db (us_type viewer = AdminUser) court)
                (page_of pg 25 (rev (sort_key us_id us))), length us))"

definition account_history ::
    "db \<Rightarrow> int \<Rightarrow> int option \<Rightarrow> nat \<Rightarrow> user \<Rightarrow> failure + audit_entry list \<times> nat" where
  "account_history db target court pg viewer =
     then_do (administers db viewer court) (\<lambda>_.
       let es = filter (\<lambda>a. au_entity a = ''user'' \<and> au_entity_id a = Some target
                  \<and> starts_with (au_action a) ''identity.''
                  \<and> (case court of None \<Rightarrow> True
                     | Some c \<Rightarrow> Option.bind (au_details a) (jget ''court_id'') = Some (JInt c))) (audit db)
       in Inr (page_of pg 25 (rev es), length es))"

end
