(* ===== verification/AdministrationProofs.thy ===== *)
theory AdministrationProofs
  imports Administration Calendar
begin

text \<open>
  Who changes accounts and court roles, and what a change can do: nobody changes the own access,
  only system administrators make administrators, roles go to active staff accounts, and an account
  with staff roles keeps its identity.
\<close>

section \<open>The version of an account\<close>

definition account_version :: "int \<Rightarrow> db \<Rightarrow> int" where
  "account_version uid db = (case find_user db uid of None \<Rightarrow> -1 | Some u \<Rightarrow> us_admin_version u)"

lemma advance_version_Inr:
  assumes "advance_version uid v db = Inr db'"
  shows "\<exists>u. find_user db uid = Some u \<and> us_admin_version u = v
    \<and> find_user db' uid = Some (u\<lparr>us_admin_version := v + 1\<rparr>)
    \<and> (\<forall>i. i \<noteq> uid \<longrightarrow> find_user db' i = find_user db i)
    \<and> court_roles db' = court_roles db \<and> audit db' = audit db
    \<and> db' = users_update (upd_row us_id uid (\<lambda>u. u\<lparr>us_admin_version := v + 1\<rparr>)) db"
proof -
  from assms obtain u where u: "find_user db uid = Some u" "us_admin_version u = v"
    and db': "db' = users_update (upd_row us_id uid (\<lambda>u. u\<lparr>us_admin_version := v + 1\<rparr>)) db"
    by (auto simp: advance_version_def split: option.splits if_splits)
  have "find_user db' uid = map_option (\<lambda>u. u\<lparr>us_admin_version := v + 1\<rparr>) (find_user db uid)"
    unfolding db' find_user_def by (rule user_tbl.lookup_modified) simp
  moreover have "find_user db' i = find_user db i" if "i \<noteq> uid" for i
    unfolding db' find_user_def by (rule user_tbl.lookup_untouched) (use that in simp_all)
  ultimately show ?thesis using u db' by simp
qed

interpretation account_record: versioned_update "account_version uid" "\<lambda>_ :: unit. advance_version uid" for uid
  by unfold_locales (auto simp: account_version_def dest!: advance_version_Inr)

section \<open>Checks\<close>

lemma lock_actor_Inr: "lock_actor db uid = Inr u \<longleftrightarrow> find_user db uid = Some u"
  by (auto simp: lock_actor_def split: option.splits)

lemma system_administrator_Inr: "require_system_administrator u = Inr () \<longleftrightarrow> us_active u \<and> us_type u = AdminUser"
  by (auto simp: require_system_administrator_def)

lemma court_administrator_Inr:
  "require_court_administrator db u court = Inr () \<longleftrightarrow> us_active u
     \<and> (us_type u = AdminUser \<or> has_court_administrator_assignment db (us_id u) court)
     \<and> row_at ct_id court (courts db) \<noteq> None"
  by (auto simp: require_court_administrator_def)

lemma check_role_Inr:
  "check_role e actor u d = Inr () \<longleftrightarrow> us_id actor \<noteq> us_id u \<and> us_admin_version u = rh_version d
     \<and> (rh_role d = AdminRole \<or> us_type u = AdminUser \<longrightarrow> us_type actor = AdminUser)
     \<and> (rh_action d = Grant \<longrightarrow> us_active u \<and> us_type u \<in> {ClerkUser, JudgeUser, AdminUser}
          \<and> (truthy (us_keycloak u) \<or> st_allow_demo (cfg e))
          \<and> (rh_role d = JudgeRole \<longrightarrow> us_type u = JudgeUser))"
  by (cases "rh_action d") (auto simp: check_role_def)

lemma parse_role_fields:
  "parse_role_change d0 = Some d \<Longrightarrow> rh_role d = rh_role d0 \<and> rh_action d = rh_action d0 \<and> rh_version d = rh_version d0"
  by (auto simp: parse_role_change_def split: option.splits if_splits)

text \<open>A grant that is held, and what changing it leaves of the roles.\<close>

definition holds :: "db \<Rightarrow> int \<Rightarrow> int \<Rightarrow> court_role \<Rightarrow> bool" where
  "holds db uid court role \<longleftrightarrow>
     (\<exists>r \<in> set (court_roles db). ur_user r = uid \<and> ur_court r = court \<and> ur_role r = role)"

lemma held_grant:
  "(List.find (\<lambda>r. ur_role r = role) (grants_of db uid court) \<noteq> None) = holds db uid court role"
  by (auto simp: holds_def grants_of_def find_None_iff)

lemma held_grant_Some:
  assumes "List.find (\<lambda>r. ur_role r = role) (grants_of db uid court) = Some g"
  shows "g \<in> set (court_roles db) \<and> ur_user g = uid \<and> ur_court g = court \<and> ur_role g = role"
  using find_SomeD [OF assms] by (auto simp: grants_of_def)

definition other_roles :: "db \<Rightarrow> db \<Rightarrow> int \<Rightarrow> int \<Rightarrow> court_role \<Rightarrow> bool" where
  "other_roles db db' uid court role \<longleftrightarrow>
     (\<forall>r. (ur_user r, ur_court r, ur_role r) \<noteq> (uid, court, role) \<longrightarrow>
        r \<in> set (court_roles db') \<longleftrightarrow> r \<in> set (court_roles db))"

lemma enter_role_effect:
  assumes "held = List.find (\<lambda>r. ur_role r = rh_role d) (grants_of db (us_id u) court)"
    and "(rh_action d = Grant) \<noteq> (held \<noteq> None)"
    and "court_roles dx = court_roles db"
    and "unique_key ur_id (court_roles db)"
    and "unique_key (\<lambda>r. (ur_user r, ur_court r, ur_role r)) (court_roles db)"
  shows "holds (enter_role e actor u court d held before dx) (us_id u) court (rh_role d) = (rh_action d = Grant)
    \<and> other_roles db (enter_role e actor u court d held before dx) (us_id u) court (rh_role d)"
proof (cases held)
  case None
  with assms(2,3) show ?thesis
    by (auto simp: enter_role_def holds_def other_roles_def log_action_def)
next
  case (Some g)
  have g: "g \<in> set (court_roles db)" "ur_user g = us_id u" "ur_court g = court" "ur_role g = rh_role d"
    using held_grant_Some [of "rh_role d" db "us_id u" court g] assms(1) Some by simp_all
  have other: "ur_id r \<noteq> ur_id g" if "r \<in> set (court_roles db)" "r \<noteq> g" for r
    using that g(1) assms(4) by (auto simp: unique_key_def distinct_map inj_on_def)
  have same: "r = g" if "r \<in> set (court_roles db)" "ur_user r = us_id u" "ur_court r = court" "ur_role r = rh_role d" for r
    using that g assms(5) by (auto simp: unique_key_def distinct_map inj_on_def)
  have rows: "set (court_roles (enter_role e actor u court d held before dx)) = {r \<in> set (court_roles db). ur_id r \<noteq> ur_id g}"
    using Some assms(3) by (simp add: enter_role_def log_action_def)
  have "\<not> holds (enter_role e actor u court d held before dx) (us_id u) court (rh_role d)"
    unfolding holds_def rows using same by auto
  moreover have "other_roles db (enter_role e actor u court d held before dx) (us_id u) court (rh_role d)"
    unfolding other_roles_def rows using g other by auto
  ultimately show ?thesis using assms(2) Some by simp
qed

lemma change_role_Inr:
  assumes "change_role e db uid court target d0 = Inr (u', db')"
  obtains d actor u where "parse_role_change d0 = Some d" and "find_user db uid = Some actor"
    and "require_court_administrator db actor court = Inr ()" and "find_user db target = Some u"
    and "check_role e actor u d = Inr ()"
    and "(rh_action d = Grant) = holds db target court (rh_role d) \<and> db' = db
      \<or> (\<exists>db1. advance_version target (rh_version d) db = Inr db1
          \<and> (rh_action d = Grant) \<noteq> holds db target court (rh_role d)
          \<and> db' = enter_role e actor u court d
              (List.find (\<lambda>r. ur_role r = rh_role d) (grants_of db target court))
              (map ur_role (grants_of db target court)) db1)"
proof -
  from assms obtain d where d: "parse_role_change d0 = Some d"
    and r: "change_court_role e db uid target court d = Inr (u', db')"
    by (auto simp: change_role_def split: option.splits)
  from r obtain actor u where a: "find_user db uid = Some actor" "require_court_administrator db actor court = Inr ()"
      "find_user db target = Some u" "check_role e actor u d = Inr ()"
    by (auto simp: change_court_role_def then_do_Inr_iff lock_actor_Inr split: option.splits)
  with r have "(rh_action d = Grant) = holds db target court (rh_role d) \<and> db' = db
      \<or> (\<exists>db1. advance_version target (rh_version d) db = Inr db1
          \<and> (rh_action d = Grant) \<noteq> holds db target court (rh_role d)
          \<and> db' = enter_role e actor u court d
              (List.find (\<lambda>r. ur_role r = rh_role d) (grants_of db target court))
              (map ur_role (grants_of db target court)) db1)"
    by (auto simp: change_court_role_def lock_actor_def then_do_Inr_iff Let_def held_grant [symmetric]
        split: if_splits)
  with d a show ?thesis by (intro that)
qed

section \<open>Changing an account\<close>

lemma check_account_Inr:
  "check_account e db actor u d v = Inr () \<longleftrightarrow> us_admin_version u = v
     \<and> (ag_active d \<longrightarrow> truthy (ag_keycloak d) \<or> st_allow_demo (cfg e))
     \<and> (us_id actor = us_id u \<longrightarrow> ag_type d = us_type u \<and> ag_active d \<and> ag_keycloak d = us_keycloak u)
     \<and> \<not> email_taken db (ag_email d) (Some (us_id u))
     \<and> (holds_staff_role db (us_id u) \<longrightarrow> ag_type d = us_type u \<and> ag_keycloak d = us_keycloak u)"
  by (auto simp: check_account_def validate_identity_def then_do_Inr_iff)

lemma set_account_columns:
  "us_type (set_account d u) = ag_type d" "us_keycloak (set_account d u) = ag_keycloak d"
  "us_active (set_account d u) = ag_active d" "us_email (set_account d u) = ag_email d"
  "us_bar_verified (set_account d u) = ag_bar_verified d" "us_bar_number (set_account d u) = ag_bar_number d"
  by (simp_all add: set_account_def)

lemma change_account_Inr:
  assumes "change_account e db uid target d0 v = Inr (u', db')"
  obtains d actor u where "parse_account_change d0 = Some d" and "find_user db uid = Some actor"
    and "us_active actor" and "us_type actor = AdminUser" and "find_user db target = Some u"
    and "check_account e db actor u d v = Inr ()"
    and "set_account d u = u \<and> u' = u \<and> db' = db
      \<or> (\<exists>db1. advance_version target v db = Inr db1 \<and> u' = changed_account d v u \<and> unique_account db u'
          \<and> db' = log_action e (Some uid) ''identity.account_updated'' ''user'' (Some target)
             (Some (account_details (ag_reason d) actor (account_snapshot u) (account_snapshot u')))
             (users_update (upd_row us_id target (\<lambda>_. u')) db1))"
proof -
  from assms obtain d where d: "parse_account_change d0 = Some d"
    and r: "update_account e db uid target d v = Inr (u', db')"
    by (auto simp: change_account_def split: option.splits if_splits)
  from r obtain actor u where a: "find_user db uid = Some actor" "require_system_administrator actor = Inr ()"
      "find_user db target = Some u" "check_account e db actor u d v = Inr ()"
    by (auto simp: update_account_def then_do_Inr_iff lock_actor_Inr split: option.splits)
  with r find_user_id [OF a(1)] have "set_account d u = u \<and> u' = u \<and> db' = db
      \<or> (\<exists>db1. advance_version target v db = Inr db1 \<and> u' = changed_account d v u \<and> unique_account db u'
          \<and> db' = log_action e (Some uid) ''identity.account_updated'' ''user'' (Some target)
             (Some (account_details (ag_reason d) actor (account_snapshot u) (account_snapshot u')))
             (users_update (upd_row us_id target (\<lambda>_. u')) db1))"
    by (auto simp: update_account_def lock_actor_def then_do_Inr_iff Let_def split: if_splits)
  with d a show ?thesis by (intro that) (simp_all add: system_administrator_Inr)
qed

lemma parse_account_bar:
  "parse_account_change d0 = Some d \<Longrightarrow> ag_bar_verified d \<longrightarrow> truthy (ag_bar_number d) \<and> ag_type d = Attorney"
  by (auto simp: parse_account_change_def split: option.splits if_splits)

text \<open>The row a changed account leaves.\<close>

lemma stored_account:
  assumes "advance_version target v db = Inr db1" and "find_user db target = Some u" and "us_id u' = target"
  shows "find_user (log_action e b a en i x (users_update (upd_row us_id target (\<lambda>_. u')) db1)) target = Some u'
    \<and> (\<forall>i. i \<noteq> target \<longrightarrow> find_user (log_action e b a en i' x (users_update (upd_row us_id target (\<lambda>_. u')) db1)) i
         = find_user db i)"
proof -
  note k = advance_version_Inr [OF assms(1)]
  have log: "find_user (log_action e b a en i x d) = find_user d" for e b a en i x d
    by (simp add: find_user_def fun_eq_iff)
  have "find_user (users_update (upd_row us_id target (\<lambda>_. u')) db1) target = map_option (\<lambda>_. u') (find_user db1 target)"
    unfolding find_user_def by (rule user_tbl.lookup_modified) (simp add: assms(3))
  moreover have "find_user (users_update (upd_row us_id target (\<lambda>_. u')) db1) i = find_user db1 i" if "i \<noteq> target" for i
    unfolding find_user_def by (rule user_tbl.lookup_untouched) (use that assms(3) in simp_all)
  ultimately show ?thesis using k assms(2) by (auto simp: log)
qed

section \<open>Properties\<close>

text \<open>C12: a staff role changes only by an active administrator of that court, or of the system, other
  than the account concerned, against the version of the account they saw; administrator roles and
  the roles of system administrators only by system administrators; and a role goes only to an
  active, identified staff account, the judge's role only to a judge. Then the account holds the
  role exactly if it was granted, every other role of every account is as before, and a change
  advances the account's version and is audited.\<close>
theorem role_change_authorised:
  assumes "change_role e db uid court target d0 = Inr (u', db')" and "unique_key ur_id (court_roles db)"
    and "unique_key (\<lambda>r. (ur_user r, ur_court r, ur_role r)) (court_roles db)"
  shows "\<exists>actor u. find_user db uid = Some actor \<and> us_active actor
    \<and> (us_type actor = AdminUser \<or> has_court_administrator_assignment db uid court)
    \<and> find_user db target = Some u \<and> target \<noteq> uid \<and> us_admin_version u = rh_version d0
    \<and> (rh_role d0 = AdminRole \<or> us_type u = AdminUser \<longrightarrow> us_type actor = AdminUser)
    \<and> (rh_action d0 = Grant \<longrightarrow> us_active u \<and> us_type u \<in> {ClerkUser, JudgeUser, AdminUser}
         \<and> (truthy (us_keycloak u) \<or> st_allow_demo (cfg e)) \<and> (rh_role d0 = JudgeRole \<longrightarrow> us_type u = JudgeUser))
    \<and> holds db' target court (rh_role d0) = (rh_action d0 = Grant) \<and> other_roles db db' target court (rh_role d0)
    \<and> (db' = db \<or> account_version target db' = account_version target db + 1
         \<and> (\<exists>a. audit db' = audit db @ [a] \<and> au_user a = Some uid))"
  using assms(1)
proof (rule change_role_Inr)
  fix d actor u
  assume d: "parse_role_change d0 = Some d" and a: "find_user db uid = Some actor"
    and c: "require_court_administrator db actor court = Inr ()" and u: "find_user db target = Some u"
    and k: "check_role e actor u d = Inr ()"
    and out: "(rh_action d = Grant) = holds db target court (rh_role d) \<and> db' = db
      \<or> (\<exists>db1. advance_version target (rh_version d) db = Inr db1
          \<and> (rh_action d = Grant) \<noteq> holds db target court (rh_role d)
          \<and> db' = enter_role e actor u court d
              (List.find (\<lambda>r. ur_role r = rh_role d) (grants_of db target court))
              (map ur_role (grants_of db target court)) db1)"
  note ids = find_user_id [OF a] find_user_id [OF u] and f = parse_role_fields [OF d]
  have "holds db' target court (rh_role d) = (rh_action d = Grant) \<and> other_roles db db' target court (rh_role d)
    \<and> (db' = db \<or> account_version target db' = account_version target db + 1
         \<and> (\<exists>a. audit db' = audit db @ [a] \<and> au_user a = Some uid))"
    using out
  proof (elim disjE conjE exE)
    fix db1 assume adv: "advance_version target (rh_version d) db = Inr db1"
      and ne: "(rh_action d = Grant) \<noteq> holds db target court (rh_role d)"
      and db': "db' = enter_role e actor u court d
              (List.find (\<lambda>r. ur_role r = rh_role d) (grants_of db target court))
              (map ur_role (grants_of db target court)) db1"
    note v = advance_version_Inr [OF adv]
    have "find_user db' = find_user db1" "\<exists>a. audit db' = audit db1 @ [a] \<and> au_user a = Some uid"
      unfolding db' using ids by (auto simp: enter_role_def find_user_def fun_eq_iff log_action_def)
    moreover have "holds db' target court (rh_role d) = (rh_action d = Grant)
        \<and> other_roles db db' target court (rh_role d)"
      unfolding db' ids(2) [symmetric]
    proof (rule enter_role_effect [OF refl _ _ assms(2,3)])
      show "court_roles db1 = court_roles db" using v by blast
    qed (use ne [folded held_grant] ids in simp)
    ultimately show ?thesis using v by (auto simp: account_version_def)
  qed (auto simp: other_roles_def)
  with a c u k ids f show ?thesis by (auto simp: court_administrator_Inr check_role_Inr)
qed

text \<open>An account changes only by an active system administrator, against the version they saw. The
  own access and the identity of an account with staff roles never change this way, an active
  account has an identity subject (outside demonstration mode), the address is nobody else's, bar
  verification needs an attorney with a number, and an address stays verified only while neither it
  nor the subject changes and the account stays active. Other accounts are untouched, and a change
  advances the version and is audited.\<close>
theorem account_change_guarded:
  assumes "change_account e db uid target d0 v = Inr (u', db')"
  shows "\<exists>actor u. find_user db uid = Some actor \<and> us_active actor \<and> us_type actor = AdminUser
    \<and> find_user db target = Some u \<and> us_admin_version u = v \<and> find_user db' target = Some u'
    \<and> (target = uid \<or> holds_staff_role db target \<longrightarrow> us_type u' = us_type u \<and> us_keycloak u' = us_keycloak u)
    \<and> (target = uid \<longrightarrow> us_active u') \<and> (us_active u' \<longrightarrow> truthy (us_keycloak u') \<or> st_allow_demo (cfg e))
    \<and> \<not> email_taken db (us_email u') (Some target)
    \<and> (us_bar_verified u' \<longrightarrow> truthy (us_bar_number u') \<and> us_type u' = Attorney)
    \<and> (us_verified_email u' \<noteq> None \<longrightarrow> u' = u \<or> us_verified_email u' = us_verified_email u
         \<and> us_email u' = us_email u \<and> us_keycloak u' = us_keycloak u \<and> us_active u')
    \<and> (db' = db \<or> us_admin_version u' = v + 1 \<and> (\<forall>i. i \<noteq> target \<longrightarrow> find_user db' i = find_user db i)
         \<and> (\<exists>a. audit db' = audit db @ [a] \<and> au_user a = Some uid))"
  using assms
proof (rule change_account_Inr)
  fix d actor u
  assume d: "parse_account_change d0 = Some d" and a: "find_user db uid = Some actor" "us_active actor"
      "us_type actor = AdminUser" and u: "find_user db target = Some u"
    and k: "check_account e db actor u d v = Inr ()"
    and out: "set_account d u = u \<and> u' = u \<and> db' = db
      \<or> (\<exists>db1. advance_version target v db = Inr db1 \<and> u' = changed_account d v u \<and> unique_account db u'
          \<and> db' = log_action e (Some uid) ''identity.account_updated'' ''user'' (Some target)
             (Some (account_details (ag_reason d) actor (account_snapshot u) (account_snapshot u')))
             (users_update (upd_row us_id target (\<lambda>_. u')) db1))"
  note ids = find_user_id [OF a(1)] find_user_id [OF u] and bar = parse_account_bar [OF d]
  have row: "us_type u' = ag_type d \<and> us_keycloak u' = ag_keycloak d \<and> us_active u' = ag_active d
      \<and> us_email u' = ag_email d \<and> us_bar_verified u' = ag_bar_verified d \<and> us_bar_number u' = ag_bar_number d
      \<and> find_user db' target = Some u' \<and> (us_verified_email u' \<noteq> None \<longrightarrow> u' = u
        \<or> us_verified_email u' = us_verified_email u \<and> us_email u' = us_email u
          \<and> us_keycloak u' = us_keycloak u \<and> us_active u')
      \<and> (db' = db \<or> us_admin_version u' = v + 1 \<and> (\<forall>i. i \<noteq> target \<longrightarrow> find_user db' i = find_user db i)
         \<and> (\<exists>a. audit db' = audit db @ [a] \<and> au_user a = Some uid))"
    using out
  proof (elim disjE conjE exE)
    assume s: "set_account d u = u" and "u' = u" "db' = db"
    have "us_type u = ag_type d \<and> us_keycloak u = ag_keycloak d \<and> us_active u = ag_active d
      \<and> us_email u = ag_email d \<and> us_bar_verified u = ag_bar_verified d \<and> us_bar_number u = ag_bar_number d"
      using set_account_columns [of d u] unfolding s by simp
    with \<open>u' = u\<close> \<open>db' = db\<close> u show ?thesis by simp
  next
    fix db1 assume adv: "advance_version target v db = Inr db1" and u': "u' = changed_account d v u"
      and db': "db' = log_action e (Some uid) ''identity.account_updated'' ''user'' (Some target)
             (Some (account_details (ag_reason d) actor (account_snapshot u) (account_snapshot u')))
             (users_update (upd_row us_id target (\<lambda>_. u')) db1)"
    have "us_id u' = target" using ids by (simp add: u' changed_account_def set_account_def)
    note st = stored_account [OF adv u this]
    have "\<exists>a. audit db' = audit db @ [a] \<and> au_user a = Some uid"
      using advance_version_Inr [OF adv] by (auto simp: db' log_action_def)
    with st show ?thesis unfolding db' by (auto simp: u' changed_account_def set_account_def)
  qed
  then have cols: "us_type u' = ag_type d \<and> us_keycloak u' = ag_keycloak d \<and> us_active u' = ag_active d
      \<and> us_email u' = ag_email d" by blast
  note checks = k [unfolded check_account_Inr ids]
  from checks have "us_admin_version u = v" by blast
  moreover from checks cols
  have "target = uid \<or> holds_staff_role db target \<longrightarrow> us_type u' = us_type u \<and> us_keycloak u' = us_keycloak u"
    by metis
  moreover from checks cols have "target = uid \<longrightarrow> us_active u'" by metis
  moreover from checks cols have "us_active u' \<longrightarrow> truthy (us_keycloak u') \<or> st_allow_demo (cfg e)" by metis
  moreover from checks cols have "\<not> email_taken db (us_email u') (Some target)" by metis
  ultimately have all: "us_admin_version u = v"
    "target = uid \<or> holds_staff_role db target \<longrightarrow> us_type u' = us_type u \<and> us_keycloak u' = us_keycloak u"
    "target = uid \<longrightarrow> us_active u'" "us_active u' \<longrightarrow> truthy (us_keycloak u') \<or> st_allow_demo (cfg e)"
    "\<not> email_taken db (us_email u') (Some target)" by blast+
  show ?thesis
    by (rule exI [of _ actor], rule exI [of _ u], intro conjI)
      (use all a u row bar in \<open>(blast | simp)+\<close>)
qed

section \<open>An example\<close>

text \<open>A system administrator makes a clerk of the account 5 and changes its name.\<close>

definition admin_db :: db where
  "admin_db = example_court_db\<lparr>
     courts := [\<lparr>ct_id = 3, ct_name = ''C'', ct_county = ''K'', ct_type = Circuit,
       ct_efiling_enabled = True, ct_intake_version = 0, ct_intake_notice = None\<rparr>],
     users := [example_participant_user\<lparr>us_id := 1, us_type := AdminUser\<rparr>,
       example_participant_user\<lparr>us_id := 5, us_email := ''s@x'', us_type := ClerkUser\<rparr>]\<rparr>"

definition clerk_grant :: role_change where
  "clerk_grant = \<lparr>rh_role = ClerkRole, rh_action = Grant, rh_reason = ''order'', rh_version = 0\<rparr>"

definition renamed_account :: account_change where
  "renamed_account = \<lparr>ag_first_name = ''N'', ag_last_name = ''B'', ag_email = ''s@x'', ag_type = ClerkUser,
     ag_keycloak = None, ag_active = True, ag_bar_number = None, ag_bar_verified = False, ag_reason = ''r''\<rparr>"

lemma clerk_grant_run: "\<exists>u db'. change_role example_env admin_db 1 3 5 clerk_grant = Inr (u, db')"
proof -
  have "case change_role example_env admin_db 1 3 5 clerk_grant of Inr r \<Rightarrow> True | Inl x \<Rightarrow> False" by code_simp
  then show ?thesis by (auto split: sum.splits)
qed

theorem role_change_authorised_witness:
  "\<exists>u db'. change_role example_env admin_db 1 3 5 clerk_grant = Inr (u, db') \<and> holds db' 5 3 ClerkRole"
proof -
  have "unique_key ur_id (court_roles admin_db)" "unique_key (\<lambda>r. (ur_user r, ur_court r, ur_role r)) (court_roles admin_db)"
    by (simp_all add: unique_key_def admin_db_def example_court_db_def)
  from clerk_grant_run role_change_authorised [OF _ this, of example_env 1 3 5 clerk_grant]
  show ?thesis by (fastforce simp: clerk_grant_def)
qed

lemma renamed_run: "\<exists>u db'. change_account example_env admin_db 1 5 renamed_account 0 = Inr (u, db') \<and> db' \<noteq> admin_db"
proof -
  have "case change_account example_env admin_db 1 5 renamed_account 0 of
      Inr (u, db') \<Rightarrow> length (audit db') \<noteq> length (audit admin_db) | Inl x \<Rightarrow> False" by code_simp
  then show ?thesis by (auto split: sum.splits)
qed

theorem account_change_guarded_witness:
  "\<exists>u db'. change_account example_env admin_db 1 5 renamed_account 0 = Inr (u, db') \<and> us_admin_version u = 1
     \<and> find_user db' 5 = Some u"
  using renamed_run account_change_guarded [of example_env admin_db 1 5 renamed_account 0] by fastforce

end
