(* ===== verification/Participants.thy ===== *)
theory Participants
  imports Contacts Ledger
begin

text \<open>
  Case participants and public access to a case (\<open>services/case_participant_service.py\<close>,
  \<open>api/case_participants.py\<close>): court staff other than the person concerned record who takes part
  in a case, which account may use the access, and whether the public sees the case. Every change
  names the case's participant version, advances it and is written to the audit log.
\<close>

section \<open>Requests (schemas/case_participants.py)\<close>

text \<open>The address is what the email type of the request model accepted.\<close>

record participant_change =
  pa_name :: string
  pa_role :: participant_role
  pa_email :: "string option"
  pa_bar_number :: "string option"
  pa_represents :: "string option"
  pa_active :: bool
  pa_access :: bool
  pa_version :: int
  pa_reason :: string

definition valid_participant_change :: "participant_change \<Rightarrow> bool" where
  "valid_participant_change d \<longleftrightarrow> valid_version (pa_version d)
     \<and> (pa_access d \<longrightarrow> pa_active d \<and> truthy (pa_email d))
     \<and> (pa_role d \<in> set counsel_roles \<or> \<not> truthy (pa_bar_number d) \<and> \<not> truthy (pa_represents d))"

definition parse_participant_change :: "participant_change \<Rightarrow> participant_change option" where
  "parse_participant_change d =
     (case (stripped_text 255 (pa_name d), stripped_opt 20 (pa_bar_number d),
            stripped_opt 255 (pa_represents d), stripped_text 1000 (pa_reason d)) of
        (Some n, Some b, Some r, Some why) \<Rightarrow>
          let d' = d\<lparr>pa_name := n, pa_bar_number := b, pa_represents := r, pa_reason := why\<rparr>
          in if valid_participant_change d' then Some d' else None
      | _ \<Rightarrow> None)"

record access_change =
  ac_version :: int
  ac_sealed :: bool
  ac_confirm :: bool
  ac_reason :: string
  ac_authority :: string

definition parse_access_change :: "access_change \<Rightarrow> access_change option" where
  "parse_access_change d =
     (case (stripped_text 1000 (ac_reason d), stripped_text 500 (ac_authority d)) of
        (Some r, Some a) \<Rightarrow>
          if valid_version (ac_version d) then Some (d\<lparr>ac_reason := r, ac_authority := a\<rparr>) else None
      | _ \<Rightarrow> None)"

section \<open>Staff of a case\<close>

definition find_case :: "db \<Rightarrow> int \<Rightarrow> case_row option" where
  "find_case db cid = row_at cs_id cid (cases db)"

definition require_case_staff :: "db \<Rightarrow> user \<Rightarrow> int \<Rightarrow> failure + case_row" where
  "require_case_staff db actor cid =
     (case find_case db cid of
        None \<Rightarrow> Inl (Http 404 (Account Case_record_not_found))
      | Some c \<Rightarrow>
          if \<not> us_active actor \<or> \<not> is_court_staff db (Some (us_id actor)) (cs_court c)
          then Inl (Http 403 (Account Staff_assignment_required)) else Inr c)"

text \<open>\<open>update(Case).where(id, participant_version)\<close>: advancing the version it expects.\<close>

definition advance_participants :: "(case_row \<Rightarrow> case_row) \<Rightarrow> int \<Rightarrow> int \<Rightarrow> db \<Rightarrow> db option" where
  "advance_participants set_columns cid v db =
     (case find_case db cid of
        None \<Rightarrow> None
      | Some c \<Rightarrow>
          if cs_participant_version c \<noteq> v then None
          else Some (cases_update (upd_row cs_id cid
            (\<lambda>c. (set_columns c)\<lparr>cs_participant_version := v + 1\<rparr>)) db))"

section \<open>Changing a participant\<close>

definition named_account :: "env \<Rightarrow> db \<Rightarrow> participant_change \<Rightarrow> failure + user option" where
  "named_account e db d =
     (if \<not> truthy (pa_email d) then Inr None
      else case filter (\<lambda>u. str_lower (us_email u) = str_lower (the (pa_email d))) (users db) of
        [] \<Rightarrow> Inl (Http 422 (Record No_account_for_email))
      | [u] \<Rightarrow>
          if pa_access d \<and> \<not> account_linked e (Some u)
          then Inl (Http 422 (Record Access_needs_bound_account)) else Inr (Some u)
      | _ \<Rightarrow> Inl (Http 422 (Record Several_accounts)))"

definition counsel_matches :: "participant_change \<Rightarrow> user option \<Rightarrow> bool" where
  "counsel_matches d account =
     (case account of
        None \<Rightarrow> False
      | Some u \<Rightarrow> us_type u = Attorney \<and> us_bar_verified u \<and> truthy (pa_bar_number d)
          \<and> pa_bar_number d = us_bar_number u)"

definition apply_change :: "participant_change \<Rightarrow> user option \<Rightarrow> participant \<Rightarrow> participant" where
  "apply_change d account p = p\<lparr>pt_name := pa_name d, pt_role := pa_role d,
     pt_bar_number := pa_bar_number d, pt_represents := pa_represents d, pt_active := pa_active d,
     pt_access := pa_access d, pt_user := map_option us_id account\<rparr>"

definition new_participant :: "env \<Rightarrow> db \<Rightarrow> int \<Rightarrow> participant" where
  "new_participant e db cid =
     \<lparr>pt_id = new_key e (map pt_id (participants db)), pt_case = cid, pt_user = None, pt_role = Plaintiff,
      pt_name = [], pt_bar_number = None, pt_represents = None, pt_active = False, pt_access = False,
      pt_reviewed_at = None\<rparr>"

definition participant_of :: "db \<Rightarrow> int \<Rightarrow> int option \<Rightarrow> failure + participant option" where
  "participant_of db cid pid =
     (case pid of
        None \<Rightarrow> Inr None
      | Some i \<Rightarrow>
          (case row_at pt_id i (participants db) of
             None \<Rightarrow> Inl (Http 404 (Record Participant_not_found))
           | Some p \<Rightarrow>
               if pt_case p \<noteq> cid then Inl (Http 404 (Record Participant_not_found)) else Inr (Some p)))"

definition check_change ::
    "env \<Rightarrow> db \<Rightarrow> user \<Rightarrow> participant option \<Rightarrow> participant_change \<Rightarrow> failure + user option" where
  "check_change e db actor p d =
     then_do (named_account e db d) (\<lambda>account.
       if map_option us_id account = Some (us_id actor)
         \<or> Option.bind p pt_user = Some (us_id actor)
       then Inl (Http 409 (Record Own_participant_record))
       else if pa_access d \<and> pa_role d \<in> set counsel_roles \<and> \<not> counsel_matches d account
       then Inl (Http 422 (Record Counsel_bar_mismatch))
       else Inr account)"

definition change_details :: "int \<Rightarrow> user \<Rightarrow> string \<Rightarrow> json \<Rightarrow> json \<Rightarrow> json" where
  "change_details pid actor reason before after = JObj
     [(''participant_id'', JInt pid), (''actor_name'', JStr (full_name actor)),
      (''reason'', JStr reason), (''before'', before), (''after'', after)]"

text \<open>Writing the row, its review time and the audit entry; the result is the row.\<close>

definition enter_participant ::
    "env \<Rightarrow> user \<Rightarrow> int \<Rightarrow> participant option \<Rightarrow> participant_change \<Rightarrow> user option \<Rightarrow> db \<Rightarrow> participant \<times> db" where
  "enter_participant e actor cid p d account db =
     (let base = (case p of None \<Rightarrow> new_participant e db cid | Some q \<Rightarrow> q);
          p' = (apply_change d account base)\<lparr>pt_reviewed_at := Some (now e)\<rparr>;
          db1 = (case p of
                   None \<Rightarrow> participants_update (\<lambda>ps. ps @ [p']) db
                 | Some q \<Rightarrow> participants_update (upd_row pt_id (pt_id q) (\<lambda>_. p')) db)
      in (p', log_action e (Some (us_id actor))
            (if p = None then ''case.participant_created'' else ''case.participant_changed'') ''case'' (Some cid)
            (Some (change_details (pt_id p') actor (pa_reason d) (jopt participant_snapshot p)
              (participant_snapshot p'))) db1))"

definition change_participant ::
    "env \<Rightarrow> db \<Rightarrow> int \<Rightarrow> int \<Rightarrow> int option \<Rightarrow> participant_change \<Rightarrow> failure + participant \<times> db" where
  "change_participant e db uid cid pid d =
     (case find_user db uid of
        None \<Rightarrow> Inl (Http 403 (Account Account_unavailable))
      | Some actor \<Rightarrow>
          then_do (require_case_staff db actor cid) (\<lambda>c.
          if cs_participant_version c \<noteq> pa_version d then Inl (Http 409 (Record Participants_changed))
          else then_do (participant_of db cid pid) (\<lambda>p.
            then_do (check_change e db actor p d) (\<lambda>account.
            case (if p \<noteq> None \<and> pt_reviewed_at (the p) \<noteq> None \<and> apply_change d account (the p) = the p
                  then p else None) of
              Some q \<Rightarrow> Inr (q, db)
            | None \<Rightarrow>
                (case advance_participants id cid (pa_version d) db of
                   None \<Rightarrow> Inl (Http 409 (Record Participants_changed))
                 | Some db1 \<Rightarrow> Inr (enter_participant e actor cid p d account db1))))))"

definition save_participant ::
    "env \<Rightarrow> db \<Rightarrow> int \<Rightarrow> int \<Rightarrow> int option \<Rightarrow> participant_change \<Rightarrow> failure + participant \<times> db" where
  "save_participant e db uid cid pid d0 =
     (case parse_participant_change d0 of
        None \<Rightarrow> Inl (Http 422 Invalid_request) | Some d \<Rightarrow> change_participant e db uid cid pid d)"

section \<open>Public access\<close>

definition access_json :: "bool \<Rightarrow> int \<Rightarrow> json" where
  "access_json is_sealed v = JObj [(''is_sealed'', JBool is_sealed), (''participant_version'', JInt v)]"

definition takes_part :: "db \<Rightarrow> int \<Rightarrow> int \<Rightarrow> bool" where
  "takes_part db cid uid \<longleftrightarrow>
     (\<exists>p \<in> set (participants db). pt_case p = cid \<and> pt_user p = Some uid \<and> pt_active p)"

definition access_details :: "user \<Rightarrow> case_row \<Rightarrow> access_change \<Rightarrow> json" where
  "access_details actor c d = JObj
     [(''actor_name'', JStr (full_name actor)), (''case_number'', JStr (cs_number c)),
      (''reason'', JStr (ac_reason d)), (''authority_reference'', JStr (ac_authority d)),
      (''confirmed_public_release'', JBool (ac_confirm d)),
      (''before'', access_json (cs_sealed c) (cs_participant_version c)),
      (''after'', access_json (ac_sealed d) (ac_version d + 1))]"

definition change_public_access ::
    "env \<Rightarrow> db \<Rightarrow> int \<Rightarrow> int \<Rightarrow> access_change \<Rightarrow> failure + (bool \<times> int) \<times> db" where
  "change_public_access e db uid cid d0 =
     (case parse_access_change d0 of
        None \<Rightarrow> Inl (Http 422 Invalid_request)
      | Some d \<Rightarrow>
          then_do (lock_current_user db uid) (\<lambda>actor.
          then_do (require_case_staff db actor cid) (\<lambda>c.
          if takes_part db cid (us_id actor) then Inl (Http 403 (Record Own_case_access))
          else if cs_participant_version c \<noteq> ac_version d then Inl (Http 409 (Record Case_access_changed))
          else if cs_sealed c = ac_sealed d then Inr ((cs_sealed c, cs_participant_version c), db)
          else if \<not> ac_sealed d \<and> \<not> ac_confirm d then Inl (Http 422 (Record Confirm_release))
          else (case advance_participants (cs_sealed_update (\<lambda>_. ac_sealed d)) cid (ac_version d) db of
              None \<Rightarrow> Inl (Http 409 (Record Case_access_changed))
            | Some db1 \<Rightarrow>
                Inr ((ac_sealed d, ac_version d + 1),
                  log_action e (Some (us_id actor)) ''case.public_access_changed'' ''case'' (Some cid)
                    (Some (access_details actor c d)) db1)))))"

section \<open>Lists for court staff\<close>

definition court_cases ::
    "db \<Rightarrow> int \<Rightarrow> string option \<Rightarrow> int option \<Rightarrow> int \<Rightarrow> failure + case_row list \<times> int option" where
  "court_cases db court number before uid =
     (if \<not> is_court_staff db (Some uid) court then Inl (Http 403 (Account Staff_assignment_required))
      else let n = str_strip (or_text number []);
               rows = take 26 (rev (sort_key cs_id (filter (\<lambda>c. cs_court c = court
                   \<and> (n = [] \<or> cs_number c = n)
                   \<and> (case before of None \<Rightarrow> True | Some b \<Rightarrow> cs_id c < b)) (cases db))))
           in Inr (take 25 rows, if 25 < length rows then Some (cs_id (rows ! 24)) else None))"

definition participant_records ::
    "db \<Rightarrow> int \<Rightarrow> nat \<Rightarrow> user \<Rightarrow> failure + case_row \<times> (participant \<times> string option) list \<times> nat" where
  "participant_records db cid pg actor =
     then_do (require_case_staff db actor cid) (\<lambda>c.
       let ps = filter (\<lambda>p. pt_case p = cid) (participants db)
       in Inr (c, map (\<lambda>p. (p, map_option us_email (row_at_opt us_id (pt_user p) (users db))))
                (page_of pg 25 (sort_key pt_id ps)), length ps))"

definition participant_event :: "int \<Rightarrow> audit_entry \<Rightarrow> bool" where
  "participant_event cid a \<longleftrightarrow> au_entity a = ''case'' \<and> au_entity_id a = Some cid
     \<and> (starts_with (au_action a) ''case.participant'' \<or> au_action a = ''case.public_access_changed'')"

definition participant_history ::
    "db \<Rightarrow> int \<Rightarrow> nat \<Rightarrow> user \<Rightarrow> failure + audit_entry list \<times> nat" where
  "participant_history db cid pg actor =
     then_do (require_case_staff db actor cid) (\<lambda>c.
       let es = filter (participant_event cid) (audit db)
       in Inr (page_of pg 25 (rev es), length es))"

section \<open>Lemmas\<close>

lemma require_case_staff_Inr:
  "require_case_staff db actor cid = Inr c \<longleftrightarrow> find_case db cid = Some c \<and> us_active actor
     \<and> is_court_staff db (Some (us_id actor)) (cs_court c)"
  by (auto simp: require_case_staff_def split: option.splits if_splits)

lemma advance_participants_Some:
  assumes "advance_participants set_columns cid v db = Some db'" and "\<And>c. cs_id (set_columns c) = cs_id c"
  shows "\<exists>c. find_case db cid = Some c \<and> cs_participant_version c = v
    \<and> find_case db' cid = Some ((set_columns c)\<lparr>cs_participant_version := v + 1\<rparr>)
    \<and> db' = cases_update (upd_row cs_id cid (\<lambda>c. (set_columns c)\<lparr>cs_participant_version := v + 1\<rparr>)) db"
proof -
  from assms(1) obtain c where c: "find_case db cid = Some c" "cs_participant_version c = v"
    and db': "db' = cases_update (upd_row cs_id cid (\<lambda>c. (set_columns c)\<lparr>cs_participant_version := v + 1\<rparr>)) db"
    by (auto simp: advance_participants_def split: option.splits if_splits)
  have "find_case db' cid = map_option (\<lambda>c. (set_columns c)\<lparr>cs_participant_version := v + 1\<rparr>) (find_case db cid)"
    unfolding db' find_case_def by (rule case_tbl.lookup_modified) (simp add: assms(2))
  with c db' show ?thesis by simp
qed

lemma find_case_log [simp]: "find_case (log_action e u a en i d db) = find_case db"
  by (simp add: find_case_def fun_eq_iff)

lemma named_account_Some:
  assumes "named_account e db d = Inr (Some u)"
  shows "u \<in> set (users db) \<and> truthy (pa_email d) \<and> str_lower (us_email u) = str_lower (the (pa_email d))
    \<and> (\<forall>v \<in> set (users db). str_lower (us_email v) = str_lower (the (pa_email d)) \<longrightarrow> v = u)
    \<and> (pa_access d \<longrightarrow> account_linked e (Some u))"
proof -
  let ?P = "\<lambda>u. str_lower (us_email u) = str_lower (the (pa_email d))"
  from assms have f: "filter ?P (users db) = [u]" and t: "truthy (pa_email d)"
    and a: "pa_access d \<longrightarrow> account_linked e (Some u)"
    by (auto simp: named_account_def split: if_splits list.splits)
  from f have "set (filter ?P (users db)) = {u}" by simp
  then show ?thesis using t a by auto
qed

end
