(* ===== verification/ParticipantProofs.thy ===== *)
theory ParticipantProofs
  imports Participants Filing
begin

text \<open>
  Who gets access to a case: only other staff of its court change a participant, an enabled record
  is linked to an active account and counsel's to the matching verified bar number, and sealing a
  case takes it from the public at once.
\<close>

section \<open>The version of a case's access records\<close>

definition access_version :: "int \<Rightarrow> db \<Rightarrow> int" where
  "access_version cid db = (case find_case db cid of None \<Rightarrow> -1 | Some c \<Rightarrow> cs_participant_version c)"

definition set_sealed :: "int \<Rightarrow> bool \<Rightarrow> int \<Rightarrow> db \<Rightarrow> unit + db" where
  "set_sealed cid b v db =
     (case advance_participants (cs_sealed_update (\<lambda>_. b)) cid v db of None \<Rightarrow> Inl () | Some d \<Rightarrow> Inr d)"

lemma set_sealed_versions:
  assumes "set_sealed cid b v db = Inr db'"
  shows "access_version cid db = v" "access_version cid db' = v + 1"
proof -
  from assms have "advance_participants (cs_sealed_update (\<lambda>_. b)) cid v db = Some db'"
    by (auto simp: set_sealed_def split: option.splits)
  from advance_participants_Some [OF this] show "access_version cid db = v" "access_version cid db' = v + 1"
    by (auto simp: access_version_def)
qed

interpretation access_record: versioned_update "access_version cid" "set_sealed cid" for cid
  by unfold_locales (auto dest: set_sealed_versions)

section \<open>Changing a participant\<close>

lemma save_participant_Inr:
  assumes "save_participant e db uid cid pid d0 = Inr (p, db')"
  obtains d actor c p0 account where "parse_participant_change d0 = Some d" and "find_user db uid = Some actor"
    and "require_case_staff db actor cid = Inr c" and "cs_participant_version c = pa_version d"
    and "participant_of db cid pid = Inr p0" and "check_change e db actor p0 d = Inr account"
    and "p0 = Some p \<and> pt_reviewed_at p \<noteq> None \<and> apply_change d account p = p \<and> db' = db
      \<or> (\<exists>db1. advance_participants id cid (pa_version d) db = Some db1
          \<and> (p, db') = enter_participant e actor cid p0 d account db1)"
proof -
  from assms obtain d where d: "parse_participant_change d0 = Some d"
    and r: "change_participant e db uid cid pid d = Inr (p, db')"
    by (auto simp: save_participant_def split: option.splits)
  from r obtain actor c p0 account where
    s: "find_user db uid = Some actor" "require_case_staff db actor cid = Inr c"
      "cs_participant_version c = pa_version d" "participant_of db cid pid = Inr p0"
      "check_change e db actor p0 d = Inr account"
    and k: "(case (if p0 \<noteq> None \<and> pt_reviewed_at (the p0) \<noteq> None \<and> apply_change d account (the p0) = the p0
                  then p0 else None) of
              Some q \<Rightarrow> Inr (q, db)
            | None \<Rightarrow>
                (case advance_participants id cid (pa_version d) db of
                   None \<Rightarrow> Inl (Http 409 (Record Participants_changed))
                 | Some db1 \<Rightarrow> Inr (enter_participant e actor cid p0 d account db1))) = Inr (p, db')"
    by (auto simp: change_participant_def then_do_Inr_iff split: option.splits if_splits)
  from k have "p0 = Some p \<and> pt_reviewed_at p \<noteq> None \<and> apply_change d account p = p \<and> db' = db
      \<or> (\<exists>db1. advance_participants id cid (pa_version d) db = Some db1
          \<and> (p, db') = enter_participant e actor cid p0 d account db1)"
    by (auto split: if_splits option.splits)
  with d s show ?thesis by (intro that)
qed

lemma participant_of_Inr:
  assumes "participant_of db cid pid = Inr p0"
  shows "p0 = None \<or> (\<exists>q. p0 = Some q \<and> row_at pt_id (pt_id q) (participants db) = Some q \<and> pt_case q = cid)"
proof (cases p0)
  case (Some q)
  with assms obtain i where i: "row_at pt_id i (participants db) = Some q" and "pt_case q = cid"
    by (auto simp: participant_of_def split: option.splits if_splits)
  then show ?thesis using Some row_at_SomeD [OF i] by auto
qed simp

lemma enter_participant_row:
  assumes "(p, db') = enter_participant e actor cid p0 d account db"
    and "p0 = None \<or> (\<exists>q. p0 = Some q \<and> row_at pt_id (pt_id q) (participants db) = Some q \<and> pt_case q = cid)"
    and "fresh_keys e"
  shows "row_at pt_id (pt_id p) (participants db') = Some p \<and> pt_case p = cid
    \<and> pt_reviewed_at p \<noteq> None \<and> apply_change d account p = p
    \<and> (\<forall>i. i \<noteq> pt_id p \<longrightarrow> row_at pt_id i (participants db') = row_at pt_id i (participants db))
    \<and> (\<exists>a. audit db' = audit db @ [a] \<and> au_user a = Some (us_id actor))
    \<and> find_case db' = find_case db"
proof (cases p0)
  case None
  have "new_key e (map pt_id (participants db)) \<notin> pt_id ` set (participants db)"
    using assms(3) by (auto simp: fresh_keys_def dest: spec [of _ "map pt_id (participants db)"])
  then have n: "row_at pt_id (new_key e (map pt_id (participants db))) (participants db) = None"
    by (simp add: row_at_None_iff)
  with None assms(1) show ?thesis
    by (auto simp: enter_participant_def Let_def new_participant_def apply_change_def row_at_append
        find_case_def fun_eq_iff log_action_def split: option.splits)
next
  case (Some q)
  with assms(2) have q: "row_at pt_id (pt_id q) (participants db) = Some q" "pt_case q = cid" by auto
  from Some assms(1) have p: "p = (apply_change d account q)\<lparr>pt_reviewed_at := Some (now e)\<rparr>"
    and db': "participants db' = upd_row pt_id (pt_id q) (\<lambda>_. p) (participants db)"
    and r: "\<exists>a. audit db' = audit db @ [a] \<and> au_user a = Some (us_id actor)" "find_case db' = find_case db"
    by (auto simp: enter_participant_def Let_def find_case_def fun_eq_iff log_action_def)
  have id: "pt_id p = pt_id q" by (simp add: p apply_change_def)
  show ?thesis unfolding db'
    using q id r by (simp add: row_at_upd_same row_at_upd_other p apply_change_def)
qed

text \<open>A record that was checked and entered is a grant of its account.\<close>

lemma granted_access:
  assumes k: "check_change e db actor p0 d = Inr account" and a: "apply_change d account p = p"
    and v: "valid_participant_change d" and "pt_access p"
  shows "pt_active p \<and> (\<exists>u \<in> set (users db). pt_user p = Some (us_id u) \<and> account_linked e (Some u)
    \<and> us_active u \<and> us_id u \<noteq> us_id actor \<and> (pt_role p \<in> set counsel_roles \<longrightarrow> counsel_eligible u p))"
proof -
  have p: "pt_name p = pa_name d" "pt_role p = pa_role d" "pt_bar_number p = pa_bar_number d"
    "pt_active p = pa_active d" "pt_access p = pa_access d" "pt_user p = map_option us_id account"
    by (subst a [symmetric], simp add: apply_change_def)+
  from k have n: "named_account e db d = Inr account"
    and own: "map_option us_id account \<noteq> Some (us_id actor)"
    and cm: "pa_access d \<and> pa_role d \<in> set counsel_roles \<longrightarrow> counsel_matches d account"
    by (auto simp: check_change_def then_do_Inr_iff split: if_splits)
  from assms(4) p v have act: "pa_active d" "truthy (pa_email d)" "pa_access d"
    by (auto simp: valid_participant_change_def)
  with n obtain u where u: "account = Some u"
    by (auto simp: named_account_def split: if_splits list.splits)
  from named_account_Some [OF n [unfolded u]] have "u \<in> set (users db)" "account_linked e (Some u)"
    using act by auto
  moreover from this(2) have "us_active u" by (simp add: account_linked_def)
  moreover have "pt_role p \<in> set counsel_roles \<longrightarrow> counsel_eligible u p"
    using cm act p u by (auto simp: counsel_matches_def counsel_eligible_def)
  ultimately show ?thesis using own p u act by auto
qed

lemma parse_participant_version: "parse_participant_change d0 = Some d \<Longrightarrow> pa_version d = pa_version d0 \<and> valid_participant_change d"
  by (auto simp: parse_participant_change_def Let_def split: option.splits if_splits)

lemma parse_access_fields:
  "parse_access_change d0 = Some d \<Longrightarrow>
     ac_version d = ac_version d0 \<and> ac_sealed d = ac_sealed d0 \<and> ac_confirm d = ac_confirm d0"
  by (auto simp: parse_access_change_def split: option.splits if_splits)

lemma change_public_access_Inr:
  assumes "change_public_access e db uid cid d0 = Inr ((b, v), db')"
  obtains actor c d where "lock_current_user db uid = Inr actor" and "require_case_staff db actor cid = Inr c"
    and "\<not> takes_part db cid uid" and "ac_version d0 = cs_participant_version c" and "b = ac_sealed d0"
    and "cs_sealed c \<and> \<not> b \<longrightarrow> ac_confirm d0"
    and "cs_sealed c = b \<and> db' = db
      \<or> cs_sealed c \<noteq> b \<and> (\<exists>db1. set_sealed cid b (ac_version d0) db = Inr db1
          \<and> db' = log_action e (Some uid) ''case.public_access_changed'' ''case'' (Some cid)
              (Some (access_details actor c d)) db1)"
proof -
  from assms obtain d where d: "parse_access_change d0 = Some d"
    by (auto simp: change_public_access_def split: option.splits)
  note f = parse_access_fields [OF d]
  from assms d obtain actor c where a: "lock_current_user db uid = Inr actor" "require_case_staff db actor cid = Inr c"
    by (auto simp: change_public_access_def then_do_Inr_iff)
  then have "us_id actor = uid" by (auto simp: lock_current_user_Inr dest: find_user_id)
  with assms d a f have "\<not> takes_part db cid uid \<and> ac_version d0 = cs_participant_version c \<and> b = ac_sealed d0
      \<and> (cs_sealed c \<and> \<not> b \<longrightarrow> ac_confirm d0)
      \<and> (cs_sealed c = b \<and> db' = db
        \<or> cs_sealed c \<noteq> b \<and> (\<exists>db1. set_sealed cid b (ac_version d0) db = Inr db1
            \<and> db' = log_action e (Some uid) ''case.public_access_changed'' ''case'' (Some cid)
                (Some (access_details actor c d)) db1))"
    by (auto simp: change_public_access_def set_sealed_def split: if_splits option.splits)
  with a show ?thesis by (intro that) auto
qed

text \<open>A sealed case is closed to the public, its documents included.\<close>

lemma sealed_is_closed:
  assumes "unique_key cs_id (cases db)" and "find_case db cid = Some c" and "cs_sealed c"
  shows "\<not> may_read_case db None cid
    \<and> (\<forall>d f. find_filing db (dc_envelope d) = Some f \<and> fe_case f = Some cid \<longrightarrow> \<not> may_read_document db None d)"
proof -
  have "c' = c" if "c' \<in> set (cases db)" "cs_id c' = cid" for c'
    using row_at_unique [OF assms(1) that(1)] that assms(2) by (simp add: find_case_def)
  with assms(3) have "\<not> may_read_case db None cid" by (auto simp: may_read_case_def case_visible_def)
  with assms(2,3) show ?thesis
    by (auto simp: may_read_document_def may_read_filing_envelope_def may_read_sealed_case_def find_case_def
        split: if_splits)
qed

section \<open>Properties\<close>

text \<open>C13: who takes part in a case is decided by active court staff other than the account concerned,
  against the version of the case's records they saw: the record that results is reviewed and of that
  case; if it gives access then it is active and its one linked account is active, known to the
  identity provider (outside demonstration mode) and not the reviewer's, a counsel record has that
  attorney's verified bar number, and the account now holds a grant. A change touches no other
  participant, advances the version and is audited; repeating a reviewed record changes nothing.\<close>
theorem participant_access_reviewed:
  assumes "save_participant e db uid cid pid d0 = Inr (p, db')" and "fresh_keys e"
  shows "\<exists>actor c. find_user db uid = Some actor \<and> us_active actor \<and> find_case db cid = Some c
    \<and> is_court_staff db (Some uid) (cs_court c) \<and> cs_participant_version c = pa_version d0
    \<and> row_at pt_id (pt_id p) (participants db') = Some p \<and> pt_case p = cid \<and> pt_reviewed_at p \<noteq> None
    \<and> (pt_access p \<longrightarrow> pt_active p \<and> (\<exists>u \<in> set (users db). pt_user p = Some (us_id u) \<and> us_id u \<noteq> uid
         \<and> us_active u \<and> account_linked e (Some u) \<and> participant_grant db' u cid
         \<and> (pt_role p \<in> set counsel_roles \<longrightarrow> counsel_eligible u p)))
    \<and> (db' = db \<or> access_version cid db' = access_version cid db + 1
         \<and> (\<forall>i. i \<noteq> pt_id p \<longrightarrow> row_at pt_id i (participants db') = row_at pt_id i (participants db))
         \<and> (\<exists>a. audit db' = audit db @ [a] \<and> au_user a = Some uid))"
  using assms(1)
proof (rule save_participant_Inr)
  fix d actor c p0 account
  assume d: "parse_participant_change d0 = Some d" and u: "find_user db uid = Some actor"
    and c: "require_case_staff db actor cid = Inr c" and v: "cs_participant_version c = pa_version d"
    and p0: "participant_of db cid pid = Inr p0" and k: "check_change e db actor p0 d = Inr account"
    and out: "p0 = Some p \<and> pt_reviewed_at p \<noteq> None \<and> apply_change d account p = p \<and> db' = db
      \<or> (\<exists>db1. advance_participants id cid (pa_version d) db = Some db1
          \<and> (p, db') = enter_participant e actor cid p0 d account db1)"
  note id = find_user_id [OF u] and pv = parse_participant_version [OF d]
  have old: "p0 = None \<or> (\<exists>q. p0 = Some q \<and> row_at pt_id (pt_id q) (participants db) = Some q \<and> pt_case q = cid)"
    using participant_of_Inr [OF p0] .
  have row: "row_at pt_id (pt_id p) (participants db') = Some p \<and> pt_case p = cid \<and> pt_reviewed_at p \<noteq> None
      \<and> apply_change d account p = p \<and> (db' = db \<or> access_version cid db' = access_version cid db + 1
         \<and> (\<forall>i. i \<noteq> pt_id p \<longrightarrow> row_at pt_id i (participants db') = row_at pt_id i (participants db))
         \<and> (\<exists>a. audit db' = audit db @ [a] \<and> au_user a = Some uid))"
  proof (cases "p0 = Some p \<and> pt_reviewed_at p \<noteq> None \<and> apply_change d account p = p \<and> db' = db")
    case True
    with old show ?thesis by auto
  next
    case False
    with out obtain db1 where a: "advance_participants id cid (pa_version d) db = Some db1"
      and n: "(p, db') = enter_participant e actor cid p0 d account db1" by auto
    from advance_participants_Some [OF a] have db1: "participants db1 = participants db" "audit db1 = audit db"
      "access_version cid db1 = access_version cid db + 1" by (auto simp: access_version_def)
    from enter_participant_row [OF n _ assms(2)] old db1 id show ?thesis
      by (simp add: access_version_def)
  qed
  have "participant_grant db' u cid" if "pt_user p = Some (us_id u)" "pt_active p" "pt_access p"
      "pt_role p \<in> set counsel_roles \<longrightarrow> counsel_eligible u p" for u
    using that row row_at_SomeD [of pt_id "pt_id p" "participants db'" p] by (auto simp: participant_grant_def)
  with granted_access [OF k, of p] row pv id
  have "pt_access p \<longrightarrow> pt_active p \<and> (\<exists>u \<in> set (users db). pt_user p = Some (us_id u) \<and> us_id u \<noteq> uid
         \<and> us_active u \<and> account_linked e (Some u) \<and> participant_grant db' u cid
         \<and> (pt_role p \<in> set counsel_roles \<longrightarrow> counsel_eligible u p))" by blast
  with row c u v pv id show ?thesis by (auto simp: require_case_staff_Inr)
qed

text \<open>Public access to a case is changed only by active staff of its court who take no part in
  it, against the version they saw, and given back to the public only when they confirm the court's
  instruction. From then on a sealed case and every document of its filings are closed to the
  public; other cases are untouched and a change advances the version.\<close>
theorem public_access_decided:
  assumes "change_public_access e db uid cid d0 = Inr ((b, v), db')" and "unique_key cs_id (cases db)"
  shows "\<exists>actor c c'. find_user db uid = Some actor \<and> us_active actor \<and> find_case db cid = Some c
    \<and> is_court_staff db (Some uid) (cs_court c) \<and> \<not> takes_part db cid uid
    \<and> cs_participant_version c = ac_version d0 \<and> b = ac_sealed d0 \<and> (cs_sealed c \<and> \<not> b \<longrightarrow> ac_confirm d0)
    \<and> find_case db' cid = Some c' \<and> cs_sealed c' = b \<and> (\<forall>i. i \<noteq> cid \<longrightarrow> find_case db' i = find_case db i)
    \<and> (cs_sealed c \<noteq> b \<longrightarrow> cs_participant_version c' = ac_version d0 + 1)
    \<and> (b \<longrightarrow> \<not> may_read_case db' None cid \<and> (\<forall>d f. find_filing db' (dc_envelope d) = Some f
         \<and> fe_case f = Some cid \<longrightarrow> \<not> may_read_document db' None d))"
  using assms(1)
proof (rule change_public_access_Inr)
  fix actor c d
  assume l: "lock_current_user db uid = Inr actor" "require_case_staff db actor cid = Inr c"
      "\<not> takes_part db cid uid" "ac_version d0 = cs_participant_version c" "b = ac_sealed d0"
      "cs_sealed c \<and> \<not> b \<longrightarrow> ac_confirm d0"
    and out: "cs_sealed c = b \<and> db' = db
      \<or> cs_sealed c \<noteq> b \<and> (\<exists>db1. set_sealed cid b (ac_version d0) db = Inr db1
          \<and> db' = log_action e (Some uid) ''case.public_access_changed'' ''case'' (Some cid)
              (Some (access_details actor c d)) db1)"
  from out obtain c' where c': "find_case db' cid = Some c'" "cs_sealed c' = b"
      "\<forall>i. i \<noteq> cid \<longrightarrow> find_case db' i = find_case db i"
      "cs_sealed c \<noteq> b \<longrightarrow> cs_participant_version c' = ac_version d0 + 1" "unique_key cs_id (cases db')"
  proof (elim disjE conjE exE)
    assume "cs_sealed c = b" "db' = db"
    with l(2) assms(2) that [of c] show ?thesis by (simp add: require_case_staff_Inr)
  next
    fix db1 assume "set_sealed cid b (ac_version d0) db = Inr db1"
      and db': "db' = log_action e (Some uid) ''case.public_access_changed'' ''case'' (Some cid)
              (Some (access_details actor c d)) db1"
    then have "advance_participants (cs_sealed_update (\<lambda>_. b)) cid (ac_version d0) db = Some db1"
      by (auto simp: set_sealed_def split: option.splits)
    from advance_participants_Some [OF this] obtain c0 where
      f: "find_case db1 cid = Some (c0\<lparr>cs_sealed := b, cs_participant_version := ac_version d0 + 1\<rparr>)"
      and db1: "db1 = cases_update (upd_row cs_id cid
        (\<lambda>c. c\<lparr>cs_sealed := b, cs_participant_version := ac_version d0 + 1\<rparr>)) db" by auto
    have "find_case db1 i = find_case db i" if "i \<noteq> cid" for i
      unfolding db1 find_case_def by (rule case_tbl.lookup_untouched) (use that in auto)
    moreover have "unique_key cs_id (cases db1)"
      unfolding db1 using assms(2) by (subst case_tbl.unique_modified) auto
    ultimately show ?thesis using f that [of "c0\<lparr>cs_sealed := b, cs_participant_version := ac_version d0 + 1\<rparr>"]
      by (simp add: db')
  qed
  with l sealed_is_closed [OF c'(5,1)] show ?thesis
    by (auto simp: lock_current_user_Inr require_case_staff_Inr dest: find_user_id)
qed

section \<open>An example\<close>

text \<open>Staff of the court give the account of the example's participant access to its case, and open
  the case to the public.\<close>

definition reviewer_user :: user where
  "reviewer_user = example_participant_user\<lparr>us_id := 9, us_type := ClerkUser, us_email := ''c@x''\<rparr>"

definition review_court_db :: db where
  "review_court_db = example_court_db\<lparr>users := [example_participant_user, reviewer_user],
     court_roles := [\<lparr>ur_id = 1, ur_user = 9, ur_court = 3, ur_role = ClerkRole\<rparr>]\<rparr>"

definition grant_change :: participant_change where
  "grant_change = \<lparr>pa_name = ''A B'', pa_role = Petitioner, pa_email = Some ''a@x'', pa_bar_number = None,
     pa_represents = None, pa_active = True, pa_access = True, pa_version = 0, pa_reason = ''order''\<rparr>"

definition seal_change :: access_change where
  "seal_change = \<lparr>ac_version = 0, ac_sealed = False, ac_confirm = True, ac_reason = ''order'',
     ac_authority = ''MCR 8.119''\<rparr>"

lemma grant_change_run:
  "\<exists>p db'. save_participant example_env review_court_db 9 7 (Some 2) grant_change = Inr (p, db') \<and> pt_access p"
proof -
  have "case save_participant example_env review_court_db 9 7 (Some 2) grant_change of
      Inr (p, db) \<Rightarrow> pt_access p | Inl x \<Rightarrow> False" by code_simp
  then show ?thesis by (auto split: sum.splits)
qed

theorem participant_access_reviewed_witness:
  "\<exists>p db' u. save_participant example_env review_court_db 9 7 (Some 2) grant_change = Inr (p, db')
     \<and> u \<in> set (users review_court_db) \<and> pt_user p = Some (us_id u) \<and> participant_grant db' u 7"
  using grant_change_run participant_access_reviewed [OF _ example_env_fresh] by blast

lemma unseal_run:
  "\<exists>v db'. change_public_access example_env review_court_db 9 7 seal_change = Inr ((False, v), db')"
proof -
  have "case change_public_access example_env review_court_db 9 7 seal_change of
      Inr ((b, v), db) \<Rightarrow> \<not> b | Inl x \<Rightarrow> False" by code_simp
  then show ?thesis by (auto split: sum.splits)
qed

theorem public_access_decided_witness:
  "\<exists>v db' c'. change_public_access example_env review_court_db 9 7 seal_change = Inr ((False, v), db')
     \<and> find_case db' 7 = Some c' \<and> \<not> cs_sealed c' \<and> \<not> takes_part review_court_db 7 9"
proof -
  have "unique_key cs_id (cases review_court_db)"
    by (simp add: unique_key_def review_court_db_def example_court_db_def)
  with unseal_run public_access_decided [of example_env review_court_db 9 7 seal_change False]
  show ?thesis by blast
qed

end
