(* ===== verification/ServiceInstructions.thy ===== *)
theory ServiceInstructions
  imports Participants
begin

text \<open>
  The service instructions of a participant (\<open>api/service_contacts.py\<close>): court staff review how
  documents reach a participant, against the versions of the instructions and of the participant
  records; active instructions must have nothing against their routing.
\<close>

record contact_change =
  cc_method :: service_method
  cc_email :: "string option"
  cc_address :: "string option"
  cc_active :: bool
  cc_authority :: string
  cc_reason :: string
  cc_version :: int
  cc_participant_version :: int

definition destination_matches :: "contact_change \<Rightarrow> bool" where
  "destination_matches d =
     (if cc_method d = Electronic then truthy (cc_email d) \<and> \<not> truthy (cc_address d)
      else truthy (cc_address d) \<and> \<not> truthy (cc_email d))"

text \<open>The address is what the email type of the request model accepted.\<close>

definition parse_contact_change :: "contact_change \<Rightarrow> contact_change option" where
  "parse_contact_change d =
     (case (stripped_opt 2000 (cc_address d), stripped_text 1000 (cc_authority d),
            stripped_text 1000 (cc_reason d)) of
        (Some a, Some au, Some r) \<Rightarrow>
          let d' = d\<lparr>cc_address := a, cc_authority := au, cc_reason := r\<rparr>
          in if destination_matches d' \<and> valid_version (cc_version d) \<and> valid_version (cc_participant_version d)
               \<and> (case cc_email d of None \<Rightarrow> True | Some m \<Rightarrow> length m \<le> 255)
             then Some d' else None
      | _ \<Rightarrow> None)"

section \<open>Reading\<close>

record instructions_view =
  iv_case :: case_row
  iv_participant :: participant
  iv_verified_email :: "string option"
  iv_can_edit :: bool
  iv_contact :: "service_contact option"
  iv_issues :: "routing_issue list"

definition contact_of :: "db \<Rightarrow> int \<Rightarrow> service_contact option" where
  "contact_of db pid = List.find (\<lambda>ct. sc_participant ct = Some pid) (contacts db)"

definition account_of :: "db \<Rightarrow> participant \<Rightarrow> user option" where
  "account_of db p = (case pt_user p of None \<Rightarrow> None | Some i \<Rightarrow> if i = 0 then None else find_user db i)"

definition service_instructions :: "env \<Rightarrow> db \<Rightarrow> int \<Rightarrow> int \<Rightarrow> user \<Rightarrow> failure + instructions_view" where
  "service_instructions e db cid pid actor =
     then_do (require_case_staff db actor cid) (\<lambda>c.
       case row_at pt_id pid (participants db) of
         None \<Rightarrow> Inl (Http 404 (Record Participant_not_found))
       | Some p \<Rightarrow>
           if pt_case p \<noteq> cid then Inl (Http 404 (Record Participant_not_found))
           else let account = account_of db p;
                    ct = List.find (\<lambda>x. sc_participant x = Some pid \<and> sc_case x = cid) (contacts db)
                in Inr \<lparr>iv_case = c, iv_participant = p,
                     iv_verified_email = Option.bind account us_verified_email,
                     iv_can_edit = (pt_user p \<noteq> Some (us_id actor) \<and> Option.bind ct sc_user \<noteq> Some (us_id actor)),
                     iv_contact = ct,
                     iv_issues = (case ct of None \<Rightarrow> [] | Some x \<Rightarrow> routing_issues e c p account x)\<rparr>)"

section \<open>Changing\<close>

text \<open>The columns a review sets, on a contact row.\<close>

definition instruct :: "participant \<Rightarrow> contact_change \<Rightarrow> service_contact \<Rightarrow> service_contact" where
  "instruct p d ct = ct\<lparr>sc_snapshot := Some (participant_snapshot p), sc_user := pt_user p,
     sc_name := pt_name p, sc_method := cc_method d,
     sc_email := (if truthy (cc_email d) then Some (str_lower (the (cc_email d))) else None),
     sc_address := cc_address d, sc_active := cc_active d, sc_authority := Some (cc_authority d)\<rparr>"

definition blank_contact :: "int \<Rightarrow> int \<Rightarrow> int \<Rightarrow> service_contact" where
  "blank_contact i cid pid =
     \<lparr>sc_id = i, sc_case = cid, sc_user = None, sc_name = [], sc_email = None, sc_method = Electronic,
      sc_address = None, sc_participant = Some pid, sc_snapshot = None, sc_active = False,
      sc_authority = None, sc_reviewed_at = None, sc_reviewer = None, sc_version = 0\<rparr>"

definition check_instructions ::
    "env \<Rightarrow> db \<Rightarrow> case_row \<Rightarrow> user \<Rightarrow> participant \<Rightarrow> service_contact option \<Rightarrow> contact_change \<Rightarrow> failure + unit" where
  "check_instructions e db c actor p ct d =
     (if pt_user p = Some (us_id actor) \<or> Option.bind ct sc_user = Some (us_id actor)
      then Inl (Http 409 (Service Own_instructions))
      else if map_option sc_case ct \<noteq> None \<and> map_option sc_case ct \<noteq> Some (cs_id c)
      then Inl (Http 409 (Service Contact_of_other_case))
      else if (case ct of None \<Rightarrow> 0 | Some x \<Rightarrow> sc_version x) \<noteq> cc_version d
      then Inl (Http 409 (Service Instructions_changed))
      else let is = routing_issues e c p (account_of db p) (instruct p d (blank_contact 0 (cs_id c) (pt_id p))) in
        if cc_active d \<and> is \<noteq> [] then Inl (Http 422 (Service (Routing_blocked (issues_text is)))) else Inr ())"

definition enter_instructions ::
    "env \<Rightarrow> user \<Rightarrow> case_row \<Rightarrow> participant \<Rightarrow> service_contact option \<Rightarrow> contact_change \<Rightarrow> db \<Rightarrow> service_contact \<times> db" where
  "enter_instructions e actor c p ct d db =
     (let base = (case ct of None \<Rightarrow> blank_contact (new_key e (map sc_id (contacts db))) (cs_id c) (pt_id p)
                  | Some x \<Rightarrow> x);
          ct' = (instruct p d base)\<lparr>sc_version := cc_version d + 1, sc_reviewed_at := Some (now e),
                  sc_reviewer := Some (us_id actor)\<rparr>;
          db1 = (case ct of
                   None \<Rightarrow> contacts_update (\<lambda>cs. cs @ [ct']) db
                 | Some x \<Rightarrow> contacts_update (upd_row sc_id (sc_id x) (\<lambda>_. ct')) db)
      in (ct', log_action e (Some (us_id actor)) ''case.service_contact_changed'' ''case'' (Some (cs_id c))
            (Some (change_details (pt_id p) actor (cc_reason d) (jopt contact_snapshot ct)
              (contact_snapshot ct'))) db1))"

definition save_service_instructions ::
    "env \<Rightarrow> db \<Rightarrow> int \<Rightarrow> int \<Rightarrow> contact_change \<Rightarrow> int \<Rightarrow> failure + service_contact \<times> db" where
  "save_service_instructions e db cid pid d0 uid =
     (case parse_contact_change d0 of
        None \<Rightarrow> Inl (Http 422 Invalid_request)
      | Some d \<Rightarrow>
     (case find_user db uid of
        None \<Rightarrow> Inl (Http 403 (Account Account_unavailable))
      | Some actor \<Rightarrow>
          then_do (require_case_staff db actor cid) (\<lambda>c.
          if cs_participant_version c \<noteq> cc_participant_version d
          then Inl (Http 409 (Record Participants_changed))
          else case List.find (\<lambda>p. pt_id p = pid \<and> pt_case p = cid) (participants db) of
            None \<Rightarrow> Inl (Http 404 (Record Participant_not_found))
          | Some p \<Rightarrow>
              then_do (check_instructions e db c actor p (contact_of db pid) d) (\<lambda>_.
              case contact_of db pid of
                Some x \<Rightarrow>
                  if instruct p d x = x then Inr (x, db) else Inr (enter_instructions e actor c p (Some x) d db)
              | None \<Rightarrow> Inr (enter_instructions e actor c p None d db)))))"

definition instructions_event :: "int \<Rightarrow> int \<Rightarrow> audit_entry \<Rightarrow> bool" where
  "instructions_event cid pid a \<longleftrightarrow> au_entity a = ''case'' \<and> au_entity_id a = Some cid
     \<and> au_action a = ''case.service_contact_changed''
     \<and> Option.bind (au_details a) (jget ''participant_id'') = Some (JInt pid)"

definition service_instruction_history ::
    "db \<Rightarrow> int \<Rightarrow> int \<Rightarrow> nat \<Rightarrow> user \<Rightarrow> failure + audit_entry list \<times> nat" where
  "service_instruction_history db cid pid pg actor =
     then_do (require_case_staff db actor cid) (\<lambda>c.
       let es = filter (instructions_event cid pid) (audit db)
       in Inr (page_of pg 25 (rev es), length es))"

section \<open>Lemmas\<close>

text \<open>What a review leaves can be used for routing as it stands, when it is active: the routing
  reads only the columns the review sets.\<close>

lemma routing_issues_instructed:
  "routing_issues e c p account (instruct p d ct) = routing_issues e c p account (instruct p d ct')"
  by (simp add: routing_issues_def instruct_def verified_for_def)

lemma save_service_instructions_usable:
  assumes "save_service_instructions e db cid pid d0 uid = Inr (ct, db')" and "sc_active ct"
  shows "\<exists>c p. find_case db cid = Some c \<and> p \<in> set (participants db) \<and> pt_id p = pid \<and> pt_case p = cid
    \<and> pt_user p \<noteq> Some uid \<and> sc_user ct = pt_user p \<and> routing_issues e c p (account_of db p) ct = []"
proof -
  from assms(1) obtain d where d: "parse_contact_change d0 = Some d"
    by (auto simp: save_service_instructions_def split: option.splits)
  from assms(1) d obtain actor where u: "find_user db uid = Some actor"
    by (auto simp: save_service_instructions_def split: option.splits)
  note step = assms(1) [unfolded save_service_instructions_def d u option.case then_do_Inr_iff]
  from step obtain c where c: "require_case_staff db actor cid = Inr c" by blast
  from step c obtain p where p: "List.find (\<lambda>p. pt_id p = pid \<and> pt_case p = cid) (participants db) = Some p"
    by (cases "List.find (\<lambda>p. pt_id p = pid \<and> pt_case p = cid) (participants db)") (auto split: if_splits)
  from step c p have k: "check_instructions e db c actor p (contact_of db pid) d = Inr ()"
    by (auto simp: then_do_Inr_iff split: if_splits)
  from step c p k have r: "(case contact_of db pid of
                Some x \<Rightarrow>
                  if instruct p d x = x then Inr (x, db) else Inr (enter_instructions e actor c p (Some x) d db)
              | None \<Rightarrow> Inr (enter_instructions e actor c p None d db)) = (Inr (ct, db') :: failure + service_contact \<times> db)"
    by (simp split: if_splits)
  let ?fresh = "instruct p d (blank_contact 0 (cs_id c) (pt_id p))"
  have read: "sc_active (instruct p d x) = cc_active d" "sc_user (instruct p d x) = pt_user p"
    "routing_issues e c p (account_of db p) (instruct p d x) = routing_issues e c p (account_of db p) ?fresh"
    "routing_issues e c p (account_of db p) ((instruct p d x)\<lparr>sc_version := v, sc_reviewed_at := t, sc_reviewer := u'\<rparr>)
      = routing_issues e c p (account_of db p) ?fresh" for x v t u'
    by (simp_all add: instruct_def routing_issues_def verified_for_def)
  have out: "sc_active ct = cc_active d \<and> sc_user ct = pt_user p
      \<and> routing_issues e c p (account_of db p) ct = routing_issues e c p (account_of db p) ?fresh"
  proof (cases "\<exists>x. contact_of db pid = Some x \<and> instruct p d x = x")
    case True
    with r have "instruct p d ct = ct" by auto
    with read(1-3) [of ct] show ?thesis by simp
  next
    case False
    with r obtain x where "ct = (instruct p d x)\<lparr>sc_version := cc_version d + 1, sc_reviewed_at := Some (now e),
        sc_reviewer := Some (us_id actor)\<rparr>"
      by (cases "contact_of db pid") (auto simp: enter_instructions_def Let_def)
    with read show ?thesis by simp
  qed
  with assms(2) have act: "cc_active d" by simp
  from k act have "routing_issues e c p (account_of db p) (instruct p d (blank_contact 0 (cs_id c) (pt_id p))) = []"
    and "pt_user p \<noteq> Some (us_id actor)"
    by (auto simp: check_instructions_def Let_def split: if_splits)
  with out c u find_SomeD [OF p] find_user_id [OF u] show ?thesis
    by (intro exI [of _ c] exI [of _ p]) (auto simp: require_case_staff_Inr)
qed

end
