(* ===== verification/SignIn.thy ===== *)
theory SignIn
  imports Administration
begin

text \<open>
  Who a request comes from (\<open>api/auth.py\<close>, \<open>services/user_provision_service.py\<close>,
  \<open>security/demo_auth.py\<close>, \<open>utils/http_context.py\<close>): the account of an access token, linked or
  created at the first sign-in, the account of the demonstration headers, self-registration, and the
  address the audit log and the rate limit take for the client. Decoding a token and normalizing an
  address are the functions of external packages.
\<close>

section \<open>The identity provider's claims\<close>

text \<open>The claims a token carries, as JSON values; an absent claim is a null.\<close>

record claims =
  cl_sub :: json
  cl_email :: json
  cl_email_verified :: json
  cl_given_name :: "string option"
  cl_first_name :: "string option"
  cl_family_name :: "string option"
  cl_last_name :: "string option"

datatype token = Claims claims | TokenInvalid | ProviderUnavailable

text \<open>The settings of the sign-in, the decoder and the address normalization.\<close>

record identity =
  id_demo_secret :: string
  id_isolated_sessions :: bool
  id_public_registration :: bool
  id_provision :: bool
  id_decode :: "string \<Rightarrow> token"
  id_normalize :: "string \<Rightarrow> string option"

definition claimed_verified :: "json \<Rightarrow> bool" where
  "claimed_verified j =
     (case j of JBool b \<Rightarrow> b | JStr s \<Rightarrow> str_lower (str_strip s) = ''true'' | _ \<Rightarrow> False)"

definition verified_email_from_claims :: "identity \<Rightarrow> claims \<Rightarrow> string option" where
  "verified_email_from_claims i c =
     (if \<not> claimed_verified (cl_email_verified c) then None
      else case cl_email c of
        JStr s \<Rightarrow> map_option str_lower (id_normalize i (str_strip s))
      | _ \<Rightarrow> None)"

definition sync_verified_email :: "identity \<Rightarrow> claims \<Rightarrow> user \<Rightarrow> user" where
  "sync_verified_email i c u = u\<lparr>us_verified_email :=
     (let m = verified_email_from_claims i c in if m = Some (str_lower (str_strip (us_email u))) then m else None)\<rparr>"

definition store_user :: "user \<Rightarrow> db \<Rightarrow> db" where
  "store_user u db = users_update (upd_row us_id (us_id u) (\<lambda>_. u)) db"

definition claimed_name :: "string option \<Rightarrow> string option \<Rightarrow> string \<Rightarrow> string" where
  "claimed_name a b fallback =
     (let s = str_strip (or_text a (or_text b [])) in if s = [] then fallback else s)"

definition privileged :: "user \<Rightarrow> bool" where
  "privileged u \<longleftrightarrow> us_type u \<in> {AdminUser, ClerkUser, JudgeUser} \<or> truthy (us_bar_number u)"

definition provision_user_from_oidc :: "env \<Rightarrow> identity \<Rightarrow> db \<Rightarrow> string \<Rightarrow> claims \<Rightarrow> user option \<times> db" where
  "provision_user_from_oidc e i db sub c =
     (case verified_email_from_claims i c of
        None \<Rightarrow> (None, db)
      | Some email \<Rightarrow>
          (case filter (\<lambda>u. str_lower (us_email u) = email) (users db) of
             [] \<Rightarrow>
               let u = (new_account e db)\<lparr>us_email := email, us_verified_email := Some email,
                     us_first_name := take 100 (claimed_name (cl_given_name c) (cl_first_name c) ''User''),
                     us_last_name := take 100 (claimed_name (cl_family_name c) (cl_last_name c) ''Name''),
                     us_type := SelfRepresented, us_keycloak := Some sub\<rparr>
               in (Some u, users_update (\<lambda>us. us @ [u]) db)
           | [u] \<Rightarrow>
               if truthy (us_keycloak u) then (if us_keycloak u \<noteq> Some sub then (None, db) else (Some u, db))
               else if privileged u then (None, db)
               else let u' = sync_verified_email i c (u\<lparr>us_keycloak := Some sub\<rparr>) in (Some u', store_user u' db)
           | _ \<Rightarrow> (None, db)))"

section \<open>The current user\<close>

definition bearer_token :: "string option \<Rightarrow> string option" where
  "bearer_token authorization =
     (case authorization of
        None \<Rightarrow> None
      | Some a \<Rightarrow>
          if starts_with a ''Bearer '' then (let t = str_strip (drop 7 a) in if t = [] then None else Some t)
          else None)"

definition demo_headers_permitted :: "env \<Rightarrow> identity \<Rightarrow> string option \<Rightarrow> bool" where
  "demo_headers_permitted e i secret =
     (if \<not> st_allow_demo (cfg e) then False
      else if st_debug (cfg e) then True
      else if id_demo_secret i = [] then id_isolated_sessions i
      else or_text secret [] = id_demo_secret i)"

definition demo_permitted :: "env \<Rightarrow> identity \<Rightarrow> int option \<Rightarrow> string option \<Rightarrow> bool" where
  "demo_permitted e i demo_id secret \<longleftrightarrow>
     st_allow_demo (cfg e) \<and> demo_id \<noteq> None \<and> demo_headers_permitted e i secret"

definition account_with_subject :: "db \<Rightarrow> string \<Rightarrow> user option" where
  "account_with_subject db sub = List.find (\<lambda>u. us_keycloak u = Some sub) (users db)"

text \<open>The account of a subject, linked or created when the settings allow it.\<close>

definition subject_account :: "env \<Rightarrow> identity \<Rightarrow> db \<Rightarrow> string \<Rightarrow> claims \<Rightarrow> user option \<times> db" where
  "subject_account e i db sub c =
     (case account_with_subject db sub of
        Some u \<Rightarrow> (Some u, db)
      | None \<Rightarrow> if id_provision i then provision_user_from_oidc e i db sub c else (None, db))"

text \<open>The account of a token: a refusal, an account, or none so that the demonstration headers are
  tried; the database may have changed.\<close>

definition token_account ::
    "env \<Rightarrow> identity \<Rightarrow> db \<Rightarrow> bool \<Rightarrow> bool \<Rightarrow> string \<Rightarrow> failure + user option \<times> db" where
  "token_account e i db required demo t =
     (case id_decode i t of
        ProviderUnavailable \<Rightarrow> Inl (Http 503 (Account Signin_unavailable))
      | TokenInvalid \<Rightarrow>
          if required \<and> \<not> demo then Inl (Http 401 (Account Signin_invalid)) else Inr (None, db)
      | Claims c \<Rightarrow>
          (let sub = (case cl_sub c of JStr s \<Rightarrow> s | _ \<Rightarrow> []) in
           if sub = [] then (if required then Inl (Http 401 (Account Signin_unverified)) else Inr (None, db))
           else (case subject_account e i db sub c of
               (None, db1) \<Rightarrow> if required then Inl (Http 401 (Account Not_set_up)) else Inr (None, db1)
             | (Some u, db1) \<Rightarrow>
                 if us_active u
                 then let u' = sync_verified_email i c u in Inr (Some u', store_user u' db1)
                 else if required then Inl (Http 403 (Account Account_disabled)) else Inr (None, db1))))"

definition demo_account :: "db \<Rightarrow> int \<Rightarrow> user option" where
  "demo_account db uid = (case find_user db uid of None \<Rightarrow> None | Some u \<Rightarrow> if us_active u then Some u else None)"

definition resolve_user ::
    "env \<Rightarrow> identity \<Rightarrow> db \<Rightarrow> string option \<Rightarrow> int option \<Rightarrow> string option \<Rightarrow> bool
       \<Rightarrow> failure + user option \<times> db" where
  "resolve_user e i db authorization demo_id secret required =
     (let demo = demo_permitted e i demo_id secret in
      then_do (case bearer_token authorization of
                 None \<Rightarrow> Inr (None, db) | Some t \<Rightarrow> token_account e i db required demo t) (\<lambda>(user, db1).
      if user \<noteq> None then Inr (user, db1)
      else if demo
      then (case demo_account db1 (the demo_id) of
              None \<Rightarrow> if required then Inl (Http 401 (Account Demo_account_unknown)) else Inr (None, db1)
            | Some u \<Rightarrow> Inr (Some u, db1))
      else Inr (None, db1)))"

definition get_current_user ::
    "env \<Rightarrow> identity \<Rightarrow> db \<Rightarrow> string option \<Rightarrow> int option \<Rightarrow> string option \<Rightarrow> failure + user \<times> db" where
  "get_current_user e i db authorization demo_id secret =
     then_do (resolve_user e i db authorization demo_id secret True) (\<lambda>(user, db1).
       case user of None \<Rightarrow> Inl (Http 401 (Account Authentication_required)) | Some u \<Rightarrow> Inr (u, db1))"

definition get_optional_user ::
    "env \<Rightarrow> identity \<Rightarrow> db \<Rightarrow> string option \<Rightarrow> int option \<Rightarrow> string option \<Rightarrow> failure + user option \<times> db" where
  "get_optional_user e i db authorization demo_id secret =
     resolve_user e i db authorization demo_id secret False"

section \<open>Profile and registration\<close>

definition get_profile :: "db \<Rightarrow> user \<Rightarrow> user \<times> (int \<times> court_role \<times> string) list" where
  "get_profile db u =
     (u, List.map_filter (\<lambda>r. map_option (\<lambda>c. (ur_court r, ur_role r, ct_name c))
           (row_at ct_id (ur_court r) (courts db)))
         (filter (\<lambda>r. ur_user r = us_id u) (court_roles db)))"

record registration =
  rn_email :: string
  rn_first_name :: string
  rn_last_name :: string
  rn_bar_number :: "string option"
  rn_type :: user_type

definition valid_registration :: "registration \<Rightarrow> bool" where
  "valid_registration d \<longleftrightarrow> length (rn_first_name d) \<le> 100 \<and> length (rn_last_name d) \<le> 100
     \<and> (case rn_bar_number d of None \<Rightarrow> True | Some b \<Rightarrow> length b \<le> 20)"

definition register_user :: "env \<Rightarrow> identity \<Rightarrow> db \<Rightarrow> registration \<Rightarrow> failure + user \<times> db" where
  "register_user e i db d =
     (if \<not> valid_registration d then Inl (Http 422 Invalid_request)
      else if \<not> id_public_registration i then Inl (Http 403 (Account Registration_disabled))
      else if email_taken db (str_lower (rn_email d)) None then Inl (Http 409 (Account Email_registered))
      else if rn_type d \<notin> {Attorney, SelfRepresented, PublicUser}
      then Inl (Http 403 (Account Type_not_registrable))
      else let u = (new_account e db)\<lparr>us_email := rn_email d, us_first_name := rn_first_name d,
                 us_last_name := rn_last_name d, us_bar_number := rn_bar_number d, us_type := rn_type d\<rparr>
           in if \<not> unique_account db u then Inl IntegrityError
              else Inr (u, users_update (\<lambda>us. us @ [u]) db))"

section \<open>The client's address\<close>

text \<open>The hops of the forwarding headers in their order; \<open>trusted\<close> is membership in the proxies'
  networks.\<close>

fun split_commas :: "string \<Rightarrow> string \<Rightarrow> string list" where
  "split_commas acc [] = [rev acc]"
| "split_commas acc (c # s) = (if c = CHR '','' then rev acc # split_commas [] s else split_commas (c # acc) s)"

definition forwarded_hops :: "string list \<Rightarrow> string list" where
  "forwarded_hops headers =
     filter (\<lambda>h. h \<noteq> []) (map str_strip (split_commas [] (join_with '','' headers)))"

fun first_untrusted :: "(string \<Rightarrow> bool) \<Rightarrow> string \<Rightarrow> string list \<Rightarrow> string" where
  "first_untrusted trusted address [] = address"
| "first_untrusted trusted address (h # hs) = (if trusted h then first_untrusted trusted h hs else h)"

definition client_ip_of :: "(string \<Rightarrow> bool) \<Rightarrow> string option \<Rightarrow> string list \<Rightarrow> string option" where
  "client_ip_of trusted peer headers =
     (case peer of
        None \<Rightarrow> None
      | Some a \<Rightarrow>
          if \<not> trusted a then Some a
          else Some (first_untrusted trusted a (rev (forwarded_hops headers))))"

end
