(* ===== verification/SignInProofs.thy ===== *)
theory SignInProofs
  imports SignIn Calendar
begin

text \<open>
  A sign-in gives an active account: the one of the token's subject, or the one the permitted
  demonstration headers name. It never rebinds an account, never binds a staff account or one with a
  bar number, and binds an account only to a token with its verified address. A client cannot choose
  the address it is known by.
\<close>

section \<open>What a sign-in keeps of the accounts\<close>

text \<open>Only the subject and the verified address of an existing account change; a subject is set only
  where there is none, on an account without privileges, for claims with its verified address.\<close>

definition kept_account :: "identity \<Rightarrow> claims \<Rightarrow> user \<Rightarrow> user \<Rightarrow> bool" where
  "kept_account i c v w \<longleftrightarrow> w = v\<lparr>us_keycloak := us_keycloak w, us_verified_email := us_verified_email w\<rparr>
     \<and> (us_keycloak w \<noteq> us_keycloak v \<longrightarrow> \<not> truthy (us_keycloak v) \<and> \<not> privileged v
          \<and> verified_email_from_claims i c = Some (str_lower (us_email v)))
     \<and> (us_verified_email w \<noteq> us_verified_email v \<and> us_verified_email w \<noteq> None \<longrightarrow>
          us_verified_email w = verified_email_from_claims i c
          \<and> us_verified_email w = Some (str_lower (str_strip (us_email v))))"

definition accounts_kept :: "identity \<Rightarrow> claims \<Rightarrow> db \<Rightarrow> db \<Rightarrow> bool" where
  "accounts_kept i c db db' \<longleftrightarrow>
     (\<forall>uid v. find_user db uid = Some v \<longrightarrow> (\<exists>w. find_user db' uid = Some w \<and> kept_account i c v w))"

lemma kept_refl [simp]: "kept_account i c v v"
  by (simp add: kept_account_def)

lemma accounts_kept_refl [simp]: "accounts_kept i c db db"
  by (simp add: accounts_kept_def)

lemma kept_sync: "kept_account i c v w \<Longrightarrow> kept_account i c v (sync_verified_email i c w)"
  unfolding kept_account_def sync_verified_email_def Let_def
  by (cases v; cases w) (auto split: if_splits)

lemma find_store_user:
  assumes "find_user db (us_id u) = Some u0"
  shows "find_user (store_user u db) k = (if k = us_id u then Some u else find_user db k)"
proof (cases "k = us_id u")
  case True
  with assms show ?thesis by (simp add: store_user_def find_user_def row_at_upd_same)
next
  case False
  then show ?thesis by (simp add: store_user_def find_user_def row_at_upd_other)
qed

lemma new_account_fresh:
  assumes "fresh_keys e"
  shows "find_user db (us_id (new_account e db)) = None"
  using assms unfolding find_user_def new_account_def
  by (auto simp: row_at_None_iff fresh_keys_def dest: spec [of _ "map us_id (users db)"])

lemma find_user_member: "unique_key us_id (users db) \<Longrightarrow> u \<in> set (users db) \<Longrightarrow> find_user db (us_id u) = Some u"
  by (simp add: find_user_def row_at_unique)

section \<open>Provisioning\<close>

text \<open>Provisioning leaves the accounts as they were, adds one with a fresh key, or links one.\<close>

lemma provision_kept:
  assumes "provision_user_from_oidc e i db sub c = (r, db')" and "fresh_keys e"
    and "unique_key us_id (users db)"
  shows "accounts_kept i c db db' \<and> (\<forall>u. r = Some u \<longrightarrow> find_user db' (us_id u) = Some u \<and> us_keycloak u = Some sub)"
proof (cases "verified_email_from_claims i c")
  case None
  with assms(1) show ?thesis by (auto simp: provision_user_from_oidc_def)
next
  case (Some email)
  let ?P = "\<lambda>u. str_lower (us_email u) = email"
  show ?thesis
  proof (cases "filter ?P (users db)")
    case Nil
    define u where "u = (new_account e db)\<lparr>us_email := email, us_verified_email := Some email,
        us_first_name := take 100 (claimed_name (cl_given_name c) (cl_first_name c) ''User''),
        us_last_name := take 100 (claimed_name (cl_family_name c) (cl_last_name c) ''Name''),
        us_type := SelfRepresented, us_keycloak := Some sub\<rparr>"
    from Some Nil assms(1) have r: "r = Some u" and db': "db' = users_update (\<lambda>us. us @ [u]) db"
      by (simp_all add: provision_user_from_oidc_def u_def Let_def)
    have "us_id u = us_id (new_account e db)" by (simp add: u_def)
    then have "find_user db (us_id u) = None" using new_account_fresh [OF assms(2)] by simp
    then have "find_user db' (us_id u) = Some u" and "\<And>k v. find_user db k = Some v \<Longrightarrow> find_user db' k = Some v"
      by (simp_all add: db' find_user_def row_at_append)
    then show ?thesis using r by (auto simp: accounts_kept_def u_def)
  next
    case (Cons u us)
    show ?thesis
    proof (cases "us = [] \<and> \<not> truthy (us_keycloak u) \<and> \<not> privileged u")
      case False
      with Some Cons assms(1) have out: "db' = db" "r = None \<or> us = [] \<and> r = Some u \<and> us_keycloak u = Some sub"
        by (auto simp: provision_user_from_oidc_def split: list.splits if_splits)
      have "u \<in> set (filter ?P (users db))" using Cons by simp
      with out find_user_member [OF assms(3)] show ?thesis by auto
    next
      case True
      define w where "w = sync_verified_email i c (u\<lparr>us_keycloak := Some sub\<rparr>)"
      from True Some Cons assms(1) have out: "r = Some w" "db' = store_user w db"
        by (simp_all add: provision_user_from_oidc_def w_def Let_def)
      have "u \<in> set (filter ?P (users db))" using Cons by simp
      then have u: "find_user db (us_id u) = Some u" "str_lower (us_email u) = email"
        using find_user_member [OF assms(3)] by auto
      have id: "us_id w = us_id u" "us_keycloak w = Some sub" by (simp_all add: w_def sync_verified_email_def)
      have "kept_account i c u (u\<lparr>us_keycloak := Some sub\<rparr>)" using True Some u(2) by (simp add: kept_account_def)
      from kept_sync [OF this] have "kept_account i c u w" by (simp add: w_def)
      moreover have "find_user db' k = (if k = us_id u then Some w else find_user db k)" for k
        using find_store_user [of db w u k] u(1) id by (simp add: out)
      ultimately show ?thesis using u id out by (auto simp: accounts_kept_def)
    qed
  qed
qed

lemma subject_kept:
  assumes "subject_account e i db sub c = (r, db')" and "fresh_keys e" and "unique_key us_id (users db)"
  shows "accounts_kept i c db db' \<and> (\<forall>u. r = Some u \<longrightarrow> find_user db' (us_id u) = Some u \<and> us_keycloak u = Some sub)"
proof (cases "account_with_subject db sub")
  case None
  with assms show ?thesis
    by (auto simp: subject_account_def dest: provision_kept split: if_splits)
next
  case (Some u)
  with find_SomeD [of _ "users db" u] have "u \<in> set (users db)" "us_keycloak u = Some sub"
    by (auto simp: account_with_subject_def)
  with Some assms find_user_member [OF assms(3)] show ?thesis by (auto simp: subject_account_def)
qed

lemma token_kept:
  assumes "token_account e i db required demo t = Inr (r, db')" and "fresh_keys e" and "unique_key us_id (users db)"
  shows "r = None \<and> db' = db \<or> (\<exists>c s. id_decode i t = Claims c \<and> cl_sub c = JStr s \<and> s \<noteq> [] \<and> accounts_kept i c db db'
    \<and> (\<forall>u. r = Some u \<longrightarrow> us_active u \<and> find_user db' (us_id u) = Some u \<and> us_keycloak u = Some s))"
proof (cases "id_decode i t")
  case (Claims c)
  show ?thesis
  proof (cases "\<exists>s. cl_sub c = JStr s \<and> s \<noteq> []")
    case False
    with Claims assms(1) show ?thesis
      by (auto simp: token_account_def Let_def split: json.splits if_splits)
  next
    case True
    then obtain s where s: "cl_sub c = JStr s" "s \<noteq> []" by blast
    obtain r1 db1 where r1: "subject_account e i db s c = (r1, db1)" by (metis prod.exhaust)
    note k = subject_kept [OF r1 assms(2,3)]
    show ?thesis
    proof (cases "\<exists>u. r1 = Some u \<and> us_active u")
      case False
      with Claims s r1 assms(1) have "r = None \<and> db' = db1"
        by (auto simp: token_account_def split: option.splits if_splits)
      with Claims s k show ?thesis by auto
    next
      case True
      then obtain u where u: "r1 = Some u" "us_active u" by blast
      define w where "w = sync_verified_email i c u"
      from Claims s r1 u assms(1) have out: "r = Some w" "db' = store_user w db1"
        by (simp_all add: token_account_def w_def Let_def)
      have id: "us_id w = us_id u" "us_keycloak w = us_keycloak u" "us_active w"
        using u by (simp_all add: w_def sync_verified_email_def)
      from k u have f: "find_user db1 (us_id u) = Some u" "us_keycloak u = Some s" by auto
      have st: "find_user db' x = (if x = us_id u then Some w else find_user db1 x)" for x
        using find_store_user [of db1 w u x] f id out by simp
      have "\<exists>y. find_user db' x = Some y \<and> kept_account i c v y" if "find_user db x = Some v" for x v
      proof -
        from k that obtain y where y: "find_user db1 x = Some y" "kept_account i c v y"
          unfolding accounts_kept_def by blast
        with st kept_sync [OF y(2)] f show ?thesis by (cases "x = us_id u") (auto simp: w_def)
      qed
      then have "accounts_kept i c db db'" by (auto simp: accounts_kept_def)
      with Claims s st id f out show ?thesis by auto
    qed
  qed
qed (use assms in \<open>auto simp: token_account_def split: if_splits\<close>)

section \<open>Signing in\<close>

lemma demo_account_is:
  "demo_account db k = Some u \<longleftrightarrow> find_user db k = Some u \<and> us_active u"
  by (auto simp: demo_account_def split: option.splits)

lemma resolve_cases:
  assumes "resolve_user e i db a d s required = Inr (Some u, db')"
  obtains (Token) t where "bearer_token a = Some t"
      "token_account e i db required (demo_permitted e i d s) t = Inr (Some u, db')"
    | (Demo) k where "demo_permitted e i d s" "d = Some k" "demo_account db' k = Some u"
      "db' = db \<or> (\<exists>t. bearer_token a = Some t
         \<and> token_account e i db required (demo_permitted e i d s) t = Inr (None, db'))"
proof -
  obtain r db1 where r: "(case bearer_token a of None \<Rightarrow> Inr (None, db)
      | Some t \<Rightarrow> token_account e i db required (demo_permitted e i d s) t) = (Inr (r, db1) :: failure + user option \<times> db)"
    using assms by (auto simp: resolve_user_def Let_def elim: then_do_InrE)
  show ?thesis
  proof (cases r)
    case (Some v)
    with assms r have "v = u" "db1 = db'" by (auto simp: resolve_user_def Let_def)
    with r Some show ?thesis by (auto split: option.splits intro: Token)
  next
    case None
    with assms r have out: "demo_permitted e i d s" "demo_account db1 (the d) = Some u" "db1 = db'"
      by (auto simp: resolve_user_def Let_def split: if_splits option.splits)
    then obtain k where "d = Some k" by (auto simp: demo_permitted_def)
    with out r None show ?thesis by (intro Demo) (auto split: option.splits)
  qed
qed

text \<open>C11: a request that is taken for an account comes from an active account of the database: the one
  whose subject the verified token names, or, where the demonstration headers are permitted, the one
  they name. The sign-in itself leaves the accounts as they were except that it can set the subject of
  an account without one, without privileges, whose address the identity provider has verified, and
  its record of that verified address; no account is rebound or removed.\<close>

theorem sign_in_binds_safely:
  assumes "resolve_user e i db a d s required = Inr (Some u, db')"
    and "fresh_keys e" and "unique_key us_id (users db)"
  shows "us_active u \<and> find_user db' (us_id u) = Some u
    \<and> ((\<exists>t c. bearer_token a = Some t \<and> id_decode i t = Claims c \<and> us_keycloak u \<noteq> None
          \<and> cl_sub c = JStr (the (us_keycloak u)))
       \<or> demo_permitted e i d s \<and> d = Some (us_id u))
    \<and> (db' = db \<or> (\<exists>t c. bearer_token a = Some t \<and> id_decode i t = Claims c \<and> accounts_kept i c db db'))"
  using assms(1)
proof (cases rule: resolve_cases)
  case (Token t)
  with token_kept [OF Token(2) assms(2,3)] show ?thesis by auto
next
  case (Demo k)
  then have "us_active u" "find_user db' k = Some u" by (simp_all add: demo_account_is)
  moreover from this have "us_id u = k" by (simp add: find_user_id)
  ultimately show ?thesis using Demo token_kept [OF _ assms(2,3)] by fastforce
qed

section \<open>The client's address\<close>

lemma first_untrusted_append:
  "\<forall>y \<in> set ys. trusted y \<Longrightarrow> \<not> trusted h \<Longrightarrow> first_untrusted trusted a (ys @ h # xs) = h"
  by (induction ys arbitrary: a) auto

lemma client_ip_ignores_claims:
  assumes "trusted a" and "forwarded_hops headers = xs @ h # ys" and "\<not> trusted h" and "\<forall>y \<in> set ys. trusted y"
  shows "client_ip_of trusted (Some a) headers = Some h"
  using assms by (simp add: client_ip_of_def first_untrusted_append)

lemma client_ip_untrusted_peer: "\<not> trusted a \<Longrightarrow> client_ip_of trusted (Some a) headers = Some a"
  by (simp add: client_ip_of_def)

section \<open>An example\<close>

text \<open>The first sign-in of a party whose address is on an account without a subject.\<close>

definition example_claims :: claims where
  "example_claims = \<lparr>cl_sub = JStr ''s1'', cl_email = JStr ''P@x'', cl_email_verified = JBool True,
     cl_given_name = None, cl_first_name = None, cl_family_name = None, cl_last_name = None\<rparr>"

definition example_identity :: identity where
  "example_identity = \<lparr>id_demo_secret = [], id_isolated_sessions = False, id_public_registration = False,
     id_provision = True, id_decode = (\<lambda>t. if t = ''tk'' then Claims example_claims else TokenInvalid),
     id_normalize = Some\<rparr>"

definition sign_in_db :: db where
  "sign_in_db = example_court_db\<lparr>users := [example_participant_user\<lparr>us_id := 5, us_email := ''p@x'',
     us_keycloak := None, us_type := SelfRepresented, us_bar_number := None\<rparr>]\<rparr>"

lemma sign_in_run:
  "\<exists>u db'. resolve_user example_env example_identity sign_in_db (Some ''Bearer tk'') None None True = Inr (Some u, db')
     \<and> us_id u = 5 \<and> db' \<noteq> sign_in_db"
proof -
  have "case resolve_user example_env example_identity sign_in_db (Some ''Bearer tk'') None None True of
      Inr (Some u, db') \<Rightarrow> us_id u = 5 \<and> map us_keycloak (users db') \<noteq> map us_keycloak (users sign_in_db)
    | _ \<Rightarrow> False" by code_simp
  then show ?thesis by (auto split: sum.splits option.splits)
qed

theorem sign_in_binds_safely_witness:
  "\<exists>u db'. resolve_user example_env example_identity sign_in_db (Some ''Bearer tk'') None None True = Inr (Some u, db')
     \<and> us_active u \<and> us_keycloak u = Some ''s1'' \<and> find_user db' 5 = Some u"
proof -
  have "unique_key us_id (users sign_in_db)" by (simp add: unique_key_def sign_in_db_def)
  moreover have "bearer_token (Some ''Bearer tk'') = Some ''tk''" by code_simp
  moreover have "id_decode example_identity ''tk'' = Claims example_claims" "cl_sub example_claims = JStr ''s1''"
    by (simp_all add: example_identity_def example_claims_def)
  ultimately show ?thesis
    using sign_in_run sign_in_binds_safely [of example_env example_identity sign_in_db "Some ''Bearer tk''" None None True]
      example_env_fresh by (fastforce simp: demo_permitted_def)
qed

end
