(* ===== verification/Intake.thy ===== *)
theory Intake
  imports Administration Filing
begin

text \<open>
  What a court publishes about itself: whether it takes electronic filings and of which case types
  (\<open>api/court_intake.py\<close>, \<open>schemas/court_intake.py\<close>), under a version with an audited history, and
  its calendars with the preview of a filing date (\<open>api/court_calendars.py\<close>,
  \<open>schemas/court_calendar.py\<close>). Names are ordered by code points.
\<close>

section \<open>Intake settings\<close>

record intake =
  ik_court :: int
  ik_name :: string
  ik_version :: int
  ik_enabled :: bool
  ik_notice :: "string option"
  ik_types :: "case_type list"

definition intake_state :: "court \<Rightarrow> case_type list \<Rightarrow> intake" where
  "intake_state c tys =
     \<lparr>ik_court = ct_id c, ik_name = ct_name c, ik_version = ct_intake_version c,
      ik_enabled = ct_efiling_enabled c, ik_notice = ct_intake_notice c, ik_types = tys\<rparr>"

definition intake_json :: "intake \<Rightarrow> json" where
  "intake_json i = JObj
     [(''court_id'', JInt (ik_court i)), (''court_name'', JStr (ik_name i)), (''version'', JInt (ik_version i)),
      (''is_efiling_enabled'', JBool (ik_enabled i)), (''public_notice'', jopt JStr (ik_notice i)),
      (''case_types'', JArr (map (\<lambda>t. JObj [(''id'', JInt (ty_id t)), (''code'', JStr (ty_code t)),
         (''name'', JStr (ty_name t)), (''is_active'', JBool (ty_active t))]) (ik_types i)))]"

definition types_of_court :: "db \<Rightarrow> int \<Rightarrow> case_type list" where
  "types_of_court db court =
     sort_key ty_name (sort_key ty_id (filter (\<lambda>t. ty_court t = court) (case_types db)))"

definition may_manage_intake :: "db \<Rightarrow> int option \<Rightarrow> int \<Rightarrow> bool" where
  "may_manage_intake db uid court =
     (case Option.bind uid (find_user db) of
        None \<Rightarrow> False
      | Some u \<Rightarrow> us_active u
          \<and> (us_type u = AdminUser \<or> has_court_administrator_assignment db (us_id u) court))"

definition get_intake :: "db \<Rightarrow> int \<Rightarrow> int option \<Rightarrow> failure + intake \<times> bool" where
  "get_intake db court uid =
     (case row_at ct_id court (courts db) of
        None \<Rightarrow> Inl (Http 404 (Record Court_not_found))
      | Some c \<Rightarrow> Inr (intake_state c (types_of_court db court), may_manage_intake db uid court))"

record intake_change =
  ic_version :: int
  ic_enabled :: bool
  ic_notice :: "string option"
  ic_types :: "(int \<times> bool) list"
  ic_reason :: string
  ic_authority :: string

definition parse_intake :: "intake_change \<Rightarrow> intake_change option" where
  "parse_intake d =
     (let notice = map_option str_strip (ic_notice d) in
      case (stripped_text 2000 (ic_reason d), stripped_text 300 (ic_authority d)) of
        (Some r, Some a) \<Rightarrow>
          if valid_version (ic_version d) \<and> length (or_text notice []) \<le> 2000 \<and> length (ic_types d) \<le> 500
            \<and> list_all (\<lambda>t. 0 < fst t) (ic_types d) \<and> distinct (map fst (ic_types d))
          then Some (d\<lparr>ic_notice := (if truthy notice then notice else None), ic_reason := r, ic_authority := a\<rparr>)
          else None
      | _ \<Rightarrow> None)"

definition unchanged :: "court \<Rightarrow> case_type list \<Rightarrow> intake_change \<Rightarrow> bool" where
  "unchanged c tys d \<longleftrightarrow> ct_efiling_enabled c = ic_enabled d \<and> ct_intake_notice c = ic_notice d
     \<and> list_all (\<lambda>t. map_of (ic_types d) (ty_id t) = Some (ty_active t)) tys"

text \<open>The update of the court under its version, and of its case types.\<close>

definition set_intake :: "intake_change \<Rightarrow> court \<Rightarrow> court" where
  "set_intake d c = c\<lparr>ct_efiling_enabled := ic_enabled d, ct_intake_notice := ic_notice d,
     ct_intake_version := ic_version d + 1\<rparr>"

definition set_type :: "intake_change \<Rightarrow> case_type \<Rightarrow> case_type" where
  "set_type d t = (case map_of (ic_types d) (ty_id t) of None \<Rightarrow> t | Some b \<Rightarrow> t\<lparr>ty_active := b\<rparr>)"

definition update_intake :: "int \<Rightarrow> intake_change \<Rightarrow> db \<Rightarrow> failure + db" where
  "update_intake court d db =
     (case row_at ct_id court (courts db) of
        None \<Rightarrow> Inl (Http 409 (Record Intake_changed))
      | Some c \<Rightarrow>
          if ct_intake_version c \<noteq> ic_version d then Inl (Http 409 (Record Intake_changed))
          else Inr (case_types_update (map (\<lambda>t. if ty_court t = court then set_type d t else t))
                 (courts_update (upd_row ct_id court (set_intake d)) db)))"

definition intake_details :: "user \<Rightarrow> intake_change \<Rightarrow> intake \<Rightarrow> intake \<Rightarrow> json" where
  "intake_details actor d before after = JObj
     [(''before'', intake_json before), (''after'', intake_json after), (''reason'', JStr (ic_reason d)),
      (''authority_reference'', JStr (ic_authority d)), (''actor_name'', JStr (full_name actor))]"

definition change_intake :: "env \<Rightarrow> db \<Rightarrow> user \<Rightarrow> court \<Rightarrow> intake_change \<Rightarrow> failure + intake \<times> db" where
  "change_intake e db actor c d =
     (let court = ct_id c; tys = types_of_court db court; before = intake_state c tys;
          after = intake_state (set_intake d c) (map (set_type d) tys)
      in if ct_intake_version c \<noteq> ic_version d then Inl (Http 409 (Record Intake_changed))
         else if set (map fst (ic_types d)) \<noteq> set (map ty_id tys) then Inl (Http 409 (Record Case_types_changed))
         else if unchanged c tys d then Inr (before, db)
         else if (\<not> ic_enabled d \<or> \<not> list_all snd (ic_types d)) \<and> \<not> truthy (ic_notice d)
         then Inl (Http 422 (Record Publish_instructions))
         else then_do (update_intake court d db) (\<lambda>db1. Inr (after,
           log_action e (Some (us_id actor)) ''court_intake_changed'' ''court'' (Some court)
             (Some (intake_details actor d before after)) db1)))"

definition publish_intake :: "env \<Rightarrow> db \<Rightarrow> int \<Rightarrow> int \<Rightarrow> intake_change \<Rightarrow> failure + intake \<times> db" where
  "publish_intake e db uid court d0 =
     (case parse_intake d0 of
        None \<Rightarrow> Inl (Http 422 Invalid_request)
      | Some d \<Rightarrow>
          then_do (lock_current_user db uid) (\<lambda>actor.
          then_do (require_court_administrator db actor court) (\<lambda>_.
          case row_at ct_id court (courts db) of
            None \<Rightarrow> Inl (Http 404 (Record Court_not_found))
          | Some c \<Rightarrow> change_intake e db actor c d)))"

definition intake_history :: "db \<Rightarrow> int \<Rightarrow> int \<Rightarrow> nat \<Rightarrow> failure + audit_entry list \<times> nat" where
  "intake_history db uid court pg =
     then_do (lock_current_user db uid) (\<lambda>actor.
     then_do (require_court_administrator db actor court) (\<lambda>_.
     let es = filter (\<lambda>a. au_entity a = ''court'' \<and> au_entity_id a = Some court
                \<and> au_action a = ''court_intake_changed'') (audit db)
     in Inr (page_of pg 25 (rev es), length es)))"

section \<open>Calendars\<close>

record calendar_request =
  cq_timezone :: string
  cq_from :: date
  cq_through :: date
  cq_closed :: "(date \<times> string) list"
  cq_authority :: string

text \<open>The known time zones are a parameter; the closed dates are the items of a dict.\<close>

definition parse_calendar :: "(string \<Rightarrow> bool) \<Rightarrow> calendar_request \<Rightarrow> calendar_request option" where
  "parse_calendar known d =
     (if length (cq_timezone d) \<le> 64 \<and> known (cq_timezone d)
       \<and> length (cq_closed d) \<le> 1096 \<and> distinct (map fst (cq_closed d))
       \<and> 1 \<le> length (cq_authority d) \<and> length (cq_authority d) \<le> 1000 \<and> str_strip (cq_authority d) \<noteq> []
       \<and> 0 \<le> cq_through d - cq_from d \<and> cq_through d - cq_from d \<le> 1095
       \<and> list_all (\<lambda>(day, why). cq_from d \<le> day \<and> day \<le> cq_through d \<and> str_strip why \<noteq> [] \<and> length why \<le> 500)
           (cq_closed d)
      then Some (d\<lparr>cq_authority := str_strip (cq_authority d),
             cq_closed := map (\<lambda>(day, why). (day, str_strip why)) (cq_closed d)\<rparr>)
      else None)"

definition calendar_json :: "calendar_request \<Rightarrow> json" where
  "calendar_json d = JObj
     [(''timezone'', JStr (cq_timezone d)), (''valid_from'', JDate (cq_from d)),
      (''valid_through'', JDate (cq_through d)),
      (''closed_dates'', JArr (map (\<lambda>(day, why). JArr [JDate day, JStr why]) (cq_closed d))),
      (''authority_reference'', JStr (cq_authority d))]"

definition new_calendar :: "env \<Rightarrow> db \<Rightarrow> int \<Rightarrow> int \<Rightarrow> calendar_request \<Rightarrow> calendar" where
  "new_calendar e db uid court d =
     \<lparr>ca_id = new_key e (map ca_id (calendars db)), ca_court = court, ca_timezone = cq_timezone d,
      ca_from = cq_from d, ca_through = cq_through d, ca_closed = cq_closed d, ca_authority = cq_authority d,
      ca_published_by = uid, ca_published_at = now e\<rparr>"

definition list_calendars ::
    "db \<Rightarrow> int \<Rightarrow> nat \<Rightarrow> int option \<Rightarrow> failure + calendar list \<times> nat \<times> bool" where
  "list_calendars db court pg uid =
     (if row_at ct_id court (courts db) = None then Inl (Http 404 (Record Court_not_found))
      else let rows = court_calendars db court
           in Inr (page_of pg 25 rows, length rows, may_publish_calendar db uid court))"

definition publish_calendar ::
    "env \<Rightarrow> (string \<Rightarrow> bool) \<Rightarrow> db \<Rightarrow> int \<Rightarrow> int \<Rightarrow> calendar_request \<Rightarrow> failure + calendar \<times> db" where
  "publish_calendar e known db uid court d0 =
     (case parse_calendar known d0 of
        None \<Rightarrow> Inl (Http 422 Invalid_request)
      | Some d \<Rightarrow>
          then_do (lock_current_user db uid) (\<lambda>_.
          if \<not> may_publish_calendar db (Some uid) court then Inl (Http 403 (Record Publisher_required))
          else let c = new_calendar e db uid court d
               in Inr (c, log_action e (Some uid) ''publish_court_calendar'' ''court_calendar'' (Some (ca_id c))
                    (Some (calendar_json d)) (calendars_update (\<lambda>cs. cs @ [c]) db))))"

text \<open>A timestamp with its offset, or one without.\<close>

datatype received = Naive | At datetime

fun preview_filing_date :: "env \<Rightarrow> db \<Rightarrow> int \<Rightarrow> received \<Rightarrow> failure + assessment" where
  "preview_filing_date e db court Naive = Inl (Http 400 (Request Offset_missing))"
| "preview_filing_date e db court (At t) =
     (if row_at ct_id court (courts db) = None then Inl (Http 404 (Record Court_not_found))
      else Inr (filing_date_for_receipt e db court t))"

section \<open>What a publication establishes\<close>

definition intake_version_of :: "int \<Rightarrow> db \<Rightarrow> int" where
  "intake_version_of court db = (case row_at ct_id court (courts db) of None \<Rightarrow> 0 | Some c \<Rightarrow> ct_intake_version c)"

lemma set_intake_id [simp]: "ct_id (set_intake d c) = ct_id c"
  by (simp add: set_intake_def)

lemma set_type_id [simp]: "ty_id (set_type d t) = ty_id t" "ty_court (set_type d t) = ty_court t"
  by (simp_all add: set_type_def split: option.splits)

lemma update_intake_effect:
  assumes "update_intake court d db = Inr db'"
  shows "\<exists>c. row_at ct_id court (courts db) = Some c \<and> ct_intake_version c = ic_version d
    \<and> row_at ct_id court (courts db') = Some (set_intake d c)
    \<and> case_types db' = map (\<lambda>t. if ty_court t = court then set_type d t else t) (case_types db)
    \<and> filings db' = filings db \<and> audit db' = audit db"
  using assms by (auto simp: update_intake_def row_at_upd_same split: option.splits if_splits)

lemma update_intake_advances:
  assumes "ic_version d = v" and "update_intake court d db = Inr db'"
  shows "intake_version_of court db = v \<and> intake_version_of court db' = v + 1"
  using update_intake_effect [OF assms(2)] assms(1) by (auto simp: intake_version_of_def set_intake_def)

interpretation intake_update: versioned_update "intake_version_of court"
  "\<lambda>d v. update_intake court (d\<lparr>ic_version := v\<rparr>)" for court
  using update_intake_advances by unfold_locales fastforce+

lemma set_types_of_court: "set (types_of_court db court) = {t \<in> set (case_types db). ty_court t = court}"
  by (auto simp: types_of_court_def)

lemma publish_intake_Inr:
  assumes "publish_intake e db uid court d0 = Inr (i, db')"
  obtains d actor c where "parse_intake d0 = Some d" and "find_user db uid = Some actor"
    and "require_court_administrator db actor court = Inr ()" and "us_active actor"
    and "row_at ct_id court (courts db) = Some c" and "ct_intake_version c = ic_version d"
    and "set (map fst (ic_types d)) = ty_id ` set (types_of_court db court)"
    and "unchanged c (types_of_court db court) d \<and> db' = db
      \<or> \<not> unchanged c (types_of_court db court) d
        \<and> (ic_enabled d \<and> list_all snd (ic_types d) \<or> truthy (ic_notice d))
        \<and> (\<exists>db1. update_intake court d db = Inr db1
             \<and> db' = log_action e (Some uid) ''court_intake_changed'' ''court'' (Some court)
                 (Some (intake_details actor d (intake_state c (types_of_court db court))
                    (intake_state (set_intake d c) (map (set_type d) (types_of_court db court))))) db1)"
proof -
  from assms obtain d actor c where a: "parse_intake d0 = Some d" "find_user db uid = Some actor" "us_active actor"
      "require_court_administrator db actor court = Inr ()" "row_at ct_id court (courts db) = Some c"
    and ch: "change_intake e db actor c d = Inr (i, db')"
    by (auto simp: publish_intake_def then_do_Inr_iff lock_current_user_Inr split: option.splits)
  have ids: "ct_id c = court" "us_id actor = uid" using row_at_SomeD [OF a(5)] find_user_id [OF a(2)] by simp_all
  show ?thesis
    by (rule that [OF a(1,2,4,3,5)])
      (use ch in \<open>auto simp: change_intake_def Let_def ids then_do_Inr_iff split: if_splits\<close>)
qed

lemma require_court_administrator_Inr:
  "require_court_administrator db u court = Inr () \<longleftrightarrow> us_active u
     \<and> (us_type u = AdminUser \<or> has_court_administrator_assignment db (us_id u) court)
     \<and> row_at ct_id court (courts db) \<noteq> None"
  by (auto simp: require_court_administrator_def)

lemma publish_intake_effect:
  assumes "publish_intake e db uid court d0 = Inr (i, db')"
  shows "\<exists>d actor c c'. parse_intake d0 = Some d \<and> find_user db uid = Some actor \<and> us_active actor
    \<and> (us_type actor = AdminUser \<or> has_court_administrator_assignment db uid court)
    \<and> row_at ct_id court (courts db) = Some c \<and> ct_intake_version c = ic_version d
    \<and> row_at ct_id court (courts db') = Some c' \<and> ct_efiling_enabled c' = ic_enabled d
    \<and> ct_intake_notice c' = ic_notice d
    \<and> (\<forall>t \<in> set (case_types db'). ty_court t = court \<longrightarrow> map_of (ic_types d) (ty_id t) = Some (ty_active t))
    \<and> (if unchanged c (types_of_court db court) d then db' = db
       else ct_intake_version c' = ic_version d + 1
         \<and> (ic_enabled d \<and> list_all snd (ic_types d) \<or> truthy (ic_notice d))
         \<and> filings db' = filings db \<and> (\<exists>x. audit db' = audit db @ [x] \<and> au_user x = Some uid
              \<and> au_action x = ''court_intake_changed'' \<and> au_entity_id x = Some court))"
proof -
  from assms obtain d actor c where p: "parse_intake d0 = Some d" "find_user db uid = Some actor"
      "require_court_administrator db actor court = Inr ()" "row_at ct_id court (courts db) = Some c"
      "ct_intake_version c = ic_version d" "set (map fst (ic_types d)) = ty_id ` set (types_of_court db court)"
    and r: "unchanged c (types_of_court db court) d \<and> db' = db
      \<or> \<not> unchanged c (types_of_court db court) d
        \<and> (ic_enabled d \<and> list_all snd (ic_types d) \<or> truthy (ic_notice d))
        \<and> (\<exists>db1. update_intake court d db = Inr db1
             \<and> db' = log_action e (Some uid) ''court_intake_changed'' ''court'' (Some court)
                 (Some (intake_details actor d (intake_state c (types_of_court db court))
                    (intake_state (set_intake d c) (map (set_type d) (types_of_court db court))))) db1)"
    by (rule publish_intake_Inr) blast
  have admin: "us_active actor \<and> (us_type actor = AdminUser \<or> has_court_administrator_assignment db uid court)"
    using p(3) find_user_id [OF p(2)] by (simp add: require_court_administrator_Inr)
  show ?thesis
  proof (cases "unchanged c (types_of_court db court) d")
    case True
    then have "\<forall>t \<in> set (case_types db). ty_court t = court \<longrightarrow> map_of (ic_types d) (ty_id t) = Some (ty_active t)"
      by (auto simp: unchanged_def list_all_iff set_types_of_court)
    with True r p admin show ?thesis by (auto simp: unchanged_def)
  next
    case False
    with r obtain db1 where u: "update_intake court d db = Inr db1"
        and db': "db' = log_action e (Some uid) ''court_intake_changed'' ''court'' (Some court)
                 (Some (intake_details actor d (intake_state c (types_of_court db court))
                    (intake_state (set_intake d c) (map (set_type d) (types_of_court db court))))) db1"
        and notice: "ic_enabled d \<and> list_all snd (ic_types d) \<or> truthy (ic_notice d)" by blast
    have c1: "row_at ct_id court (courts db1) = Some (set_intake d c)"
        "case_types db1 = map (\<lambda>t. if ty_court t = court then set_type d t else t) (case_types db)"
        "filings db1 = filings db \<and> audit db1 = audit db"
      using update_intake_effect [OF u] p(4) by auto
    have types: "map_of (ic_types d) (ty_id t) = Some (ty_active t)"
      if "t \<in> set (case_types db1)" "ty_court t = court" for t
    proof -
      from that c1(2) obtain t0 where t0: "t0 \<in> set (case_types db)" "ty_court t0 = court" "t = set_type d t0"
        by (auto split: if_splits)
      then have "ty_id t0 \<in> set (map fst (ic_types d))" using p(6) by (simp add: set_types_of_court)
      then obtain b where "map_of (ic_types d) (ty_id t0) = Some b"
        by (metis list.set_map map_of_eq_None_iff not_None_eq)
      with t0 show ?thesis by (simp add: set_type_def)
    qed
    from False p admin c1(1,3) types notice show ?thesis
      by (auto simp: db' log_action_def set_intake_def)
  qed
qed

text \<open>Intake settings change only through an active administrator of the court (or of the system) who
  saw their current version and named exactly the court's case types. Afterwards the court and each
  of its case types are as requested and the instructions for filers are published whenever
  something is newly closed; a change advances the version by one and appends one entry with the
  state before and after to the audit log, and nothing is written when nothing changes.\<close>

theorem intake_published:
  assumes "publish_intake e db uid court d0 = Inr (i, db')"
  shows "\<exists>d actor c c'. parse_intake d0 = Some d \<and> find_user db uid = Some actor \<and> us_active actor
    \<and> (us_type actor = AdminUser \<or> has_court_administrator_assignment db uid court)
    \<and> row_at ct_id court (courts db) = Some c \<and> ct_intake_version c = ic_version d
    \<and> row_at ct_id court (courts db') = Some c' \<and> ct_efiling_enabled c' = ic_enabled d
    \<and> ct_intake_notice c' = ic_notice d
    \<and> (\<forall>t \<in> set (case_types db'). ty_court t = court \<longrightarrow> map_of (ic_types d) (ty_id t) = Some (ty_active t))
    \<and> (if unchanged c (types_of_court db court) d then db' = db
       else ct_intake_version c' = ic_version d + 1
         \<and> (ic_enabled d \<and> list_all snd (ic_types d) \<or> truthy (ic_notice d))
         \<and> filings db' = filings db \<and> (\<exists>x. audit db' = audit db @ [x] \<and> au_user x = Some uid
              \<and> au_action x = ''court_intake_changed'' \<and> au_entity_id x = Some court))"
  using assms by (rule publish_intake_effect)

text \<open>C31: once a court has closed its electronic intake, or one of its case types, every attempt of a filer
  to create a filing there is refused, and a well-formed one with the instructions it published.\<close>

theorem closed_intake_refuses:
  assumes "publish_intake e db uid court d0 = Inr (i, db')" and "parse_intake d0 = Some d"
    and "row_at ty_id (fd_case_type fd) (case_types db') = Some ty" and "fd_court fd = court" and "ty_court ty = court"
    and "\<not> ic_enabled d \<or> map_of (ic_types d) (ty_id ty) = Some False"
    and "fd_type fd \<in> set filing_types" and "(fd_type fd = ''initial'') = (fd_case fd = None)"
  shows "create_filing e' db' filer fd key = Inl (FilingDestinationError 409
    (if ic_enabled d then Type_not_accepting (ic_notice d) else Court_not_accepting (ic_notice d)))"
proof -
  from publish_intake_effect [OF assms(1)] assms(2) obtain c' where c': "row_at ct_id court (courts db') = Some c'"
      "ct_efiling_enabled c' = ic_enabled d" "ct_intake_notice c' = ic_notice d"
    and types: "\<forall>t \<in> set (case_types db'). ty_court t = court \<longrightarrow> map_of (ic_types d) (ty_id t) = Some (ty_active t)"
    by auto
  have "map_of (ic_types d) (ty_id ty) = Some (ty_active ty)"
    using types row_at_SomeD [OF assms(3)] assms(5) by blast
  then have closed: "\<not> ct_efiling_enabled c' \<or> \<not> ty_active ty" using assms(6) c'(2) by auto
  have "notice_or_none (ic_notice d) = ic_notice d"
    using assms(2) by (auto simp: parse_intake_def notice_or_none_def Let_def split: option.splits if_splits)
  with closed c' assms(3-5,7,8) show ?thesis
    by (auto simp: create_filing_def validate_filing_destination_def check_target_def draft_destination_def)
qed

section \<open>The newest calendar\<close>

lemma insort_before_last: "k x \<le> k c \<Longrightarrow> insort_key k x (ys @ [c]) = insort_key k x ys @ [c]"
  by (induction ys) auto

lemma sort_newest_last: "\<forall>x \<in> set xs. k x \<le> k c \<Longrightarrow> sort_key k (xs @ [c]) = sort_key k xs @ [c]"
  by (induction xs) (simp_all add: insort_before_last)

text \<open>Keys the database assigns grow.\<close>

definition serial_keys :: "env \<Rightarrow> bool" where
  "serial_keys e \<longleftrightarrow> (\<forall>ks. list_all (\<lambda>k. k < new_key e ks) ks)"

lemma publish_calendar_Inr:
  assumes "publish_calendar e known db uid court d0 = Inr (c, db')"
  obtains d a where "parse_calendar known d0 = Some d" and "find_user db uid = Some a" and "us_active a"
    and "may_publish_calendar db (Some uid) court" and "c = new_calendar e db uid court d"
    and "calendars db' = calendars db @ [c]" and "courts db' = courts db"
  using assms
  by (auto simp: publish_calendar_def Let_def then_do_Inr_iff lock_current_user_Inr log_action_def
      split: option.splits if_splits intro: that)

lemma newest_calendar_first:
  assumes "serial_keys e" and "c = new_calendar e db uid court d" and "calendars db' = calendars db @ [c]"
  shows "court_calendars db' court = c # court_calendars db court"
proof -
  have "list_all (\<lambda>k. k < ca_id c) (map ca_id (calendars db))"
    using assms(1,2) by (simp add: serial_keys_def new_calendar_def)
  then have "\<forall>x \<in> set (filter (\<lambda>c. ca_court c = court) (calendars db)). ca_id x \<le> ca_id c"
    by (auto simp: list_all_iff)
  from sort_newest_last [OF this] show ?thesis
    using assms(2) by (simp add: court_calendars_def assms(3) new_calendar_def)
qed

text \<open>A calendar with its dates in order, within three years, and every closure in range and explained.\<close>

definition wf_calendar :: "calendar \<Rightarrow> bool" where
  "wf_calendar c \<longleftrightarrow> ca_from c \<le> ca_through c \<and> ca_through c - ca_from c \<le> 1095 \<and> ca_authority c \<noteq> []
     \<and> distinct (map fst (ca_closed c))
     \<and> list_all (\<lambda>(day, why). covers c day \<and> why \<noteq> [] \<and> length why \<le> 500) (ca_closed c)"

lemma new_calendar_wf:
  assumes "parse_calendar known d0 = Some d"
  shows "wf_calendar (new_calendar e db uid court d)"
proof -
  let ?c = "new_calendar e db uid court d"
  from assms have d: "d = d0\<lparr>cq_authority := str_strip (cq_authority d0),
        cq_closed := map (\<lambda>(day, why). (day, str_strip why)) (cq_closed d0)\<rparr>"
      and ok: "distinct (map fst (cq_closed d0))" "str_strip (cq_authority d0) \<noteq> []"
        "0 \<le> cq_through d0 - cq_from d0" "cq_through d0 - cq_from d0 \<le> 1095"
      and closed: "list_all (\<lambda>(day, why). cq_from d0 \<le> day \<and> day \<le> cq_through d0 \<and> str_strip why \<noteq> [] \<and> length why \<le> 500)
           (cq_closed d0)"
    by (simp_all add: parse_calendar_def split: if_splits)
  have shorter: "length why \<le> 500 \<Longrightarrow> length (str_strip why) \<le> 500" for why
    using str_strip_length [of why] by simp
  have "list_all (\<lambda>x. covers ?c (fst x) \<and> str_strip (snd x) \<noteq> [] \<and> length (str_strip (snd x)) \<le> 500) (cq_closed d0)"
    using closed by (rule list.pred_mono_strong) (auto simp: covers_def new_calendar_def d shorter)
  with ok show ?thesis
    by (simp add: wf_calendar_def new_calendar_def d list.pred_map comp_def case_prod_beta covers_def)
qed


section \<open>Examples\<close>

definition intake_admin :: user where
  "intake_admin = \<lparr>us_id = 2, us_email = ''j@x'', us_verified_email = None, us_first_name = ''J'',
     us_last_name = ''K'', us_bar_number = None, us_bar_verified = False, us_type = JudgeUser,
     us_keycloak = Some ''s'', us_active = True, us_admin_version = 0\<rparr>"

definition intake_db :: db where
  "intake_db = empty_db\<lparr>users := [intake_admin],
     court_roles := [\<lparr>ur_id = 1, ur_user = 2, ur_court = 3, ur_role = AdminRole\<rparr>],
     courts := [\<lparr>ct_id = 3, ct_name = ''C'', ct_county = ''K'', ct_type = Circuit, ct_efiling_enabled = True,
       ct_intake_version = 0, ct_intake_notice = None\<rparr>],
     case_types := [\<lparr>ty_id = 4, ty_court = 3, ty_code = ''CZ'', ty_name = ''Civil'', ty_fee_cents = 100, ty_active = True\<rparr>]\<rparr>"

definition closing :: intake_change where
  "closing = \<lparr>ic_version = 0, ic_enabled = False, ic_notice = Some '' On paper '', ic_types = [(4, True)],
     ic_reason = ''r'', ic_authority = ''AO 1''\<rparr>"

definition closed_db :: db where
  "closed_db = (case publish_intake example_env intake_db 2 3 closing of Inr (i, db) \<Rightarrow> db | Inl _ \<Rightarrow> intake_db)"

definition closed_intake :: intake where
  "closed_intake = \<lparr>ik_court = 3, ik_name = ''C'', ik_version = 1, ik_enabled = False, ik_notice = Some ''On paper'',
     ik_types = [\<lparr>ty_id = 4, ty_court = 3, ty_code = ''CZ'', ty_name = ''Civil'', ty_fee_cents = 100, ty_active = True\<rparr>]\<rparr>"

lemma closing_runs: "publish_intake example_env intake_db 2 3 closing = Inr (closed_intake, closed_db)"
proof -
  have "(case publish_intake example_env intake_db 2 3 closing of Inr (i, db) \<Rightarrow> i = closed_intake | Inl _ \<Rightarrow> False)"
    by code_simp
  then show ?thesis by (auto simp: closed_db_def split: sum.splits prod.splits)
qed

lemma closing_parsed: "parse_intake closing = Some (closing\<lparr>ic_notice := Some ''On paper''\<rparr>)"
  by code_simp

theorem intake_published_witness:
  "\<exists>c'. row_at ct_id 3 (courts closed_db) = Some c' \<and> \<not> ct_efiling_enabled c' \<and> ct_intake_version c' = 1
     \<and> ct_intake_notice c' = Some ''On paper''"
  using intake_published [OF closing_runs] closing_parsed by (auto simp: unchanged_def closing_def intake_db_def)

definition refused_draft :: filing_draft where
  "refused_draft = \<lparr>fd_court = 3, fd_case = None, fd_case_type = 4, fd_type = ''initial'', fd_title = Some ''t'',
     fd_description = None, fd_waiver_requested = False, fd_waiver_reason = None\<rparr>"

theorem closed_intake_refuses_witness:
  "create_filing example_env closed_db 9 refused_draft None
     = Inl (FilingDestinationError 409 (Court_not_accepting (Some ''On paper'')))"
proof -
  let ?ty = "\<lparr>ty_id = 4, ty_court = 3, ty_code = ''CZ'', ty_name = ''Civil'', ty_fee_cents = 100, ty_active = True\<rparr>"
  have "row_at ty_id (fd_case_type refused_draft) (case_types closed_db) = Some ?ty" by code_simp
  from closed_intake_refuses [OF closing_runs closing_parsed this]
  show ?thesis by (simp add: refused_draft_def closing_def filing_types_def)
qed

definition calendar_example :: calendar_request where
  "calendar_example = \<lparr>cq_timezone = ''America/Detroit'', cq_from = 739616, cq_through = 739981,
     cq_closed = [(739617, '' New Year'')], cq_authority = ''AO''\<rparr>"

definition published_calendar :: calendar where
  "published_calendar = example_calendar\<lparr>ca_published_at := now example_env\<rparr>"

definition calendar_db :: db where
  "calendar_db = (case publish_calendar example_env (\<lambda>z. True) intake_db 2 3 calendar_example of
     Inr (c, db) \<Rightarrow> db | Inl _ \<Rightarrow> intake_db)"

lemma calendar_example_runs:
  "publish_calendar example_env (\<lambda>z. True) intake_db 2 3 calendar_example = Inr (published_calendar, calendar_db)"
proof -
  have "(case publish_calendar example_env (\<lambda>z. True) intake_db 2 3 calendar_example of
      Inr (c, db) \<Rightarrow> c = published_calendar | Inl _ \<Rightarrow> False)" by code_simp
  then show ?thesis by (auto simp: calendar_db_def split: sum.splits prod.splits)
qed

lemma example_env_serial: "serial_keys example_env"
proof -
  have "k < 1 + sum_list (map abs ks)" if "k \<in> set ks" for k :: int and ks
    using abs_le_sum_list [OF that] by simp
  then show ?thesis by (simp add: serial_keys_def example_env_def list_all_iff)
qed


end
