(* ===== verification/Maintenance.thy ===== *)
theory Maintenance
  imports Administration Outbox
begin

text \<open>
  The two commands run beside the portal: binding the first system administrator
  (\<open>admin_bootstrap.py\<close>) and the worker that sends the queued notices (\<open>notification_worker.py\<close>).
  Command line parsing and the endless loop with its sleeps are left out; a run with \<open>--once\<close> is a
  recursion with fuel over the clocks of its iterations.
\<close>

section \<open>The first administrator\<close>

datatype bootstrap_error =
    Needs_active_bound_administrator | Isolated_sessions | Administrator_exists | Identity_in_use | Arguments_invalid
  | Constraint_violated

definition bound_administrator :: "user \<Rightarrow> bool" where
  "bound_administrator u \<longleftrightarrow> us_type u = AdminUser \<and> us_active u \<and> us_keycloak u \<noteq> None"

definition identity_in_use :: "db \<Rightarrow> account_change \<Rightarrow> bool" where
  "identity_in_use db d \<longleftrightarrow>
     (\<exists>u \<in> set (users db). str_lower (us_email u) = ag_email d
        \<or> us_keycloak u \<noteq> None \<and> us_keycloak u = ag_keycloak d)"

definition bootstrap_details :: "account_change \<Rightarrow> user \<Rightarrow> json" where
  "bootstrap_details d u = JObj
     [(''source'', JStr ''database_operator_bootstrap''), (''reason'', JStr (ag_reason d)),
      (''before'', JNull), (''after'', account_snapshot u)]"

text \<open>\<open>log_action\<close> without a request: no address and no agent.\<close>

definition operator_env :: "env \<Rightarrow> env" where
  "operator_env e = e\<lparr>client_ip := None, client_agent := None\<rparr>"

definition bootstrap :: "env \<Rightarrow> bool \<Rightarrow> db \<Rightarrow> account_change \<Rightarrow> bootstrap_error + int \<times> db" where
  "bootstrap e isolated db d =
     (if \<not> truthy (ag_keycloak d) \<or> ag_type d \<noteq> AdminUser \<or> \<not> ag_active d
      then Inl Needs_active_bound_administrator
      else if isolated then Inl Isolated_sessions
      else if \<exists>u \<in> set (users db). bound_administrator u then Inl Administrator_exists
      else if identity_in_use db d then Inl Identity_in_use
      else let u = set_account d (new_account e db) in
        if \<not> unique_account db u then Inl Constraint_violated
        else Inr (us_id u, log_action (operator_env e) None ''identity.bootstrap'' ''user'' (Some (us_id u))
          (Some (bootstrap_details d u)) (users_update (\<lambda>us. us @ [u]) db)))"

record bootstrap_arguments =
  bo_email :: string
  bo_first_name :: string
  bo_last_name :: string
  bo_subject :: string
  bo_reason :: string

definition bootstrap_request :: "bootstrap_arguments \<Rightarrow> account_change" where
  "bootstrap_request a =
     \<lparr>ag_first_name = bo_first_name a, ag_last_name = bo_last_name a, ag_email = bo_email a, ag_type = AdminUser,
      ag_keycloak = Some (bo_subject a), ag_active = True, ag_bar_number = None, ag_bar_verified = False,
      ag_reason = bo_reason a\<rparr>"

definition bootstrap_main :: "env \<Rightarrow> bool \<Rightarrow> db \<Rightarrow> bootstrap_arguments \<Rightarrow> bootstrap_error + int \<times> db" where
  "bootstrap_main e isolated db a =
     (case parse_account_change (bootstrap_request a) of
        None \<Rightarrow> Inl Arguments_invalid | Some d \<Rightarrow> bootstrap e isolated db d)"

section \<open>The notice worker\<close>

datatype worker_refusal = Mail_configuration failure | Delivery_not_enabled | Isolated_demonstration

text \<open>
  What the iterations see: the clock and the relay, the monotonic seconds, and where the iteration
  raises, if it does. The recovery, the claim and the recording of the outcome are transactions of
  their own: the one that raises is rolled back, what was committed before it stays.
\<close>

datatype raise_point = Recovering | Claiming | Delivering

record worker_env =
  wk_env :: "nat \<Rightarrow> env"
  wk_relay :: "nat \<Rightarrow> relay"
  wk_seconds :: "nat \<Rightarrow> int"
  wk_raises :: "nat \<Rightarrow> raise_point option"

fun worker_loop :: "nat \<Rightarrow> worker_env \<Rightarrow> nat \<Rightarrow> int \<Rightarrow> db \<Rightarrow> (nat \<times> db) option" where
  "worker_loop 0 w i last_recovery db = None"
| "worker_loop (Suc n) w i last_recovery db =
     (let recover = (60 \<le> wk_seconds w i - last_recovery);
          db1 = (if recover then fst (recover_interrupted (wk_env w i) db) else db)
      in if recover \<and> wk_raises w i = Some Recovering then Some (1, db)
         else if wk_raises w i = Some Claiming then Some (1, db1)
         else case claim_email (wk_env w i) db1 of
           (None, db2) \<Rightarrow> Some (0, db2)
         | (Some notice, db2) \<Rightarrow>
             if nt_status notice = Sending \<and> wk_raises w i = Some Delivering then Some (1, db2)
             else worker_loop n w (Suc i) (if recover then wk_seconds w i else last_recovery)
               (snd (deliver_next (wk_env w i) (wk_env w i) (wk_relay w i) db1)))"

definition run_worker ::
    "nat \<Rightarrow> env \<Rightarrow> bool \<Rightarrow> worker_env \<Rightarrow> db \<Rightarrow> worker_refusal + (nat \<times> db) option" where
  "run_worker fuel e isolated w db =
     (case validate_email_config e of
        Inl x \<Rightarrow> Inl (Mail_configuration x)
      | Inr _ \<Rightarrow>
          if \<not> st_email_enabled (cfg e) then Inl Delivery_not_enabled
          else if isolated then Inl Isolated_demonstration
          else Inr (worker_loop fuel w 0 (wk_seconds w 0 - 60) db))"

section \<open>Properties\<close>

lemma bootstrap_main_Inr:
  assumes "bootstrap_main e isolated db a = Inr (i, db')"
  obtains d u where "parse_account_change (bootstrap_request a) = Some d" and "\<not> isolated"
    and "\<not> (\<exists>v \<in> set (users db). bound_administrator v)" and "\<not> identity_in_use db d"
    and "u = set_account d (new_account e db)" and "i = us_id u" and "bound_administrator u"
    and "db' = log_action (operator_env e) None ''identity.bootstrap'' ''user'' (Some i)
      (Some (bootstrap_details d u)) (users_update (\<lambda>us. us @ [u]) db)"
proof -
  from assms obtain d where d: "parse_account_change (bootstrap_request a) = Some d"
    and b: "bootstrap e isolated db d = Inr (i, db')"
    by (auto simp: bootstrap_main_def split: option.splits)
  let ?u = "set_account d (new_account e db)"
  from b have ok: "truthy (ag_keycloak d)" "ag_type d = AdminUser" "ag_active d" "\<not> isolated"
      "\<not> (\<exists>v \<in> set (users db). bound_administrator v)" "\<not> identity_in_use db d" "i = us_id ?u"
      "db' = log_action (operator_env e) None ''identity.bootstrap'' ''user'' (Some (us_id ?u))
        (Some (bootstrap_details d ?u)) (users_update (\<lambda>us. us @ [?u]) db)"
    unfolding bootstrap_def Let_def by (auto split: if_splits)
  moreover have "bound_administrator ?u" using ok(1-3) by (auto simp: bound_administrator_def set_account_def truthy_def)
  ultimately show ?thesis using d by (intro that [of d ?u]) simp_all
qed

text \<open>The command makes exactly one account, an active system administrator bound to the given identity,
  only while no such administrator exists and neither the address nor the identity is in use; the
  other accounts stay as they are, the log holds the account as made, and no later call can make
  another one as long as the account stays an active bound administrator.\<close>

theorem bootstrap_once:
  assumes "bootstrap_main e isolated db a = Inr (i, db')"
  shows "\<exists>u. users db' = users db @ [u] \<and> us_id u = i \<and> bound_administrator u
    \<and> us_keycloak u = Some (str_strip (bo_subject a)) \<and> us_email u = str_lower (bo_email a)
    \<and> list_all (\<lambda>v. \<not> bound_administrator v \<and> str_lower (us_email v) \<noteq> us_email u \<and> us_keycloak v \<noteq> us_keycloak u) (users db)
    \<and> (\<exists>x. audit db' = audit db @ [x] \<and> au_user x = None \<and> au_entity_id x = Some i)
    \<and> (\<forall>e2 db2 b. u \<in> set (users db2) \<longrightarrow> (\<exists>x. bootstrap_main e2 isolated db2 b = Inl x))"
  using assms
proof (rule bootstrap_main_Inr)
  fix d u
  assume p: "parse_account_change (bootstrap_request a) = Some d"
    and none: "\<not> (\<exists>v \<in> set (users db). bound_administrator v)" and free: "\<not> identity_in_use db d"
    and u: "u = set_account d (new_account e db)" and i: "i = us_id u" and bound: "bound_administrator u"
    and db': "db' = log_action (operator_env e) None ''identity.bootstrap'' ''user'' (Some i)
      (Some (bootstrap_details d u)) (users_update (\<lambda>us. us @ [u]) db)"
  have d: "ag_keycloak d = Some (str_strip (bo_subject a))" "ag_email d = str_lower (bo_email a)"
    using p by (auto simp: parse_account_change_def bootstrap_request_def stripped_opt_def stripped_text_def Let_def
        split: option.splits if_splits)
  have cols: "us_keycloak u = ag_keycloak d" "us_email u = ag_email d" by (simp_all add: u set_account_def)
  have fresh: "\<forall>v \<in> set (users db). str_lower (us_email v) \<noteq> us_email u \<and> us_keycloak v \<noteq> us_keycloak u"
    using free cols d(1) by (auto simp: identity_in_use_def)
  have later: "\<exists>x. bootstrap_main e2 isolated db2 b = Inl x" if "u \<in> set (users db2)" for e2 db2 b
  proof (cases "bootstrap_main e2 isolated db2 b")
    case (Inr r)
    then obtain j db3 where "bootstrap_main e2 isolated db2 b = Inr (j, db3)" by (cases r) simp
    then show ?thesis by (rule bootstrap_main_Inr) (use that bound in blast)
  qed blast
  show ?thesis
    using d cols fresh none bound later i db'
    by (intro exI [of _ u]) (simp add: log_action_def list_all_iff)
qed

lemma recover_count: "due_count t (fst (recover_interrupted e db)) = due_count t db"
proof -
  have "length (filter (due t) (map (\<lambda>n. if interrupted (now e) n
      then n\<lparr>nt_status := Unknown, nt_last_error := Some interrupted_text\<rparr> else n) ns)) = length (filter (due t) ns)" for ns
    by (induction ns) (auto simp: due_def interrupted_def)
  then show ?thesis by (simp add: due_count_def recover_interrupted_def Let_def)
qed

lemma worker_loop_ends:
  assumes "\<And>j. now (wk_env w j) \<le> t \<and> t < now (wk_env w j) + 60000000" and "due_count t db < fuel"
  shows "\<exists>code db' j. worker_loop fuel w i l db = Some (code, db')
    \<and> (code = 0 \<and> due_count (now (wk_env w j)) db' = 0 \<or> code = 1 \<and> (\<exists>p. wk_raises w j = Some p))"
  using assms(2)
proof (induction fuel arbitrary: i l db)
  case (Suc fuel)
  let ?recover = "60 \<le> wk_seconds w i - l" and ?e = "wk_env w i"
  let ?db1 = "if ?recover then fst (recover_interrupted ?e db) else db"
  let ?db2 = "snd (deliver_next ?e ?e (wk_relay w i) ?db1)"
  have same: "due_count t ?db1 = due_count t db" by (simp add: recover_count)
  consider (recovering) "?recover \<and> wk_raises w i = Some Recovering" | (claiming) "wk_raises w i = Some Claiming"
    | (claim) "\<not> (?recover \<and> wk_raises w i = Some Recovering)" "wk_raises w i \<noteq> Some Claiming" by blast
  then show ?case
  proof cases
    case recovering
    then have "worker_loop (Suc fuel) w i l db = Some (1, db)" by (simp add: Let_def)
    with recovering show ?thesis by blast
  next
    case claiming
    then have "worker_loop (Suc fuel) w i l db = Some (1, ?db1)" by (simp add: Let_def)
    with claiming show ?thesis by blast
  next
    case claim
    show ?thesis
    proof (cases "claim_email ?e ?db1")
      case (Pair found db2)
      show ?thesis
      proof (cases found)
        case None
        with Pair claim have "worker_loop (Suc fuel) w i l db = Some (0, db2)" by (simp add: Let_def)
        moreover from None Pair have "deliver_next ?e ?e (wk_relay w i) ?db1 = (False, db2)"
          by (simp add: deliver_next_def)
        then have "due_count (now ?e) db2 = 0" using deliver_none by metis
        ultimately show ?thesis by blast
      next
        case (Some n)
        have loop: "worker_loop (Suc fuel) w i l db = (if nt_status n = Sending \<and> wk_raises w i = Some Delivering
            then Some (1, db2) else worker_loop fuel w (Suc i) (if ?recover then wk_seconds w i else l) ?db2)"
          using Pair Some claim by (cases ?recover) (simp_all add: Let_def)
        from Some Pair have "deliver_next ?e ?e (wk_relay w i) ?db1 = (True, ?db2)" by (simp add: deliver_next_def)
        from deliver_count [OF this] assms(1) [of i] have "due_count t ?db2 < due_count t ?db1" by blast
        with same Suc.prems have "due_count t ?db2 < fuel" by linarith
        from Suc.IH [OF this, of "Suc i" "if ?recover then wk_seconds w i else l"] show ?thesis
          unfolding loop by (cases "nt_status n = Sending \<and> wk_raises w i = Some Delivering") (auto simp del: worker_loop.simps)
      qed
    qed
  qed
qed simp


definition first_administrator :: bootstrap_arguments where
  "first_administrator = \<lparr>bo_email = ''Root@x'', bo_first_name = ''R'', bo_last_name = ''T'', bo_subject = '' s1 '',
     bo_reason = ''setup''\<rparr>"

theorem bootstrap_once_witness:
  "\<exists>i db' u. bootstrap_main example_env False empty_db first_administrator = Inr (i, db') \<and> users db' = [u]
     \<and> bound_administrator u \<and> us_email u = ''root@x''
     \<and> (\<exists>x. bootstrap_main example_env False db' first_administrator = Inl x)"
proof -
  have "case bootstrap_main example_env False empty_db first_administrator of Inr _ \<Rightarrow> True | _ \<Rightarrow> False" by code_simp
  then obtain i db' where run: "bootstrap_main example_env False empty_db first_administrator = Inr (i, db')"
    by (auto split: sum.splits)
  have email: "str_lower (bo_email first_administrator) = ''root@x''" by code_simp
  from bootstrap_once [OF run] obtain u where u: "users db' = users empty_db @ [u]" "bound_administrator u"
      "us_email u = ''root@x''" "\<exists>x. bootstrap_main example_env False db' first_administrator = Inl x"
    unfolding email by fastforce
  then show ?thesis using run by (auto simp: empty_db_def)
qed

definition quiet_worker :: worker_env where
  "quiet_worker = \<lparr>wk_env = (\<lambda>_. mail_env), wk_relay = (\<lambda>_. open_relay), wk_seconds = int, wk_raises = (\<lambda>_. None)\<rparr>"


end
