(* ===== verification/Evolution.thy ===== *)
theory Evolution
  imports Application ReviewProofs PaymentProofs PublicationProofs CleanupProofs DeliveryProofs AdministrationProofs
    ParticipantProofs ServiceInstructions SignInProofs Intake Maintenance
begin

text \<open>
  What every operation does to the whole database: the logs are append-only, each filing moves along
  its life cycle, stored files are referred to only as they were uploaded, and keys stay unique.
  The relation is closed under composition, so each handler is a chain of the primitive updates.
\<close>

section \<open>The life cycle of a filing\<close>

text \<open>What a filing is to the court: where and by whom it was filed, its case, status and submissions.\<close>

record matter =
  mt_court :: int
  mt_filer :: int
  mt_type :: string
  mt_case_type :: int
  mt_case :: "int option"
  mt_status :: filing_status
  mt_count :: int

definition matter_of :: "envelope \<Rightarrow> matter" where
  "matter_of f = \<lparr>mt_court = fe_court f, mt_filer = fe_filer f, mt_type = fe_type f, mt_case_type = fe_case_type f,
     mt_case = fe_case f, mt_status = fe_status f, mt_count = fe_submission_count f\<rparr>"

definition new_matter :: "matter \<Rightarrow> bool" where
  "new_matter m \<longleftrightarrow> mt_status m = Draft \<and> mt_count m = 0 \<and> mt_type m \<in> set filing_types
     \<and> (mt_type m = ''initial'' \<longleftrightarrow> mt_case m = None)"

text \<open>
  The abstract specification: a draft or returned filing is submitted, or recorded as served when
  it only records service; a filing that awaits review is declined, held or accepted into a case,
  its own if it has one.
\<close>

inductive lifecycle :: "matter \<Rightarrow> matter \<Rightarrow> bool" where
  Submit: "mt_status m \<in> {Draft, Returned} \<Longrightarrow>
    lifecycle m (m\<lparr>mt_status := (if mt_type m = ''service_only'' then Served else Submitted), mt_count := mt_count m + 1\<rparr>)"
| Decline: "mt_status m \<in> {Submitted, UnderReview} \<Longrightarrow> s \<in> {Rejected, Returned} \<Longrightarrow> lifecycle m (m\<lparr>mt_status := s\<rparr>)"
| Hold: "mt_status m \<in> {Submitted, UnderReview} \<Longrightarrow> lifecycle m (m\<lparr>mt_status := UnderReview\<rparr>)"
| Accept: "mt_status m \<in> {Submitted, UnderReview} \<Longrightarrow> mt_case m = None \<or> mt_case m = Some c \<Longrightarrow>
    lifecycle m (m\<lparr>mt_status := Accepted, mt_case := Some c\<rparr>)"

definition filings_evolve :: "db \<Rightarrow> db \<Rightarrow> bool" where
  "filings_evolve db db' \<longleftrightarrow> (\<forall>fid. case find_filing db fid of
     Some f \<Rightarrow> \<exists>f'. find_filing db' fid = Some f' \<and> lifecycle\<^sup>*\<^sup>* (matter_of f) (matter_of f')
   | None \<Rightarrow> \<forall>f'. find_filing db' fid = Some f' \<longrightarrow> (\<exists>m. new_matter m \<and> lifecycle\<^sup>*\<^sup>* m (matter_of f')))"

lemma filings_evolve_refl: "find_filing db' = find_filing db \<Longrightarrow> filings_evolve db db'"
  by (auto simp: filings_evolve_def split: option.splits)

lemma filings_evolve_trans:
  assumes "filings_evolve a b" and "filings_evolve b c"
  shows "filings_evolve a c"
  unfolding filings_evolve_def
proof
  fix fid
  have ab: "case find_filing a fid of
     Some f \<Rightarrow> \<exists>f'. find_filing b fid = Some f' \<and> lifecycle\<^sup>*\<^sup>* (matter_of f) (matter_of f')
   | None \<Rightarrow> \<forall>f'. find_filing b fid = Some f' \<longrightarrow> (\<exists>m. new_matter m \<and> lifecycle\<^sup>*\<^sup>* m (matter_of f'))"
    using assms(1) by (simp add: filings_evolve_def)
  have bc: "case find_filing b fid of
     Some f \<Rightarrow> \<exists>f'. find_filing c fid = Some f' \<and> lifecycle\<^sup>*\<^sup>* (matter_of f) (matter_of f')
   | None \<Rightarrow> \<forall>f'. find_filing c fid = Some f' \<longrightarrow> (\<exists>m. new_matter m \<and> lifecycle\<^sup>*\<^sup>* m (matter_of f'))"
    using assms(2) by (simp add: filings_evolve_def)
  show "case find_filing a fid of
     Some f \<Rightarrow> \<exists>f'. find_filing c fid = Some f' \<and> lifecycle\<^sup>*\<^sup>* (matter_of f) (matter_of f')
   | None \<Rightarrow> \<forall>f'. find_filing c fid = Some f' \<longrightarrow> (\<exists>m. new_matter m \<and> lifecycle\<^sup>*\<^sup>* m (matter_of f'))"
    using ab bc by (cases "find_filing a fid"; cases "find_filing b fid") (fastforce intro: rtranclp_trans)+
qed

section \<open>Logs, stored files and keys\<close>

definition logs_grow :: "db \<Rightarrow> db \<Rightarrow> bool" where
  "logs_grow db db' \<longleftrightarrow> prefix (audit db) (audit db') \<and> prefix (transactions db) (transactions db')
     \<and> prefix (service_events db) (service_events db') \<and> prefix (delivery_events db) (delivery_events db')
     \<and> prefix (packets db) (packets db') \<and> prefix (recipients db) (recipients db')"

text \<open>The objects the database refers to, with their recorded digests and sizes.\<close>

definition file_refs :: "db \<Rightarrow> (string \<times> string \<times> int) set" where
  "file_refs db = (\<lambda>d. (dc_file_key d, dc_sha256 d, dc_size d)) ` set (documents db)
     \<union> (\<lambda>c. (pc_file_key c, pc_sha256 c, pc_size c)) ` set (public_copies db)"

definition keys_ok :: "db \<Rightarrow> bool" where
  "keys_ok db \<longleftrightarrow> unique_key fe_id (filings db) \<and> unique_key dc_id (documents db)
     \<and> unique_key pc_id (public_copies db) \<and> unique_key cs_id (cases db) \<and> unique_key tx_id (transactions db)"

text \<open>\<open>N\<close> are the stored files an operation may newly refer to.\<close>

definition evolves :: "(string \<times> string \<times> int) set \<Rightarrow> db \<Rightarrow> db \<Rightarrow> bool" where
  "evolves N db db' \<longleftrightarrow> logs_grow db db' \<and> filings_evolve db db' \<and> file_refs db' \<subseteq> file_refs db \<union> N
     \<and> (keys_ok db \<longrightarrow> keys_ok db')"

abbreviation steady :: "db \<Rightarrow> db \<Rightarrow> bool" where
  "steady \<equiv> evolves {}"

lemma evolves_refl [simp, intro]: "evolves N db db"
  by (auto simp: evolves_def logs_grow_def filings_evolve_refl)

lemma evolves_then: "evolves M a b \<Longrightarrow> evolves N b c \<Longrightarrow> M \<union> N \<subseteq> K \<Longrightarrow> evolves K a c"
  unfolding evolves_def logs_grow_def by (blast intro: filings_evolve_trans prefix_order.trans)

lemma steady_trans [trans]: "steady a b \<Longrightarrow> steady b c \<Longrightarrow> steady a c"
  by (erule evolves_then) simp_all

lemma steady_evolves: "steady a b \<Longrightarrow> evolves N a b"
  by (auto simp: evolves_def)

lemma evolves_mono: "evolves M a b \<Longrightarrow> M \<subseteq> N \<Longrightarrow> evolves N a b"
  by (auto simp: evolves_def)

section \<open>Primitive updates\<close>

named_theorems steady_intros "the primitive updates that keep the whole database in order"

text \<open>Updates of the tables that carry none of this.\<close>

definition quiet :: "db \<Rightarrow> db \<Rightarrow> bool" where
  "quiet db db' \<longleftrightarrow> filings db' = filings db \<and> documents db' = documents db \<and> public_copies db' = public_copies db
     \<and> cases db' = cases db \<and> transactions db' = transactions db \<and> audit db' = audit db
     \<and> service_events db' = service_events db \<and> delivery_events db' = delivery_events db
     \<and> packets db' = packets db \<and> recipients db' = recipients db"

lemma quiet_steady: "quiet db db' \<Longrightarrow> steady db db'"
  by (auto simp: quiet_def evolves_def logs_grow_def file_refs_def keys_ok_def find_filing_def
      intro!: filings_evolve_refl)

lemma steady_quiet [steady_intros]:
  "steady db (users_update g1 db)" "steady db (court_roles_update g2 db)" "steady db (participants_update g3 db)"
  "steady db (payments_update g4 db)" "steady db (calendars_update g5 db)" "steady db (courts_update g6 db)"
  "steady db (case_types_update g7 db)" "steady db (uploads_update g8 db)" "steady db (deletions_update g9 db)"
  "steady db (contacts_update g10 db)" "steady db (notifications_update g11 db)"
  by (rule quiet_steady; simp add: quiet_def)+

lemma steady_log [steady_intros]: "steady db (log_action e u a en i d db)"
  by (auto simp: log_action_def evolves_def logs_grow_def file_refs_def keys_ok_def find_filing_def intro!: filings_evolve_refl)

lemma steady_log_filing [steady_intros]: "steady db (log_filing e u a i d db)"
  by (simp add: log_filing_def steady_log)

lemma steady_delivery_events [steady_intros]: "steady db (delivery_events_update (\<lambda>es. es @ xs) db)"
  by (auto simp: evolves_def logs_grow_def file_refs_def keys_ok_def find_filing_def intro!: filings_evolve_refl)

lemma steady_packets [steady_intros]: "steady db (packets_update (\<lambda>es. es @ xs) db)"
  by (auto simp: evolves_def logs_grow_def file_refs_def keys_ok_def find_filing_def intro!: filings_evolve_refl)

lemma steady_recipients [steady_intros]: "steady db (recipients_update (\<lambda>es. es @ xs) db)"
  by (auto simp: evolves_def logs_grow_def file_refs_def keys_ok_def find_filing_def intro!: filings_evolve_refl)

lemma steady_service_event [steady_intros]: "steady db (record_service_event e r a act d db)"
  by (auto simp: record_service_event_def evolves_def logs_grow_def file_refs_def keys_ok_def find_filing_def
      intro!: filings_evolve_refl)

lemma steady_store_notice [steady_intros]: "steady db (store_notice ne db)"
  unfolding store_notice_def by (rule steady_trans [OF steady_quiet(11)]) (rule steady_delivery_events)

lemma steady_notify:
  assumes "notify_transaction e f t reason db = Inr db'"
  shows "steady db db'"
proof -
  from assms obtain db1 g where n: "notify_filing_status_change e (fe_filer f) (fe_id f) (tx_event t)
      (court_name db f) (fe_title f) (notice_reason (tx_event t) reason) db = Inr db1"
    and db': "db' = notifications_update g db1"
    unfolding notify_transaction_def Let_def then_do_Inr_iff by blast
  from n obtain h ne where db1: "db1 = store_notice ne (notifications_update h db)" by (rule notify_Inr')
  have "steady db (notifications_update h db)" by (rule steady_intros)
  also have "steady \<dots> db1" unfolding db1 by (rule steady_intros)
  also have "steady db1 db'" unfolding db' by (rule steady_intros)
  finally show ?thesis .
qed

text \<open>Documents that keep their ids and files.\<close>

lemma steady_documents:
  assumes "\<And>d. dc_id (g d) = dc_id d \<and> dc_file_key (g d) = dc_file_key d \<and> dc_sha256 (g d) = dc_sha256 d
    \<and> dc_size (g d) = dc_size d"
  shows "steady db (documents_update (map g) db)"
  using assms by (auto simp: evolves_def logs_grow_def file_refs_def keys_ok_def find_filing_def unique_key_def comp_def
      intro!: filings_evolve_refl)

lemma steady_retain [steady_intros]: "steady db (retain_documents fid t db)"
  unfolding retain_documents_def by (rule steady_documents) simp

lemma steady_set_access [steady_intros]: "steady db (set_access did v copy db)"
  unfolding set_access_def upd_row_def by (rule steady_documents) simp

lemma steady_insert_transaction:
  "insert_transaction t db = Inr db' \<Longrightarrow> tx_id t \<notin> set (map tx_id (transactions db)) \<Longrightarrow> steady db db'"
  by (auto simp: insert_transaction_def evolves_def logs_grow_def file_refs_def keys_ok_def find_filing_def
      unique_key_append intro!: filings_evolve_refl split: if_splits)

lemma steady_transaction:
  assumes "record_transaction e f ev actor reason key details db = Inr (t, db')" and "fresh_keys e"
  shows "steady db db'"
proof -
  let ?db1 = "if submission_event ev then retain_documents (fe_id f) (event_time e f ev) db else db"
  from assms obtain kvs db2 where t: "t = new_transaction e db f ev actor key kvs"
    and ins: "insert_transaction t ?db1 = Inr db2"
    and notice: "(if ev = ''cms_failed'' then Inr db2 else notify_transaction e f t reason db2) = Inr db'"
    by (auto simp: record_transaction_def then_do_Inr_iff Let_def)
  have "tx_id t \<notin> set (map tx_id (transactions db))"
    using assms(2) unfolding t fresh_keys_def new_transaction_def by (metis txn.select_convs(1))
  then have ins: "steady ?db1 db2" by (intro steady_insert_transaction [OF ins]) simp
  have "steady db ?db1" by (simp add: steady_retain)
  also note ins
  also have "steady db2 db'" using notice steady_notify by (auto split: if_splits)
  finally show ?thesis .
qed

section \<open>Filings, cases and stored files\<close>

lemma steady_filing:
  assumes "find_filing db (fe_id f) = Some f0" and "lifecycle\<^sup>*\<^sup>* (matter_of f0) (matter_of f)"
  shows "steady db (save_filing e f db)"
proof -
  obtain t where t: "find_filing (save_filing e f db) (fe_id f) = Some (f\<lparr>fe_updated_at := t\<rparr>)"
    by (rule find_save_same [OF assms(1)])
  have "filings_evolve db (save_filing e f db)"
    unfolding filings_evolve_def
  proof
    fix fid
    show "case find_filing db fid of
       Some g \<Rightarrow> \<exists>f'. find_filing (save_filing e f db) fid = Some f' \<and> lifecycle\<^sup>*\<^sup>* (matter_of g) (matter_of f')
     | None \<Rightarrow> \<forall>f'. find_filing (save_filing e f db) fid = Some f' \<longrightarrow> (\<exists>m. new_matter m \<and> lifecycle\<^sup>*\<^sup>* m (matter_of f'))"
    proof (cases "fid = fe_id f")
      case True
      with t assms show ?thesis by (simp add: matter_of_def)
    next
      case False
      then show ?thesis by (simp add: find_save_other split: option.splits)
    qed
  qed
  moreover have "keys_ok (save_filing e f db)" if "keys_ok db"
    using that by (auto simp: keys_ok_def save_filing_def unique_key_upd_row)
  ultimately show ?thesis by (auto simp: evolves_def logs_grow_def file_refs_def)
qed

text \<open>A change of columns outside the life cycle.\<close>

lemma steady_same_filing:
  "find_filing db (fe_id f) = Some f0 \<Longrightarrow> matter_of f = matter_of f0 \<Longrightarrow> steady db (save_filing e f db)"
  by (erule steady_filing) auto

lemma steady_step:
  "find_filing db (fe_id f) = Some f0 \<Longrightarrow> lifecycle (matter_of f0) (matter_of f) \<Longrightarrow> steady db (save_filing e f db)"
  by (erule steady_filing) auto

lemma steady_new_filing:
  assumes "fe_id f \<notin> fe_id ` set (filings db)" and "new_matter (matter_of f)"
  shows "steady db (filings_update (\<lambda>fs. fs @ [f]) db)"
proof -
  have find: "find_filing (filings_update (\<lambda>fs. fs @ [f]) db) fid =
      (case find_filing db fid of Some g \<Rightarrow> Some g | None \<Rightarrow> if fe_id f = fid then Some f else None)" for fid
    by (simp add: find_filing_def row_at_append split: option.splits)
  have "filings_evolve db (filings_update (\<lambda>fs. fs @ [f]) db)"
    using assms(2) by (auto simp: filings_evolve_def find split: option.splits if_splits)
  with assms(1) show ?thesis
    by (auto simp: evolves_def logs_grow_def file_refs_def keys_ok_def unique_key_append)
qed

lemma steady_cases:
  assumes "\<And>c. cs_id (g c) = cs_id c"
  shows "steady db (cases_update (upd_row cs_id cid g) db)"
  using assms by (auto simp: evolves_def logs_grow_def file_refs_def keys_ok_def find_filing_def unique_key_upd_row
      intro!: filings_evolve_refl)

lemma steady_insert_case: "insert_case c db = Inr db' \<Longrightarrow> cs_id c \<notin> cs_id ` set (cases db) \<Longrightarrow> steady db db'"
  by (auto simp: insert_case_def evolves_def logs_grow_def file_refs_def keys_ok_def find_filing_def unique_key_append
      intro!: filings_evolve_refl split: if_splits)

lemma fresh_key: "fresh_keys e \<Longrightarrow> new_key e (map f xs) \<notin> f ` set xs"
  unfolding fresh_keys_def by (metis list.set_map)

lemma evolves_add_document:
  assumes "fresh_keys e"
  shows "evolves {(dc_file_key d, dc_sha256 d, dc_size d)} db (snd (add_document e d db))"
  using fresh_key [OF assms, of dc_id "documents db"]
  by (auto simp: add_document_def Let_def evolves_def logs_grow_def file_refs_def keys_ok_def find_filing_def
      unique_key_append intro!: filings_evolve_refl)

lemma evolves_add_copy:
  assumes "pc_id c \<notin> pc_id ` set (public_copies db)"
  shows "evolves {(pc_file_key c, pc_sha256 c, pc_size c)} db (public_copies_update (\<lambda>cs. cs @ [c]) db)"
  using assms by (auto simp: evolves_def logs_grow_def file_refs_def keys_ok_def find_filing_def
      unique_key_append intro!: filings_evolve_refl)

lemma steady_drop_document: "steady db (drop_document e f d db)"
proof (cases "dc_retained_at d \<noteq> None \<or> fe_submitted_at f \<noteq> None")
  case True
  have "steady db (documents_update (upd_row dc_id (dc_id d) (\<lambda>r. r\<lparr>dc_removed_at := Some (now e)\<rparr>)) db)"
    unfolding upd_row_def by (rule steady_documents) simp
  with True show ?thesis by (simp add: drop_document_def)
next
  case False
  have "steady db (queue_deletion e d (detach_upload (dc_id d) db))"
    unfolding queue_deletion_def detach_upload_def by (rule steady_trans; rule steady_intros)
  also have "steady \<dots> (documents_update (filter (\<lambda>r. dc_id r \<noteq> dc_id d)) \<dots>)"
    by (auto simp: evolves_def logs_grow_def file_refs_def keys_ok_def find_filing_def unique_key_filter
        intro!: filings_evolve_refl)
  finally show ?thesis using False by (simp add: drop_document_def)
qed

end
