(* ===== verification/Handlers.thy ===== *)
theory Handlers
  imports Evolution
begin

text \<open>Every operation of the application as a step of the whole database.\<close>

section \<open>Accounts, roles and sign-in\<close>

lemma version_advanced: "advance_version uid v db = Inr db' \<Longrightarrow> steady db db'"
  by (auto simp: advance_version_def steady_quiet split: option.splits if_splits)

lemma account_created: "provision_account e db uid d0 = Inr (u, db') \<Longrightarrow> steady db db'"
  by (auto simp: provision_account_def create_account_def Let_def then_do_Inr_iff split: option.splits if_splits
      intro!: steady_trans [OF steady_quiet(1) steady_log])

lemma account_changed: "change_account e db uid target d0 v = Inr (u, db') \<Longrightarrow> steady db db'"
  by (erule change_account_Inr)
    (auto intro: steady_trans [OF steady_trans [OF version_advanced steady_quiet(1)] steady_log])

lemma role_changed: "change_role e db uid court target d0 = Inr (u, db') \<Longrightarrow> steady db db'"
  by (erule change_role_Inr)
    (auto simp: enter_role_def intro: steady_trans [OF steady_trans [OF version_advanced steady_quiet(2)] steady_log])

lemma store_user_steady: "steady db (store_user u db)"
  unfolding store_user_def by (rule steady_intros)

lemma provisioned: "provision_user_from_oidc e i db sub c = (u, db') \<Longrightarrow> steady db db'"
  by (auto simp: provision_user_from_oidc_def Let_def store_user_steady steady_quiet
      split: option.splits list.splits if_splits)

lemma subject_resolved: "subject_account e i db sub c = (u, db') \<Longrightarrow> steady db db'"
  by (auto simp: subject_account_def split: option.splits if_splits dest: provisioned)

lemma token_resolved: "token_account e i db required demo t = Inr (u, db') \<Longrightarrow> steady db db'"
  by (auto simp: token_account_def Let_def split: token.splits option.splits prod.splits if_splits
      intro: steady_trans [OF subject_resolved store_user_steady] subject_resolved)

lemma signed_in: "resolve_user e i db auth demo_id secret required = Inr (u, db') \<Longrightarrow> steady db db'"
  by (auto simp: resolve_user_def Let_def then_do_Inr_iff split: option.splits if_splits dest: token_resolved)

lemma registered: "register_user e i db d = Inr (u, db') \<Longrightarrow> steady db db'"
  by (auto simp: register_user_def Let_def steady_quiet split: if_splits)

lemma bootstrapped: "bootstrap_main e isolated db a = Inr (i, db') \<Longrightarrow> steady db db'"
  by (erule bootstrap_main_Inr) (auto intro: steady_trans [OF steady_quiet(1) steady_log])

section \<open>Courts and cases\<close>

lemma intake_updated: "update_intake court d db = Inr db' \<Longrightarrow> steady db db'"
  by (auto simp: update_intake_def split: option.splits if_splits intro!: steady_trans [OF steady_quiet(6) steady_quiet(7)])

lemma intake_changed: "publish_intake e db uid court d0 = Inr (i, db') \<Longrightarrow> steady db db'"
  by (erule publish_intake_Inr) (auto intro: steady_trans [OF intake_updated steady_log])

lemma calendar_published: "publish_calendar e known db uid court d0 = Inr (c, db') \<Longrightarrow> steady db db'"
  by (auto simp: publish_calendar_def then_do_Inr_iff Let_def split: option.splits if_splits
      intro!: steady_trans [OF steady_quiet(5) steady_log])

lemma participants_advanced:
  "advance_participants g cid v db = Some db' \<Longrightarrow> (\<And>c. cs_id (g c) = cs_id c) \<Longrightarrow> steady db db'"
  by (auto simp: advance_participants_def split: option.splits if_splits intro!: steady_cases)

lemma participant_entered: "enter_participant e actor cid p0 d account db = (p, db') \<Longrightarrow> steady db db'"
  by (auto simp: enter_participant_def Let_def split: option.splits intro!: steady_trans [OF steady_quiet(3) steady_log])

lemma participant_saved: "save_participant e db uid cid pid d0 = Inr (p, db') \<Longrightarrow> steady db db'"
proof (erule save_participant_Inr)
  fix d actor c p0 account
  assume "p0 = Some p \<and> pt_reviewed_at p \<noteq> None \<and> apply_change d account p = p \<and> db' = db
      \<or> (\<exists>db1. advance_participants id cid (pa_version d) db = Some db1
          \<and> (p, db') = enter_participant e actor cid p0 d account db1)"
  then show ?thesis by (auto intro: steady_trans [OF participants_advanced participant_entered [OF sym]])
qed

lemma public_access_changed: "change_public_access e db uid cid d0 = Inr (r, db') \<Longrightarrow> steady db db'"
  by (auto simp: change_public_access_def then_do_Inr_iff Let_def split: option.splits if_splits
      intro!: steady_trans [OF participants_advanced steady_log])

lemma instructions_entered: "enter_instructions e actor c p ct d db = (ct', db') \<Longrightarrow> steady db db'"
  by (auto simp: enter_instructions_def Let_def split: option.splits intro!: steady_trans [OF steady_quiet(10) steady_log])

lemma instructions_saved:
  assumes "save_service_instructions e db cid pid d0 uid = Inr (ct, db')"
  shows "steady db db'"
proof -
  have "db' = db \<or> (\<exists>actor c p x d. enter_instructions e actor c p x d db = (ct, db'))"
    using assms by (auto simp: save_service_instructions_def then_do_Inr_iff split: option.splits if_splits)
  then show ?thesis by (auto dest: instructions_entered)
qed

section \<open>Filings\<close>

lemma new_filing_steady:
  assumes "create_filing e db filer d key = Inr (f, db')" and "fresh_keys e"
  shows "steady db db'"
proof -
  from assms(1) obtain c where dest: "validate_filing_destination db (draft_destination d) (Some filer) = Inr c"
      and f: "f = new_envelope e db filer d key c" and db': "db' = filings_update (\<lambda>fs. fs @ [f]) db"
    by (auto simp: create_filing_def then_do_Inr_iff Let_def split: if_splits)
  have "fe_id f \<notin> fe_id ` set (filings db)" using fresh_key [OF assms(2)] by (simp add: f new_envelope_def)
  moreover have "new_matter (matter_of f)"
    using destination_Inr [OF dest] destination_type_case [OF dest]
    by (simp add: new_matter_def matter_of_def f new_envelope_def draft_destination_def)
  ultimately show ?thesis unfolding db' by (rule steady_new_filing)
qed

lemma filing_created:
  assumes "create_filing_handler e db db1 uid d key = Inr (r, db')" and "fresh_keys e"
  shows "steady db db'"
proof -
  have "db' = db \<or> (\<exists>f db2. create_filing e db uid d (Some key) = Inr (f, db2)
      \<and> db' = log_filing e uid ''create_filing'' (fe_id f) None db2)"
    using assms(1) by (auto simp: create_filing_handler_def then_do_Inr_iff split: option.splits sum.splits if_splits)
  then show ?thesis using new_filing_steady [OF _ assms(2)] steady_log_filing by (blast intro: steady_trans)
qed

lemma matter_edited: "matter_of (edited d f) = matter_of f"
  by (auto simp: edited_def matter_of_def Let_def split: option.splits)

lemma id_edited: "fe_id (edited d f) = fe_id f"
  by (auto simp: edited_def Let_def split: option.splits)

lemma filing_updated: "update_filing e db fid d uid = Inr db' \<Longrightarrow> steady db db'"
  by (auto simp: update_filing_def update_details_def owned_filing_Inr then_do_Inr_iff id_edited find_filing_id matter_edited
      split: if_splits intro!: steady_same_filing)

lemma matter_submitted:
  "fe_status f \<in> {Draft, Returned} \<Longrightarrow> lifecycle (matter_of f) (matter_of (submitted_envelope e db f))"
proof -
  assume "fe_status f \<in> {Draft, Returned}"
  then have "lifecycle (matter_of f) ((matter_of f)\<lparr>mt_status := (if mt_type (matter_of f) = ''service_only'' then Served else Submitted),
      mt_count := mt_count (matter_of f) + 1\<rparr>)" by (intro lifecycle.Submit) (simp add: matter_of_def)
  moreover have "matter_of (submitted_envelope e db f) = (matter_of f)\<lparr>mt_status := (if mt_type (matter_of f) = ''service_only'' then Served else Submitted),
      mt_count := mt_count (matter_of f) + 1\<rparr>"
    by (simp add: matter_of_def submitted_envelope_def Let_def)
  ultimately show ?thesis by simp
qed

lemma submission_steady:
  assumes "submit_filing e db0 db fid key token = Inr (Some (f', db'))" and "fresh_keys e"
  shows "steady db db'"
  using assms(1)
proof (rule submit_filing_Inr)
  fix probe f t c
  assume f: "find_filing db fid = Some f" "fe_status f \<in> {Draft, Returned}" and f': "f' = submitted_envelope e db f"
    and rec: "record_transaction e f' (submission_event_of f') (fe_filer f') None key [] (save_filing e f' db) = Inr (t, db')"
  have "steady db (save_filing e f' db)"
    by (rule steady_step) (use f in \<open>auto simp: f' submitted_envelope_fields find_filing_id intro: matter_submitted\<close>)
  also have "steady \<dots> db'" by (rule steady_transaction [OF rec assms(2)])
  finally show ?thesis .
qed

lemma filing_submitted:
  assumes "submit_handler e db0 db fid key token uid = Inr (f, db')" and "fresh_keys e"
  shows "steady db db'"
proof -
  from assms(1) obtain f0 where r: "(case submit_filing e db0 db fid key (Some token) of
       Inl (SubmissionAlreadyRecordedError i) \<Rightarrow> Inr (recorded_filing db0 db f0 key, db)
     | Inl x \<Rightarrow> Inl (submit_conflict x)
     | Inr None \<Rightarrow> Inl (Http 400 (Filing Only_draft_submitted))
     | Inr (Some (f, db')) \<Rightarrow> Inr (f, log_filing e uid ''submit_filing'' fid None db')) = Inr (f, db')"
    unfolding submit_handler_def by (elim then_do_InrE)
  show ?thesis
  proof (cases "submit_filing e db0 db fid key (Some token)")
    case (Inl x)
    with r show ?thesis by (cases x) auto
  next
    case (Inr y)
    with r obtain f' db2 where "y = Some (f', db2)" "db' = log_filing e uid ''submit_filing'' fid None db2"
      by (cases y) auto
    with Inr submission_steady [OF _ assms(2)] show ?thesis by (blast intro: steady_trans steady_log_filing)
  qed
qed

lemma document_removed: "remove_document e db fid did uid = Inr db' \<Longrightarrow> steady db db'"
proof (erule remove_document_Inr)
  fix f d
  assume f: "find_filing db fid = Some f" and db': "db' = log_action e (Some uid) ''remove_document'' ''filing_document'' (Some did)
      (Some (JObj [(''filing_id'', JInt fid)]))
      (drop_document e f d (save_filing e (f\<lparr>fe_fee_version := fe_fee_version f + 1\<rparr>) db))"
  have "steady db (save_filing e (f\<lparr>fe_fee_version := fe_fee_version f + 1\<rparr>) db)"
    by (rule steady_same_filing [of _ _ f]) (use f in \<open>simp_all add: find_filing_id matter_of_def\<close>)
  also note steady_drop_document
  also note steady_log
  finally show ?thesis unfolding db' .
qed

end
