(* ===== verification/CourtHandlers.thy ===== *)
theory CourtHandlers
  imports Handlers
begin

text \<open>The operations of the notice worker, the payments, the fees, the clerk's review and the deliveries
  as steps of the whole database.\<close>

section \<open>Notices\<close>

lemma email_claimed: "claim_email e db = (r, db') \<Longrightarrow> steady db db'"
  by (auto simp: claim_email_def Let_def split: option.splits intro: steady_store_notice)

lemma attempt_finished: "steady db (finish_attempt e db n r)"
  by (auto simp: finish_attempt_def Let_def split: option.splits intro: steady_store_notice steady_delivery_events)

lemma interrupted_recovered: "recover_interrupted e db = (db', n) \<Longrightarrow> steady db db'"
  by (auto simp: recover_interrupted_def Let_def intro: steady_trans [OF steady_quiet(11) steady_delivery_events])

lemma next_delivered: "deliver_next e e' relay db = (b, db') \<Longrightarrow> steady db db'"
  by (auto simp: deliver_next_def split: prod.splits option.splits if_splits
      intro: steady_trans [OF email_claimed attempt_finished] email_claimed)

lemma delivery_retried: "retry_delivery e db nid reason uid = Inr db' \<Longrightarrow> steady db db'"
  by (auto simp: retry_delivery_def then_do_Inr_iff split: if_splits prod.splits intro: steady_store_notice)

section \<open>Storage cleanup\<close>

lemma job_cleaned: "cleanup_next e u db os = (r, db', os') \<Longrightarrow> steady db db'"
  by (auto simp: cleanup_next_def defer_job_def finish_job_def steady_quiet split: option.splits if_splits sum.splits
      intro: steady_trans [OF steady_log steady_quiet(9)])

lemma drained: "drain_cleanup es u db os = (db', os') \<Longrightarrow> steady db db'"
proof (induction es u db os arbitrary: db' os' rule: drain_cleanup.induct)
  case (1 es u db os)
  obtain r db1 os1 where c: "cleanup_next (es 0) u db os = (r, db1, os1)" by (rule prod_cases3)
  note job = job_cleaned [OF c]
  show ?case
  proof (cases "r = Some Deleted")
    case True
    then have "drain_cleanup (\<lambda>n. es (Suc n)) u db1 os1 = (db', os')"
      using 1(2) c by (simp add: drain_cleanup.simps [of es])
    from "1.IH" [OF c [symmetric] refl True this] job show ?thesis by (blast intro: steady_trans)
  next
    case False
    with 1(2) c job show ?thesis by (simp add: drain_cleanup.simps [of es])
  qed
qed

section \<open>Payments\<close>

lemma save_then_record:
  assumes "record_transaction e f ev actor why key kvs (save_filing e f db) = Inr (t, db')" and "fresh_keys e"
    and "find_filing db (fe_id f) = Some f0" and "matter_of f = matter_of f0"
  shows "steady db db'"
  by (rule steady_trans [OF steady_same_filing [OF assms(3,4)] steady_transaction [OF assms(1,2)]])

lemma payment_row_entered:
  assumes "enter_payment e p f ev actor why kvs db = Inr db'" and "fresh_keys e"
    and "find_filing db (fe_id f) = Some f"
  shows "steady db db'"
proof -
  from assms(1) obtain g t where rec: "record_transaction e (paid_filing p f) ev actor why None kvs
      (save_filing e (paid_filing p f) (payments_update g db)) = Inr (t, db')"
    by (auto simp: enter_payment_def insert_payment_def then_do_Inr_iff split: if_splits)
  have "find_filing (payments_update g db) (fe_id (paid_filing p f)) = Some f"
    using assms(3) by (simp add: find_filing_def paid_filing_def)
  moreover have "matter_of (paid_filing p f) = matter_of f" by (simp add: matter_of_def paid_filing_def)
  ultimately show ?thesis
    using steady_trans [OF steady_quiet(4) save_then_record [OF rec assms(2)]] by blast
qed

lemma payment_processed:
  assumes "process_payment e db r uid = Inr (p, db')" and "fresh_keys e"
  shows "steady db db'"
proof -
  from assms(1) obtain f kvs det db2 where f: "find_filing db (pr_envelope r) = Some f"
    and ent: "enter_payment e p f ''payment_recorded'' uid None kvs db = Inr db2"
    and db': "db' = log_payment e uid ''process_payment'' (py_id p) det db2"
    by (auto simp: process_payment_def then_do_Inr_iff split: option.splits if_splits)
  from f have "find_filing db (fe_id f) = Some f" by (simp add: find_filing_id)
  from payment_row_entered [OF ent assms(2) this] show ?thesis
    unfolding db' log_payment_def by (rule steady_trans) (rule steady_log)
qed

lemma credit_recorded:
  assumes "record_external_payment e db fid r key uid = Inr (p, db')" and "fresh_keys e"
  shows "steady db db'"
  using assms(1)
proof (cases rule: record_external_payment_cases)
  case (entered f actor s)
  have f: "find_filing db (fe_id f) = Some f" using lock_payment_filing_Inr(1) [OF entered(1)] by (simp add: find_filing_id)
  from entered(6) obtain kvs det db2 where
    ent: "enter_payment e p f ''fee_payment_recorded'' (us_id actor) (Some (cr_reason r)) kvs db = Inr db2"
    and db': "db' = log_payment e (us_id actor) ''record_external_payment'' (py_id p) det db2"
    by (auto simp: enter_credit_def Let_def then_do_Inr_iff split: if_splits)
  from payment_row_entered [OF ent assms(2) f] show ?thesis
    unfolding db' log_payment_def by (rule steady_trans) (rule steady_log)
qed simp

lemma credit_reversed:
  assumes "reverse_external_payment e db fid pid v why uid = Inr (p, db')" and "fresh_keys e"
  shows "steady db db'"
proof -
  from assms(1) obtain f actor where lock: "lock_payment_filing e db fid uid = Inr (f, actor)"
    by (auto simp: reverse_external_payment_def elim!: then_do_InrE)
  have f: "find_filing db (fe_id f) = Some f" using lock_payment_filing_Inr(1) [OF lock] by (simp add: find_filing_id)
  let ?f = "f\<lparr>fe_payment_version := fe_payment_version f + 1\<rparr>"
  from assms(1) lock consider "db' = db"
    | g db2 kvs t det where "record_transaction e ?f ''fee_payment_reversed'' (us_id actor) (Some why) None kvs
          (payments_update g (save_filing e ?f db)) = Inr (t, db2)"
        "db' = log_payment e (us_id actor) ''reverse_external_payment'' pid det db2"
    by (auto simp: reverse_external_payment_def update_payment_def then_do_Inr_iff Let_def
        split: option.splits if_splits)
  then show ?thesis
  proof cases
    case (2 g db2 kvs t det)
    have "steady db (save_filing e ?f db)" by (rule steady_same_filing [of _ _ f]) (use f in \<open>simp_all add: matter_of_def\<close>)
    also have "steady \<dots> (payments_update g \<dots>)" by (rule steady_quiet)
    also have "steady \<dots> db2" by (rule steady_transaction [OF 2(1) assms(2)])
    also have "steady \<dots> db'" unfolding 2(2) log_payment_def by (rule steady_log)
    finally show ?thesis .
  qed simp
qed

section \<open>Fees\<close>

lemma fee_event_recorded:
  assumes "record_fee_event e f ev uid why kvs db = Inr (t, db')" and "fresh_keys e"
    and "find_filing db (fe_id f) = Some f0" and "matter_of f = matter_of f0"
  shows "steady db db'"
proof -
  from assms(1) obtain kvs' d db1 where
    r: "record_transaction e f ev uid (Some why) None kvs' (retain_documents (fe_id f) (now e) (save_filing e f db)) = Inr (t, db1)"
    and db': "db' = log_filing e uid ev (fe_id f) d db1"
    by (auto simp: record_fee_event_def then_do_Inr_iff)
  have "steady db (save_filing e f db)" by (rule steady_same_filing [OF assms(3,4)])
  also have "steady \<dots> (retain_documents (fe_id f) (now e) \<dots>)" by (rule steady_retain)
  also have "steady \<dots> db1" by (rule steady_transaction [OF r assms(2)])
  also have "steady \<dots> db'" unfolding db' by (rule steady_log_filing)
  finally show ?thesis .
qed

lemma fee_review_requested:
  assumes "request_fee_review e db fid v why uid = Inr (s, db')" and "fresh_keys e"
  shows "steady db db'"
  using assms(1)
proof (rule request_fee_review_Inr)
  fix f :: envelope and t :: txn
  let ?f = "f\<lparr>fe_fee_version := fe_fee_version f + 1, fe_fee_review_at := Some (now e)\<rparr>"
  assume f: "find_filing db fid = Some f"
    and r: "record_fee_event e ?f ''fee_review_requested'' uid (str_strip why) [] db = Inr (t, db')"
  show ?thesis
    by (rule fee_event_recorded [OF r assms(2), of f]) (use f in \<open>simp_all add: find_filing_id matter_of_def\<close>)
qed

lemma fees_assessed:
  assumes "assess_fees e db fid raw uid = Inr (s', db')" and "fresh_keys e"
  shows "steady db db'"
  using assms(1)
proof (rule assess_fees_Inr)
  fix r s db1 and t :: txn and f :: envelope
  let ?f = "f\<lparr>fe_fee_version := fe_fee_version f + 1, fe_fee_review_at := None\<rparr>"
  assume f: "find_filing db fid = Some f"
    and r: "record_fee_event e ?f ''fee_assessed'' uid (aq_reason r) (assessment_details r s) db = Inr (t, db1)"
    and db': "db' = save_filing e (?f\<lparr>fe_fee_assessment := Some (tx_id t)\<rparr>) db1"
  have f': "find_filing db (fe_id ?f) = Some f" using f by (simp add: find_filing_id)
  have "\<not> submission_event ''fee_assessed''" "''fee_assessed'' \<noteq> ''accepted''" by (simp_all add: submission_event_def)
  from record_fee_event_effect(1) [OF r this f'] obtain u where u: "find_filing db1 (fe_id f) = Some (?f\<lparr>fe_updated_at := u\<rparr>)"
    by auto
  have "steady db db1" by (rule fee_event_recorded [OF r assms(2) f']) (simp add: matter_of_def)
  also have "steady db1 db'"
    unfolding db' by (rule steady_same_filing [of _ _ "?f\<lparr>fe_updated_at := u\<rparr>"]) (use u in \<open>simp_all add: matter_of_def\<close>)
  finally show ?thesis .
qed

section \<open>Deliveries\<close>

lemma recipient_added:
  assumes "add_recipient e pk r db = Inr db'" and "fresh_keys e"
  shows "steady db db'"
proof -
  from assms(1) obtain x g ne where db': "db' = store_notice ne (recipients_update (\<lambda>rs. rs @ [x]) (notifications_update g db))"
    by (auto simp: add_recipient_def Let_def then_do_Inr_iff split: if_splits)
  show ?thesis unfolding db'
    by (rule steady_trans [OF steady_trans [OF steady_quiet(11) steady_recipients] steady_store_notice])
qed

lemma recipients_added: "add_recipients e pk rs db = Inr db' \<Longrightarrow> fresh_keys e \<Longrightarrow> steady db db'"
  by (induction rs arbitrary: db) (auto simp: then_do_Inr_iff intro: steady_trans dest: recipient_added)

lemma documents_sent:
  assumes "send_documents e db0 db fid q key uid = Inr (pid, db')" and "fresh_keys e"
  shows "steady db db'"
proof -
  from send_documents_Inr [OF assms(1)] obtain pk where "create_packet e db0 db uid fid q key = Inr (pk, db')" by blast
  then show ?thesis
  proof (cases rule: create_packet_cases)
    case (sent u f c t manifest rows)
    from recipients_added [OF sent(8) assms(2)] show ?thesis by (rule steady_trans [OF steady_packets])
  qed simp
qed

lemma delivery_downloaded: "download_delivery_document e db rid did actor = Inr (x, db') \<Longrightarrow> steady db db'"
  unfolding download_delivery_document_def
  by (elim then_do_InrE) (auto simp: steady_service_event split: option.splits if_splits)

lemma delivery_acknowledged: "acknowledge_delivery e db rid actor = Inr db' \<Longrightarrow> steady db db'"
  by (auto simp: acknowledge_delivery_def then_do_Inr_iff steady_service_event split: option.splits if_splits)

lemma alert_retried: "retry_alert e db rid why uid = Inr (s, db') \<Longrightarrow> steady db db'"
  by (auto simp: retry_alert_def then_do_Inr_iff Let_def split: option.splits if_splits
      intro: steady_trans [OF steady_store_notice steady_service_event])

lemma sender_alerted: "alert_sender e v actor kvs db = Inr (k, db') \<Longrightarrow> steady db db'"
  by (auto simp: alert_sender_def Let_def then_do_Inr_iff split: if_splits
      intro: steady_trans [OF steady_quiet(11) steady_store_notice])

lemma failure_reported:
  assumes "report_delivery_failure e db rid d0 key uid = Inr (r, db')"
  shows "steady db db'"
proof -
  from assms consider "db' = db" | ne v actor k0 kvs db2 who where "alert_sender e v actor k0 (store_notice ne db) = Inr (kvs, db2)"
      "db' = record_service_event e who actor ''failure_reported'' kvs db2"
    by (auto simp: report_delivery_failure_def then_do_Inr_iff Let_def split: option.splits if_splits)
  then show ?thesis
  proof cases
    case (2 ne v actor k0 kvs db2 who)
    have "steady db db2" by (rule steady_trans [OF steady_store_notice sender_alerted [OF 2(1)]])
    then show ?thesis unfolding 2(2) by (rule steady_trans) (rule steady_service_event)
  qed simp
qed

end
