(* ===== verification/ReviewHandlers.thy ===== *)
theory ReviewHandlers
  imports CourtHandlers
begin

text \<open>The clerk's review and its answers as steps of the whole database.\<close>

section \<open>Reviews\<close>

lemma matter_decline:
  assumes "awaiting_review f" and "matter_of g = (matter_of f)\<lparr>mt_status := s\<rparr>" and "s \<in> {Rejected, Returned}"
  shows "lifecycle (matter_of f) (matter_of g)"
  unfolding assms(2) by (rule lifecycle.Decline) (use assms in \<open>auto simp: awaiting_review_def matter_of_def\<close>)

lemma matter_hold:
  assumes "awaiting_review f" and "matter_of g = (matter_of f)\<lparr>mt_status := UnderReview\<rparr>"
  shows "lifecycle (matter_of f) (matter_of g)"
  unfolding assms(2) by (rule lifecycle.Hold) (use assms in \<open>auto simp: awaiting_review_def matter_of_def\<close>)

lemma matter_accept:
  assumes "awaiting_review f" and "matter_of g = (matter_of f)\<lparr>mt_status := Accepted, mt_case := Some c\<rparr>"
    and "fe_case f = None \<or> fe_case f = Some c"
  shows "lifecycle (matter_of f) (matter_of g)"
  unfolding assms(2) by (rule lifecycle.Accept) (use assms in \<open>auto simp: awaiting_review_def matter_of_def\<close>)

text \<open>The end of a review: the ledger row, then the filing.\<close>

lemma recorded_then_saved:
  assumes "record_transaction e f ev actor why key kvs db = Inr (t, db1)" and "fresh_keys e"
    and "find_filing db (fe_id f) = Some f0" and "lifecycle (matter_of f0) (matter_of f)"
  shows "steady db (save_filing e f db1)"
proof -
  have "find_filing db1 (fe_id f) = Some f0"
    using record_transaction_frame(15) [OF assms(1)] assms(3) by simp
  then show ?thesis
    by (rule steady_trans [OF steady_transaction [OF assms(1,2)] steady_step [OF _ assms(4)]])
qed

lemma review_finished:
  assumes "finish_review e reviewer why f db = Inr (f', db')" and "fresh_keys e"
    and "find_filing db (fe_id f) = Some f0" and "lifecycle (matter_of f0) (matter_of f)"
  shows "steady db db'"
  using assms(1) recorded_then_saved [OF _ assms(2-4)] by (auto simp: finish_review_def then_do_Inr_iff)

lemma cms_failure_recorded:
  assumes "cms_failed e reviewer r f db = Inr (f', db')" and "fresh_keys e"
    and "find_filing db (fe_id f) = Some f0" and "lifecycle (matter_of f0) (matter_of f)"
  shows "steady db db'"
proof -
  define why where "why = or_text (cm_error r) ''No reason was given''"
  let ?f = "f\<lparr>fe_cms_error := Some why, fe_cms_filing_id := None, fe_cms_case_number := None\<rparr>"
  from assms(1) obtain t db1 where rec: "record_transaction e ?f ''cms_failed'' reviewer (Some why) None [] db = Inr (t, db1)"
    and db': "db' = save_filing e ?f db1"
    unfolding cms_failed_def Let_def why_def [symmetric] by (auto simp only: then_do_Inr_iff split: prod.splits)
  show ?thesis unfolding db'
    by (rule recorded_then_saved [OF rec assms(2)]) (use assms(3,4) in \<open>simp_all add: matter_of_def\<close>)
qed

lemma date_reassessed:
  assumes "reassess_date e reviewer received f db = Inr (f', db')" and "fresh_keys e"
  shows "steady db db' \<and> filings db' = filings db \<and> fe_id f' = fe_id f \<and> matter_of f' = matter_of f"
proof (cases "fe_filing_date_basis f = Some (assessment_json (filing_date_for_receipt e db (fe_court f) received))")
  case True
  with assms(1) show ?thesis by (auto simp: reassess_date_def Let_def split: if_splits)
next
  case False
  let ?a = "filing_date_for_receipt e db (fe_court f) received"
  let ?f = "f\<lparr>fe_filing_date := as_filing_date ?a, fe_filing_date_basis := Some (assessment_json ?a)\<rparr>"
  from assms(1) False obtain t where f': "f' = ?f"
    and rec: "record_transaction e ?f ''filing_date_assessed'' reviewer None None
      [(''previous_filing_date'', jopt JDate (fe_filing_date f)), (''filing_date_basis'', assessment_json ?a)] db
      = Inr (t, db')"
    unfolding reassess_date_def Let_def by (auto simp only: then_do_Inr_iff split: if_splits prod.splits)
  from steady_transaction [OF rec assms(2)] record_transaction_frame(1,2) [OF rec] f' show ?thesis
    by (simp add: matter_of_def)
qed

lemma case_entered:
  assumes "enter_case e cms reviewer why c f db = Inr (f', db')" and "fresh_keys e"
    and "find_filing db (fe_id f) = Some f0" and "awaiting_review f0"
    and "matter_of f = (matter_of f0)\<lparr>mt_status := UnderReview\<rparr>"
    and "fe_case f0 = None \<Longrightarrow> cs_id c \<notin> cs_id ` set (cases db)"
    and "fe_case f0 = None \<or> fe_case f0 = Some (cs_id c)"
  shows "steady db db'"
proof (cases "cm_success (cms (cs_number c) (fe_id f))")
  case False
  with assms(1) have "cms_failed e reviewer (cms (cs_number c) (fe_id f)) f db = Inr (f', db')"
    by (simp add: enter_case_def Let_def)
  then show ?thesis using assms(2,3) matter_hold [OF assms(4,5)] by (rule cms_failure_recorded)
next
  case True
  let ?f = "entered (cms (cs_number c) (fe_id f)) c f"
  have same: "fe_case f = fe_case f0" using assms(5) by (simp add: matter_of_def)
  from True assms(1) obtain db1 where ins: "(if fe_case f = None then insert_case c db else Inr db) = Inr db1"
    and fin: "finish_review e reviewer why ?f db1 = Inr (f', db')"
    by (auto simp: enter_case_def Let_def then_do_Inr_iff)
  have "steady db db1" using ins steady_insert_case assms(6) same by (auto split: if_splits)
  also have "steady db1 db'"
  proof (rule review_finished [OF fin assms(2)])
    show "find_filing db1 (fe_id ?f) = Some f0"
      using ins assms(3) by (auto simp: insert_case_def find_filing_def entered_def split: if_splits)
    have "matter_of ?f = (matter_of f0)\<lparr>mt_status := Accepted, mt_case := Some (cs_id c)\<rparr>"
      using assms(5,7) by (auto simp: entered_def matter_of_def)
    from matter_accept [OF assms(4) this assms(7)] show "lifecycle (matter_of f0) (matter_of ?f)" .
  qed
  finally show ?thesis .
qed

lemma filing_accepted:
  assumes "accept_filing e cms reviewer why ordered existing f db = Inr (f', db')" and "fresh_keys e"
    and "find_filing db (fe_id f) = Some f0" and "awaiting_review f0" and "matter_of f = matter_of f0"
    and "existing = None \<longleftrightarrow> fe_case f0 = None" and "\<And>c. existing = Some c \<Longrightarrow> fe_case f0 = Some (cs_id c)"
  shows "steady db db'"
proof -
  from assms(1) obtain received f1 db1 c where
    d: "(if ordered then Inr (f, db) else reassess_date e reviewer received f db) = Inr (f1, db1)"
    and c: "case_to_enter e db1 (under_review f1) received existing = Inr c"
    and fin: "enter_case e cms reviewer why c (under_review f1) db1 = Inr (f', db')"
    unfolding accept_filing_def by (auto simp: then_do_Inr_iff split: option.splits)
  have d': "steady db db1" "filings db1 = filings db" "fe_id f1 = fe_id f" "matter_of f1 = matter_of f"
    using d date_reassessed [OF _ assms(2), of reviewer received f db f1 db1] by (simp_all split: if_splits)
  have "steady db1 db'"
  proof (rule case_entered [OF fin assms(2)])
    show "find_filing db1 (fe_id (under_review f1)) = Some f0"
      using assms(3) d' by (simp add: find_filing_def under_review_def)
    show "awaiting_review f0" by (rule assms(4))
    show "matter_of (under_review f1) = (matter_of f0)\<lparr>mt_status := UnderReview\<rparr>"
      using d'(4) assms(5) by (simp add: matter_of_def under_review_def)
    show "cs_id c \<notin> cs_id ` set (cases db1)" if "fe_case f0 = None"
      using c that assms(6) fresh_key [OF assms(2), of cs_id "cases db1"]
      by (auto simp: case_to_enter_def then_do_Inr_iff new_case_def)
    show "fe_case f0 = None \<or> fe_case f0 = Some (cs_id c)"
      using c assms(6,7) by (cases existing) (auto simp: case_to_enter_def)
  qed
  with d'(1) show ?thesis by (rule steady_trans)
qed

lemma review_recorded:
  assumes "record_review e cms db fid reviewer action why cnt ev = Inr (Some (f', db'))" and "fresh_keys e"
  shows "steady db db'"
proof -
  obtain f where f: "find_filing db fid = Some f" "fe_id f = fid" "awaiting_review f"
    using record_review_found [OF assms(1)] by metis
  show ?thesis
  proof (cases "action = AcceptFiling")
    case True
    from assms(1) [unfolded True] f(1) obtain c where c: "check_acceptance db f ev = Inr c"
      and acc: "accept_filing e cms reviewer why (ev_ordered ev) c
        (f\<lparr>fe_reviewer := Some reviewer, fe_reviewed_at := Some (now e)\<rparr>) db = Inr (f', db')"
      by (rule record_review_accept)
    show ?thesis
      by (rule filing_accepted [OF acc assms(2), of f])
        (use f check_acceptance_Inr [OF c] in \<open>simp_all add: matter_of_def\<close>)
  next
    case False
    let ?f = "f\<lparr>fe_reviewer := Some reviewer, fe_reviewed_at := Some (now e),
       fe_filing_date_version := fe_filing_date_version f + 1,
       fe_status := (if action = RejectFiling then Rejected else Returned), fe_rejection_reason := why\<rparr>"
    have "lifecycle (matter_of f) (matter_of ?f)"
      by (rule matter_decline [OF f(3), where s = "if action = RejectFiling then Rejected else Returned"])
        (simp_all add: matter_of_def)
    with f(1,2) show ?thesis
      by (intro review_finished [OF record_review_decline [OF assms(1) f(1) False] assms(2), of f]) simp_all
  qed
qed

lemma audited_steady: "audited db db' \<Longrightarrow> steady db db'"
  by (auto simp: audited_def evolves_def logs_grow_def file_refs_def keys_ok_def find_filing_def
      intro!: filings_evolve_refl)

lemma filing_reviewed:
  assumes "review_handler e cms db0 db fid action reason cnt uid = Inr (reply, db')" and "fresh_keys e"
  shows "steady db db'"
  using assms(1)
proof (rule review_handler_Inr)
  fix f' db1 why
  assume "review_filing e cms db0 db fid uid action why cnt = Inr (Some (f', db1))" and db': "audited db1 db'"
  then obtain ev where "record_review e cms db fid uid action why cnt ev = Inr (Some (f', db1))"
    by (auto elim: review_filing_Inr)
  from review_recorded [OF this assms(2)] audited_steady [OF db'] show ?thesis by (rule steady_trans)
qed

lemma batch_recorded:
  assumes "batch_record e cms uid ie db = (outcome, db')" and "fresh_keys e"
  shows "steady db db'"
  using assms review_recorded
  by (auto simp: batch_record_def split: sum.splits option.splits if_splits)

lemma batches_recorded: "batch_records e cms uid ies db = (ok, bad, db') \<Longrightarrow> fresh_keys e \<Longrightarrow> steady db db'"
proof (induction ies arbitrary: db ok bad)
  case (Cons ie ies)
  obtain outcome db1 where 1: "batch_record e cms uid ie db = (outcome, db1)" by fastforce
  obtain ok1 bad1 where "batch_records e cms uid ies db1 = (ok1, bad1, db')"
    using Cons.prems(1) 1 by (auto split: prod.splits sum.splits)
  from batch_recorded [OF 1 Cons.prems(2)] Cons.IH [OF this Cons.prems(2)] show ?case by (rule steady_trans)
qed simp

lemma batch_reviewed:
  assumes "batch_review_filings e cms probe db0 db items uid = Inr (reply, db')" and "fresh_keys e"
  shows "steady db db'"
proof -
  from assms(1) obtain ies ok bad db1 d where "batch_records e cms uid ies db = (ok, bad, db1)"
    and db': "db' = log_filing e uid ''batch_review_accept'' 0 d db1"
    by (auto simp: batch_review_filings_def then_do_Inr_iff Let_def split: prod.splits)
  from batches_recorded [OF this(1) assms(2)] show ?thesis
    unfolding db' by (rule steady_trans) (rule steady_log_filing)
qed

end
