(* ===== verification/Served.thy ===== *)
theory Served
  imports ReviewHandlers
begin

text \<open>The operations that also store an object: the database and the store advance together.\<close>

section \<open>What an operation leaves of both\<close>

text \<open>
  \<open>h\<close> is the digest of the files. The objects already stored stay as they are; an operation that
  succeeds refers at most to its own new objects, under their digest and size.
\<close>

definition file_of :: "(string \<Rightarrow> string) \<Rightarrow> objects \<Rightarrow> string \<times> string \<times> int \<Rightarrow> bool" where
  "file_of h os x \<longleftrightarrow> (case x of (k, s, n) \<Rightarrow>
     (case map_of os k of None \<Rightarrow> False | Some b \<Rightarrow> h b = s \<and> int (length b) = n))"

definition files_kept :: "objects \<Rightarrow> objects \<Rightarrow> bool" where
  "files_kept os os' \<longleftrightarrow> (\<forall>k \<in> fst ` set os. map_of os' k = map_of os k)"

definition in_order :: "(string \<Rightarrow> string) \<Rightarrow> db \<Rightarrow> objects \<Rightarrow> failure + unit \<times> db \<Rightarrow> objects \<Rightarrow> bool" where
  "in_order h db os r os1 \<longleftrightarrow> files_kept os os1
     \<and> (\<forall>db'. r = Inr ((), db') \<longrightarrow> (\<exists>N. evolves N db db' \<and> Ball N (file_of h os1)))"

lemma files_kept_refl [simp]: "files_kept os os"
  by (simp add: files_kept_def)

lemma map_of_snoc: "k \<notin> fst ` set os \<Longrightarrow> map_of (os @ [(k, b)]) x = (if x = k then Some b else map_of os x)"
  by (cases "x = k") (simp_all add: map_add_def map_of_eq_None_iff [THEN iffD2] split: option.splits)

lemma files_kept_append: "k \<notin> fst ` set os \<Longrightarrow> files_kept os (os @ [(k, b)])"
  by (auto simp: files_kept_def map_of_snoc simp del: map_of_append)

text \<open>A write that fails leaves nothing or a part of the file under a fresh key.\<close>

lemma files_kept_fault:
  "os' = os \<or> (\<exists>k n. k \<notin> fst ` set os \<and> os' = os @ [(k, take n d)]) \<Longrightarrow> files_kept os os'"
  using files_kept_append by fastforce

lemma files_kept_put: "put_object u k d os = (Inl x, os') \<Longrightarrow> k \<notin> fst ` set os \<Longrightarrow> files_kept os os'"
  by (rule files_kept_fault) (use put_object_Inl(1) in blast)

lemma files_kept_store:
  "store_document_upload e u fid f code title conf os = (Inl x, os') \<Longrightarrow> fresh_keys e \<Longrightarrow> files_kept os os'"
  by (rule files_kept_fault) (rule store_document_upload_Inl(1))

lemma files_kept_delete: "k \<notin> fst ` set os \<Longrightarrow> files_kept os (filter (\<lambda>(k', d). k' \<noteq> k) (os @ [(k, b)]))"
  by (auto simp: files_kept_def map_of_filter_key map_of_snoc simp del: map_of_append filter_append)

lemma files_kept_purge: "k \<notin> fst ` set os \<Longrightarrow> files_kept os (purge_keys u [k] (os @ [(k, b)]))"
  using files_kept_append files_kept_delete by (simp add: delete_object_def del: filter_append)

lemma file_kept:
  assumes "files_kept os os'" and "file_of h os x"
  shows "file_of h os' x"
proof -
  obtain k d n where x: "x = (k, d, n)" by (cases x)
  with assms(2) obtain b where "map_of os k = Some b" by (auto simp: file_of_def split: option.splits)
  then have "k \<in> fst ` set os" by (metis map_of_eq_None_iff option.distinct(1))
  with assms(1) have "map_of os' k = map_of os k" unfolding files_kept_def by blast
  with assms(2) show ?thesis by (simp add: x file_of_def)
qed

lemma in_order_steady: "(\<And>db'. r = Inr ((), db') \<Longrightarrow> steady db db') \<Longrightarrow> in_order h db os r os"
  unfolding in_order_def by (metis ball_empty files_kept_refl)

lemma in_order_Inl [simp]: "in_order h db os (Inl x) os1 \<longleftrightarrow> files_kept os os1"
  by (simp add: in_order_def)

lemma in_order_stored:
  assumes "k \<notin> fst ` set os" and "\<And>db'. r = Inr ((), db') \<Longrightarrow> evolves {(k, h b, int (length b))} db db'"
  shows "in_order h db os r (os @ [(k, b)])"
proof -
  have "file_of h (os @ [(k, b)]) (k, h b, int (length b))"
    using assms(1) by (simp add: file_of_def map_of_snoc del: map_of_append)
  with assms files_kept_append [OF assms(1)] show ?thesis by (fastforce simp: in_order_def)
qed

text \<open>The results as they are committed.\<close>

definition answer :: "failure + 'a \<times> db \<Rightarrow> failure + unit \<times> db" where
  "answer r = (case r of Inl x \<Rightarrow> Inl x | Inr (y, db') \<Rightarrow> Inr ((), db'))"

definition answer_db :: "failure + db \<Rightarrow> failure + unit \<times> db" where
  "answer_db r = (case r of Inl x \<Rightarrow> Inl x | Inr db' \<Rightarrow> Inr ((), db'))"

lemma answer_Inr: "answer r = Inr ((), db') \<longleftrightarrow> (\<exists>y. r = Inr (y, db'))"
  by (auto simp: answer_def split: sum.splits)

lemma answer_db_Inr: "answer_db r = Inr ((), db') \<longleftrightarrow> r = Inr db'"
  by (auto simp: answer_db_def split: sum.splits)

lemma answer_simps [simp]:
  "answer (Inl x) = Inl x" "answer (Inr (y, db')) = Inr ((), db')"
  "answer_db (Inl x) = Inl x" "answer_db (Inr db') = Inr ((), db')"
  by (simp_all add: answer_def answer_db_def)

section \<open>Uploads\<close>

lemma upload_row_entered:
  assumes "enter_upload e f d key fp name uid db = (d', db')" and "fresh_keys e" and "find_filing db (fe_id f) = Some f"
  shows "evolves {(dc_file_key d, dc_sha256 d, dc_size d)} db db'"
proof -
  let ?f = "f\<lparr>fe_fee_version := fe_fee_version f + 1\<rparr>"
  obtain g det where db': "db' = log_action e (Some uid) ''upload_document'' ''filing_document'' (Some (dc_id d')) det
      (save_filing e ?f (uploads_update g (snd (add_document e d db))))"
    using assms(1) by (auto simp: enter_upload_def Let_def split: prod.splits)
  have "find_filing (uploads_update g (snd (add_document e d db))) (fe_id ?f) = Some f"
    using assms(3) by (simp add: find_filing_def)
  then have "steady (uploads_update g (snd (add_document e d db))) (save_filing e ?f (uploads_update g (snd (add_document e d db))))"
    by (rule steady_same_filing) (simp add: matter_of_def)
  then have "steady (snd (add_document e d db)) db'"
    unfolding db' by (intro steady_trans [OF steady_trans [OF steady_quiet(8)] steady_log])
  with evolves_add_document [OF assms(2)] show ?thesis by (rule evolves_then) simp
qed

lemma upload_finished:
  assumes "finish_upload u db k r (os @ [(k, b)]) = (r', os')" and "k \<notin> fst ` set os"
    and "\<And>d db'. r = Inr (Enter d db') \<Longrightarrow> evolves {(k, h b, int (length b))} db db'"
  shows "in_order h db os (answer r') os'"
proof (cases r)
  case (Inl x)
  with assms(1,2) files_kept_purge show ?thesis by (auto simp: finish_upload_def simp del: purge_keys.simps)
next
  case (Inr s)
  show ?thesis
  proof (cases s)
    case (Replay d)
    from Replay Inr assms(1) consider x where "r' = Inl x" "os' = purge_keys u [k] (os @ [(k, b)])"
      | "r' = Inr (d, db)" "os' = filter (\<lambda>(k', d). k' \<noteq> k) (os @ [(k, b)])"
      by (auto simp: finish_upload_def delete_object_def simp del: purge_keys.simps split: if_splits)
    then show ?thesis
    proof cases
      case 1
      with files_kept_purge [OF assms(2)] show ?thesis by (simp del: purge_keys.simps)
    next
      case 2
      with files_kept_delete [OF assms(2)] show ?thesis
        by (auto simp: in_order_def simp del: filter_append intro: exI [of _ "{}"])
    qed
  next
    case (Enter d db1)
    with Inr assms(1) have res: "r' = Inr (d, db1)" "os' = os @ [(k, b)]" by (auto simp: finish_upload_def)
    from Enter Inr assms(3) have "evolves {(k, h b, int (length b))} db db1" by simp
    with assms(2) show ?thesis unfolding res by (intro in_order_stored) simp_all
  qed
qed

lemma document_uploaded:
  assumes "upload_document e u db0 db os fid key f code title conf uid = (r, os')" and "fresh_keys e"
  shows "in_order (ue_sha256 u) db os (answer r) os'"
proof -
  let ?store = "store_document_upload e u fid f code title conf os"
  show ?thesis
  proof (cases "upload_recorded db0 fid key")
    case (Some q)
    with assms(1) have "os' = os" and "\<And>y db'. r = Inr (y, db') \<Longrightarrow> db' = db"
      unfolding upload_document_def by (auto simp: then_do_Inr_iff split: sum.splits)
    then show ?thesis by (auto intro!: in_order_steady simp: answer_Inr)
  next
    case None
    with assms(1) consider x where "os' = os" "r = Inl x" | x where "?store = (Inl x, os')" "r = Inl x"
      | d os1 fp where "?store = (Inr d, os1)"
          "finish_upload u db (dc_file_key d) (upload_locked e db fid key d fp (uf_name f) uid) os1 = (r, os')"
      unfolding upload_document_def by (auto split: sum.splits prod.splits if_splits)
    then show ?thesis
    proof cases
      case 2
      with files_kept_store [OF 2(1) assms(2)] show ?thesis by simp
    next
      case (3 d os1 fp)
      from stored_upload [OF 3(1) assms(2)] have st: "dc_file_key d \<notin> fst ` set os" "os1 = os @ [(dc_file_key d, uf_data f)]"
        "dc_sha256 d = ue_sha256 u (uf_data f)" "dc_size d = int (length (uf_data f))" by simp_all
      have "evolves {(dc_file_key d, ue_sha256 u (uf_data f), int (length (uf_data f)))} db db'"
        if l: "upload_locked e db fid key d fp (uf_name f) uid = Inr (Enter d' db')" for d' db'
      proof -
        from l obtain g where "find_filing db fid = Some g" "enter_upload e g d key fp (uf_name f) uid db = (d', db')"
          by (auto simp: upload_locked_def then_do_Inr_iff split: option.splits if_splits prod.splits)
        then show ?thesis using upload_row_entered [OF _ assms(2)] st(3,4) by (metis find_filing_id)
      qed
      with 3(2) st(1,2) show ?thesis by (intro upload_finished) simp_all
    qed simp
  qed
qed

section \<open>Orders and public copies\<close>

lemma kept_or_purged:
  assumes "keep_or_purge u k r (os @ [(k, b)]) = (r', os')" and "k \<notin> fst ` set os"
  shows "r' = r \<and> (case r of Inl x \<Rightarrow> files_kept os os' | Inr y \<Rightarrow> os' = os @ [(k, b)])"
  using assms files_kept_purge [OF assms(2)] by (auto simp: keep_or_purge_def simp del: purge_keys.simps split: sum.splits)

lemma stored_or_refused:
  assumes "keep_or_purge u k r (os @ [(k, b)]) = (r', os')" and "k \<notin> fst ` set os"
    and "\<And>x. g (Inl x) = Inl x" and "\<And>db'. g r = Inr ((), db') \<Longrightarrow> evolves {(k, h b, int (length b))} db db'"
  shows "in_order h db os (g r') os'"
proof -
  note kp = kept_or_purged [OF assms(1,2)]
  show ?thesis
  proof (cases r)
    case (Inl x)
    with kp assms(3) show ?thesis by simp
  next
    case (Inr y)
    with kp have "os' = os @ [(k, b)]" "r' = r" by simp_all
    with in_order_stored [of k os "g r" h b db] assms(2,4) show ?thesis by simp
  qed
qed

lemma decision_recorded:
  assumes "record_decision e f uid a why owed doc db = Inr db'" and "fresh_keys e" and "find_filing db (fe_id f) = Some f"
  shows "evolves (if a = Refer then {} else {(dc_file_key (the doc), dc_sha256 (the doc), dc_size (the doc))}) db db'"
proof -
  let ?f = "decided_envelope e f a owed"
  let ?db1 = "if a = Refer then db else snd (add_document e (the doc) db)"
  from assms(1) obtain kvs t db2 det where
    r: "record_transaction e ?f (decision_event a) uid (Some why) None kvs (save_filing e ?f ?db1) = Inr (t, db2)"
    and db': "db' = log_filing e uid (decision_event a) (fe_id f) det db2"
    by (auto simp: record_decision_def then_do_Inr_iff Let_def split: if_splits prod.splits)
  have m: "matter_of ?f = matter_of f" "fe_id ?f = fe_id f" by (simp_all add: decided_envelope_def Let_def matter_of_def)
  have "find_filing ?db1 (fe_id ?f) = Some f" using assms(3) m(2) by simp
  from save_then_record [OF r assms(2) this m(1)] have last: "steady ?db1 db'"
    unfolding db' by (rule steady_trans) (rule steady_log_filing)
  have "evolves (if a = Refer then {} else {(dc_file_key (the doc), dc_sha256 (the doc), dc_size (the doc))}) db ?db1"
    using evolves_add_document [OF assms(2), of "the doc" db] by simp
  then show ?thesis by (rule evolves_then [OF _ last]) simp
qed

lemma decided_under_lock:
  assumes "decide_locked e db fid uid a v why owed doc = Inr db'" and "fresh_keys e"
  shows "evolves (if a = Refer then {} else {(dc_file_key (the doc), dc_sha256 (the doc), dc_size (the doc))}) db db'"
proof -
  from assms(1) obtain f where "decidable_filing e db fid uid a v = Inr f" and r: "record_decision e f uid a why owed doc db = Inr db'"
    by (auto simp: decide_locked_def then_do_Inr_iff)
  then have "find_filing db (fe_id f) = Some f" using decidable_filing_Inr find_filing_id by metis
  with decision_recorded [OF r assms(2)] show ?thesis .
qed

lemma waiver_settled:
  assumes "decide_fee_waiver e u db0 db os fid w uid = (r, os')" and "fresh_keys e"
  shows "in_order (ue_sha256 u) db os (answer_db r) os'"
proof -
  let ?dec = "decide_locked e db fid uid (wf_action w) (wf_version w) (str_strip (wf_reason w)) (wf_due w)"
  let ?store = "\<lambda>f. store_document_upload e u fid f ''FEE_WAIVER_ORDER'' ''Signed fee waiver decision'' True os"
  from assms(1) consider x where "r = Inl x" "os' = os" | "wf_file w = None" "r = ?dec None" "os' = os" "wf_action w = Refer"
    | f x where "?store f = (Inl x, os')" "r = Inl x"
    | f d os1 where "?store f = (Inr d, os1)" "keep_or_purge u (dc_file_key d) (?dec (Some d)) os1 = (r, os')"
    by (auto simp: decide_fee_waiver_def check_decision_def Let_def split: if_splits sum.splits prod.splits option.splits)
  then show ?thesis
  proof cases
    case 2
    have "steady db db'" if "answer_db r = Inr ((), db')" for db'
      using that 2 decided_under_lock [of e db fid uid "wf_action w" "wf_version w" _ _ None, OF _ assms(2)]
      by (simp add: answer_db_Inr)
    with 2 show ?thesis by (simp add: in_order_steady)
  next
    case 3
    with files_kept_store [OF 3(1) assms(2)] show ?thesis by simp
  next
    case (4 f d os1)
    from stored_upload [OF 4(1) assms(2)] have st: "dc_file_key d \<notin> fst ` set os" "os1 = os @ [(dc_file_key d, uf_data f)]"
      "dc_sha256 d = ue_sha256 u (uf_data f)" "dc_size d = int (length (uf_data f))" by simp_all
    have "evolves {(dc_file_key d, ue_sha256 u (uf_data f), int (length (uf_data f)))} db db'"
      if "answer_db (?dec (Some d)) = Inr ((), db')" for db'
    proof -
      from that have "?dec (Some d) = Inr db'" by (simp add: answer_db_Inr)
      from decided_under_lock [OF this assms(2)] show ?thesis
        by (rule evolves_mono) (simp add: st(3,4))
    qed
    with 4(2) st(1,2) show ?thesis by (intro stored_or_refused [where k = "dc_file_key d"]) simp_all
  qed simp
qed

lemma case_date_ordered: "order_case_date f o' db = Inr (change, db') \<Longrightarrow> steady db db'"
  by (auto simp: order_case_date_def split: if_splits option.splits intro!: steady_cases)

lemma order_entered:
  assumes "order_locked e db fid o' key i uid = Inr (t, db')" and "fresh_keys e"
  shows "evolves {(key, in_sha256 i, int (length (in_data i)))} db db'"
  using assms(1)
proof (rule order_locked_Inr)
  fix f :: envelope and change db1 and d :: document and db2 db3
  let ?f = "f\<lparr>fe_filing_date := Some (of_date o'), fe_filing_date_basis := Some (order_basis f o' (dc_id d)),
           fe_filing_date_version := fe_filing_date_version f + 1\<rparr>"
  assume f: "find_filing db fid = Some f" and c: "order_case_date f o' db = Inr (change, db1)"
    and a: "add_document e (order_document e f key i) db1 = (d, db2)"
    and r: "record_transaction e ?f ''filing_date_ordered'' uid
         (Some (str_strip (of_reason o'))) None
         ([(''previous_filing_date'', jopt JDate (fe_filing_date f)),
           (''previous_filing_date_basis'', jopt id (fe_filing_date_basis f))] @ change
          @ [(''filing_date_basis'', order_basis f o' (dc_id d)), (''documents'', JArr [document_json d])])
         (save_filing e ?f db2) = Inr (t, db3)"
    and db': "db' = log_filing e uid ''filing_date_ordered'' (fe_id f)
            (Some (JObj [(''transaction_id'', JStr (tx_id t)), (''order_document_id'', JInt (dc_id d))])) db3"
  have db2: "db2 = snd (add_document e (order_document e f key i) db1)" using a by simp
  have "filings db1 = filings db" using c by (auto simp: order_case_date_def split: if_splits option.splits)
  then have "find_filing db2 (fe_id ?f) = Some f" using f by (simp add: db2 find_filing_def find_filing_id)
  from save_then_record [OF r assms(2) this] have last: "steady db2 db'"
    unfolding db' by (intro steady_trans [OF _ steady_log_filing]) (simp add: matter_of_def)
  have new: "evolves {(key, in_sha256 i, int (length (in_data i)))} db1 db2"
    unfolding db2 using evolves_add_document [OF assms(2), of "order_document e f key i" db1]
    by (simp add: order_document_def)
  show ?thesis
    by (rule evolves_then [OF case_date_ordered [OF c] evolves_then [OF new last subset_refl]]) simp
qed

lemma date_ordered:
  assumes "record_filing_date_order e u db0 db os fid o' uid = (r, os')" and "fresh_keys e"
  shows "in_order (ue_sha256 u) db os (answer r) os'"
proof -
  let ?key = "new_file_key e (orders_path fid) ''.pdf'' os"
  have new: "?key \<notin> fst ` set os" by (rule new_file_key_fresh [OF assms(2)])
  from assms(1) consider x where "r = Inl x" "os' = os"
    | bytes x where "put_object u ?key bytes os = (Inl x, os')" "r = Inl x"
    | i os1 where "inspect_upload (cfg e) u (of_file o') True = Inr i" "put_object u ?key (in_data i) os = (Inr (), os1)"
        "keep_or_purge u ?key (order_locked e db fid o' ?key i uid) os1 = (r, os')"
    by (auto simp: record_filing_date_order_def then_do_Inr_iff Let_def split: sum.splits prod.splits if_splits)
  then show ?thesis
  proof cases
    case 2
    with files_kept_put [OF 2(1) new] show ?thesis by simp
  next
    case (3 i os1)
    have sha: "in_sha256 i = ue_sha256 u (in_data i)" using inspect_upload_Inr [OF 3(1)] by simp
    have "evolves {(?key, ue_sha256 u (in_data i), int (length (in_data i)))} db db'"
      if "answer (order_locked e db fid o' ?key i uid) = Inr ((), db')" for db'
      using that order_entered [OF _ assms(2)] by (auto simp: answer_Inr sha [symmetric])
    with 3(3) new put_object_new [OF 3(2) new] show ?thesis by (intro stored_or_refused [where k = ?key]) simp_all
  qed simp
qed

lemma copy_entered:
  assumes "prepare_locked e db actor did title key i = Inr (c, db')" and "fresh_keys e"
  shows "evolves {(key, in_sha256 i, int (length (in_data i)))} db db'"
proof -
  from assms(1) obtain d a det where c: "c = new_copy e d a title key i db"
    and db': "db' = log_action e (Some (us_id a)) ''document.public_copy_prepared'' ''filing_document'' (Some (dc_id d)) det
      (public_copies_update (\<lambda>cs. cs @ [c]) db)"
    by (auto simp: prepare_locked_def then_do_Inr_iff Let_def split: prod.splits)
  have "pc_id c \<notin> pc_id ` set (public_copies db)" using fresh_key [OF assms(2)] by (simp add: c new_copy_def)
  from evolves_add_copy [OF this] have "evolves {(key, in_sha256 i, int (length (in_data i)))} db
      (public_copies_update (\<lambda>cs. cs @ [c]) db)" by (simp add: c new_copy_def)
  then show ?thesis unfolding db' by (rule evolves_then [OF _ steady_log]) simp
qed

lemma copy_prepared:
  assumes "prepare_copy e u db0 db os did raw f actor = (r, os')" and "fresh_keys e"
  shows "in_order (ue_sha256 u) db os (answer r) os'"
proof -
  let ?key = "new_file_key e (copies_path did) ''.pdf'' os"
  have new: "?key \<notin> fst ` set os" by (rule new_file_key_fresh [OF assms(2)])
  from assms(1) consider x where "r = Inl x" "os' = os"
    | bytes x where "put_object u ?key bytes os = (Inl x, os')" "r = Inl x"
    | i os1 where "inspect_upload (cfg e) u f True = Inr i" "put_object u ?key (in_data i) os = (Inr (), os1)"
        "keep_or_purge u ?key (prepare_locked e db actor did (str_strip raw) ?key i) os1 = (r, os')"
    by (auto simp: prepare_copy_def then_do_Inr_iff Let_def split: sum.splits prod.splits if_splits)
  then show ?thesis
  proof cases
    case 2
    with files_kept_put [OF 2(1) new] show ?thesis by simp
  next
    case (3 i os1)
    have sha: "in_sha256 i = ue_sha256 u (in_data i)" using inspect_upload_Inr [OF 3(1)] by simp
    have "evolves {(?key, ue_sha256 u (in_data i), int (length (in_data i)))} db db'"
      if "answer (prepare_locked e db actor did (str_strip raw) ?key i) = Inr ((), db')" for db'
      using that copy_entered [OF _ assms(2)] by (auto simp: answer_Inr sha [symmetric])
    with 3(3) new put_object_new [OF 3(2) new] show ?thesis by (intro stored_or_refused [where k = ?key]) simp_all
  qed simp
qed

section \<open>Access to documents\<close>

lemma access_recorded:
  assumes "record_transaction e f ev a why None kvs (log_action e who act ent ei det (set_access did v copy db)) = Inr (t, db')"
    and "fresh_keys e"
  shows "steady db db'"
  by (rule steady_trans [OF steady_trans [OF steady_set_access steady_log] steady_transaction [OF assms]])

lemma copy_published:
  assumes "publish_copy e db0 db actor did raw = Inr db'" and "fresh_keys e"
  shows "steady db db'"
  using assms(1)
proof (rule publish_copy_Inr)
  fix r c assume "publish_locked e db actor did c r = Inr db'"
  then show ?thesis
    by (auto simp: publish_locked_def enter_publication_def Let_def then_do_Inr_iff split: option.splits if_splits
        intro: access_recorded [OF _ assms(2)])
qed

lemma document_withheld: "withhold_document e db actor did r = Inr db' \<Longrightarrow> fresh_keys e \<Longrightarrow> steady db db'"
  by (auto simp: withhold_document_def enter_withholding_def Let_def then_do_Inr_iff split: option.splits if_splits
      intro: access_recorded)

lemma document_downloaded: "download_document e db did user = Inr (x, db') \<Longrightarrow> steady db db'"
  by (auto simp: download_document_def steady_log split: option.splits if_splits)

lemma copy_downloaded: "download_public_copy e db cid user = Inr (x, db') \<Longrightarrow> steady db db'"
  by (auto simp: download_public_copy_def steady_log split: option.splits if_splits)

end
