(* ===== verification/System.thy ===== *)
theory System
  imports Served
begin

text \<open>
  The whole back end as a transition system: a request runs its handlers in one unit of work that
  is committed or rolled back with its uploads, and the notice worker, the storage cleanup and the
  operator's bootstrap run beside it. A state is the database with the object store.
\<close>

section \<open>Requests\<close>

text \<open>
  The handlers that write. Where a handler also reads before it takes its locks (or again after a
  refused insert), that state
  \<open>db0\<close> (or \<open>later\<close>) is any state; a request that signs its user in does so in the same unit of work.
\<close>

inductive request :: "env \<Rightarrow> upload_env \<Rightarrow> db \<Rightarrow> objects \<Rightarrow> failure + unit \<times> db \<Rightarrow> objects \<Rightarrow> bool"
  for e :: env and u :: upload_env where
  SignIn: "request e u db os (answer (resolve_user e i db auth demo secret required)) os"
| Register: "request e u db os (answer (register_user e i db d1)) os"
| Provision: "request e u db os (answer (provision_account e db uid d2)) os"
| ChangeAccount: "request e u db os (answer (change_account e db uid target d2 v)) os"
| ChangeRole: "request e u db os (answer (change_role e db uid court target d3)) os"
| PublishIntake: "request e u db os (answer (publish_intake e db uid court d4)) os"
| PublishCalendar: "request e u db os (answer (publish_calendar e known db uid court d5)) os"
| SaveParticipant: "request e u db os (answer (save_participant e db uid cid pid d6)) os"
| ChangeAccess: "request e u db os (answer (change_public_access e db uid cid d7)) os"
| SaveInstructions: "request e u db os (answer (save_service_instructions e db cid pt d8 uid)) os"
| CreateFiling: "request e u db os (answer (create_filing_handler e db later uid d9 key)) os"
| UpdateFiling: "request e u db os (answer_db (update_filing e db fid d10 uid)) os"
| SubmitFiling: "request e u db os (answer (submit_handler e db0 db fid sk token uid)) os"
| UploadDocument: "upload_document e u db0 db os fid key f code title conf uid = (r1, os') \<Longrightarrow>
    request e u db os (answer r1) os'"
| RemoveDocument: "request e u db os (answer_db (remove_document e db fid did uid)) os"
| RequestFeeReview: "request e u db os (answer (request_fee_review e db fid v why uid)) os"
| AssessFees: "request e u db os (answer (assess_fees e db fid d11 uid)) os"
| DecideWaiver: "decide_fee_waiver e u db0 db os fid w uid = (r2, os') \<Longrightarrow> request e u db os (answer_db r2) os'"
| OrderDate: "record_filing_date_order e u db0 db os fid form uid = (r3, os') \<Longrightarrow> request e u db os (answer r3) os'"
| ProcessPayment: "request e u db os (answer (process_payment e db d12 uid)) os"
| RecordCredit: "request e u db os (answer (record_external_payment e db fid d13 key uid)) os"
| ReverseCredit: "request e u db os (answer (reverse_external_payment e db fid pid1 v why uid)) os"
| ReviewFiling: "request e u db os (answer (review_handler e cms db0 db fid action reason cnt uid)) os"
| ReviewBatch: "request e u db os (answer (batch_review_filings e cms probe db0 db items uid)) os"
| PrepareCopy: "prepare_copy e u db0 db os did title f actor = (r4, os') \<Longrightarrow> request e u db os (answer r4) os'"
| PublishCopy: "request e u db os (answer_db (publish_copy e db0 db actor did d14)) os"
| Withhold: "request e u db os (answer_db (withhold_document e db actor did d15)) os"
| Download: "request e u db os (answer (download_document e db did viewer)) os"
| DownloadCopy: "request e u db os (answer (download_public_copy e db cid viewer)) os"
| SendDocuments: "request e u db os (answer (send_documents e db0 db fid d16 key uid)) os"
| DownloadDelivery: "request e u db os (answer (download_delivery_document e db rid did actor)) os"
| Acknowledge: "request e u db os (answer_db (acknowledge_delivery e db rid actor)) os"
| RetryAlert: "request e u db os (answer (retry_alert e db rid why uid)) os"
| ReportFailure: "request e u db os (answer (report_delivery_failure e db rid d17 key uid)) os"
| RetryDelivery: "request e u db os (answer_db (retry_delivery e db nid why uid)) os"
| Then: "request e u db os (Inr ((), db1)) os1 \<Longrightarrow> request e u db1 os1 r os2 \<Longrightarrow> request e u db os r os2"

lemma in_order_then:
  assumes "in_order h db os (Inr ((), db1)) os1" and "in_order h db1 os1 r os2"
  shows "in_order h db os r os2"
proof -
  have keys: "files_kept os os1" "files_kept os1 os2" using assms by (simp_all add: in_order_def)
  have kept: "files_kept os os2"
    unfolding files_kept_def
  proof
    fix k assume k: "k \<in> fst ` set os"
    with keys(1) have "map_of os1 k = map_of os k" unfolding files_kept_def by blast
    moreover from this k have "k \<in> fst ` set os1" by (metis map_of_eq_None_iff)
    ultimately show "map_of os2 k = map_of os k" using keys(2) unfolding files_kept_def by metis
  qed
  obtain N where N: "evolves N db db1" "Ball N (file_of h os1)" using assms(1) by (auto simp: in_order_def)
  have "\<exists>M. evolves M db db' \<and> Ball M (file_of h os2)" if r: "r = Inr ((), db')" for db'
  proof -
    from assms(2) r obtain M where "evolves M db1 db'" "Ball M (file_of h os2)" by (auto simp: in_order_def)
    with N file_kept [OF keys(2)] show ?thesis by (intro exI [of _ "N \<union> M"]) (auto intro: evolves_then)
  qed
  with kept show ?thesis by (simp add: in_order_def)
qed

lemmas handled = signed_in registered account_created account_changed role_changed intake_changed calendar_published
  participant_saved public_access_changed instructions_saved filing_updated document_removed document_downloaded copy_downloaded
  delivery_downloaded delivery_acknowledged alert_retried failure_reported delivery_retried

lemmas handled_freshly = filing_created filing_submitted fee_review_requested fees_assessed payment_processed
  credit_recorded credit_reversed filing_reviewed batch_reviewed copy_published document_withheld documents_sent

lemma request_in_order:
  assumes "request e u db os r os1" and "fresh_keys e"
  shows "in_order (ue_sha256 u) db os r os1"
  using assms(1)
proof induction
  case (Then db os db1 os1 r os2)
  then show ?case by (blast intro: in_order_then)
qed (((rule document_uploaded waiver_settled date_ordered copy_prepared, assumption, rule assms(2))
    | (rule in_order_steady, simp only: answer_Inr answer_db_Inr, (elim exE)?,
       (erule handled | erule handled_freshly [OF _ assms(2)])))+)

section \<open>Steps\<close>

text \<open>
  \<open>h\<close> is the digest all uploads use. A request step covers a commit that fails, lands or not, and a
  handler that refuses; the notice worker's claim, result and recovery are steps of their own.
\<close>

inductive system_step :: "(string \<Rightarrow> string) \<Rightarrow> db \<times> objects \<Rightarrow> db \<times> objects \<Rightarrow> bool" for h where
  Request: "fresh_keys e \<Longrightarrow> ue_sha256 u = h \<Longrightarrow> request e u db os r os1 \<Longrightarrow>
    session_scope es u fault local r os1 db os = (a, db', os') \<Longrightarrow> system_step h (db, os) (db', os')"
| Claim: "claim_email e db = (n, db') \<Longrightarrow> system_step h (db, os) (db', os)"
| Finish: "system_step h (db, os) (finish_attempt e db n reply, os)"
| Recover: "recover_interrupted e db = (db', k) \<Longrightarrow> system_step h (db, os) (db', os)"
| Cleanup: "cleanup_next e u db os = (c, db', os') \<Longrightarrow> system_step h (db, os) (db', os')"
| Bootstrap: "bootstrap_main e isolated db args = Inr (i, db') \<Longrightarrow> system_step h (db, os) (db', os)"

text \<open>Every document and public copy the database refers to is stored as it was recorded.\<close>

definition intact :: "(string \<Rightarrow> string) \<Rightarrow> db \<Rightarrow> objects \<Rightarrow> bool" where
  "intact h db os \<longleftrightarrow> Ball (file_refs db) (file_of h os)"

definition advances :: "(string \<Rightarrow> string) \<Rightarrow> db \<Rightarrow> objects \<Rightarrow> db \<Rightarrow> objects \<Rightarrow> bool" where
  "advances h db os db' os' \<longleftrightarrow> (\<exists>N. evolves N db db') \<and> (intact h db os \<longrightarrow> intact h db' os')"

lemma advances_trans: "advances h a os b os1 \<Longrightarrow> advances h b os1 c os2 \<Longrightarrow> advances h a os c os2"
  unfolding advances_def by (meson evolves_then order_refl)

lemma advances_steady:
  assumes "steady db db'" and "\<And>k. k \<in> set (referenced_keys db) \<Longrightarrow> map_of os' k = map_of os k"
  shows "advances h db os db' os'"
proof -
  have refs: "file_refs db' \<subseteq> file_refs db" using assms(1) by (simp add: evolves_def)
  have "file_of h os' x" if x: "x \<in> file_refs db'" and old: "intact h db os" for x
  proof -
    obtain k d n where x': "x = (k, d, n)" by (cases x)
    with x refs have mem: "(k, d, n) \<in> file_refs db" by blast
    then have "k \<in> set (referenced_keys db)" by (auto simp: file_refs_def referenced_keys_def)
    then have "map_of os' k = map_of os k" by (rule assms(2))
    moreover have "file_of h os (k, d, n)" using old mem unfolding intact_def by blast
    ultimately show ?thesis by (simp add: x' file_of_def)
  qed
  with assms(1) show ?thesis unfolding advances_def intact_def by blast
qed

section \<open>The cleanup in the system\<close>

lemma job_keeps_files:
  assumes "cleanup_next e u db os = (c, db', os')"
  shows "advances h db os db' os'"
proof (rule advances_steady [OF job_cleaned [OF assms]])
  show "map_of os' k = map_of os k" if "k \<in> set (referenced_keys db)" for k
    using assms that
    by (auto simp: cleanup_next_def delete_object_def map_of_filter_key split: option.splits if_splits sum.splits)
qed

lemma drain_keeps_files: "drain_cleanup es u db os = (db', os') \<Longrightarrow> advances h db os db' os'"
proof (induction es u db os arbitrary: db' os' rule: drain_cleanup.induct)
  case (1 es u db os)
  obtain r db1 os1 where c: "cleanup_next (es 0) u db os = (r, db1, os1)" by (rule prod_cases3)
  note job = job_keeps_files [OF c]
  show ?case
  proof (cases "r = Some Deleted")
    case True
    then have "drain_cleanup (\<lambda>n. es (Suc n)) u db1 os1 = (db', os')"
      using 1(2) c by (simp add: drain_cleanup.simps [of es])
    from job "1.IH" [OF c [symmetric] refl True this] show ?thesis by (rule advances_trans)
  next
    case False
    with 1(2) c job show ?thesis by (simp add: drain_cleanup.simps [of es])
  qed
qed

section \<open>The unit of work\<close>

text \<open>Reclaiming a unit's uploads leaves what was stored before it and what the database refers to.\<close>

lemma rollback_keeps:
  assumes "k \<notin> set pending \<or> (\<exists>check. verify = Some check \<and> (\<forall>d. check = Some d \<longrightarrow> k \<in> set (referenced_keys d)))"
  shows "map_of (rollback_cleanup u verify pending os) k = map_of os k"
  using assms by (cases verify) (auto simp: rollback_cleanup_def referenced_def Let_def intro!: purge_keys_other split: option.splits)

lemma stored_not_pending: "k \<in> fst ` set os \<Longrightarrow> k \<notin> set (pending_uploads os os1)"
  by (simp add: pending_uploads_def)

lemma rolled_back:
  assumes "files_kept os os1"
  shows "advances h db os db (rollback_cleanup u verify (pending_uploads os os1) os1)"
proof -
  have "files_kept os (rollback_cleanup u verify (pending_uploads os os1) os1)"
    unfolding files_kept_def
  proof
    fix k assume k: "k \<in> fst ` set os"
    have "map_of (rollback_cleanup u verify (pending_uploads os os1) os1) k = map_of os1 k"
      by (rule rollback_keeps [OF disjI1 [OF stored_not_pending [OF k]]])
    moreover have "map_of os1 k = map_of os k" using assms k unfolding files_kept_def by blast
    ultimately show "map_of (rollback_cleanup u verify (pending_uploads os os1) os1) k = map_of os k" by simp
  qed
  from file_kept [OF this] show ?thesis unfolding advances_def intact_def by (meson evolves_refl)
qed

lemma committed:
  assumes "in_order h db os (Inr ((), db')) os1"
  shows "advances h db os db' os1"
proof -
  obtain N where N: "evolves N db db'" "Ball N (file_of h os1)" and kept: "files_kept os os1"
    using assms by (auto simp: in_order_def)
  have refs: "file_refs db' \<subseteq> file_refs db \<union> N" using N(1) by (simp add: evolves_def)
  have "intact h db' os1" if "intact h db os"
    unfolding intact_def
  proof
    fix x assume "x \<in> file_refs db'"
    with refs consider "x \<in> file_refs db" | "x \<in> N" by blast
    then show "file_of h os1 x"
      using that N(2) file_kept [OF kept] unfolding intact_def by cases blast+
  qed
  with N(1) show ?thesis unfolding advances_def by blast
qed

lemma unit_of_work:
  assumes "in_order h db os r os1" and "session_scope es u fault local r os1 db os = (a, db', os')"
  shows "advances h db os db' os'"
proof (cases r)
  case (Inl x)
  with assms rolled_back [of os os1 h db u] show ?thesis by (auto simp: session_scope_def Let_def)
next
  case (Inr y)
  obtain dbh where y: "y = ((), dbh)" by (cases y) auto
  have com: "advances h db os dbh os1" using committed assms(1) Inr y by blast
  have kept: "files_kept os os1" using assms(1) by (simp add: in_order_def)
  show ?thesis
  proof (cases fault)
    case None
    with assms(2) Inr y have "(if local \<and> queued_deletion db dbh then drain_cleanup es u dbh os1 else (dbh, os1)) = (db', os')"
      by (simp add: session_scope_def Let_def)
    then consider "db' = dbh" "os' = os1" | "drain_cleanup es u dbh os1 = (db', os')"
      by (cases "local \<and> queued_deletion db dbh") simp_all
    then show ?thesis
    proof cases
      case 2
      show ?thesis by (rule advances_trans [OF com drain_keeps_files [OF 2]])
    qed (use com in simp)
  next
    case (Some c)
    let ?check = "if cf_asked c then Some (if cf_landed c then dbh else db) else None"
    let ?os = "rollback_cleanup u (Some ?check) (pending_uploads os os1) os1"
    from assms(2) Inr y Some have res: "db' = (if cf_landed c then dbh else db)" "os' = ?os"
      by (auto simp: session_scope_def Let_def)
    show ?thesis
    proof (cases "cf_landed c")
      case True
      have "advances h dbh os1 dbh ?os"
        by (rule advances_steady [OF evolves_refl], rule rollback_keeps) (auto simp: True)
      from advances_trans [OF com this] res True show ?thesis by simp
    next
      case False
      with res rolled_back [OF kept] show ?thesis by simp
    qed
  qed
qed

lemma step_advances:
  assumes "system_step h (db, os) (db', os')"
  shows "advances h db os db' os'"
  using assms
proof cases
  case (Request e u r os1 es fault local a)
  from request_in_order [OF Request(3,1)] have "in_order h db os r os1" by (simp add: Request(2))
  from unit_of_work [OF this Request(4)] show ?thesis .
qed (auto intro: advances_steady email_claimed attempt_finished interrupted_recovered bootstrapped job_keeps_files)

lemma run_advances: "(system_step h)\<^sup>*\<^sup>* (db, os) (db', os') \<Longrightarrow> advances h db os db' os'"
proof (induction rule: rtranclp_induct2)
  case refl
  show ?case by (rule advances_steady) auto
next
  case (step db1 os1 db2 os2)
  then show ?case using step_advances advances_trans by blast
qed

end
