(* ===== verification/SystemProofs.thy ===== *)
theory SystemProofs
  imports System
begin

text \<open>
  What every run of the whole back end keeps: stored files, the logs, the life cycle of each filing
  and the form of the tables, whatever requests, workers, failures and commit faults are in it.
\<close>

section \<open>Well-typed filings\<close>

text \<open>The constraints between the columns of a filing that its statuses promise.\<close>

definition filing_typed :: "matter \<Rightarrow> bool" where
  "filing_typed m \<longleftrightarrow> mt_type m \<in> set filing_types \<and> 0 \<le> mt_count m
     \<and> (mt_status m = Draft \<longleftrightarrow> mt_count m = 0)
     \<and> (mt_status m = Served \<longrightarrow> mt_type m = ''service_only'')
     \<and> (mt_type m = ''service_only'' \<longrightarrow> mt_status m \<in> {Draft, Served})
     \<and> (mt_case m = None \<longleftrightarrow> mt_type m = ''initial'' \<and> mt_status m \<noteq> Accepted)"

definition well_typed :: "db \<Rightarrow> bool" where
  "well_typed db \<longleftrightarrow> keys_ok db \<and> (\<forall>f \<in> set (filings db). filing_typed (matter_of f))"

lemma new_matter_typed: "new_matter m \<Longrightarrow> filing_typed m"
  by (auto simp: new_matter_def filing_typed_def)

lemma lifecycle_typed: "lifecycle m m' \<Longrightarrow> filing_typed m \<Longrightarrow> filing_typed m'"
  by (induction rule: lifecycle.induct) (auto simp: filing_typed_def)

lemma lifecycle_run_typed: "lifecycle\<^sup>*\<^sup>* m m' \<Longrightarrow> filing_typed m \<Longrightarrow> filing_typed m'"
  by (induction rule: rtranclp_induct) (auto intro: lifecycle_typed)

lemma evolves_typed:
  assumes "evolves N db db'" and "well_typed db"
  shows "well_typed db'"
proof -
  have keys: "keys_ok db'" and fe: "filings_evolve db db'" using assms by (auto simp: evolves_def well_typed_def)
  have "filing_typed (matter_of f)" if f: "f \<in> set (filings db')" for f
  proof -
    have found: "find_filing db' (fe_id f) = Some f"
      using keys row_at_unique [of fe_id "filings db'" f] f by (simp add: find_filing_def keys_ok_def)
    have here: "case find_filing db (fe_id f) of
       Some g \<Rightarrow> \<exists>f'. find_filing db' (fe_id f) = Some f' \<and> lifecycle\<^sup>*\<^sup>* (matter_of g) (matter_of f')
     | None \<Rightarrow> \<forall>f'. find_filing db' (fe_id f) = Some f' \<longrightarrow> (\<exists>m. new_matter m \<and> lifecycle\<^sup>*\<^sup>* m (matter_of f'))"
      using fe unfolding filings_evolve_def by (rule spec)
    show ?thesis
    proof (cases "find_filing db (fe_id f)")
      case None
      with here found obtain m where "new_matter m" "lifecycle\<^sup>*\<^sup>* m (matter_of f)" by auto
      then show ?thesis using lifecycle_run_typed new_matter_typed by blast
    next
      case (Some g)
      with here found have "lifecycle\<^sup>*\<^sup>* (matter_of g) (matter_of f)" by auto
      moreover have "g \<in> set (filings db)" using Some by (auto simp: find_filing_def dest: row_at_SomeD)
      ultimately show ?thesis using assms(2) lifecycle_run_typed by (auto simp: well_typed_def)
    qed
  qed
  with keys show ?thesis by (simp add: well_typed_def)
qed

section \<open>Decided filings\<close>

inductive_cases lifecycle_from: "lifecycle m m'"

lemma lifecycle_final: "lifecycle m m' \<Longrightarrow> mt_status m \<notin> {Accepted, Rejected, Served}"
  by (elim lifecycle_from) auto

lemma lifecycle_run_final: "lifecycle\<^sup>*\<^sup>* m m' \<Longrightarrow> mt_status m \<in> {Accepted, Rejected, Served} \<Longrightarrow> m' = m"
  by (erule converse_rtranclpE) (auto dest: lifecycle_final)

lemma run_evolves:
  assumes "(system_step h)\<^sup>*\<^sup>* (db, os) (db', os')"
  obtains N where "evolves N db db'"
  using run_advances [OF assms] by (auto simp: advances_def)

section \<open>The logs are journals\<close>

lemma step_logs:
  assumes "system_step h w w'"
  shows "logs_grow (fst w) (fst w')"
  using assms step_advances [of h "fst w" "snd w" "fst w'" "snd w'"] by (auto simp: advances_def evolves_def)

interpretation audit_log: journal "\<lambda>w. audit (fst w)" "system_step h" for h
  by unfold_locales (auto simp: logs_grow_def dest: step_logs)

interpretation ledger_log: journal "\<lambda>w. transactions (fst w)" "system_step h" for h
  by unfold_locales (auto simp: logs_grow_def dest: step_logs)

interpretation service_log: journal "\<lambda>w. service_events (fst w)" "system_step h" for h
  by unfold_locales (auto simp: logs_grow_def dest: step_logs)

interpretation mail_log: journal "\<lambda>w. delivery_events (fst w)" "system_step h" for h
  by unfold_locales (auto simp: logs_grow_def dest: step_logs)

interpretation packet_log: journal "\<lambda>w. packets (fst w)" "system_step h" for h
  by unfold_locales (auto simp: logs_grow_def dest: step_logs)

interpretation recipient_log: journal "\<lambda>w. recipients (fst w)" "system_step h" for h
  by unfold_locales (auto simp: logs_grow_def dest: step_logs)

section \<open>Examples\<close>

lemma handled_step:
  assumes "request example_env up_env db os (Inr ((), db')) os'"
  shows "system_step id (db, os) (db', os')"
proof -
  have "ue_sha256 up_env = id" by (simp add: up_env_def)
  moreover have "session_scope (\<lambda>_. example_env) up_env None False (Inr ((), db')) os' db os = (Inr (), db', os')"
    by (simp add: session_scope_def Let_def)
  ultimately show ?thesis using example_env_fresh assms by (intro system_step.Request)
qed

lemma accepted_run: "(system_step id)\<^sup>*\<^sup>* (review_db, []) (snd accepted_reply, [])"
proof -
  have "request example_env up_env review_db [] (answer (review_handler example_env demo_cms review_db review_db 1 AcceptFiling None 1 2)) []"
    by (rule request.ReviewFiling)
  then show ?thesis unfolding review_example answer_simps by (rule r_into_rtranclp [of "system_step id", OF handled_step])
qed

text \<open>What the acceptance leaves: its ledger rows, whether all filings are accepted, and its cases.\<close>

definition left_by_review :: "db \<Rightarrow> nat \<times> bool \<times> bool" where
  "left_by_review db = (length (transactions db), list_all (\<lambda>f. fe_status f = Accepted) (filings db), cases db \<noteq> [])"

lemma accepted_leaves: "left_by_review (snd accepted_reply) = (2, True, True)"
  by code_simp

lemma before_review: "length (transactions review_db) = 1 \<and> map_option fe_status (find_filing review_db 1) = Some Submitted"
  by code_simp

lemma review_db_typed: "well_typed review_db"
  by code_simp

text \<open>An upload to a filing without documents.\<close>

definition bare_db :: db where
  "bare_db = submit_db\<lparr>documents := []\<rparr>"

definition bare_upload :: "(failure + document \<times> db) \<times> objects" where
  "bare_upload = upload_document example_env up_env bare_db bare_db [] 1 ''k'' up_file ''PETITION'' ''T'' False 1"

lemma bare_upload_run:
  "\<exists>d db'. bare_upload = (Inr (d, db'), [(up_key_example, ''hello'')]) \<and> length (documents db') = 1"
proof -
  let ?i = "\<lparr>in_data = ''hello'', in_mime = ''text/plain'', in_sha256 = ''hello'', in_pdf = no_inspection\<rparr>"
  let ?d = "uploaded_document example_env 1 ''PETITION'' ''T'' False up_key_example ?i"
  have store: "store_document_upload example_env up_env 1 up_file ''PETITION'' ''T'' False []
      = (Inr ?d, [(up_key_example, ''hello'')])"
    unfolding store_document_upload_def up_inspected
    by (simp add: Let_def up_key_example_def put_object_def) (simp add: up_env_def or_text_def)
  have own: "owned_filing bare_db 1 1 Not_your_filing = Inr draft_filing" by code_simp
  have none: "upload_recorded bare_db 1 ''k'' = None" by code_simp
  have st: "fe_status draft_filing = Draft" and code: "''PETITION'' \<notin> set court_document_types" by code_simp+
  let ?r = "finish_upload up_env bare_db up_key_example (upload_locked example_env bare_db 1 ''k'' ?d
    (upload_fingerprint example_env ''PETITION'' ''T'' False up_file ''hello'' 5) (Some ''n'') 1)
    [(up_key_example, ''hello'')]"
  have res: "bare_upload = ?r"
    unfolding bare_upload_def upload_document_def own none store
    using st code by (simp add: uploaded_document_def up_file_def)
  have "(case ?r of (Inr (d, db), os) \<Rightarrow> length (documents db) = 1 \<and> os = [(up_key_example, ''hello'')] | _ \<Rightarrow> False)"
    by code_simp
  then show ?thesis unfolding res by (cases ?r; cases "fst ?r") auto
qed

section \<open>Properties\<close>

text \<open>C4: stored files stay intact: in every run of the system (any requests with any refusals,
  storage faults, commits that fail before or after they are durable, cleanups, workers and mail
  attempts in any order) that starts with every document and public copy stored under its recorded
  digest and size, every document and public copy of every later state is stored so too: no rollback
  and no cleanup ever removes or replaces a file that is still referred to.\<close>
theorem stored_files_intact:
  assumes "(system_step h)\<^sup>*\<^sup>* (db, os) (db', os')" and "intact h db os"
  shows "(d \<in> set (documents db') \<longrightarrow> (\<exists>b. map_of os' (dc_file_key d) = Some b
        \<and> h b = dc_sha256 d \<and> int (length b) = dc_size d))
    \<and> (c \<in> set (public_copies db') \<longrightarrow> (\<exists>b. map_of os' (pc_file_key c) = Some b
        \<and> h b = pc_sha256 c \<and> int (length b) = pc_size c))"
proof -
  have all: "file_of h os' x" if "x \<in> file_refs db'" for x
    using run_advances [OF assms(1)] assms(2) that by (simp add: advances_def intact_def)
  have "file_of h os' (dc_file_key d, dc_sha256 d, dc_size d)" if "d \<in> set (documents db')"
    using that by (intro all) (simp add: file_refs_def)
  moreover have "file_of h os' (pc_file_key c, pc_sha256 c, pc_size c)" if "c \<in> set (public_copies db')"
    using that by (intro all) (simp add: file_refs_def)
  ultimately show ?thesis by (auto simp: file_of_def split: option.splits)
qed

theorem stored_files_intact_witness:
  "\<exists>d db' os'. (system_step id)\<^sup>*\<^sup>* (bare_db, []) (db', os') \<and> documents db' = [d]
     \<and> map_of os' (dc_file_key d) = Some (dc_sha256 d) \<and> int (length (dc_sha256 d)) = dc_size d"
proof -
  obtain x db' where up: "bare_upload = (Inr (x, db'), [(up_key_example, ''hello'')])" "length (documents db') = 1"
    using bare_upload_run by blast
  have "request example_env up_env bare_db [] (answer (Inr (x, db'))) [(up_key_example, ''hello'')]"
    using up(1) unfolding bare_upload_def by (rule request.UploadDocument)
  then have run: "(system_step id)\<^sup>*\<^sup>* (bare_db, []) (db', [(up_key_example, ''hello'')])"
    by (simp add: handled_step r_into_rtranclp)
  from up(2) obtain d where d: "documents db' = [d]" by (cases "documents db'") auto
  have "intact id bare_db []" by code_simp
  note kept = stored_files_intact [OF run this, of d undefined, THEN conjunct1]
  have "\<exists>b. map_of [(up_key_example, ''hello'')] (dc_file_key d) = Some b \<and> id b = dc_sha256 d \<and> int (length b) = dc_size d"
    by (rule kept [THEN mp]) (simp add: d)
  with run d show ?thesis by (intro exI [of _ d] exI [of _ db'] exI [of _ "[(up_key_example, ''hello'')]"]) auto
qed

text \<open>C5: a run of the system refines the life cycle of filings: a filing that exists keeps its
  court, filer, type and case and moves along the life cycle (submitted from draft or returned,
  recorded as served when it only records service, and declined, held or accepted into one case
  after that); one that does not exist yet can only appear as a new draft and go on from there; and
  once it is accepted, rejected or served nothing of this ever changes again.\<close>
theorem filings_follow_lifecycle:
  assumes "(system_step h)\<^sup>*\<^sup>* (db, os) (db', os')"
  shows "(case find_filing db fid of
      Some f \<Rightarrow> \<exists>f'. find_filing db' fid = Some f' \<and> lifecycle\<^sup>*\<^sup>* (matter_of f) (matter_of f')
        \<and> (fe_status f \<in> {Accepted, Rejected, Served} \<longrightarrow> matter_of f' = matter_of f)
    | None \<Rightarrow> find_filing db' fid = None
        \<or> (\<exists>f' m. find_filing db' fid = Some f' \<and> new_matter m \<and> lifecycle\<^sup>*\<^sup>* m (matter_of f')))"
proof -
  obtain N where N: "evolves N db db'" by (rule run_evolves [OF assms])
  then have fe: "filings_evolve db db'" by (simp add: evolves_def)
  have here: "case find_filing db fid of
     Some f \<Rightarrow> \<exists>f'. find_filing db' fid = Some f' \<and> lifecycle\<^sup>*\<^sup>* (matter_of f) (matter_of f')
   | None \<Rightarrow> \<forall>f'. find_filing db' fid = Some f' \<longrightarrow> (\<exists>m. new_matter m \<and> lifecycle\<^sup>*\<^sup>* m (matter_of f'))"
    using fe unfolding filings_evolve_def by (rule spec)
  have final: "m' = matter_of f" if "lifecycle\<^sup>*\<^sup>* (matter_of f) m'" "fe_status f \<in> {Accepted, Rejected, Served}" for f m'
    using lifecycle_run_final [OF that(1)] that(2) by (simp add: matter_of_def)
  show ?thesis
  proof (cases "find_filing db fid")
    case None
    with here show ?thesis by (cases "find_filing db' fid") auto
  next
    case (Some f)
    with here obtain f' where "find_filing db' fid = Some f'" "lifecycle\<^sup>*\<^sup>* (matter_of f) (matter_of f')" by auto
    with Some final show ?thesis by auto
  qed
qed

theorem filings_follow_lifecycle_witness:
  "\<exists>f f'. find_filing review_db 1 = Some f \<and> find_filing (snd accepted_reply) 1 = Some f'
     \<and> fe_status f = Submitted \<and> fe_status f' = Accepted \<and> lifecycle\<^sup>*\<^sup>* (matter_of f) (matter_of f')"
  using filings_follow_lifecycle [OF accepted_run, of 1] review_example_cases before_review by auto

text \<open>C7: what is recorded stays recorded: in every run of the system the audit log, the ledger of
  filings, the delivery packages with their recipients and service records, and the record of mail
  attempts only grow at their end.\<close>
theorem records_append_only:
  assumes "(system_step h)\<^sup>*\<^sup>* (db, os) (db', os')"
  shows "prefix (audit db) (audit db') \<and> prefix (transactions db) (transactions db')
    \<and> prefix (service_events db) (service_events db') \<and> prefix (delivery_events db) (delivery_events db')
    \<and> prefix (packets db) (packets db') \<and> prefix (recipients db) (recipients db')"
  using audit_log.run_appends [OF assms] ledger_log.run_appends [OF assms] service_log.run_appends [OF assms]
    mail_log.run_appends [OF assms] packet_log.run_appends [OF assms] recipient_log.run_appends [OF assms]
  by simp

theorem records_append_only_witness:
  "prefix (transactions review_db) (transactions (snd accepted_reply))
   \<and> length (transactions (snd accepted_reply)) = length (transactions review_db) + 1"
  using records_append_only [OF accepted_run] accepted_leaves before_review by (simp add: left_by_review_def)

text \<open>C6: the tables stay well typed: in every run from a state in which filings, documents, copies,
  cases and ledger rows have unique ids and every filing's columns agree, they do so ever after: a
  filing is a draft exactly while it has never been submitted, service-only filings are only drafted or
  served, and a filing has a case unless it opens one and is not accepted yet.\<close>
theorem tables_well_typed:
  assumes "(system_step h)\<^sup>*\<^sup>* (db, os) (db', os')" and "well_typed db"
  shows "distinct (map fe_id (filings db')) \<and> distinct (map dc_id (documents db'))
    \<and> distinct (map pc_id (public_copies db')) \<and> distinct (map cs_id (cases db'))
    \<and> distinct (map tx_id (transactions db'))
    \<and> (\<forall>f \<in> set (filings db'). fe_type f \<in> set filing_types
        \<and> (fe_status f = Draft \<longleftrightarrow> fe_submission_count f = 0)
        \<and> (fe_status f = Served \<longrightarrow> fe_type f = ''service_only'')
        \<and> (fe_type f = ''service_only'' \<longrightarrow> fe_status f \<in> {Draft, Served})
        \<and> (fe_case f = None \<longleftrightarrow> fe_type f = ''initial'' \<and> fe_status f \<noteq> Accepted))"
proof -
  obtain N where N: "evolves N db db'" by (rule run_evolves [OF assms(1)])
  from evolves_typed [OF N assms(2)] have "\<forall>f \<in> set (filings db'). filing_typed (matter_of f)" and "keys_ok db'" by (simp_all add: well_typed_def)
  then show ?thesis unfolding keys_ok_def unique_key_def filing_typed_def matter_of_def matter.simps by blast
qed

theorem tables_well_typed_witness:
  "list_all (\<lambda>f. fe_case f \<noteq> None) (filings (snd accepted_reply))
   \<and> distinct (map cs_id (cases (snd accepted_reply))) \<and> cases (snd accepted_reply) \<noteq> []"
  using tables_well_typed [OF accepted_run review_db_typed] accepted_leaves
  by (auto simp: list_all_iff left_by_review_def)

end
