(* ===== verification/Storage.thy ===== *)
theory Storage
  imports Uploads "HOL-Library.Sublist"
begin

text \<open>
  The object store behind uploads and downloads (\<open>services/document_service.py\<close>): object keys are
  resolved to paths under a root and refused when they leave it, files are written, read and
  deleted locally, in a sandbox with a quota over the shared files, or in a bucket, and the errors
  of the file system and of the bucket become the exceptions of the service. The file system is
  without symbolic links; its faults and the bucket are parameters.
\<close>

section \<open>Paths\<close>

text \<open>An absolute resolved path is the list of its components.\<close>

type_synonym path = "string list"

fun split_path :: "string \<Rightarrow> string \<Rightarrow> string list" where
  "split_path acc [] = [rev acc]"
| "split_path acc (c # s) = (if c = CHR ''/'' then rev acc # split_path [] s else split_path (c # acc) s)"

definition key_parts :: "string \<Rightarrow> string list" where
  "key_parts key = filter (\<lambda>p. p \<noteq> [] \<and> p \<noteq> ''.'') (split_path [] key)"

fun resolve_parts :: "path \<Rightarrow> string list \<Rightarrow> path" where
  "resolve_parts base [] = base"
| "resolve_parts base (p # ps) = resolve_parts (if p = ''..'' then butlast base else base @ [p]) ps"

text \<open>\<open>base / key\<close>, where an absolute key replaces the base, resolved.\<close>

definition joined :: "path \<Rightarrow> string \<Rightarrow> path" where
  "joined base key = resolve_parts (if starts_with key ''/'' then [] else base) (key_parts key)"

section \<open>Errors\<close>

text \<open>
  What the file system, the client of the bucket and the code itself raise inside
  \<open>storage_errors\<close>, and what leaves it.
\<close>

datatype quota_refusal = Session_storage_used | Demo_storage_full

datatype raised =
    No_such_file | Os_error | Client_error string | Boto_error | Bad_key_error | Quota_error quota_refusal

datatype store_error = File_not_found | Store_unavailable | Bad_key | Quota_exceeded quota_refusal

fun storage_errors :: "raised \<Rightarrow> store_error" where
  "storage_errors No_such_file = File_not_found"
| "storage_errors (Client_error code) =
     (if code \<in> {''NoSuchKey'', ''404'', ''NotFound''} then File_not_found else Store_unavailable)"
| "storage_errors Boto_error = Store_unavailable"
| "storage_errors Os_error = Store_unavailable"
| "storage_errors Bad_key_error = Bad_key"
| "storage_errors (Quota_error q) = Quota_exceeded q"

text \<open>The exception of an upload or a deletion as the handlers see it.\<close>

fun store_failure :: "store_error \<Rightarrow> failure" where
  "store_failure (Quota_exceeded q) = StorageQuotaError"
| "store_failure Bad_key = InternalError"
| "store_failure x = StorageError"

definition within :: "path \<Rightarrow> string \<Rightarrow> raised + path" where
  "within root key = (let p = joined root key in if prefix root p then Inr p else Inl Bad_key_error)"

section \<open>Local files\<close>

record fs =
  fs_files :: "(path \<times> string) list"
  fs_dirs :: "path list"

text \<open>
  The faults of the host: a write that fails after some bytes, a read or a deletion that fails, and
  the free space seen from a directory.
\<close>

record host =
  ho_write_fault :: "path \<Rightarrow> nat option"
  ho_read_fault :: "path \<Rightarrow> bool"
  ho_delete_fault :: "path \<Rightarrow> bool"
  ho_free :: "path \<Rightarrow> int"

fun set_file :: "path \<Rightarrow> string \<Rightarrow> (path \<times> string) list \<Rightarrow> (path \<times> string) list" where
  "set_file p d [] = [(p, d)]"
| "set_file p d ((q, c) # fs) = (if q = p then (p, d) # fs else (q, c) # set_file p d fs)"

definition is_file :: "fs \<Rightarrow> path \<Rightarrow> bool" where
  "is_file s p \<longleftrightarrow> map_of (fs_files s) p \<noteq> None"

definition exists_path :: "fs \<Rightarrow> path \<Rightarrow> bool" where
  "exists_path s p \<longleftrightarrow> is_file s p \<or> p \<in> set (fs_dirs s)"

text \<open>\<open>mkdir(parents=True, exist_ok=True)\<close>, which fails on a file in the way.\<close>

definition make_dirs :: "path \<Rightarrow> fs \<Rightarrow> raised + fs" where
  "make_dirs p s =
     (if list_ex (is_file s) (prefixes p) then Inl Os_error
      else Inr (s\<lparr>fs_dirs := fs_dirs s @ filter (\<lambda>q. q \<notin> set (fs_dirs s)) (prefixes p)\<rparr>))"

text \<open>\<open>write_bytes\<close>; a failing write leaves what was written.\<close>

definition write_bytes :: "host \<Rightarrow> path \<Rightarrow> string \<Rightarrow> fs \<Rightarrow> (raised + unit) \<times> fs" where
  "write_bytes h p d s =
     (if p \<in> set (fs_dirs s) then (Inl Os_error, s)
      else (case ho_write_fault h p of
          None \<Rightarrow> (Inr (), s\<lparr>fs_files := set_file p d (fs_files s)\<rparr>)
        | Some n \<Rightarrow> (Inl Os_error, s\<lparr>fs_files := set_file p (take n d) (fs_files s)\<rparr>)))"

text \<open>A path below a file cannot be opened or deleted (\<open>NotADirectoryError\<close>).\<close>

definition below_file :: "fs \<Rightarrow> path \<Rightarrow> bool" where
  "below_file s p \<longleftrightarrow> list_ex (is_file s) (prefixes (butlast p))"

definition read_bytes :: "host \<Rightarrow> path \<Rightarrow> fs \<Rightarrow> raised + string" where
  "read_bytes h p s =
     (case map_of (fs_files s) p of
        None \<Rightarrow> Inl (if p \<in> set (fs_dirs s) \<or> below_file s p then Os_error else No_such_file)
      | Some d \<Rightarrow> if ho_read_fault h p then Inl Os_error else Inr d)"

definition unlink_missing_ok :: "host \<Rightarrow> path \<Rightarrow> fs \<Rightarrow> raised + fs" where
  "unlink_missing_ok h p s =
     (if p \<in> set (fs_dirs s) \<or> below_file s p then Inl Os_error
      else if \<not> is_file s p then Inr s
      else if ho_delete_fault h p then Inl Os_error
      else Inr (s\<lparr>fs_files := filter (\<lambda>(q, d). q \<noteq> p) (fs_files s)\<rparr>))"

section \<open>Sandboxes\<close>

record local_scope =
  ls_root :: path
  ls_quota :: int

definition free_space_reserve :: int where
  "free_space_reserve = 1024 * 1024 * 1024"

definition used_bytes :: "path \<Rightarrow> fs \<Rightarrow> int" where
  "used_bytes root s = sum_list (map (\<lambda>(p, d). int (length d)) (filter (\<lambda>(p, d). strict_prefix root p) (fs_files s)))"

text \<open>The nearest existing one of the root and its parents; the file system's root always exists.\<close>

fun first_existing :: "fs \<Rightarrow> path list \<Rightarrow> path" where
  "first_existing s [] = []"
| "first_existing s (p # ps) = (if exists_path s p then p else first_existing s ps)"

definition require_room :: "host \<Rightarrow> local_scope \<Rightarrow> int \<Rightarrow> fs \<Rightarrow> raised + unit" where
  "require_room h sc n s =
     (if ls_quota sc < (if exists_path s (ls_root sc) then used_bytes (ls_root sc) s else 0) + n
      then Inl (Quota_error Session_storage_used)
      else if ho_free h (first_existing s (rev (prefixes (ls_root sc)))) - n < free_space_reserve
      then Inl (Quota_error Demo_storage_full) else Inr ())"

section \<open>The store\<close>

text \<open>The client of the bucket: the service's documented calls as functions on its state.\<close>

record 's bucket =
  bk_head :: "string \<Rightarrow> 's \<Rightarrow> bool"
  bk_create :: "string \<Rightarrow> 's \<Rightarrow> 's"
  bk_put :: "string \<Rightarrow> string \<Rightarrow> string \<Rightarrow> string \<Rightarrow> 's \<Rightarrow> (raised + unit) \<times> 's"
  bk_get :: "string \<Rightarrow> string \<Rightarrow> 's \<Rightarrow> raised + string"
  bk_delete :: "string \<Rightarrow> string \<Rightarrow> 's \<Rightarrow> (raised + unit) \<times> 's"

record 's store_env =
  so_database_url :: string
  so_local_path :: path
  so_bucket :: string
  so_scope :: "local_scope option"
  so_host :: host
  so_client :: "'s bucket"

record 's store =
  sr_fs :: fs
  sr_s3 :: 's

definition uses_local_storage :: "'s store_env \<Rightarrow> bool" where
  "uses_local_storage e = contains (so_database_url e) ''sqlite''"

definition writable_path :: "'s store_env \<Rightarrow> string \<Rightarrow> raised + path" where
  "writable_path e key = within (case so_scope e of Some sc \<Rightarrow> ls_root sc | None \<Rightarrow> so_local_path e) key"

definition readable_path :: "'s store_env \<Rightarrow> string \<Rightarrow> fs \<Rightarrow> raised + path" where
  "readable_path e key s =
     (case so_scope e of
        None \<Rightarrow> within (so_local_path e) key
      | Some sc \<Rightarrow> then_do (within (ls_root sc) key) (\<lambda>private.
          if exists_path s private then Inr private else within (so_local_path e) key))"

definition ensure_bucket :: "'s store_env \<Rightarrow> 's store \<Rightarrow> 's store" where
  "ensure_bucket e st =
     (if uses_local_storage e \<or> bk_head (so_client e) (so_bucket e) (sr_s3 st) then st
      else st\<lparr>sr_s3 := bk_create (so_client e) (so_bucket e) (sr_s3 st)\<rparr>)"

definition room_for :: "'s store_env \<Rightarrow> string \<Rightarrow> fs \<Rightarrow> raised + unit" where
  "room_for e d s = (case so_scope e of None \<Rightarrow> Inr () | Some sc \<Rightarrow> require_room (so_host e) sc (int (length d)) s)"

definition write_local :: "'s store_env \<Rightarrow> string \<Rightarrow> string \<Rightarrow> fs \<Rightarrow> (raised + unit) \<times> fs" where
  "write_local e d key s =
     (case then_do (writable_path e key) (\<lambda>p. then_do (room_for e d s) (\<lambda>_.
          then_do (make_dirs (butlast p) s) (\<lambda>s1. Inr (p, s1)))) of
        Inl x \<Rightarrow> (Inl x, s)
      | Inr (p, s1) \<Rightarrow> write_bytes (so_host e) p d s1)"

definition store_object ::
    "'s store_env \<Rightarrow> string \<Rightarrow> string \<Rightarrow> string \<Rightarrow> 's store \<Rightarrow> (store_error + string) \<times> 's store" where
  "store_object e d key content_type st =
     (case (if uses_local_storage e
            then (case write_local e d key (sr_fs st) of (r, s) \<Rightarrow> (r, st\<lparr>sr_fs := s\<rparr>))
            else (case bk_put (so_client e) (so_bucket e) key content_type d (sr_s3 st) of
                (r, s) \<Rightarrow> (r, st\<lparr>sr_s3 := s\<rparr>))) of
        (Inl x, st') \<Rightarrow> (Inl (storage_errors x), st')
      | (Inr _, st') \<Rightarrow> (Inr key, st'))"

definition load_object :: "'s store_env \<Rightarrow> string \<Rightarrow> 's store \<Rightarrow> store_error + string" where
  "load_object e key st = map_failure storage_errors
     (if uses_local_storage e
      then then_do (readable_path e key (sr_fs st)) (\<lambda>p. read_bytes (so_host e) p (sr_fs st))
      else bk_get (so_client e) (so_bucket e) key (sr_s3 st))"

text \<open>\<open>stored_integrity\<close> reads the stream in chunks of 64 KiB and digests them one after the other.\<close>

fun digest_chunks :: "string \<times> int \<Rightarrow> string list \<Rightarrow> string \<times> int" where
  "digest_chunks (b, n) [] = (b, n)"
| "digest_chunks (b, n) (c # cs) = digest_chunks (b @ c, n + int (length c)) cs"

definition stored_integrity ::
    "(string \<Rightarrow> string) \<Rightarrow> 's store_env \<Rightarrow> string \<Rightarrow> 's store \<Rightarrow> store_error + string \<times> int" where
  "stored_integrity sha e key st =
     then_do (load_object e key st) (\<lambda>d.
       case digest_chunks ([], 0) (chunks 65536 d) of (b, n) \<Rightarrow> Inr (sha b, n))"

text \<open>The result of a check of a stored object, as the request's environment has it.\<close>

fun stored_as :: "store_error + string \<times> int \<Rightarrow> stored_result" where
  "stored_as (Inr (h, n)) = Stored h n"
| "stored_as (Inl File_not_found) = FileMissing"
| "stored_as (Inl Bad_key) = BadFileKey"
| "stored_as (Inl _) = StorageDown"

definition remove_object :: "'s store_env \<Rightarrow> string \<Rightarrow> 's store \<Rightarrow> (store_error + unit) \<times> 's store" where
  "remove_object e key st =
     (case (if uses_local_storage e
            then (case then_do (writable_path e key) (\<lambda>p. unlink_missing_ok (so_host e) p (sr_fs st)) of
                Inl x \<Rightarrow> (Inl x, st) | Inr s \<Rightarrow> (Inr (), st\<lparr>sr_fs := s\<rparr>))
            else (case bk_delete (so_client e) (so_bucket e) key (sr_s3 st) of (r, s) \<Rightarrow> (r, st\<lparr>sr_s3 := s\<rparr>))) of
        (Inl x, st') \<Rightarrow> (Inl (storage_errors x), st')
      | (Inr _, st') \<Rightarrow> (Inr (), st'))"

section \<open>Keys and paths\<close>

text \<open>A key in the form the application makes: relative, without empty, \<open>.\<close> and \<open>..\<close> parts.\<close>

definition canonical_key :: "string \<Rightarrow> bool" where
  "canonical_key k \<longleftrightarrow> key_parts k \<noteq> [] \<and> join_with ''/'' (key_parts k) = k
     \<and> ''..'' \<notin> set (key_parts k) \<and> \<not> starts_with k ''/''"

lemma resolve_plain: "''..'' \<notin> set ps \<Longrightarrow> resolve_parts b ps = b @ ps"
  by (induction ps arbitrary: b) auto

lemma within_canonical: "canonical_key k \<Longrightarrow> within root k = Inr (root @ key_parts k)"
  by (simp add: within_def joined_def canonical_key_def resolve_plain)

lemma canonical_inj: "canonical_key k \<Longrightarrow> canonical_key k' \<Longrightarrow> key_parts k = key_parts k' \<longleftrightarrow> k = k'"
  unfolding canonical_key_def by metis

lemma within_Inr: "within root key = Inr p \<Longrightarrow> prefix root p"
  by (auto simp: within_def Let_def split: if_splits)

section \<open>The file tree\<close>

definition tree_ok :: "fs \<Rightarrow> bool" where
  "tree_ok s \<longleftrightarrow> unique_key fst (fs_files s)
     \<and> (\<forall>p. is_file s p \<longrightarrow> p \<notin> set (fs_dirs s) \<and> (\<forall>q. strict_prefix q p \<longrightarrow> q \<in> set (fs_dirs s)))"

lemma map_of_set_file [simp]: "map_of (set_file p d fs) q = (if q = p then Some d else map_of fs q)"
  by (induction fs) auto

lemma map_fst_set_file:
  "map fst (set_file p d fs) = (if p \<in> fst ` set fs then map fst fs else map fst fs @ [p])"
  by (induction fs) (simp, force)

lemma unique_set_file: "unique_key fst fs \<Longrightarrow> unique_key fst (set_file p d fs)"
  by (auto simp: unique_key_def map_fst_set_file)

lemma map_of_filter_path: "map_of (filter (\<lambda>(q, d). q \<noteq> p) fs) x = (if x = p then None else map_of fs x)"
  by (induction fs) auto

lemma is_file_simps:
  "is_file (s\<lparr>fs_files := set_file p d (fs_files s)\<rparr>) q \<longleftrightarrow> q = p \<or> is_file s q"
  "is_file (s\<lparr>fs_files := filter (\<lambda>(q, d). q \<noteq> p) (fs_files s)\<rparr>) q \<longleftrightarrow> q \<noteq> p \<and> is_file s q"
  by (simp_all add: is_file_def map_of_filter_path)

lemma unique_filter: "unique_key f xs \<Longrightarrow> unique_key f (filter P xs)"
  by (simp add: unique_key_def distinct_map inj_on_def)

lemma in_prefixes_butlast: "p \<noteq> [] \<Longrightarrow> prefix q (butlast p) \<longleftrightarrow> strict_prefix q p"
  by (cases p rule: rev_cases) (auto simp: strict_prefix_def prefix_snoc)

lemma make_dirs_Inr:
  assumes "make_dirs p s = Inr s'"
  shows "fs_files s' = fs_files s \<and> set (fs_dirs s') = set (fs_dirs s) \<union> set (prefixes p)
    \<and> (\<forall>q \<in> set (prefixes p). \<not> is_file s q)"
  using assms by (auto simp: make_dirs_def list_ex_iff split: if_splits)

lemma tree_ok_dirs:
  assumes "tree_ok s" and "make_dirs p s = Inr s'"
  shows "tree_ok s'"
  using assms make_dirs_Inr [OF assms(2)] by (auto simp: tree_ok_def is_file_def)

lemma tree_ok_set_file:
  assumes "tree_ok s" and "p \<notin> set (fs_dirs s)" and "\<And>q. strict_prefix q p \<Longrightarrow> q \<in> set (fs_dirs s)"
  shows "tree_ok (s\<lparr>fs_files := set_file p d (fs_files s)\<rparr>)"
  using assms by (auto simp: tree_ok_def is_file_simps unique_set_file)

lemma tree_ok_write:
  assumes "tree_ok s" and "make_dirs (butlast p) s = Inr s1" and "write_bytes h p d s1 = (r, s2)"
  shows "tree_ok s2"
proof (cases "p \<in> set (fs_dirs s1)")
  case True
  with assms(3) tree_ok_dirs [OF assms(1,2)] show ?thesis by (simp add: write_bytes_def)
next
  case False
  have "p \<noteq> []" using False make_dirs_Inr [OF assms(2)] by auto
  then have "q \<in> set (fs_dirs s1)" if "strict_prefix q p" for q
    using that make_dirs_Inr [OF assms(2)] by (simp add: in_prefixes_butlast)
  from tree_ok_set_file [OF tree_ok_dirs [OF assms(1,2)] False this] assms(3) False show ?thesis
    by (auto simp: write_bytes_def split: option.splits)
qed

lemma tree_ok_unlink: "tree_ok s \<Longrightarrow> unlink_missing_ok h p s = Inr s' \<Longrightarrow> tree_ok s'"
  by (auto simp: unlink_missing_ok_def tree_ok_def is_file_simps unique_filter split: if_splits)

section \<open>Writing and deleting\<close>

lemma write_local_cases:
  assumes "write_local e d key s = (r, s')"
  obtains x where "r = Inl x" and "s' = s"
  | p s1 where "writable_path e key = Inr p" and "room_for e d s = Inr ()" and "make_dirs (butlast p) s = Inr s1"
      and "write_bytes (so_host e) p d s1 = (r, s')"
proof (cases "then_do (writable_path e key) (\<lambda>p. then_do (room_for e d s) (\<lambda>_.
          then_do (make_dirs (butlast p) s) (\<lambda>s1. Inr (p, s1))))")
  case (Inl x)
  with assms that(1) [of x] show ?thesis by (auto simp: write_local_def)
next
  case (Inr ps)
  obtain p s1 where "ps = (p, s1)" by force
  with Inr assms that(2) [of p s1] show ?thesis by (auto simp: write_local_def then_do_Inr_iff)
qed

lemma write_bytes_files:
  assumes "write_bytes h p d s = (r, s')"
  shows "fs_dirs s' = fs_dirs s \<and> (r = Inr () \<longrightarrow> fs_files s' = set_file p d (fs_files s))
    \<and> (s' = s \<or> (\<exists>n. fs_files s' = set_file p (take n d) (fs_files s)))"
proof -
  have "take (length d) d = d" by simp
  then have "\<exists>n. set_file p d (fs_files s) = set_file p (take n d) (fs_files s)" by metis
  with assms show ?thesis by (auto simp: write_bytes_def split: if_splits option.splits)
qed

lemma tree_ok_write_local: "tree_ok s \<Longrightarrow> write_local e d key s = (r, s') \<Longrightarrow> tree_ok s'"
  by (erule write_local_cases) (auto intro: tree_ok_write)

text \<open>What a write can change: the file at the key's path.\<close>

lemma write_local_changes:
  assumes "write_local e d key s = (r, s')"
  shows "(r = Inr () \<longrightarrow> (\<exists>p. writable_path e key = Inr p \<and> map_of (fs_files s') p = Some d))
    \<and> (\<forall>q. writable_path e key \<noteq> Inr q \<longrightarrow> map_of (fs_files s') q = map_of (fs_files s) q)"
  using assms
proof (rule write_local_cases)
  fix p s1 assume p: "writable_path e key = Inr p" and s1: "make_dirs (butlast p) s = Inr s1"
    and w: "write_bytes (so_host e) p d s1 = (r, s')"
  show ?thesis using p make_dirs_Inr [OF s1] write_bytes_files [OF w] by auto
qed auto

lemma unlink_changes:
  "unlink_missing_ok h p s = Inr s' \<Longrightarrow> map_of (fs_files s') q = (if q = p then None else map_of (fs_files s) q)"
  by (auto simp: unlink_missing_ok_def is_file_def map_of_filter_path split: if_splits)

end
