(* ===== verification/DemoSessions.thy ===== *)
theory DemoSessions
  imports Storage SignIn
begin

text \<open>
  The public demonstration (\<open>demo/session_db.py\<close>, \<open>demo/server.py\<close>): every visitor works on a private
  copy of the seeded database and in a private upload directory, named by a cookie; idle copies
  are removed, visitors beyond the limit share one copy, and the client's files are served beside
  the interface. The copying of a database file is atomic, and a request is taken with the sweep
  that precedes it as one step.
\<close>

section \<open>Sandboxes\<close>

definition shared_sid :: string where
  "shared_sid = ''_shared''"

definition is_valid_sid :: "string \<Rightarrow> bool" where
  "is_valid_sid sid \<longleftrightarrow> length sid = 32 \<and> list_all (\<lambda>c. c \<in> set ''0123456789abcdef'') sid"

record demo_settings =
  ds_max_sessions :: int
  ds_ttl_minutes :: int
  ds_quota_mb :: int

text \<open>A database file with its time of modification.\<close>

record sandbox =
  sb_db :: db
  sb_mtime :: datetime

text \<open>
  The data directory and the memory of the process: the template, the database files by session,
  the upload directories by session, and the times of the last accesses and of the last sweep.
\<close>

record demo =
  dm_template :: db
  dm_dbs :: "(string \<times> sandbox) list"
  dm_uploads :: "(string \<times> objects) list"
  dm_access :: "(string \<times> datetime) list"
  dm_sweep :: datetime

text \<open>The clock and the deletions that fail.\<close>

record demo_env =
  dv_settings :: demo_settings
  dv_now :: datetime
  dv_unlink_fault :: "string \<Rightarrow> bool"
  dv_token :: string

definition microseconds :: int where
  "microseconds = 1000000"

definition sweep_interval :: int where
  "sweep_interval = 300 * microseconds"

definition session_ttl :: "demo_settings \<Rightarrow> int" where
  "session_ttl s = ds_ttl_minutes s * 60 * microseconds"

definition upload_scope :: "demo_settings \<Rightarrow> path \<Rightarrow> string \<Rightarrow> local_scope" where
  "upload_scope s uploads_dir sid = \<lparr>ls_root = uploads_dir @ [sid], ls_quota = ds_quota_mb s * 1024 * 1024\<rparr>"

definition active_session_count :: "demo \<Rightarrow> int" where
  "active_session_count m = int (length (filter (\<lambda>(sid, b). sid \<noteq> shared_sid) (dm_dbs m)))"

definition resolve_sid :: "demo_env \<Rightarrow> string option \<Rightarrow> bool \<Rightarrow> demo \<Rightarrow> string" where
  "resolve_sid v cookie allocate m =
     (case cookie of
        Some c \<Rightarrow>
          if c \<noteq> [] \<and> (c = shared_sid \<or> is_valid_sid c) then c
          else if allocate \<and> active_session_count m < ds_max_sessions (dv_settings v) then dv_token v else shared_sid
      | None \<Rightarrow>
          if allocate \<and> active_session_count m < ds_max_sessions (dv_settings v) then dv_token v else shared_sid)"

definition touch :: "demo_env \<Rightarrow> string \<Rightarrow> demo \<Rightarrow> demo" where
  "touch v sid m = m\<lparr>dm_access := set_key sid (dv_now v) (dm_access m)\<rparr>"

section \<open>Sweeping and opening\<close>

definition last_used :: "demo \<Rightarrow> string \<Rightarrow> sandbox \<Rightarrow> datetime" where
  "last_used m sid b = max (case map_of (dm_access m) sid of None \<Rightarrow> 0 | Some t \<Rightarrow> t) (sb_mtime b)"

definition swept :: "demo_env \<Rightarrow> demo \<Rightarrow> string \<times> sandbox \<Rightarrow> bool" where
  "swept v m x \<longleftrightarrow> (case x of (sid, b) \<Rightarrow> sid \<noteq> shared_sid
     \<and> session_ttl (dv_settings v) < dv_now v - last_used m sid b \<and> \<not> dv_unlink_fault v sid)"

definition sweep_idle :: "demo_env \<Rightarrow> demo \<Rightarrow> demo" where
  "sweep_idle v m =
     (if dv_now v - dm_sweep m < sweep_interval then m
      else (let gone = map fst (filter (swept v m) (dm_dbs m)) in
        m\<lparr>dm_sweep := dv_now v,
          dm_dbs := filter (\<lambda>x. \<not> swept v m x) (dm_dbs m),
          dm_uploads := filter (\<lambda>(sid, os). sid \<notin> set gone) (dm_uploads m),
          dm_access := filter (\<lambda>(sid, t). sid \<notin> set gone) (dm_access m)\<rparr>))"

text \<open>\<open>_ensure\<close> returns the session whose database is used; a copy has the time of its copying.\<close>

definition ensure_session :: "demo_env \<Rightarrow> string \<Rightarrow> demo \<Rightarrow> string \<times> demo" where
  "ensure_session v sid m =
     (if map_of (dm_dbs m) sid \<noteq> None then (sid, m)
      else if ds_max_sessions (dv_settings v) \<le> active_session_count m then (shared_sid, m)
      else (sid, m\<lparr>dm_dbs := set_key sid \<lparr>sb_db = dm_template m, sb_mtime = dv_now v\<rparr> (dm_dbs m)\<rparr>))"

definition open_sandbox :: "demo_env \<Rightarrow> string \<Rightarrow> demo \<Rightarrow> string \<times> demo" where
  "open_sandbox v sid m =
     (case ensure_session v sid (sweep_idle v m) of
        (stem, m') \<Rightarrow> (stem, if stem \<noteq> shared_sid then touch v stem m' else m'))"

section \<open>Requests\<close>

definition without_slashes :: "string \<Rightarrow> string" where
  "without_slashes p = rev (dropWhile (\<lambda>c. c = CHR ''/'') (rev p))"

definition outside_sessions :: "string \<Rightarrow> bool" where
  "outside_sessions p \<longleftrightarrow> p \<in> {''/health'', ''/ready'', ''/config.js''} \<or> starts_with p ''/assets/''"

text \<open>The database and the uploads a request of a session works on, and their state after it.\<close>

definition session_state :: "demo \<Rightarrow> string \<Rightarrow> (db \<times> objects) option" where
  "session_state m sid =
     map_option (\<lambda>b. (sb_db b, case map_of (dm_uploads m) sid of None \<Rightarrow> [] | Some os \<Rightarrow> os)) (map_of (dm_dbs m) sid)"

definition save_session :: "demo_env \<Rightarrow> string \<Rightarrow> db \<times> objects \<Rightarrow> demo \<Rightarrow> demo" where
  "save_session v sid s m =
     (if session_state m sid = Some s then m
      else m\<lparr>dm_dbs := set_key sid \<lparr>sb_db = fst s, sb_mtime = dv_now v\<rparr> (dm_dbs m),
        dm_uploads := set_key sid (snd s) (dm_uploads m)\<rparr>)"

text \<open>
  The middleware around the application: the application is a function of the session's state. The
  result is the response, the cookie that is renewed and the next state; a session without a
  database file answers with an error.
\<close>

definition demo_request ::
    "demo_env \<Rightarrow> string \<Rightarrow> string option \<Rightarrow> ((db \<times> objects) option \<Rightarrow> 'r \<times> db \<times> objects) \<Rightarrow> demo
       \<Rightarrow> 'r \<times> string option \<times> demo" where
  "demo_request v path cookie app m =
     (let p = without_slashes path in
      if outside_sessions p then (fst (app None), None, m)
      else let api = starts_with p ''/api/''; sid = resolve_sid v cookie (\<not> api) m;
               renewed = (if sid = shared_sid then None else Some sid) in
        if \<not> api then (fst (app None), renewed, m)
        else (case open_sandbox v sid m of (stem, m1) \<Rightarrow>
          case session_state m1 stem of
            None \<Rightarrow> (fst (app None), renewed, m1)
          | Some s \<Rightarrow> (case app (Some s) of (r, s') \<Rightarrow> (r, renewed, save_session v stem s' m1))))"

definition renewed_cookie :: "demo_settings \<Rightarrow> string \<Rightarrow> string" where
  "renewed_cookie s sid = ''muefs_demo_sid='' @ sid @ ''; Max-Age='' @ dec (ds_ttl_minutes s * 60)
     @ ''; Path=/; HttpOnly; SameSite=Lax''"

section \<open>The start of the demonstration\<close>

text \<open>
  \<open>seed_template\<close>: a template is seeded once; otherwise it and the sandboxes are brought to the
  current schema (\<open>prepare\<close>). The shared sandbox starts afresh, and upload directories of the
  shared and of vanished sandboxes are removed. The memory of the process is empty.
\<close>

record demo_files =
  df_template :: "db option"
  df_dbs :: "(string \<times> sandbox) list"
  df_uploads :: "(string \<times> objects) list"

definition seed_template :: "db \<Rightarrow> (db \<Rightarrow> db) \<Rightarrow> datetime \<Rightarrow> demo_files \<Rightarrow> demo" where
  "seed_template seeded prepare t d =
     (let template = (case df_template d of None \<Rightarrow> seeded | Some x \<Rightarrow> prepare x);
          dbs = (case df_template d of None \<Rightarrow> df_dbs d
            | Some x \<Rightarrow> map (\<lambda>(sid, b). (sid, b\<lparr>sb_db := prepare (sb_db b)\<rparr>)) (df_dbs d));
          dbs' = set_key shared_sid \<lparr>sb_db = template, sb_mtime = t\<rparr> dbs
      in \<lparr>dm_template = template, dm_dbs = dbs',
          dm_uploads = filter (\<lambda>(sid, os). sid \<noteq> shared_sid \<and> map_of dbs' sid \<noteq> None) (df_uploads d),
          dm_access = [], dm_sweep = 0\<rparr>)"

section \<open>The client's files\<close>

fun before_char :: "char \<Rightarrow> string \<Rightarrow> string" where
  "before_char x [] = []"
| "before_char x (c # s) = (if c = x then [] else c # before_char x s)"

definition after_char :: "char \<Rightarrow> string \<Rightarrow> string" where
  "after_char x s = drop (Suc (length (before_char x s))) s"

text \<open>The pattern \<open>q=0(\.0*)?\<close>.\<close>

definition zero_quality :: "string \<Rightarrow> bool" where
  "zero_quality s \<longleftrightarrow> take 3 s = ''q=0''
     \<and> (drop 3 s = [] \<or> hd (drop 3 s) = CHR ''.'' \<and> list_all (\<lambda>c. c = CHR ''0'') (drop 4 s))"

fun first_gzip :: "string list \<Rightarrow> bool" where
  "first_gzip [] = False"
| "first_gzip (coding # cs) =
     (if str_strip (before_char (CHR '';'') coding) = ''gzip''
      then \<not> zero_quality (filter (\<lambda>c. c \<noteq> CHR '' '') (after_char (CHR '';'') coding))
      else first_gzip cs)"

definition accepts_gzip :: "string \<Rightarrow> bool" where
  "accepts_gzip header \<longleftrightarrow> first_gzip (split_commas [] (str_lower header))"

datatype served = Not_found | File "path" string bool bool

definition gz_suffix :: "string \<Rightarrow> bool" where
  "gz_suffix name \<longleftrightarrow> ends_with name ''.gz'' \<and> 3 < length name"

definition reserved_paths :: "string list" where
  "reserved_paths = [''api/'', ''docs'', ''redoc'', ''openapi'', ''health'', ''ready'', ''config.js'']"

definition serve_index :: "fs \<Rightarrow> path \<Rightarrow> served" where
  "serve_index s root =
     (let index = root @ [''index.html''] in if is_file s index then File index ''no-store'' False False else Not_found)"

definition spa :: "fs \<Rightarrow> path \<Rightarrow> string \<Rightarrow> string \<Rightarrow> served" where
  "spa s root accept full_path =
     (if list_ex (starts_with full_path) reserved_paths then Not_found
      else let p = joined root full_path in
        if full_path \<noteq> [] \<and> is_file s p \<and> prefix root p \<and> \<not> gz_suffix (last p)
        then let asset = starts_with full_path ''assets/'';
                 cache = (if last p = ''index.html'' then ''no-store''
                   else if asset then ''public, max-age=31536000, immutable'' else ''no-cache'');
                 gz = butlast p @ [last p @ ''.gz'']
             in if is_file s gz
                then (if accepts_gzip accept then File gz cache True True else File p cache True False)
                else File p cache False False
        else if starts_with full_path ''assets/'' then Not_found
        else serve_index s root)"

end
