(* ===== verification/StorageProofs.thy ===== *)
theory StorageProofs
  imports Storage PublicationProofs
begin

text \<open>
  The local store implements the abstract store of keys with bytes on which uploads, downloads and
  the cleanup are stated, and a sandbox neither leaves its directory nor outgrows its quota.
\<close>

section \<open>The interface of an object store\<close>

locale object_store =
  fixes good :: "string \<Rightarrow> bool"
    and ok :: "'s \<Rightarrow> bool"
    and view :: "'s \<Rightarrow> string \<Rightarrow> string option"
    and put :: "string \<Rightarrow> string \<Rightarrow> 's \<Rightarrow> 'e + 's"
    and del :: "string \<Rightarrow> 's \<Rightarrow> 'e + 's"
  assumes put_stores: "ok s \<Longrightarrow> good k \<Longrightarrow> put k d s = Inr s' \<Longrightarrow>
      ok s' \<and> (\<forall>x. good x \<longrightarrow> view s' x = (if x = k then Some d else view s x))"
    and del_removes: "ok s \<Longrightarrow> good k \<Longrightarrow> del k s = Inr s' \<Longrightarrow>
      ok s' \<and> (\<forall>x. good x \<longrightarrow> view s' x = (if x = k then None else view s x))"
begin

text \<open>An upload that is reclaimed leaves no trace.\<close>

lemma put_undone:
  assumes "ok s" and "good k" and "view s k = None" and "put k d s = Inr s1" and "del k s1 = Inr s2" and "good x"
  shows "view s2 x = view s x"
proof -
  from put_stores [OF assms(1,2,4)] have "ok s1" and "\<forall>x. good x \<longrightarrow> view s1 x = (if x = k then Some d else view s x)"
    by simp_all
  with del_removes [OF \<open>ok s1\<close> assms(2,5)] assms(3,6) show ?thesis by auto
qed

end

text \<open>Two stores with the same contents stay alike under the same operations.\<close>

locale store_pair = a: object_store good ok view put del + b: object_store good ok' view' put' del'
  for good :: "string \<Rightarrow> bool" and ok :: "'s \<Rightarrow> bool" and view put and del :: "string \<Rightarrow> 's \<Rightarrow> 'e + 's"
    and ok' :: "'t \<Rightarrow> bool" and view' put' and del' :: "string \<Rightarrow> 't \<Rightarrow> 'f + 't"
begin

definition alike :: "'s \<Rightarrow> 't \<Rightarrow> bool" where
  "alike s t \<longleftrightarrow> ok s \<and> ok' t \<and> (\<forall>x. good x \<longrightarrow> view s x = view' t x)"

lemma alike_put: "alike s t \<Longrightarrow> good k \<Longrightarrow> put k d s = Inr s' \<Longrightarrow> put' k d t = Inr t' \<Longrightarrow> alike s' t'"
  using a.put_stores [of s k d s'] b.put_stores [of t k d t'] by (auto simp: alike_def)

lemma alike_del: "alike s t \<Longrightarrow> good k \<Longrightarrow> del k s = Inr s' \<Longrightarrow> del' k t = Inr t' \<Longrightarrow> alike s' t'"
  using a.del_removes [of s k s'] b.del_removes [of t k t'] by (auto simp: alike_def)

end

section \<open>The two stores\<close>

definition store_put :: "'s store_env \<Rightarrow> string \<Rightarrow> string \<Rightarrow> string \<Rightarrow> 's store \<Rightarrow> store_error + 's store" where
  "store_put e ct k d st = (case store_object e d k ct st of (Inl x, st') \<Rightarrow> Inl x | (Inr _, st') \<Rightarrow> Inr st')"

definition store_delete :: "'s store_env \<Rightarrow> string \<Rightarrow> 's store \<Rightarrow> store_error + 's store" where
  "store_delete e k st = (case remove_object e k st of (Inl x, st') \<Rightarrow> Inl x | (Inr _, st') \<Rightarrow> Inr st')"

definition local_ok :: "'s store_env \<Rightarrow> 's store \<Rightarrow> bool" where
  "local_ok e st \<longleftrightarrow> uses_local_storage e \<and> so_scope e = None \<and> tree_ok (sr_fs st)"

definition local_view :: "'s store_env \<Rightarrow> 's store \<Rightarrow> string \<Rightarrow> string option" where
  "local_view e st k = map_of (fs_files (sr_fs st)) (so_local_path e @ key_parts k)"

lemma local_writable: "so_scope e = None \<Longrightarrow> canonical_key k \<Longrightarrow> writable_path e k = Inr (so_local_path e @ key_parts k)"
  by (simp add: writable_path_def within_canonical)

lemma local_put:
  assumes "local_ok e st" and "canonical_key k" and "store_put e ct k d st = Inr st'"
  shows "local_ok e st' \<and> (\<forall>x. canonical_key x \<longrightarrow> local_view e st' x = (if x = k then Some d else local_view e st x))"
proof -
  obtain s where w: "write_local e d k (sr_fs st) = (Inr (), s)" and st': "st' = st\<lparr>sr_fs := s\<rparr>"
    using assms(1,3) by (auto simp: store_put_def store_object_def local_ok_def split: prod.splits sum.splits)
  note c = write_local_changes [OF w] and p = local_writable [OF _ assms(2), of e]
  show ?thesis using c p tree_ok_write_local [OF _ w] assms(1,2)
    by (auto simp: local_ok_def local_view_def st' canonical_inj)
qed

lemma local_delete:
  assumes "local_ok e st" and "canonical_key k" and "store_delete e k st = Inr st'"
  shows "local_ok e st' \<and> (\<forall>x. canonical_key x \<longrightarrow> local_view e st' x = (if x = k then None else local_view e st x))"
proof -
  obtain s where u: "unlink_missing_ok (so_host e) (so_local_path e @ key_parts k) (sr_fs st) = Inr s"
      and st': "st' = st\<lparr>sr_fs := s\<rparr>"
    using assms by (auto simp: store_delete_def remove_object_def local_ok_def local_writable split: prod.splits sum.splits)
  show ?thesis using tree_ok_unlink [OF _ u] unlink_changes [OF u] assms(1,2)
    by (auto simp: local_ok_def local_view_def st' canonical_inj)
qed

definition put_result :: "upload_env \<Rightarrow> string \<Rightarrow> string \<Rightarrow> objects \<Rightarrow> failure + objects" where
  "put_result u k d os = (case put_object u k d os of (Inl x, os') \<Rightarrow> Inl x | (Inr _, os') \<Rightarrow> Inr os')"

lemma put_result_Inr: "put_result u k d os = Inr os' \<longleftrightarrow> put_object u k d os = (Inr (), os')"
  by (auto simp: put_result_def split: prod.splits sum.splits)

interpretation memory: object_store canonical_key "\<lambda>_. True" map_of "put_result u" "delete_object u"
  by unfold_locales
    (auto simp: put_result_Inr put_object_Inr delete_object_def map_of_filter_key split: if_splits)

interpretation files: store_pair canonical_key "local_ok e" "local_view e" "store_put e ct" "store_delete e"
    "\<lambda>_. True" map_of "put_result u" "delete_object u"
  by unfold_locales (use local_put local_delete in blast)+

section \<open>Reading\<close>

lemma digest_chunks: "digest_chunks (b, n) cs = (b @ concat cs, n + int (length (concat cs)))"
  by (induction cs arbitrary: b n) auto

lemma local_load:
  assumes "local_ok e st" and "canonical_key k"
  shows "load_object e k st = Inr d \<longleftrightarrow>
    local_view e st k = Some d \<and> \<not> ho_read_fault (so_host e) (so_local_path e @ key_parts k)"
  using assms
  by (auto simp: load_object_def local_ok_def readable_path_def within_canonical read_bytes_def local_view_def
      split: option.splits)

lemma stored_integrity_Inr:
  "stored_integrity sha e k st = Inr (h, n) \<longleftrightarrow> (\<exists>d. load_object e k st = Inr d \<and> h = sha d \<and> n = int (length d))"
  by (auto simp: stored_integrity_def then_do_Inr_iff digest_chunks concat_chunks)

section \<open>Sandboxes\<close>

lemma used_set_file: "used_bytes root (s\<lparr>fs_files := set_file p d (fs_files s)\<rparr>) \<le> used_bytes root s + int (length d)"
proof -
  have "sum_list (map (\<lambda>(p, d). int (length d)) (filter (\<lambda>(p, d). strict_prefix root p) (set_file p d fs)))
      \<le> sum_list (map (\<lambda>(p, d). int (length d)) (filter (\<lambda>(p, d). strict_prefix root p) fs)) + int (length d)" for fs
    by (induction fs) auto
  then show ?thesis by (simp add: used_bytes_def)
qed

lemma used_cong: "fs_files s = fs_files s' \<Longrightarrow> used_bytes root s = used_bytes root s'"
  by (simp add: used_bytes_def)

lemma used_filter: "used_bytes root (s\<lparr>fs_files := filter P (fs_files s)\<rparr>) \<le> used_bytes root s"
proof -
  have "sum_list (map (\<lambda>(p, d). int (length d)) (filter (\<lambda>(p, d). strict_prefix root p) (filter P fs)))
      \<le> sum_list (map (\<lambda>(p, d). int (length d)) (filter (\<lambda>(p, d). strict_prefix root p) fs))" for fs
    by (induction fs) auto
  then show ?thesis by (simp add: used_bytes_def)
qed

lemma used_unlink: "unlink_missing_ok h p s = Inr s' \<Longrightarrow> used_bytes root s' \<le> used_bytes root s"
  unfolding unlink_missing_ok_def by (auto split: if_splits simp del: fs.update_convs intro: used_filter)

text \<open>A root that does not exist has nothing below it.\<close>

lemma used_missing: "tree_ok s \<Longrightarrow> \<not> exists_path s root \<Longrightarrow> used_bytes root s = 0"
proof -
  assume t: "tree_ok s" "\<not> exists_path s root"
  have "\<not> strict_prefix root p" if "(p, d) \<in> set (fs_files s)" for p d
    using that t weak_map_of_SomeI [OF that] by (auto simp: tree_ok_def exists_path_def is_file_def)
  then have "filter (\<lambda>(p, d). strict_prefix root p) (fs_files s) = []" by (auto simp: filter_empty_conv)
  then show ?thesis by (simp add: used_bytes_def)
qed

lemma write_within_quota:
  assumes "so_scope e = Some sc" and "tree_ok s" and "used_bytes (ls_root sc) s \<le> ls_quota sc"
    and "write_local e d key s = (r, s')"
  shows "used_bytes (ls_root sc) s' \<le> ls_quota sc"
  using assms(4)
proof (rule write_local_cases)
  fix p s1 assume room: "room_for e d s = Inr ()" and s1: "make_dirs (butlast p) s = Inr s1"
    and w: "write_bytes (so_host e) p d s1 = (r, s')"
  let ?u = "used_bytes (ls_root sc)"
  have "?u s + int (length d) \<le> ls_quota sc"
    using room used_missing [OF assms(2), of "ls_root sc"] assms(1)
    by (cases "exists_path s (ls_root sc)") (simp_all add: room_for_def require_room_def split: if_splits)
  moreover have "?u s1 = ?u s" using make_dirs_Inr [OF s1] by (intro used_cong) simp
  moreover have "?u s' \<le> ?u s1 + int (length d)"
  proof -
    from write_bytes_files [OF w] consider "s' = s1" | n where "fs_files s' = set_file p (take n d) (fs_files s1)" by metis
    then show ?thesis
    proof cases
      case (2 n)
      then have "?u s' = ?u (s1\<lparr>fs_files := set_file p (take n d) (fs_files s1)\<rparr>)"
        by (intro used_cong) simp
      then show ?thesis using used_set_file [of "ls_root sc" p "take n d" s1] by (simp add: min_def split: if_splits)
    qed simp
  qed
  ultimately show ?thesis by simp
qed (use assms(3) in simp)

text \<open>What an operation in a sandbox can touch.\<close>

definition outside :: "path \<Rightarrow> fs \<Rightarrow> fs \<Rightarrow> bool" where
  "outside root s s' \<longleftrightarrow> (\<forall>q. \<not> prefix root q \<longrightarrow> map_of (fs_files s') q = map_of (fs_files s) q)
     \<and> (\<forall>q. \<not> prefix root q \<and> \<not> prefix q root \<longrightarrow> (q \<in> set (fs_dirs s') \<longleftrightarrow> q \<in> set (fs_dirs s)))"

lemma outside_refl: "outside root s s"
  by (simp add: outside_def)

lemma write_outside:
  assumes "so_scope e = Some sc" and "write_local e d key s = (r, s')"
  shows "outside (ls_root sc) s s'"
  using assms(2)
proof (rule write_local_cases)
  fix p s1 assume p: "writable_path e key = Inr p" and s1: "make_dirs (butlast p) s = Inr s1"
    and w: "write_bytes (so_host e) p d s1 = (r, s')"
  have root: "prefix (ls_root sc) p" using p assms(1) by (simp add: writable_path_def within_Inr)
  have dirs: "set (fs_dirs s') = set (fs_dirs s) \<union> set (prefixes (butlast p))"
    using write_bytes_files [OF w] make_dirs_Inr [OF s1] by simp
  have "prefix q p" if "prefix q (butlast p)" for q
    using that by (metis append_butlast_last_id butlast.simps(1) prefix_prefix)
  then have "prefix (ls_root sc) q \<or> prefix q (ls_root sc)" if "prefix q (butlast p)" for q
    using that root prefix_same_cases by blast
  with dirs root write_local_changes [OF assms(2)] p show ?thesis by (auto simp: outside_def)
qed (simp add: outside_refl)

lemma unlink_outside:
  "prefix root p \<Longrightarrow> unlink_missing_ok h p s = Inr s' \<Longrightarrow> outside root s s'"
  using unlink_changes [of h p s s'] by (auto simp: outside_def unlink_missing_ok_def split: if_splits)

text \<open>A reader elsewhere sees no difference.\<close>

lemma read_outside:
  assumes "outside root s s'" and "root' \<parallel> root" and "prefix root' p"
  shows "read_bytes h p s' = read_bytes h p s" and "exists_path s' p = exists_path s p"
proof -
  have par: "\<not> prefix root q" if "prefix q p" for q
    using that assms(2,3) by (meson parallelE prefix_order.trans prefix_same_cases)
  have same: "map_of (fs_files s') q = map_of (fs_files s) q" if "prefix q p" for q
    using par [OF that] assms(1) by (simp add: outside_def)
  have dir: "p \<in> set (fs_dirs s') \<longleftrightarrow> p \<in> set (fs_dirs s)"
    using par [of p] assms by (auto simp: outside_def dest: prefix_order.trans parallelD2)
  have "prefix q p" if "prefix q (butlast p)" for q
    using that by (metis append_butlast_last_id butlast.simps(1) prefix_prefix)
  then have "below_file s' p = below_file s p" using same by (auto simp: below_file_def list_ex_iff is_file_def)
  with same [of p] dir show "read_bytes h p s' = read_bytes h p s" "exists_path s' p = exists_path s p"
    by (auto simp: read_bytes_def exists_path_def is_file_def split: option.splits)
qed

section \<open>Properties\<close>

definition represents :: "'s store_env \<Rightarrow> 's store \<Rightarrow> objects \<Rightarrow> bool" where
  "represents e st os \<longleftrightarrow> local_ok e st \<and> (\<forall>k. canonical_key k \<longrightarrow> local_view e st k = map_of os k)"

lemma represents_alike: "represents e st os \<longleftrightarrow> files.alike e st os"
  by (simp add: represents_def files.alike_def)

lemma failed_put:
  assumes "represents e st os" and "canonical_key k" and "store_object e d k ct st = (Inl x, st')"
    and "canonical_key j" and "j \<noteq> k"
  shows "local_view e st' j = map_of os j"
proof -
  obtain r s where w: "write_local e d k (sr_fs st) = (r, s)" and st': "st' = st\<lparr>sr_fs := s\<rparr>"
    using assms(1,3) by (auto simp: store_object_def represents_def local_ok_def split: prod.splits sum.splits)
  show ?thesis using write_local_changes [OF w] local_writable [OF _ assms(2), of e] assms(1,2,4,5)
    by (auto simp: represents_def local_ok_def local_view_def st' canonical_inj)
qed

text \<open>A failed upload is a failed upload of the abstract store that left some of the bytes, or none.\<close>

lemma failed_put_left:
  assumes "represents e st os" and "canonical_key k" and "store_object e d k ct st = (Inl x, st')"
  shows "\<exists>left. represents e st' (snd (put_object (u\<lparr>ue_write_fault := (\<lambda>_. Some (y, left))\<rparr>) k d os))"
proof -
  obtain r s where w: "write_local e d k (sr_fs st) = (r, s)" and st': "st' = st\<lparr>sr_fs := s\<rparr>"
    using assms(1,3) by (auto simp: store_object_def represents_def local_ok_def split: prod.splits sum.splits)
  let ?p = "so_local_path e @ key_parts k"
  have ok: "local_ok e st'" using tree_ok_write_local [OF _ w] assms(1) by (auto simp: represents_def local_ok_def st')
  have scope: "so_scope e = None" using assms(1) by (simp add: represents_def local_ok_def)
  have "\<exists>left. map_of (fs_files s) ?p = (case left of None \<Rightarrow> map_of (fs_files (sr_fs st)) ?p | Some n \<Rightarrow> Some (take n d))"
    using w
  proof (rule write_local_cases)
    fix p s1 assume p: "writable_path e k = Inr p" and s1: "make_dirs (butlast p) (sr_fs st) = Inr s1"
      and wb: "write_bytes (so_host e) p d s1 = (r, s)"
    have eq: "p = ?p" using p local_writable [OF scope assms(2)] by simp
    from write_bytes_files [OF wb] consider "s = s1" | n where "fs_files s = set_file p (take n d) (fs_files s1)"
      by metis
    then show ?thesis
    proof cases
      case 1
      with make_dirs_Inr [OF s1] show ?thesis by (intro exI [of _ None]) simp
    next
      case (2 n)
      with eq show ?thesis by (intro exI [of _ "Some n"]) simp
    qed
  qed (auto intro: exI [of _ None])
  then obtain left where left: "map_of (fs_files s) ?p
      = (case left of None \<Rightarrow> map_of (fs_files (sr_fs st)) ?p | Some n \<Rightarrow> Some (take n d))" by blast
  have "local_view e st' j = map_of (snd (put_object (u\<lparr>ue_write_fault := (\<lambda>_. Some (y, left))\<rparr>) k d os)) j"
    if "canonical_key j" for j
  proof (cases "j = k")
    case True
    with left assms(1,2) show ?thesis
      by (cases left) (auto simp: put_object_def local_view_def st' represents_def)
  next
    case False
    with failed_put [OF assms that False] show ?thesis by (cases left) (auto simp: put_object_def)
  qed
  with ok show ?thesis by (auto simp: represents_def)
qed

text \<open>C37: the store of files refines the store of keys with bytes on which the rest of the development
  is stated: from a file tree that represents a store, an upload or a deletion under a key of the
  application's form that succeeds ends in a tree that represents the store after the abstract
  operation; a refused upload ends in one that represents the store after a failed write of some of
  the bytes, or of none, so it touches no other key; a refused deletion changes nothing; and what
  the store returns for the key is the digest and size of exactly the bytes on record, which can
  be read unless the host fails.\<close>

theorem files_refine_objects:
  assumes "represents e st os" and "canonical_key k" and "ue_write_fault u k = None" and "\<not> ue_delete_fault u k"
  shows "(store_put e ct k d st = Inr st1 \<longrightarrow> (\<exists>os1. put_object u k d os = (Inr (), os1) \<and> represents e st1 os1))
    \<and> (store_delete e k st = Inr st2 \<longrightarrow> (\<exists>os2. delete_object u k os = Inr os2 \<and> represents e st2 os2))
    \<and> (store_object e d k ct st = (Inl x, st3) \<longrightarrow>
        (\<forall>j. canonical_key j \<and> j \<noteq> k \<longrightarrow> local_view e st3 j = map_of os j)
        \<and> (\<exists>left. represents e st3 (snd (put_object (u\<lparr>ue_write_fault := (\<lambda>_. Some (y, left))\<rparr>) k d os))))
    \<and> (remove_object e k st = (Inl x, st3) \<longrightarrow> st3 = st)
    \<and> (stored_integrity sha e k st = Inr (h, n) \<longrightarrow> (\<exists>b. map_of os k = Some b \<and> h = sha b \<and> n = int (length b)))
    \<and> (map_of os k = Some b \<and> \<not> ho_read_fault (so_host e) (so_local_path e @ key_parts k) \<longrightarrow>
        stored_integrity sha e k st = Inr (sha b, int (length b)))"
proof (intro conjI impI)
  note alike = assms(1) [unfolded represents_alike]
  show "\<exists>os1. put_object u k d os = (Inr (), os1) \<and> represents e st1 os1" if "store_put e ct k d st = Inr st1"
  proof -
    have p: "put_object u k d os = (Inr (), set_key k d os)" using assms(3) by (simp add: put_object_def)
    with files.alike_put [OF alike assms(2) that, of u] show ?thesis by (auto simp: represents_alike put_result_Inr)
  qed
  show "\<exists>os2. delete_object u k os = Inr os2 \<and> represents e st2 os2" if "store_delete e k st = Inr st2"
  proof -
    have "delete_object u k os = Inr (filter (\<lambda>(k', d). k' \<noteq> k) os)" using assms(4) by (simp add: delete_object_def)
    with files.alike_del [OF alike assms(2) that] show ?thesis by (auto simp: represents_alike)
  qed
  show "\<forall>j. canonical_key j \<and> j \<noteq> k \<longrightarrow> local_view e st3 j = map_of os j"
    if "store_object e d k ct st = (Inl x, st3)"
    using failed_put [OF assms(1,2) that] by blast
  show "\<exists>left. represents e st3 (snd (put_object (u\<lparr>ue_write_fault := (\<lambda>_. Some (y, left))\<rparr>) k d os))"
    if "store_object e d k ct st = (Inl x, st3)"
    using that by (rule failed_put_left [OF assms(1,2)])
  show "st3 = st" if "remove_object e k st = (Inl x, st3)"
    using that assms(1) by (auto simp: remove_object_def represents_def local_ok_def split: sum.splits prod.splits)
  note load = local_load [OF _ assms(2), of e st]
  show "\<exists>b. map_of os k = Some b \<and> h = sha b \<and> n = int (length b)" if "stored_integrity sha e k st = Inr (h, n)"
    using that load assms(1,2) by (auto simp: stored_integrity_Inr represents_def)
  show "stored_integrity sha e k st = Inr (sha b, int (length b))"
    if "map_of os k = Some b \<and> \<not> ho_read_fault (so_host e) (so_local_path e @ key_parts k)"
    using that load assms(1,2) by (auto simp: stored_integrity_Inr represents_def)
qed

text \<open>C38: whatever key is named, an upload or a deletion in a demonstration sandbox changes no file
  outside the sandbox's directory, so every other sandbox reads what it read before, and the bytes
  the sandbox holds never exceed its quota, even when a write fails half way.\<close>

theorem sandbox_confined:
  assumes "uses_local_storage e" and "so_scope e = Some sc" and "tree_ok (sr_fs st)"
    and "used_bytes (ls_root sc) (sr_fs st) \<le> ls_quota sc"
    and "(\<exists>d ct r. store_object e d key ct st = (r, st')) \<or> (\<exists>r. remove_object e key st = (r, st'))"
  shows "tree_ok (sr_fs st') \<and> used_bytes (ls_root sc) (sr_fs st') \<le> ls_quota sc
    \<and> (\<forall>p. \<not> prefix (ls_root sc) p \<longrightarrow> map_of (fs_files (sr_fs st')) p = map_of (fs_files (sr_fs st)) p)
    \<and> (\<forall>e' sc' k. so_scope e' = Some sc' \<and> ls_root sc' \<parallel> ls_root sc \<and> so_local_path e' \<parallel> ls_root sc
        \<and> uses_local_storage e' \<longrightarrow> load_object e' k st' = load_object e' k st)"
proof -
  from assms(5) consider
      d r where "write_local e d key (sr_fs st) = (r, sr_fs st')"
    | p where "writable_path e key = Inr p" "unlink_missing_ok (so_host e) p (sr_fs st) = Inr (sr_fs st')"
    | "st' = st"
    using assms(1) by (auto simp: store_object_def remove_object_def then_do_Inr_iff split: prod.splits sum.splits)
  then have *: "outside (ls_root sc) (sr_fs st) (sr_fs st') \<and> tree_ok (sr_fs st')
      \<and> used_bytes (ls_root sc) (sr_fs st') \<le> ls_quota sc"
  proof cases
    case (1 d r)
    with assms show ?thesis by (simp add: write_outside write_within_quota tree_ok_write_local)
  next
    case (2 p)
    have "prefix (ls_root sc) p" using 2(1) assms(2) by (simp add: writable_path_def within_Inr)
    moreover have "used_bytes (ls_root sc) (sr_fs st') \<le> used_bytes (ls_root sc) (sr_fs st)"
      using 2(2) by (rule used_unlink)
    ultimately show ?thesis using 2(2) assms(3,4) by (auto intro: unlink_outside tree_ok_unlink)
  qed (use assms in \<open>simp add: outside_refl\<close>)
  have "load_object e' k st' = load_object e' k st"
    if "so_scope e' = Some sc'" "ls_root sc' \<parallel> ls_root sc" "so_local_path e' \<parallel> ls_root sc" "uses_local_storage e'"
    for e' :: "'a store_env" and sc' k
  proof -
    note r = read_outside [OF conjunct1 [OF *]]
    have "readable_path e' k (sr_fs st') = readable_path e' k (sr_fs st)"
      using r(2) [OF that(2) within_Inr] that(1)
      by (cases "within (ls_root sc') k") (auto simp: readable_path_def)
    moreover have "read_bytes (so_host e') p (sr_fs st') = read_bytes (so_host e') p (sr_fs st)"
      if "readable_path e' k (sr_fs st) = Inr p" for p
      using that r(1) \<open>so_scope e' = Some sc'\<close> \<open>ls_root sc' \<parallel> ls_root sc\<close> \<open>so_local_path e' \<parallel> ls_root sc\<close>
      by (auto simp: readable_path_def then_do_Inr_iff dest!: within_Inr split: if_splits)
    ultimately show ?thesis using that(4)
      by (cases "readable_path e' k (sr_fs st)") (simp_all add: load_object_def)
  qed
  with * show ?thesis by (auto simp: outside_def)
qed

section \<open>Examples\<close>

definition example_host :: host where
  "example_host = \<lparr>ho_write_fault = (\<lambda>_. None), ho_read_fault = (\<lambda>_. False), ho_delete_fault = (\<lambda>_. False),
     ho_free = (\<lambda>_. 2 * free_space_reserve)\<rparr>"

definition no_bucket :: "unit bucket" where
  "no_bucket = \<lparr>bk_head = (\<lambda>b s. True), bk_create = (\<lambda>b s. s), bk_put = (\<lambda>b k t d s. (Inl Boto_error, s)),
     bk_get = (\<lambda>b k s. Inl Boto_error), bk_delete = (\<lambda>b k s. (Inl Boto_error, s))\<rparr>"

definition file_env :: "local_scope option \<Rightarrow> unit store_env" where
  "file_env sc = \<lparr>so_database_url = ''sqlite+aiosqlite:///x.db'', so_local_path = [''srv'', ''files''], so_bucket = [],
     so_scope = sc, so_host = example_host, so_client = no_bucket\<rparr>"

definition no_files :: "unit store" where
  "no_files = \<lparr>sr_fs = \<lparr>fs_files = [], fs_dirs = [[]]\<rparr>, sr_s3 = ()\<rparr>"

lemma no_files_ok: "tree_ok (sr_fs no_files)"
  by (simp add: no_files_def tree_ok_def is_file_def unique_key_def)

lemma file_env_simps [simp]:
  "uses_local_storage (file_env sc)" "so_scope (file_env sc) = sc" "so_host (file_env sc) = example_host"
  by (simp_all add: file_env_def uses_local_storage_def) code_simp

lemma no_files_represent: "represents (file_env None) no_files []"
  by (simp add: represents_def local_ok_def no_files_ok local_view_def) (simp add: no_files_def)

lemma example_key: "canonical_key ''filings/1/a.pdf''"
  by code_simp

theorem files_refine_objects_witness:
  "\<exists>st os. store_put (file_env None) [] ''filings/1/a.pdf'' ''data'' no_files = Inr st
     \<and> put_object up_env ''filings/1/a.pdf'' ''data'' [] = (Inr (), os) \<and> represents (file_env None) st os
     \<and> (\<exists>st2. store_put (file_env None) [] ''filings/1/b.pdf'' ''x'' st = Inr st2)"
proof -
  have "case store_put (file_env None) [] ''filings/1/a.pdf'' ''data'' no_files of
      Inr st \<Rightarrow> (case store_put (file_env None) [] ''filings/1/b.pdf'' ''x'' st of Inr _ \<Rightarrow> True | _ \<Rightarrow> False) | _ \<Rightarrow> False"
    by code_simp
  then obtain st where st: "store_put (file_env None) [] ''filings/1/a.pdf'' ''data'' no_files = Inr st"
      and st2: "\<exists>st2. store_put (file_env None) [] ''filings/1/b.pdf'' ''x'' st = Inr st2"
    by (auto split: sum.splits)
  have "ue_write_fault up_env ''filings/1/a.pdf'' = None" "\<not> ue_delete_fault up_env ''filings/1/a.pdf''"
    by code_simp+
  from conjunct1 [OF files_refine_objects [OF no_files_represent example_key this, of "[]" "''data''" st]] st st2
  show ?thesis by blast
qed

definition example_scope :: local_scope where
  "example_scope = \<lparr>ls_root = [''demo'', ''s1''], ls_quota = 10\<rparr>"

theorem sandbox_confined_witness:
  "\<exists>st. store_object (file_env (Some example_scope)) ''12345'' ''a/b'' [] no_files = (Inr ''a/b'', st)
     \<and> used_bytes [''demo'', ''s1''] (sr_fs st) = 5 \<and> 5 \<le> ls_quota example_scope
     \<and> (\<exists>st'. store_object (file_env (Some example_scope)) ''123456'' ''c'' [] st
          = (Inl (Quota_exceeded Session_storage_used), st') \<and> used_bytes [''demo'', ''s1''] (sr_fs st') \<le> 10)
     \<and> (\<exists>st'. store_object (file_env (Some example_scope)) ''1'' ''../s2/c'' [] st = (Inl Bad_key, st'))"
proof -
  let ?e = "file_env (Some example_scope)"
  have "case store_object ?e ''12345'' ''a/b'' [] no_files of (r, st) \<Rightarrow> r = Inr ''a/b''
      \<and> used_bytes [''demo'', ''s1''] (sr_fs st) = 5
      \<and> fst (store_object ?e ''123456'' ''c'' [] st) = Inl (Quota_exceeded Session_storage_used)
      \<and> fst (store_object ?e ''1'' ''../s2/c'' [] st) = Inl Bad_key"
    by code_simp
  then obtain st where st: "store_object ?e ''12345'' ''a/b'' [] no_files = (Inr ''a/b'', st)"
      and u: "used_bytes [''demo'', ''s1''] (sr_fs st) = 5"
      and q: "fst (store_object ?e ''123456'' ''c'' [] st) = Inl (Quota_exceeded Session_storage_used)"
      and t: "fst (store_object ?e ''1'' ''../s2/c'' [] st) = Inl Bad_key"
    by (auto split: prod.splits)
  have s0: "used_bytes (ls_root example_scope) (sr_fs no_files) \<le> ls_quota example_scope" by code_simp
  have r: "ls_root example_scope = [''demo'', ''s1'']" "ls_quota example_scope = 10" by (simp_all add: example_scope_def)
  note confined = sandbox_confined [of ?e example_scope]
  have "tree_ok (sr_fs st) \<and> used_bytes (ls_root example_scope) (sr_fs st) \<le> ls_quota example_scope"
    using confined [OF _ _ no_files_ok s0 disjI1, of "''a/b''" st] st by auto
  then have "used_bytes (ls_root example_scope) (sr_fs (snd (store_object ?e ''123456'' ''c'' [] st))) \<le> 10"
    using confined [of st "''c''" "snd (store_object ?e ''123456'' ''c'' [] st)"] r by (metis file_env_simps(1,2) prod.collapse)
  with st u q t r show ?thesis by (intro exI [of _ st]) (auto simp: prod_eq_iff)
qed

end
