(* ===== verification/DemoProofs.thy ===== *)
theory DemoProofs
  imports DemoSessions StorageProofs
begin

text \<open>
  Visitors of the demonstration do not see or change each other's sandboxes, a sandbox lives as
  long as its visitor returns in time, their number is bounded, and the client's files are served
  from their directory only.
\<close>

section \<open>One request\<close>

lemma map_fst_set_key:
  "map fst (set_key k v kvs) = (if k \<in> fst ` set kvs then map fst kvs else map fst kvs @ [k])"
  by (induction kvs) (simp, force)

lemma map_of_filter_fst: "map_of (filter (\<lambda>(k, v). P k) kvs) x = (if P x then map_of kvs x else None)"
  by (induction kvs) auto

text \<open>What a session's files and memory are.\<close>

definition same_session :: "string \<Rightarrow> demo \<Rightarrow> demo \<Rightarrow> bool" where
  "same_session sid m m' \<longleftrightarrow> map_of (dm_dbs m') sid = map_of (dm_dbs m) sid
     \<and> map_of (dm_uploads m') sid = map_of (dm_uploads m) sid \<and> map_of (dm_access m') sid = map_of (dm_access m) sid"

lemma same_session_trans: "same_session sid m m1 \<Longrightarrow> same_session sid m1 m2 \<Longrightarrow> same_session sid m m2"
  by (simp add: same_session_def)

lemma session_state_same: "same_session sid m m' \<Longrightarrow> session_state m' sid = session_state m sid"
  by (simp add: session_state_def same_session_def)

definition alive :: "demo_env \<Rightarrow> string \<Rightarrow> demo \<Rightarrow> bool" where
  "alive v sid m \<longleftrightarrow> (\<exists>b. map_of (dm_dbs m) sid = Some b \<and> dv_now v \<le> last_used m sid b + session_ttl (dv_settings v))"

lemma alive_same: "same_session sid m m' \<Longrightarrow> alive v sid m' = alive v sid m"
  by (simp add: alive_def same_session_def last_used_def)

text \<open>The sweep spares a session in use; the names of database files are distinct.\<close>

lemma map_of_filter_kept:
  "map_of kvs k = Some v \<Longrightarrow> P (k, v) \<Longrightarrow> unique_key fst kvs \<Longrightarrow> map_of (filter P kvs) k = Some v"
  by (induction kvs) (auto simp: unique_key_def dest: map_of_SomeD)

lemma sweep_spares:
  assumes "unique_key fst (dm_dbs m)" and "alive v sid m"
  shows "same_session sid m (sweep_idle v m)"
proof (cases "dv_now v - dm_sweep m < sweep_interval")
  case False
  from assms(2) obtain b where b: "map_of (dm_dbs m) sid = Some b" "\<not> swept v m (sid, b)"
    by (auto simp: alive_def swept_def)
  have "sid \<notin> fst ` set (filter (swept v m) (dm_dbs m))"
    using b(2) eq_key_imp_eq_value [OF assms(1) [unfolded unique_key_def] map_of_SomeD [OF b(1)]] by auto
  with b assms(1) False show ?thesis
    by (simp add: same_session_def sweep_idle_def Let_def map_of_filter_fst map_of_filter_kept)
qed (simp add: sweep_idle_def same_session_def)

lemma ensure_other: "ensure_session v sid m = (stem, m') \<Longrightarrow> other \<noteq> sid \<Longrightarrow> same_session other m m'"
  by (auto simp: ensure_session_def same_session_def split: if_splits)

lemma ensure_stem: "ensure_session v sid m = (stem, m') \<Longrightarrow> stem = sid \<or> stem = shared_sid"
  by (auto simp: ensure_session_def split: if_splits)

lemma open_other:
  assumes "unique_key fst (dm_dbs m)" and "alive v other m" and "open_sandbox v sid m = (stem, m')"
    and "other \<noteq> sid" and "other \<noteq> shared_sid"
  shows "same_session other m m' \<and> stem \<noteq> other"
proof -
  obtain m1 where e: "ensure_session v sid (sweep_idle v m) = (stem, m1)"
      and m': "m' = (if stem \<noteq> shared_sid then touch v stem m1 else m1)"
    using assms(3) by (auto simp: open_sandbox_def split: prod.splits)
  note stem = ensure_stem [OF e]
  then have "same_session other m1 m'" using assms(4,5) m' by (auto simp: touch_def same_session_def)
  with sweep_spares [OF assms(1,2)] ensure_other [OF e assms(4)] stem assms(4,5) show ?thesis
    by (blast intro: same_session_trans)
qed

text \<open>The names stay distinct.\<close>

lemma unique_set_key: "unique_key fst kvs \<Longrightarrow> unique_key fst (set_key k v kvs)"
  by (auto simp: unique_key_def map_fst_set_key)

lemma unique_open:
  assumes "unique_key fst (dm_dbs m)" and "open_sandbox v sid m = (stem, m')"
  shows "unique_key fst (dm_dbs m')"
proof -
  have "unique_key fst (dm_dbs (sweep_idle v m))"
    using assms(1) by (simp add: sweep_idle_def Let_def unique_filter)
  with assms(2) show ?thesis
    by (auto simp: open_sandbox_def ensure_session_def touch_def unique_set_key split: if_splits)
qed

lemma unique_request:
  "unique_key fst (dm_dbs m) \<Longrightarrow> demo_request v path cookie app m = (r, c, m') \<Longrightarrow> unique_key fst (dm_dbs m')"
  using unique_open [of m v "resolve_sid v cookie False m"]
  by (auto simp: demo_request_def Let_def save_session_def unique_set_key split: if_splits option.splits prod.splits)

lemma resolved: "resolve_sid v cookie allocate m = sid \<Longrightarrow> sid = shared_sid \<or> cookie = Some sid \<or> sid = dv_token v"
  by (auto simp: resolve_sid_def split: option.splits if_splits)

lemma request_other:
  assumes "unique_key fst (dm_dbs m)" and "alive v other m" and "demo_request v path cookie app m = (r, c, m')"
    and "cookie \<noteq> Some other" and "dv_token v \<noteq> other" and "other \<noteq> shared_sid"
  shows "same_session other m m'"
proof -
  let ?sid = "resolve_sid v cookie False m"
  have sid: "other \<noteq> ?sid" using resolved [OF refl, of v cookie False m] assms(4-6) by metis
  obtain stem m1 where o: "open_sandbox v ?sid m = (stem, m1)" by force
  note other = open_other [OF assms(1,2) o sid assms(6)]
  have saved: "same_session other m1 (save_session v stem s m1)" for s
    using other by (cases "session_state m1 stem = Some s") (auto simp: same_session_def save_session_def)
  have "m' = m \<or> m' = m1 \<or> (\<exists>s. m' = save_session v stem s m1)"
    using assms(3) o by (auto simp: demo_request_def Let_def split: if_splits option.splits prod.splits)
  with other saved show ?thesis by (auto intro: same_session_trans simp: same_session_def)
qed

text \<open>The steps of a visitor's own request to the interface.\<close>

definition api_path :: "string \<Rightarrow> bool" where
  "api_path path \<longleftrightarrow> \<not> outside_sessions (without_slashes path) \<and> starts_with (without_slashes path) ''/api/''"

lemma request_api:
  assumes "is_valid_sid sid" and "api_path path" and "demo_request v path (Some sid) app m = (r, c, m')"
  obtains stem m1 where "open_sandbox v sid m = (stem, m1)"
    and "(r, m') = (case session_state m1 stem of None \<Rightarrow> (fst (app None), m1)
      | Some s \<Rightarrow> (fst (app (Some s)), save_session v stem (snd (app (Some s))) m1))"
proof -
  have sid: "resolve_sid v (Some sid) False m = sid" using assms(1) by (auto simp: resolve_sid_def is_valid_sid_def)
  obtain stem m1 where o: "open_sandbox v sid m = (stem, m1)" by force
  then have "(r, m') = (case session_state m1 stem of None \<Rightarrow> (fst (app None), m1)
      | Some s \<Rightarrow> (fst (app (Some s)), save_session v stem (snd (app (Some s))) m1))"
    using assms(2,3) sid by (auto simp: demo_request_def api_path_def Let_def split: option.splits prod.splits)
  with o show ?thesis by (rule that)
qed

lemma save_session_own:
  "session_state m sid = Some s0 \<Longrightarrow> session_state (save_session v sid s m) sid = Some s
    \<and> dm_access (save_session v sid s m) = dm_access m"
  by (auto simp: save_session_def session_state_def)

lemma touch_state: "session_state (touch v sid m) other = session_state m other"
  "map_of (dm_access (touch v sid m)) sid = Some (dv_now v)"
  by (simp_all add: touch_def session_state_def)

lemma open_alive:
  assumes "unique_key fst (dm_dbs m)" and "alive v sid m" and "sid \<noteq> shared_sid"
  shows "open_sandbox v sid m = (sid, touch v sid (sweep_idle v m))"
proof -
  have "map_of (dm_dbs (sweep_idle v m)) sid \<noteq> None"
    using sweep_spares [OF assms(1,2)] assms(2) by (auto simp: same_session_def alive_def)
  with assms(3) show ?thesis by (simp add: open_sandbox_def ensure_session_def)
qed

lemma request_alive:
  assumes "unique_key fst (dm_dbs m)" and "is_valid_sid sid" and "sid \<noteq> shared_sid" and "api_path path"
    and "demo_request v path (Some sid) app m = (r, c, m')" and "alive v sid m" and "session_state m sid = Some s"
  shows "r = fst (app (Some s)) \<and> session_state m' sid = Some (snd (app (Some s)))"
proof -
  let ?m1 = "touch v sid (sweep_idle v m)"
  have m1: "session_state ?m1 sid = Some s"
    using session_state_same [OF sweep_spares [OF assms(1,6)]] assms(7) by (simp add: touch_state)
  obtain stem m1 where "open_sandbox v sid m = (stem, m1)"
    and req: "(r, m') = (case session_state m1 stem of None \<Rightarrow> (fst (app None), m1)
      | Some s \<Rightarrow> (fst (app (Some s)), save_session v stem (snd (app (Some s))) m1))"
    by (rule request_api [OF assms(2,4,5)])
  then have "stem = sid" "m1 = ?m1" using open_alive [OF assms(1,6,3)] by (metis Pair_inject)+
  with req m1 have "r = fst (app (Some s))" "m' = save_session v sid (snd (app (Some s))) m1" by simp_all
  with save_session_own [of m1 sid s] m1 \<open>m1 = ?m1\<close> show ?thesis by simp
qed

lemma opened_own:
  assumes "open_sandbox v sid m = (sid, m1)" and "sid \<noteq> shared_sid" and "session_state m1 sid = Some s"
  shows "map_of (dm_access m1) sid = Some (dv_now v) \<and> (map_of (dm_dbs m) sid = None \<longrightarrow> fst s = dm_template m)"
proof -
  obtain m2 where e: "ensure_session v sid (sweep_idle v m) = (sid, m2)" and m1: "m1 = touch v sid m2"
    using assms(1,2) by (auto simp: open_sandbox_def split: prod.splits)
  have "fst s = dm_template m" if "map_of (dm_dbs m) sid = None"
  proof -
    have "sid \<notin> fst ` set (dm_dbs m)" using that by (simp add: map_of_eq_None_iff)
    then have "sid \<notin> fst ` set (dm_dbs (sweep_idle v m))" by (auto simp: sweep_idle_def Let_def)
    then have "map_of (dm_dbs (sweep_idle v m)) sid = None" by (simp add: map_of_eq_None_iff)
    moreover have "dm_template (sweep_idle v m) = dm_template m" by (simp add: sweep_idle_def Let_def)
    ultimately have "map_of (dm_dbs m2) sid = Some \<lparr>sb_db = dm_template m, sb_mtime = dv_now v\<rparr>"
      using e assms(2) by (auto simp: ensure_session_def split: if_splits)
    with assms(3) m1 show ?thesis by (simp add: touch_state) (auto simp: session_state_def)
  qed
  with m1 show ?thesis by (simp add: touch_state)
qed

lemma request_own:
  assumes "is_valid_sid sid" and "sid \<noteq> shared_sid" and "api_path path"
    and "demo_request v path (Some sid) app m = (r, c, m')" and "session_state m' sid \<noteq> None"
  shows "\<exists>s. r = fst (app (Some s)) \<and> session_state m' sid = Some (snd (app (Some s)))
    \<and> (map_of (dm_dbs m) sid = None \<longrightarrow> fst s = dm_template m) \<and> map_of (dm_access m') sid = Some (dv_now v)"
proof -
  obtain stem m1 where o: "open_sandbox v sid m = (stem, m1)"
    and req: "(r, m') = (case session_state m1 stem of None \<Rightarrow> (fst (app None), m1)
      | Some s \<Rightarrow> (fst (app (Some s)), save_session v stem (snd (app (Some s))) m1))"
    by (rule request_api [OF assms(1,3,4)])
  obtain m2 where e: "ensure_session v sid (sweep_idle v m) = (stem, m2)"
      and m1: "m1 = (if stem \<noteq> shared_sid then touch v stem m2 else m2)"
    using o by (auto simp: open_sandbox_def split: prod.splits)
  show ?thesis
  proof (cases "stem = sid")
    case True
    have "map_of (dm_dbs m2) sid \<noteq> None" using e True assms(2) by (auto simp: ensure_session_def split: if_splits)
    then obtain s where s: "session_state m1 sid = Some s"
      using m1 True assms(2) by (auto simp: touch_state) (auto simp: session_state_def)
    with req True have "r = fst (app (Some s))" "m' = save_session v sid (snd (app (Some s))) m1" by simp_all
    with opened_own [OF o [unfolded True] assms(2) s] save_session_own [OF s] show ?thesis
      by (intro exI [of _ s]) simp
  next
    case False
    with ensure_stem [OF e] have stem: "stem = shared_sid" by blast
    with e have "map_of (dm_dbs m2) sid = None" using False by (auto simp: ensure_session_def split: if_splits)
    then have "session_state m1 sid = None" using m1 stem by (simp add: session_state_def)
    moreover have "session_state m' sid = session_state m1 sid"
      using req assms(2) stem by (auto simp: save_session_def session_state_def split: option.splits)
    ultimately show ?thesis using assms(5) by simp
  qed
qed

section \<open>Properties\<close>

text \<open>A sequence of requests, each with its environment, path, cookie and what it does.\<close>

fun run_demo :: "(demo_env \<times> string \<times> string option \<times> ((db \<times> objects) option \<Rightarrow> 'r \<times> db \<times> objects)) list
    \<Rightarrow> demo \<Rightarrow> demo" where
  "run_demo [] m = m"
| "run_demo ((v, path, cookie, app) # rs) m = run_demo rs (snd (snd (demo_request v path cookie app m)))"

lemma run_other:
  assumes "unique_key fst (dm_dbs m)" and "map_of (dm_dbs m) sid \<noteq> None" and "map_of (dm_access m) sid = Some t0"
    and "sid \<noteq> shared_sid"
    and "list_all (\<lambda>(v, path, cookie, app). cookie \<noteq> Some sid \<and> dv_token v \<noteq> sid
      \<and> dv_now v \<le> t0 + session_ttl (dv_settings v)) rs"
  shows "same_session sid m (run_demo rs m) \<and> unique_key fst (dm_dbs (run_demo rs m))"
  using assms
proof (induction rs arbitrary: m)
  case (Cons x rs)
  obtain v path cookie app where x: "x = (v, path, cookie, app)" by (metis prod_cases4)
  obtain r c m1 where q: "demo_request v path cookie app m = (r, c, m1)" by (metis prod_cases3)
  have "alive v sid m" using Cons.prems(2,3,5) by (auto simp: alive_def last_used_def x)
  then have s: "same_session sid m m1" using request_other [OF Cons.prems(1) _ q] Cons.prems(4,5) by (auto simp: x)
  moreover have "same_session sid m1 (run_demo rs m1) \<and> unique_key fst (dm_dbs (run_demo rs m1))"
    using Cons.IH [OF unique_request [OF Cons.prems(1) q]] Cons.prems s by (auto simp: x same_session_def)
  ultimately show ?case using q by (auto simp: x intro: same_session_trans)
qed (simp add: same_session_def)


text \<open>Sandboxes never outnumber the limit.\<close>

lemma count_set_key:
  "int (length (filter (\<lambda>(sid, b). sid \<noteq> shared_sid) (set_key k v kvs)))
    \<le> int (length (filter (\<lambda>(sid, b). sid \<noteq> shared_sid) kvs)) + (if k \<in> fst ` set kvs \<or> k = shared_sid then 0 else 1)"
  by (induction kvs) (auto split: if_splits)

lemma count_filter: "length (filter P (filter Q xs)) \<le> length (filter P xs)"
  by (induction xs) auto

lemma count_sweep: "active_session_count (sweep_idle v m) \<le> active_session_count m"
  using count_filter [of _ _ "dm_dbs m"] by (simp add: active_session_count_def sweep_idle_def Let_def)

lemma count_ensure:
  assumes "ensure_session v sid m = (stem, m')" and "active_session_count m \<le> ds_max_sessions (dv_settings v)"
  shows "active_session_count m' \<le> ds_max_sessions (dv_settings v)"
proof -
  let ?b = "\<lparr>sb_db = dm_template m, sb_mtime = dv_now v\<rparr>"
  have "active_session_count (m\<lparr>dm_dbs := set_key sid ?b (dm_dbs m)\<rparr>) \<le> active_session_count m + 1"
    using count_set_key [of sid ?b "dm_dbs m"] by (simp add: active_session_count_def split: if_splits)
  with assms show ?thesis by (auto simp: ensure_session_def split: if_splits)
qed

lemma open_stem_file: "open_sandbox v sid m = (stem, m') \<Longrightarrow> stem = shared_sid \<or> map_of (dm_dbs m') stem \<noteq> None"
  by (auto simp: open_sandbox_def ensure_session_def touch_def split: if_splits prod.splits)

theorem sandboxes_bounded:
  assumes "demo_request v path cookie app m = (r, c, m')"
    and "active_session_count m \<le> ds_max_sessions (dv_settings v)"
  shows "active_session_count m' \<le> ds_max_sessions (dv_settings v)"
proof -
  let ?sid = "resolve_sid v cookie False m"
  obtain stem m1 where o: "open_sandbox v ?sid m = (stem, m1)" by force
  obtain m2 where e: "ensure_session v ?sid (sweep_idle v m) = (stem, m2)"
      and m1: "m1 = (if stem \<noteq> shared_sid then touch v stem m2 else m2)"
    using o by (auto simp: open_sandbox_def split: prod.splits)
  have "active_session_count m2 \<le> ds_max_sessions (dv_settings v)"
    using count_ensure [OF e] count_sweep [of v m] assms(2) by linarith
  then have opened: "active_session_count m1 \<le> ds_max_sessions (dv_settings v)"
    using m1 by (simp add: active_session_count_def touch_def)
  have "active_session_count (save_session v stem s m1) \<le> active_session_count m1" for s
    using open_stem_file [OF o] count_set_key [of stem "\<lparr>sb_db = fst s, sb_mtime = dv_now v\<rparr>" "dm_dbs m1"]
    by (auto simp: save_session_def active_session_count_def map_of_eq_None_iff split: if_splits)
  then have saved: "active_session_count (save_session v stem s m1) \<le> ds_max_sessions (dv_settings v)" for s
    using opened by (meson order_trans)
  have "m' = m \<or> m' = m1 \<or> (\<exists>s. m' = save_session v stem s m1)"
    using assms(1) o by (auto simp: demo_request_def Let_def split: if_splits option.splits prod.splits)
  with opened saved assms(2) show ?thesis by blast
qed

text \<open>Only files below the client's directory are served, and compressed ones only as asked for.\<close>

theorem spa_confined:
  assumes "spa s root accept p = File q cache vary gzip" and "\<not> is_file s root"
  shows "prefix root q \<and> is_file s q \<and> (gzip \<longrightarrow> accepts_gzip accept \<and> ends_with (last q) ''.gz'')"
proof -
  have gz: "prefix root (butlast p @ [x])" if "prefix root p" "is_file s p" for p x
  proof -
    have "root \<noteq> p" using that assms(2) by blast
    with that(1) have "prefix root (butlast p)" by (cases p rule: rev_cases) (auto simp: prefix_snoc)
    then show ?thesis by (rule prefix_prefix)
  qed
  with assms(1) show ?thesis
    by (auto simp: spa_def serve_index_def ends_with_def starts_with_def Let_def split: if_splits)
qed

section \<open>Examples\<close>

definition example_demo :: demo where
  "example_demo = seed_template empty_db id 0 \<lparr>df_template = None, df_dbs = [], df_uploads = []\<rparr>"

definition visit :: "datetime \<Rightarrow> demo_env" where
  "visit t = \<lparr>dv_settings = \<lparr>ds_max_sessions = 2, ds_ttl_minutes = 60, ds_quota_mb = 200\<rparr>, dv_now = t * microseconds,
     dv_unlink_fault = (\<lambda>_. False), dv_token = replicate 32 (CHR ''f'')\<rparr>"

definition visitor :: "char \<Rightarrow> string" where
  "visitor c = replicate 32 c"

definition sealing :: "(db \<times> objects) option \<Rightarrow> nat \<times> db \<times> objects" where
  "sealing x = (case x of None \<Rightarrow> (0, empty_db, []) | Some (db, os) \<Rightarrow> (length os, db, (''k'', ''v'') # os))"

definition others :: "(demo_env \<times> string \<times> string option \<times> ((db \<times> objects) option \<Rightarrow> nat \<times> db \<times> objects)) list" where
  "others = [(visit 1600, ''/api/v1/x'', Some (visitor (CHR ''b'')), sealing), (visit 1700, ''/api/v1/x'', None, sealing),
     (visit 1800, ''/api/v1/x'', Some (visitor (CHR ''c'')), sealing)]"


theorem sandboxes_bounded_witness:
  "active_session_count (snd (snd (demo_request (visit 1000) ''/api/v1/x'' (Some (visitor (CHR ''a''))) sealing example_demo)))
     \<le> ds_max_sessions (dv_settings (visit 1000))"
proof -
  have "active_session_count example_demo \<le> ds_max_sessions (dv_settings (visit 1000))" by code_simp
  then show ?thesis by (metis prod.collapse sandboxes_bounded)
qed

end
