(* ===== verification/Comments.thy ===== *)
theory Comments
  imports Prelude
begin

text \<open>
  The comment guard of the repository (\<open>scripts/check_comments.py\<close>): the scanners that find comments in
  shell, YAML, TOML, CSS, Mako and HTML text and in Python source, the choice of the scanner for a file,
  and the comparison of what they find with the allowlist. Python's tokenizer and parser, the HTML and
  JSON parsers, git and the script scanner are parameters.
\<close>

section \<open>Text\<close>

abbreviation nl :: char where "nl \<equiv> CHR 0x0A"
abbreviation tab :: char where "tab \<equiv> CHR 0x09"
abbreviation double_quote :: char where "double_quote \<equiv> CHR 0x22"
abbreviation single_quote :: char where "single_quote \<equiv> CHR 0x27"
abbreviation backslash :: char where "backslash \<equiv> CHR 0x5C"

type_synonym finding = "int \<times> string"

definition is_quote :: "char \<Rightarrow> bool" where
  "is_quote c \<longleftrightarrow> c = double_quote \<or> c = single_quote"

text \<open>\<open>split("\n")\<close>, the rest of the line and \<open>count("\n")\<close>.\<close>

fun split_lines :: "string \<Rightarrow> string list" where
  "split_lines [] = [[]]"
| "split_lines (c # cs) =
     (if c = nl then [] # split_lines cs
      else case split_lines cs of [] \<Rightarrow> [[c]] | l # ls \<Rightarrow> (c # l) # ls)"

definition rest_of_line :: "string \<Rightarrow> string" where
  "rest_of_line = takeWhile (\<lambda>c. c \<noteq> nl)"

definition after_line :: "string \<Rightarrow> string" where
  "after_line = dropWhile (\<lambda>c. c \<noteq> nl)"

definition newlines :: "string \<Rightarrow> nat" where
  "newlines s = length (filter (\<lambda>c. c = nl) s)"

definition str_rstrip :: "string \<Rightarrow> string" where
  "str_rstrip s = rev (dropWhile is_blank (rev s))"

text \<open>The text before the first occurrence of \<open>p\<close>, all of it when there is none (\<open>find\<close>).\<close>

fun text_before :: "string \<Rightarrow> string \<Rightarrow> string" where
  "text_before p [] = []"
| "text_before p (c # cs) = (if starts_with (c # cs) p then [] else c # text_before p cs)"

lemma after_line_length [termination_simp]: "length (after_line cs) < Suc (length cs)"
  by (simp add: after_line_def less_Suc_eq_le length_dropWhile_le)

section \<open>Shell text\<close>

definition shell_word_breaks :: string where
  "shell_word_breaks = [CHR '' '', tab, CHR '';'', CHR ''&'', CHR ''|'', CHR ''('']"

text \<open>\<open>before\<close> is the character before the position and \<open>quote\<close> the quote that is open.\<close>

fun shell_scan :: "char option \<Rightarrow> char option \<Rightarrow> int \<Rightarrow> string \<Rightarrow> finding list" where
  "shell_scan before quote line [] = []"
| "shell_scan before quote line (c # cs) =
     (if c = nl then shell_scan (Some c) quote (line + 1) cs
      else if c = backslash \<and> quote \<noteq> Some single_quote then
        (case cs of
           [] \<Rightarrow> []
         | d # ds \<Rightarrow> shell_scan (Some d) quote (if d = nl then line + 1 else line) ds)
      else (case quote of
          Some q \<Rightarrow> shell_scan (Some c) (if c = q then None else quote) line cs
        | None \<Rightarrow>
            if is_quote c then shell_scan (Some c) (Some c) line cs
            else if c = CHR ''#'' \<and> (case before of None \<Rightarrow> True | Some b \<Rightarrow> b \<in> set (shell_word_breaks @ [nl]))
            then (line, rest_of_line (c # cs)) # shell_scan (Some c) None line (after_line cs)
            else shell_scan (Some c) None line cs))"

definition shell_findings :: "string \<Rightarrow> int \<Rightarrow> finding list" where
  "shell_findings text first_line = shell_scan None None first_line text"

section \<open>YAML\<close>

definition yaml_gap :: "string \<Rightarrow> bool" where
  "yaml_gap following \<longleftrightarrow> (case following of [] \<Rightarrow> True | c # _ \<Rightarrow> c = CHR '' '' \<or> c = tab)"

lemma dropWhile_shorter [termination_simp]: "length (dropWhile P cs) < Suc (length cs)"
  by (simp add: less_Suc_eq_le length_dropWhile_le)

lemma drop_shorter [termination_simp]: "length cs - k < Suc (length cs)"
  by simp

text \<open>The state of the scan of a line: the open quote, whether a node may start, the flow depth.\<close>

type_synonym yaml_state = "char option \<times> bool \<times> nat"

text \<open>
  One character in a quote and outside of one: how many more characters it takes along and the new state.
\<close>

definition yaml_quoted :: "char \<Rightarrow> bool \<Rightarrow> nat \<Rightarrow> char \<Rightarrow> string \<Rightarrow> nat \<times> yaml_state" where
  "yaml_quoted q node_start depth c cs =
     (if q = double_quote \<and> c = backslash \<or> c = q \<and> q = single_quote \<and> starts_with cs [single_quote]
      then (1, Some q, node_start, depth)
      else (0, if c = q then None else Some q, node_start, depth))"

definition yaml_plain :: "bool \<Rightarrow> nat \<Rightarrow> char \<Rightarrow> string \<Rightarrow> nat \<times> yaml_state" where
  "yaml_plain node_start depth c cs =
     (if c = CHR '':'' \<and> (depth \<noteq> 0 \<or> yaml_gap cs) then (0, None, True, depth)
      else if c = CHR '','' \<and> depth \<noteq> 0 then (0, None, True, depth)
      else if (c = CHR ''['' \<or> c = CHR ''{'') \<and> (node_start \<or> depth \<noteq> 0) then (0, None, True, depth + 1)
      else if (c = CHR '']'' \<or> c = CHR ''}'') \<and> depth \<noteq> 0 then (0, None, node_start, depth - 1)
      else if node_start \<and> (c = CHR ''-'' \<or> c = CHR ''?'') \<and> yaml_gap cs then (0, None, node_start, depth)
      else if node_start \<and> (c = CHR ''!'' \<or> c = CHR ''&'')
      then (length (takeWhile (\<lambda>d. d \<noteq> CHR '' '' \<and> d \<noteq> tab) cs), None, node_start, depth)
      else if node_start \<and> is_quote c then (0, Some c, False, depth)
      else (0, None, node_start \<and> (c = CHR '' '' \<or> c = tab), depth))"

definition yaml_step :: "yaml_state \<Rightarrow> char \<Rightarrow> string \<Rightarrow> nat \<times> yaml_state" where
  "yaml_step st c cs =
     (case st of (quote, node_start, depth) \<Rightarrow>
        case quote of Some q \<Rightarrow> yaml_quoted q node_start depth c cs | None \<Rightarrow> yaml_plain node_start depth c cs)"

text \<open>The column of a comment; \<open>spaced\<close> tells that the position starts the line or follows a blank.\<close>

fun yaml_scan :: "nat \<Rightarrow> bool \<Rightarrow> yaml_state \<Rightarrow> string \<Rightarrow> nat option" where
  "yaml_scan index spaced st [] = None"
| "yaml_scan index spaced st (c # cs) =
     (if fst st = None \<and> c = CHR ''#'' \<and> spaced then Some index
      else case yaml_step st c cs of (more, st') \<Rightarrow>
        let d = (c # cs) ! min more (length cs)
        in yaml_scan (index + 1 + more) (d = CHR '' '' \<or> d = tab) st' (drop more cs))"

definition yaml_comment_column :: "string \<Rightarrow> nat option" where
  "yaml_comment_column line = yaml_scan 0 True (None, True, 0) line"

definition starts_block_scalar :: "string \<Rightarrow> bool" where
  "starts_block_scalar line =
     (let stripped = str_rstrip line;
          tail = rev (takeWhile (\<lambda>c. c \<noteq> CHR '' '') (rev stripped));
          front = str_rstrip (take (length stripped - length tail) stripped)
      in (case tail of
            [] \<Rightarrow> False
          | m # ms \<Rightarrow> (m = CHR ''|'' \<or> m = CHR ''>'') \<and> length tail \<noteq> length stripped
              \<and> list_all (\<lambda>c. c \<in> set ''+-123456789'') ms \<and> (ends_with front '':'' \<or> ends_with front ''-'')))"

definition indent_of :: "string \<Rightarrow> nat" where
  "indent_of line = length (takeWhile (\<lambda>c. c = CHR '' '') line)"

definition in_block :: "nat \<Rightarrow> string \<Rightarrow> bool" where
  "in_block indent line \<longleftrightarrow> str_strip line = [] \<or> indent < indent_of line"

fun yaml_lines :: "int \<Rightarrow> string list \<Rightarrow> finding list" where
  "yaml_lines number [] = []"
| "yaml_lines number (l # ls) =
     (let column = yaml_comment_column l;
          found = (case column of None \<Rightarrow> [] | Some k \<Rightarrow> [(number, drop k l)]);
          line = (case column of None \<Rightarrow> l | Some k \<Rightarrow> take k l);
          block = takeWhile (in_block (indent_of line)) ls
      in if str_strip line \<noteq> [] \<and> starts_block_scalar line
         then found @ shell_findings (join_with [nl] block) (number + 1)
           @ yaml_lines (number + 1 + int (length block)) (dropWhile (in_block (indent_of line)) ls)
         else found @ yaml_lines (number + 1) ls)"

definition yaml_findings :: "string \<Rightarrow> finding list" where
  "yaml_findings source = yaml_lines 1 (split_lines source)"

section \<open>TOML\<close>

text \<open>A delimiter is a quote, tripled or not.\<close>

definition delimiter_text :: "char \<times> bool \<Rightarrow> string" where
  "delimiter_text d = (if snd d then [fst d, fst d, fst d] else [fst d])"

lemma delimiter_shorter [termination_simp]: "length (drop (length (delimiter_text d)) (c # cs)) < Suc (length cs)"
  by (simp add: delimiter_text_def)

fun toml_scan :: "int \<Rightarrow> (char \<times> bool) option \<Rightarrow> string \<Rightarrow> finding list" where
  "toml_scan line delimiter [] = []"
| "toml_scan line delimiter (c # cs) =
     (case delimiter of
        Some d \<Rightarrow>
          if starts_with (c # cs) (delimiter_text d)
          then toml_scan line None (drop (length (delimiter_text d)) (c # cs))
          else if c = backslash \<and> fst d = double_quote
          then (case cs of [] \<Rightarrow> [] | e # es \<Rightarrow> toml_scan (if e = nl then line + 1 else line) delimiter es)
          else toml_scan (if c = nl then line + 1 else line) delimiter cs
      | None \<Rightarrow>
          if is_quote c then
            (if starts_with (c # cs) [c, c, c] then toml_scan line (Some (c, True)) (drop 2 cs)
             else toml_scan line (Some (c, False)) cs)
          else if c = CHR ''#''
          then (line, rest_of_line (c # cs)) # toml_scan line None (after_line cs)
          else toml_scan (if c = nl then line + 1 else line) None cs)"

definition toml_findings :: "string \<Rightarrow> finding list" where
  "toml_findings source = toml_scan 1 None source"

section \<open>CSS\<close>

text \<open>What is left after the characters of a string and of an unquoted address.\<close>

fun css_string :: "char \<Rightarrow> string \<Rightarrow> string" where
  "css_string q [] = []"
| "css_string q (c # cs) =
     (if c = q \<or> c = nl then c # cs
      else if c = backslash then css_string q (drop 1 cs)
      else css_string q cs)"

fun css_address :: "string \<Rightarrow> string" where
  "css_address [] = []"
| "css_address (c # cs) =
     (if c = CHR '')'' then c # cs
      else if c = backslash then css_address (drop 1 cs)
      else css_address cs)"

definition css_name_char :: "char \<Rightarrow> bool" where
  "css_name_char c \<longleftrightarrow> (let n = (of_char c :: nat) in 48 \<le> n \<and> n \<le> 57 \<or> 65 \<le> n \<and> n \<le> 90 \<or> 97 \<le> n \<and> n \<le> 122)
     \<or> c = CHR ''-'' \<or> c = CHR ''_''"

definition css_comment :: "string \<Rightarrow> string" where
  "css_comment s = (if contains (drop 2 s) ''*/'' then take 2 s @ text_before ''*/'' (drop 2 s) @ ''*/'' else s)"

definition css_url :: "string \<Rightarrow> string" where
  "css_url s = (let r = dropWhile (\<lambda>c. c = CHR '' '' \<or> c = tab \<or> c = nl) (drop 4 s)
     in case r of [] \<Rightarrow> [] | c # _ \<Rightarrow> if is_quote c then r else css_address r)"

definition css_at_url :: "char option \<Rightarrow> string \<Rightarrow> bool" where
  "css_at_url before s \<longleftrightarrow> str_lower (take 4 s) = ''url(''
     \<and> (case before of None \<Rightarrow> True | Some b \<Rightarrow> \<not> css_name_char b)"

text \<open>One step from the position: a comment when there is one, and what is left.\<close>

definition css_step :: "char option \<Rightarrow> string \<Rightarrow> string option \<times> string" where
  "css_step before s =
     (if s \<noteq> [] \<and> is_quote (hd s) then (None, drop 1 (css_string (hd s) (tl s)))
      else if starts_with s ''/*'' then (Some (css_comment s), drop (length (css_comment s)) s)
      else if css_at_url before s then (None, css_url s)
      else (None, tl s))"

lemma css_string_length: "length (css_string q s) \<le> length s"
  by (induction q s rule: css_string.induct) auto

lemma css_address_length: "length (css_address s) \<le> length s"
  by (induction s rule: css_address.induct) auto

lemma css_comment_length: "s \<noteq> [] \<Longrightarrow> 0 < length (css_comment s)"
  by (simp add: css_comment_def)

lemma css_url_length: "length (css_url s) \<le> length (drop 4 s)"
proof -
  let ?P = "\<lambda>c. c = CHR '' '' \<or> c = tab \<or> c = nl"
  have "length (dropWhile ?P (drop 4 s)) \<le> length (drop 4 s)" by (rule length_dropWhile_le)
  moreover have "length (css_url s) \<le> length (dropWhile ?P (drop 4 s))"
    using css_address_length [of "dropWhile ?P (drop 4 s)"] by (auto simp: css_url_def Let_def split: list.splits)
  ultimately show ?thesis by (rule le_trans [rotated])
qed

lemma css_step_length: "length (snd (css_step before (c # cs))) \<le> length cs"
proof -
  have "length (drop (length (css_comment (c # cs))) (c # cs)) \<le> length cs"
    using css_comment_length [of "c # cs", OF list.simps(3)] by (simp only: length_drop length_Cons)
  moreover have "length (css_url (c # cs)) \<le> length cs" using css_url_length [of "c # cs"] by simp
  ultimately show ?thesis using css_string_length [of c cs] by (auto simp: css_step_def)
qed

lemma css_step_shorter [termination_simp]:
  "(k, rest) = css_step before (c # cs) \<Longrightarrow> length rest < Suc (length cs)"
  using css_step_length [of before c cs] by (cases "css_step before (c # cs)") simp

fun css_scan :: "char option \<Rightarrow> int \<Rightarrow> string \<Rightarrow> finding list" where
  "css_scan before line [] = []"
| "css_scan before line (c # cs) =
     (case css_step before (c # cs) of (comment, rest) \<Rightarrow>
        let consumed = take (Suc (length cs) - length rest) (c # cs)
        in (case comment of None \<Rightarrow> [] | Some t \<Rightarrow> [(line, t)])
           @ css_scan (Some (last consumed)) (line + int (newlines consumed)) rest)"

definition css_findings :: "string \<Rightarrow> int \<Rightarrow> finding list" where
  "css_findings source first_line = css_scan None first_line source"

section \<open>Python source\<close>

text \<open>
  What the parser and the tokenizer say of a text: its comments with their lines, and the nodes of its
  syntax tree in the order of \<open>ast.walk\<close>. A \<open>SyntaxError\<close> or \<open>ValueError\<close> is \<open>Malformed\<close> with its
  message; \<open>Escaping\<close> is an exception of another class, as the \<open>TokenError\<close> of a text that ends within a
  token or an error of the operating system.
\<close>

datatype scan_fault = Malformed string | Escaping

datatype syntax_node = StringStatement int string | StringConstant int string | OtherNode

record python_tools =
  py_comments :: "string \<Rightarrow> scan_fault + finding list"
  py_nodes :: "string \<Rightarrow> scan_fault + syntax_node list"
  py_dedent :: "string \<Rightarrow> string"

definition embedded_python_findings :: "python_tools \<Rightarrow> string \<Rightarrow> int \<Rightarrow> finding list" where
  "embedded_python_findings p text line =
     (case then_do (py_nodes p (py_dedent p text)) (\<lambda>_. py_comments p (py_dedent p text)) of
        Inl _ \<Rightarrow> []
      | Inr ts \<Rightarrow> map (\<lambda>(n, t). (line + n, ''in embedded source: '' @ t)) ts)"

fun node_findings :: "python_tools \<Rightarrow> int \<Rightarrow> syntax_node \<Rightarrow> finding list" where
  "node_findings p offset (StringStatement n s) = [(n + offset, ''string statement: '' @ take 60 s)]"
| "node_findings p offset (StringConstant n s) =
     (if nl \<in> set s then embedded_python_findings p s (n + offset) else [])"
| "node_findings p offset OtherNode = []"

definition python_findings :: "python_tools \<Rightarrow> string \<Rightarrow> int \<Rightarrow> scan_fault + finding list" where
  "python_findings p source offset =
     then_do (py_comments p source) (\<lambda>ts.
     then_do (py_nodes p source) (\<lambda>ns.
       Inr (map (\<lambda>(n, t). (n + offset, t)) ts @ concat (map (node_findings p offset) ns))))"

section \<open>Mako templates\<close>

text \<open>What follows the expression that starts at the position.\<close>

fun skip_template_expression :: "int \<Rightarrow> char option \<Rightarrow> string \<Rightarrow> string" where
  "skip_template_expression depth quote [] = []"
| "skip_template_expression depth quote (c # cs) =
     (case quote of
        Some q \<Rightarrow> skip_template_expression depth (if c = q then None else quote) cs
      | None \<Rightarrow>
          if is_quote c then skip_template_expression depth (Some c) cs
          else if c = CHR ''{'' then skip_template_expression (depth + 1) None cs
          else if c = CHR ''}'' then (if depth - 1 = 0 then cs else skip_template_expression (depth - 1) None cs)
          else skip_template_expression depth None cs)"

lemma skip_template_length: "length (skip_template_expression d q s) \<le> length s"
  by (induction d q s rule: skip_template_expression.induct) (auto split: option.splits)

lemma skip_template_shorter [termination_simp]: "length (skip_template_expression d q cs) < Suc (length cs)"
  using skip_template_length [of d q cs] by simp

text \<open>The findings in the template and the Python code that is left of it.\<close>

definition mako_block :: "string \<Rightarrow> string" where
  "mako_block s = text_before ''%>'' s"

definition block_source :: "string \<Rightarrow> string" where
  "block_source s = dropWhile (\<lambda>c. c = CHR ''!'') (drop 2 (mako_block s))"

lemma after_block_shorter [termination_simp]: "length cs - Suc k < Suc (length cs)"
  by simp

fun mako_scan :: "python_tools \<Rightarrow> int \<Rightarrow> bool \<Rightarrow> string \<Rightarrow> scan_fault + finding list \<times> string" where
  "mako_scan p line line_start [] = Inr ([], [])"
| "mako_scan p line line_start (c # cs) =
     (if starts_with (c # cs) ''<%'' \<and> \<not> starts_with (c # cs) ''<%doc>'' then
        then_do (python_findings p (py_dedent p (block_source (c # cs))) (line - 1)) (\<lambda>inner.
        then_do (mako_scan p (line + int (newlines (mako_block (c # cs)))) False
            (drop (Suc (length (mako_block (c # cs)))) cs)) (\<lambda>(found, code).
          Inr (inner @ found, replicate (newlines (mako_block (c # cs))) nl @ code)))
      else if starts_with (c # cs) ''${'' then
        then_do (mako_scan p line False (skip_template_expression 0 None cs)) (\<lambda>(found, code).
          Inr (found, CHR ''_'' # code))
      else if line_start \<and> starts_with (dropWhile (\<lambda>d. d = CHR '' '' \<or> d = tab) (c # cs)) ''##'' then
        then_do (mako_scan p line False (after_line cs)) (\<lambda>(found, code).
          Inr ((line, str_strip (rest_of_line (c # cs))) # found, code))
      else
        then_do (mako_scan p (if c = nl then line + 1 else line) (c = nl) cs) (\<lambda>(found, code).
          Inr ((if starts_with (c # cs) ''<%doc>'' then [(line, ''<%doc>'')] else []) @ found, c # code)))"

definition mako_findings :: "python_tools \<Rightarrow> string \<Rightarrow> scan_fault + finding list" where
  "mako_findings p source =
     then_do (mako_scan p 1 True source) (\<lambda>(found, code).
     then_do (python_findings p code 0) (\<lambda>rest. Inr (found @ rest)))"

section \<open>HTML\<close>

text \<open>The calls the HTML parser makes, each with the line of its position.\<close>

datatype html_event = HtmlComment int string | StartTag string "string list" | EndTag string | HtmlData int string

record html_scanner =
  hs_found :: "finding list"
  hs_raw_tag :: "string option"
  hs_raw_has_src :: bool
  hs_scripts :: "finding list"

fun handle :: "html_event \<Rightarrow> html_scanner \<Rightarrow> html_scanner" where
  "handle (HtmlComment n d) h = h\<lparr>hs_found := hs_found h @ [(n, ''<!--'' @ d @ ''-->'')]\<rparr>"
| "handle (StartTag t names) h =
     (if t = ''script'' \<or> t = ''style''
      then h\<lparr>hs_raw_tag := Some t, hs_raw_has_src := (''src'' \<in> set names)\<rparr> else h)"
| "handle (EndTag t) h = (if hs_raw_tag h = Some t then h\<lparr>hs_raw_tag := None\<rparr> else h)"
| "handle (HtmlData n d) h =
     (if hs_raw_tag h = Some ''style'' then h\<lparr>hs_found := hs_found h @ css_findings d n\<rparr>
      else if hs_raw_tag h = Some ''script'' \<and> \<not> hs_raw_has_src h
      then h\<lparr>hs_scripts := hs_scripts h @ [(n, d)]\<rparr> else h)"

definition html_findings :: "html_event list \<Rightarrow> finding list \<times> finding list" where
  "html_findings events =
     (let h = fold handle events \<lparr>hs_found = [], hs_raw_tag = None, hs_raw_has_src = False, hs_scripts = []\<rparr>
      in (hs_found h, hs_scripts h))"

section \<open>Files\<close>

definition numbered :: "'a list \<Rightarrow> (int \<times> 'a) list" where
  "numbered xs = zip (map int [1..<Suc (length xs)]) xs"

definition str_lstrip :: "string \<Rightarrow> string" where
  "str_lstrip = dropWhile is_blank"

definition marker_line :: "string list \<Rightarrow> string \<Rightarrow> bool" where
  "marker_line markers line \<longleftrightarrow> (\<exists>m \<in> set markers. starts_with (str_lstrip line) m)"

definition line_start_findings :: "string \<Rightarrow> string list \<Rightarrow> finding list" where
  "line_start_findings source markers =
     map (\<lambda>(n, l). (n, str_strip l)) (filter (\<lambda>(n, l). marker_line markers l) (numbered (split_lines source)))"

definition dockerfile_findings :: "string \<Rightarrow> finding list" where
  "dockerfile_findings source = line_start_findings source [''#'']
     @ shell_findings (join_with [nl] (map (\<lambda>l. if marker_line [''#''] l then [] else l) (split_lines source))) 1"

definition env_findings :: "string \<Rightarrow> finding list" where
  "env_findings source =
     concat (map (\<lambda>(n, l). map (\<lambda>(_, t). (n, t)) (shell_findings l n)) (numbered (split_lines source)))"

text \<open>What Python's libraries say of a text.\<close>

record scan_tools =
  sc_python :: python_tools
  sc_html :: "string \<Rightarrow> html_event list"
  sc_json :: "string \<Rightarrow> (int \<times> string) option"

definition json_findings :: "scan_tools \<Rightarrow> string \<Rightarrow> finding list" where
  "json_findings t source =
     (case sc_json t source of None \<Rightarrow> [] | Some (n, m) \<Rightarrow> [(n, ''not plain JSON: '' @ m)])"

text \<open>\<open>Path.name\<close> and \<open>Path.suffix\<close> of a relative path with slashes.\<close>

definition path_name :: "string \<Rightarrow> string" where
  "path_name path = rev (takeWhile (\<lambda>c. c \<noteq> CHR ''/'') (rev path))"

definition path_suffix :: "string \<Rightarrow> string" where
  "path_suffix path =
     (let name = path_name path; ending = rev (takeWhile (\<lambda>c. c \<noteq> CHR ''.'') (rev name))
      in if ending = [] \<or> length name \<le> length ending + 1 then [] else CHR ''.'' # ending)"

definition script_suffixes :: "string list" where
  "script_suffixes = [''.ts'', ''.tsx'', ''.js'', ''.mjs'', ''.cjs'']"

definition no_comment_syntax :: "string list" where
  "no_comment_syntax = [''.md'', ''.pdf'', ''.woff2'', ''.cdb'', ''.txt'']"

definition is_ignore_file :: "string \<Rightarrow> bool" where
  "is_ignore_file path \<longleftrightarrow> path_name path \<in> {''.gitignore'', ''.dockerignore'', ''.gitattributes''}
     \<or> ends_with (path_name path) ''.dockerignore''"

text \<open>A text handed to the script scanner: its name, the file it reports, the text and its line offset.\<close>

record script =
  sp_name :: string
  sp_file :: string
  sp_text :: string
  sp_offset :: int

text \<open>The findings of an HTML file are followed by the names of its inline scripts.\<close>

definition inline_scripts :: "string \<Rightarrow> finding list \<Rightarrow> script list" where
  "inline_scripts name inline =
     map (\<lambda>(k, (n, d)). \<lparr>sp_name = name @ ''.inline-'' @ dec k @ ''.ts'', sp_file = name, sp_text = d,
         sp_offset = n - 1\<rparr>)
       (zip (map int [0..<length inline]) inline)"

definition config_findings :: "scan_tools \<Rightarrow> string \<Rightarrow> string \<Rightarrow> finding list option" where
  "config_findings t path source =
     (let suffix = path_suffix path in
      if suffix = ''.css'' then Some (css_findings source 1)
      else if suffix = ''.yml'' \<or> suffix = ''.yaml'' then Some (yaml_findings source)
      else if suffix = ''.toml'' then Some (toml_findings source)
      else if suffix = ''.json'' then Some (json_findings t source)
      else if suffix = ''.ini'' then Some (line_start_findings source [''#'', '';''])
      else if suffix = ''.conf'' \<or> is_ignore_file path then Some (line_start_findings source [''#''])
      else if path_name path = ''Dockerfile'' then Some (dockerfile_findings source)
      else if starts_with (path_name path) ''.env'' then Some (env_findings source)
      else None)"

text \<open>\<open>content\<close> is the text of the file, or what reading it raises.\<close>

definition scan_file :: "scan_tools \<Rightarrow> string \<Rightarrow> scan_fault + string \<Rightarrow> scan_fault + finding list \<times> script list" where
  "scan_file t path content =
     (let name = path_name path; suffix = path_suffix path in
      if name = ''constraints.txt'' then then_do content (\<lambda>s. Inr (env_findings s, []))
      else if name = ''LICENSE'' \<or> suffix \<in> set no_comment_syntax then Inr ([], [])
      else then_do content (\<lambda>s.
        if suffix \<in> set script_suffixes
        then Inr ([], [\<lparr>sp_name = path, sp_file = path, sp_text = s, sp_offset = 0\<rparr>])
        else if suffix = ''.py'' then then_do (python_findings (sc_python t) s 0) (\<lambda>fs. Inr (fs, []))
        else if suffix = ''.mako'' then then_do (mako_findings (sc_python t) s) (\<lambda>fs. Inr (fs, []))
        else case config_findings t path s of
          Some fs \<Rightarrow> Inr (fs, [])
        | None \<Rightarrow>
            if suffix = ''.html''
            then (case html_findings (sc_html t s) of (fs, inline) \<Rightarrow> Inr (fs, inline_scripts path inline))
            else Inr ([(0, ''no comment tokenizer for this file type'')], [])))"

section \<open>The guard\<close>

record allowed =
  al_file :: string
  al_text :: string
  al_reason :: "string option"

definition allows :: "string \<times> finding \<Rightarrow> allowed \<Rightarrow> bool" where
  "allows f a \<longleftrightarrow> al_file a = fst f \<and> al_text a = snd (snd f)"

text \<open>The index of the first entry that allows a finding.\<close>

fun first_match :: "string \<times> finding \<Rightarrow> nat \<Rightarrow> allowed list \<Rightarrow> nat option" where
  "first_match f i [] = None"
| "first_match f i (a # as) = (if allows f a then Some i else first_match f (i + 1) as)"

text \<open>
  The files in their order; a fault that is not \<open>Malformed\<close> ends the run. The script scanner \<open>node\<close> is
  None when it fails.
\<close>

fun scan_files ::
    "scan_tools \<Rightarrow> (string \<times> (scan_fault + string)) list \<Rightarrow> ((string \<times> finding) list \<times> script list) option" where
  "scan_files t [] = Some ([], [])"
| "scan_files t ((name, content) # files) =
     (case scan_file t name content of
        Inl Escaping \<Rightarrow> None
      | Inl (Malformed m) \<Rightarrow>
          map_option (\<lambda>(fs, ss). ((name, 0, ''could not tokenize: '' @ m) # fs, ss)) (scan_files t files)
      | Inr (found, scripts) \<Rightarrow>
          map_option (\<lambda>(fs, ss). (map (Pair name) found @ fs, scripts @ ss)) (scan_files t files))"

definition all_findings ::
    "scan_tools \<Rightarrow> (script list \<Rightarrow> (string \<times> finding) list option) \<Rightarrow> (string \<times> (scan_fault + string)) list
       \<Rightarrow> (string \<times> finding) list option" where
  "all_findings t node files =
     (case scan_files t files of None \<Rightarrow> None | Some (fs, ss) \<Rightarrow> map_option ((@) fs) (node ss))"

record guard_result =
  gr_reported :: "(string \<times> finding) list"
  gr_stale :: "allowed list"
  gr_unexplained :: "allowed list"

definition compare_findings :: "allowed list \<Rightarrow> (string \<times> finding) list \<Rightarrow> guard_result" where
  "compare_findings as fs =
     (let used = map (\<lambda>f. first_match f 0 as) fs in
      \<lparr>gr_reported = filter (\<lambda>f. first_match f 0 as = None) fs,
       gr_stale = map fst (filter (\<lambda>(a, i). Some i \<notin> set used) (zip as [0..<length as])),
       gr_unexplained = filter (\<lambda>a. \<not> truthy (al_reason a)) as\<rparr>)"

definition exit_code :: "guard_result \<Rightarrow> int" where
  "exit_code r = (if gr_reported r \<noteq> [] \<or> gr_stale r \<noteq> [] \<or> gr_unexplained r \<noteq> [] then 1 else 0)"

text \<open>The exit code; None when an exception ends the run.\<close>

definition guard_main ::
    "scan_tools \<Rightarrow> (script list \<Rightarrow> (string \<times> finding) list option) \<Rightarrow> allowed list
       \<Rightarrow> (string \<times> (scan_fault + string)) list \<Rightarrow> int option" where
  "guard_main t node as files =
     map_option (\<lambda>fs. exit_code (compare_findings as fs)) (all_findings t node files)"

end
