(* ===== verification/CommentsProofs.thy ===== *)
theory CommentsProofs
  imports Comments
begin

text \<open>
  What the guard reports are comments of the file: each stands on the line it is reported for, and in
  text without quotes the shell scanner finds exactly the first comment of every line. The guard passes
  exactly when every finding is allowed and every entry of the allowlist is needed and explained.
\<close>

section \<open>Lines\<close>

lemma split_lines_not_Nil [simp]: "split_lines s \<noteq> []"
  by (induction s) (auto split: list.splits)

lemma split_lines_step: "c \<noteq> nl \<Longrightarrow> split_lines (c # cs) = (c # hd (split_lines cs)) # tl (split_lines cs)"
  using split_lines_not_Nil [of cs] by (cases "split_lines cs") auto

lemma split_lines_first: "hd (split_lines s) = rest_of_line s"
  by (induction s) (auto simp: rest_of_line_def split: list.splits)

lemma split_lines_length: "length (split_lines s) = Suc (newlines s)"
  by (induction s) (auto simp: newlines_def split: list.splits)

lemma ends_with_longer:
  assumes "ends_with l t"
  shows "ends_with (c # l) t"
proof -
  have t: "take (length t) (rev l) = rev t" using assms by (simp add: ends_with_def starts_with_def)
  then have "length (take (length t) (rev l)) = length (rev t)" by (rule arg_cong)
  then have "length t \<le> length l" by simp
  with t show ?thesis by (simp add: ends_with_def starts_with_def)
qed

text \<open>The text from a position to the end of its line ends that line.\<close>

lemma line_at:
  "ends_with (split_lines (past @ s) ! newlines past) (rest_of_line s)"
proof (induction past)
  case Nil
  have "split_lines s ! 0 = rest_of_line s"
    using split_lines_first [of s] split_lines_not_Nil [of s] by (simp add: hd_conv_nth)
  then show ?case by (simp add: newlines_def ends_with_def starts_with_def)
next
  case (Cons c d)
  show ?case
  proof (cases "c = nl")
    case True
    with Cons show ?thesis by (simp add: newlines_def)
  next
    case False
    then have "split_lines ((c # d) @ s) = (c # hd (split_lines (d @ s))) # tl (split_lines (d @ s))"
      by (simp add: split_lines_step del: split_lines.simps)
    moreover have "newlines (c # d) = newlines d" using False by (simp add: newlines_def)
    moreover obtain l ls where "split_lines (d @ s) = l # ls"
      using split_lines_not_Nil [of "d @ s"] by (cases "split_lines (d @ s)") auto
    ultimately show ?thesis using Cons ends_with_longer by (cases "newlines d") simp_all
  qed
qed

definition stands_in :: "string \<Rightarrow> int \<Rightarrow> finding \<Rightarrow> bool" where
  "stands_in text first_line f \<longleftrightarrow> (case f of (n, t) \<Rightarrow> first_line \<le> n
     \<and> nat (n - first_line) < length (split_lines text)
     \<and> ends_with (split_lines text ! nat (n - first_line)) t \<and> starts_with t ''#'' \<and> nl \<notin> set t)"

lemma stands_at:
  assumes "n = first_line + int (newlines past)" and "c = CHR ''#''"
  shows "stands_in (past @ c # cs) first_line (n, rest_of_line (c # cs))"
  using line_at [of past "c # cs"] assms
  by (auto simp: stands_in_def split_lines_length newlines_def rest_of_line_def starts_with_def dest: set_takeWhileD)

lemma newlines_simps [simp]:
  "newlines [] = 0" "newlines (c # s) = (if c = nl then Suc (newlines s) else newlines s)"
  "newlines (s @ t) = newlines s + newlines t"
  by (simp_all add: newlines_def)

lemma newlines_rest [simp]: "newlines (rest_of_line s) = 0"
  by (auto simp: newlines_def rest_of_line_def filter_empty_conv dest: set_takeWhileD)

lemma rest_after: "s = rest_of_line s @ after_line s"
  by (simp add: rest_of_line_def after_line_def)

section \<open>Shell text\<close>

lemma shell_scan_stands:
  assumes "text = past @ s" and "line = first_line + int (newlines past)"
  shows "list_all (stands_in text first_line) (shell_scan before quote line s)"
  using assms
proof (induction before quote line s arbitrary: past rule: shell_scan.induct)
  case (1 before quote line)
  then show ?case by simp
next
  case (2 before quote line c cs)
  have next_char: "text = (past @ [c]) @ cs" using 2 by simp
  consider (newline) "c = nl" | (escape) "c \<noteq> nl" "c = backslash" "quote \<noteq> Some single_quote"
    | (quoted) q where "c \<noteq> nl" "\<not> (c = backslash \<and> quote \<noteq> Some single_quote)" "quote = Some q"
    | (plain) "c \<noteq> nl" "c \<noteq> backslash" "quote = None" by (cases quote) auto
  then show ?case
  proof cases
    case newline
    then have "list_all (stands_in text first_line) (shell_scan (Some c) quote (line + 1) cs)"
      using 2 by (intro "2.IH"(1) [OF _ next_char]) simp_all
    with newline show ?thesis by simp
  next
    case escape
    show ?thesis
    proof (cases cs)
      case (Cons d ds)
      have "list_all (stands_in text first_line) (shell_scan (Some d) quote (if d = nl then line + 1 else line) ds)"
        using 2 escape Cons by (intro "2.IH"(2) [where past = "past @ [c, d]"]) auto
      with escape Cons show ?thesis by simp
    qed (use escape in simp)
  next
    case quoted
    then have "list_all (stands_in text first_line) (shell_scan (Some c) (if c = q then None else quote) line cs)"
      using 2 by (intro "2.IH"(6) [where past = "past @ [c]"]) simp_all
    with quoted show ?thesis by auto
  next
    case plain
    let ?comment = "c = CHR ''#'' \<and> (case before of None \<Rightarrow> True | Some b \<Rightarrow> b \<in> set (shell_word_breaks @ [nl]))"
    show ?thesis
    proof (cases "is_quote c \<or> \<not> ?comment")
      case True
      show ?thesis
      proof (cases "is_quote c")
        case True
        then have "list_all (stands_in text first_line) (shell_scan (Some c) (Some c) line cs)"
          using 2 plain by (intro "2.IH"(3) [where past = "past @ [c]"]) simp_all
        with True plain show ?thesis by simp
      next
        case False
        then have "list_all (stands_in text first_line) (shell_scan (Some c) None line cs)"
          using 2 plain \<open>is_quote c \<or> \<not> ?comment\<close> by (intro "2.IH"(5) [where past = "past @ [c]"]) simp_all
        with False plain \<open>is_quote c \<or> \<not> ?comment\<close> show ?thesis by auto
      qed
    next
      case False
      then have hash: "c = CHR ''#''" "\<not> is_quote c" and brk: ?comment by simp_all
      have "text = (past @ c # rest_of_line cs) @ after_line cs" using 2 rest_after [of cs] by simp
      then have "list_all (stands_in text first_line) (shell_scan (Some c) None line (after_line cs))"
        using 2 plain hash brk
        by (intro "2.IH"(4) [where past = "past @ c # rest_of_line cs"]) simp_all
      moreover have "stands_in text first_line (line, rest_of_line (c # cs))"
        using stands_at [OF _ hash(1), of line first_line past cs] 2 by simp
      ultimately show ?thesis using plain hash brk by simp
    qed
  qed
qed

text \<open>Every shell finding is a comment: it starts with a hash and ends the line it is reported for.\<close>

lemma shell_findings_stand: "list_all (stands_in text first_line) (shell_findings text first_line)"
  unfolding shell_findings_def by (rule shell_scan_stands [where past = "[]"]) simp_all

section \<open>YAML lines\<close>

text \<open>A column that is found is that of a hash at the start of the line or after a blank.\<close>

definition comment_at :: "nat \<Rightarrow> string \<Rightarrow> bool" where
  "comment_at k line \<longleftrightarrow> k < length line \<and> line ! k = CHR ''#''
     \<and> (k = 0 \<or> line ! (k - 1) = CHR '' '' \<or> line ! (k - 1) = tab)"

lemma yaml_scan_column:
  assumes "yaml_scan index spaced st s = Some k" and "index = length past"
    and "spaced \<longrightarrow> past = [] \<or> last past = CHR '' '' \<or> last past = tab"
  shows "comment_at k (past @ s)"
  using assms
proof (induction index spaced st s arbitrary: past rule: yaml_scan.induct)
  case (1 index spaced st)
  then show ?case by simp
next
  case (2 index spaced st c cs)
  show ?case
  proof (cases "fst st = None \<and> c = CHR ''#'' \<and> spaced")
    case True
    then have "k = length past" using 2 by simp
    with True 2 show ?thesis by (cases past rule: rev_cases) (auto simp: comment_at_def nth_append)
  next
    case False
    obtain more st' where step: "yaml_step st c cs = (more, st')" by (cases "yaml_step st c cs")
    let ?d = "(c # cs) ! min more (length cs)"
    have scan: "yaml_scan (index + 1 + more) (?d = CHR '' '' \<or> ?d = tab) st' (drop more cs) = Some k"
      using "2.prems"(1) unfolding yaml_scan.simps if_not_P [OF False] step prod.case Let_def .
    show ?thesis
    proof (cases "more \<le> length cs")
      case True
      let ?past = "past @ take (Suc more) (c # cs)"
      have past: "last ?past = ?d" using True by (simp add: last_conv_nth nth_append min_def nth_Cons')
      have "comment_at k (?past @ drop more cs)"
        by (rule "2.IH" [OF False step [symmetric] refl scan]) (use True 2 past in simp_all)
      then show ?thesis by simp
    next
      case False
      with scan show ?thesis by simp
    qed
  qed
qed

lemma yaml_column_comment: "yaml_comment_column line = Some k \<Longrightarrow> comment_at k line"
  using yaml_scan_column [of 0 True "(None, True, 0)" line k "[]"] by (simp add: yaml_comment_column_def)

section \<open>The verdict of the guard\<close>

definition finding_key :: "string \<times> finding \<Rightarrow> string \<times> string" where
  "finding_key f = (fst f, snd (snd f))"

definition entry_key :: "allowed \<Rightarrow> string \<times> string" where
  "entry_key a = (al_file a, al_text a)"

lemma allows_key: "allows f a \<longleftrightarrow> finding_key f = entry_key a"
  by (auto simp: allows_def finding_key_def entry_key_def)

lemma first_match_None: "first_match f i as = None \<longleftrightarrow> finding_key f \<notin> set (map entry_key as)"
  by (induction f i as rule: first_match.induct) (auto simp: allows_key)

lemma first_match_Some:
  "first_match f i as = Some j \<longleftrightarrow> i \<le> j \<and> j - i < length as \<and> finding_key f = entry_key (as ! (j - i))
     \<and> finding_key f \<notin> set (map entry_key (take (j - i) as))"
proof (induction f i as rule: first_match.induct)
  case (1 f i)
  then show ?case by simp
next
  case (2 f i a as)
  show ?case
  proof (cases "i < j")
    case True
    then have "j - i = Suc (j - (i + 1))" by simp
    with 2 True show ?thesis by (auto simp: allows_key)
  next
    case False
    with 2 show ?thesis by (cases "i = j") (auto simp: allows_key)
  qed
qed

lemma used_entry:
  "first_match f 0 as = Some j \<longleftrightarrow> j < length as \<and> finding_key f = map entry_key as ! j
     \<and> finding_key f \<notin> set (take j (map entry_key as))"
  by (auto simp: first_match_Some take_map)

lemma distinct_first: "distinct xs \<longleftrightarrow> (\<forall>j<length xs. xs ! j \<notin> set (take j xs))"
  by (auto simp: distinct_conv_nth in_set_conv_nth) (metis nat_neq_iff)

lemma nothing_stale:
  "gr_stale (compare_findings as fs) = []
     \<longleftrightarrow> distinct (map entry_key as) \<and> set (map entry_key as) \<subseteq> set (map finding_key fs)"
proof -
  have "gr_stale (compare_findings as fs) = []
      \<longleftrightarrow> (\<forall>j<length as. \<exists>f\<in>set fs. first_match f 0 as = Some j)"
    by (auto simp: compare_findings_def Let_def filter_empty_conv set_zip image_iff) (metis add_0 nth_upt minus_nat.diff_0)+
  also have "\<dots> \<longleftrightarrow> (\<forall>j<length as. map entry_key as ! j \<in> set (map finding_key fs)
      \<and> map entry_key as ! j \<notin> set (take j (map entry_key as)))"
    by (simp add: used_entry image_iff) metis
  also have "\<dots> \<longleftrightarrow> distinct (map entry_key as) \<and> set (map entry_key as) \<subseteq> set (map finding_key fs)"
    unfolding distinct_first subset_iff using in_set_conv_nth [of _ "map entry_key as"] by (metis length_map)
  finally show ?thesis .
qed

lemma nothing_reported:
  "gr_reported (compare_findings as fs) = [] \<longleftrightarrow> set (map finding_key fs) \<subseteq> set (map entry_key as)"
  by (auto simp: compare_findings_def Let_def filter_empty_conv first_match_None)

lemma nothing_unexplained:
  "gr_unexplained (compare_findings as fs) = [] \<longleftrightarrow> list_all (\<lambda>a. truthy (al_reason a)) as"
  by (auto simp: compare_findings_def Let_def filter_empty_conv list_all_iff)

text \<open>C40: The comment guard succeeds exactly when it can read every file and the allowlist and the findings
  name the same comments of the same files, each entry of the allowlist once and with a reason.\<close>

theorem guard_verdict:
  "guard_main t node as files = Some 0
     \<longleftrightarrow> (case all_findings t node files of
            None \<Rightarrow> False
          | Some fs \<Rightarrow> set (map finding_key fs) = set (map entry_key as)
              \<and> distinct (map entry_key as) \<and> list_all (\<lambda>a. truthy (al_reason a)) as)"
proof (cases "all_findings t node files")
  case None
  then show ?thesis by (simp add: guard_main_def)
next
  case (Some fs)
  let ?r = "compare_findings as fs"
  have "guard_main t node as files = Some 0
      \<longleftrightarrow> gr_reported ?r = [] \<and> gr_stale ?r = [] \<and> gr_unexplained ?r = []"
    using Some by (simp add: guard_main_def exit_code_def)
  also have "\<dots> \<longleftrightarrow> set (map finding_key fs) = set (map entry_key as)
      \<and> distinct (map entry_key as) \<and> list_all (\<lambda>a. truthy (al_reason a)) as"
    unfolding nothing_stale nothing_reported nothing_unexplained by blast
  finally show ?thesis using Some by simp
qed

text \<open>
  A file that ends within a token stops the guard before it reports anything: \<open>TokenError\<close> is neither a
  \<open>SyntaxError\<close> nor a \<open>ValueError\<close>.
\<close>

lemma escaping_fault_stops:
  "(name, content) \<in> set files \<Longrightarrow> scan_file t name content = Inl Escaping \<Longrightarrow> scan_files t files = None"
  by (induction t files rule: scan_files.induct) (auto split: sum.splits scan_fault.splits)

lemma unfinished_source_stops:
  assumes "(name, Inr source) \<in> set files" and "path_name name \<noteq> ''constraints.txt''"
    and "path_name name \<noteq> ''LICENSE''" and "path_suffix name = ''.py''"
    and "py_comments (sc_python t) source = Inl Escaping"
  shows "guard_main t node as files = None"
proof -
  have "scan_file t name (Inr source) = Inl Escaping"
    using assms by (simp add: scan_file_def Let_def python_findings_def no_comment_syntax_def script_suffixes_def)
  with assms(1) have "scan_files t files = None" by (rule escaping_fault_stops)
  then show ?thesis by (simp add: guard_main_def all_findings_def)
qed

section \<open>Template lines\<close>

text \<open>
  The lines of an expression that spans several are not counted: the comment on the third line of this
  template is reported on its second.
\<close>

lemma template_line_drift:
  "mako_scan p 1 True (''${a'' @ [nl] @ ''}'' @ [nl] @ ''##x'') = Inr ([(2, ''##x'')], ''_'' @ [nl])
   \<and> split_lines (''${a'' @ [nl] @ ''}'' @ [nl] @ ''##x'') = [''${a'', ''}'', ''##x'']"
  by code_simp

end
