(* ===== verification/Dockets.thy ===== *)
theory Dockets
  imports Publication
begin

text \<open>
  The public record of the cases (\<open>api/cases.py\<close>, \<open>services/search_service.py\<close>): the search of
  unsealed cases, the record of one case, and its docket with the filings and the documents or public
  copies a visitor may see. The judge of a case and the creation time of its row are not modelled
  columns; the participants of a case are in the order of the table, as the query asks for none.
\<close>

section \<open>Responses (schemas/case.py, schemas/filing.py)\<close>

record party_view =
  pv_id :: int
  pv_name :: string
  pv_role :: participant_role
  pv_bar_number :: "string option"
  pv_represents :: "string option"
  pv_active :: bool

record case_record =
  cr_id :: int
  cr_court :: int
  cr_number :: string
  cr_case_type :: int
  cr_title :: string
  cr_sealed :: bool
  cr_status :: case_status
  cr_filed_date :: datetime
  cr_filing_date :: "date option"
  cr_parties :: "party_view list"

record docket_record = case_record +
  cr_can_manage :: bool
  cr_can_file :: bool

record search_result = case_record +
  sr_court_name :: string
  sr_court_county :: string

definition party_of :: "participant \<Rightarrow> party_view" where
  "party_of p = \<lparr>pv_id = pt_id p, pv_name = pt_name p, pv_role = pt_role p, pv_bar_number = pt_bar_number p,
     pv_represents = pt_represents p, pv_active = pt_active p\<rparr>"

definition case_record_of :: "db \<Rightarrow> case_row \<Rightarrow> case_record" where
  "case_record_of db c =
     \<lparr>cr_id = cs_id c, cr_court = cs_court c, cr_number = cs_number c, cr_case_type = cs_case_type c,
      cr_title = cs_title c, cr_sealed = cs_sealed c, cr_status = cs_status c,
      cr_filed_date = cs_filed_date c, cr_filing_date = cs_filing_date c,
      cr_parties = map party_of (filter (\<lambda>p. pt_case p = cs_id c) (participants db))\<rparr>"

section \<open>Searching cases\<close>

record case_search =
  se_number :: "string option"
  se_party :: "string option"
  se_bar_number :: "string option"
  se_court :: "int option"
  se_status :: "case_status option"

text \<open>\<open>icontains\<close> with \<open>autoescape\<close>: the text occurs literally, letters without case.\<close>

definition icontains :: "string \<Rightarrow> string \<Rightarrow> bool" where
  "icontains s p \<longleftrightarrow> contains (str_lower s) (str_lower p)"

definition search_matches :: "db \<Rightarrow> case_search \<Rightarrow> case_row \<Rightarrow> bool" where
  "search_matches db q c \<longleftrightarrow> \<not> cs_sealed c
     \<and> (truthy (se_number q) \<longrightarrow> icontains (cs_number c) (the (se_number q)))
     \<and> (truthy (se_party q) \<longrightarrow> (\<exists>p \<in> set (participants db). pt_case p = cs_id c
          \<and> icontains (pt_name p) (the (se_party q))))
     \<and> (truthy (se_bar_number q) \<longrightarrow> (\<exists>p \<in> set (participants db). pt_case p = cs_id c
          \<and> pt_bar_number p = se_bar_number q))
     \<and> (se_court q \<noteq> None \<longrightarrow> se_court q = Some (cs_court c))
     \<and> (se_status q \<noteq> None \<longrightarrow> se_status q = Some (cs_status c))"

text \<open>Newest first, by the date filed and then the id.\<close>

definition newest_cases :: "case_row list \<Rightarrow> case_row list" where
  "newest_cases cs = rev (sort_key cs_filed_date (sort_key cs_id cs))"

definition find_cases :: "db \<Rightarrow> case_search \<Rightarrow> nat \<Rightarrow> nat \<Rightarrow> case_row list \<times> nat" where
  "find_cases db q pg sz =
     (let rows = filter (search_matches db q) (cases db)
      in if rows = [] then ([], 0) else (page_of pg sz (newest_cases rows), length rows))"

text \<open>The court of a case exists, as its column is a foreign key.\<close>

definition search_result_of :: "db \<Rightarrow> case_row \<Rightarrow> search_result" where
  "search_result_of db c =
     (let court = the (row_at ct_id (cs_court c) (courts db))
      in case_record.extend (case_record_of db c)
           \<lparr>sr_court_name = ct_name court, sr_court_county = ct_county court\<rparr>)"

record search_page =
  sp_cases :: "search_result list"
  sp_total :: nat
  sp_page :: nat
  sp_size :: nat

definition search_cases :: "db \<Rightarrow> case_search \<Rightarrow> nat \<Rightarrow> nat \<Rightarrow> search_page" where
  "search_cases db q pg sz =
     (let (cs, total) = find_cases db q pg sz
      in \<lparr>sp_cases = map (search_result_of db) cs, sp_total = total, sp_page = pg, sp_size = sz\<rparr>)"

section \<open>The record of a case\<close>

definition get_case :: "db \<Rightarrow> user option \<Rightarrow> int \<Rightarrow> failure + docket_record" where
  "get_case db user cid =
     (case row_at cs_id cid (cases db) of
        None \<Rightarrow> Inl (Http 404 (Destination Case_not_found))
      | Some c \<Rightarrow>
          if \<not> may_read_case db user cid then Inl (Http 403 (Account Case_not_readable))
          else Inr (case_record.extend (case_record_of db c)
            \<lparr>cr_can_manage = is_court_staff db (map_option us_id user) (cs_court c),
             cr_can_file = (case user of None \<Rightarrow> False | Some u \<Rightarrow> has_filing_grant db u cid)\<rparr>))"

section \<open>The docket\<close>

text \<open>A document is shown itself or by its public copy under the document's id.\<close>

datatype shown = Original document | PublicCopyOf document public_copy

record docket_entry =
  dk_id :: int
  dk_status :: filing_status
  dk_title :: "string option"
  dk_description :: "string option"
  dk_submitted_at :: "datetime option"
  dk_reviewed_at :: "datetime option"
  dk_reason :: "string option"
  dk_documents :: "shown list"
  dk_created_at :: datetime
  dk_filing_date :: "date option"

definition visible_filing :: "db \<Rightarrow> int option \<Rightarrow> envelope \<Rightarrow> bool" where
  "visible_filing db uid f \<longleftrightarrow> fe_status f = Accepted
     \<or> (case uid of None \<Rightarrow> False | Some u \<Rightarrow> fe_filer f = u \<or> is_court_staff db (Some u) (fe_court f))"

text \<open>The column the docket is ordered by: \<open>coalesce\<close> of the filing date, the receipt and the
  creation. A date compares with an instant as the midnight that starts it.\<close>

definition midnight :: "date \<Rightarrow> datetime" where
  "midnight d = (d - 719163) * 86400000000"

definition docket_time :: "envelope \<Rightarrow> datetime" where
  "docket_time f = (case fe_filing_date f of
       Some d \<Rightarrow> midnight d
     | None \<Rightarrow> (case fe_submitted_at f of Some t \<Rightarrow> t | None \<Rightarrow> fe_created_at f))"

definition docket_filings :: "db \<Rightarrow> int option \<Rightarrow> int \<Rightarrow> envelope list" where
  "docket_filings db uid cid = rev (sort_key docket_time (sort_key fe_id
     (filter (\<lambda>f. fe_case f = Some cid \<and> visible_filing db uid f) (filings db))))"

definition docket_documents :: "db \<Rightarrow> int \<Rightarrow> document list" where
  "docket_documents db fid = sort_key dc_id (filter (\<lambda>d. dc_envelope d = fid \<and> dc_removed_at d = None
     \<and> dc_type d \<noteq> ''FEE_WAIVER_ORDER'') (documents db))"

definition shown_as :: "db \<Rightarrow> bool \<Rightarrow> document \<Rightarrow> shown option" where
  "shown_as db inside d =
     (if inside then Some (Original d)
      else if dc_type d \<in> set private_document_types then None
      else case Option.bind (dc_public_copy d) (\<lambda>c. row_at pc_id c (public_copies db)) of
        Some c \<Rightarrow> if pc_document c = dc_id d then Some (PublicCopyOf d c)
                  else if dc_confidential d then None else Some (Original d)
      | None \<Rightarrow> if dc_confidential d then None else Some (Original d))"

definition docket_entry_of :: "db \<Rightarrow> int option \<Rightarrow> bool \<Rightarrow> envelope \<Rightarrow> docket_entry" where
  "docket_entry_of db uid staff f =
     \<lparr>dk_id = fe_id f, dk_status = fe_status f, dk_title = fe_title f, dk_description = fe_description f,
      dk_submitted_at = fe_submitted_at f, dk_reviewed_at = fe_reviewed_at f,
      dk_reason = fe_rejection_reason f,
      dk_documents = List.map_filter (shown_as db (staff \<or> Some (fe_filer f) = uid)) (docket_documents db (fe_id f)),
      dk_created_at = fe_created_at f, dk_filing_date = fe_filing_date f\<rparr>"

definition get_case_filings ::
    "db \<Rightarrow> user option \<Rightarrow> int \<Rightarrow> nat \<Rightarrow> nat \<Rightarrow> failure + docket_entry list" where
  "get_case_filings db user cid pg sz =
     (let uid = map_option us_id user in
      case row_at cs_id cid (cases db) of
        None \<Rightarrow> Inl (Http 404 (Destination Case_not_found))
      | Some c \<Rightarrow>
          if \<not> may_read_case db user cid then Inl (Http 403 (Account Case_not_readable))
          else Inr (map (docket_entry_of db uid (is_court_staff db uid (cs_court c)))
            (page_of pg sz (docket_filings db uid cid))))"

section \<open>Pages\<close>

lemma pages_take: "concat (map (\<lambda>p. page_of p sz rows) [1..<Suc n]) = take (n * sz) rows"
proof (induction n)
  case (Suc n)
  have "concat (map (\<lambda>p. page_of p sz rows) [1..<Suc (Suc n)]) = take (n * sz) rows @ page_of (Suc n) sz rows"
    using Suc by (simp del: upt_Suc add: upt_Suc_append)
  also have "\<dots> = take (Suc n * sz) rows" by (simp add: page_of_def take_add add.commute [of sz])
  finally show ?case .
qed simp

lemma pages_cover: "length rows \<le> n * sz \<Longrightarrow> concat (map (\<lambda>p. page_of p sz rows) [1..<Suc n]) = rows"
  unfolding pages_take by simp

section \<open>What a search gives\<close>

lemma set_newest_cases [simp]: "set (newest_cases cs) = set cs" "length (newest_cases cs) = length cs"
  by (simp_all add: newest_cases_def)

lemma find_cases_eq:
  "find_cases db q pg sz = (page_of pg sz (newest_cases (filter (search_matches db q) (cases db))),
     length (filter (search_matches db q) (cases db)))"
  by (simp add: find_cases_def Let_def page_of_def newest_cases_def)

lemma search_cases_eq:
  "search_cases db q pg sz =
     \<lparr>sp_cases = page_of pg sz (map (search_result_of db) (newest_cases (filter (search_matches db q) (cases db)))),
      sp_total = length (filter (search_matches db q) (cases db)), sp_page = pg, sp_size = sz\<rparr>"
  by (simp add: search_cases_def find_cases_eq page_of_def take_map drop_map)

lemma search_unsealed: "search_matches db q c \<Longrightarrow> c \<in> set (cases db) \<Longrightarrow> may_read_case db None (cs_id c)"
  by (auto simp: search_matches_def may_read_case_def case_visible_def)

lemma search_result_simps [simp]:
  "cr_id (search_result_of db c) = cs_id c" "cr_sealed (search_result_of db c) = cs_sealed c"
  by (simp_all add: search_result_of_def case_record_of_def case_record.defs Let_def)

text \<open>The pages of a search of the court records are together every unsealed case that meets the
  criteria, newest first, each exactly once, and the total is their number; so a search never shows a
  sealed case, and every case it shows can be read without an account.\<close>

theorem search_finds_public_cases:
  assumes "length (filter (search_matches db q) (cases db)) \<le> n * sz"
  shows "concat (map (\<lambda>pg. sp_cases (search_cases db q pg sz)) [1..<Suc n])
      = map (search_result_of db) (newest_cases (filter (search_matches db q) (cases db)))
    \<and> sp_total (search_cases db q pg sz) = length (filter (search_matches db q) (cases db))
    \<and> sorted (map (\<lambda>c. - cs_filed_date c) (newest_cases (filter (search_matches db q) (cases db))))
    \<and> (\<forall>r \<in> set (sp_cases (search_cases db q pg sz)). \<not> cr_sealed r \<and> may_read_case db None (cr_id r))"
proof (intro conjI)
  let ?rows = "filter (search_matches db q) (cases db)"
  show "concat (map (\<lambda>pg. sp_cases (search_cases db q pg sz)) [1..<Suc n]) = map (search_result_of db) (newest_cases ?rows)"
    using pages_cover [of "map (search_result_of db) (newest_cases ?rows)" n sz] assms
    by (simp only: search_cases_eq search_page.simps set_newest_cases length_map)
  show "sp_total (search_cases db q pg sz) = length ?rows" by (simp add: search_cases_eq)
  have "sorted (map cs_filed_date (rev (newest_cases ?rows)))" by (simp add: newest_cases_def)
  then show "sorted (map (\<lambda>c. - cs_filed_date c) (newest_cases ?rows))"
    by (simp add: sorted_iff_nth_mono sorted_wrt_rev sorted_wrt_map rev_map)
  show "\<forall>r \<in> set (sp_cases (search_cases db q pg sz)). \<not> cr_sealed r \<and> may_read_case db None (cr_id r)"
  proof
    fix r assume "r \<in> set (sp_cases (search_cases db q pg sz))"
    then obtain c where "r = search_result_of db c" "c \<in> set ?rows"
      by (auto simp: search_cases_eq page_of_def dest!: in_set_takeD in_set_dropD)
    then show "\<not> cr_sealed r \<and> may_read_case db None (cr_id r)"
      using search_unsealed by (auto simp: search_matches_def)
  qed
qed

section \<open>What a docket shows\<close>

text \<open>Filings are at the court of their case.\<close>

definition courts_agree :: "db \<Rightarrow> bool" where
  "courts_agree db \<longleftrightarrow> (\<forall>f \<in> set (filings db). case fe_case f of None \<Rightarrow> True
     | Some cid \<Rightarrow> (case row_at cs_id cid (cases db) of None \<Rightarrow> True | Some c \<Rightarrow> fe_court f = cs_court c))"

lemma courts_agreeD:
  "courts_agree db \<Longrightarrow> f \<in> set (filings db) \<Longrightarrow> fe_case f = Some cid \<Longrightarrow> row_at cs_id cid (cases db) = Some c
     \<Longrightarrow> fe_court f = cs_court c"
  by (auto simp: courts_agree_def dest!: bspec)

lemma map_filter_set: "y \<in> set (List.map_filter f xs) \<longleftrightarrow> (\<exists>x \<in> set xs. f x = Some y)"
  by (induction xs) (auto simp: List.map_filter_simps split: option.splits)

lemma visible_filing_readable:
  assumes "visible_filing db (map_option us_id user) f" and "fe_case f = Some cid"
    and "row_at cs_id cid (cases db) = Some c" and "may_read_case db user cid" and "unique_key cs_id (cases db)"
  shows "may_read_filing_envelope db user f"
proof -
  from assms(4) obtain c' where c': "c' \<in> set (cases db)" "cs_id c' = cid" "case_visible db user c'"
    by (auto simp: may_read_case_def)
  with row_at_unique [OF assms(5) c'(1)] assms(3) have "c' = c" by simp
  with c' have vis: "c \<in> set (cases db)" "cs_id c = cid" "case_visible db user c" by simp_all
  have "may_read_sealed_case db user cid" if "cs_sealed c"
  proof -
    have "user \<noteq> None" using that vis(3) by (cases user) (simp_all add: case_visible_def)
    with vis that show ?thesis unfolding may_read_sealed_case_def by blast
  qed
  with assms(1-3) show ?thesis
    by (auto simp: visible_filing_def may_read_filing_envelope_def split: option.splits)
qed

lemma shown_as_Some:
  assumes "shown_as db inside d = Some s"
  shows "s = Original d \<and> (inside \<or> dc_type d \<notin> set private_document_types \<and> \<not> dc_confidential d)
    \<or> (\<exists>c. s = PublicCopyOf d c \<and> \<not> inside \<and> dc_type d \<notin> set private_document_types
         \<and> dc_public_copy d = Some (pc_id c) \<and> pc_document c = dc_id d \<and> c \<in> set (public_copies db))"
  using assms
  by (auto simp: shown_as_def dest!: row_at_SomeD split: if_splits option.splits bind_splits)

lemma shown_as_total:
  "inside \<or> dc_type d \<notin> set private_document_types \<and> \<not> dc_confidential d \<Longrightarrow> shown_as db inside d \<noteq> None"
  by (auto simp: shown_as_def split: option.split)

text \<open>A docket entry is a filing of the case the visitor may read. Every original it shows is one the
  visitor may open, every public copy one the visitor may open under the document it is the published
  copy of; and every current document the visitor may open is shown, itself or by its public copy.\<close>

theorem docket_shows_readable:
  assumes "get_case_filings db user cid pg sz = Inr entries" and "x \<in> set entries" and "courts_agree db"
    and "unique_key cs_id (cases db)" and "unique_key fe_id (filings db)" and "unique_key dc_id (documents db)"
  shows "\<exists>f \<in> set (filings db). fe_id f = dk_id x \<and> fe_case f = Some cid \<and> may_read_filing_envelope db user f
    \<and> (\<forall>d. Original d \<in> set (dk_documents x) \<longrightarrow> may_read_document db user d)
    \<and> (\<forall>d c. PublicCopyOf d c \<in> set (dk_documents x) \<longrightarrow>
         may_read_public_copy db user c \<and> pc_document c = dc_id d \<and> dc_public_copy d = Some (pc_id c))
    \<and> (\<forall>d \<in> set (documents db). dc_envelope d = dk_id x \<and> dc_removed_at d = None
         \<and> dc_type d \<noteq> ''FEE_WAIVER_ORDER'' \<and> may_read_document db user d \<longrightarrow>
         Original d \<in> set (dk_documents x) \<or> (\<exists>c. PublicCopyOf d c \<in> set (dk_documents x)))"
proof -
  let ?uid = "map_option us_id user"
  from assms(1) obtain c where c: "row_at cs_id cid (cases db) = Some c" "may_read_case db user cid"
      and entries: "entries = map (docket_entry_of db ?uid (is_court_staff db ?uid (cs_court c)))
        (page_of pg sz (docket_filings db ?uid cid))"
    by (auto simp: get_case_filings_def Let_def split: option.splits if_splits)
  from assms(2) obtain f where x: "x = docket_entry_of db ?uid (is_court_staff db ?uid (cs_court c)) f"
      and f: "f \<in> set (filings db)" "fe_case f = Some cid" "visible_filing db ?uid f"
    unfolding entries by (auto simp: page_of_def docket_filings_def dest!: in_set_takeD in_set_dropD)
  have court: "fe_court f = cs_court c" by (rule courts_agreeD [OF assms(3) f(1,2) c(1)])
  have find: "find_filing db (fe_id f) = Some f"
    using row_at_unique [OF assms(5) f(1)] by (simp add: find_filing_def)
  have read: "may_read_filing_envelope db user f" by (rule visible_filing_readable [OF f(3,2) c assms(4)])
  let ?inside = "is_court_staff db ?uid (fe_court f) \<or> Some (fe_filer f) = ?uid"
  have docs: "s \<in> set (dk_documents x) \<longleftrightarrow> (\<exists>d \<in> set (documents db). dc_envelope d = fe_id f \<and> dc_removed_at d = None
      \<and> dc_type d \<noteq> ''FEE_WAIVER_ORDER'' \<and> shown_as db ?inside d = Some s)" for s
    by (auto simp: x docket_entry_of_def map_filter_set docket_documents_def court)
  have orig: "may_read_document db user d" if "Original d \<in> set (dk_documents x)" for d
    using that read find unfolding docs by (auto dest!: shown_as_Some simp: may_read_document_def)
  have copy: "may_read_public_copy db user y \<and> pc_document y = dc_id d \<and> dc_public_copy d = Some (pc_id y)"
    if "PublicCopyOf d y \<in> set (dk_documents x)" for d y
  proof -
    from that obtain "d \<in> set (documents db)" and d: "dc_envelope d = fe_id f" "dc_removed_at d = None"
        "\<not> ?inside" "dc_type d \<notin> set private_document_types" "dc_public_copy d = Some (pc_id y)" "pc_document y = dc_id d"
      unfolding docs by (auto dest!: shown_as_Some)
    then have "row_at dc_id (pc_document y) (documents db) = Some d" using row_at_unique [OF assms(6)] by metis
    moreover have "fe_status f = Accepted" using f(3) d(3) by (auto simp: visible_filing_def split: option.splits)
    ultimately show ?thesis using d find f(2) c(2)
      by (auto simp: may_read_public_copy_def Let_def publication_block_def)
  qed
  have all: "Original d \<in> set (dk_documents x) \<or> (\<exists>y. PublicCopyOf d y \<in> set (dk_documents x))"
    if "d \<in> set (documents db)" "dc_envelope d = fe_id f" "dc_removed_at d = None"
      "dc_type d \<noteq> ''FEE_WAIVER_ORDER''" "may_read_document db user d" for d
  proof -
    have "?inside \<or> dc_type d \<notin> set private_document_types \<and> \<not> dc_confidential d"
      using that find by (auto simp: may_read_document_def split: if_splits)
    then obtain s where s: "shown_as db ?inside d = Some s"
      using shown_as_total [THEN not_None_eq [THEN iffD1]] by metis
    then have "s \<in> set (dk_documents x)" using that docs by blast
    with shown_as_Some [OF s] show ?thesis by auto
  qed
  have "dk_id x = fe_id f" by (simp add: x docket_entry_of_def)
  with f read orig copy all show ?thesis by (intro bexI [of _ f]) simp_all
qed

theorem docket_shows_readable_witness:
  "\<exists>x. get_case_filings example_court_db (Some example_participant_user) 7 1 25 = Inr [x]
     \<and> dk_documents x = [Original example_document]
     \<and> may_read_document example_court_db (Some example_participant_user) example_document"
proof -
  let ?x = "docket_entry_of example_court_db (Some 1) False (hd (filings example_court_db))"
  have g: "get_case_filings example_court_db (Some example_participant_user) 7 1 25 = Inr [?x]"
    by (simp add: get_case_filings_def Let_def example_defs may_read_case_def case_visible_def participant_grant_def
        counsel_roles_def is_court_staff_def docket_filings_def visible_filing_def page_of_def)
  have x: "dk_documents ?x = [Original example_document]"
    by (simp add: docket_entry_of_def docket_documents_def example_defs shown_as_def private_document_types_def
        List.map_filter_simps)
  have "courts_agree example_court_db" by (simp add: courts_agree_def example_defs)
  with docket_shows_readable [OF g, of ?x]
  have "may_read_document example_court_db (Some example_participant_user) example_document"
    by (simp add: x) (simp add: example_defs unique_key_def)
  with g x show ?thesis by blast
qed

definition unsealed_example :: db where
  "unsealed_example = example_court_db\<lparr>cases := map (cs_sealed_update (\<lambda>_. False)) (cases example_court_db)\<rparr>"

definition example_search :: case_search where
  "example_search = \<lparr>se_number = Some ''N'', se_party = Some ''a b'', se_bar_number = None, se_court = None, se_status = None\<rparr>"

theorem search_finds_public_cases_witness:
  "sp_total (search_cases unsealed_example example_search 1 25) = 1
   \<and> map cr_id (concat (map (\<lambda>pg. sp_cases (search_cases unsealed_example example_search pg 25)) [1..<Suc 1])) = [7]"
proof -
  have m: "filter (search_matches unsealed_example example_search) (cases unsealed_example) = cases unsealed_example"
    by code_simp
  have c: "map cs_id (newest_cases (cases unsealed_example)) = [7]" "length (cases unsealed_example) = 1"
    by code_simp+
  note p = search_finds_public_cases [of unsealed_example example_search 1 25, unfolded m]
  show ?thesis using p c by (simp add: comp_def del: upt_Suc)
qed

end
