(* ===== verification/Register.thy ===== *)
theory Register
  imports Payments "HOL-Library.List_Lexorder" "HOL-Library.Char_ord"
begin

text \<open>
  The register of external payments of a court (\<open>api/payment_register.py\<close>): the credits and
  reversals the ledger holds for a period, their totals, and the same as a CSV file whose cells a
  spreadsheet does not take for formulas. The time zone database is a parameter; texts are the bytes
  of their UTF-8 encoding.
\<close>

section \<open>Activity\<close>

record activity =
  ay_event :: string
  ay_filing :: int
  ay_type :: string
  ay_actor :: int
  ay_actor_name :: string
  ay_at :: datetime
  ay_payment :: "int option"
  ay_amount :: "int option"
  ay_simulated :: "bool option"
  ay_system :: "string option"
  ay_reference :: "string option"
  ay_received :: "datetime option"
  ay_reason :: "string option"

fun json_bool :: "json \<Rightarrow> bool option" where
  "json_bool (JBool b) = Some b"
| "json_bool _ = None"

fun json_time :: "json \<Rightarrow> datetime option" where
  "json_time (JTime t) = Some t"
| "json_time _ = None"

text \<open>\<open>details["payment"][k]\<close> and \<open>details["payment"]["external_receipt"][k]\<close>; a missing key is \<open>NULL\<close>.\<close>

definition payment_part :: "txn \<Rightarrow> string \<Rightarrow> json option" where
  "payment_part t k = Option.bind (jget ''payment'' (tx_details t)) (jget k)"

definition receipt_part :: "txn \<Rightarrow> string \<Rightarrow> json option" where
  "receipt_part t k = Option.bind (payment_part t ''external_receipt'') (jget k)"

definition signed_amount :: "txn \<Rightarrow> int option" where
  "signed_amount t = map_option (\<lambda>a. if tx_event t = ''fee_payment_reversed'' then - a else a)
     (Option.bind (payment_part t ''amount_cents'') json_int)"

definition simulated_flag :: "txn \<Rightarrow> bool option" where
  "simulated_flag t = Option.bind (payment_part t ''is_simulated'') json_bool"

definition activity_of :: "txn \<Rightarrow> activity" where
  "activity_of t =
     \<lparr>ay_event = tx_id t, ay_filing = tx_filing t, ay_type = tx_event t, ay_actor = tx_actor t,
      ay_actor_name = tx_actor_name t, ay_at = tx_occurred_at t,
      ay_payment = Option.bind (payment_part t ''id'') json_int, ay_amount = signed_amount t,
      ay_simulated = simulated_flag t, ay_system = Option.bind (receipt_part t ''system'') json_str,
      ay_reference = Option.bind (receipt_part t ''reference'') json_str,
      ay_received = Option.bind (receipt_part t ''received_at'') json_time,
      ay_reason = Option.bind (jget ''reason'' (tx_details t)) json_str\<rparr>"

definition fee_payment_event :: "txn \<Rightarrow> bool" where
  "fee_payment_event t \<longleftrightarrow> tx_event t \<in> {''fee_payment_recorded'', ''fee_payment_reversed''}"

definition at_court :: "db \<Rightarrow> int \<Rightarrow> txn \<Rightarrow> bool" where
  "at_court db court t \<longleftrightarrow> (case find_filing db (tx_filing t) of None \<Rightarrow> False | Some f \<Rightarrow> fe_court f = court)"

definition register_events :: "db \<Rightarrow> int \<Rightarrow> datetime \<Rightarrow> datetime \<Rightarrow> bool \<Rightarrow> txn list" where
  "register_events db court from until include =
     filter (\<lambda>t. at_court db court t \<and> fee_payment_event t \<and> from \<le> tx_occurred_at t \<and> tx_occurred_at t < until
       \<and> (include \<or> simulated_flag t = Some False)) (transactions db)"

text \<open>The sum of the amounts of one sign, of real or of simulated payments.\<close>

definition total_of :: "bool \<Rightarrow> int \<Rightarrow> txn list \<Rightarrow> int" where
  "total_of simulated sg ts = sum_list (map (\<lambda>t. case signed_amount t of
     None \<Rightarrow> 0 | Some a \<Rightarrow> if simulated_flag t = Some simulated \<and> 0 < a * sg then a * sg else 0) ts)"

definition newest_events :: "txn list \<Rightarrow> txn list" where
  "newest_events ts = rev (sort_key tx_occurred_at (sort_key tx_id ts))"

record register_totals =
  rt_credits :: int
  rt_reversals :: int

record register =
  rg_from :: datetime
  rg_until :: datetime
  rg_generated :: datetime
  rg_total :: nat
  rg_totals :: register_totals
  rg_simulated_totals :: register_totals
  rg_entries :: "activity list"

definition totals_of :: "bool \<Rightarrow> txn list \<Rightarrow> register_totals" where
  "totals_of simulated ts = \<lparr>rt_credits = total_of simulated 1 ts, rt_reversals = total_of simulated (-1) ts\<rparr>"

text \<open>The time zone database: an unknown zone, or the start of a day in it as an instant, which may be out
  of range.\<close>

type_synonym zones = "string \<Rightarrow> (date \<Rightarrow> datetime option) option"

definition last_date :: date where
  "last_date = 3652059"

definition register_period :: "zones \<Rightarrow> date \<Rightarrow> date \<Rightarrow> string \<Rightarrow> failure + datetime \<times> datetime" where
  "register_period zs from until tz =
     (if \<not> (0 \<le> until - from \<and> until - from < 31) \<or> until = last_date then Inl (Http 422 (Request Period_too_long))
      else case zs tz of
        None \<Rightarrow> Inl (Http 422 (Request Unknown_time_zone))
      | Some start \<Rightarrow>
          (case (start from, start (until + 1)) of
             (Some a, Some b) \<Rightarrow> Inr (a, b) | _ \<Rightarrow> Inl (Http 422 (Request Dates_out_of_range))))"

definition register_of :: "env \<Rightarrow> datetime \<Rightarrow> datetime \<Rightarrow> txn list \<Rightarrow> txn list \<Rightarrow> register" where
  "register_of e from until ts shown =
     \<lparr>rg_from = from, rg_until = until, rg_generated = now e, rg_total = length ts,
      rg_totals = totals_of False ts, rg_simulated_totals = totals_of True ts,
      rg_entries = map activity_of shown\<rparr>"

record register_query =
  gq_court :: int
  gq_from :: date
  gq_to :: date
  gq_zone :: string
  gq_include :: bool

definition open_register :: "zones \<Rightarrow> db \<Rightarrow> register_query \<Rightarrow> int \<Rightarrow> failure + (datetime \<times> datetime) \<times> txn list" where
  "open_register zs db q uid =
     then_do (lock_current_user db uid) (\<lambda>_.
     if \<not> has_court_administrator_assignment db uid (gq_court q)
     then Inl (Http 403 (Request Administrator_of_court_required))
     else then_do (register_period zs (gq_from q) (gq_to q) (gq_zone q)) (\<lambda>(from, until).
       Inr ((from, until), register_events db (gq_court q) from until (gq_include q))))"

definition payment_register :: "env \<Rightarrow> zones \<Rightarrow> db \<Rightarrow> register_query \<Rightarrow> nat \<Rightarrow> int \<Rightarrow> failure + register" where
  "payment_register e zs db q pg uid =
     then_do (open_register zs db q uid) (\<lambda>((from, until), ts).
       Inr (register_of e from until ts (page_of pg 50 (newest_events ts))))"

section \<open>The CSV file\<close>

datatype cell = CInt int | CStr string | CBool bool | CNone

definition formula_starts :: "string list" where
  "formula_starts = [''='', ''+'', ''-'', ''@'',
     [CHR 0xEF, CHR 0xBC, CHR 0x9D], [CHR 0xEF, CHR 0xBC, CHR 0x8B],
     [CHR 0xEF, CHR 0xBC, CHR 0x8D], [CHR 0xEF, CHR 0xBC, CHR 0xA0]]"

text \<open>
  \<open>str.lstrip\<close> on the UTF-8 bytes of a text, as the file has them: the ASCII blanks, and the blanks
  of Unicode, which take two bytes (U+0085, U+00A0) or three (U+1680, U+2000 to U+200A, U+2028, U+2029,
  U+202F, U+205F, U+3000).
\<close>

definition wide_blanks :: "(char \<times> char \<times> char) list" where
  "wide_blanks = (CHR 0xE1, CHR 0x9A, CHR 0x80)
     # map (\<lambda>b. (CHR 0xE2, CHR 0x80, b))
         [CHR 0x80, CHR 0x81, CHR 0x82, CHR 0x83, CHR 0x84, CHR 0x85, CHR 0x86, CHR 0x87, CHR 0x88, CHR 0x89,
          CHR 0x8A, CHR 0xA8, CHR 0xA9, CHR 0xAF]
     @ [(CHR 0xE2, CHR 0x81, CHR 0x9F), (CHR 0xE3, CHR 0x80, CHR 0x80)]"

fun lstrip_text :: "string \<Rightarrow> string" where
  "lstrip_text [] = []"
| "lstrip_text (a # s) =
     (if is_blank a then lstrip_text s
      else case s of
        [] \<Rightarrow> a # s
      | b # s1 \<Rightarrow>
          if a = CHR 0xC2 \<and> b \<in> {CHR 0x85, CHR 0xA0} then lstrip_text s1
          else (case s1 of
              [] \<Rightarrow> a # s
            | c # s2 \<Rightarrow> if (a, b, c) \<in> set wide_blanks then lstrip_text s2 else a # s))"

fun guard_cell :: "cell \<Rightarrow> cell" where
  "guard_cell (CStr s) =
     (if list_ex (starts_with (lstrip_text s)) formula_starts then CStr (CHR 0x27 # s) else CStr s)"
| "guard_cell c = c"

fun cell_text :: "cell \<Rightarrow> string" where
  "cell_text (CInt i) = dec i"
| "cell_text (CStr s) = s"
| "cell_text (CBool b) = (if b then ''True'' else ''False'')"
| "cell_text CNone = []"

text \<open>\<open>csv.writer\<close> with \<open>QUOTE_ALL\<close>: every cell in quotes, a quote doubled, rows ended by CR LF.\<close>

definition csv_cell :: "string \<Rightarrow> string" where
  "csv_cell s = [CHR 0x22] @ concat (map (\<lambda>c. if c = CHR 0x22 then [CHR 0x22, CHR 0x22] else [c]) s) @ [CHR 0x22]"

definition csv_row :: "string list \<Rightarrow> string" where
  "csv_row cs = join_with '','' (map csv_cell cs) @ [CHR 0x0D, CHR 0x0A]"

definition opt_cell :: "('a \<Rightarrow> cell) \<Rightarrow> 'a option \<Rightarrow> cell" where
  "opt_cell f x = (case x of None \<Rightarrow> CNone | Some y \<Rightarrow> f y)"

definition register_fields :: "string list" where
  "register_fields =
     [''court_id'', ''period_start_utc'', ''period_end_utc'', ''period_timezone'', ''generated_at_utc'',
      ''currency'', ''event_id'', ''filing_id'', ''event_type'', ''actor_id'', ''actor_name'', ''occurred_at'',
      ''payment_id'', ''amount_cents'', ''is_simulated'', ''receipt_system'', ''receipt_reference'',
      ''received_at'', ''reason'']"

definition activity_cells :: "env \<Rightarrow> activity \<Rightarrow> cell list" where
  "activity_cells e a =
     [CStr (ay_event a), CInt (ay_filing a), CStr (ay_type a), CInt (ay_actor a), CStr (ay_actor_name a),
      CStr (iso_time e (ay_at a)), opt_cell CInt (ay_payment a), opt_cell CInt (ay_amount a),
      opt_cell CBool (ay_simulated a), opt_cell CStr (ay_system a), opt_cell CStr (ay_reference a),
      opt_cell (\<lambda>t. CStr (iso_time e t)) (ay_received a), opt_cell CStr (ay_reason a)]"

definition register_row :: "env \<Rightarrow> register_query \<Rightarrow> register \<Rightarrow> activity \<Rightarrow> string list" where
  "register_row e q r a = map (cell_text \<circ> guard_cell)
     ([CInt (gq_court q), CStr (iso_time e (rg_from r)), CStr (iso_time e (rg_until r)), CStr (gq_zone q),
       CStr (iso_time e (rg_generated r)), CStr ''USD''] @ activity_cells e a)"

definition byte_order_mark :: string where
  "byte_order_mark = [CHR 0xEF, CHR 0xBB, CHR 0xBF]"

definition register_csv :: "env \<Rightarrow> zones \<Rightarrow> db \<Rightarrow> register_query \<Rightarrow> int \<Rightarrow> failure + string" where
  "register_csv e zs db q uid =
     then_do (open_register zs db q uid) (\<lambda>((from, until), ts).
       if 5000 < length ts then Inl (Http 422 (Request Register_too_large))
       else let r = register_of e from until ts (newest_events ts)
            in Inr (byte_order_mark @ concat (map csv_row (register_fields # map (register_row e q r) (rg_entries r)))))"

end
