(* ===== verification/RegisterProofs.thy ===== *)
theory RegisterProofs
  imports Register PaymentProofs
begin

text \<open>
  The CSV file of a register reads back as its rows with no cell a spreadsheet takes for a formula,
  and over any history the register's credits less its reversals are the active credits of the court.
\<close>

section \<open>Reading CSV\<close>

text \<open>A reader of quoted rows: between cells, inside one, after a quote in one, after the carriage return.\<close>

datatype mode = Between | Inside | Closing | Ending

fun read_csv :: "mode \<Rightarrow> string \<Rightarrow> string list \<Rightarrow> string list list \<Rightarrow> string \<Rightarrow> string list list option" where
  "read_csv m cell row rows [] = (if m = Between \<and> row = [] then Some rows else None)"
| "read_csv Between cell row rows (c # cs) =
     (if c = CHR 0x22 then read_csv Inside [] row rows cs else None)"
| "read_csv Inside cell row rows (c # cs) =
     (if c = CHR 0x22 then read_csv Closing cell row rows cs else read_csv Inside (cell @ [c]) row rows cs)"
| "read_csv Closing cell row rows (c # cs) =
     (if c = CHR 0x22 then read_csv Inside (cell @ [c]) row rows cs
      else if c = CHR '','' then read_csv Between [] (row @ [cell]) rows cs
      else if c = CHR 0x0D then read_csv Ending [] (row @ [cell]) rows cs else None)"
| "read_csv Ending cell row rows (c # cs) =
     (if c = CHR 0x0A then read_csv Between [] [] (rows @ [row]) cs else None)"

lemma read_inside:
  "read_csv Inside cell row rows (concat (map (\<lambda>c. if c = CHR 0x22 then [CHR 0x22, CHR 0x22] else [c]) s) @ [CHR 0x22] @ rest)
     = read_csv Closing (cell @ s) row rows rest"
  by (induction s arbitrary: cell) simp_all

lemma read_cell: "read_csv Between cell row rows (csv_cell s @ rest) = read_csv Closing s row rows rest"
  using read_inside [of "[]" row rows s rest] by (simp add: csv_cell_def)

lemma read_cells:
  "cs \<noteq> [] \<Longrightarrow> read_csv Between cell row rows (join_with '','' (map csv_cell cs) @ CHR 0x0D # rest)
     = read_csv Ending [] (row @ cs) rows rest"
proof (induction cs arbitrary: row cell rule: induct_list012)
  case (3 c d cs)
  have "read_csv Between cell row rows (join_with '','' (map csv_cell (c # d # cs)) @ CHR 0x0D # rest)
      = read_csv Between [] (row @ [c]) rows (join_with '','' (map csv_cell (d # cs)) @ CHR 0x0D # rest)"
    using read_cell [of cell row rows c] by (simp add: csv_cell_def)
  with 3(2) [of "[]" "row @ [c]"] show ?case by simp
qed (use read_cell in simp_all)

lemma read_rows:
  "\<forall>r \<in> set rs. r \<noteq> [] \<Longrightarrow> read_csv Between cell [] rows (concat (map csv_row rs)) = Some (rows @ rs)"
proof (induction rs arbitrary: rows cell)
  case (Cons r rs)
  then have "read_csv Between [] [] (rows @ [r]) (concat (map csv_row rs)) = Some (rows @ r # rs)" by simp
  then show ?case
    using read_cells [of r cell "[]" rows "CHR 0x0A # concat (map csv_row rs)"] Cons.prems
    by (simp add: csv_row_def [of r])
qed simp

section \<open>Formulas\<close>

text \<open>
  The specification, by code points: after any number of blanks of Unicode comes an equals, plus or
  minus sign or a commercial at, plain or full width.
\<close>

definition utf8 :: "int \<Rightarrow> string" where
  "utf8 n =
     (if n < 0x80 then [char_of n]
      else if n < 0x800 then [char_of (0xC0 + n div 64), char_of (0x80 + n mod 64)]
      else [char_of (0xE0 + n div 4096), char_of (0x80 + n div 64 mod 64), char_of (0x80 + n mod 64)])"

definition blank_points :: "int list" where
  "blank_points = [0x09, 0x0A, 0x0B, 0x0C, 0x0D, 0x1C, 0x1D, 0x1E, 0x1F, 0x20, 0x85, 0xA0, 0x1680,
     0x2000, 0x2001, 0x2002, 0x2003, 0x2004, 0x2005, 0x2006, 0x2007, 0x2008, 0x2009, 0x200A, 0x2028, 0x2029, 0x202F,
     0x205F, 0x3000]"

definition formula_points :: "int list" where
  "formula_points = [0x3D, 0x2B, 0x2D, 0x40, 0xFF1D, 0xFF0B, 0xFF0D, 0xFF20]"

definition formula_like :: "string \<Rightarrow> bool" where
  "formula_like s \<longleftrightarrow> (\<exists>ws c rest. s = concat (map utf8 ws) @ utf8 c @ rest
     \<and> set ws \<subseteq> set blank_points \<and> c \<in> set formula_points)"

lemma blank_bytes: "map utf8 blank_points = map (\<lambda>c. [c]) [CHR 0x09, CHR 0x0A, CHR 0x0B, CHR 0x0C, CHR 0x0D,
    CHR 0x1C, CHR 0x1D, CHR 0x1E, CHR 0x1F, CHR 0x20]
  @ [[CHR 0xC2, CHR 0x85], [CHR 0xC2, CHR 0xA0]] @ map (\<lambda>(a, b, c). [a, b, c]) wide_blanks"
  by code_simp

lemma formula_bytes: "map utf8 formula_points = formula_starts"
  by code_simp

lemma ascii_blanks: "is_blank c \<longleftrightarrow> c \<in> {CHR 0x09, CHR 0x0A, CHR 0x0B, CHR 0x0C, CHR 0x0D,
    CHR 0x1C, CHR 0x1D, CHR 0x1E, CHR 0x1F, CHR 0x20}"
proof
  assume "is_blank c"
  then have "(of_char c :: nat) \<in> {9, 10, 11, 12, 13, 28, 29, 30, 31, 32}" by (auto simp: is_blank_def Let_def)
  moreover have "c = char_of (of_char c :: nat)" by simp
  ultimately have "c \<in> char_of ` {9, 10, 11, 12, 13, 28, 29, 30, 31, 32 :: nat}" by (rule image_eqI [rotated])
  then have "c \<in> set (map char_of [9, 10, 11, 12, 13, 28, 29, 30, 31, 32 :: nat])" by simp
  moreover have "map char_of [9, 10, 11, 12, 13, 28, 29, 30, 31, 32 :: nat]
      = [CHR 0x09, CHR 0x0A, CHR 0x0B, CHR 0x0C, CHR 0x0D, CHR 0x1C, CHR 0x1D, CHR 0x1E, CHR 0x1F, CHR 0x20]"
    by code_simp
  ultimately show "c \<in> {CHR 0x09, CHR 0x0A, CHR 0x0B, CHR 0x0C, CHR 0x0D, CHR 0x1C, CHR 0x1D, CHR 0x1E, CHR 0x1F, CHR 0x20}"
    by (simp only: list.set insert_iff empty_iff)
qed (auto simp: is_blank_def)

lemma formula_start_bytes: "utf8 ` set formula_points = set formula_starts"
  using arg_cong [OF formula_bytes, of set] by simp

lemma blank_set: "utf8 ` set blank_points
    = (\<lambda>c. [c]) ` {c. is_blank c} \<union> (\<lambda>b. [CHR 0xC2, b]) ` {CHR 0x85, CHR 0xA0} \<union> (\<lambda>(a, b, c). [a, b, c]) ` set wide_blanks"
proof -
  have "{c. is_blank c} = set [CHR 0x09, CHR 0x0A, CHR 0x0B, CHR 0x0C, CHR 0x0D,
      CHR 0x1C, CHR 0x1D, CHR 0x1E, CHR 0x1F, CHR 0x20]"
    unfolding ascii_blanks list.set by blast
  moreover have "set [[CHR 0xC2, CHR 0x85], [CHR 0xC2, CHR 0xA0]] = (\<lambda>b. [CHR 0xC2, b]) ` {CHR 0x85, CHR 0xA0}" by simp
  moreover have "utf8 ` set blank_points = set (map utf8 blank_points)" by simp
  ultimately show ?thesis unfolding blank_bytes set_append set_map by (simp only: Un_assoc)
qed

lemma blank_cases:
  assumes "w \<in> utf8 ` set blank_points"
  obtains a where "w = [a]" and "is_blank a"
  | b where "w = [CHR 0xC2, b]" and "b \<in> {CHR 0x85, CHR 0xA0}"
  | a b c where "w = [a, b, c]" and "(a, b, c) \<in> set wide_blanks"
proof -
  from assms have "w \<in> (\<lambda>c. [c]) ` {c. is_blank c} \<or> w \<in> (\<lambda>b. [CHR 0xC2, b]) ` {CHR 0x85, CHR 0xA0}
      \<or> w \<in> (\<lambda>(a, b, c). [a, b, c]) ` set wide_blanks"
    by (simp only: blank_set Un_iff disj_assoc)
  then show ?thesis
  proof (elim disjE)
    assume "w \<in> (\<lambda>c. [c]) ` {c. is_blank c}"
    then show ?thesis using that(1) by (elim imageE CollectE)
  next
    assume "w \<in> (\<lambda>b. [CHR 0xC2, b]) ` {CHR 0x85, CHR 0xA0}"
    then show ?thesis using that(2) by (elim imageE)
  next
    assume "w \<in> (\<lambda>(a, b, c). [a, b, c]) ` set wide_blanks"
    then show ?thesis
    proof (rule imageE)
      fix x assume "w = (\<lambda>(a, b, c). [a, b, c]) x" and "x \<in> set wide_blanks"
      then show ?thesis using that(3) by (cases x) simp
    qed
  qed
qed

lemma wide_blank_lead: "(a, b, c) \<in> set wide_blanks \<Longrightarrow> \<not> is_blank a \<and> a \<noteq> CHR 0xC2"
  by (auto simp: wide_blanks_def ascii_blanks)

lemma two_byte_lead: "\<not> is_blank (CHR 0xC2)"
  by code_simp

text \<open>Stripping removes any blanks and nothing else.\<close>

lemmas strip_step = lstrip_text.simps(2)

declare lstrip_text.simps(2) [simp del]

lemma lstrip_blank: "w \<in> utf8 ` set blank_points \<Longrightarrow> lstrip_text (w @ s) = lstrip_text s"
  by (erule blank_cases) (auto simp: strip_step wide_blank_lead two_byte_lead)

lemma lstrip_blanks: "set ws \<subseteq> set blank_points \<Longrightarrow> lstrip_text (concat (map utf8 ws) @ s) = lstrip_text s"
  by (induction ws) (auto simp: lstrip_blank)

lemma lstrip_split: "\<exists>ws. s = concat (map utf8 ws) @ lstrip_text s \<and> set ws \<subseteq> set blank_points"
proof (induction s rule: lstrip_text.induct)
  case 1
  show ?case by (intro exI [of _ "[]"]) simp
next
  case (2 a s)
  have step: "\<exists>ws. a # s = concat (map utf8 ws) @ lstrip_text (a # s) \<and> set ws \<subseteq> set blank_points"
    if s': "\<exists>ws. s' = concat (map utf8 ws) @ lstrip_text s' \<and> set ws \<subseteq> set blank_points"
      and eq: "lstrip_text (a # s) = lstrip_text s'" "a # s = w @ s'" and w: "w \<in> utf8 ` set blank_points" for s' w
  proof -
    from s' obtain ws where "s' = concat (map utf8 ws) @ lstrip_text s'" "set ws \<subseteq> set blank_points" by blast
    moreover from w obtain n where "n \<in> set blank_points" "w = utf8 n" by blast
    ultimately show ?thesis using eq by (intro exI [of _ "n # ws"]) simp
  qed
  have stop: ?case if e: "lstrip_text (a # s) = a # s"
    by (rule exI [of _ "[]"]) (simp add: e)
  show ?case
  proof (cases "is_blank a")
    case True
    then have "[a] \<in> utf8 ` set blank_points" unfolding blank_set by (intro UnI1 imageI CollectI)
    with True show ?thesis by (intro step [OF 2(1) [OF True]]) (simp_all add: strip_step)
  next
    case ascii: False
    show ?thesis
    proof (cases s)
      case Nil
      with ascii stop show ?thesis by (simp add: strip_step)
    next
      case (Cons b s1)
      show ?thesis
      proof (cases "a = CHR 0xC2 \<and> b \<in> {CHR 0x85, CHR 0xA0}")
        case True
        then have "[a, b] \<in> utf8 ` set blank_points" unfolding blank_set by (intro UnI1 UnI2) simp
        with True ascii Cons show ?thesis
          by (intro step [OF 2(2) [OF ascii Cons True]]) (simp_all add: strip_step)
      next
        case two: False
        show ?thesis
        proof (cases s1)
          case Nil
          with ascii two Cons have "lstrip_text (a # s) = a # s" by (auto simp: strip_step)
          then show ?thesis by (rule stop)
        next
          case (Cons c s2)
          show ?thesis
          proof (cases "(a, b, c) \<in> set wide_blanks")
            case True
            then have "[a, b, c] \<in> utf8 ` set blank_points"
              unfolding blank_set by (intro UnI2 image_eqI [of _ _ "(a, b, c)"]) simp_all
            with True ascii two Cons \<open>s = b # s1\<close> show ?thesis
              by (intro step [OF 2(3) [OF ascii \<open>s = b # s1\<close> two Cons True]]) (auto simp: strip_step)
          next
            case False
            with ascii two Cons \<open>s = b # s1\<close> have "lstrip_text (a # s) = a # s" by (auto simp: strip_step)
            then show ?thesis by (rule stop)
          qed
        qed
      qed
    qed
  qed
qed

lemma lstrip_plain:
  assumes "\<not> is_blank a" and "a \<notin> {CHR 0xC2, CHR 0xE1, CHR 0xE2, CHR 0xE3}"
  shows "lstrip_text (a # s) = a # s"
proof -
  have "(a, b, c) \<notin> set wide_blanks" for b c using assms(2) by (auto simp: wide_blanks_def)
  with assms show ?thesis by (auto simp: strip_step split: list.split)
qed

lemma formula_not_stripped: "c \<in> set formula_starts \<Longrightarrow> lstrip_text (c @ s) = c @ s"
  by (auto simp: formula_starts_def is_blank_def intro!: lstrip_plain)

lemma starts_with_iff: "starts_with s p \<longleftrightarrow> (\<exists>r. s = p @ r)"
proof
  assume "starts_with s p"
  then have "s = p @ drop (length p) s" by (simp add: starts_with_def) (metis append_take_drop_id)
  then show "\<exists>r. s = p @ r" ..
qed (auto simp: starts_with_def)

lemma formula_like_iff: "formula_like s \<longleftrightarrow> list_ex (starts_with (lstrip_text s)) formula_starts"
proof
  assume "formula_like s"
  then obtain ws c rest where s: "s = concat (map utf8 ws) @ utf8 c @ rest" "set ws \<subseteq> set blank_points"
    "c \<in> set formula_points" by (auto simp: formula_like_def)
  then have c: "utf8 c \<in> set formula_starts" using formula_start_bytes by blast
  have "lstrip_text s = utf8 c @ rest" unfolding s(1) lstrip_blanks [OF s(2)] by (rule formula_not_stripped [OF c])
  with c show "list_ex (starts_with (lstrip_text s)) formula_starts" by (auto simp: list_ex_iff starts_with_iff)
next
  assume "list_ex (starts_with (lstrip_text s)) formula_starts"
  then obtain p r where "p \<in> set formula_starts" "lstrip_text s = p @ r" by (auto simp: list_ex_iff starts_with_iff)
  moreover then obtain c where "c \<in> set formula_points" "p = utf8 c" using formula_start_bytes by blast
  moreover obtain ws where "s = concat (map utf8 ws) @ lstrip_text s" "set ws \<subseteq> set blank_points"
    using lstrip_split [of s] by blast
  ultimately show "formula_like s" unfolding formula_like_def by (intro exI [of _ ws] exI [of _ c] exI [of _ r]) simp
qed

text \<open>A text cell and how to read it back: an added apostrophe marks a guarded one.\<close>

lemma guarded_text:
  "cell_text (guard_cell (CStr s)) = (if formula_like s then CHR 0x27 # s else s)"
proof (cases "formula_like s")
  case True
  then have "list_ex (starts_with (lstrip_text s)) formula_starts" by (simp only: formula_like_iff)
  with True show ?thesis by simp
next
  case False
  then have "\<not> list_ex (starts_with (lstrip_text s)) formula_starts" by (simp only: formula_like_iff) simp
  with False show ?thesis by simp
qed

lemma plain_start:
  assumes "c \<in> set (CHR 0x27 # ''0123456789TF'')"
  shows "\<not> formula_like (c # s)"
proof -
  have "lstrip_text (c # s) = c # s"
    using assms by (intro lstrip_plain) (auto simp: is_blank_def)
  with assms show ?thesis
    by (auto simp: formula_like_iff formula_starts_def starts_with_iff)
qed

lemma guarded_safe: "\<not> formula_like (cell_text (guard_cell (CStr s)))"
  using plain_start [of "CHR 0x27" s] unfolding guarded_text by (cases "formula_like s") simp_all

lemma decimal_digit: "d < 10 \<Longrightarrow> char_of (48 + d) \<in> set ''0123456789''" for d :: nat
proof -
  assume "d < 10"
  moreover have "\<forall>d \<in> set [0..<10]. char_of (48 + d) \<in> set ''0123456789''" by code_simp
  ultimately show ?thesis by simp
qed

lemma dec_nat_decimal: "set (dec_nat n) \<subseteq> set ''0123456789'' \<and> dec_nat n \<noteq> []"
proof (induction n rule: dec_nat.induct)
  case (1 n)
  show ?case
  proof (cases "n < 10")
    case True
    with decimal_digit show ?thesis by (subst (1 2) dec_nat.simps) simp
  next
    case False
    with 1 decimal_digit [of "n mod 10"] show ?thesis by (subst (1 2) dec_nat.simps) simp
  qed
qed

lemma digits_not_formula: "c \<in> set ''0123456789TF'' \<Longrightarrow> \<not> formula_like (c # s)"
  by (rule plain_start) auto

lemma dec_not_formula: "0 \<le> i \<Longrightarrow> \<not> formula_like (dec i)"
  using dec_nat_decimal [of "nat i"] digits_not_formula [of "hd (dec_nat (nat i))" "tl (dec_nat (nat i))"]
  by (cases "dec_nat (nat i)") (auto simp: dec_def)

lemma cell_formula: "formula_like (cell_text (guard_cell c)) \<Longrightarrow> \<exists>i < 0. cell_text (guard_cell c) = dec i"
proof (cases c)
  case (CStr s)
  moreover assume "formula_like (cell_text (guard_cell c))"
  ultimately show ?thesis using guarded_safe [of s] by simp
next
  case (CInt i)
  moreover assume "formula_like (cell_text (guard_cell c))"
  ultimately show ?thesis using dec_not_formula [of i] by (cases "i < 0") auto
next
  case (CBool b)
  moreover assume "formula_like (cell_text (guard_cell c))"
  moreover have "\<not> formula_like (''True'')" "\<not> formula_like (''False'')" by (rule digits_not_formula; simp)+
  ultimately show ?thesis by (simp split: if_splits)
next
  case CNone
  moreover assume "formula_like (cell_text (guard_cell c))"
  ultimately show ?thesis by (simp add: formula_like_iff formula_starts_def starts_with_def)
qed

text \<open>C34: a register asked for as CSV lists the period's entries in full, at most 5,000, and its file reads
  back as the header and one row per entry, whatever texts the receipts carry. But for negative amounts,
  which are written as numbers, no cell of an entry begins, after any blanks of Unicode, with an equals,
  plus or minus sign or a commercial at, plain or full width.\<close>

theorem register_csv_reads_back:
  assumes "register_csv e zs db q uid = Inr text"
  shows "\<exists>lo hi ts r body. open_register zs db q uid = Inr ((lo, hi), ts) \<and> length ts \<le> 5000
    \<and> r = register_of e lo hi ts (newest_events ts) \<and> text = byte_order_mark @ body
    \<and> read_csv Between [] [] [] body = Some (register_fields # map (register_row e q r) (rg_entries r))
    \<and> length (rg_entries r) = rg_total r
    \<and> (\<forall>a \<in> set (rg_entries r). \<forall>x \<in> set (register_row e q r a). formula_like x \<longrightarrow> (\<exists>i < 0. x = dec i))"
proof -
  from assms obtain lo hi ts where o: "open_register zs db q uid = Inr ((lo, hi), ts)"
      and n: "length ts \<le> 5000"
      and csv: "text = (let r = register_of e lo hi ts (newest_events ts)
        in byte_order_mark @ concat (map csv_row (register_fields # map (register_row e q r) (rg_entries r))))"
    by (auto simp: register_csv_def then_do_Inr_iff Let_def split: if_splits)
  let ?r = "register_of e lo hi ts (newest_events ts)"
  let ?rows = "register_fields # map (register_row e q ?r) (rg_entries ?r)"
  have "\<forall>row \<in> set ?rows. row \<noteq> []" by (auto simp: register_fields_def register_row_def)
  then have "read_csv Between [] [] [] (concat (map csv_row ?rows)) = Some ?rows"
    using read_rows [of ?rows "[]" "[]"] by simp
  moreover have "length (rg_entries ?r) = rg_total ?r" by (simp add: register_of_def newest_events_def)
  moreover have "formula_like x \<longrightarrow> (\<exists>i < 0. x = dec i)" if "x \<in> set (register_row e q ?r a)" for a x
  proof -
    from that obtain c where "x = cell_text (guard_cell c)" unfolding register_row_def set_map image_iff o_def by blast
    then show ?thesis using cell_formula [of c] by blast
  qed
  ultimately show ?thesis using o n csv by (auto simp: Let_def)
qed

section \<open>Reconciling the register with the payments\<close>

text \<open>Completed credits of external receipts on filings of a court.\<close>

definition active_credits :: "db \<Rightarrow> int \<Rightarrow> bool \<Rightarrow> int" where
  "active_credits db court simulated = sum_list (map (\<lambda>p.
     if py_request_key p \<noteq> None \<and> py_status p = PayCompleted \<and> py_simulated p = simulated
        \<and> Option.bind (py_envelope p) (\<lambda>i. map_option fe_court (find_filing db i)) = Some court
     then py_amount p else 0) (payments db))"

text \<open>What an event adds to the difference of credits and reversals.\<close>

definition event_balance :: "db \<Rightarrow> int \<Rightarrow> bool \<Rightarrow> txn \<Rightarrow> int" where
  "event_balance db court simulated t =
     (if at_court db court t \<and> fee_payment_event t \<and> simulated_flag t = Some simulated
      then case signed_amount t of None \<Rightarrow> 0 | Some a \<Rightarrow> a else 0)"

definition ledger_balance :: "db \<Rightarrow> int \<Rightarrow> bool \<Rightarrow> int" where
  "ledger_balance db court simulated = sum_list (map (event_balance db court simulated) (transactions db))"

lemma totals_difference:
  "total_of b 1 ts - total_of b (- 1) ts
     = sum_list (map (\<lambda>t. if simulated_flag t = Some b then case signed_amount t of None \<Rightarrow> 0 | Some a \<Rightarrow> a else 0) ts)"
  unfolding total_of_def sum_list_subtractf [symmetric]
  by (intro arg_cong [where f = sum_list] map_cong refl) (simp split: option.split)

lemma sum_list_filter_map:
  "sum_list (map f (filter P xs)) = sum_list (map (\<lambda>x. if P x then f x else (0::int)) xs)"
  by (induction xs) auto

text \<open>The court of a filing, and that no step changes it.\<close>

definition court_of :: "db \<Rightarrow> int \<Rightarrow> int option" where
  "court_of db fid = map_option fe_court (find_filing db fid)"

definition courts_kept :: "db \<Rightarrow> db \<Rightarrow> bool" where
  "courts_kept db db' \<longleftrightarrow> (\<forall>fid. court_of db fid \<noteq> None \<longrightarrow> court_of db' fid = court_of db fid)"

lemma court_of_eq: "find_filing db' = find_filing db \<Longrightarrow> court_of db' = court_of db"
  by (simp add: court_of_def fun_eq_iff)

lemma court_of_save:
  assumes "find_filing db (fe_id g) = Some f" and "fe_court g = fe_court f"
  shows "court_of (save_filing e g db) = court_of db"
proof
  fix fid
  obtain u where "find_filing (save_filing e g db) (fe_id g) = Some (g\<lparr>fe_updated_at := u\<rparr>)"
    by (rule find_save_same [OF assms(1)])
  then show "court_of (save_filing e g db) fid = court_of db fid"
    using assms find_save_other [of fid g e db] by (cases "fid = fe_id g") (simp_all add: court_of_def)
qed

lemma at_court_iff: "at_court db court t \<longleftrightarrow> court_of db (tx_filing t) = Some court"
  by (auto simp: at_court_def court_of_def split: option.splits)

definition fee_ledger :: "db \<Rightarrow> txn list" where
  "fee_ledger db = filter fee_payment_event (transactions db)"

definition external_payments :: "db \<Rightarrow> payment list" where
  "external_payments db = filter (\<lambda>p. py_request_key p \<noteq> None) (payments db)"

definition credit_value :: "db \<Rightarrow> int \<Rightarrow> bool \<Rightarrow> payment \<Rightarrow> int" where
  "credit_value db court simulated p =
     (if py_request_key p \<noteq> None \<and> py_status p = PayCompleted \<and> py_simulated p = simulated
        \<and> Option.bind (py_envelope p) (court_of db) = Some court then py_amount p else 0)"

lemma active_credits_eq: "active_credits db court b = sum_list (map (credit_value db court b) (payments db))"
  by (simp add: active_credits_def credit_value_def [abs_def] court_of_def [abs_def])

lemma ledger_balance_eq: "ledger_balance db court b = sum_list (map (event_balance db court b) (fee_ledger db))"
  unfolding ledger_balance_def fee_ledger_def sum_list_filter_map
  by (intro arg_cong [where f = sum_list] map_cong refl) (simp add: event_balance_def)

text \<open>A period whose entries lie between two lengths of the ledger sums the balances between them.\<close>

lemma register_balance:
  assumes "fee_ledger db = before @ within @ after"
    and "list_all (\<lambda>t. tx_occurred_at t < lo) before" and "list_all (\<lambda>t. lo \<le> tx_occurred_at t \<and> tx_occurred_at t < hi) within"
    and "list_all (\<lambda>t. hi \<le> tx_occurred_at t) after"
  shows "total_of b 1 (register_events db court lo hi True) - total_of b (- 1) (register_events db court lo hi True)
    = sum_list (map (event_balance db court b) within)"
proof -
  have "set within \<subseteq> set (fee_ledger db)" by (auto simp: assms(1))
  then have fees: "list_all fee_payment_event within" by (auto simp: fee_ledger_def list_all_iff)
  have "register_events db court lo hi True
      = filter (\<lambda>t. at_court db court t \<and> lo \<le> tx_occurred_at t \<and> tx_occurred_at t < hi) (fee_ledger db)"
    unfolding register_events_def fee_ledger_def by (auto intro!: filter_cong)
  also have "\<dots> = filter (at_court db court) within"
  proof -
    have "filter (\<lambda>t. at_court db court t \<and> lo \<le> tx_occurred_at t \<and> tx_occurred_at t < hi) before = []"
      "filter (\<lambda>t. at_court db court t \<and> lo \<le> tx_occurred_at t \<and> tx_occurred_at t < hi) after = []"
      using assms(2,4) by (auto simp: filter_empty_conv list_all_iff)
    moreover have "filter (\<lambda>t. at_court db court t \<and> lo \<le> tx_occurred_at t \<and> tx_occurred_at t < hi) within
        = filter (at_court db court) within"
      using assms(3) by (intro filter_cong) (auto simp: list_all_iff)
    ultimately show ?thesis by (simp add: assms(1))
  qed
  finally show ?thesis
    unfolding totals_difference using fees
    by (simp only: sum_list_filter_map) (intro arg_cong [where f = sum_list] map_cong refl,
        simp add: event_balance_def list_all_iff)
qed

text \<open>Ledger and payments speak of existing filings and agree on every court's credits.\<close>

definition reconciled :: "db \<Rightarrow> bool" where
  "reconciled db \<longleftrightarrow> payments_ok db \<and> (\<forall>t \<in> set (fee_ledger db). court_of db (tx_filing t) \<noteq> None)
     \<and> (\<forall>p \<in> set (external_payments db). Option.bind (py_envelope p) (court_of db) \<noteq> None)
     \<and> (\<forall>court b. ledger_balance db court b = active_credits db court b)"

lemma kept_event: "courts_kept db db' \<Longrightarrow> court_of db (tx_filing t) \<noteq> None \<Longrightarrow> event_balance db' c b t = event_balance db c b t"
  by (auto simp: event_balance_def at_court_iff courts_kept_def)

lemma kept_credit:
  "courts_kept db db' \<Longrightarrow> py_request_key p \<noteq> None \<longrightarrow> Option.bind (py_envelope p) (court_of db) \<noteq> None
     \<Longrightarrow> credit_value db' c b p = credit_value db c b p"
  by (cases "py_envelope p") (auto simp: credit_value_def courts_kept_def)

lemma kept_sums:
  assumes "courts_kept db db'" and "reconciled db"
  shows "sum_list (map (event_balance db' c b) (fee_ledger db)) = ledger_balance db c b"
    "sum_list (map (credit_value db' c b) (payments db)) = active_credits db c b"
proof -
  have "map (event_balance db' c b) (fee_ledger db) = map (event_balance db c b) (fee_ledger db)"
    using assms by (intro map_cong refl kept_event) (auto simp: reconciled_def)
  then show "sum_list (map (event_balance db' c b) (fee_ledger db)) = ledger_balance db c b"
    by (simp only: ledger_balance_eq)
  have "map (credit_value db' c b) (payments db) = map (credit_value db c b) (payments db)"
    using assms by (intro map_cong refl kept_credit) (auto simp: reconciled_def external_payments_def)
  then show "sum_list (map (credit_value db' c b) (payments db)) = active_credits db c b"
    by (simp only: active_credits_eq)
qed

text \<open>The details of a fee payment event.\<close>

lemma fee_event_parts:
  assumes "record_transaction e f ev actor why key [(''payment'', payment_event_json p extra)] db = Inr (t, db')"
    and "ev \<in> {''fee_payment_recorded'', ''fee_payment_reversed''}"
  shows "signed_amount t = Some (if ev = ''fee_payment_reversed'' then - py_amount p else py_amount p)
    \<and> simulated_flag t = Some (py_simulated p)"
proof -
  have "\<not> submission_event ev" "ev \<noteq> ''accepted''" using assms(2) by (auto simp: submission_event_def)
  note plain = record_transaction_plain(3) [OF assms(1) this]
  have "payment_part t k = jget k (payment_event_json p extra)" for k
    by (auto simp: payment_part_def plain jget_def)
  then show ?thesis using record_transaction_frame(18) [OF assms(1)]
    by (simp add: signed_amount_def simulated_flag_def payment_event_json_def jget_def)
qed

text \<open>What the three operations do to the ledger, the payments and the courts of the filings.\<close>

lemma payment_entry_effect:
  assumes "enter_payment e p f ev actor why kvs db = Inr db2" and "find_filing db (fe_id f) = Some f"
  obtains t db1 where "payments db2 = payments db @ [p]" and "transactions db2 = transactions db @ [t]"
    and "tx_event t = ev" and "tx_filing t = fe_id f" and "court_of db2 = court_of db"
    and "record_transaction e (paid_filing p f) ev actor why None kvs db1 = Inr (t, db2)"
proof -
  from assms(1) obtain db1 t where ins: "insert_payment p db = Inr db1"
    and rec: "record_transaction e (paid_filing p f) ev actor why None kvs (save_filing e (paid_filing p f) db1) = Inr (t, db2)"
    by (auto simp: enter_payment_def then_do_Inr_iff)
  have db1: "payments db1 = payments db @ [p]" "transactions db1 = transactions db" "find_filing db1 = find_filing db"
    using ins by (auto simp: insert_payment_def find_filing_def fun_eq_iff split: if_splits)
  have "court_of (save_filing e (paid_filing p f) db1) = court_of db1"
    by (rule court_of_save [where f = f]) (use assms(2) db1(3) in \<open>simp_all add: paid_filing_def\<close>)
  then have "court_of db2 = court_of db"
    using court_of_eq [OF record_transaction_frame(15) [OF rec]] court_of_eq [OF db1(3)] by simp
  moreover have "tx_filing t = fe_id f" using record_transaction_frame(17) [OF rec] by (simp add: paid_filing_def)
  ultimately show ?thesis using record_transaction_frame(3,8,18) [OF rec] db1 rec by (intro that) simp_all
qed

lemma credit_effect:
  assumes "enter_credit e db f actor r key s = Inr (p, db')" and "find_filing db (fe_id f) = Some f"
  obtains t where "payments db' = payments db @ [p]" and "transactions db' = transactions db @ [t]"
    and "fee_payment_event t" and "tx_filing t = fe_id f" and "signed_amount t = Some (py_amount p)"
    and "simulated_flag t = Some (py_simulated p)" and "court_of db' = court_of db"
    and "p = credit_payment e db f actor r key s"
proof -
  let ?p = "credit_payment e db f actor r key s"
  let ?kvs = "[(''payment'', payment_event_json ?p [(''fee_basis'', basis_json s), (''external_receipt'', jopt id (py_receipt ?p))])]"
  from assms(1) obtain db2 where p: "p = ?p"
    and ent: "enter_payment e ?p f ''fee_payment_recorded'' (us_id actor) (Some (cr_reason r)) ?kvs db = Inr db2"
    and log: "same_payments db2 db'"
    unfolding enter_credit_def Let_def by (auto simp: then_do_Inr_iff split: if_splits)
  obtain t db1 where t: "payments db2 = payments db @ [?p]" "transactions db2 = transactions db @ [t]"
    "tx_event t = ''fee_payment_recorded''" "tx_filing t = fe_id f" "court_of db2 = court_of db"
    "record_transaction e (paid_filing ?p f) ''fee_payment_recorded'' (us_id actor) (Some (cr_reason r)) None ?kvs db1 = Inr (t, db2)"
    by (rule payment_entry_effect [OF ent assms(2)])
  have "court_of db' = court_of db" using court_of_eq [of db' db2] t(5) log by (simp add: same_payments_def)
  with fee_event_parts [OF t(6)] t(1-4) log p show ?thesis
    by (intro that [of t]) (simp_all add: fee_payment_event_def same_payments_def)
qed

lemma reversal_effect:
  assumes "reverse_external_payment e db fid pid v why uid = Inr (p', db')"
  obtains (already) "db' = db"
    | (reversed) p t where "p \<in> set (payments db)" "py_id p = pid" "py_envelope p = Some fid" "py_request_key p \<noteq> None"
        "py_status p = PayCompleted" "payments db' = upd_row py_id pid (\<lambda>_. p\<lparr>py_status := PayReversed\<rparr>) (payments db)"
        "transactions db' = transactions db @ [t]" "fee_payment_event t" "tx_filing t = fid"
        "signed_amount t = Some (- py_amount p)" "simulated_flag t = Some (py_simulated p)" "court_of db' = court_of db"
proof -
  from assms obtain f actor p where lock: "lock_payment_filing e db fid uid = Inr (f, actor)"
    and p: "List.find (\<lambda>p. py_id p = pid \<and> py_envelope p = Some fid \<and> py_request_key p \<noteq> None) (payments db) = Some p"
    by (auto simp: reverse_external_payment_def then_do_Inr_iff split: option.splits)
  have f: "find_filing db fid = Some f" "fe_id f = fid"
    using lock_payment_filing_Inr(1) [OF lock] find_filing_id by auto
  have pm: "p \<in> set (payments db)" "py_id p = pid" "py_envelope p = Some fid" "py_request_key p \<noteq> None"
    using p by (auto simp: find_Some_iff)
  show ?thesis
  proof (cases "py_status p = PayReversed")
    case True
    with assms lock p show ?thesis by (intro already) (simp add: reverse_external_payment_def)
  next
    case False
    let ?p = "p\<lparr>py_status := PayReversed\<rparr>" and ?f = "f\<lparr>fe_payment_version := fe_payment_version f + 1\<rparr>"
    from assms lock p False obtain db1 t db2 where st: "py_status p = PayCompleted"
      and upd: "update_payment p ?p (save_filing e ?f db) = Inr db1"
      and rec: "record_transaction e ?f ''fee_payment_reversed'' (us_id actor) (Some why) None
        [(''payment'', payment_event_json ?p [(''external_receipt'', jopt id (py_receipt p))])] db1 = Inr (t, db2)"
      and log: "same_payments db2 db'"
      unfolding reverse_external_payment_def Let_def by (auto simp: then_do_Inr_iff split: if_splits)
    have db1: "db1 = payments_update (upd_row py_id pid (\<lambda>_. ?p)) (save_filing e ?f db)"
      using upd pm(2) by (simp add: update_payment_def split: if_splits)
    have "court_of (save_filing e ?f db) = court_of db" by (rule court_of_save [where f = f]) (simp_all add: f)
    then have "court_of db' = court_of db"
      using court_of_eq [OF record_transaction_frame(15) [OF rec]] log
      by (simp add: db1 court_of_def fun_eq_iff find_filing_def same_payments_def)
    then show ?thesis
      using fee_event_parts [OF rec] record_transaction_frame(3,8,17,18) [OF rec] pm st log f(2)
      by (intro reversed [of p t]) (simp_all add: db1 same_payments_def fee_payment_event_def)
  qed
qed

lemma sum_upd_row:
  assumes "p \<in> set rows" and "unique_key k rows" and "k q = k p"
  shows "sum_list (map g (upd_row k (k p) (\<lambda>_. q) rows)) = sum_list (map g rows) - g p + (g q :: int)"
  using assms(1,2)
proof (induction rows)
  case (Cons x rows)
  show ?case
  proof (cases "k x = k p")
    case True
    then have x: "x = p" using same_key_same_row [OF Cons.prems(2,1)] by simp
    have "upd_row k (k p) (\<lambda>_. q) rows = rows"
      using Cons.prems(2) x by (auto simp: upd_row_def unique_key_def intro!: map_idI) (metis image_eqI)
    with x show ?thesis by simp
  next
    case False
    with Cons show ?thesis by (auto simp: unique_key_def)
  qed
qed simp

text \<open>The operations on payments, and any other step: it leaves the payments, the fee events of the ledger
  and the courts of the filings alone.\<close>

inductive ledger_step :: "db \<Rightarrow> db \<Rightarrow> bool" where
  Simulated: "fresh_keys e \<Longrightarrow> process_payment e db r uid = Inr (p, db') \<Longrightarrow> ledger_step db db'"
| Credited: "fresh_keys e \<Longrightarrow> record_external_payment e db fid c key uid = Inr (p, db') \<Longrightarrow> ledger_step db db'"
| Reversed: "reverse_external_payment e db fid pid v why uid = Inr (p, db') \<Longrightarrow> ledger_step db db'"
| Unrelated: "payments db' = payments db \<Longrightarrow> fee_ledger db' = fee_ledger db \<Longrightarrow> courts_kept db db' \<Longrightarrow> ledger_step db db'"

lemma same_courts_kept: "court_of db' = court_of db \<Longrightarrow> courts_kept db db'"
  by (simp add: courts_kept_def)

text \<open>A step keeps the courts of the filings and only appends fee events.\<close>

definition ledger_grows :: "db \<Rightarrow> db \<Rightarrow> bool" where
  "ledger_grows db db' \<longleftrightarrow> courts_kept db db' \<and> prefix (fee_ledger db) (fee_ledger db')"

lemma ledger_grows_refl [simp]: "ledger_grows db db"
  by (simp add: ledger_grows_def courts_kept_def)

lemma ledger_grows_trans: "ledger_grows a b \<Longrightarrow> ledger_grows b c \<Longrightarrow> ledger_grows a c"
  by (auto simp: ledger_grows_def courts_kept_def intro: prefix_order.trans)

lemma reconciled_same:
  assumes "reconciled db" and "payments_ok db'" and "external_payments db' = external_payments db"
    and "fee_ledger db' = fee_ledger db" and "courts_kept db db'"
    and "\<And>c b. active_credits db' c b = sum_list (map (credit_value db' c b) (payments db))"
  shows "reconciled db' \<and> ledger_grows db db'"
  unfolding reconciled_def
proof (intro conjI allI ballI)
  show "ledger_grows db db'" using assms(4,5) by (simp add: ledger_grows_def)
next
  fix c b
  show "ledger_balance db' c b = active_credits db' c b"
    using kept_sums [OF assms(5,1), of c b] assms(1,6) by (simp add: ledger_balance_eq assms(4) reconciled_def)
next
  fix t assume "t \<in> set (fee_ledger db')"
  then show "court_of db' (tx_filing t) \<noteq> None" using assms(1,4,5) by (auto simp: reconciled_def courts_kept_def)
next
  fix p assume "p \<in> set (external_payments db')"
  then show "Option.bind (py_envelope p) (court_of db') \<noteq> None"
    using assms(1,3,5) by (cases "py_envelope p") (auto simp: reconciled_def courts_kept_def dest!: bspec)
qed (use assms(2) in simp)

lemma reconciled_entered:
  assumes "reconciled db" and "payments_ok db'" and "court_of db' = court_of db"
    and "transactions db' = transactions db @ [t]" and "fee_payment_event t" and "court_of db (tx_filing t) \<noteq> None"
    and "\<forall>p \<in> set (external_payments db'). Option.bind (py_envelope p) (court_of db) \<noteq> None"
    and "\<And>c b. active_credits db' c b = active_credits db c b + event_balance db c b t"
  shows "reconciled db' \<and> ledger_grows db db'"
proof -
  have fees: "fee_ledger db' = fee_ledger db @ [t]" using assms(4,5) by (simp add: fee_ledger_def)
  have "event_balance db' c b = event_balance db c b" for c b
    using assms(3) by (simp add: event_balance_def fun_eq_iff at_court_iff)
  then have "ledger_balance db' c b = ledger_balance db c b + event_balance db c b t" for c b
    by (simp add: ledger_balance_eq fees)
  with assms show ?thesis by (auto simp: reconciled_def fees ledger_grows_def courts_kept_def)
qed

lemma credit_value_same: "court_of db' = court_of db \<Longrightarrow> credit_value db' = credit_value db"
  by (intro ext) (simp add: credit_value_def)

lemma entry_balance:
  assumes "fee_payment_event t" and "signed_amount t = Some a" and "simulated_flag t = Some s"
  shows "event_balance db c b t = (if court_of db (tx_filing t) = Some c \<and> s = b then a else 0)"
  using assms by (simp add: event_balance_def at_court_iff)

lemma ledger_step_reconciled:
  assumes "ledger_step db db'" and "reconciled db"
  shows "reconciled db' \<and> ledger_grows db db'"
  using assms
proof (induction rule: ledger_step.induct)
  case (Simulated e db r uid p db')
  have ok: "payments_ok db" using Simulated.prems by (simp add: reconciled_def)
  then have ok': "payments_ok db'" using payment_step_keeps payment_step.Pay [OF Simulated.hyps] by blast
  from Simulated.hyps(2) show ?case
  proof (rule process_payment_Inr)
    fix f s kvs db2
    assume f: "find_filing db (pr_envelope r) = Some f"
      and p: "simulated_payment e db (pr_amount r) (pr_method r) uid (fe_id f) (basis_json s)
        (Some (''Filing #'' @ dec (pr_envelope r))) = Inr p"
      and ent: "enter_payment e p f ''payment_recorded'' uid None kvs db = Inr db2" and log: "same_payments db2 db'"
    have f': "find_filing db (fe_id f) = Some f" using f find_filing_id [OF f] by simp
    have key: "py_request_key p = None" using p by (auto simp: simulated_payment_def split: if_splits)
    obtain t where t: "payments db2 = payments db @ [p]" "transactions db2 = transactions db @ [t]"
      "tx_event t = ''payment_recorded''" "court_of db2 = court_of db"
      by (rule payment_entry_effect [OF ent f'])
    have eff: "payments db' = payments db @ [p]" "transactions db' = transactions db @ [t]" "court_of db' = court_of db"
      using t log court_of_eq [of db' db2] by (simp_all add: same_payments_def)
    show ?case
    proof (rule reconciled_same [OF Simulated.prems ok' _ _ same_courts_kept [OF eff(3)]])
      show "external_payments db' = external_payments db" using eff(1) key by (simp add: external_payments_def)
      show "fee_ledger db' = fee_ledger db" using eff(2) t(3) by (simp add: fee_ledger_def fee_payment_event_def)
      show "active_credits db' c b = sum_list (map (credit_value db' c b) (payments db))" for c b
        using eff(1) key by (simp add: active_credits_eq credit_value_def)
    qed
  qed
next
  case (Credited e db fid c key uid p db')
  have ok: "payments_ok db" using Credited.prems by (simp add: reconciled_def)
  then have ok': "payments_ok db'" using payment_step_keeps payment_step.Credit [OF Credited.hyps] by blast
  from Credited.hyps(2) show ?case
  proof (cases rule: record_external_payment_cases)
    case replayed
    with Credited.prems show ?thesis by simp
  next
    case (entered f actor s)
    have f: "find_filing db fid = Some f" using lock_payment_filing_Inr(1) [OF entered(1)] .
    then have f': "find_filing db (fe_id f) = Some f" using find_filing_id [OF f] by simp
    obtain t where t: "payments db' = payments db @ [p]" "transactions db' = transactions db @ [t]"
      "fee_payment_event t" "tx_filing t = fe_id f" "signed_amount t = Some (py_amount p)"
      "simulated_flag t = Some (py_simulated p)" "court_of db' = court_of db" "p = credit_payment e db f actor c key s"
      by (rule credit_effect [OF entered(6) f'])
    have p: "py_envelope p = Some (fe_id f)" "py_request_key p = Some key" "py_status p = PayCompleted"
      by (simp_all add: t(8) credit_payment_def)
    have court: "court_of db (fe_id f) = Some (fe_court f)" by (simp add: court_of_def f')
    show ?thesis
    proof (rule reconciled_entered [OF Credited.prems ok' t(7,2,3)])
      show "court_of db (tx_filing t) \<noteq> None" by (simp add: t(4) court)
      show "\<forall>p \<in> set (external_payments db'). Option.bind (py_envelope p) (court_of db) \<noteq> None"
        using Credited.prems p(1) court by (auto simp: external_payments_def t(1) reconciled_def)
      show "active_credits db' k b = active_credits db k b + event_balance db k b t" for k b
        using p court
        by (simp add: active_credits_eq t(1) credit_value_same [OF t(7)] entry_balance [OF t(3,5,6)] t(4) credit_value_def)
    qed
  qed
next
  case (Reversed e db fid pid v why uid p' db')
  have ok: "payments_ok db" using Reversed.prems by (simp add: reconciled_def)
  then have ok': "payments_ok db'" using payment_step_keeps payment_step.Reverse [OF Reversed.hyps] by blast
  from Reversed.hyps show ?case
  proof (cases rule: reversal_effect)
    case already
    with Reversed.prems show ?thesis by simp
  next
    case (reversed p t)
    have known: "Option.bind (py_envelope p) (court_of db) \<noteq> None"
      using Reversed.prems reversed(1,4) by (auto simp: reconciled_def external_payments_def)
    have uk: "unique_key py_id (payments db)" using ok by (simp add: payments_ok_def)
    show ?thesis
    proof (rule reconciled_entered [OF Reversed.prems ok' reversed(12,7,8)])
      show "court_of db (tx_filing t) \<noteq> None" using known by (simp add: reversed(3,9))
      show "\<forall>q \<in> set (external_payments db'). Option.bind (py_envelope q) (court_of db) \<noteq> None"
        using Reversed.prems known
        by (auto simp: external_payments_def reversed(6) reconciled_def upd_row_def reversed(3) split: if_splits)
      show "active_credits db' k b = active_credits db k b + event_balance db k b t" for k b
      proof -
        let ?p = "p\<lparr>py_status := PayReversed\<rparr>"
        have "active_credits db' k b = sum_list (map (credit_value db k b) (upd_row py_id (py_id p) (\<lambda>_. ?p) (payments db)))"
          by (simp only: active_credits_eq credit_value_same [OF reversed(12)] reversed(6) reversed(2))
        also have "\<dots> = active_credits db k b - credit_value db k b p + credit_value db k b ?p"
          unfolding active_credits_eq by (rule sum_upd_row [OF reversed(1) uk]) simp
        finally show ?thesis
          by (simp add: credit_value_def reversed(3-5,9) entry_balance [OF reversed(8,10,11)])
      qed
    qed
  qed
next
  case (Unrelated db' db)
  have same: "payments_ok db' = payments_ok db" "external_payments db' = external_payments db"
    by (simp_all add: payments_ok_def active_receipts_def used_keys_def external_payments_def Unrelated.hyps(1))
  show ?case
  proof (rule reconciled_same [OF Unrelated.prems _ same(2) Unrelated.hyps(2,3)])
    show "payments_ok db'" using Unrelated.prems by (simp add: same(1) reconciled_def)
    show "active_credits db' c b = sum_list (map (credit_value db' c b) (payments db))" for c b
      by (simp only: active_credits_eq Unrelated.hyps(1))
  qed
qed

lemma ledger_run:
  assumes "ledger_step\<^sup>*\<^sup>* db db'" and "reconciled db"
  shows "reconciled db' \<and> ledger_grows db db'"
  using assms by (induction rule: rtranclp_induct) (auto dest: ledger_step_reconciled intro: ledger_grows_trans)


section \<open>Examples\<close>

definition utc_zones :: zones where
  "utc_zones tz = (if tz = ''UTC'' then Some (\<lambda>d. Some ((d - 719163) * 86400000000)) else None)"

definition example_query :: register_query where
  "example_query = \<lparr>gq_court = 3, gq_from = utc_date (now example_env), gq_to = utc_date (now example_env),
     gq_zone = ''UTC'', gq_include = True\<rparr>"

theorem register_csv_reads_back_witness:
  "\<exists>text body row. register_csv example_env utc_zones (snd credited) example_query 4 = Inr text
     \<and> text = byte_order_mark @ body \<and> read_csv Between [] [] [] body = Some [register_fields, row]"
proof -
  have "case open_register utc_zones (snd credited) example_query 4 of Inr (p, ts) \<Rightarrow> length ts = 1 | _ \<Rightarrow> False"
    by code_simp
  then obtain x y us where n: "open_register utc_zones (snd credited) example_query 4 = Inr ((x, y), us)" "length us = 1"
    by (auto split: sum.splits)
  then obtain csv where csv: "register_csv example_env utc_zones (snd credited) example_query 4 = Inr csv"
    by (simp add: register_csv_def Let_def)
  from register_csv_reads_back [OF csv] obtain lo hi ts r body where
      o: "open_register utc_zones (snd credited) example_query 4 = Inr ((lo, hi), ts)"
      and r: "r = register_of example_env lo hi ts (newest_events ts)" and b: "csv = byte_order_mark @ body"
      and read: "read_csv Between [] [] [] body
        = Some (register_fields # map (register_row example_env example_query r) (rg_entries r))"
    by blast
  have "length ts = 1" using n o by simp
  then obtain a where "rg_entries r = [a]"
    by (auto simp: r register_of_def newest_events_def length_Suc_conv)
  with csv b read show ?thesis by auto
qed


end
