(* ===== verification/Queues.thy ===== *)
theory Queues
  imports Dockets FilingApi Review
begin

text \<open>
  The lists of filings: a filer's own with the counts by status (\<open>api/filings.py\<close>) and the review queue
  of a court (\<open>api/clerk_review.py\<close>), with their queries of \<open>services/filing_service.py\<close>.
\<close>

section \<open>Summaries\<close>

record summary =
  sm_id :: int
  sm_court :: int
  sm_case :: "int option"
  sm_filer :: int
  sm_status :: filing_status
  sm_title :: "string option"
  sm_description :: "string option"
  sm_submitted_at :: "datetime option"
  sm_reason :: "string option"
  sm_waiver_requested :: bool
  sm_waiver_granted :: "bool option"
  sm_created_at :: datetime
  sm_updated_at :: datetime
  sm_submission_count :: int
  sm_document_count :: nat

definition document_count :: "db \<Rightarrow> int \<Rightarrow> nat" where
  "document_count db fid = length (filter (\<lambda>d. dc_envelope d = fid \<and> dc_removed_at d = None
     \<and> dc_type d \<notin> set court_document_types) (documents db))"

definition summary_of :: "db \<Rightarrow> envelope \<Rightarrow> summary" where
  "summary_of db f =
     \<lparr>sm_id = fe_id f, sm_court = fe_court f, sm_case = fe_case f, sm_filer = fe_filer f, sm_status = fe_status f,
      sm_title = fe_title f, sm_description = fe_description f, sm_submitted_at = fe_submitted_at f,
      sm_reason = fe_rejection_reason f, sm_waiver_requested = fe_waiver_requested f,
      sm_waiver_granted = fe_waiver_granted f, sm_created_at = fe_created_at f, sm_updated_at = fe_updated_at f,
      sm_submission_count = fe_submission_count f, sm_document_count = document_count db (fe_id f)\<rparr>"

section \<open>A filer's own filings\<close>

definition all_statuses :: "filing_status list" where
  "all_statuses = [Draft, Submitted, UnderReview, Accepted, Rejected, Returned, Served]"

definition own_filings :: "db \<Rightarrow> int \<Rightarrow> envelope list" where
  "own_filings db filer = filter (\<lambda>f. fe_filer f = filer) (filings db)"

definition filing_status_counts :: "db \<Rightarrow> int \<Rightarrow> (filing_status \<times> nat) list" where
  "filing_status_counts db filer =
     map (\<lambda>s. (s, length (filter (\<lambda>f. fe_status f = s) (own_filings db filer)))) all_statuses"

definition count_in :: "(filing_status \<times> nat) list \<Rightarrow> filing_status option \<Rightarrow> nat" where
  "count_in counts status = (case status of
     None \<Rightarrow> sum_list (map snd counts) | Some s \<Rightarrow> (case map_of counts s of None \<Rightarrow> 0 | Some n \<Rightarrow> n))"

definition newest_filings :: "envelope list \<Rightarrow> envelope list" where
  "newest_filings fs = rev (sort_key fe_updated_at (sort_key fe_id fs))"

definition list_filings ::
    "db \<Rightarrow> int \<Rightarrow> filing_status option \<Rightarrow> nat \<Rightarrow> nat \<Rightarrow> summary list \<times> nat \<times> (filing_status \<times> nat) list" where
  "list_filings db filer status pg sz =
     (let counts = filing_status_counts db filer; total = count_in counts status in
      if total = 0 then ([], 0, counts)
      else (map (summary_of db) (page_of pg sz (newest_filings
             (filter (\<lambda>f. status = None \<or> status = Some (fe_status f)) (own_filings db filer)))), total, counts))"

record my_filings =
  my_filings :: "summary list"
  my_total :: nat
  my_counts :: "(filing_status \<times> nat) list"
  my_courts :: "(int \<times> string) list"

definition list_my_filings :: "db \<Rightarrow> int \<Rightarrow> filing_status option \<Rightarrow> nat \<Rightarrow> nat \<Rightarrow> my_filings" where
  "list_my_filings db uid status pg sz =
     (let (fs, total, counts) = list_filings db uid status pg sz
      in \<lparr>my_filings = fs, my_total = total, my_counts = counts,
          my_courts = map (\<lambda>c. (ct_id c, ct_name c)) (filter (\<lambda>c. ct_id c \<in> sm_court ` set fs) (courts db))\<rparr>)"

definition filing_summary :: "db \<Rightarrow> int \<Rightarrow> (filing_status \<times> nat) list" where
  "filing_summary db uid = filing_status_counts db uid"

section \<open>The review queue\<close>

record queue_query =
  qq_status :: "filing_status option"
  qq_waivers :: bool
  qq_search :: string
  qq_waiting :: bool

definition awaiting_waiver :: "envelope \<Rightarrow> bool" where
  "awaiting_waiver f \<longleftrightarrow> fe_waiver_requested f \<and> fe_waiver_granted f = None \<and> fe_submitted_at f \<noteq> None
     \<and> fe_status f \<notin> {Rejected, Served}"

definition is_digit :: "char \<Rightarrow> bool" where
  "is_digit c \<longleftrightarrow> c \<in> set ''0123456789''"

definition number_of :: "string \<Rightarrow> int" where
  "number_of s = foldl (\<lambda>n c. n * 10 + (of_char c - 48)) 0 s"

definition search_filing :: "db \<Rightarrow> string \<Rightarrow> envelope \<Rightarrow> bool" where
  "search_filing db text f =
     (let s = str_strip text in
      if starts_with s ''#'' \<and> tl s \<noteq> [] \<and> list_all is_digit (tl s)
      then number_of (tl s) \<le> max_record_id \<and> fe_id f = number_of (tl s)
      else if s \<noteq> []
      then (case fe_title f of None \<Rightarrow> False | Some t \<Rightarrow> icontains t s)
        \<or> (\<exists>c \<in> set (cases db). Some (cs_id c) = fe_case f \<and> icontains (cs_number c) s)
      else True)"

definition waiting_since :: "datetime \<Rightarrow> envelope \<Rightarrow> bool" where
  "waiting_since cutoff f \<longleftrightarrow> (case fe_submitted_at f of None \<Rightarrow> False | Some t \<Rightarrow> t \<le> cutoff)"

definition hours48 :: int where
  "hours48 = 172800000000"

definition queue_filter :: "env \<Rightarrow> db \<Rightarrow> int \<Rightarrow> queue_query \<Rightarrow> envelope \<Rightarrow> bool" where
  "queue_filter e db court q f \<longleftrightarrow> fe_court f = court
     \<and> (if qq_waivers q then awaiting_waiver f else awaiting_review f)
     \<and> (qq_status q = None \<or> qq_status q = Some (fe_status f))
     \<and> search_filing db (qq_search q) f
     \<and> (qq_waiting q \<longrightarrow> waiting_since (now e - hours48) f)"

text \<open>Oldest first; a missing time of submission sorts as \<open>NULLS LAST\<close>.\<close>

definition oldest_filings :: "envelope list \<Rightarrow> envelope list" where
  "oldest_filings fs = sort_key (\<lambda>f. fe_submitted_at f = None)
     (sort_key (\<lambda>f. the (fe_submitted_at f)) (sort_key fe_id fs))"

fun least :: "int option list \<Rightarrow> int option" where
  "least [] = None"
| "least (None # xs) = least xs"
| "least (Some x # xs) = (case least xs of None \<Rightarrow> Some x | Some y \<Rightarrow> Some (min x y))"

record clerk_queue =
  cq_filings :: "summary list"
  cq_total :: nat
  cq_submitted :: nat
  cq_under_review :: nat
  cq_waiting :: nat
  cq_oldest :: "datetime option"
  cq_as_of :: datetime

definition get_clerk_queue :: "env \<Rightarrow> db \<Rightarrow> int \<Rightarrow> queue_query \<Rightarrow> nat \<Rightarrow> nat \<Rightarrow> clerk_queue" where
  "get_clerk_queue e db court q pg sz =
     (let rows = filter (queue_filter e db court q) (filings db)
      in \<lparr>cq_filings = map (summary_of db) (page_of pg sz (oldest_filings rows)), cq_total = length rows,
          cq_submitted = length (filter (\<lambda>f. fe_status f = Submitted) rows),
          cq_under_review = length (filter (\<lambda>f. fe_status f = UnderReview) rows),
          cq_waiting = length (filter (waiting_since (now e - hours48)) rows),
          cq_oldest = least (map fe_submitted_at rows), cq_as_of = now e\<rparr>)"

definition get_review_queue :: "env \<Rightarrow> db \<Rightarrow> int \<Rightarrow> queue_query \<Rightarrow> nat \<Rightarrow> nat \<Rightarrow> int \<Rightarrow> failure + clerk_queue" where
  "get_review_queue e db court q pg sz uid =
     (if \<not> is_court_staff db (Some uid) court then Inl (Http 403 (Account Not_clerk_for_court))
      else if qq_status q \<notin> {None, Some Submitted, Some UnderReview} then Inl (Http 400 (Request Queue_status_unknown))
      else Inr (get_clerk_queue e db court q pg sz))"

section \<open>What the lists show\<close>

lemma status_counts_total: "count_in (filing_status_counts db uid) None = length (own_filings db uid)"
proof -
  have "sum_list (map (\<lambda>s. length (filter (\<lambda>f. fe_status f = s) fs)) all_statuses) = length fs" for fs
  proof (induction fs)
    case (Cons f fs)
    then show ?case by (cases "fe_status f") (simp_all add: all_statuses_def)
  qed (simp add: all_statuses_def)
  then show ?thesis by (simp add: count_in_def filing_status_counts_def comp_def)
qed

lemma status_count_of:
  "count_in (filing_status_counts db uid) (Some s) = length (filter (\<lambda>f. fe_status f = s) (own_filings db uid))"
  by (cases s) (simp_all add: count_in_def filing_status_counts_def all_statuses_def)

lemma list_filings_eq:
  "list_filings db uid status pg sz =
     (let rows = filter (\<lambda>f. status = None \<or> status = Some (fe_status f)) (own_filings db uid)
      in (map (summary_of db) (page_of pg sz (newest_filings rows)), length rows, filing_status_counts db uid))"
proof -
  let ?rows = "filter (\<lambda>f. status = None \<or> status = Some (fe_status f)) (own_filings db uid)"
  have total: "count_in (filing_status_counts db uid) status = length ?rows"
    by (cases status) (simp_all add: status_counts_total status_count_of eq_commute)
  show ?thesis
    by (cases "?rows = []") (simp_all add: list_filings_def Let_def total page_of_def newest_filings_def)
qed

lemma set_oldest [simp]: "set (oldest_filings fs) = set fs" "length (oldest_filings fs) = length fs"
  by (simp_all add: oldest_filings_def)

lemma sorted_all_False: "\<forall>x \<in> set xs. \<not> g x \<Longrightarrow> sorted (map g xs)"
  by (induction xs) auto

lemma oldest_sorted:
  assumes "\<forall>f \<in> set fs. fe_submitted_at f \<noteq> None"
  shows "sorted (map (\<lambda>f. the (fe_submitted_at f)) (oldest_filings fs))"
proof -
  let ?xs = "sort_key (\<lambda>f. the (fe_submitted_at f)) (sort_key fe_id fs)"
  have "sorted (map (\<lambda>f. fe_submitted_at f = None) ?xs)" using assms by (intro sorted_all_False) simp
  then have "oldest_filings fs = ?xs" unfolding oldest_filings_def by (rule sort_key_id_if_sorted)
  then show ?thesis by simp
qed

lemma queue_counts:
  "\<forall>f \<in> set rows. awaiting_review f \<Longrightarrow>
   length (filter (\<lambda>f. fe_status f = Submitted) rows) + length (filter (\<lambda>f. fe_status f = UnderReview) rows) = length rows"
  by (induction rows) (auto simp: awaiting_review_def)

definition whole_queue :: queue_query where
  "whole_queue = \<lparr>qq_status = None, qq_waivers = False, qq_search = [], qq_waiting = False\<rparr>"

lemma whole_queue_filter: "queue_filter e db court whole_queue f \<longleftrightarrow> fe_court f = court \<and> awaiting_review f"
  by (simp add: queue_filter_def whole_queue_def search_filing_def str_strip_def starts_with_def)

text \<open>C35: only staff of a court open its review queue. Its pages are together exactly the court's filings that
  await review and meet the query, each once, the longest waiting first; the counts of submitted
  and of begun reviews add up to the total; and without a restriction no filing that awaits review
  at the court is missing.\<close>

theorem review_queue_complete:
  assumes "get_review_queue e db court q pg sz uid = Inr c" and "\<not> qq_waivers q"
    and "length (filter (queue_filter e db court q) (filings db)) \<le> n * sz"
    and "\<forall>f \<in> set (filings db). awaiting_review f \<longrightarrow> fe_submitted_at f \<noteq> None"
    and "rows = oldest_filings (filter (queue_filter e db court q) (filings db))"
  shows "is_court_staff db (Some uid) court
    \<and> concat (map (\<lambda>pg. cq_filings (get_clerk_queue e db court q pg sz)) [1..<Suc n]) = map (summary_of db) rows
    \<and> sorted (map (\<lambda>f. the (fe_submitted_at f)) rows)
    \<and> cq_total c = length rows \<and> cq_submitted c + cq_under_review c = cq_total c
    \<and> (q = whole_queue \<longrightarrow> set rows = {f \<in> set (filings db). fe_court f = court \<and> awaiting_review f})"
proof -
  let ?fs = "filter (queue_filter e db court q) (filings db)"
  have c: "is_court_staff db (Some uid) court" "c = get_clerk_queue e db court q pg sz"
    using assms(1) by (auto simp: get_review_queue_def split: if_splits)
  have wait: "\<forall>f \<in> set ?fs. awaiting_review f" using assms(2) by (auto simp: queue_filter_def)
  have "cq_filings (get_clerk_queue e db court q p sz) = page_of p sz (map (summary_of db) rows)" for p
    by (simp add: get_clerk_queue_def Let_def assms(5) page_of_def take_map drop_map)
  then have "concat (map (\<lambda>pg. cq_filings (get_clerk_queue e db court q pg sz)) [1..<Suc n]) = map (summary_of db) rows"
    using pages_cover [of "map (summary_of db) rows" n sz] assms(3) by (simp only: length_map assms(5) set_oldest)
  moreover have "sorted (map (\<lambda>f. the (fe_submitted_at f)) rows)"
    unfolding assms(5) using wait assms(4) by (intro oldest_sorted) auto
  moreover have "cq_total c = length rows" by (simp add: c(2) get_clerk_queue_def Let_def assms(5))
  moreover have "cq_submitted c + cq_under_review c = cq_total c"
    using queue_counts [OF wait] by (simp add: c(2) get_clerk_queue_def Let_def)
  moreover have "set rows = {f \<in> set (filings db). fe_court f = court \<and> awaiting_review f}" if "q = whole_queue"
    using that by (auto simp: assms(5) whole_queue_filter)
  ultimately show ?thesis using c(1) by blast
qed

text \<open>The pages of a filer's list are together the filer's own filings of the status asked for, and the counts
  by status add up to all of them.\<close>

lemma own_filings_listed:
  assumes "length (own_filings db uid) \<le> n * sz"
  shows "concat (map (\<lambda>pg. my_filings (list_my_filings db uid None pg sz)) [1..<Suc n])
      = map (summary_of db) (newest_filings (own_filings db uid))
    \<and> sum_list (map snd (filing_summary db uid)) = length (own_filings db uid)"
proof -
  have eq: "my_filings (list_my_filings db uid None p sz) = page_of p sz (map (summary_of db) (newest_filings (own_filings db uid)))" for p
    by (simp add: list_my_filings_def list_filings_eq Let_def page_of_def take_map drop_map)
  show ?thesis
    unfolding eq using pages_cover [of "map (summary_of db) (newest_filings (own_filings db uid))" n sz] assms
      status_counts_total [of db uid]
    by (simp only: length_map) (simp add: newest_filings_def count_in_def filing_summary_def)
qed

definition queue_db :: db where
  "queue_db = example_court_db
     \<lparr>filings := map (fe_status_update (\<lambda>_. Submitted)) (filings example_court_db),
      court_roles := [\<lparr>ur_id = 1, ur_user = 2, ur_court = 3, ur_role = ClerkRole\<rparr>]\<rparr>"

theorem review_queue_complete_witness:
  "is_court_staff queue_db (Some 2) 3
   \<and> map sm_id (concat (map (\<lambda>pg. cq_filings (get_clerk_queue example_env queue_db 3 whole_queue pg 25)) [1..<Suc 1])) = [5]"
proof -
  obtain c where c: "get_review_queue example_env queue_db 3 whole_queue 1 25 2 = Inr c"
    by (simp add: get_review_queue_def queue_db_def is_court_staff_def staff_role_def whole_queue_def)
  have rows: "filter (queue_filter example_env queue_db 3 whole_queue) (filings queue_db) = filings queue_db"
    unfolding whole_queue_filter by (simp add: queue_db_def example_court_db_def awaiting_review_def)
  have fs: "map fe_id (oldest_filings (filings queue_db)) = [5]" "length (filings queue_db) = 1"
    by (simp_all add: queue_db_def example_court_db_def oldest_filings_def)
  have sub: "\<forall>f \<in> set (filings queue_db). awaiting_review f \<longrightarrow> fe_submitted_at f \<noteq> None"
    by (simp add: queue_db_def example_court_db_def)
  have w: "\<not> qq_waivers whole_queue" by (simp add: whole_queue_def)
  from review_queue_complete [OF c w _ sub refl, where n = 1] fs
  show ?thesis unfolding rows by (simp add: summary_of_def comp_def del: upt_Suc)
qed

end
