(* ===== verification/Portal.thy ===== *)
theory Portal
  imports Dockets Filing
begin

text \<open>
  What the portal shows of courts (\<open>api/courts.py\<close>, \<open>api/court_rules.py\<close>, \<open>api/public.py\<close>) and the
  cases and courts an account marks as favorites (\<open>api/favorites.py\<close>, the two tables of
  \<open>models/user.py\<close>). The city of a court is not a modelled column and a parameter; names are ordered by
  code points; fee schedules and checklists are plain selections of tables nothing else reads and are
  left out.
\<close>

section \<open>Courts\<close>

datatype tier = Appellate | Trial

definition appellate_types :: "court_type list" where
  "appellate_types = [CourtOfClaims, CourtOfAppeals, SupremeCourt]"

definition trial_types :: "court_type list" where
  "trial_types = [Circuit, District, ProbateCourt, Municipal]"

definition tier_of :: "string option \<Rightarrow> tier option" where
  "tier_of t = (if t = Some ''appellate'' then Some Appellate else if t = Some ''trial'' then Some Trial else None)"

record court_search =
  ch_county :: "string option"
  ch_type :: "court_type option"
  ch_tier :: "string option"
  ch_text :: "string option"
  ch_efiling_only :: bool

definition court_matches :: "(int \<Rightarrow> string option) \<Rightarrow> court_search \<Rightarrow> court \<Rightarrow> bool" where
  "court_matches city q c \<longleftrightarrow>
     (truthy (ch_county q) \<longrightarrow> icontains (ct_county c) (the (ch_county q)))
     \<and> (ch_type q \<noteq> None \<longrightarrow> ch_type q = Some (ct_type c))
     \<and> (case tier_of (ch_tier q) of None \<Rightarrow> True
        | Some Appellate \<Rightarrow> ct_type c \<in> set appellate_types | Some Trial \<Rightarrow> ct_type c \<in> set trial_types)
     \<and> (truthy (ch_text q) \<longrightarrow> icontains (ct_name c) (the (ch_text q))
          \<or> (case city (ct_id c) of None \<Rightarrow> False | Some s \<Rightarrow> icontains s (the (ch_text q)))
          \<or> icontains (ct_county c) (the (ch_text q)))
     \<and> (ch_efiling_only q \<longrightarrow> ct_efiling_enabled c)"

definition by_county :: "court list \<Rightarrow> court list" where
  "by_county cs = sort_key ct_county (sort_key ct_name (sort_key ct_id cs))"

definition list_courts :: "(int \<Rightarrow> string option) \<Rightarrow> db \<Rightarrow> court_search \<Rightarrow> nat \<Rightarrow> nat \<Rightarrow> court list \<times> nat" where
  "list_courts city db q pg sz =
     (let cs = filter (court_matches city q) (courts db) in (page_of pg sz (by_county cs), length cs))"

definition court_directory :: "db \<Rightarrow> (int \<times> string \<times> string) list" where
  "court_directory db = map (\<lambda>c. (ct_id c, ct_name c, ct_county c)) (by_county (courts db))"

definition get_court :: "db \<Rightarrow> int \<Rightarrow> failure + court" where
  "get_court db court =
     (case row_at ct_id court (courts db) of
        None \<Rightarrow> Inl (Http 404 (Record Court_not_found)) | Some c \<Rightarrow> Inr c)"

definition list_case_types :: "db \<Rightarrow> int \<Rightarrow> bool \<Rightarrow> case_type list" where
  "list_case_types db court inactive = filter (\<lambda>t. ty_court t = court \<and> (inactive \<or> ty_active t)) (case_types db)"

definition get_filing_requirements :: "db \<Rightarrow> int \<Rightarrow> int \<Rightarrow> string option \<Rightarrow> requirement list" where
  "get_filing_requirements db court ty filing_type =
     (let rs = sort_key (\<lambda>r. \<not> rq_required r)
            (filter (\<lambda>r. rq_court r = court \<and> rq_case_type r = Some ty) (requirements db))
      in if truthy filing_type then requirements_for_filing_type rs (the filing_type) else rs)"

section \<open>The figures on the public page\<close>

record public_stats =
  ps_courts :: nat
  ps_cases :: nat
  ps_filings :: nat
  ps_pending :: nat
  ps_types :: nat
  ps_max_mb :: int

definition get_public_platform_stats :: "env \<Rightarrow> db \<Rightarrow> public_stats" where
  "get_public_platform_stats e db =
     \<lparr>ps_courts = length (filter ct_efiling_enabled (courts db)),
      ps_cases = length (filter (\<lambda>c. \<not> cs_sealed c) (cases db)),
      ps_filings = length (filings db),
      ps_pending = length (filter (\<lambda>f. fe_status f \<in> {Submitted, UnderReview}) (filings db)),
      ps_types = card (rq_code ` set (requirements db)), ps_max_mb = st_max_file_mb (cfg e)\<rparr>"

section \<open>Favorites\<close>

text \<open>A row of either table; a user marks a case or court at most once.\<close>

record favorite =
  fv_id :: int
  fv_user :: int
  fv_target :: int
  fv_notes :: "string option"
  fv_at :: datetime

record favorites =
  favorite_cases :: "favorite list"
  favorite_courts :: "favorite list"

record favorite_request =
  fq_target :: int
  fq_notes :: "string option"

definition valid_favorite :: "favorite_request \<Rightarrow> bool" where
  "valid_favorite q \<longleftrightarrow> valid_record_id (fq_target q) \<and> length (or_text (fq_notes q) []) \<le> 500"

definition marked :: "favorite list \<Rightarrow> int \<Rightarrow> int \<Rightarrow> bool" where
  "marked rows uid target \<longleftrightarrow> (\<exists>f \<in> set rows. fv_user f = uid \<and> fv_target f = target)"

definition new_favorite :: "env \<Rightarrow> int \<Rightarrow> favorite_request \<Rightarrow> favorite list \<Rightarrow> favorite" where
  "new_favorite e uid q rows =
     \<lparr>fv_id = new_key e (map fv_id rows), fv_user = uid, fv_target = fq_target q, fv_notes = fq_notes q, fv_at = now e\<rparr>"

text \<open>The insert under the unique constraint, whose violation is reported as already marked.\<close>

definition mark :: "env \<Rightarrow> int \<Rightarrow> favorite_request \<Rightarrow> record_refusal \<Rightarrow> favorite list \<Rightarrow> failure + favorite \<times> favorite list" where
  "mark e uid q already rows =
     (let f = new_favorite e uid q rows in
      if marked rows uid (fq_target q) then Inl (Http 409 (Record already)) else Inr (f, rows @ [f]))"

definition unmark :: "int \<Rightarrow> int \<Rightarrow> favorite list \<Rightarrow> favorite list" where
  "unmark uid target rows = filter (\<lambda>f. \<not> (fv_user f = uid \<and> fv_target f = target)) rows"

definition newest_marks :: "favorite list \<Rightarrow> favorite list" where
  "newest_marks fs = rev (sort_key fv_at (sort_key fv_id fs))"

definition readable_mark :: "db \<Rightarrow> user \<Rightarrow> favorite \<Rightarrow> (favorite \<times> case_row) option" where
  "readable_mark db u f = (case row_at cs_id (fv_target f) (cases db) of
     None \<Rightarrow> None | Some c \<Rightarrow> if case_visible db (Some u) c then Some (f, c) else None)"

definition list_favorites :: "db \<Rightarrow> favorites \<Rightarrow> user \<Rightarrow> (favorite \<times> case_row) list \<times> nat" where
  "list_favorites db fs u =
     (let rows = List.map_filter (readable_mark db u)
          (newest_marks (filter (\<lambda>f. fv_user f = us_id u) (favorite_cases fs)))
      in (rows, length rows))"

definition add_favorite ::
    "env \<Rightarrow> db \<Rightarrow> favorites \<Rightarrow> user \<Rightarrow> favorite_request \<Rightarrow> failure + (favorite \<times> case_row) \<times> favorites" where
  "add_favorite e db fs u q =
     (if \<not> valid_favorite q then Inl (Http 422 Invalid_request)
      else then_do (require_user_may_manage_efilings u) (\<lambda>u.
      case row_at cs_id (fq_target q) (cases db) of
        None \<Rightarrow> Inl (Http 404 (Destination Case_not_found))
      | Some c \<Rightarrow>
          if \<not> case_visible db (Some u) c then Inl (Http 404 (Destination Case_not_found))
          else then_do (mark e (us_id u) q Case_in_favorites (favorite_cases fs)) (\<lambda>(f, rows).
            Inr ((f, c), fs\<lparr>favorite_cases := rows\<rparr>))))"

definition remove_favorite :: "favorites \<Rightarrow> user \<Rightarrow> int \<Rightarrow> failure + favorites" where
  "remove_favorite fs u cid =
     then_do (require_user_may_manage_efilings u) (\<lambda>u.
       Inr (fs\<lparr>favorite_cases := unmark (us_id u) cid (favorite_cases fs)\<rparr>))"

definition list_favorite_courts :: "db \<Rightarrow> favorites \<Rightarrow> int \<Rightarrow> (favorite \<times> court option) list \<times> nat" where
  "list_favorite_courts db fs uid =
     (let rows = rev (sort_key fv_at (filter (\<lambda>f. fv_user f = uid) (favorite_courts fs)))
      in (map (\<lambda>f. (f, row_at ct_id (fv_target f) (courts db))) rows, length rows))"

definition add_favorite_court ::
    "env \<Rightarrow> db \<Rightarrow> favorites \<Rightarrow> user \<Rightarrow> favorite_request \<Rightarrow> failure + (favorite \<times> court) \<times> favorites" where
  "add_favorite_court e db fs u q =
     (if \<not> valid_favorite q then Inl (Http 422 Invalid_request)
      else then_do (require_user_may_manage_efilings u) (\<lambda>u.
      case row_at ct_id (fq_target q) (courts db) of
        None \<Rightarrow> Inl (Http 404 (Record Court_not_found))
      | Some c \<Rightarrow> then_do (mark e (us_id u) q Court_in_favorites (favorite_courts fs)) (\<lambda>(f, rows).
            Inr ((f, c), fs\<lparr>favorite_courts := rows\<rparr>))))"

definition remove_favorite_court :: "favorites \<Rightarrow> user \<Rightarrow> int \<Rightarrow> failure + favorites" where
  "remove_favorite_court fs u court =
     then_do (require_user_may_manage_efilings u) (\<lambda>u.
       Inr (fs\<lparr>favorite_courts := unmark (us_id u) court (favorite_courts fs)\<rparr>))"

section \<open>Lemmas\<close>

lemma tiers_partition: "(ct \<in> set appellate_types) \<noteq> (ct \<in> set trial_types)"
  by (cases ct) (simp_all add: appellate_types_def trial_types_def)

lemma mark_Inr:
  "mark e uid q r rows = Inr (f, rows') \<longleftrightarrow> \<not> marked rows uid (fq_target q) \<and> f = new_favorite e uid q rows \<and> rows' = rows @ [f]"
  by (auto simp: mark_def Let_def)

lemma unmark_mark: "mark e uid q r rows = Inr (f, rows') \<Longrightarrow> unmark uid (fq_target q) rows' = rows"
  by (auto simp: mark_Inr unmark_def new_favorite_def marked_def filter_id_conv)

lemma marked_after: "mark e uid q r rows = Inr (f, rows') \<Longrightarrow> marked rows' uid (fq_target q)"
  by (simp add: mark_Inr marked_def new_favorite_def)

lemma readable_mark_iff:
  "readable_mark db u f = Some (g, c) \<longleftrightarrow> g = f \<and> row_at cs_id (fv_target f) (cases db) = Some c \<and> case_visible db (Some u) c"
  by (auto simp: readable_mark_def split: option.splits)

lemma list_favorites_set:
  "set (fst (list_favorites db fs u)) = {(f, c). f \<in> set (favorite_cases fs) \<and> fv_user f = us_id u
     \<and> row_at cs_id (fv_target f) (cases db) = Some c \<and> case_visible db (Some u) c}"
  by (auto simp: list_favorites_def Let_def map_filter_set newest_marks_def readable_mark_iff)

lemma add_favorite_Inr:
  assumes "add_favorite e db fs u q = Inr ((f, c), fs')"
  shows "us_type u \<noteq> PublicUser \<and> row_at cs_id (fq_target q) (cases db) = Some c \<and> case_visible db (Some u) c
    \<and> mark e (us_id u) q Case_in_favorites (favorite_cases fs) = Inr (f, favorite_cases fs')
    \<and> favorite_courts fs' = favorite_courts fs"
  using assms
  by (auto simp: add_favorite_def then_do_Inr_iff require_user_may_manage_efilings_def split: option.splits if_splits)

text \<open>Marking a case works only for a case the account can read, shows it in the account's list and in
  nobody else's, is refused the second time, and is undone exactly by removing the mark. A list
  shows only cases the account can still read, so a case sealed since disappears from it.\<close>

theorem favorite_marks:
  assumes "add_favorite e db fs u q = Inr ((f, c), fs')"
  shows "case_visible db (Some u) c \<and> cs_id c = fq_target q \<and> (f, c) \<in> set (fst (list_favorites db fs' u))
    \<and> (\<forall>v. us_id v \<noteq> us_id u \<longrightarrow> set (fst (list_favorites db fs' v)) = set (fst (list_favorites db fs v)))
    \<and> add_favorite e' db fs' u q = Inl (Http 409 (Record Case_in_favorites))
    \<and> remove_favorite fs' u (fq_target q) = Inr fs
    \<and> (\<forall>db' v. list_all (\<lambda>(g, k). case_visible db' (Some v) k) (fst (list_favorites db' fs' v)))"
proof -
  note a = add_favorite_Inr [OF assms]
  then have m: "mark e (us_id u) q Case_in_favorites (favorite_cases fs) = Inr (f, favorite_cases fs')" by blast
  then have f: "f = new_favorite e (us_id u) q (favorite_cases fs)" "favorite_cases fs' = favorite_cases fs @ [f]"
    by (simp_all add: mark_Inr)
  have valid: "valid_favorite q" using assms by (auto simp: add_favorite_def split: if_splits)
  have "(f, c) \<in> set (fst (list_favorites db fs' u))"
    using a f(2) by (simp add: list_favorites_set) (simp add: f(1) new_favorite_def)
  moreover have "set (fst (list_favorites db fs' v)) = set (fst (list_favorites db fs v))" if "us_id v \<noteq> us_id u" for v
    using that unfolding list_favorites_set f(2) by (auto simp: f(1) new_favorite_def)
  moreover have "add_favorite e' db fs' u q = Inl (Http 409 (Record Case_in_favorites))"
    using a marked_after [OF m] valid
    by (simp add: add_favorite_def require_user_may_manage_efilings_def mark_def Let_def)
  moreover have "fs'\<lparr>favorite_cases := favorite_cases fs\<rparr> = fs" using a by simp
  then have "remove_favorite fs' u (fq_target q) = Inr fs"
    using a unmark_mark [OF m] by (simp add: remove_favorite_def require_user_may_manage_efilings_def)
  moreover have "list_all (\<lambda>(g, k). case_visible db' (Some v) k) (fst (list_favorites db' fs' v))" for db' v
    unfolding list_all_iff list_favorites_set by auto
  ultimately show ?thesis using a row_at_SomeD [of cs_id "fq_target q" "cases db" c] by blast
qed

definition favorite_example :: favorite_request where
  "favorite_example = \<lparr>fq_target = 7, fq_notes = Some ''n''\<rparr>"

theorem favorite_marks_witness:
  "\<exists>x fs'. add_favorite example_env example_court_db \<lparr>favorite_cases = [], favorite_courts = []\<rparr> example_participant_user
       favorite_example = Inr (x, fs')
     \<and> x \<in> set (fst (list_favorites example_court_db fs' example_participant_user))
     \<and> remove_favorite fs' example_participant_user 7 = Inr \<lparr>favorite_cases = [], favorite_courts = []\<rparr>"
proof -
  let ?add = "add_favorite example_env example_court_db \<lparr>favorite_cases = [], favorite_courts = []\<rparr> example_participant_user
    favorite_example"
  have "case ?add of Inr _ \<Rightarrow> True | _ \<Rightarrow> False" by code_simp
  then obtain f c fs' where run: "?add = Inr ((f, c), fs')" by (auto split: sum.splits)
  from favorite_marks [OF run] run show ?thesis by (auto simp: favorite_example_def)
qed

end
