(* ===== verification/StorageAudit.thy ===== *)
theory StorageAudit
  imports Deliveries "HOL-Library.List_Lexorder" "HOL-Library.Char_ord"
begin

text \<open>
  The audit of a restored collection (\<open>storage_audit.py\<close>): every stored file against its recorded
  digest and size, every retained receipt and every delivery against the rows they name. The command
  reads one snapshot of the database page by page and reports a result per item.
\<close>

section \<open>Reading a table page by page\<close>

text \<open>The loops that read the next rows after the last id until a page is empty.\<close>

definition after :: "('r \<Rightarrow> 'k::linorder) \<Rightarrow> 'k option \<Rightarrow> 'r list \<Rightarrow> 'r list" where
  "after key last_id rows = filter (\<lambda>r. case last_id of None \<Rightarrow> True | Some k \<Rightarrow> k < key r) rows"

definition next_page :: "('r \<Rightarrow> 'k::linorder) \<Rightarrow> nat \<Rightarrow> 'k option \<Rightarrow> 'r list \<Rightarrow> 'r list" where
  "next_page key n last_id rows = take n (sort_key key (after key last_id rows))"

lemma next_page_fewer:
  assumes "next_page key n last_id rows \<noteq> []"
  shows "length (after key (Some (key (last (next_page key n last_id rows)))) rows) < length (after key last_id rows)"
proof -
  let ?r = "last (next_page key n last_id rows)"
  have r: "?r \<in> set (after key last_id rows)"
    using last_in_set [OF assms] set_take_subset [of n "sort_key key (after key last_id rows)"]
    by (auto simp: next_page_def)
  then have "last_id = None \<or> (\<exists>k. last_id = Some k \<and> k < key ?r)"
    by (cases last_id) (auto simp: after_def)
  then have "after key (Some (key ?r)) rows = filter (\<lambda>r. key ?r < key r) (after key last_id rows)"
    by (auto simp: after_def intro!: filter_cong)
  then show ?thesis using r by (auto intro: length_filter_less)
qed

function pages :: "('r \<Rightarrow> 'k::linorder) \<Rightarrow> nat \<Rightarrow> 'r list \<Rightarrow> 'k option \<Rightarrow> 'r list list" where
  "pages key n rows last_id =
     (let page = next_page key n last_id rows in
      if page = [] then [] else page # pages key n rows (Some (key (last page))))"
  by pat_completeness auto

termination
  by (relation "measure (\<lambda>(key, n, rows, last_id). length (after key last_id rows))")
    (auto simp: next_page_fewer)

declare pages.simps [simp del]

section \<open>Results\<close>

datatype audit_status = Verified | Mismatch | Missing | InvalidReference | Unavailable | InvalidMetadata
  | MissingMetadata | ReceiptMismatch | InvalidManifest | MetadataConsistent | DeliveryMismatch

datatype row_ref = Row int | Uuid string

text \<open>The kind, id and status of a result, and its other keys.\<close>

record audit_result =
  ar_kind :: string
  ar_ref :: row_ref
  ar_status :: audit_status
  ar_facts :: "(string \<times> json) list"

definition result_of :: "string \<Rightarrow> row_ref \<Rightarrow> (string \<times> json) list \<Rightarrow> audit_status \<Rightarrow> audit_result" where
  "result_of kind i facts st = \<lparr>ar_kind = kind, ar_ref = i, ar_status = st, ar_facts = facts\<rparr>"

definition hex_digit :: "char \<Rightarrow> bool" where
  "hex_digit c \<longleftrightarrow> c \<in> set ''0123456789abcdef''"

definition valid_fingerprint :: "string \<Rightarrow> int \<Rightarrow> bool" where
  "valid_fingerprint d n \<longleftrightarrow> length d = 64 \<and> list_all hex_digit d \<and> 0 \<le> n"

text \<open>The fingerprint of a manifest entry, when it has one.\<close>

definition entry_fingerprint :: "json \<Rightarrow> (string \<times> int) option" where
  "entry_fingerprint j =
     (case (jvalue ''sha256_hash'' j, jvalue ''file_size_bytes'' j) of
        (JStr d, JInt n) \<Rightarrow> if valid_fingerprint d n then Some (d, n) else None
      | _ \<Rightarrow> None)"

definition filing_in :: "db \<Rightarrow> int option \<Rightarrow> int option \<Rightarrow> int \<Rightarrow> bool" where
  "filing_in db court cid fid \<longleftrightarrow> (\<exists>f \<in> set (filings db). fe_id f = fid
     \<and> (court = None \<or> Some (fe_court f) = court) \<and> (cid = None \<or> fe_case f = cid))"

section \<open>Files\<close>

text \<open>The name of the error of an unavailable file is left out.\<close>

definition file_result :: "env \<Rightarrow> string \<Rightarrow> int \<Rightarrow> string \<Rightarrow> string \<Rightarrow> int \<Rightarrow> audit_result" where
  "file_result e kind i key d n =
     (if \<not> valid_fingerprint d n then result_of kind (Row i) [] InvalidMetadata
      else let facts = [(''expected_sha256'', JStr d), (''expected_size_bytes'', JInt n)] in
        case stored e key of
          FileMissing \<Rightarrow> result_of kind (Row i) facts Missing
        | BadFileKey \<Rightarrow> result_of kind (Row i) facts InvalidReference
        | StorageDown \<Rightarrow> result_of kind (Row i) facts Unavailable
        | Stored h s \<Rightarrow> result_of kind (Row i) (facts @ [(''sha256'', JStr h), (''size_bytes'', JInt s)])
            (if h = d \<and> s = n then Verified else Mismatch))"

definition scoped_documents :: "db \<Rightarrow> int option \<Rightarrow> document list" where
  "scoped_documents db court =
     filter (\<lambda>d. court = None \<or> filing_in db court None (dc_envelope d)) (documents db)"

definition scoped_copies :: "db \<Rightarrow> int option \<Rightarrow> public_copy list" where
  "scoped_copies db court =
     filter (\<lambda>c. court = None \<or> pc_document c \<in> dc_id ` set (scoped_documents db court)) (public_copies db)"

definition inspect_files :: "env \<Rightarrow> db \<Rightarrow> int option \<Rightarrow> audit_result list" where
  "inspect_files e db court =
     concat (map (map (\<lambda>d. file_result e ''document'' (dc_id d) (dc_file_key d) (dc_sha256 d) (dc_size d)))
       (pages dc_id 250 (scoped_documents db court) None))
     @ concat (map (map (\<lambda>c. file_result e ''public_copy'' (pc_id c) (pc_file_key c) (pc_sha256 c) (pc_size c)))
         (pages pc_id 250 (scoped_copies db court) None))"

section \<open>Receipts\<close>

text \<open>What an entry of a receipt names; a public copy also names its row.\<close>

record receipt_ref =
  rf_receipt :: string
  rf_index :: nat
  rf_filing :: int
  rf_document :: int
  rf_copy :: "int option"
  rf_sha256 :: string
  rf_size :: int

definition ref_kind :: "bool \<Rightarrow> string" where
  "ref_kind is_copy = (if is_copy then ''receipt_public_copy'' else ''receipt_document'')"

definition ref_facts :: "receipt_ref \<Rightarrow> (string \<times> json) list" where
  "ref_facts r =
     [(''index'', JInt (int (rf_index r))), (''filing_id'', JInt (rf_filing r)),
      (''document_id'', JInt (rf_document r)), (''expected_sha256'', JStr (rf_sha256 r)),
      (''expected_size_bytes'', JInt (rf_size r))]
     @ (case rf_copy r of None \<Rightarrow> [] | Some c \<Rightarrow> [(''copy_id'', JInt c)])"

text \<open>The row a reference is compared with: the document, or the public copy.\<close>

definition stored_fingerprint :: "db \<Rightarrow> receipt_ref \<Rightarrow> (string \<times> int) option" where
  "stored_fingerprint db r =
     (case rf_copy r of
        None \<Rightarrow> map_option (\<lambda>d. (dc_sha256 d, dc_size d)) (row_at dc_id (rf_document r) (documents db))
      | Some c \<Rightarrow> map_option (\<lambda>p. (pc_sha256 p, pc_size p)) (row_at pc_id c (public_copies db)))"

definition copy_document :: "db \<Rightarrow> receipt_ref \<Rightarrow> int" where
  "copy_document db r =
     (case row_at_opt pc_id (rf_copy r) (public_copies db) of None \<Rightarrow> rf_document r | Some p \<Rightarrow> pc_document p)"

definition compare_ref :: "db \<Rightarrow> receipt_ref \<Rightarrow> audit_result" where
  "compare_ref db r = result_of (ref_kind (rf_copy r \<noteq> None)) (Uuid (rf_receipt r)) (ref_facts r)
     (case (row_at dc_id (rf_document r) (documents db), stored_fingerprint db r) of
        (Some d, Some fp) \<Rightarrow>
          if dc_envelope d \<noteq> rf_filing r \<or> copy_document db r \<noteq> rf_document r \<or> fp \<noteq> (rf_sha256 r, rf_size r)
          then ReceiptMismatch else MetadataConsistent
      | _ \<Rightarrow> MissingMetadata)"

definition receipt_events :: "string list" where
  "receipt_events = [''submitted'', ''service_recorded'', ''waiver_granted'', ''waiver_denied'',
     ''filing_date_ordered'', ''fee_review_requested'', ''fee_assessed'', ''public_copy_published'']"

definition is_copy_event :: "txn \<Rightarrow> bool" where
  "is_copy_event t \<longleftrightarrow> tx_event t = ''public_copy_published''"

text \<open>The entries of a receipt; none for a missing, empty or malformed manifest.\<close>

definition receipt_manifest :: "txn \<Rightarrow> json list" where
  "receipt_manifest t =
     (case tx_details t of
        JObj kvs \<Rightarrow>
          if is_copy_event t then [jvalue ''public_copy'' (tx_details t)]
          else (case jvalue ''documents'' (tx_details t) of JArr js \<Rightarrow> js | _ \<Rightarrow> [])
      | _ \<Rightarrow> [])"

definition positive_int :: "json \<Rightarrow> int option" where
  "positive_int j = (case j of JInt i \<Rightarrow> if 0 < i then Some i else None | _ \<Rightarrow> None)"

definition entry_ref :: "txn \<Rightarrow> nat \<Rightarrow> json \<Rightarrow> audit_result + receipt_ref" where
  "entry_ref t i j =
     (let row = positive_int (jvalue ''id'' j);
          doc = (if is_copy_event t then positive_int (jvalue ''document_id'' j) else row) in
      case (row, doc, entry_fingerprint j) of
        (Some r, Some d, Some (h, n)) \<Rightarrow>
          Inr \<lparr>rf_receipt = tx_id t, rf_index = i, rf_filing = tx_filing t, rf_document = d,
            rf_copy = (if is_copy_event t then Some r else None), rf_sha256 = h, rf_size = n\<rparr>
      | _ \<Rightarrow> Inl (result_of (ref_kind (is_copy_event t)) (Uuid (tx_id t))
               [(''index'', JInt (int i)), (''filing_id'', JInt (tx_filing t))] InvalidManifest))"

definition receipt_entries :: "txn \<Rightarrow> (audit_result + receipt_ref) list" where
  "receipt_entries t =
     (if receipt_manifest t = [] then [Inl (result_of ''receipt'' (Uuid (tx_id t)) [] InvalidManifest)]
      else map (\<lambda>(i, j). entry_ref t i j) (enumerate 0 (receipt_manifest t)))"

definition scoped_receipts :: "db \<Rightarrow> int option \<Rightarrow> int option \<Rightarrow> txn list" where
  "scoped_receipts db court cid =
     filter (\<lambda>t. tx_event t \<in> set receipt_events
       \<and> (court = None \<or> filing_in db court None (tx_filing t))
       \<and> (cid = None \<or> filing_in db None cid (tx_filing t))) (transactions db)"

text \<open>References wait until a batch of them is full; malformed entries are reported at once.\<close>

fun compare_batches :: "db \<Rightarrow> nat \<Rightarrow> receipt_ref list \<Rightarrow> (audit_result + receipt_ref) list \<Rightarrow> audit_result list" where
  "compare_batches db n pending [] = map (compare_ref db) pending"
| "compare_batches db n pending (Inl r # es) = r # compare_batches db n pending es"
| "compare_batches db n pending (Inr r # es) =
     (if length (pending @ [r]) = n then map (compare_ref db) (pending @ [r]) @ compare_batches db n [] es
      else compare_batches db n (pending @ [r]) es)"

definition inspect_receipts :: "db \<Rightarrow> int option \<Rightarrow> int option \<Rightarrow> audit_result list" where
  "inspect_receipts db court cid =
     compare_batches db 250 [] (concat (map (\<lambda>page. concat (map receipt_entries page))
       (pages tx_id 25 (scoped_receipts db court cid) None)))"

end
