(* ===== verification/DeliveryAudit.thy ===== *)
theory DeliveryAudit
  imports StorageAudit
begin

text \<open>
  The audit of the deliveries and the run of the whole audit (\<open>storage_audit.py\<close>): every packet
  against its filing, its receipt and the fingerprint of its selection, every recipient against the
  contact, the alert and the snapshot it was sent under.
\<close>

section \<open>The packets of a court or case\<close>

definition case_in :: "db \<Rightarrow> int option \<Rightarrow> int option \<Rightarrow> int \<Rightarrow> bool" where
  "case_in db court cid i \<longleftrightarrow> (\<exists>c \<in> set (cases db). cs_id c = i
     \<and> (court = None \<or> Some (cs_court c) = court) \<and> (cid = None \<or> Some (cs_id c) = cid))"

definition contact_row :: "db \<Rightarrow> recipient \<Rightarrow> service_contact option" where
  "contact_row db r = row_at sc_id (rc_contact r) (contacts db)"

definition contact_participant_case :: "db \<Rightarrow> recipient \<Rightarrow> int option" where
  "contact_participant_case db r =
     (case contact_row db r of
        None \<Rightarrow> None
      | Some ct \<Rightarrow> map_option pt_case (row_at_opt pt_id (sc_participant ct) (participants db)))"

definition notice_filing :: "db \<Rightarrow> recipient \<Rightarrow> int option" where
  "notice_filing db r = Option.bind (find_notice db (rc_notification r)) nt_filing"

definition linked :: "(int \<Rightarrow> bool) \<Rightarrow> int option \<Rightarrow> bool" where
  "linked P i \<longleftrightarrow> (case i of None \<Rightarrow> False | Some x \<Rightarrow> P x)"

definition recipient_in :: "db \<Rightarrow> int option \<Rightarrow> int option \<Rightarrow> recipient \<Rightarrow> bool" where
  "recipient_in db court cid r \<longleftrightarrow> linked (filing_in db court cid) (notice_filing db r)
     \<or> linked (case_in db court cid) (map_option sc_case (contact_row db r))"

definition packet_in :: "db \<Rightarrow> int option \<Rightarrow> int option \<Rightarrow> packet \<Rightarrow> bool" where
  "packet_in db court cid p \<longleftrightarrow> court = None \<and> cid = None
     \<or> case_in db court cid (pk_case p) \<or> filing_in db court cid (pk_filing p)
     \<or> linked (filing_in db court cid) (map_option tx_filing (row_at tx_id (pk_source p) (transactions db)))
     \<or> (\<exists>r \<in> set (recipients db). rc_packet r = pk_id p
          \<and> (recipient_in db court cid r \<or> linked (case_in db court cid) (contact_participant_case db r)))"

section \<open>A packet\<close>

text \<open>The manifest of a packet or receipt: distinct documents that read back, with fingerprints.\<close>

fun manifest_documents :: "json list \<Rightarrow> int list \<Rightarrow> saved_document list option" where
  "manifest_documents [] seen = Some []"
| "manifest_documents (j # js) seen =
     (case (positive_int (jvalue ''id'' j), entry_fingerprint j) of
        (Some i, Some fp) \<Rightarrow>
          if i \<in> set seen then None
          else (case (parse_saved j, manifest_documents js (i # seen)) of
                  (Some d, Some ds) \<Rightarrow> Some (d # ds) | _ \<Rightarrow> None)
      | _ \<Rightarrow> None)"

definition service_manifest :: "json \<Rightarrow> saved_document list option" where
  "service_manifest j = (case j of JArr (x # xs) \<Rightarrow> manifest_documents (x # xs) [] | _ \<Rightarrow> None)"

definition packet_selection :: "packet \<Rightarrow> txn \<Rightarrow> (saved_document list \<times> saved_document list) option" where
  "packet_selection p t =
     (case jvalue ''documents'' (pk_details p) of
        JArr js \<Rightarrow>
          if 100 < length js then None
          else (case (service_manifest (JArr js), service_manifest (jvalue ''documents'' (tx_details t))) of
                  (Some ds, Some os) \<Rightarrow> Some (ds, os) | _ \<Rightarrow> None)
      | _ \<Rightarrow> None)"

definition packet_facts :: "packet \<Rightarrow> (string \<times> json) list" where
  "packet_facts p =
     [(''filing_id'', JInt (pk_filing p)), (''source_transaction_id'', JStr (pk_source p))]
     @ (if valid_fingerprint (pk_request_sha256 p) 0
        then [(''selection_sha256'', JStr (pk_request_sha256 p))] else [])"

definition packet_result :: "packet \<Rightarrow> audit_status \<Rightarrow> string option \<Rightarrow> audit_result" where
  "packet_result p st reason = result_of ''service_packet'' (Uuid (pk_id p))
     (packet_facts p @ (case reason of None \<Rightarrow> [] | Some r \<Rightarrow> [(''reason'', JStr r)])) st"

definition is_obj :: "json \<Rightarrow> bool" where
  "is_obj j \<longleftrightarrow> (case j of JObj kvs \<Rightarrow> True | _ \<Rightarrow> False)"

definition source_matches :: "packet \<Rightarrow> envelope \<Rightarrow> case_row \<Rightarrow> txn \<Rightarrow> bool" where
  "source_matches p f c t \<longleftrightarrow> fe_case f = Some (pk_case p) \<and> fe_court f = cs_court c
     \<and> tx_filing t = pk_filing p \<and> tx_event t \<in> {''submitted'', ''service_recorded''}
     \<and> is_obj (tx_details t) \<and> jvalue ''case_id'' (tx_details t) = JInt (pk_case p)
     \<and> jvalue ''court_id'' (tx_details t) = JInt (cs_court c)
     \<and> jvalue ''filing_type'' (tx_details t) \<in> (\<lambda>s. JStr s) ` set delivered_types"

definition packet_targets :: "db \<Rightarrow> packet \<Rightarrow> recipient list" where
  "packet_targets db p = sort_key rc_id (filter (\<lambda>r. rc_packet r = pk_id p) (recipients db))"

definition selected_as_sent :: "saved_document list \<Rightarrow> saved_document list \<Rightarrow> bool" where
  "selected_as_sent ds os \<longleftrightarrow>
     (\<forall>d \<in> set ds. sv_type d \<notin> set private_document_types \<and> saved_with_id (sv_id d) os = Some d)"

definition packet_choices :: "packet \<Rightarrow> saved_document list \<Rightarrow> recipient list \<Rightarrow> packet_request" where
  "packet_choices p ds rs =
     \<lparr>pq_source = pk_source p, pq_documents = map sv_id ds,
      pq_recipients = map (\<lambda>r. (rc_contact r, rc_contact_version r)) rs, pq_reviewed = True\<rparr>"

definition selection_matches :: "env \<Rightarrow> packet \<Rightarrow> saved_document list \<Rightarrow> recipient list \<Rightarrow> bool" where
  "selection_matches e p ds rs \<longleftrightarrow>
     packet_fingerprint e (pk_filing p) (packet_choices p ds rs) = pk_request_sha256 p
     \<and> distinct (map rc_contact rs) \<and> distinct (map rc_user rs)"

section \<open>A recipient\<close>

definition is_int :: "json \<Rightarrow> bool" where
  "is_int j \<longleftrightarrow> (case j of JInt i \<Rightarrow> True | _ \<Rightarrow> False)"

definition snapshot_valid :: "recipient \<Rightarrow> service_contact \<Rightarrow> bool" where
  "snapshot_valid r ct \<longleftrightarrow> (let s = rc_snapshot r; q = jvalue ''participant_snapshot'' s in
     is_obj s \<and> is_obj q \<and> (\<forall>k \<in> {''id'', ''version'', ''user_id'', ''participant_id''}. is_int (jvalue k s))
     \<and> is_int (jvalue ''id'' q) \<and> is_int (jvalue ''user_id'' q)
     \<and> jvalue ''id'' s = JInt (rc_contact r) \<and> jvalue ''version'' s = JInt (rc_contact_version r)
     \<and> 1 \<le> rc_contact_version r \<and> rc_contact_version r \<le> sc_version ct
     \<and> jvalue ''user_id'' s = JInt (rc_user r)
     \<and> jvalue ''participant_id'' s = jopt JInt (sc_participant ct)
     \<and> jvalue ''id'' q = jvalue ''participant_id'' s \<and> jvalue ''user_id'' q = JInt (rc_user r)
     \<and> jvalue ''is_active'' q = JBool True \<and> jvalue ''is_active'' s = JBool True
     \<and> jvalue ''method'' s = JStr ''electronic''
     \<and> (case jvalue ''email'' s of JStr m \<Rightarrow> str_strip m \<noteq> [] | _ \<Rightarrow> False))"

definition recipient_status :: "db \<Rightarrow> packet \<Rightarrow> recipient \<Rightarrow> audit_status" where
  "recipient_status db p r =
     (case (find_notice db (rc_notification r), contact_row db r, contact_participant_case db r,
            find_user db (rc_user r)) of
        (Some n, Some ct, Some pc, Some u) \<Rightarrow>
          if \<not> snapshot_valid r ct then InvalidManifest
          else if sc_version ct = rc_contact_version r \<and> rc_snapshot r \<noteq> contact_snapshot ct then DeliveryMismatch
          else if sc_case ct \<noteq> pk_case p \<or> pc \<noteq> pk_case p \<or> nt_recipient n \<noteq> rc_user r
            \<or> nt_filing n \<noteq> Some (pk_filing p) \<or> nt_type n \<noteq> ServiceOfProcess then DeliveryMismatch
          else MetadataConsistent
      | _ \<Rightarrow> MissingMetadata)"

definition recipient_result :: "env \<Rightarrow> db \<Rightarrow> packet \<Rightarrow> recipient \<Rightarrow> audit_result" where
  "recipient_result e db p r = result_of ''service_recipient'' (Uuid (rc_id r))
     ([(''packet_id'', JStr (pk_id p)), (''notification_id'', JInt (rc_notification r))]
      @ (if is_obj (rc_snapshot r) then [(''contact_sha256'', JStr (digest e (rc_snapshot r)))] else []))
     (recipient_status db p r)"

section \<open>All packets\<close>

definition inspect_packet :: "env \<Rightarrow> db \<Rightarrow> packet \<Rightarrow> audit_result list" where
  "inspect_packet e db p =
     (case (find_filing db (pk_filing p), row_at cs_id (pk_case p) (cases db),
            row_at tx_id (pk_source p) (transactions db), find_user db (pk_actor p)) of
        (Some f, Some c, Some t, Some u) \<Rightarrow>
          if \<not> source_matches p f c t then [packet_result p DeliveryMismatch (Some ''source_destination'')]
          else (case packet_selection p t of
              None \<Rightarrow> [packet_result p InvalidManifest None]
            | Some (ds, os) \<Rightarrow>
                let rs = packet_targets db p in
                if \<not> selected_as_sent ds os
                then [packet_result p DeliveryMismatch (Some ''document_selection'')]
                else if length rs < 1 \<or> 100 < length rs
                then [packet_result p InvalidManifest (Some ''recipient_count'')]
                else if \<exists>r \<in> set rs. rc_contact r < 1 \<or> rc_contact_version r < 1 \<or> rc_user r < 1
                then [packet_result p InvalidManifest (Some ''recipient_selection'')]
                else (if selection_matches e p ds rs then packet_result p MetadataConsistent None
                      else packet_result p DeliveryMismatch (Some ''selection_fingerprint''))
                  # map (recipient_result e db p) rs)
      | _ \<Rightarrow> [packet_result p MissingMetadata None])"

definition orphan_in :: "db \<Rightarrow> int option \<Rightarrow> int option \<Rightarrow> recipient \<Rightarrow> bool" where
  "orphan_in db court cid r \<longleftrightarrow> row_at pk_id (rc_packet r) (packets db) = None
     \<and> (court = None \<and> cid = None \<or> recipient_in db court cid r)"

definition orphan_result :: "recipient \<Rightarrow> audit_result" where
  "orphan_result r = result_of ''service_recipient'' (Uuid (rc_id r))
     [(''packet_id'', JStr (rc_packet r))] MissingMetadata"

definition inspect_service_packets :: "env \<Rightarrow> db \<Rightarrow> int option \<Rightarrow> int option \<Rightarrow> audit_result list" where
  "inspect_service_packets e db court cid =
     concat (map (\<lambda>page. concat (map (inspect_packet e db) page))
       (pages pk_id 25 (filter (packet_in db court cid) (packets db)) None))
     @ concat (map (map orphan_result) (pages rc_id 250 (filter (orphan_in db court cid) (recipients db)) None))"

section \<open>The run\<close>

text \<open>\<open>failed_after\<close> is the number of results read before the database or the store failed, if it did.\<close>

record audit_report =
  rp_results :: "audit_result list"
  rp_complete :: bool
  rp_exit :: nat
  rp_checked :: "(string \<times> nat) list"

definition passing :: "audit_status \<Rightarrow> bool" where
  "passing st \<longleftrightarrow> st = Verified \<or> st = MetadataConsistent"

definition all_inspections :: "env \<Rightarrow> db \<Rightarrow> int option \<Rightarrow> audit_result list" where
  "all_inspections e db court =
     inspect_files e db court @ inspect_receipts db court None @ inspect_service_packets e db court None"

definition run_audit :: "env \<Rightarrow> db \<Rightarrow> int option \<Rightarrow> nat option \<Rightarrow> audit_report" where
  "run_audit e db court failed_after =
     (let known = (case court of None \<Rightarrow> True | Some c \<Rightarrow> row_at ct_id c (courts db) \<noteq> None);
          results = (if \<not> known then []
                     else case failed_after of None \<Rightarrow> all_inspections e db court
                                            | Some n \<Rightarrow> take n (all_inspections e db court));
          complete = (known \<and> failed_after = None);
          kinds = remdups (map ar_kind results)
      in \<lparr>rp_results = results, rp_complete = complete,
          rp_exit = (if \<not> complete then 2 else if list_all (\<lambda>r. passing (ar_status r)) results then 0 else 1),
          rp_checked = map (\<lambda>k. (k, length (filter (\<lambda>r. ar_kind r = k) results))) kinds\<rparr>)"

end
