(* ===== verification/CaseArchive.thy ===== *)
theory CaseArchive
  imports DeliveryAudit
begin

text \<open>
  The private archive of a case (\<open>case_export.py\<close>): the records of the case from one snapshot of the
  database, the stored bytes of its documents and copies, and a manifest of digests and sizes; and the
  verification of a received archive. An archive is the list of its entries with their bytes. The digest
  of bytes, the JSON codec, the line of a row and the object store are parameters. The judge of a case
  is not a modelled column.
\<close>

section \<open>Records\<close>

text \<open>A row of an exported table; users are exported with a limited profile.\<close>

record profile =
  pf_id :: int
  pf_first_name :: string
  pf_last_name :: string
  pf_email :: string
  pf_type :: user_type
  pf_bar_number :: "string option"
  pf_bar_verified :: bool
  pf_active :: bool

definition profile_of :: "user \<Rightarrow> profile" where
  "profile_of u =
     \<lparr>pf_id = us_id u, pf_first_name = us_first_name u, pf_last_name = us_last_name u, pf_email = us_email u,
      pf_type = us_type u, pf_bar_number = us_bar_number u, pf_bar_verified = us_bar_verified u,
      pf_active = us_active u\<rparr>"

datatype exported_row =
    CourtRow court | CaseRow case_row | CaseTypeRow case_type | EnvelopeRow envelope
  | DocumentRow document | CopyRow public_copy | TransactionRow txn | ParticipantRow participant
  | PaymentRow payment | ContactRow service_contact | PacketRow packet | RecipientRow recipient
  | EventRow service_event | NoticeRow notification | MailEventRow delivery_event
  | CalendarRow calendar | AuditRow audit_entry | UserRow profile

record archive_io =
  io_sha :: "string \<Rightarrow> string"
  io_line :: "exported_row \<Rightarrow> string option \<Rightarrow> string"
  io_encode :: "json \<Rightarrow> string"
  io_decode :: "string \<Rightarrow> json option"
  io_object :: "string \<Rightarrow> string option"
  io_revision :: "string option"
  io_output_exists :: bool

type_synonym archive = "(string \<times> string) list"

datatype archive_error =
    Case_id_not_positive | Output_exists | Case_missing | No_revision | Evidence_inconsistent
  | Payment_outside | Filing_court_differs | Document_fingerprint_invalid | Conflicting_metadata
  | Object_unavailable | Stored_bytes_differ | Manifest_too_large
  | Duplicate_entries | Manifest_fingerprint_differs | Unsupported_format | Contents_differ
  | Invalid_entry | Invalid_entry_fingerprint | Entry_differs | Malformed_manifest

text \<open>The accounts a row names (\<open>_ACTOR_FIELDS\<close>).\<close>

definition somes :: "int option list \<Rightarrow> int list" where
  "somes xs = List.map_filter id xs"

fun row_actors :: "exported_row \<Rightarrow> int list" where
  "row_actors (EnvelopeRow f) = somes [Some (fe_filer f), fe_reviewer f]"
| "row_actors (CopyRow c) = [pc_created_by c]"
| "row_actors (TransactionRow t) = [tx_actor t]"
| "row_actors (ParticipantRow p) = somes [pt_user p]"
| "row_actors (PaymentRow p) = somes [py_payer p]"
| "row_actors (ContactRow c) = somes [sc_user c, sc_reviewer c]"
| "row_actors (PacketRow p) = [pk_actor p]"
| "row_actors (RecipientRow r) = [rc_user r]"
| "row_actors (EventRow v) = [se_actor v]"
| "row_actors (NoticeRow n) = [nt_recipient n]"
| "row_actors (MailEventRow v) = somes [de_actor v]"
| "row_actors (CalendarRow c) = [ca_published_by c]"
| "row_actors (AuditRow a) = somes [au_user a]"
| "row_actors _ = []"

section \<open>The rows of a case\<close>

definition case_filings :: "db \<Rightarrow> int \<Rightarrow> envelope list" where
  "case_filings db cid = filter (\<lambda>f. fe_case f = Some cid) (filings db)"

definition case_documents :: "db \<Rightarrow> int \<Rightarrow> document list" where
  "case_documents db cid = filter (\<lambda>d. dc_envelope d \<in> fe_id ` set (case_filings db cid)) (documents db)"

definition case_copies :: "db \<Rightarrow> int \<Rightarrow> public_copy list" where
  "case_copies db cid = filter (\<lambda>c. pc_document c \<in> dc_id ` set (case_documents db cid)) (public_copies db)"

definition case_payments :: "db \<Rightarrow> int \<Rightarrow> payment list" where
  "case_payments db cid = filter (\<lambda>p. py_envelope p \<in> (\<lambda>f. Some (fe_id f)) ` set (case_filings db cid)
     \<or> Some (py_id p) \<in> fe_payment ` set (case_filings db cid)) (payments db)"

definition case_notices :: "db \<Rightarrow> int \<Rightarrow> notification list" where
  "case_notices db cid =
     filter (\<lambda>n. nt_filing n \<in> (\<lambda>f. Some (fe_id f)) ` set (case_filings db cid)) (notifications db)"

definition case_packets :: "db \<Rightarrow> int \<Rightarrow> packet list" where
  "case_packets db cid = filter (\<lambda>p. pk_case p = cid) (packets db)"

definition case_recipients :: "db \<Rightarrow> int \<Rightarrow> recipient list" where
  "case_recipients db cid = filter (\<lambda>r. rc_packet r \<in> pk_id ` set (case_packets db cid)) (recipients db)"

definition case_audit :: "db \<Rightarrow> int \<Rightarrow> audit_entry list" where
  "case_audit db cid = filter (\<lambda>a. case au_entity_id a of None \<Rightarrow> False | Some i \<Rightarrow>
       au_entity a = ''case'' \<and> i = cid
     \<or> au_entity a = ''filing_envelope'' \<and> i \<in> fe_id ` set (case_filings db cid)
     \<or> au_entity a = ''filing_document'' \<and> i \<in> dc_id ` set (case_documents db cid)
     \<or> au_entity a = ''document_public_copy'' \<and> i \<in> pc_id ` set (case_copies db cid)
     \<or> au_entity a = ''payment'' \<and> i \<in> py_id ` set (case_payments db cid)
     \<or> au_entity a = ''notification'' \<and> i \<in> nt_id ` set (case_notices db cid)) (audit db)"

text \<open>The tables and their rows in the order of the primary key; mail events and audit entries are kept
  in that order.\<close>

definition case_tables :: "db \<Rightarrow> case_row \<Rightarrow> (string \<times> exported_row list) list" where
  "case_tables db c = (let cid = cs_id c in
     [(''courts'', map CourtRow (filter (\<lambda>x. ct_id x = cs_court c) (courts db))),
      (''cases'', [CaseRow c]),
      (''case_types'', map CaseTypeRow (sort_key ty_id (filter (\<lambda>t. ty_id t = cs_case_type c
         \<or> ty_id t \<in> fe_case_type ` set (case_filings db cid)) (case_types db)))),
      (''filing_envelopes'', map EnvelopeRow (sort_key fe_id (case_filings db cid))),
      (''filing_documents'', map DocumentRow (sort_key dc_id (case_documents db cid))),
      (''document_public_copies'', map CopyRow (sort_key pc_id (case_copies db cid))),
      (''filing_transactions'', map TransactionRow (sort_key tx_id
         (filter (\<lambda>t. tx_filing t \<in> fe_id ` set (case_filings db cid)) (transactions db)))),
      (''case_participants'', map ParticipantRow (sort_key pt_id (filter (\<lambda>p. pt_case p = cid) (participants db)))),
      (''payments'', map PaymentRow (sort_key py_id (case_payments db cid))),
      (''service_contacts'', map ContactRow (sort_key sc_id (filter (\<lambda>x. sc_case x = cid) (contacts db)))),
      (''service_packets'', map PacketRow (sort_key pk_id (case_packets db cid))),
      (''service_recipients'', map RecipientRow (sort_key rc_id (case_recipients db cid))),
      (''service_events'', map EventRow (sort_key se_id
         (filter (\<lambda>v. se_recipient v \<in> rc_id ` set (case_recipients db cid)) (service_events db)))),
      (''notifications'', map NoticeRow (sort_key nt_id (case_notices db cid))),
      (''notification_delivery_events'', map MailEventRow
         (filter (\<lambda>v. de_notification v \<in> nt_id ` set (case_notices db cid)) (delivery_events db))),
      (''court_calendars'', map CalendarRow (sort_key ca_id (filter (\<lambda>x. ca_court x = cs_court c) (calendars db)))),
      (''audit_log'', map AuditRow (case_audit db cid))])"

definition case_users :: "db \<Rightarrow> (string \<times> exported_row list) list \<Rightarrow> exported_row list" where
  "case_users db tables =
     (let ids = concat (map row_actors (concat (map snd tables)))
      in map (\<lambda>u. UserRow (profile_of u)) (sort_key us_id (filter (\<lambda>u. us_id u \<in> set ids) (users db))))"

definition exported_tables :: "db \<Rightarrow> case_row \<Rightarrow> (string \<times> exported_row list) list" where
  "exported_tables db c = case_tables db c @ [(''users'', case_users db (case_tables db c))]"

section \<open>Writing the records\<close>

definition object_path :: "string \<Rightarrow> string" where
  "object_path h = ''objects/'' @ h"

text \<open>The object of a row: its key in the store, digest and size.\<close>

fun row_object :: "exported_row \<Rightarrow> (string \<times> string \<times> int) option" where
  "row_object (DocumentRow d) = Some (dc_file_key d, dc_sha256 d, dc_size d)"
| "row_object (CopyRow c) = Some (pc_file_key c, pc_sha256 c, pc_size c)"
| "row_object _ = None"

text \<open>The checks of a row, which collect the objects to copy.\<close>

definition note_row ::
    "case_row \<Rightarrow> exported_row \<Rightarrow> (string \<times> string \<times> int) list \<Rightarrow> archive_error + (string \<times> string \<times> int) list" where
  "note_row c r objects =
     (case r of
        EnvelopeRow f \<Rightarrow> if fe_court f \<noteq> cs_court c then Inl Filing_court_differs else Inr objects
      | _ \<Rightarrow>
          (case row_object r of
             None \<Rightarrow> Inr objects
           | Some (key, h, n) \<Rightarrow>
               if \<not> valid_fingerprint h n then Inl Document_fingerprint_invalid
               else if map_of objects key \<noteq> None \<and> map_of objects key \<noteq> Some (h, n)
               then Inl Conflicting_metadata
               else Inr (set_key key (h, n) objects)))"

fun note_rows ::
    "case_row \<Rightarrow> exported_row list \<Rightarrow> (string \<times> string \<times> int) list \<Rightarrow> archive_error + (string \<times> string \<times> int) list" where
  "note_rows c [] objects = Inr objects"
| "note_rows c (r # rs) objects = then_do (note_row c r objects) (note_rows c rs)"

definition row_line :: "archive_io \<Rightarrow> exported_row \<Rightarrow> string" where
  "row_line io r = io_line io r (map_option (\<lambda>(key, h, n). object_path h) (row_object r))"

definition table_entry :: "archive_io \<Rightarrow> string \<times> exported_row list \<Rightarrow> string \<times> string" where
  "table_entry io t = (''records/'' @ fst t @ ''.jsonl'', concat (map (row_line io) (snd t)))"

section \<open>Writing the objects and the manifest\<close>

text \<open>\<open>written\<close> are the entries so far with their bytes, \<open>listed\<close> their digests and sizes; an object with
  the digest of an earlier one is not written again.\<close>

fun copy_objects ::
    "archive_io \<Rightarrow> (string \<times> string \<times> int) list \<Rightarrow> archive \<Rightarrow> (string \<times> string \<times> int) list
       \<Rightarrow> archive_error + archive \<times> (string \<times> string \<times> int) list" where
  "copy_objects io [] written listed = Inr (written, listed)"
| "copy_objects io ((key, h, n) # os) written listed =
     (case io_object io key of
        None \<Rightarrow> Inl Object_unavailable
      | Some bytes \<Rightarrow>
          if io_sha io bytes \<noteq> h \<or> int (length bytes) \<noteq> n then Inl Stored_bytes_differ
          else copy_objects io os
            (if map_of listed (object_path h) = None then written @ [(object_path h, bytes)] else written)
            (set_key (object_path h) (h, n) listed))"

definition fingerprint_of :: "archive_io \<Rightarrow> string \<times> string \<Rightarrow> string \<times> string \<times> int" where
  "fingerprint_of io x = (fst x, io_sha io (snd x), int (length (snd x)))"

definition manifest_name :: string where
  "manifest_name = ''manifest.json''"

definition entries_json :: "(string \<times> string \<times> int) list \<Rightarrow> json" where
  "entries_json es = JObj (map (\<lambda>(p, h, n). (p, JObj [(''sha256'', JStr h), (''size_bytes'', JInt n)])) es)"

definition manifest_json ::
    "env \<Rightarrow> case_row \<Rightarrow> string \<Rightarrow> (string \<times> exported_row list) list \<Rightarrow> (string \<times> string \<times> int) list \<Rightarrow> json" where
  "manifest_json e c revision tables es = JObj
     [(''format'', JStr ''muefs-case-archive''), (''format_version'', JInt 1), (''case_id'', JInt (cs_id c)),
      (''court_id'', JInt (cs_court c)), (''schema_revision'', JStr revision),
      (''export_started_at'', JStr (iso_time e (now e))), (''finished_at'', JStr (iso_time e (now e))),
      (''counts'', JObj (map (\<lambda>(t, rs). (t, JInt (int (length rs)))) tables)),
      (''entries'', entries_json es), (''classification'', JStr ''private; includes nonpublic records'')]"

definition max_manifest_bytes :: int where
  "max_manifest_bytes = 32 * 1024 * 1024"

text \<open>The README is a fixed text of the program; its bytes are an argument.\<close>

definition write_archive ::
    "env \<Rightarrow> archive_io \<Rightarrow> string \<Rightarrow> db \<Rightarrow> case_row \<Rightarrow> string \<Rightarrow> archive_error + archive \<times> json" where
  "write_archive e io readme db c revision =
     (let tables = exported_tables db c; records = map (table_entry io) tables in
      then_do (note_rows c (concat (map snd tables)) []) (\<lambda>objects.
      then_do (copy_objects io objects records (map (fingerprint_of io) records)) (\<lambda>(written, listed).
      let entries = set_key ''README.txt'' (snd (fingerprint_of io (''README.txt'', readme))) listed;
          m = manifest_json e c revision tables entries; manifest = io_encode io m
      in if max_manifest_bytes < int (length manifest) then Inl Manifest_too_large
         else Inr (written @ [(''README.txt'', readme), (manifest_name, manifest)], m))))"

definition outside_payment :: "db \<Rightarrow> int \<Rightarrow> bool" where
  "outside_payment db cid \<longleftrightarrow> (\<exists>f \<in> set (case_filings db cid). \<exists>p \<in> set (payments db).
     fe_payment f = Some (py_id p) \<and> py_envelope p \<noteq> None
     \<and> py_envelope p \<notin> (\<lambda>f. Some (fe_id f)) ` set (case_filings db cid))"

definition case_evidence :: "env \<Rightarrow> db \<Rightarrow> int \<Rightarrow> audit_result list" where
  "case_evidence e db cid = inspect_receipts db None (Some cid) @ inspect_service_packets e db None (Some cid)"

definition export_case ::
    "env \<Rightarrow> archive_io \<Rightarrow> string \<Rightarrow> db \<Rightarrow> int \<Rightarrow> archive_error + archive \<times> json" where
  "export_case e io readme db cid =
     (if cid \<le> 0 then Inl Case_id_not_positive
      else if io_output_exists io then Inl Output_exists
      else case row_at cs_id cid (cases db) of
        None \<Rightarrow> Inl Case_missing
      | Some c \<Rightarrow>
          (if \<not> truthy (io_revision io) then Inl No_revision
           else if \<not> list_all (\<lambda>r. ar_status r = MetadataConsistent) (case_evidence e db cid)
           then Inl Evidence_inconsistent
           else if outside_payment db cid then Inl Payment_outside
           else write_archive e io readme db c (the (io_revision io))))"

text \<open>The fingerprint the command reports for the archive it wrote.\<close>

definition manifest_sha256 :: "archive_io \<Rightarrow> json \<Rightarrow> string" where
  "manifest_sha256 io m = io_sha io (io_encode io m)"

section \<open>Verifying a received archive\<close>

text \<open>The pattern of the names: the part between the folder and the extension.\<close>

definition entry_name_valid :: "string \<Rightarrow> bool" where
  "entry_name_valid name \<longleftrightarrow> name = ''README.txt''
     \<or> starts_with name ''records/'' \<and> ends_with name ''.jsonl'' \<and> 14 < length name
       \<and> list_all (\<lambda>c. c \<in> set ''abcdefghijklmnopqrstuvwxyz_'') (take (length name - 14) (drop 8 name))
     \<or> starts_with name ''objects/'' \<and> length name = 72 \<and> list_all hex_digit (drop 8 name)"

definition check_entry :: "archive_io \<Rightarrow> archive \<Rightarrow> string \<times> json \<Rightarrow> archive_error + unit" where
  "check_entry io a x =
     (let (name, expected) = x in
      if \<not> entry_name_valid name \<or> \<not> is_obj expected then Inl Invalid_entry
      else case map_of a name of
        None \<Rightarrow> Inl Contents_differ
      | Some bytes \<Rightarrow>
          (case (jvalue ''size_bytes'' expected, jvalue ''sha256'' expected) of
             (JInt n, JStr h) \<Rightarrow>
               if n < 0 \<or> int (length bytes) \<noteq> n \<or> \<not> (length h = 64 \<and> list_all hex_digit h)
               then Inl Invalid_entry_fingerprint
               else if io_sha io bytes \<noteq> h \<or> int (length bytes) \<noteq> n then Inl Entry_differs
               else Inr ()
           | _ \<Rightarrow> Inl Invalid_entry_fingerprint))"

fun check_entries :: "archive_io \<Rightarrow> archive \<Rightarrow> (string \<times> json) list \<Rightarrow> archive_error + unit" where
  "check_entries io a [] = Inr ()"
| "check_entries io a (x # xs) = then_do (check_entry io a x) (\<lambda>_. check_entries io a xs)"

definition supported :: "json \<Rightarrow> bool" where
  "supported m \<longleftrightarrow> is_obj m \<and> jvalue ''format'' m = JStr ''muefs-case-archive'' \<and> jvalue ''format_version'' m = JInt 1"

record verified =
  vf_case :: json
  vf_entries :: nat
  vf_sha256 :: string
  vf_checked :: bool

definition verify_archive :: "archive_io \<Rightarrow> archive \<Rightarrow> string option \<Rightarrow> archive_error + verified" where
  "verify_archive io a expected_sha =
     (if \<not> distinct (map fst a) \<or> manifest_name \<notin> set (map fst a) then Inl Duplicate_entries
      else let bytes = the (map_of a manifest_name); fp = io_sha io bytes in
        if max_manifest_bytes < int (length bytes) then Inl Manifest_too_large
        else if expected_sha \<noteq> None \<and> expected_sha \<noteq> Some fp then Inl Manifest_fingerprint_differs
        else case io_decode io bytes of
          None \<Rightarrow> Inl Malformed_manifest
        | Some m \<Rightarrow>
            (if \<not> supported m then Inl Unsupported_format
             else case jget ''entries'' m of
               None \<Rightarrow> Inl Malformed_manifest
             | Some (JObj es) \<Rightarrow>
                 (if set (map fst a) \<noteq> insert manifest_name (set (map fst es)) then Inl Contents_differ
                  else then_do (check_entries io a es) (\<lambda>_.
                    case jget ''case_id'' m of
                      None \<Rightarrow> Inl Malformed_manifest
                    | Some cid \<Rightarrow> Inr \<lparr>vf_case = cid, vf_entries = length es, vf_sha256 = fp,
                        vf_checked = (expected_sha \<noteq> None)\<rparr>))
             | Some _ \<Rightarrow> Inl Contents_differ))"

end
