(* ===== verification/AuditProofs.thy ===== *)
theory AuditProofs
  imports DeliveryAudit DeliveryProofs
begin

text \<open>
  The pages and batches of the audit lose nothing, so a run that ends with exit code 0 has found every
  file with its recorded bytes, every document of a receipt with the digest and size the receipt kept,
  and every delivery with the selection its receipt and its fingerprint stand for.
\<close>

section \<open>Pages and batches lose nothing\<close>

lemma sorted_map_last: "sorted (map key xs) \<Longrightarrow> x \<in> set xs \<Longrightarrow> key x \<le> key (last xs)"
  by (induction xs) (auto split: if_splits)

lemma filter_after_prefix:
  assumes "sorted (map key ys)" and "ys \<noteq> []"
    and later: "\<And>y z. y \<in> set ys \<Longrightarrow> z \<in> set zs \<Longrightarrow> key y < key z"
  shows "filter (\<lambda>r. key (last ys) < key r) (ys @ zs) = zs"
proof -
  have "filter (\<lambda>r. key (last ys) < key r) ys = []"
    using sorted_map_last [OF assms(1)] by (auto simp: filter_empty_conv leD)
  moreover have "filter (\<lambda>r. key (last ys) < key r) zs = zs"
    using later last_in_set [OF assms(2)] by (simp add: filter_id_conv)
  ultimately show ?thesis by simp
qed

lemma filter_after_take:
  assumes "sorted (map key xs)" and "distinct (map key xs)" and "take n xs \<noteq> []"
  shows "filter (\<lambda>r. key (last (take n xs)) < key r) xs = drop n xs"
proof -
  have s: "sorted (map key (take n xs @ drop n xs))" and d: "distinct (map key (take n xs @ drop n xs))"
    using assms(1,2) by simp_all
  have "key y < key z" if "y \<in> set (take n xs)" "z \<in> set (drop n xs)" for y z
  proof -
    have "key y \<le> key z" using s that unfolding map_append sorted_append by simp
    moreover have "key y \<noteq> key z" using d that unfolding map_append distinct_append by auto
    ultimately show ?thesis by simp
  qed
  moreover have "sorted (map key (take n xs))" using s unfolding map_append sorted_append by blast
  ultimately show ?thesis using filter_after_prefix [of key "take n xs" "drop n xs"] assms(3)
    unfolding append_take_drop_id by blast
qed

lemma after_last:
  assumes "r \<in> set (after key last_id rows)"
  shows "after key (Some (key r)) rows = filter (\<lambda>x. key r < key x) (after key last_id rows)"
  using assms by (cases last_id) (auto simp: after_def intro!: filter_cong)

text \<open>Reading a table with a unique key page by page gives its rows once each, in the order of the key.\<close>

lemma pages_complete:
  assumes "0 < n" and "distinct (map key rows)"
  shows "concat (pages key n rows last_id) = sort_key key (after key last_id rows)"
  using assms
proof (induction key n rows last_id rule: pages.induct)
  case (1 key n rows last_id)
  let ?S = "sort_key key (after key last_id rows)"
  have page: "next_page key n last_id rows = take n ?S" by (simp add: next_page_def)
  show ?case
  proof (cases "take n ?S = []")
    case True
    then have "?S = []" using 1(2) by simp
    with True page show ?thesis by (subst pages.simps) (simp add: Let_def)
  next
    case False
    have "last (take n ?S) \<in> set (after key last_id rows)"
      using last_in_set [OF False] set_take_subset [of n ?S] by auto
    from after_last [OF this] have "sort_key key (after key (Some (key (last (take n ?S)))) rows)
        = filter (\<lambda>x. key (last (take n ?S)) < key x) ?S"
      by (simp add: filter_sort)
    also have "\<dots> = drop n ?S"
    proof (rule filter_after_take [OF _ _ False])
      show "sorted (map key ?S)" by (rule sorted_sort_key)
      have "distinct (map key (after key last_id rows))"
        using 1(3) by (simp add: after_def distinct_map_filter)
      then show "distinct (map key ?S)"
        by (simp add: distinct_map inj_on_def)
    qed
    finally have rest: "sort_key key (after key (Some (key (last (take n ?S)))) rows) = drop n ?S" .
    have "concat (pages key n rows (Some (key (last (take n ?S))))) = drop n ?S"
      using 1(1) [OF refl] False 1(2,3) rest unfolding page by simp
    with False page show ?thesis
      by (subst pages.simps) (simp add: Let_def)
  qed
qed

lemma pages_set:
  "0 < n \<Longrightarrow> distinct (map key rows) \<Longrightarrow> set (concat (pages key n rows None)) = set rows"
  by (simp add: pages_complete after_def)

lemma page_results:
  assumes "0 < n" and "distinct (map key rows)" and "r \<in> set rows"
  shows "\<exists>page \<in> set (pages key n rows None). r \<in> set page"
  using pages_set [OF assms(1,2)] assms(3) by auto

lemma batches_set:
  "set (compare_batches db n pending es) = compare_ref db ` set pending \<union> case_sum id (compare_ref db) ` set es"
  by (induction db n pending es rule: compare_batches.induct) auto

section \<open>What a passing result says\<close>

lemma file_verified:
  assumes "passing (ar_status (file_result e kind i key d n))"
  shows "stored e key = Stored d n"
  using assms by (auto simp: file_result_def result_of_def passing_def Let_def split: if_splits stored_result.splits)

lemma audit_passes:
  assumes "rp_exit (run_audit e db court k) = 0" and "r \<in> set (all_inspections e db court)"
  shows "passing (ar_status r)"
  using assms by (auto simp: run_audit_def Let_def list_all_iff split: if_splits option.splits)

lemma in_inspections:
  "r \<in> set (inspect_files e db court) \<Longrightarrow> r \<in> set (all_inspections e db court)"
  "r \<in> set (inspect_receipts db court None) \<Longrightarrow> r \<in> set (all_inspections e db court)"
  "r \<in> set (inspect_service_packets e db court None) \<Longrightarrow> r \<in> set (all_inspections e db court)"
  by (simp_all add: all_inspections_def)

lemma receipt_reported:
  assumes "unique_key tx_id (transactions db)" and "t \<in> set (scoped_receipts db court cid)"
    and "x \<in> set (receipt_entries t)"
  shows "case_sum id (compare_ref db) x \<in> set (inspect_receipts db court cid)"
proof -
  have "distinct (map tx_id (scoped_receipts db court cid))"
    using assms(1) by (simp add: unique_key_def scoped_receipts_def distinct_map_filter)
  from page_results [OF _ this assms(2), of 25] assms(3) show ?thesis
    by (fastforce simp: inspect_receipts_def batches_set)
qed

lemma entry_passes:
  assumes "passing (ar_status (case_sum id (compare_ref db) (entry_ref t i j)))" and "\<not> is_copy_event t"
  shows "\<exists>d. d \<in> set (documents db) \<and> jvalue ''id'' j = JInt (dc_id d) \<and> dc_envelope d = tx_filing t
    \<and> jvalue ''sha256_hash'' j = JStr (dc_sha256 d) \<and> jvalue ''file_size_bytes'' j = JInt (dc_size d)"
proof -
  from assms(1) obtain k h n where ids: "positive_int (jvalue ''id'' j) = Some k"
      and fp: "entry_fingerprint j = Some (h, n)"
    using assms(2) by (auto simp: entry_ref_def Let_def result_of_def passing_def split: option.splits)
  from fp have j: "jvalue ''sha256_hash'' j = JStr h" "jvalue ''file_size_bytes'' j = JInt n"
    by (auto simp: entry_fingerprint_def split: json.splits if_splits)
  from ids have k: "jvalue ''id'' j = JInt k"
    by (auto simp: positive_int_def split: json.splits if_splits)
  have "entry_ref t i j = Inr \<lparr>rf_receipt = tx_id t, rf_index = i, rf_filing = tx_filing t, rf_document = k,
      rf_copy = None, rf_sha256 = h, rf_size = n\<rparr>"
    using ids fp assms(2) by (simp add: entry_ref_def Let_def)
  with assms(1) obtain d where d: "row_at dc_id k (documents db) = Some d" "dc_envelope d = tx_filing t"
      "dc_sha256 d = h" "dc_size d = n"
    by (auto simp: compare_ref_def result_of_def passing_def stored_fingerprint_def split: option.splits if_splits)
  with row_at_SomeD [OF d(1)] k j show ?thesis by (intro exI [of _ d]) simp
qed

lemma manifest_entry_reported:
  assumes "j \<in> set (receipt_manifest t)"
  shows "\<exists>i. entry_ref t i j \<in> set (receipt_entries t)"
proof -
  from assms obtain i where "i < length (receipt_manifest t)" "receipt_manifest t ! i = j"
    by (auto simp: in_set_conv_nth)
  then have "(i, j) \<in> set (enumerate 0 (receipt_manifest t))"
    by (auto simp: in_set_enumerate_eq)
  moreover have "receipt_manifest t \<noteq> []" using assms by auto
  ultimately show ?thesis by (force simp: receipt_entries_def)
qed

lemma document_verified:
  assumes "rp_exit (run_audit e db court k) = 0" and "unique_key dc_id (documents db)"
    and "d \<in> set (scoped_documents db court)"
  shows "stored e (dc_file_key d) = Stored (dc_sha256 d) (dc_size d)"
proof -
  have "distinct (map dc_id (scoped_documents db court))"
    using assms(2) by (simp add: unique_key_def scoped_documents_def distinct_map_filter)
  from page_results [OF _ this assms(3), of 250]
  have "file_result e ''document'' (dc_id d) (dc_file_key d) (dc_sha256 d) (dc_size d) \<in> set (inspect_files e db court)"
    by (force simp: inspect_files_def)
  from file_verified [OF audit_passes [OF assms(1) in_inspections(1) [OF this]]] show ?thesis .
qed

lemma copy_verified:
  assumes "rp_exit (run_audit e db court k) = 0" and "unique_key pc_id (public_copies db)"
    and "c \<in> set (scoped_copies db court)"
  shows "stored e (pc_file_key c) = Stored (pc_sha256 c) (pc_size c)"
proof -
  have "distinct (map pc_id (scoped_copies db court))"
    using assms(2) by (simp add: unique_key_def scoped_copies_def distinct_map_filter)
  from page_results [OF _ this assms(3), of 250]
  have "file_result e ''public_copy'' (pc_id c) (pc_file_key c) (pc_sha256 c) (pc_size c) \<in> set (inspect_files e db court)"
    by (force simp: inspect_files_def)
  from file_verified [OF audit_passes [OF assms(1) in_inspections(1) [OF this]]] show ?thesis .
qed

text \<open>An entry of a receipt that passes names a document of the filing, stored as the receipt says.\<close>

lemma entry_stored:
  assumes clean: "rp_exit (run_audit e db court k) = 0"
    and "unique_key dc_id (documents db)" and "unique_key tx_id (transactions db)"
    and t: "t \<in> set (scoped_receipts db court None)" "\<not> is_copy_event t" "j \<in> set (receipt_manifest t)"
  shows "\<exists>d h n. d \<in> set (documents db) \<and> jvalue ''id'' j = JInt (dc_id d) \<and> dc_envelope d = tx_filing t
    \<and> jvalue ''sha256_hash'' j = JStr h \<and> jvalue ''file_size_bytes'' j = JInt n \<and> stored e (dc_file_key d) = Stored h n"
proof -
  from manifest_entry_reported [OF t(3)] obtain i where "entry_ref t i j \<in> set (receipt_entries t)" ..
  note reported = receipt_reported [OF assms(3) t(1) this]
  from entry_passes [OF audit_passes [OF clean in_inspections(2) [OF reported]] t(2)]
  obtain d where d: "d \<in> set (documents db)" "jvalue ''id'' j = JInt (dc_id d)" "dc_envelope d = tx_filing t"
      "jvalue ''sha256_hash'' j = JStr (dc_sha256 d)" "jvalue ''file_size_bytes'' j = JInt (dc_size d)" by blast
  then have "d \<in> set (scoped_documents db court)" using t(1)
    by (auto simp: scoped_documents_def scoped_receipts_def)
  from document_verified [OF clean assms(2) this] d show ?thesis by blast
qed

section \<open>What a passing packet says\<close>

lemma packet_reported:
  assumes "unique_key pk_id (packets db)" and "p \<in> set (packets db)" and "packet_in db court cid p"
    and "r \<in> set (inspect_packet e db p)"
  shows "r \<in> set (inspect_service_packets e db court cid)"
proof -
  have "distinct (map pk_id (filter (packet_in db court cid) (packets db)))"
    using assms(1) by (simp add: unique_key_def distinct_map_filter)
  from page_results [OF _ this, of 25 p] assms(2-4) show ?thesis
    by (fastforce simp: inspect_service_packets_def)
qed

lemma packet_passes:
  assumes "\<And>r. r \<in> set (inspect_packet e db p) \<Longrightarrow> passing (ar_status r)"
  obtains f c t ds os where "find_filing db (pk_filing p) = Some f" "row_at cs_id (pk_case p) (cases db) = Some c"
    "row_at tx_id (pk_source p) (transactions db) = Some t" "source_matches p f c t"
    "packet_selection p t = Some (ds, os)" "selected_as_sent ds os"
    "selection_matches e p ds (packet_targets db p)"
    "\<And>r. r \<in> set (packet_targets db p) \<Longrightarrow> recipient_status db p r = MetadataConsistent"
proof -
  have np: "\<not> passing (ar_status (packet_result p st x))" if "st \<in> {DeliveryMismatch, InvalidManifest, MissingMetadata}" for st x
    using that by (auto simp: packet_result_def result_of_def passing_def)
  have rp: "passing (ar_status (recipient_result e db p r)) \<Longrightarrow> recipient_status db p r = MetadataConsistent" for r
    by (auto simp: recipient_result_def result_of_def passing_def recipient_status_def split: option.splits if_splits)
  have nb: "inspect_packet e db p \<noteq> [packet_result p st x]"
    if "st \<in> {DeliveryMismatch, InvalidManifest, MissingMetadata}" for st x
    using assms [of "packet_result p st x"] np [OF that] by auto
  obtain f c t u where rows: "find_filing db (pk_filing p) = Some f" "row_at cs_id (pk_case p) (cases db) = Some c"
      "row_at tx_id (pk_source p) (transactions db) = Some t" "find_user db (pk_actor p) = Some u"
    using nb [of MissingMetadata None]
    by (cases "find_filing db (pk_filing p)"; cases "row_at cs_id (pk_case p) (cases db)";
        cases "row_at tx_id (pk_source p) (transactions db)"; cases "find_user db (pk_actor p)")
      (simp_all add: inspect_packet_def)
  note step = inspect_packet_def [of e db p, unfolded rows option.case prod.case]
  have source: "source_matches p f c t"
    using nb [of DeliveryMismatch "Some ''source_destination''"] step by (cases "source_matches p f c t") simp_all
  obtain ds os where sel: "packet_selection p t = Some (ds, os)"
    using nb [of InvalidManifest None] step source by (cases "packet_selection p t") auto
  let ?rs = "packet_targets db p"
  note step = step [unfolded sel option.case prod.case Let_def]
  have sent: "selected_as_sent ds os"
    using nb [of DeliveryMismatch "Some ''document_selection''"] step source by (cases "selected_as_sent ds os") simp_all
  have number: "\<not> (length ?rs < 1 \<or> 100 < length ?rs)"
    using nb [of InvalidManifest "Some ''recipient_count''"] step source sent by auto
  have ids: "\<not> (\<exists>r \<in> set ?rs. rc_contact r < 1 \<or> rc_contact_version r < 1 \<or> rc_user r < 1)"
    using nb [of InvalidManifest "Some ''recipient_selection''"] step source sent number by (simp split: if_splits)
  have run: "inspect_packet e db p
      = (if selection_matches e p ds ?rs then packet_result p MetadataConsistent None
         else packet_result p DeliveryMismatch (Some ''selection_fingerprint''))
        # map (recipient_result e db p) ?rs"
    using step source sent number ids by simp
  have "selection_matches e p ds ?rs"
  proof (rule ccontr)
    assume "\<not> selection_matches e p ds ?rs"
    then have "packet_result p DeliveryMismatch (Some ''selection_fingerprint'') \<in> set (inspect_packet e db p)"
      unfolding run by simp
    from np [OF _ ] assms [OF this] show False by blast
  qed
  moreover have "recipient_status db p r = MetadataConsistent" if "r \<in> set ?rs" for r
    using assms [of "recipient_result e db p r"] that rp unfolding run by simp
  ultimately show ?thesis using rows source sel sent by (intro that)
qed

lemma manifest_member:
  "manifest_documents js seen = Some ds \<Longrightarrow> s \<in> set ds \<Longrightarrow> \<exists>j \<in> set js. parse_saved j = Some s"
proof (induction js arbitrary: seen ds)
  case (Cons j js)
  then obtain i d ds' where "parse_saved j = Some d" "manifest_documents js (i # seen) = Some ds'" "ds = d # ds'"
    by (auto split: option.splits if_splits)
  with Cons.IH Cons.prems(2) show ?case by auto
qed simp

lemma field_jvalue: "field k read j = Some v \<Longrightarrow> read (jvalue k j) = Some v"
  by (auto simp: field_def jvalue_def split: option.splits)

lemma parsed_values:
  assumes "parse_saved j = Some s"
  shows "jvalue ''id'' j = JInt (sv_id s) \<and> jvalue ''sha256_hash'' j = JStr (sv_sha256 s)
    \<and> jvalue ''file_size_bytes'' j = JInt (sv_size s)"
proof -
  have "field ''id'' json_int j = Some (sv_id s)" "field ''sha256_hash'' json_str j = Some (sv_sha256 s)"
      "field ''file_size_bytes'' json_int j = Some (sv_size s)"
    using assms by (auto simp: parse_saved_def split: option.splits)
  from this [THEN field_jvalue] show ?thesis by simp
qed

text \<open>The receipt of a consistent packet is one the audit checks entry by entry.\<close>

lemma source_receipt:
  assumes "source_matches p f c t" and "packet_selection p t = Some (ds, os)"
  shows "\<not> is_copy_event t \<and> tx_event t \<in> set receipt_events
    \<and> (\<forall>s \<in> set os. \<exists>j \<in> set (receipt_manifest t). parse_saved j = Some s)"
proof -
  from assms(2) obtain js where js: "jvalue ''documents'' (tx_details t) = JArr js" "manifest_documents js [] = Some os"
    by (auto simp: packet_selection_def service_manifest_def split: json.splits if_splits option.splits list.splits)
  have "\<not> is_copy_event t" "tx_event t \<in> set receipt_events" "is_obj (tx_details t)"
    using assms(1) by (auto simp: source_matches_def is_copy_event_def receipt_events_def)
  moreover from this js have "receipt_manifest t = js"
    by (auto simp: receipt_manifest_def is_obj_def split: json.splits)
  ultimately show ?thesis using manifest_member [OF js(2)] by auto
qed

section \<open>A clean audit\<close>

text \<open>C24: when the audit of the whole collection or of a court ends with exit code 0, every document and
  public copy of it is stored with exactly the recorded digest and size, and every document entry of
  every retained receipt has a manifest and names a document of the filing that is stored with exactly
  the digest and size the receipt recorded.\<close>

theorem clean_audit_files:
  assumes "rp_exit (run_audit e db court k) = 0"
    and "unique_key dc_id (documents db)" and "unique_key pc_id (public_copies db)"
    and "unique_key tx_id (transactions db)"
  shows "(\<forall>d \<in> set (scoped_documents db court). stored e (dc_file_key d) = Stored (dc_sha256 d) (dc_size d))
    \<and> (\<forall>c \<in> set (scoped_copies db court). stored e (pc_file_key c) = Stored (pc_sha256 c) (pc_size c))
    \<and> (\<forall>t \<in> set (scoped_receipts db court None). receipt_manifest t \<noteq> []
        \<and> (\<not> is_copy_event t \<longrightarrow> (\<forall>j \<in> set (receipt_manifest t). \<exists>d h n.
             d \<in> set (documents db) \<and> jvalue ''id'' j = JInt (dc_id d) \<and> dc_envelope d = tx_filing t
             \<and> jvalue ''sha256_hash'' j = JStr h \<and> jvalue ''file_size_bytes'' j = JInt n
             \<and> stored e (dc_file_key d) = Stored h n)))"
proof -
  have "receipt_manifest t \<noteq> []" if t: "t \<in> set (scoped_receipts db court None)" for t
  proof
    let ?r = "result_of ''receipt'' (Uuid (tx_id t)) [] InvalidManifest"
    assume "receipt_manifest t = []"
    then have "Inl ?r \<in> set (receipt_entries t)" by (simp add: receipt_entries_def)
    from audit_passes [OF assms(1) in_inspections(2) [OF receipt_reported [OF assms(4) t this]]]
    show False by (simp add: result_of_def passing_def)
  qed
  with document_verified [OF assms(1,2)] copy_verified [OF assms(1,3)] entry_stored [OF assms(1,2,4)]
  show ?thesis by blast
qed

text \<open>When the audit of the whole collection ends with exit code 0, every delivery comes from a
  receipt of its filing, every document in it is one of that receipt, not fee waiver material, and is
  stored with exactly the digest and size that were sent; the fingerprint of the request is the one
  of the documents, contacts and versions on record, each contact and account once; and every
  recipient's snapshot, contact, alert and account agree.\<close>

theorem clean_audit_deliveries:
  assumes "rp_exit (run_audit e db None k) = 0"
    and "unique_key dc_id (documents db)" and "unique_key tx_id (transactions db)"
    and "unique_key pk_id (packets db)" and "p \<in> set (packets db)"
  shows "\<exists>t ds. row_at tx_id (pk_source p) (transactions db) = Some t \<and> tx_filing t = pk_filing p
    \<and> service_manifest (jvalue ''documents'' (pk_details p)) = Some ds
    \<and> (\<forall>s \<in> set ds. sv_type s \<notin> set private_document_types
         \<and> (\<exists>d \<in> set (documents db). dc_id d = sv_id s \<and> dc_envelope d = pk_filing p
              \<and> stored e (dc_file_key d) = Stored (sv_sha256 s) (sv_size s)))
    \<and> selection_matches e p ds (packet_targets db p)
    \<and> (\<forall>r \<in> set (packet_targets db p). recipient_status db p r = MetadataConsistent)"
proof -
  have "packet_in db None None p" by (simp add: packet_in_def)
  note passes = audit_passes [OF assms(1) in_inspections(3) [OF packet_reported [OF assms(4,5) this]]]
  obtain f c t ds os where "find_filing db (pk_filing p) = Some f" "row_at cs_id (pk_case p) (cases db) = Some c"
      and rows: "row_at tx_id (pk_source p) (transactions db) = Some t"
      and source: "source_matches p f c t" and sel: "packet_selection p t = Some (ds, os)"
      and sent: "selected_as_sent ds os" and fp: "selection_matches e p ds (packet_targets db p)"
      and rs: "\<And>r. r \<in> set (packet_targets db p) \<Longrightarrow> recipient_status db p r = MetadataConsistent"
    using packet_passes [OF passes] by metis
  have t: "tx_filing t = pk_filing p" using source by (simp add: source_matches_def)
  note receipt = source_receipt [OF source sel]
  have scoped: "t \<in> set (scoped_receipts db None None)"
    using receipt row_at_SomeD [OF rows] by (simp add: scoped_receipts_def)
  have "\<exists>d \<in> set (documents db). dc_id d = sv_id s \<and> dc_envelope d = pk_filing p
      \<and> stored e (dc_file_key d) = Stored (sv_sha256 s) (sv_size s)" if "s \<in> set ds" for s
  proof -
    have "s \<in> set os" using sent that find_SomeD
      unfolding selected_as_sent_def saved_with_id_def by metis
    then obtain j where j: "j \<in> set (receipt_manifest t)" "parse_saved j = Some s" using receipt by blast
    from entry_stored [OF assms(1-3) scoped _ j(1)] receipt t parsed_values [OF j(2)] show ?thesis by force
  qed
  moreover have "service_manifest (jvalue ''documents'' (pk_details p)) = Some ds"
    using sel by (auto simp: packet_selection_def split: json.splits if_splits option.splits)
  ultimately show ?thesis using rows t sent fp rs
    by (intro exI [of _ t] exI [of _ ds]) (auto simp: selected_as_sent_def)
qed

section \<open>An example\<close>

text \<open>The delivery of a document, and the audit after it.\<close>

definition audit_digest :: string where
  "audit_digest = replicate 64 (CHR ''a'')"

definition audit_document :: document where
  "audit_document = example_document\<lparr>dc_sha256 := audit_digest\<rparr>"

definition audit_receipt :: txn where
  "audit_receipt = service_receipt\<lparr>tx_details := JObj
     [(''case_id'', JInt 7), (''court_id'', JInt 3), (''filing_type'', JStr ''subsequent''),
      (''documents'', JArr [document_json audit_document])]\<rparr>"

definition audit_env :: env where
  "audit_env = service_env\<lparr>stored := (\<lambda>k. Stored audit_digest (dc_size audit_document))\<rparr>"

definition audit_start :: db where
  "audit_start = service_db\<lparr>documents := [audit_document], transactions := [audit_receipt]\<rparr>"

definition audit_db :: db where
  "audit_db = (case send_documents audit_env audit_start audit_start 5 service_request ''k'' 9 of
     Inr r \<Rightarrow> snd r | Inl x \<Rightarrow> audit_start)"

lemma audit_run: "rp_exit (run_audit audit_env audit_db None None) = 0"
  by code_simp

lemma audit_keys: "unique_key dc_id (documents audit_db)" "unique_key pc_id (public_copies audit_db)"
  "unique_key tx_id (transactions audit_db)" "unique_key pk_id (packets audit_db)"
  unfolding unique_key_def by code_simp+

theorem clean_audit_files_witness:
  "length (scoped_documents audit_db None) = 1
   \<and> list_all (\<lambda>d. stored audit_env (dc_file_key d) = Stored (dc_sha256 d) (dc_size d)) (scoped_documents audit_db None)"
proof -
  have "length (scoped_documents audit_db None) = 1" by code_simp
  with clean_audit_files [OF audit_run audit_keys(1-3)] show ?thesis unfolding list_all_iff by blast
qed

lemma audit_packets: "length (packets audit_db) = 1"
  by code_simp

theorem clean_audit_deliveries_witness:
  "\<exists>p ds. packets audit_db = [p] \<and> service_manifest (jvalue ''documents'' (pk_details p)) = Some ds
     \<and> selection_matches audit_env p ds (packet_targets audit_db p)"
proof -
  from audit_packets obtain p where p: "packets audit_db = [p]" by (auto simp: length_Suc_conv)
  then have "p \<in> set (packets audit_db)" by simp
  from clean_audit_deliveries [OF audit_run audit_keys(1,3,4) this] p show ?thesis by blast
qed

end
