(* ===== verification/CaseArchiveProofs.thy ===== *)
theory CaseArchiveProofs
  imports CaseArchive AuditProofs
begin

text \<open>
  An exported archive verifies under the fingerprint the export reports, holds every row of the case
  and the verified bytes of every document, and two archives that verify under the same fingerprint
  have the same entries.
\<close>

section \<open>JSON read back\<close>

text \<open>What \<open>json.loads\<close> gives for a value written with \<open>sort_keys=True\<close>.\<close>

primrec sorted_json :: "json \<Rightarrow> json" where
  "sorted_json JNull = JNull"
| "sorted_json (JBool b) = JBool b"
| "sorted_json (JInt i) = JInt i"
| "sorted_json (JStr s) = JStr s"
| "sorted_json (JDate d) = JDate d"
| "sorted_json (JTime t) = JTime t"
| "sorted_json (JArr xs) = JArr (map sorted_json xs)"
| "sorted_json (JObj kvs) = JObj (sort_key fst (map (map_prod id sorted_json) kvs))"

lemma map_of_sorted:
  assumes "distinct (map fst kvs)"
  shows "map_of (sort_key fst kvs) = map_of kvs"
proof -
  have "distinct (map fst (sort_key fst kvs))"
    using assms by (simp add: distinct_map inj_on_def)
  with assms show ?thesis by (subst map_of_inject_set) simp_all
qed

lemma jget_sorted:
  assumes "distinct (map fst kvs)"
  shows "jget k (sorted_json (JObj kvs)) = map_option sorted_json (map_of kvs k)"
proof -
  have "distinct (map fst (map (map_prod id sorted_json) kvs))" using assms by (simp add: comp_def)
  then have "map_of (sort_key fst (map (map_prod id sorted_json) kvs)) = map_of (map (map_prod id sorted_json) kvs)"
    by (rule map_of_sorted)
  moreover have "map_of (map (map_prod id sorted_json) kvs) k = map_option sorted_json (map_of kvs k)"
    by (induction kvs) auto
  ultimately show ?thesis by (simp add: jget_def)
qed

section \<open>What the export writes\<close>

lemma set_key_same: "map_of kvs k = Some v \<Longrightarrow> set_key k v kvs = kvs"
  by (induction k v kvs rule: set_key.induct) (auto split: if_splits)

lemma set_key_absent: "map_of kvs k = None \<Longrightarrow> set_key k v kvs = kvs @ [(k, v)]"
  by (induction k v kvs rule: set_key.induct) (auto split: if_splits)

definition hex_digests :: "archive_io \<Rightarrow> bool" where
  "hex_digests io \<longleftrightarrow> (\<forall>b. length (io_sha io b) = 64 \<and> list_all hex_digit (io_sha io b))"

text \<open>No two different stored objects have the same digest.\<close>

definition collision_free_store :: "archive_io \<Rightarrow> bool" where
  "collision_free_store io \<longleftrightarrow>
     (\<forall>k k' b b'. io_object io k = Some b \<longrightarrow> io_object io k' = Some b' \<longrightarrow> io_sha io b = io_sha io b' \<longrightarrow> b = b')"

definition record_entry :: "string \<times> string \<Rightarrow> bool" where
  "record_entry x \<longleftrightarrow> starts_with (fst x) ''records/''"

definition object_entry :: "archive_io \<Rightarrow> string \<times> string \<Rightarrow> bool" where
  "object_entry io x \<longleftrightarrow> fst x = object_path (io_sha io (snd x)) \<and> (\<exists>k. io_object io k = Some (snd x))"

lemma object_path_inj [simp]: "object_path h = object_path h' \<longleftrightarrow> h = h'"
  by (simp add: object_path_def)

lemma object_not_record: "\<not> starts_with (object_path h) ''records/''"
  by (simp add: object_path_def starts_with_def)

lemma map_of_fingerprints:
  "map_of (map (fingerprint_of io) xs) p = map_option (\<lambda>b. (io_sha io b, int (length b))) (map_of xs p)"
  by (induction xs) (auto simp: fingerprint_of_def)

text \<open>The list of digests stays the list of what is written; every object is written or was.\<close>

lemma copy_objects_listed:
  assumes "copy_objects io os written listed = Inr (written', listed')"
    and "listed = map (fingerprint_of io) written" and "distinct (map fst written)"
    and "\<forall>x \<in> set written. record_entry x \<or> object_entry io x" and "collision_free_store io"
  shows "listed' = map (fingerprint_of io) written' \<and> distinct (map fst written') \<and> set written \<subseteq> set written'
    \<and> (\<forall>x \<in> set written'. x \<in> set written \<or> object_entry io x)
    \<and> (\<forall>(key, h, n) \<in> set os. \<exists>b. io_object io key = Some b \<and> io_sha io b = h \<and> int (length b) = n
         \<and> (object_path h, b) \<in> set written')"
  using assms(1-4)
proof (induction os arbitrary: written listed)
  case (Cons x os)
  obtain key h n where x: "x = (key, h, n)" by (metis prod.exhaust)
  from Cons.prems(1) x obtain b where b: "io_object io key = Some b" "io_sha io b = h" "int (length b) = n"
    by (auto split: option.splits if_splits)
  let ?w = "if map_of listed (object_path h) = None then written @ [(object_path h, b)] else written"
  let ?l = "set_key (object_path h) (h, n) listed"
  have rest: "copy_objects io os ?w ?l = Inr (written', listed')" using Cons.prems(1) x b by simp
  have step: "?l = map (fingerprint_of io) ?w \<and> distinct (map fst ?w) \<and> (object_path h, b) \<in> set ?w
      \<and> set written \<subseteq> set ?w \<and> (\<forall>y \<in> set ?w. y \<in> set written \<or> object_entry io y)"
  proof (cases "map_of written (object_path h)")
    case None
    then have "map_of listed (object_path h) = None" using Cons.prems(2) by (simp add: map_of_fingerprints)
    moreover from None have "object_path h \<notin> fst ` set written" by (simp add: map_of_eq_None_iff)
    ultimately show ?thesis using Cons.prems(2,3) b
      by (auto simp: set_key_absent fingerprint_of_def object_entry_def)
  next
    case (Some b')
    then have mem: "(object_path h, b') \<in> set written" by (rule map_of_SomeD)
    with Cons.prems(4) object_not_record have "object_entry io (object_path h, b')"
      by (auto simp: record_entry_def)
    then have "b' = b" using assms(5) b unfolding object_entry_def collision_free_store_def by auto
    moreover have "map_of listed (object_path h) = Some (io_sha io b', int (length b'))"
      using Some Cons.prems(2) by (simp add: map_of_fingerprints)
    ultimately show ?thesis using Cons.prems(2,3) b mem by (simp add: set_key_same)
  qed
  then have "?l = map (fingerprint_of io) ?w" "distinct (map fst ?w)" "\<forall>y \<in> set ?w. record_entry y \<or> object_entry io y"
    using Cons.prems(4) by blast+
  note ih = Cons.IH [OF rest this]
  have "set written \<subseteq> set written'" "\<forall>y \<in> set written'. y \<in> set written \<or> object_entry io y"
    "(object_path h, b) \<in> set written'" using ih step by blast+
  with ih b show ?case unfolding x by simp
qed auto

lemma note_row_kept:
  assumes "note_row c r objects = Inr objects'"
  shows "map_of objects k = Some (h', n') \<Longrightarrow> map_of objects' k = Some (h', n')"
    and "row_object r = Some (key, h, n) \<Longrightarrow> map_of objects' key = Some (h, n)"
    and "r = EnvelopeRow f \<Longrightarrow> fe_court f = cs_court c"
  using assms by (auto simp: note_row_def split: exported_row.splits option.splits if_splits)

lemma note_rows_kept:
  assumes "note_rows c rs objects = Inr objects'"
  shows "(\<forall>k h n. map_of objects k = Some (h, n) \<longrightarrow> map_of objects' k = Some (h, n))
    \<and> (\<forall>r \<in> set rs. (\<forall>key h n. row_object r = Some (key, h, n) \<longrightarrow> map_of objects' key = Some (h, n))
         \<and> (\<forall>f. r = EnvelopeRow f \<longrightarrow> fe_court f = cs_court c))"
  using assms
proof (induction rs arbitrary: objects)
  case (Cons r rs)
  then obtain o1 where o1: "note_row c r objects = Inr o1" "note_rows c rs o1 = Inr objects'"
    by (auto elim: then_do_InrE)
  from Cons.IH [OF o1(2)] note_row_kept [OF o1(1)] show ?case by fastforce
qed simp

lemma record_tables:
  "map fst (map (table_entry io) (exported_tables db c)) = map (\<lambda>t. ''records/'' @ t @ ''.jsonl'')
     [''courts'', ''cases'', ''case_types'', ''filing_envelopes'', ''filing_documents'',
      ''document_public_copies'', ''filing_transactions'', ''case_participants'', ''payments'',
      ''service_contacts'', ''service_packets'', ''service_recipients'', ''service_events'',
      ''notifications'', ''notification_delivery_events'', ''court_calendars'', ''audit_log'', ''users'']"
  by (simp add: exported_tables_def case_tables_def Let_def table_entry_def)

lemma record_names:
  "distinct (map fst (map (table_entry io) (exported_tables db c)))"
  "\<forall>x \<in> set (map (table_entry io) (exported_tables db c)). record_entry x \<and> entry_name_valid (fst x)"
proof -
  show "distinct (map fst (map (table_entry io) (exported_tables db c)))"
    unfolding record_tables by code_simp
  have "\<forall>p \<in> set (map fst (map (table_entry io) (exported_tables db c))). starts_with p ''records/'' \<and> entry_name_valid p"
    unfolding record_tables by code_simp
  then show "\<forall>x \<in> set (map (table_entry io) (exported_tables db c)). record_entry x \<and> entry_name_valid (fst x)"
    by (simp add: record_entry_def)
qed

text \<open>The parts of an archive that was exported.\<close>

lemma export_case_Inr:
  assumes "export_case e io readme db cid = Inr (a, m)" and "collision_free_store io"
  obtains c objects written where "row_at cs_id cid (cases db) = Some c"
    "note_rows c (concat (map snd (exported_tables db c))) [] = Inr objects"
    "distinct (map fst written)" "set (map (table_entry io) (exported_tables db c)) \<subseteq> set written"
    "\<forall>x \<in> set written. record_entry x \<and> entry_name_valid (fst x) \<or> object_entry io x"
    "\<forall>(key, h, n) \<in> set objects. \<exists>b. io_object io key = Some b \<and> io_sha io b = h \<and> int (length b) = n
       \<and> (object_path h, b) \<in> set written"
    "a = written @ [(''README.txt'', readme), (manifest_name, io_encode io m)]"
    "int (length (io_encode io m)) \<le> max_manifest_bytes"
    "m = manifest_json e c (the (io_revision io)) (exported_tables db c)
       (map (fingerprint_of io) (written @ [(''README.txt'', readme)]))"
proof -
  from assms(1) obtain c where c: "row_at cs_id cid (cases db) = Some c"
      "write_archive e io readme db c (the (io_revision io)) = Inr (a, m)"
    by (auto simp: export_case_def split: if_splits option.splits)
  let ?tables = "exported_tables db c" and ?records = "map (table_entry io) (exported_tables db c)"
  from c(2) obtain objects written listed where
      objects: "note_rows c (concat (map snd ?tables)) [] = Inr objects"
      and copied: "copy_objects io objects ?records (map (fingerprint_of io) ?records) = Inr (written, listed)"
    by (auto simp: write_archive_def Let_def then_do_Inr_iff)
  have "\<forall>x \<in> set ?records. record_entry x \<or> object_entry io x" using record_names(2) by blast
  note w = copy_objects_listed [OF copied refl record_names(1) this assms(2)]
  have names: "\<forall>x \<in> set written. record_entry x \<and> entry_name_valid (fst x) \<or> object_entry io x"
    using w record_names(2) by blast
  have "''README.txt'' \<notin> fst ` set written"
  proof
    assume "''README.txt'' \<in> fst ` set written"
    then obtain b where "(''README.txt'', b) \<in> set written" by auto
    with names have "record_entry (''README.txt'', b) \<or> object_entry io (''README.txt'', b)" by blast
    then show False by (simp add: record_entry_def object_entry_def object_path_def starts_with_def)
  qed
  then have "map_of listed ''README.txt'' = None" using w by (simp add: map_of_fingerprints map_of_eq_None_iff)
  then have entries: "set_key ''README.txt'' (snd (fingerprint_of io (''README.txt'', readme))) listed
      = map (fingerprint_of io) (written @ [(''README.txt'', readme)])"
    using w by (simp add: set_key_absent fingerprint_of_def)
  have "a = written @ [(''README.txt'', readme), (manifest_name, io_encode io m)]"
    "int (length (io_encode io m)) \<le> max_manifest_bytes"
    "m = manifest_json e c (the (io_revision io)) ?tables (map (fingerprint_of io) (written @ [(''README.txt'', readme)]))"
    using c(2) objects copied entries by (auto simp: write_archive_def Let_def then_do_Inr_iff split: if_splits)
  note result = this
  note w2 = w [THEN conjunct2]
  note w3 = w2 [THEN conjunct2]
  from that [OF c(1) objects w2 [THEN conjunct1] w3 [THEN conjunct1] names
      w3 [THEN conjunct2, THEN conjunct2] result] show ?thesis .
qed

section \<open>Verification\<close>

lemma check_entries_Inr: "check_entries io a xs = Inr () \<longleftrightarrow> (\<forall>x \<in> set xs. check_entry io a x = Inr ())"
  by (induction xs) (auto simp: then_do_Inr_iff)

lemma entry_value:
  "jget k (sorted_json (JObj [(''sha256'', JStr h), (''size_bytes'', JInt n)]))
     = (if k = ''sha256'' then Some (JStr h) else if k = ''size_bytes'' then Some (JInt n) else None)"
  by (subst jget_sorted) auto

lemma check_entry_ok:
  assumes "hex_digests io" and "entry_name_valid p" and "map_of a p = Some b"
  shows "check_entry io a (p, sorted_json (JObj [(''sha256'', JStr (io_sha io b)), (''size_bytes'', JInt (int (length b)))])) = Inr ()"
  using assms by (simp add: check_entry_def jvalue_def entry_value is_obj_def hex_digests_def del: sorted_json.simps)
    (simp add: is_obj_def)

lemma object_name_valid:
  assumes "hex_digests io"
  shows "entry_name_valid (object_path (io_sha io b))"
  using assms by (simp add: entry_name_valid_def object_path_def hex_digests_def starts_with_def)

lemma readme_valid: "entry_name_valid ''README.txt''"
  by (simp add: entry_name_valid_def)

text \<open>The values the verification reads of the manifest of an export.\<close>

lemma manifest_values:
  assumes "m = manifest_json e c revision tables es"
  shows "supported (sorted_json m)" "jget ''case_id'' (sorted_json m) = Some (JInt (cs_id c))"
    "jget ''entries'' (sorted_json m) = Some (sorted_json (entries_json es))"
proof -
  have get: "jget k (sorted_json m) = map_option sorted_json (jget k m)" for k
    unfolding assms manifest_json_def by (subst jget_sorted) (simp_all add: jget_def)
  have val: "jget ''case_id'' m = Some (JInt (cs_id c))" "jget ''entries'' m = Some (entries_json es)"
    "jget ''format'' m = Some (JStr ''muefs-case-archive'')" "jget ''format_version'' m = Some (JInt 1)"
    unfolding assms manifest_json_def by (simp_all add: jget_def)
  have "is_obj (sorted_json m)" unfolding assms manifest_json_def by (simp add: is_obj_def)
  then show "supported (sorted_json m)" by (simp add: supported_def jvalue_def get val)
  show "jget ''case_id'' (sorted_json m) = Some (JInt (cs_id c))"
    "jget ''entries'' (sorted_json m) = Some (sorted_json (entries_json es))" by (simp_all add: get val)
qed

definition entry_json :: "archive_io \<Rightarrow> string \<times> string \<Rightarrow> string \<times> json" where
  "entry_json io x = (fst x, sorted_json (JObj [(''sha256'', JStr (io_sha io (snd x))), (''size_bytes'', JInt (int (length (snd x))))]))"

lemma sorted_entries:
  obtains es where "sorted_json (entries_json (map (fingerprint_of io) xs)) = JObj es"
    "set es = entry_json io ` set xs" "length es = length xs"
proof
  let ?es = "sort_key fst (map (entry_json io) xs)"
  have "map (map_prod id sorted_json) (map (\<lambda>(p, h, n). (p, JObj [(''sha256'', JStr h), (''size_bytes'', JInt n)]))
      (map (fingerprint_of io) xs)) = map (entry_json io) xs"
    by (simp add: fingerprint_of_def entry_json_def del: sorted_json.simps)
  then show "sorted_json (entries_json (map (fingerprint_of io) xs)) = JObj ?es"
    by (simp only: entries_json_def sorted_json.simps)
  show "set ?es = entry_json io ` set xs" "length ?es = length xs" by simp_all
qed

text \<open>C29: an exported archive verifies, under the fingerprint of its manifest that the export reports:
  its names are those of the manifest, every entry has its digest and size, and the verification
  counts all entries but the manifest.\<close>

theorem archive_roundtrip:
  assumes "export_case e io readme db cid = Inr (a, m)"
    and "hex_digests io" and "collision_free_store io"
    and "io_decode io (io_encode io m) = Some (sorted_json m)"
  shows "verify_archive io a (Some (manifest_sha256 io m))
    = Inr \<lparr>vf_case = JInt cid, vf_entries = length a - 1, vf_sha256 = manifest_sha256 io m, vf_checked = True\<rparr>"
proof -
  obtain c objects written where c: "row_at cs_id cid (cases db) = Some c" and d: "distinct (map fst written)"
      and names: "\<forall>x \<in> set written. record_entry x \<and> entry_name_valid (fst x) \<or> object_entry io x"
      and a: "a = written @ [(''README.txt'', readme), (manifest_name, io_encode io m)]"
      and small: "int (length (io_encode io m)) \<le> max_manifest_bytes"
      and m: "m = manifest_json e c (the (io_revision io)) (exported_tables db c)
        (map (fingerprint_of io) (written @ [(''README.txt'', readme)]))"
    by (rule export_case_Inr [OF assms(1,3)])
  let ?w = "written @ [(''README.txt'', readme)]"
  obtain es where es: "sorted_json (entries_json (map (fingerprint_of io) ?w)) = JObj es"
      "set es = entry_json io ` set ?w" "length es = length ?w" by (rule sorted_entries)
  have prefix: "p \<in> fst ` set written \<Longrightarrow> starts_with p ''records/'' \<or> starts_with p ''objects/''" for p
    using names by (fastforce simp: record_entry_def object_entry_def object_path_def starts_with_def)
  have new: "''README.txt'' \<notin> fst ` set written" "manifest_name \<notin> fst ` set written"
    using prefix [of "''README.txt''"] prefix [of manifest_name] by (auto simp: manifest_name_def starts_with_def)
  have dist: "distinct (map fst a)" using d new by (simp add: a manifest_name_def)
  have man: "map_of a manifest_name = Some (io_encode io m)"
    by (rule map_of_is_SomeI [OF dist]) (simp add: a)
  have "check_entry io a (entry_json io x) = Inr ()" if "x \<in> set ?w" for x
  proof -
    have "x \<in> set a" using that by (auto simp: a)
    then have "map_of a (fst x) = Some (snd x)" using dist by (simp add: map_of_is_SomeI)
    moreover have "entry_name_valid (fst x)"
      using that names object_name_valid [OF assms(2)] readme_valid by (auto simp: object_entry_def)
    ultimately show ?thesis unfolding entry_json_def by (intro check_entry_ok [OF assms(2)])
  qed
  then have checked: "check_entries io a es = Inr ()" by (simp add: check_entries_Inr es(2))
  have "fst ` set es = fst ` set ?w" unfolding es(2) image_image by (simp add: entry_json_def)
  then have "set (map fst a) = insert manifest_name (set (map fst es))" by (auto simp: a)
  moreover have "manifest_name \<in> set (map fst a)" by (simp add: a)
  moreover have "length es = length a - 1" by (simp add: es(3) a)
  moreover have "cs_id c = cid" using row_at_SomeD [OF c] by simp
  ultimately show ?thesis
    using dist man small manifest_values [OF m] es(1) checked
    by (simp add: verify_archive_def manifest_sha256_def assms(4))
qed

text \<open>An archive holds a table entry for every table, with the line of every row of the case; all its
  filings are at the court of the case; and for every document and public copy of the case, of any
  status or confidentiality, it has the stored bytes under their digest, which is the recorded one
  with the recorded size.\<close>

theorem archive_complete:
  assumes "export_case e io readme db cid = Inr (a, m)" and "collision_free_store io"
  shows "\<exists>c. row_at cs_id cid (cases db) = Some c
    \<and> set (map (table_entry io) (exported_tables db c)) \<subseteq> set a
    \<and> (\<forall>f \<in> set (case_filings db cid). fe_court f = cs_court c)
    \<and> (\<forall>d \<in> set (case_documents db cid). \<exists>b. io_object io (dc_file_key d) = Some b
         \<and> io_sha io b = dc_sha256 d \<and> int (length b) = dc_size d \<and> (object_path (dc_sha256 d), b) \<in> set a)
    \<and> (\<forall>p \<in> set (case_copies db cid). \<exists>b. io_object io (pc_file_key p) = Some b
         \<and> io_sha io b = pc_sha256 p \<and> int (length b) = pc_size p \<and> (object_path (pc_sha256 p), b) \<in> set a)"
proof -
  obtain c objects written where c: "row_at cs_id cid (cases db) = Some c"
      and rows: "note_rows c (concat (map snd (exported_tables db c))) [] = Inr objects"
      and recs: "set (map (table_entry io) (exported_tables db c)) \<subseteq> set written"
      and objs: "\<forall>(key, h, n) \<in> set objects. \<exists>b. io_object io key = Some b \<and> io_sha io b = h \<and> int (length b) = n
         \<and> (object_path h, b) \<in> set written"
      and a: "a = written @ [(''README.txt'', readme), (manifest_name, io_encode io m)]"
    by (rule export_case_Inr [OF assms])
  have id: "cs_id c = cid" using row_at_SomeD [OF c] by simp
  let ?rows = "set (concat (map snd (exported_tables db c)))"
  note kept = note_rows_kept [OF rows, THEN conjunct2]
  have obj: "\<exists>b. io_object io key = Some b \<and> io_sha io b = h \<and> int (length b) = n \<and> (object_path h, b) \<in> set a"
    if "r \<in> ?rows" "row_object r = Some (key, h, n)" for r key h n
  proof -
    from kept that have "map_of objects key = Some (h, n)" by blast
    then have "(key, h, n) \<in> set objects" by (rule map_of_SomeD)
    from bspec [OF objs this]
    have "\<exists>b. io_object io key = Some b \<and> io_sha io b = h \<and> int (length b) = n \<and> (object_path h, b) \<in> set written"
      by simp
    then show ?thesis by (auto simp: a)
  qed
  have row: "r \<in> ?rows" if "(t, rs) \<in> set (case_tables db c)" "r \<in> set rs" for t rs r
    using that by (force simp: exported_tables_def)
  have tables: "(''filing_envelopes'', map EnvelopeRow (sort_key fe_id (case_filings db cid))) \<in> set (case_tables db c)"
    "(''filing_documents'', map DocumentRow (sort_key dc_id (case_documents db cid))) \<in> set (case_tables db c)"
    "(''document_public_copies'', map CopyRow (sort_key pc_id (case_copies db cid))) \<in> set (case_tables db c)"
    unfolding case_tables_def Let_def id by simp_all
  have mem: "f \<in> set (case_filings db cid) \<Longrightarrow> EnvelopeRow f \<in> ?rows"
    "d \<in> set (case_documents db cid) \<Longrightarrow> DocumentRow d \<in> ?rows"
    "p \<in> set (case_copies db cid) \<Longrightarrow> CopyRow p \<in> ?rows" for f d p
    by (rule row [OF tables(1)], simp) (rule row [OF tables(2)], simp, rule row [OF tables(3)], simp)
  have "fe_court f = cs_court c" if "f \<in> set (case_filings db cid)" for f
    using kept mem(1) [OF that] by blast
  moreover have "set (map (table_entry io) (exported_tables db c)) \<subseteq> set a" using recs by (auto simp: a)
  ultimately show ?thesis using c obj [OF mem(2)] obj [OF mem(3)] by (intro exI [of _ c]) simp
qed

text \<open>C30: two archives that verify under the same separately kept fingerprint have the same entries with
  the same bytes, unless their entries contain two different texts with the same digest.\<close>

theorem archive_tamper_evident:
  assumes "verify_archive io a (Some h) = Inr v" and "verify_archive io b (Some h) = Inr w"
    and "inj_on (io_sha io) (snd ` set a \<union> snd ` set b)"
  shows "set a = set b"
proof -
  have parts: "\<exists>bytes j es. map_of x manifest_name = Some bytes \<and> io_sha io bytes = h \<and> distinct (map fst x)
      \<and> io_decode io bytes = Some j \<and> jget ''entries'' j = Some (JObj es)
      \<and> set (map fst x) = insert manifest_name (set (map fst es)) \<and> (\<forall>y \<in> set es. check_entry io x y = Inr ())"
    if "verify_archive io x (Some h) = Inr u" for x u
  proof -
    have "manifest_name \<in> fst ` set x" using that by (auto simp: verify_archive_def split: if_splits)
    then obtain bytes where "map_of x manifest_name = Some bytes" by (auto simp: map_of_eq_None_iff dest: weak_map_of_SomeI)
    with that show ?thesis
      by (auto simp: verify_archive_def Let_def then_do_Inr_iff check_entries_Inr
          split: if_splits option.splits json.splits)
  qed
  from parts [OF assms(1)] obtain ba ja ea where pa: "map_of a manifest_name = Some ba" "io_sha io ba = h"
      "distinct (map fst a)" "io_decode io ba = Some ja" "jget ''entries'' ja = Some (JObj ea)"
      "set (map fst a) = insert manifest_name (set (map fst ea))" "\<forall>y \<in> set ea. check_entry io a y = Inr ()" by blast
  from parts [OF assms(2)] obtain bb jb eb where pb: "map_of b manifest_name = Some bb" "io_sha io bb = h"
      "distinct (map fst b)" "io_decode io bb = Some jb" "jget ''entries'' jb = Some (JObj eb)"
      "set (map fst b) = insert manifest_name (set (map fst eb))" "\<forall>y \<in> set eb. check_entry io b y = Inr ()" by blast
  have in_bytes: "map_of a p = Some x \<Longrightarrow> x \<in> snd ` set a" "map_of b p = Some x \<Longrightarrow> x \<in> snd ` set b" for p x
    by (force dest: map_of_SomeD)+
  have same: "ba = bb" using assms(3) pa(1,2) pb(1,2) in_bytes by (auto dest: inj_onD)
  then have es: "ea = eb" using pa(4,5) pb(4,5) by simp
  have "map_of a p = map_of b p" for p
  proof (cases "p \<in> set (map fst ea)")
    case True
    then obtain j where j: "(p, j) \<in> set ea" by auto
    have sha: "\<exists>x. map_of y p = Some x \<and> jvalue ''sha256'' j = JStr (io_sha io x)" if "check_entry io y (p, j) = Inr ()" for y
      using that by (auto simp: check_entry_def split: if_splits option.splits json.splits)
    from sha [of a] sha [of b] pa(7) pb(7) es j obtain x y where "map_of a p = Some x" "map_of b p = Some y"
        "io_sha io x = io_sha io y" by fastforce
    with assms(3) in_bytes show ?thesis by (auto dest: inj_onD)
  next
    case False
    show ?thesis
    proof (cases "p = manifest_name")
      case True
      with pa(1) pb(1) same show ?thesis by simp
    next
      case other: False
      with False es pa(6) pb(6) have "p \<notin> fst ` set a" "p \<notin> fst ` set b" by auto
      then show ?thesis by (simp add: map_of_eq_None_iff [symmetric])
    qed
  qed
  then have "map_of a = map_of b" by blast
  then show ?thesis using map_of_inject_set [OF pa(3) pb(3)] by simp
qed

section \<open>An example\<close>

text \<open>The case of the audited delivery; the codec knows the one manifest.\<close>

definition export_io :: archive_io where
  "export_io = \<lparr>io_sha = (\<lambda>b. replicate 63 (CHR ''a'') @ (if b = [] then ''0'' else if b = ''{}'' then ''1'' else ''a'')),
     io_line = (\<lambda>r p. []), io_encode = (\<lambda>j. ''{}''), io_decode = (\<lambda>s. None),
     io_object = (\<lambda>k. Some (replicate (nat (dc_size audit_document)) (CHR ''x''))),
     io_revision = Some ''1'', io_output_exists = False\<rparr>"

definition exported :: "archive \<times> json" where
  "exported = (case export_case audit_env export_io [] audit_db 7 of Inr r \<Rightarrow> r | Inl x \<Rightarrow> ([], JNull))"

definition archive_example :: archive_io where
  "archive_example = export_io\<lparr>io_decode := (\<lambda>s. Some (sorted_json (snd exported)))\<rparr>"

lemma export_ignores_decode:
  "export_case e (io\<lparr>io_decode := f\<rparr>) readme db cid = export_case e io readme db cid"
proof -
  have line: "row_line (io\<lparr>io_decode := f\<rparr>) = row_line io" by (simp add: fun_eq_iff row_line_def)
  have "table_entry (io\<lparr>io_decode := f\<rparr>) = table_entry io" by (rule ext) (simp add: table_entry_def line)
  moreover have "fingerprint_of (io\<lparr>io_decode := f\<rparr>) = fingerprint_of io" by (simp add: fun_eq_iff fingerprint_of_def)
  moreover have "copy_objects (io\<lparr>io_decode := f\<rparr>) os w l = copy_objects io os w l" for os w l
    by (induction os arbitrary: w l) (auto split: option.split)
  ultimately have "write_archive e (io\<lparr>io_decode := f\<rparr>) readme db c r = write_archive e io readme db c r" for c r
    by (simp add: write_archive_def)
  then show ?thesis by (simp add: export_case_def split: option.split)
qed

lemma export_run: "export_case audit_env archive_example [] audit_db 7 = Inr (fst exported, snd exported)"
proof -
  have "case export_case audit_env export_io [] audit_db 7 of Inr r \<Rightarrow> True | Inl x \<Rightarrow> False" by code_simp
  then show ?thesis
    by (auto simp: archive_example_def export_ignores_decode exported_def split: sum.splits)
qed

lemma archive_example_digests: "hex_digests archive_example" "collision_free_store archive_example"
  by (auto simp: hex_digests_def collision_free_store_def archive_example_def export_io_def hex_digit_def list_all_iff)

theorem archive_roundtrip_witness:
  "verify_archive archive_example (fst exported) (Some (manifest_sha256 archive_example (snd exported)))
    = Inr \<lparr>vf_case = JInt 7, vf_entries = length (fst exported) - 1,
        vf_sha256 = manifest_sha256 archive_example (snd exported), vf_checked = True\<rparr>"
  by (rule archive_roundtrip [OF export_run archive_example_digests]) (simp add: archive_example_def)

lemma example_documents: "map (\<lambda>d. (dc_id d, dc_sha256 d)) (case_documents audit_db 7) = [(6, audit_digest)]"
  by code_simp

theorem archive_complete_witness:
  "\<exists>d b. d \<in> set (case_documents audit_db 7) \<and> dc_id d = 6 \<and> (object_path audit_digest, b) \<in> set (fst exported)"
proof -
  from example_documents obtain d where d: "d \<in> set (case_documents audit_db 7)" "dc_id d = 6" "dc_sha256 d = audit_digest"
    by (auto simp: map_eq_Cons_conv)
  with archive_complete [OF export_run archive_example_digests(2)] show ?thesis by metis
qed

text \<open>A small archive and its entries in another order.\<close>

definition small_manifest :: json where
  "small_manifest = JObj [(''format'', JStr ''muefs-case-archive''), (''format_version'', JInt 1),
     (''case_id'', JInt 7), (''entries'', JObj [(''README.txt'',
        JObj [(''sha256'', JStr (io_sha export_io ''r'')), (''size_bytes'', JInt 1)])])]"

definition small_io :: archive_io where
  "small_io = export_io\<lparr>io_decode := (\<lambda>s. Some small_manifest)\<rparr>"

definition small_archive :: archive where
  "small_archive = [(''README.txt'', ''r''), (manifest_name, ''{}'')]"

lemma small_verifies:
  "list_all (\<lambda>a. case verify_archive small_io a (Some (io_sha small_io ''{}'')) of Inr v \<Rightarrow> True | Inl x \<Rightarrow> False)
     [small_archive, rev small_archive]"
  by code_simp

theorem archive_tamper_evident_witness:
  "set small_archive = set (rev small_archive)"
proof -
  have run: "\<exists>v. verify_archive small_io small_archive (Some (io_sha small_io ''{}'')) = Inr v"
    "\<exists>v. verify_archive small_io (rev small_archive) (Some (io_sha small_io ''{}'')) = Inr v"
    using small_verifies by (auto simp: list_all_iff split: sum.splits)
  have "inj_on (io_sha small_io) (snd ` set small_archive \<union> snd ` set (rev small_archive))"
    by (simp add: inj_on_def small_io_def export_io_def small_archive_def)
  with run archive_tamper_evident show ?thesis by metis
qed

end
