(* ===== verification/Gateway.thy ===== *)
theory Gateway
  imports Email Scan CaseNumbers
begin

text \<open>
  What stands before the handlers: the rate limit (\<open>middleware/rate_limit.py\<close>), the size limit of
  request bodies (\<open>middleware/body_limit.py\<close>), the response headers
  (\<open>middleware/security_headers.py\<close>), the keys of the identity provider (\<open>utils/keycloak_jwt.py\<close>)
  and the configuration check of the start (\<open>security/startup.py\<close>). Times are in microseconds; the
  Redis server, the HTTP client and the JWT library are parameters.
\<close>

section \<open>The rate limit\<close>

record rate_settings =
  rs_enabled :: bool
  rs_redis :: bool
  rs_default_limit :: int
  rs_search_limit :: int
  rs_document_limit :: int
  rs_fail_closed :: "bool option"

definition path_bucket :: "string \<Rightarrow> string" where
  "path_bucket path =
     (if ends_with (rev (dropWhile (\<lambda>c. c = CHR ''/'') (rev path))) ''/cases/search'' then ''search''
      else if ends_with path ''/download'' \<or> ends_with path ''/verify''
        \<or> contains path ''/deliveries/'' \<and> contains path ''/documents/'' then ''document''
      else ''default'')"

definition limit_for_bucket :: "rate_settings \<Rightarrow> string \<Rightarrow> int" where
  "limit_for_bucket s bucket =
     (if bucket = ''search'' then rs_search_limit s
      else if bucket = ''document'' then rs_document_limit s else rs_default_limit s)"

definition fail_closed_enabled :: "bool \<Rightarrow> rate_settings \<Rightarrow> bool" where
  "fail_closed_enabled debug s = (case rs_fail_closed s of Some b \<Rightarrow> b | None \<Rightarrow> \<not> debug)"

text \<open>The counter of the current minute; \<open>incr\<close> is the server's reply, or none when it fails.\<close>

definition redis_key :: "string \<Rightarrow> string \<Rightarrow> int \<Rightarrow> string" where
  "redis_key bucket ip t = ''muefs:rl:'' @ bucket @ '':'' @ ip @ '':'' @ dec (t div 60000000)"

definition redis_check_allow ::
    "bool \<Rightarrow> rate_settings \<Rightarrow> (string \<Rightarrow> int option) \<Rightarrow> int \<Rightarrow> string \<Rightarrow> string \<Rightarrow> bool" where
  "redis_check_allow debug s incr t ip bucket =
     (case incr (redis_key bucket ip t) of
        Some n \<Rightarrow> n \<le> limit_for_bucket s bucket
      | None \<Rightarrow> \<not> fail_closed_enabled debug s)"

text \<open>The store of a process: the times of the admitted requests of each bucket and address.\<close>

record limiter =
  lm_store :: "(string \<times> int list) list"
  lm_cleanup :: int

definition window :: int where
  "window = 60000000"

definition stale_times :: "int \<Rightarrow> int list \<Rightarrow> bool" where
  "stale_times t ts \<longleftrightarrow> ts = [] \<or> window < t - last ts"

definition sweep :: "int \<Rightarrow> limiter \<Rightarrow> limiter" where
  "sweep t st =
     (if 300000000 < t - lm_cleanup st \<or> 10000 < length (lm_store st)
      then \<lparr>lm_store = filter (\<lambda>(k, ts). \<not> stale_times t ts) (lm_store st), lm_cleanup = t\<rparr> else st)"

definition recent_times :: "int \<Rightarrow> string \<Rightarrow> limiter \<Rightarrow> int list" where
  "recent_times t key st =
     filter (\<lambda>x. t - x < window) (case map_of (lm_store st) key of None \<Rightarrow> [] | Some ts \<Rightarrow> ts)"

definition bucket_key :: "string \<Rightarrow> string \<Rightarrow> string" where
  "bucket_key bucket ip = bucket @ '':'' @ ip"

definition memory_check_allow :: "rate_settings \<Rightarrow> int \<Rightarrow> string \<Rightarrow> string \<Rightarrow> limiter \<Rightarrow> bool \<times> limiter" where
  "memory_check_allow s t ip bucket st =
     (let key = bucket_key bucket ip; st1 = sweep t st; ts = recent_times t key st1 in
      if limit_for_bucket s bucket \<le> int (length ts)
      then (False, st1\<lparr>lm_store := set_key key ts (lm_store st1)\<rparr>)
      else (True, st1\<lparr>lm_store := set_key key (ts @ [t]) (lm_store st1)\<rparr>))"

record http_request =
  hq_at :: int
  hq_method :: string
  hq_path :: string
  hq_client :: "string option"

definition limited_address :: "http_request \<Rightarrow> string" where
  "limited_address r = or_text (hq_client r) ''unknown''"

definition rate_checked :: "rate_settings \<Rightarrow> http_request \<Rightarrow> bool" where
  "rate_checked s r \<longleftrightarrow> rs_enabled s \<and> starts_with (hq_path r) ''/api/'' \<and> hq_method r \<noteq> ''OPTIONS''"

definition rate_limit_dispatch ::
    "bool \<Rightarrow> rate_settings \<Rightarrow> (string \<Rightarrow> int option) \<Rightarrow> http_request \<Rightarrow> limiter \<Rightarrow> (failure + unit) \<times> limiter" where
  "rate_limit_dispatch debug s incr r st =
     (if \<not> rate_checked s r then (Inr (), st)
      else let ip = limited_address r; bucket = path_bucket (hq_path r);
               (allowed, st') = (if rs_redis s then (redis_check_allow debug s incr (hq_at r) ip bucket, st)
                                 else memory_check_allow s (hq_at r) ip bucket st)
           in (ensure allowed (Http 429 (Request Rate_limited)), st'))"

text \<open>The replies to a sequence of requests.\<close>

fun serve ::
    "bool \<Rightarrow> rate_settings \<Rightarrow> (string \<Rightarrow> int option) \<Rightarrow> limiter \<Rightarrow> http_request list \<Rightarrow> (failure + unit) list" where
  "serve debug s incr st [] = []"
| "serve debug s incr st (r # rs) =
     (let (reply, st') = rate_limit_dispatch debug s incr r st in reply # serve debug s incr st' rs)"

text \<open>The replies when each request finds its own answers of the Redis server.\<close>

fun serve_each ::
    "bool \<Rightarrow> rate_settings \<Rightarrow> limiter \<Rightarrow> (http_request \<times> (string \<Rightarrow> int option)) list \<Rightarrow> (failure + unit) list" where
  "serve_each debug s st [] = []"
| "serve_each debug s st ((r, incr) # rs) =
     (let (reply, st') = rate_limit_dispatch debug s incr r st in reply # serve_each debug s st' rs)"

section \<open>The size of a body\<close>

definition header_value :: "string \<Rightarrow> (string \<times> string) list \<Rightarrow> string" where
  "header_value name hs = (case rev (filter (\<lambda>(k, v). k = name) hs) of [] \<Rightarrow> [] | (k, v) # _ \<Rightarrow> v)"

definition overhead_bytes :: int where
  "overhead_bytes = 1024 * 1024"

definition body_limit :: "env \<Rightarrow> (string \<times> string) list \<Rightarrow> int" where
  "body_limit e hs = overhead_bytes +
     (if starts_with (str_lower (header_value ''content-type'' hs)) ''multipart/form-data''
      then st_max_file_mb (cfg e) * 1024 * 1024 else 0)"

definition declared_too_large :: "env \<Rightarrow> (string \<times> string) list \<Rightarrow> bool" where
  "declared_too_large e hs \<longleftrightarrow>
     (let n = header_value ''content-length'' hs in
      n \<noteq> [] \<and> list_all is_digit n \<and> body_limit e hs < int (dec_value n))"

datatype message = BodyPart string | OtherMessage

definition limited_receive :: "int \<Rightarrow> int \<Rightarrow> message \<Rightarrow> failure + message \<times> int" where
  "limited_receive limit received m =
     (case m of
        OtherMessage \<Rightarrow> Inr (m, received)
      | BodyPart b \<Rightarrow>
          (let n = received + int (length b) in
           if limit < n then Inl (Http 413 (Request Body_too_large)) else Inr (m, n)))"

text \<open>What the application reads of a request: the messages before the refusal, if there is one.\<close>

fun receive_all :: "int \<Rightarrow> int \<Rightarrow> message list \<Rightarrow> message list \<times> failure option" where
  "receive_all limit received [] = ([], None)"
| "receive_all limit received (m # ms) =
     (case limited_receive limit received m of
        Inl x \<Rightarrow> ([], Some x)
      | Inr (m', n) \<Rightarrow> (let (out, x) = receive_all limit n ms in (m' # out, x)))"

definition body_call ::
    "env \<Rightarrow> bool \<Rightarrow> (string \<times> string) list \<Rightarrow> message list \<Rightarrow> failure + message list \<times> failure option" where
  "body_call e http hs ms =
     (if \<not> http then Inr (ms, None)
      else if declared_too_large e hs then Inl (Http 413 (Request Body_too_large))
      else Inr (receive_all (body_limit e hs) 0 ms))"

section \<open>Response headers\<close>

definition none_source :: string where
  "none_source = CHR 0x27 # ''none'' @ [CHR 0x27]"

definition api_csp :: string where
  "api_csp = ''default-src '' @ none_source @ ''; frame-ancestors '' @ none_source @ ''; base-uri '' @ none_source"

definition security_headers :: "env \<Rightarrow> string \<Rightarrow> string \<Rightarrow> (string \<times> string) list \<Rightarrow> (string \<times> string) list" where
  "security_headers e spa_csp path hs =
     (let api = starts_with path ''/api/'' in
      foldl (\<lambda>acc (k, v). set_key k v acc) hs
        ([(''X-Content-Type-Options'', ''nosniff''), (''X-Frame-Options'', ''DENY''),
          (''Referrer-Policy'', ''strict-origin-when-cross-origin''),
          (''Permissions-Policy'', ''camera=(), microphone=(), geolocation=(), payment=()''),
          (''Cross-Origin-Opener-Policy'', ''same-origin''), (''Cross-Origin-Resource-Policy'', ''same-origin'')]
         @ (if st_debug (cfg e) then []
            else [(''Strict-Transport-Security'', ''max-age=31536000; includeSubDomains; preload'')])
         @ [(''Content-Security-Policy'', if api then api_csp else spa_csp)]
         @ (if api then [(''Cache-Control'', ''private, no-store'')] else [])))"

section \<open>The identity provider's keys\<close>

text \<open>A key set is the list of the keys with their ids; \<open>fetched\<close> is what the provider answers now,
  or none when it cannot be reached.\<close>

type_synonym 'k key_set = "(string \<times> 'k) list"

definition fetch_jwks ::
    "int \<Rightarrow> 'k key_set option \<Rightarrow> bool \<Rightarrow> (int \<times> 'k key_set) option \<Rightarrow> ('k key_set \<times> (int \<times> 'k key_set) option) option" where
  "fetch_jwks t fetched refresh cache =
     (case cache of
        Some (at, ks) \<Rightarrow>
          if t - at < 300000000 \<and> \<not> (refresh \<and> 30000000 \<le> t - at) then Some (ks, cache)
          else map_option (\<lambda>ks'. (ks', Some (t, ks'))) fetched
      | None \<Rightarrow> map_option (\<lambda>ks'. (ks', Some (t, ks'))) fetched)"

record ('k, 'c) jwt_library =
  jw_key_id :: "string \<Rightarrow> string option"
  jw_rsa_key :: "'k \<Rightarrow> 'k option"
  jw_decode :: "string \<Rightarrow> 'k \<Rightarrow> string \<Rightarrow> string list option \<Rightarrow> 'c option"
  jw_subject :: "'c \<Rightarrow> bool"

datatype 'c decoded = Decoded 'c | BadToken | NoProvider

text \<open>The two reads of the key set of a token with an unknown key id; the second asks again.\<close>

definition decode_access_token ::
    "('k, 'c) jwt_library \<Rightarrow> string \<Rightarrow> string list option \<Rightarrow> int \<Rightarrow> 'k key_set option
       \<Rightarrow> (int \<times> 'k key_set) option \<Rightarrow> string \<Rightarrow> 'c decoded \<times> (int \<times> 'k key_set) option" where
  "decode_access_token j issuer audience t fetched cache token =
     (let finish = (\<lambda>k. case jw_rsa_key j k of None \<Rightarrow> BadToken
                        | Some rsa \<Rightarrow> (case jw_decode j token rsa issuer audience of
                             None \<Rightarrow> BadToken
                           | Some c \<Rightarrow> if jw_subject j c then Decoded c else BadToken)) in
      case jw_key_id j token of
        None \<Rightarrow> (BadToken, cache)
      | Some kid \<Rightarrow>
          (if kid = [] then (BadToken, cache)
           else case fetch_jwks t fetched False cache of
             None \<Rightarrow> (NoProvider, cache)
           | Some (ks, cache1) \<Rightarrow>
               (case map_of ks kid of
                  Some k \<Rightarrow> (finish k, cache1)
                | None \<Rightarrow>
                    (case fetch_jwks t fetched True cache1 of
                       None \<Rightarrow> (NoProvider, cache1)
                     | Some (ks2, cache2) \<Rightarrow>
                         (case map_of ks2 kid of None \<Rightarrow> (BadToken, cache2) | Some k \<Rightarrow> (finish k, cache2))))))"

section \<open>The start\<close>

record start_settings =
  sp_demo_secret :: string
  sp_public_registration :: bool
  sp_api_docs :: "bool option"
  sp_local_storage :: bool
  sp_secret_key :: string
  sp_strict :: bool

datatype start_issue =
  Demo_secret_needed | Registration_open | Docs_open | Clamav_needed | Secret_key_weak

datatype start = BadMail failure | RefusedStart "start_issue list" | Started "start_issue list"

definition placeholder_secrets :: "string list" where
  "placeholder_secrets = [''change-me-in-production'', ''change-this-to-a-random-secret-in-production'',
     ''muefs_dev'', ''muefs_minio_secret'', ''muefs_storage_secret'', ''admin'']"

definition production :: "env \<Rightarrow> bool" where
  "production e \<longleftrightarrow> \<not> st_debug (cfg e) \<and> \<not> st_allow_demo (cfg e)"

definition weak_secret :: "env \<Rightarrow> start_settings \<Rightarrow> bool" where
  "weak_secret e s \<longleftrightarrow> \<not> st_debug (cfg e) \<and> \<not> sp_local_storage s
     \<and> (sp_secret_key s \<in> set placeholder_secrets \<or> length (sp_secret_key s) < 16)"

definition fatal_issues :: "env \<Rightarrow> start_settings \<Rightarrow> start_issue list" where
  "fatal_issues e s =
     (if production e \<and> \<not> st_clamav_enabled (cfg e) then [Clamav_needed] else [])
     @ (if production e \<and> weak_secret e s then [Secret_key_weak] else [])"

definition other_issues :: "env \<Rightarrow> start_settings \<Rightarrow> start_issue list" where
  "other_issues e s =
     (if st_allow_demo (cfg e) \<and> \<not> st_debug (cfg e) \<and> sp_demo_secret s = [] then [Demo_secret_needed] else [])
     @ (if \<not> st_debug (cfg e) \<and> sp_public_registration s then [Registration_open] else [])
     @ (if \<not> st_debug (cfg e) \<and> sp_api_docs s = Some True then [Docs_open] else [])
     @ (if \<not> production e \<and> weak_secret e s then [Secret_key_weak] else [])"

definition validate_security_config :: "env \<Rightarrow> start_settings \<Rightarrow> start" where
  "validate_security_config e s =
     (case validate_email_config e of
        Inl x \<Rightarrow> BadMail x
      | Inr _ \<Rightarrow>
          (let fatal = fatal_issues e s; issues = other_issues e s in
           if fatal \<noteq> [] \<or> issues \<noteq> [] \<and> sp_strict s then RefusedStart (fatal @ issues)
           else Started issues))"

end
