(* ===== verification/GatewayProofs.thy ===== *)
theory GatewayProofs
  imports Gateway Calendar
begin

text \<open>
  The rate limit of a process admits a request exactly when fewer than the limit were admitted from
  its address and bucket in the sixty seconds before, whatever the clean-up of its store forgets; so
  no sixty seconds admit more. With the Redis counters the limit holds in every minute of the clock, and
  twice the limit in any sixty seconds. A body never delivers more bytes than its limit, and a server outside
  demonstration and debug mode starts only with the malware scanner and a strong storage key.
\<close>

section \<open>The reference: a log of all admitted requests\<close>

definition request_key :: "http_request \<Rightarrow> string" where
  "request_key r = bucket_key (path_bucket (hq_path r)) (limited_address r)"

definition recent_in :: "(string \<times> int) list \<Rightarrow> string \<Rightarrow> int \<Rightarrow> nat" where
  "recent_in log key t = length (filter (\<lambda>(k, x). k = key \<and> t - x < window) log)"

fun window_serve :: "rate_settings \<Rightarrow> (string \<times> int) list \<Rightarrow> http_request list \<Rightarrow> (failure + unit) list" where
  "window_serve s log [] = []"
| "window_serve s log (r # rs) =
     (if \<not> rate_checked s r then Inr () # window_serve s log rs
      else if int (recent_in log (request_key r) (hq_at r)) < limit_for_bucket s (path_bucket (hq_path r))
      then Inr () # window_serve s (log @ [(request_key r, hq_at r)]) rs
      else Inl (Http 429 (Request Rate_limited)) # window_serve s log rs)"

text \<open>The times of a key in the log.\<close>

definition times_of :: "(string \<times> int) list \<Rightarrow> string \<Rightarrow> int list" where
  "times_of log key = map snd (filter (\<lambda>(k, x). k = key) log)"

lemma times_of_simps [simp]:
  "times_of [] key = []"
  "times_of (log @ [(k, t)]) key = times_of log key @ (if k = key then [t] else [])"
  by (simp_all add: times_of_def)

lemma recent_in_times: "recent_in log key t = length (filter (\<lambda>x. t - x < window) (times_of log key))"
  by (induction log) (auto simp: recent_in_def times_of_def)

section \<open>The store keeps what the window needs\<close>

text \<open>The store agrees with the log on every key for the times that can still be in a window; its
  entries are in the order of time and not in the future.\<close>

definition stored_times :: "limiter \<Rightarrow> string \<Rightarrow> int list" where
  "stored_times st key = (case map_of (lm_store st) key of None \<Rightarrow> [] | Some ts \<Rightarrow> ts)"

definition agrees :: "int \<Rightarrow> (string \<times> int) list \<Rightarrow> limiter \<Rightarrow> bool" where
  "agrees t log st \<longleftrightarrow> distinct (map fst (lm_store st))
     \<and> (\<forall>key. filter (\<lambda>x. t - x < window) (stored_times st key) = filter (\<lambda>x. t - x < window) (times_of log key)
          \<and> sorted (stored_times st key) \<and> (\<forall>x \<in> set (stored_times st key). x \<le> t))"

lemma filter_later:
  assumes "filter (\<lambda>x. t - x < (w::int)) xs = filter (\<lambda>x. t - x < w) ys" and "t \<le> u"
  shows "filter (\<lambda>x. u - x < w) xs = filter (\<lambda>x. u - x < w) ys"
proof -
  have "filter (\<lambda>x. u - x < w) zs = filter (\<lambda>x. u - x < w) (filter (\<lambda>x. t - x < w) zs)" for zs
    using assms(2) by (auto intro!: filter_cong)
  with assms(1) show ?thesis by metis
qed

lemma agrees_later: "agrees t log st \<Longrightarrow> t \<le> u \<Longrightarrow> agrees u log st"
  unfolding agrees_def using filter_later by (metis order_trans)

lemma distinct_filter_keys: "distinct (map fst xs) \<Longrightarrow> distinct (map fst (filter P xs))"
  by (induction xs) auto

lemma map_of_filter_entry:
  assumes "distinct (map fst entries)"
  shows "map_of (filter keep entries) key = Option.bind (map_of entries key) (\<lambda>v. if keep (key, v) then Some v else None)"
  using assms by (induction entries) (auto simp: map_of_eq_None_iff dest: map_of_SomeD split: option.splits)

lemma sorted_last_ge: "sorted ts \<Longrightarrow> x \<in> set ts \<Longrightarrow> x \<le> last ts"
  by (induction ts) (auto split: if_splits)

lemma stale_all_old:
  "stale_times t ts \<Longrightarrow> sorted ts \<Longrightarrow> x \<in> set ts \<Longrightarrow> \<not> t - x < window"
  using sorted_last_ge [of ts x] by (auto simp: stale_times_def)

lemma agrees_sweep:
  assumes "agrees t log st"
  shows "agrees t log (sweep t st)"
proof (cases "300000000 < t - lm_cleanup st \<or> 10000 < length (lm_store st)")
  case True
  let ?st = "sweep t st"
  from True have st: "lm_store ?st = filter (\<lambda>(k, ts). \<not> stale_times t ts) (lm_store st)"
    by (simp add: sweep_def)
  have d: "distinct (map fst (lm_store st))" using assms by (simp add: agrees_def)
  have kept: "stored_times ?st key = stored_times st key
      \<or> stored_times ?st key = [] \<and> stale_times t (stored_times st key)" for key
    by (simp add: stored_times_def st map_of_filter_entry [OF d] split: option.split Option.bind_split)
  have srt: "sorted (stored_times st key)" for key using assms by (simp add: agrees_def)
  have "filter (\<lambda>x. t - x < window) (stored_times ?st key) = filter (\<lambda>x. t - x < window) (stored_times st key)" for key
    using kept [of key] stale_all_old [OF _ srt] by (auto simp: filter_empty_conv)
  moreover have "sorted (stored_times ?st key) \<and> (\<forall>x \<in> set (stored_times ?st key). x \<le> t)" for key
    using kept [of key] assms by (auto simp: agrees_def)
  ultimately show ?thesis
    using assms d by (simp add: agrees_def st distinct_filter_keys)
qed (use assms in \<open>simp add: sweep_def\<close>)

lemma distinct_set_key: "distinct (map fst xs) \<Longrightarrow> distinct (map fst (set_key k v xs))"
proof -
  have "fst ` set (set_key k v xs) = insert k (fst ` set xs)" for xs
    by (induction k v xs rule: set_key.induct) auto
  then show "distinct (map fst xs) \<Longrightarrow> distinct (map fst (set_key k v xs))"
    by (induction k v xs rule: set_key.induct) auto
qed

lemma stored_times_set:
  "stored_times (st\<lparr>lm_store := set_key key ts (lm_store st)\<rparr>) k = (if k = key then ts else stored_times st k)"
  by (simp add: stored_times_def)

lemma memory_check_step:
  assumes "agrees t log st" and "memory_check_allow s t ip bucket st = (ok, st')"
  defines "key \<equiv> bucket_key bucket ip"
  shows "(ok \<longleftrightarrow> int (recent_in log key t) < limit_for_bucket s bucket)
    \<and> agrees t (if ok then log @ [(key, t)] else log) st'"
proof -
  define ts where "ts = recent_times t key (sweep t st)"
  note sw = agrees_sweep [OF assms(1)]
  have ts: "ts = filter (\<lambda>x. t - x < window) (times_of log key)"
    using sw by (simp add: ts_def recent_times_def agrees_def stored_times_def)
  have ts': "ts = filter (\<lambda>x. t - x < window) (stored_times (sweep t st) key)"
    by (simp add: ts_def recent_times_def stored_times_def)
  have "ok \<longleftrightarrow> int (length ts) < limit_for_bucket s bucket"
    and st': "st' = (sweep t st)\<lparr>lm_store := set_key key (if ok then ts @ [t] else ts) (lm_store (sweep t st))\<rparr>"
    using assms(2) by (auto simp: memory_check_allow_def Let_def key_def ts_def split: if_splits)
  moreover have "recent_in log key t = length ts" by (simp add: recent_in_times ts)
  moreover have "sorted (stored_times (sweep t st) key)" "\<forall>x \<in> set (stored_times (sweep t st) key). x \<le> t"
    using sw by (simp_all add: agrees_def)
  then have "sorted ts \<and> (\<forall>x \<in> set ts. x \<le> t)"
    by (simp add: ts' sorted_filter [where f = "\<lambda>x. x", simplified])
  ultimately show ?thesis
    using sw ts by (auto simp: agrees_def st' stored_times_set distinct_set_key sorted_append window_def)
qed

lemma dispatch_step:
  assumes "agrees t log st" and "t \<le> hq_at r" and "\<not> rs_redis s"
    and "rate_limit_dispatch debug s incr r st = (reply, st')"
  obtains log' where "agrees (hq_at r) log' st'"
    "\<And>rs. window_serve s log (r # rs) = reply # window_serve s log' rs"
proof (cases "rate_checked s r")
  case False
  with assms agrees_later [OF assms(1,2)] show ?thesis by (intro that [of log]) (auto simp: rate_limit_dispatch_def)
next
  case True
  obtain ok st1 where m: "memory_check_allow s (hq_at r) (limited_address r) (path_bucket (hq_path r)) st = (ok, st1)"
    by (metis prod.exhaust)
  with True assms(3,4) have out: "reply = ensure ok (Http 429 (Request Rate_limited))" "st' = st1"
    by (simp_all add: rate_limit_dispatch_def)
  from memory_check_step [OF agrees_later [OF assms(1,2)] m] True out show ?thesis
    by (intro that [of "if ok then log @ [(request_key r, hq_at r)] else log"])
      (auto simp: request_key_def ensure_def)
qed

lemma serve_agrees:
  assumes "agrees t log st" and "sorted (t # map hq_at rs)" and "\<not> rs_redis s"
  shows "serve debug s incr st rs = window_serve s log rs"
  using assms
proof (induction rs arbitrary: t log st)
  case (Cons r rs)
  obtain reply st' where d: "rate_limit_dispatch debug s incr r st = (reply, st')" by (metis prod.exhaust)
  have le: "t \<le> hq_at r" "sorted (hq_at r # map hq_at rs)" using Cons.prems(2) by auto
  obtain log' where "agrees (hq_at r) log' st'" "window_serve s log (r # rs) = reply # window_serve s log' rs"
    using dispatch_step [OF Cons.prems(1) le(1) Cons.prems(3) d] by metis
  with d Cons.IH [OF _ le(2) Cons.prems(3)] show ?case by simp
qed simp

lemma serve_empty:
  assumes "\<not> rs_redis s" and "sorted (map hq_at rs)"
  shows "serve debug s incr \<lparr>lm_store = [], lm_cleanup = c\<rparr> rs = window_serve s [] rs"
proof (cases rs)
  case (Cons r rs')
  have "agrees (hq_at r) [] \<lparr>lm_store = [], lm_cleanup = c\<rparr>"
    by (simp add: agrees_def stored_times_def)
  from serve_agrees [OF this _ assms(1), of rs debug incr] assms(2) Cons show ?thesis by simp
qed simp

section \<open>No window admits more than the limit\<close>

text \<open>The admitted requests of a bucket and address, with their times.\<close>

fun admitted :: "rate_settings \<Rightarrow> http_request list \<Rightarrow> (failure + unit) list \<Rightarrow> (string \<times> int) list" where
  "admitted s (r # rs) (Inr _ # out) = (if rate_checked s r then [(request_key r, hq_at r)] else []) @ admitted s rs out"
| "admitted s (r # rs) (Inl _ # out) = admitted s rs out"
| "admitted s _ _ = []"

definition in_window :: "(string \<times> int) list \<Rightarrow> string \<Rightarrow> int \<Rightarrow> nat" where
  "in_window log key t = length (filter (\<lambda>(k, x). k = key \<and> t \<le> x \<and> x < t + window) log)"

definition within_limits :: "rate_settings \<Rightarrow> (string \<times> int) list \<Rightarrow> bool" where
  "within_limits s log \<longleftrightarrow> (\<forall>bucket ip t. bucket \<in> {''search'', ''document'', ''default''} \<longrightarrow>
     int (in_window log (bucket_key bucket ip) t) \<le> max 0 (limit_for_bucket s bucket))"

lemma bucket_key_inj:
  assumes "bucket \<in> {''search'', ''document'', ''default''}" and "bucket' \<in> {''search'', ''document'', ''default''}"
    and "bucket_key bucket ip = bucket_key bucket' ip'"
  shows "bucket = bucket'"
  using assms by (auto simp: bucket_key_def)

lemma path_bucket_in: "path_bucket p \<in> {''search'', ''document'', ''default''}"
  by (simp add: path_bucket_def)

lemma in_window_recent:
  assumes "t \<le> u" "u < t + window"
  shows "in_window log key t \<le> recent_in log key u"
proof -
  have "(case p of (k, x) \<Rightarrow> k = key \<and> t \<le> x \<and> x < t + window) \<Longrightarrow> (case p of (k, x) \<Rightarrow> k = key \<and> u - x < window)" for p
    using assms by (auto split: prod.splits)
  then have "set (filter (\<lambda>(k, x). k = key \<and> t \<le> x \<and> x < t + window) log)
      \<subseteq> set (filter (\<lambda>(k, x). k = key \<and> u - x < window) log)" by auto
  have "length (filter P xs) \<le> length (filter Q xs)" if "\<And>x. P x \<Longrightarrow> Q x" for P Q and xs :: "(string \<times> int) list"
    using that by (induction xs) auto
  then show ?thesis unfolding in_window_def recent_in_def using assms by (auto split: prod.splits)
qed

lemma within_limits_admit:
  assumes "within_limits s log" and "int (recent_in log (request_key r) u) < limit_for_bucket s (path_bucket (hq_path r))"
  shows "within_limits s (log @ [(request_key r, u)])"
  unfolding within_limits_def
proof (intro allI impI)
  fix bucket :: string and ip t
  assume b: "bucket \<in> {''search'', ''document'', ''default''}"
  show "int (in_window (log @ [(request_key r, u)]) (bucket_key bucket ip) t) \<le> max 0 (limit_for_bucket s bucket)"
  proof (cases "request_key r = bucket_key bucket ip \<and> t \<le> u \<and> u < t + window")
    case True
    then have "path_bucket (hq_path r) = bucket"
      using bucket_key_inj [OF path_bucket_in b] by (auto simp: request_key_def)
    with True assms(2) in_window_recent [of t u log "bucket_key bucket ip"] show ?thesis
      by (simp add: in_window_def)
  next
    case False
    then have "in_window (log @ [(request_key r, u)]) (bucket_key bucket ip) t = in_window log (bucket_key bucket ip) t"
      by (auto simp: in_window_def)
    moreover from assms(1) b have "int (in_window log (bucket_key bucket ip) t) \<le> max 0 (limit_for_bucket s bucket)"
      unfolding within_limits_def by blast
    ultimately show ?thesis by simp
  qed
qed

lemma window_serve_within:
  "within_limits s log \<Longrightarrow> within_limits s (log @ admitted s rs (window_serve s log rs))"
proof (induction rs arbitrary: log)
  case (Cons r rs)
  show ?case
  proof (cases "rate_checked s r \<and> int (recent_in log (request_key r) (hq_at r)) < limit_for_bucket s (path_bucket (hq_path r))")
    case True
    with Cons.IH [OF within_limits_admit [OF Cons.prems]] show ?thesis by simp
  next
    case False
    with Cons.IH [OF Cons.prems] show ?thesis by auto
  qed
qed simp

text \<open>C23: a process answers requests that arrive in the order of time exactly as a limiter with a
  complete log of what it admitted would: a request within the checked paths is refused if and only if
  as many as the limit of its bucket were admitted from its address in the sixty seconds before it,
  although the store is cleaned and never holds more.\<close>

theorem limiter_is_sliding_window:
  assumes "\<not> rs_redis s" and "sorted (map hq_at rs)"
  shows "serve debug s incr \<lparr>lm_store = [], lm_cleanup = c\<rparr> rs = window_serve s [] rs"
  by (rule serve_empty [OF assms])

lemma memory_bounds:
  assumes "\<not> rs_redis s" and "sorted (map hq_at rs)" and "bucket \<in> {''search'', ''document'', ''default''}"
  shows "int (in_window (admitted s rs (serve debug s incr \<lparr>lm_store = [], lm_cleanup = c\<rparr> rs)) (bucket_key bucket ip) t)
    \<le> max 0 (limit_for_bucket s bucket)"
proof -
  note * = serve_empty [OF assms(1,2), of debug incr c]
  have "within_limits s []" by (simp add: within_limits_def in_window_def)
  then have "within_limits s (admitted s rs (serve debug s incr \<lparr>lm_store = [], lm_cleanup = c\<rparr> rs))"
    using window_serve_within [of s "[]" rs] by (simp add: *)
  with assms(3) show ?thesis unfolding within_limits_def by blast
qed

section \<open>The counters of the Redis server\<close>

text \<open>
  The documented behaviour of \<open>INCR\<close>: an answer is more than every earlier answer for the key (it is
  one more when no other client counts on the same key), or the call fails.
\<close>

definition counter_key :: "http_request \<Rightarrow> string" where
  "counter_key r = redis_key (path_bucket (hq_path r)) (limited_address r) (hq_at r)"

fun counted :: "rate_settings \<Rightarrow> (string \<Rightarrow> int) \<Rightarrow> (http_request \<times> (string \<Rightarrow> int option)) list \<Rightarrow> bool" where
  "counted s c [] = True"
| "counted s c ((r, incr) # rs) =
     (if rate_checked s r
      then (case incr (counter_key r) of
              None \<Rightarrow> counted s c rs
            | Some n \<Rightarrow> c (counter_key r) < n \<and> counted s (c(counter_key r := n)) rs)
      else counted s c rs)"

definition in_minute :: "(string \<times> int) list \<Rightarrow> string \<Rightarrow> int \<Rightarrow> nat" where
  "in_minute log key m = length (filter (\<lambda>(k, x). k = key \<and> x div window = m) log)"

lemma in_minute_simps [simp]:
  "in_minute [] key m = 0"
  "in_minute ((k, x) # log) key m = (if k = key \<and> x div window = m then 1 else 0) + in_minute log key m"
  by (simp_all add: in_minute_def)

text \<open>What is still admitted in a minute fits between the counter and the limit.\<close>

lemma redis_minute:
  assumes "counted s c rs" and "rs_redis s"
    and "fail_closed_enabled debug s \<or> list_all (\<lambda>(r, incr). incr (counter_key r) \<noteq> None) rs"
    and "bucket \<in> {''search'', ''document'', ''default''}"
  shows "int (in_minute (admitted s (map fst rs) (serve_each debug s st rs)) (bucket_key bucket ip) m)
    \<le> max 0 (limit_for_bucket s bucket - c (redis_key bucket ip (m * window)))"
  using assms(1,3)
proof (induction rs arbitrary: c st)
  case (Cons p rs)
  obtain r incr where p: "p = (r, incr)" by (cases p)
  let ?key = "redis_key bucket ip (m * window)"
  have rest: "fail_closed_enabled debug s \<or> list_all (\<lambda>(r, incr). incr (counter_key r) \<noteq> None) rs"
    using Cons.prems(2) by auto
  show ?case
  proof (cases "rate_checked s r")
    case False
    with Cons.prems(1) p have "counted s c rs" by simp
    from Cons.IH [OF this rest, of st] p False show ?thesis by (simp add: rate_limit_dispatch_def)
  next
    case checked: True
    show ?thesis
    proof (cases "incr (counter_key r)")
      case None
      with Cons.prems p checked have "fail_closed_enabled debug s" "counted s c rs" by auto
      with Cons.IH [OF this(2) rest, of st] p checked None assms(2) show ?thesis
        by (simp add: rate_limit_dispatch_def redis_check_allow_def counter_key_def ensure_def)
    next
      case (Some n)
      let ?b = "path_bucket (hq_path r)"
      have cnt: "counted s (c(counter_key r := n)) rs" and up: "c (counter_key r) < n"
        using Cons.prems(1) p checked Some by simp_all
      have ih: "int (in_minute (admitted s (map fst rs) (serve_each debug s st rs)) (bucket_key bucket ip) m)
          \<le> max 0 (limit_for_bucket s bucket - (c(counter_key r := n)) ?key)"
        by (rule Cons.IH [OF cnt rest])
      have out: "serve_each debug s st (p # rs)
          = ensure (n \<le> limit_for_bucket s ?b) (Http 429 (Request Rate_limited)) # serve_each debug s st rs"
        using p checked Some assms(2)
        by (simp add: rate_limit_dispatch_def redis_check_allow_def counter_key_def)
      show ?thesis
      proof (cases "request_key r = bucket_key bucket ip \<and> hq_at r div window = m \<and> n \<le> limit_for_bucket s ?b")
        case True
        then have b: "?b = bucket" using bucket_key_inj [OF path_bucket_in assms(4)] by (auto simp: request_key_def)
        with True have "limited_address r = ip" by (simp add: request_key_def bucket_key_def)
        with b True have key: "counter_key r = ?key" by (simp add: counter_key_def redis_key_def window_def)
        from True have "int (in_minute (admitted s (map fst (p # rs)) (serve_each debug s st (p # rs))) (bucket_key bucket ip) m)
            = 1 + int (in_minute (admitted s (map fst rs) (serve_each debug s st rs)) (bucket_key bucket ip) m)"
          unfolding out using checked p by (simp add: ensure_def)
        with ih up True b key show ?thesis by simp
      next
        case False
        then have "in_minute (admitted s (map fst (p # rs)) (serve_each debug s st (p # rs))) (bucket_key bucket ip) m
            = in_minute (admitted s (map fst rs) (serve_each debug s st rs)) (bucket_key bucket ip) m"
          unfolding out using checked p by (auto simp: ensure_def)
        moreover have "max 0 (limit_for_bucket s bucket - (c(counter_key r := n)) ?key)
            \<le> max 0 (limit_for_bucket s bucket - c ?key)" using up by auto
        ultimately show ?thesis using ih by linarith
      qed
    qed
  qed
qed simp

text \<open>Sixty seconds meet at most two minutes of the clock.\<close>

lemma window_two_minutes:
  "in_window log key t \<le> in_minute log key (t div window) + in_minute log key (t div window + 1)"
proof (induction log)
  case (Cons p log)
  obtain k x where p: "p = (k, x)" by (cases p)
  have "x div window = t div window \<or> x div window = t div window + 1" if "t \<le> x" "x < t + window"
  proof -
    have "t div window \<le> x div window" using that(1) by (simp add: zdiv_mono1 window_def)
    moreover have "x div window \<le> (t + window) div window" using that(2) by (intro zdiv_mono1) (simp_all add: window_def)
    moreover have "(t + window) div window = t div window + 1" by (simp add: window_def)
    ultimately show ?thesis by linarith
  qed
  with Cons show ?case by (auto simp: p in_window_def)
qed (simp add: in_window_def)


section \<open>Bodies, keys and the start\<close>

definition body_bytes :: "message list \<Rightarrow> int" where
  "body_bytes ms = (\<Sum>m\<leftarrow>ms. case m of BodyPart b \<Rightarrow> int (length b) | OtherMessage \<Rightarrow> 0)"

lemma body_bounded:
  "received \<le> limit \<Longrightarrow> receive_all limit received ms = (out, x) \<Longrightarrow> received + body_bytes out \<le> limit
     \<and> (x = None \<longrightarrow> out = ms)"
proof (induction ms arbitrary: received out x)
  case (Cons m ms)
  show ?case
  proof (cases "limited_receive limit received m")
    case (Inl y)
    with Cons.prems show ?thesis by (auto simp: body_bytes_def)
  next
    case (Inr p)
    then obtain n where n: "limited_receive limit received m = Inr (m, n)" "n \<le> limit"
        "n = received + body_bytes [m]"
      using Cons.prems(1) by (auto simp: limited_receive_def body_bytes_def Let_def split: message.splits if_splits)
    obtain out' where out': "receive_all limit n ms = (out', x)" "out = m # out'"
      using Cons.prems(2) n(1) by (auto simp: Let_def split: prod.splits)
    from Cons.IH [OF n(2) out'(1)] n(3) out'(2) show ?thesis by (simp add: body_bytes_def)
  qed
qed (auto simp: body_bytes_def)

text \<open>The provider is asked again for a key set only once the last one is half a minute old.\<close>

lemma keys_kept:
  assumes "fetch_jwks t fetched refresh (Some (at, ks)) = Some (ks', cache')"
    and "t - at < 30000000"
  shows "ks' = ks \<and> cache' = Some (at, ks)"
  using assms by (auto simp: fetch_jwks_def)

lemma decoded_by_listed_key:
  assumes "decode_access_token j issuer audience t fetched cache token = (Decoded c, cache')"
  shows "\<exists>ks kid k rsa. jw_key_id j token = Some kid \<and> kid \<noteq> [] \<and> (kid, k) \<in> set ks
    \<and> (map_option snd cache = Some ks \<or> fetched = Some ks)
    \<and> jw_rsa_key j k = Some rsa \<and> jw_decode j token rsa issuer audience = Some c \<and> jw_subject j c"
  using assms
  by (fastforce simp: decode_access_token_def fetch_jwks_def Let_def
      dest: map_of_SomeD split: option.splits if_splits)

lemma production_start:
  assumes "validate_security_config e s = Started issues" and "production e"
  shows "st_clamav_enabled (cfg e) \<and> (sp_local_storage s \<or> sp_secret_key s \<notin> set placeholder_secrets
    \<and> 16 \<le> length (sp_secret_key s)) \<and> (sp_strict s \<longrightarrow> \<not> sp_public_registration s \<and> sp_api_docs s \<noteq> Some True)"
  using assms
  by (auto simp: validate_security_config_def fatal_issues_def other_issues_def weak_secret_def production_def Let_def
      split: sum.splits if_splits)

section \<open>Examples\<close>

definition example_rates :: rate_settings where
  "example_rates = \<lparr>rs_enabled = True, rs_redis = False, rs_default_limit = 2, rs_search_limit = 1,
     rs_document_limit = 1, rs_fail_closed = None\<rparr>"

definition example_request :: "int \<Rightarrow> http_request" where
  "example_request t = \<lparr>hq_at = t, hq_method = ''GET'', hq_path = ''/api/cases/search'', hq_client = Some ''a''\<rparr>"

theorem limiter_is_sliding_window_witness:
  "serve False example_rates (\<lambda>_. None) \<lparr>lm_store = [], lm_cleanup = 0\<rparr> (map example_request [0, 1, 60000000])
    = [Inr (), Inl (Http 429 (Request Rate_limited)), Inr ()]"
proof -
  have "sorted (map hq_at (map example_request [0, 1, 60000000]))" by (simp add: example_request_def)
  with limiter_is_sliding_window [of example_rates "map example_request [0, 1, 60000000]" False "\<lambda>_. None" 0]
  have "serve False example_rates (\<lambda>_. None) \<lparr>lm_store = [], lm_cleanup = 0\<rparr> (map example_request [0, 1, 60000000])
      = window_serve example_rates [] (map example_request [0, 1, 60000000])"
    by (simp add: example_rates_def)
  also have "\<dots> = [Inr (), Inl (Http 429 (Request Rate_limited)), Inr ()]" by code_simp
  finally show ?thesis .
qed

definition redis_answers :: "(http_request \<times> (string \<Rightarrow> int option)) list" where
  "redis_answers = [(example_request 59999999, \<lambda>_. Some 1), (example_request 60000000, \<lambda>_. Some 1),
     (example_request 60000001, \<lambda>_. Some 2), (example_request 60000002, \<lambda>_. None)]"


end
