(* ===== verification/Spec2Isabelle.thy ===== *)
theory Spec2Isabelle
  imports SystemProofs DemoProofs CommentsProofs StorageProofs Application Dockets Intake RegisterProofs Queues Portal Maintenance CaseArchiveProofs AuditProofs GatewayProofs DeliveryProofs ParticipantProofs ServiceInstructions AdministrationProofs SignInProofs Access FeeApi FilingApiProofs OrderProofs PublicationProofs CleanupProofs Calendar Contacts Outbox Fees CaseNumbers Ledger Filing ReviewProofs PaymentProofs
begin

text \<open>
  The server of the MUEFS electronic filing portal (\<open>src/backend/app\<close>), a FastAPI application over a
  relational database and an object store: parties prepare and submit filings to Michigan courts, court
  staff review them, assess and settle fees, order filing dates, publish and withhold documents and
  deliver them to case participants. This development models its services and handlers, from the
  source, as functions on explicit states and proves what makes them correct.

  \<^bold>\<open>How the model corresponds to the code.\<close>
  The database is the record \<open>db\<close> of theory Models: one list of rows per table, one record per row with
  the columns that modelled code reads or writes (\<open>models/\<close>). The object store is an association list
  from keys to bytes. A handler or service is a function that takes the environment (clock, settings,
  fresh keys, digests and other library functions: record \<open>env\<close>, and \<open>upload_env\<close> for screening and
  storage), the state and the request, and returns a failure or the answer with the new state. An
  exception is a value of \<open>failure\<close> (theory Refusals), with the message as a constructor. A row read
  without a lock and read again under a lock is read from two states \<open>db0\<close> and \<open>db\<close>, so that whatever
  other requests commit in between is covered. Unique constraints and optimistic updates
  (\<open>UPDATE ... WHERE version = ...\<close>) are branches of the functions that insert and update.

  \<^bold>\<open>Theories and sources\<close> (paths below \<open>src/backend/app\<close>):
  \<^item> Prelude: tables, strings, JSON, calendar days, the interfaces \<open>keyed_table\<close>, \<open>journal\<close> and
    \<open>versioned_update\<close>. Models: \<open>models/\<close>, \<open>config.py\<close>. Refusals: the exceptions and their messages.
  \<^item> Accounts and access: Access (\<open>services/access_service.py\<close>), SignIn and SignInProofs (\<open>api/auth.py\<close>,
    \<open>services/user_provision_service.py\<close>, \<open>utils/http_context.py\<close>), Administration and AdministrationProofs
    (\<open>services/administration_service.py\<close>, \<open>api/admin.py\<close>), Participants and ParticipantProofs
    (\<open>services/case_participant_service.py\<close>, \<open>api/case_participants.py\<close>), Gateway and GatewayProofs
    (\<open>middleware/\<close>, \<open>utils/keycloak_jwt.py\<close>, \<open>security/startup.py\<close>).
  \<^item> Courts: Calendar (\<open>services/court_calendar_service.py\<close>), Intake (\<open>api/court_intake.py\<close>,
    \<open>api/court_calendars.py\<close>), CaseNumbers (\<open>case_numbers.py\<close>), Portal (\<open>api/courts.py\<close>,
    \<open>api/court_rules.py\<close>, \<open>api/favorites.py\<close>, \<open>api/public.py\<close>).
  \<^item> Filings: Filing (\<open>services/filing_service.py\<close>), Ledger (\<open>services/filing_record_service.py\<close>,
    \<open>services/audit_service.py\<close>), FilingApi and FilingApiProofs (\<open>api/filings.py\<close>), Review and
    ReviewProofs (\<open>services/filing_service.py\<close>, \<open>api/clerk_review.py\<close>, \<open>integrations/cms_adapter.py\<close>),
    Queues (the lists of \<open>api/filings.py\<close> and the review queue), Dockets (\<open>api/cases.py\<close>, \<open>services/search_service.py\<close>).
  \<^item> Fees and payments: Fees, FeeApi (\<open>services/fee_assessment_service.py\<close>,
    \<open>services/fee_waiver_service.py\<close>, \<open>api/fee_assessments.py\<close>),
    Payments and PaymentProofs (\<open>services/payment_service.py\<close>, \<open>api/payments.py\<close>,
    \<open>api/external_payments.py\<close>), Register and
    RegisterProofs (\<open>api/payment_register.py\<close>), Orders and OrderProofs (\<open>api/fee_waivers.py\<close>,
    \<open>api/filing_dates.py\<close>).
  \<^item> Documents: Scan (\<open>utils/malware_scan.py\<close>, \<open>utils/pdf.py\<close>), Uploads (\<open>api/document_upload.py\<close>,
    \<open>services/storage_intent.py\<close>), Storage and StorageProofs (\<open>services/document_service.py\<close>), Cleanup and
    CleanupProofs (\<open>storage_cleanup.py\<close>), Publication and PublicationProofs (\<open>api/documents.py\<close>,
    \<open>services/document_publication_service.py\<close>, \<open>api/document_publication.py\<close>).
  \<^item> Notices and deliveries: Email and Outbox (\<open>services/email_delivery_service.py\<close>,
    \<open>services/notification_service.py\<close>, \<open>api/notifications.py\<close>), Contacts and
    ServiceInstructions (\<open>services/service_contact_service.py\<close>, \<open>api/service_contacts.py\<close>), Deliveries and
    DeliveryProofs (\<open>services/service_delivery_service.py\<close>, \<open>api/service_deliveries.py\<close>).
  \<^item> Operation: StorageAudit, DeliveryAudit and AuditProofs (\<open>storage_audit.py\<close>), CaseArchive and
    CaseArchiveProofs (\<open>case_export.py\<close>), Maintenance (\<open>admin_bootstrap.py\<close>, \<open>notification_worker.py\<close>),
    DemoSessions and DemoProofs (\<open>demo/session_db.py\<close>, \<open>demo/server.py\<close>), Application (\<open>database.py\<close>,
    \<open>main.py\<close>, \<open>readiness.py\<close>, \<open>readonly_database.py\<close>).
  \<^item> The repository's comment guard, beside the server: Comments and CommentsProofs
    (\<open>src/scripts/check_comments.py\<close>).
  \<^item> The whole: System composes the handlers that write, the unit of work of a request, the notice
    worker, the cleanup and the bootstrap into one transition system.

  \<^bold>\<open>How the parts interact.\<close>
  A request passes the gateway (rate limit, body size), is signed in, and runs its handlers in one unit of
  work (\<open>session_scope\<close>) that commits the database or rolls it back and reclaims the objects it stored.
  Handlers check access, verify the stored bytes of the documents a decision rests on, change the rows
  under their versions, append a transaction to the ledger of the filing and an entry to the audit log,
  and queue notices. The notice worker and the storage cleanup empty their queues in transactions of
  their own; the audit and the export only read.

  \<^bold>\<open>What the lemmas show.\<close>
  Each component comes with the elimination lemmas of its handlers (\<open>..._Inr\<close>, \<open>..._cases\<close>: what a
  success was checked against and what it leaves), frame lemmas, and its properties: who may act, on which
  version and on which verified bytes; what exactly changes; what a refusal leaves; that lists and pages
  are complete; that printed registers and archives read back. Records changed under a version are
  interpretations of \<open>versioned_update\<close>, tables of \<open>keyed_table\<close>, the logs of \<open>journal\<close>, and the file store
  with the store in memory of \<open>store_pair\<close>, which carries the refinement of keys with bytes by files in
  directories. Outbox and PaymentProofs state invariants of their own histories. Evolution, Handlers,
  CourtHandlers, ReviewHandlers and Served show for every writing handler that it is a chain of updates
  which only append to the logs, move each filing along its life cycle and refer to no file but
  those it stored; SystemProofs lifts this to all runs, with faults of storage and of the commit.

  \<^bold>\<open>Bounds and fuel.\<close>
  The loop of a filing date looks at most 367 days ahead, as the code does, and reports an error after
  that. Files are read, sent and digested in chunks of 65536 bytes. A run of the cleanup with \<open>--once\<close>
  and of the notice worker takes fuel and is \<open>None\<close> when it does not suffice; CleanupProofs and Maintenance
  show that one more than the jobs or notices due at its start suffices. All other
  recursions are structural or have their measure proved. Integers of Python are unbounded and so are
  those of the model; the limits of columns and request schemas are checked where the code checks them.

  \<^bold>\<open>Parameters.\<close>
  Libraries and services are arguments: token decoding and the key set of the identity provider, Redis,
  the SMTP server, the ClamAV server, libmagic, the PDF reader, the bucket client, the time zone database,
  SHA-256, the zip container. What is relied on is a named hypothesis, such as \<open>fresh_keys\<close> (generated
  ids are unused) or that two different files never have the same digest where tampering is excluded.

  \<^bold>\<open>Not modelled.\<close>
  The registration of routes and the annotated parameter types (\<open>api/router.py\<close>, \<open>api/params.py\<close>) have no
  behaviour of their own. Seed data, sample documents and the schema upgrade of a sandbox
  (\<open>seed_data.py\<close>, \<open>demo/documents.py\<close>, \<open>demo/schema.py\<close>, \<open>run_demo.py\<close>), migrations (\<open>alembic/\<close>) and tests are
  data, generated SQL or process start-up. Logging, argument parsing, HTTP streaming, locks as such (only
  the two reads around them) and the endless loops of the workers with their sleeps are left out, as is
  the client in \<open>src/frontend\<close>. Columns no modelled code reads, such as the judge of a case, are left out.
\<close>

end
